(* ===== verification/Go_Prelude.thy ===== *)
theory Go_Prelude
  imports Main "HOL-Library.Word" "HOL-Library.AList" "HOL-Library.Char_ord" "HOL-Library.List_Lexorder"
begin

text \<open>
  Shared vocabulary of the development: the parts of the Go language and its standard library
  that the FabricOps sources use, written as executable functions, and the generic lemmas on
  them that every component needs.

  A Go \<open>string\<close> or \<open>[]byte\<close> is a \<^typ>\<open>string\<close> (a list of bytes). The functions on text follow
  Go on ASCII input, which is what the CRD patterns of \<^verbatim>\<open>api/v1alpha1\<close> admit. A Go map is an
  association list with distinct keys (\<open>gomap\<close>), a \<open>map[string]struct{}\<close> is a set, a
  \<open>(value, error)\<close> pair is a sum with the error on the left.
\<close>

named_theorems go_str "evaluation and rewriting rules for the Go string functions"
named_theorems validator "a validator reports nothing iff its declarative condition holds"

type_synonym bytes = string
type_synonym ('k, 'v) gomap = "('k \<times> 'v) list"

section \<open>Maps\<close>

definition go_set :: "('k, 'v) gomap \<Rightarrow> 'k \<Rightarrow> 'v \<Rightarrow> ('k, 'v) gomap" where
  "go_set m k v = AList.update k v m"

text \<open>\<open>m[k]\<close> on a missing key reads the zero value; for text values that is the empty string.\<close>

definition go_get :: "('k, string) gomap \<Rightarrow> 'k \<Rightarrow> string" where
  "go_get m k = (case map_of m k of None \<Rightarrow> [] | Some v \<Rightarrow> v)"

lemma map_of_go_set [simp]: "map_of (go_set m k v) = (map_of m)(k \<mapsto> v)"
  by (simp add: go_set_def update_conv')

lemma distinct_go_set [simp]: "distinct (map fst m) \<Longrightarrow> distinct (map fst (go_set m k v))"
  by (simp add: go_set_def distinct_update)

lemma go_get_go_set [simp]: "go_get (go_set m k v) k' = (if k' = k then v else go_get m k')"
  by (simp add: go_get_def)

lemma go_get_empty [simp]: "go_get [] k = []"
  by (simp add: go_get_def)

section \<open>Text\<close>

definition is_space :: "char \<Rightarrow> bool" where
  "is_space c \<longleftrightarrow> c \<in> {CHR 0x09, CHR 0x0A, CHR 0x0B, CHR 0x0C, CHR 0x0D, CHR 0x20}"

definition trim_left :: "(char \<Rightarrow> bool) \<Rightarrow> string \<Rightarrow> string" where
  "trim_left P s = dropWhile P s"

definition trim_right :: "(char \<Rightarrow> bool) \<Rightarrow> string \<Rightarrow> string" where
  "trim_right P s = rev (dropWhile P (rev s))"

definition trimSpace :: "string \<Rightarrow> string" where
  "trimSpace s = trim_right is_space (trim_left is_space s)"

definition lower_char :: "char \<Rightarrow> char" where
  "lower_char c = (if 65 \<le> (of_char c :: nat) \<and> (of_char c :: nat) \<le> 90
                   then char_of ((of_char c :: nat) + 32) else c)"

definition toLower :: "string \<Rightarrow> string" where
  "toLower s = map lower_char s"

definition is_alnum_lower :: "char \<Rightarrow> bool" where
  "is_alnum_lower c \<longleftrightarrow>
     (97 \<le> (of_char c :: nat) \<and> (of_char c :: nat) \<le> 122) \<or>
     (48 \<le> (of_char c :: nat) \<and> (of_char c :: nat) \<le> 57)"

definition hasPrefix :: "string \<Rightarrow> string \<Rightarrow> bool" where
  "hasPrefix s p \<longleftrightarrow> take (length p) s = p"

definition trimPrefix :: "string \<Rightarrow> string \<Rightarrow> string" where
  "trimPrefix s p = (if hasPrefix s p then drop (length p) s else s)"

definition trimSuffix :: "string \<Rightarrow> string \<Rightarrow> string" where
  "trimSuffix s p = (if hasPrefix (rev s) (rev p) then take (length s - length p) s else s)"

fun joinWith :: "string \<Rightarrow> string list \<Rightarrow> string" where
  "joinWith sep [] = []"
| "joinWith sep [x] = x"
| "joinWith sep (x # y # xs) = x @ sep @ joinWith sep (y # xs)"

text \<open>\<open>strings.SplitN(s, c, 2)\<close> for a one-byte separator.\<close>

definition splitN2 :: "string \<Rightarrow> char \<Rightarrow> string list" where
  "splitN2 s c = (if c \<in> set s
     then [takeWhile (\<lambda>x. x \<noteq> c) s, tl (dropWhile (\<lambda>x. x \<noteq> c) s)] else [s])"

lemma trimSpace_Nil [simp]: "trimSpace [] = []"
  by (simp add: trimSpace_def trim_left_def trim_right_def)

lemma set_trim_right: "set (trim_right P s) \<subseteq> set s"
  by (auto simp: trim_right_def dest: set_dropWhileD)

lemma set_trimSpace: "set (trimSpace s) \<subseteq> set s"
  using set_trim_right by (fastforce simp: trimSpace_def trim_left_def dest: set_dropWhileD)

lemma trim_right_snoc: "trim_right P (xs @ [x]) = (if P x then trim_right P xs else xs @ [x])"
  by (simp add: trim_right_def)

lemma trim_right_prefix: "\<exists>ys. s = trim_right P s @ ys \<and> (\<forall>y \<in> set ys. P y)"
proof (intro exI conjI)
  have "rev (takeWhile P (rev s) @ dropWhile P (rev s)) = s"
    by (simp only: takeWhile_dropWhile_id rev_rev_ident)
  then show "s = trim_right P s @ rev (takeWhile P (rev s))"
    by (simp only: trim_right_def rev_append)
  show "\<forall>y \<in> set (rev (takeWhile P (rev s))). P y" by (auto dest: set_takeWhileD)
qed

lemma trim_right_last: "trim_right P s \<noteq> [] \<Longrightarrow> \<not> P (last (trim_right P s))"
  by (metis hd_dropWhile last_rev rev_is_Nil_conv trim_right_def)

lemma trim_right_id: "s = [] \<or> \<not> P (last s) \<Longrightarrow> trim_right P s = s"
  by (cases s rule: rev_cases) (auto simp: trim_right_def)

lemma trim_left_id: "s = [] \<or> \<not> P (hd s) \<Longrightarrow> trim_left P s = s"
  by (cases s) (auto simp: trim_left_def)

lemma trim_left_hd: "trim_left P s \<noteq> [] \<Longrightarrow> \<not> P (hd (trim_left P s))"
  by (simp add: trim_left_def hd_dropWhile)

lemma trim_right_hd: "trim_right P s \<noteq> [] \<Longrightarrow> hd (trim_right P s) = hd s"
  using trim_right_prefix [of s P] by (metis hd_append2)

lemma trimSpace_id: "s = [] \<or> \<not> is_space (hd s) \<and> \<not> is_space (last s) \<Longrightarrow> trimSpace s = s"
  by (auto simp: trimSpace_def trim_left_id trim_right_id)

lemma trimSpace_idem [simp]: "trimSpace (trimSpace s) = trimSpace s"
proof (rule trimSpace_id)
  let ?l = "trim_left is_space s"
  show "trimSpace s = [] \<or> \<not> is_space (hd (trimSpace s)) \<and> \<not> is_space (last (trimSpace s))"
  proof (cases "trimSpace s = []")
    case False
    then have r: "trim_right is_space ?l \<noteq> []" by (simp add: trimSpace_def)
    then have "?l \<noteq> []" by (auto simp: trim_right_def)
    with r show ?thesis
      by (simp add: trimSpace_def trim_right_hd trim_left_hd trim_right_last)
  qed simp
qed

lemma lower_char_alnum [simp]: "is_alnum_lower c \<Longrightarrow> lower_char c = c"
  by (auto simp: lower_char_def is_alnum_lower_def)

lemma is_alnum_lower_not_space: "is_alnum_lower c \<Longrightarrow> \<not> is_space c"
  by (auto simp: is_alnum_lower_def is_space_def)

lemma is_alnum_lower_not_dash: "is_alnum_lower c \<Longrightarrow> c \<noteq> CHR ''-''"
  by (auto simp: is_alnum_lower_def)

lemma lower_char_dash [simp]: "lower_char CHR ''-'' = CHR ''-''"
  by (simp add: lower_char_def)

lemma toLower_append [simp]: "toLower (a @ b) = toLower a @ toLower b"
  by (simp add: toLower_def)

lemma length_toLower [simp]: "length (toLower s) = length s"
  by (simp add: toLower_def)

lemma lower_char_idem [simp]: "lower_char (lower_char c) = lower_char c"
  by (auto simp: lower_char_def)

lemma toLower_idem [simp]: "toLower (toLower s) = toLower s"
  by (simp add: toLower_def)

section \<open>Numbers and quoting\<close>

definition digit_char :: "nat \<Rightarrow> char" where
  "digit_char d = char_of (48 + d)"

fun itoa_nat :: "nat \<Rightarrow> string" where
  "itoa_nat n = (if n < 10 then [digit_char n] else itoa_nat (n div 10) @ [digit_char (n mod 10)])"

declare itoa_nat.simps [simp del]

definition itoa :: "int \<Rightarrow> string" where
  "itoa i = (if i < 0 then CHR ''-'' # itoa_nat (nat (- i)) else itoa_nat (nat i))"

text \<open>The value of a decimal text, and \<open>strconv.Atoi\<close>/\<open>ParseUint\<close> with their 64-bit ranges.\<close>

definition is_digit :: "char \<Rightarrow> bool" where
  "is_digit c \<longleftrightarrow> 48 \<le> (of_char c :: nat) \<and> (of_char c :: nat) \<le> 57"

definition digit_val :: "char \<Rightarrow> nat" where
  "digit_val c = (of_char c :: nat) - 48"

definition decimal :: "string \<Rightarrow> nat option" where
  "decimal s = (if s \<noteq> [] \<and> list_all is_digit s
     then Some (foldl (\<lambda>n c. 10 * n + digit_val c) 0 s) else None)"

definition parseUint :: "nat \<Rightarrow> string \<Rightarrow> nat option" where
  "parseUint w s = (case decimal s of None \<Rightarrow> None | Some n \<Rightarrow> if n < 2 ^ w then Some n else None)"

definition atoi :: "string \<Rightarrow> int option" where
  "atoi s = (case s of
       c # cs \<Rightarrow>
         (if c = CHR ''-'' then
            (case decimal cs of Some n \<Rightarrow> if n \<le> 2 ^ 63 then Some (- int n) else None | None \<Rightarrow> None)
          else (case decimal (if c = CHR ''+'' then cs else s) of
                  Some n \<Rightarrow> if n < 2 ^ 63 then Some (int n) else None | None \<Rightarrow> None))
     | [] \<Rightarrow> None)"

text \<open>Conversion to \<open>int32\<close> keeps the low 32 bits as a two's complement value.\<close>

definition int32_of :: "int \<Rightarrow> int" where
  "int32_of i = (i + 2 ^ 31) mod 2 ^ 32 - 2 ^ 31"

text \<open>Code equations over integers: evaluation in the kernel counts naturals in unary.\<close>

function itoa_int :: "int \<Rightarrow> string" where
  "itoa_int i = (if i < 10 then [digit_char (nat i)] else itoa_int (i div 10) @ [digit_char (nat (i mod 10))])"
  by auto
termination by (relation "measure nat") auto

declare itoa_int.simps [simp del]

lemma itoa_nat_int: "0 \<le> i \<Longrightarrow> itoa_nat (nat i) = itoa_int i"
proof (induction i rule: itoa_int.induct)
  case (1 i)
  then show ?case by (subst itoa_nat.simps, subst itoa_int.simps) (auto simp: nat_div_distrib nat_mod_distrib)
qed

lemma itoa_code [code]: "itoa i = (if i < 0 then CHR ''-'' # itoa_int (- i) else itoa_int i)"
  by (simp add: itoa_def itoa_nat_int)

lemma int_bound: "(n < 2 ^ 63) = (int n < 2 ^ 63)" "(n \<le> 2 ^ 63) = (int n \<le> 2 ^ 63)"
  by (simp_all flip: of_nat_less_iff of_nat_le_iff)

lemma atoi_code [code]:
  "atoi s = (case s of
       c # cs \<Rightarrow>
         (if c = CHR ''-'' then
            (case decimal cs of Some n \<Rightarrow> if int n \<le> 2 ^ 63 then Some (- int n) else None | None \<Rightarrow> None)
          else (case decimal (if c = CHR ''+'' then cs else s) of
                  Some n \<Rightarrow> if int n < 2 ^ 63 then Some (int n) else None | None \<Rightarrow> None))
     | [] \<Rightarrow> None)"
  unfolding atoi_def int_bound ..

lemma int32_of_id: "- (2 ^ 31) \<le> i \<Longrightarrow> i < 2 ^ 31 \<Longrightarrow> int32_of i = i"
  by (simp add: int32_of_def)

lemma int32_of_range: "- (2 ^ 31) \<le> int32_of i \<and> int32_of i < 2 ^ 31"
  by (simp add: int32_of_def)

definition hex_digit :: "nat \<Rightarrow> char" where
  "hex_digit d = (if d < 10 then char_of (48 + d) else char_of (87 + d))"

definition hex_byte :: "char \<Rightarrow> string" where
  "hex_byte c = [hex_digit ((of_char c :: nat) div 16), hex_digit ((of_char c :: nat) mod 16)]"

definition hex_encode :: "bytes \<Rightarrow> string" where
  "hex_encode b = concat (map hex_byte b)"

lemma length_hex_encode [simp]: "length (hex_encode b) = 2 * length b"
  by (induction b) (simp_all add: hex_encode_def hex_byte_def)

text \<open>\<open>fmt\<close>'s \<^verbatim>\<open>%q\<close> verb on ASCII text.\<close>

definition quote_char :: "char \<Rightarrow> string" where
  "quote_char c =
     (if c = CHR 0x22 \<or> c = CHR 0x5C then [CHR 0x5C, c]
      else if c = CHR 0x07 then [CHR 0x5C, CHR ''a'']
      else if c = CHR 0x08 then [CHR 0x5C, CHR ''b'']
      else if c = CHR 0x0C then [CHR 0x5C, CHR ''f'']
      else if c = CHR 0x0A then [CHR 0x5C, CHR ''n'']
      else if c = CHR 0x0D then [CHR 0x5C, CHR ''r'']
      else if c = CHR 0x09 then [CHR 0x5C, CHR ''t'']
      else if c = CHR 0x0B then [CHR 0x5C, CHR ''v'']
      else if (of_char c :: nat) < 32 \<or> c = CHR 0x7F then [CHR 0x5C, CHR ''x''] @ hex_byte c
      else [c])"

definition goquote :: "string \<Rightarrow> string" where
  "goquote s = [CHR 0x22] @ concat (map quote_char s) @ [CHR 0x22]"

lemma of_char_digit: "d < 10 \<Longrightarrow> (of_char (digit_char d) :: nat) = 48 + d"
  by (simp add: digit_char_def)

lemma digit_char_alnum: "d < 10 \<Longrightarrow> is_alnum_lower (digit_char d)"
  by (simp add: is_alnum_lower_def of_char_digit)

lemma digit_val_digit_char [simp]: "d < 10 \<Longrightarrow> digit_val (digit_char d) = d"
  by (simp add: digit_val_def of_char_digit)

lemma is_digit_digit_char [simp]: "d < 10 \<Longrightarrow> is_digit (digit_char d)"
  by (simp add: is_digit_def of_char_digit)

lemma itoa_nat_nonempty [simp]: "itoa_nat n \<noteq> []"
  by (subst itoa_nat.simps) simp

lemma itoa_nat_digits: "list_all is_digit (itoa_nat n)"
proof (induction n rule: itoa_nat.induct)
  case (1 n)
  then show ?case by (subst itoa_nat.simps) simp
qed

lemma itoa_nat_alnum: "c \<in> set (itoa_nat n) \<Longrightarrow> is_alnum_lower c"
  using itoa_nat_digits [of n] by (auto simp: list_all_iff is_digit_def is_alnum_lower_def)

text \<open>Printing and reading back is the identity, so decimal texts of distinct numbers differ.\<close>

lemma decimal_itoa_nat [simp]: "decimal (itoa_nat n) = Some n"
proof -
  have "foldl (\<lambda>n c. 10 * n + digit_val c) 0 (itoa_nat n) = n"
  proof (induction n rule: itoa_nat.induct)
    case (1 n)
    then show ?case by (subst itoa_nat.simps) simp
  qed
  then show ?thesis by (simp add: decimal_def itoa_nat_digits)
qed

lemma itoa_nat_inj: "itoa_nat m = itoa_nat n \<longleftrightarrow> m = n"
  by (metis decimal_itoa_nat option.inject)

lemma length_itoa_nat: "n < 10 ^ Suc k \<Longrightarrow> length (itoa_nat n) \<le> Suc k"
proof (induction k arbitrary: n)
  case 0
  then show ?case by (subst itoa_nat.simps) simp
next
  case (Suc k)
  show ?case
  proof (cases "n < 10")
    case False
    with Suc.prems have "n div 10 < 10 ^ Suc k"
      by (simp add: less_mult_imp_div_less mult.commute)
    with Suc.IH False show ?thesis by (subst itoa_nat.simps) simp
  qed (subst itoa_nat.simps, simp)
qed

section \<open>Host and port\<close>

definition last_index :: "char \<Rightarrow> string \<Rightarrow> nat option" where
  "last_index c s = (if c \<in> set s
     then Some (length s - 1 - length (takeWhile (\<lambda>x. x \<noteq> c) (rev s))) else None)"

definition first_index :: "char \<Rightarrow> string \<Rightarrow> nat option" where
  "first_index c s = (if c \<in> set s then Some (length (takeWhile (\<lambda>x. x \<noteq> c) s)) else None)"

definition addr_error :: "string \<Rightarrow> string \<Rightarrow> string" where
  "addr_error addr why = (if addr = [] then why else ''address '' @ addr @ '': '' @ why)"

text \<open>\<open>net.SplitHostPort\<close>, with the three bracket checks in its order.\<close>

definition splitHostPort :: "string \<Rightarrow> string + (string \<times> string)" where
  "splitHostPort hp =
     (case last_index CHR '':'' hp of
        None \<Rightarrow> Inl (addr_error hp ''missing port in address'')
      | Some i \<Rightarrow>
          (let finish = (\<lambda>host j k.
             if CHR ''['' \<in> set (drop j hp) then Inl (addr_error hp (''unexpected '' @ [CHR 0x27, CHR ''['', CHR 0x27] @ '' in address''))
             else if CHR '']'' \<in> set (drop k hp) then Inl (addr_error hp (''unexpected '' @ [CHR 0x27, CHR '']'', CHR 0x27] @ '' in address''))
             else Inr (host, drop (Suc i) hp))
           in if hd hp = CHR ''['' then
                (case first_index CHR '']'' hp of
                   None \<Rightarrow> Inl (addr_error hp (''missing '' @ [CHR 0x27, CHR '']'', CHR 0x27] @ '' in address''))
                 | Some e \<Rightarrow>
                     if e + 1 = length hp then Inl (addr_error hp ''missing port in address'')
                     else if e + 1 = i then finish (drop 1 (take e hp)) 1 (e + 1)
                     else if hp ! (e + 1) = CHR '':'' then Inl (addr_error hp ''too many colons in address'')
                     else Inl (addr_error hp ''missing port in address''))
              else if CHR '':'' \<in> set (take i hp) then Inl (addr_error hp ''too many colons in address'')
              else finish (take i hp) 0 0))"

definition joinHostPort :: "string \<Rightarrow> string \<Rightarrow> string" where
  "joinHostPort host port =
     (if CHR '':'' \<in> set host then ''['' @ host @ '']:'' @ port else host @ '':'' @ port)"

text \<open>Order-preserving removal of duplicates and \<open>slices.Sort\<close> come from the library.\<close>

lemma all_nth_append_last:
  "(\<forall>i < length (xs @ [x]). P ((xs @ [x]) ! i)) \<longleftrightarrow> (\<forall>i < length xs. P (xs ! i)) \<and> P x"
  by (auto simp: nth_append less_Suc_eq)

end
