(* ===== verification/Api_Types.thy ===== *)
theory Api_Types
  imports Go_Prelude
begin

text \<open>
  The \<open>FabricNetwork\<close> custom resource of \<^verbatim>\<open>api/v1alpha1/fabricnetwork_types.go\<close>: one record per
  struct, in the order of the file, and one datatype per string enumeration. A Go pointer is an
  option, a slice a list, \<open>int\<close>, \<open>int32\<close> and \<open>int64\<close> fields are \<^typ>\<open>int\<close>. Field names carry a
  prefix for their struct because the fields of HOL records share one name space.
\<close>

type_synonym gotime = int \<comment> \<open>nanoseconds since the epoch\<close>

section \<open>Specification\<close>

record FabricImageConfig =
  img_FabricTools :: string

record JobCleanupConfig =
  jobs_SucceededHistoryTTLSeconds :: "int option"

record ComponentStorageConfig =
  st_Size :: string
  st_StorageClassName :: "string option"

record StorageConfig =
  st_CA :: "ComponentStorageConfig option"
  st_Orderer :: "ComponentStorageConfig option"
  st_Peer :: "ComponentStorageConfig option"

record ServiceMonitorConfig =
  sm_Enabled :: bool
  sm_Interval :: string
  sm_ScrapeTimeout :: string
  sm_Labels :: "(string, string) gomap"

record ObservabilityConfig =
  obs_ServiceMonitor :: "ServiceMonitorConfig option"

record NetworkPolicyConfig =
  np_Enabled :: bool

record GlobalConfig =
  gl_FabricVersion :: string
  gl_TLS :: bool
  gl_Images :: "FabricImageConfig option"
  gl_Jobs :: "JobCleanupConfig option"
  gl_Storage :: "StorageConfig option"
  gl_Observability :: "ObservabilityConfig option"
  gl_NetworkPolicy :: "NetworkPolicyConfig option"

record OrgMeta =
  om_Name :: string
  om_Domain :: string
  om_MSPName :: string

record CARegistrarRotationSpec =
  rot_RequestID :: string

record CARegistrarConfig =
  reg_Rotation :: "CARegistrarRotationSpec option"

record CAConfig =
  ca_DB :: string
  ca_Registrar :: "CARegistrarConfig option"

datatype CARegistrarRotationPhase =
    RotationPhaseUnset
  | RotationPhaseIdle
  | RotationPhaseWaitingForCA
  | RotationPhaseStaging
  | RotationPhaseRotating
  | RotationPhaseReady
  | RotationPhaseFailed

record CARegistrarRotationStatus =
  rs_ObservedRequestID :: string
  rs_Phase :: CARegistrarRotationPhase
  rs_ActiveSecretName :: string
  rs_ActiveUsername :: string
  rs_PreviousSecretName :: string
  rs_StagedSecretName :: string
  rs_RotationJobName :: string
  rs_LastRotationTime :: "gotime option"
  rs_Message :: string

record ExternalEndpoint =
  ee_Name :: string
  ee_Address :: string
  ee_TLSHosts :: "string list"
  ee_TLSHostnameOverride :: string

record OrdererGroup =
  og_GroupName :: string
  og_Type :: string
  og_Instances :: int
  og_Prefix :: string
  og_ExternalEndpoints :: "ExternalEndpoint list"

record PeerConfig =
  pc_Instances :: int
  pc_DB :: string
  pc_Prefix :: string
  pc_ExternalEndpoints :: "ExternalEndpoint list"

record Org =
  org_Organization :: OrgMeta
  org_CA :: CAConfig
  org_Orderers :: "OrdererGroup list"
  org_Peer :: "PeerConfig option"

text \<open>The two selectors of \<open>k8s.io/api/core/v1\<close> have the same two relevant fields.\<close>

record KeySelector =
  ks_Name :: string
  ks_Key :: string

record ChannelArtifactKeyRef =
  ref_ConfigMapKeyRef :: "KeySelector option"
  ref_SecretKeyRef :: "KeySelector option"

record ChannelOrdererRef =
  or_Org :: string
  or_Name :: string

record ChannelExternalAnchorPeer =
  ap_Host :: string
  ap_Port :: int

record ChannelRaftUpdate =
  ru_OperationID :: string
  ru_AdminOrg :: string
  ru_Orderer :: ChannelOrdererRef
  ru_PlanRef :: ChannelArtifactKeyRef
  ru_SignedUpdateRef :: "ChannelArtifactKeyRef option"

record ChannelOrg =
  co_Name :: string
  co_Peers :: "string list"
  co_SignedUpdateRef :: "ChannelArtifactKeyRef option"

datatype ChannelExternalOrgState =
    ChannelExternalOrgUnset
  | ChannelExternalOrgPresent
  | ChannelExternalOrgAbsent

record ChannelExternalOrg =
  eo_Name :: string
  eo_MSPID :: string
  eo_State :: ChannelExternalOrgState
  eo_OperationID :: string
  eo_ApplicationOrgRef :: ChannelArtifactKeyRef
  eo_AdminOrg :: string
  eo_RequiredSignerMSPIDs :: "string list"
  eo_SignedUpdateRef :: "ChannelArtifactKeyRef option"
  eo_Orderer :: "ChannelOrdererRef option"
  eo_AnchorPeers :: "ChannelExternalAnchorPeer list"

record Channel =
  ch_Name :: string
  ch_Orgs :: "ChannelOrg list"
  ch_ExternalOrgs :: "ChannelExternalOrg list"
  ch_RaftUpdate :: "ChannelRaftUpdate option"

record CouchDBIndex =
  ix_Name :: string
  ix_Fields :: "string list"
  ix_DesignDocument :: string
  ix_Collection :: string

record PrivateDataEndorsementPolicy =
  pe_SignaturePolicy :: string
  pe_ChannelConfigPolicy :: string

record PrivateDataCollection =
  pd_Name :: string
  pd_OrgNames :: "string list"
  pd_Policy :: string
  pd_RequiredPeerCount :: "int option"
  pd_MaxPeerCount :: "int option"
  pd_BlockToLive :: "int option"
  pd_MemberOnlyRead :: "bool option"
  pd_MemberOnlyWrite :: "bool option"
  pd_EndorsementPolicy :: "PrivateDataEndorsementPolicy option"

text \<open>The source of an environment entry: a literal value, a key of a Secret or ConfigMap, a field of the pod
  or of a container's resources. Resource requirements are those for CPU and memory.\<close>

datatype EnvSource =
    EnvValue string
  | EnvSecretKey string string
  | EnvField string
  | EnvConfigMapKey string string
  | EnvResourceField string string

record ResourceRequirements =
  rq_RequestCPU :: string
  rq_RequestMemory :: string
  rq_LimitCPU :: string
  rq_LimitMemory :: string

record ChaincodeAsAService =
  cc_Replicas :: int
  cc_ContainerPort :: int
  cc_ServicePort :: int
  cc_DialTimeout :: string
  cc_ImagePullPolicy :: string
  cc_Env :: "(string \<times> EnvSource) list"
  cc_Resources :: "ResourceRequirements option"

record Chaincode =
  cd_Name :: string
  cd_Version :: string
  cd_Channel :: string
  cd_Image :: string
  cd_Sequence :: int
  cd_PackageLabel :: string
  cd_EndorsementPolicy :: string
  cd_InitRequired :: bool
  cd_PrivateData :: "PrivateDataCollection list"
  cd_CouchDBIndexes :: "CouchDBIndex list"
  cd_CCAAS :: "ChaincodeAsAService option"

record FabricNetworkSpec =
  sp_Global :: GlobalConfig
  sp_Orgs :: "Org list"
  sp_Channels :: "Channel list"
  sp_Chaincodes :: "Chaincode list"

section \<open>Status\<close>

record WorkloadStatus =
  ws_Desired :: int
  ws_Ready :: int

record OrdererEndpointStatus =
  oe_Name :: string
  oe_Namespace :: string
  oe_ClientAddress :: string
  oe_TLSHostnameOverride :: string
  oe_AdminAddress :: string
  oe_OperationsAddress :: string

record PeerEndpointStatus =
  pe_Name :: string
  pe_Address :: string
  pe_TLSHostnameOverride :: string
  pe_ChaincodeAddress :: string
  pe_OperationsAddress :: string
  pe_Database :: string

datatype CertificateState =
    CertificateStateUnset
  | CertificateStateValid
  | CertificateStateRenewalDue
  | CertificateStateRenewing
  | CertificateStateRenewalFailed
  | CertificateStateExpired
  | CertificateStateMissing
  | CertificateStateInvalid

record CertificateStatus =
  cs_Name :: string
  cs_Namespace :: string
  cs_SecretName :: string
  cs_SecretKind :: string
  cs_Key :: string
  cs_Component :: string
  cs_WorkloadName :: string
  cs_Renewable :: bool
  cs_State :: CertificateState
  cs_Subject :: string
  cs_Issuer :: string
  cs_NotBefore :: "gotime option"
  cs_NotAfter :: "gotime option"
  cs_RenewalTime :: "gotime option"
  cs_RenewalJobName :: string
  cs_Message :: string

record OrgStatus =
  os_Name :: string
  os_Namespace :: string
  os_IdentityReady :: bool
  os_IdentityError :: string
  os_CAReady :: bool
  os_CAEndpoint :: string
  os_OrdererEndpoints :: "OrdererEndpointStatus list"
  os_Orderers :: WorkloadStatus
  os_OrderersReady :: bool
  os_PeerEndpoints :: "PeerEndpointStatus list"
  os_Peers :: WorkloadStatus
  os_PeersReady :: bool
  os_ConnectionProfileConfigMapName :: string
  os_Certificates :: "CertificateStatus list"
  os_CertificateRenewalRequired :: bool
  os_CertificateRenewalError :: string
  os_CARegistrarRotation :: CARegistrarRotationStatus
  os_Ready :: bool

datatype ChannelConfigUpdatePhase =
    ChannelConfigUpdateUnset
  | ChannelConfigUpdatePending
  | ChannelConfigUpdateStaged
  | ChannelConfigUpdatePendingSignatures
  | ChannelConfigUpdateSubmitted
  | ChannelConfigUpdateAlreadyApplied
  | ChannelConfigUpdateFailed

record ChannelOrgStatus =
  cos_Name :: string
  cos_Namespace :: string
  cos_MSPName :: string
  cos_PeerNames :: "string list"
  cos_Peers :: WorkloadStatus
  cos_Ready :: bool
  cos_Message :: string

record ChannelRaftUpdateStatus =
  rus_OperationID :: string
  rus_Namespace :: string
  rus_AdminOrg :: string
  rus_Orderer :: string
  rus_Phase :: ChannelConfigUpdatePhase
  rus_Action :: string
  rus_ConfigSequence :: string
  rus_PlanHash :: string
  rus_ArtifactConfigMapName :: string
  rus_UpdateJobName :: string
  rus_Ready :: bool
  rus_Message :: string

record ChannelExternalOrgStatus =
  eos_Name :: string
  eos_MSPID :: string
  eos_DesiredState :: ChannelExternalOrgState
  eos_OperationID :: string
  eos_Phase :: ChannelConfigUpdatePhase
  eos_ApplicationOrgConfigMapName :: string
  eos_ArtifactConfigMapName :: string
  eos_UpdateJobName :: string
  eos_AdminOrg :: string
  eos_Orderer :: string
  eos_RequiredSignerMSPIDs :: "string list"
  eos_AnchorPeers :: "ChannelExternalAnchorPeer list"
  eos_Ready :: bool
  eos_Message :: string

record ChannelStatus =
  chs_Name :: string
  chs_ConfigMapName :: string
  chs_BlockConfigMapName :: string
  chs_ConfigReady :: bool
  chs_BlockReady :: bool
  chs_Orderers :: WorkloadStatus
  chs_Peers :: WorkloadStatus
  chs_Orgs :: "ChannelOrgStatus list"
  chs_ExternalOrgs :: "ChannelExternalOrgStatus list"
  chs_RaftUpdate :: "ChannelRaftUpdateStatus option"
  chs_Ready :: bool
  chs_Message :: string

record ChaincodeTargetStatus =
  ct_OrgName :: string
  ct_Namespace :: string
  ct_PeerName :: string
  ct_WorkloadName :: string
  ct_Workload :: WorkloadStatus
  ct_WorkloadReady :: bool
  ct_ServiceName :: string
  ct_Address :: string
  ct_PackageConfigMapName :: string
  ct_PackageIDConfigMapName :: string
  ct_InstallJobName :: string
  ct_ApproveJobName :: string
  ct_PackageMetadataReady :: bool
  ct_PackageID :: string
  ct_ChaincodeID :: string
  ct_Installed :: bool
  ct_Approved :: bool
  ct_Message :: string

record ChaincodeStatus =
  ccs_Name :: string
  ccs_Channel :: string
  ccs_Version :: string
  ccs_PackageLabel :: string
  ccs_Sequence :: int
  ccs_CollectionConfigMap :: string
  ccs_CollectionConfigHash :: string
  ccs_PackageMetadata :: WorkloadStatus
  ccs_PackageMetadataReady :: bool
  ccs_Installed :: WorkloadStatus
  ccs_InstalledReady :: bool
  ccs_Workloads :: WorkloadStatus
  ccs_WorkloadsReady :: bool
  ccs_Approved :: WorkloadStatus
  ccs_ApprovedReady :: bool
  ccs_CommitJobName :: string
  ccs_CommitResultNamespace :: string
  ccs_CommitResultConfigMapName :: string
  ccs_Committed :: bool
  ccs_Ready :: bool
  ccs_Targets :: "ChaincodeTargetStatus list"
  ccs_Message :: string

datatype Phase = PhaseUnset | PhasePending | PhaseCreating | PhaseReady | PhaseFailed

datatype ConditionStatus = ConditionTrue | ConditionFalse | ConditionUnknown

record Condition =
  cn_Type :: string
  cn_Status :: ConditionStatus
  cn_Reason :: string
  cn_Message :: string
  cn_ObservedGeneration :: int
  cn_LastTransitionTime :: gotime

record FabricNetworkStatus =
  fs_Phase :: Phase
  fs_Message :: string
  fs_OrgStatus :: "OrgStatus list"
  fs_ChannelStatus :: "ChannelStatus list"
  fs_ChaincodeStatus :: "ChaincodeStatus list"
  fs_Conditions :: "Condition list"

record FabricNetwork =
  fn_Name :: string
  fn_Namespace :: string
  fn_UID :: string
  fn_Generation :: int
  fn_Finalizers :: "string list"
  fn_DeletionTimestamp :: "gotime option"
  fn_Spec :: FabricNetworkSpec
  fn_Status :: FabricNetworkStatus

section \<open>Renderings and zero values\<close>

text \<open>The text of an enumeration value, as \<^verbatim>\<open>%s\<close> prints it.\<close>

fun rotationPhaseText :: "CARegistrarRotationPhase \<Rightarrow> string" where
  "rotationPhaseText RotationPhaseUnset = ''''"
| "rotationPhaseText RotationPhaseIdle = ''Idle''"
| "rotationPhaseText RotationPhaseWaitingForCA = ''WaitingForCA''"
| "rotationPhaseText RotationPhaseStaging = ''Staging''"
| "rotationPhaseText RotationPhaseRotating = ''Rotating''"
| "rotationPhaseText RotationPhaseReady = ''Ready''"
| "rotationPhaseText RotationPhaseFailed = ''Failed''"

fun certificateStateText :: "CertificateState \<Rightarrow> string" where
  "certificateStateText CertificateStateUnset = ''''"
| "certificateStateText CertificateStateValid = ''Valid''"
| "certificateStateText CertificateStateRenewalDue = ''RenewalDue''"
| "certificateStateText CertificateStateRenewing = ''Renewing''"
| "certificateStateText CertificateStateRenewalFailed = ''RenewalFailed''"
| "certificateStateText CertificateStateExpired = ''Expired''"
| "certificateStateText CertificateStateMissing = ''Missing''"
| "certificateStateText CertificateStateInvalid = ''Invalid''"

definition zeroWorkloadStatus :: WorkloadStatus where
  "zeroWorkloadStatus = \<lparr>ws_Desired = 0, ws_Ready = 0\<rparr>"

definition zeroRotationStatus :: CARegistrarRotationStatus where
  "zeroRotationStatus = \<lparr>rs_ObservedRequestID = '''', rs_Phase = RotationPhaseUnset,
     rs_ActiveSecretName = '''', rs_ActiveUsername = '''', rs_PreviousSecretName = '''',
     rs_StagedSecretName = '''', rs_RotationJobName = '''', rs_LastRotationTime = None,
     rs_Message = ''''\<rparr>"

definition zeroOrgStatus :: OrgStatus where
  "zeroOrgStatus = \<lparr>os_Name = '''', os_Namespace = '''', os_IdentityReady = False,
     os_IdentityError = '''', os_CAReady = False, os_CAEndpoint = '''', os_OrdererEndpoints = [],
     os_Orderers = zeroWorkloadStatus, os_OrderersReady = False, os_PeerEndpoints = [],
     os_Peers = zeroWorkloadStatus, os_PeersReady = False,
     os_ConnectionProfileConfigMapName = '''', os_Certificates = [],
     os_CertificateRenewalRequired = False, os_CertificateRenewalError = '''',
     os_CARegistrarRotation = zeroRotationStatus, os_Ready = False\<rparr>"

end
