(* ===== verification/Crypto_Env.thy ===== *)
theory Crypto_Env
  imports Api_Types
begin

text \<open>
  The cryptographic and network primitives the sources call but do not implement, as one record of
  functions that every definition using them takes as an argument: PEM and X.509 decoding, private
  key parsing, SHA-256, base64, IP literals and the Kubernetes DNS-1123 checks. The theorems name
  what they rely on as hypotheses: a SHA-256 sum has 32 bytes, and base64 decoding inverts
  encoding.
\<close>

record X509Certificate =
  x_IsCA :: bool
  x_Raw :: bytes
  x_Subject :: string
  x_Issuer :: string
  x_NotBefore :: gotime
  x_NotAfter :: gotime
  x_ExtKeyUsage :: "string list"

record Crypto =
  pem_Decode :: "bytes \<Rightarrow> (string \<times> bytes \<times> bytes) option" \<comment> \<open>block type, block bytes, rest\<close>
  x509_ParseCertificate :: "bytes \<Rightarrow> string + X509Certificate"
  x509_ParsePrivateKey :: "string \<Rightarrow> bytes \<Rightarrow> string + unit" \<comment> \<open>parser selected by the block type\<close>
  sha256_Sum256 :: "bytes \<Rightarrow> bytes"
  base64_Encode :: "bytes \<Rightarrow> string"
  base64_Decode :: "string \<Rightarrow> bytes option"
  net_ParseIP :: "string \<Rightarrow> bool"
  isDNS1123Subdomain :: "string \<Rightarrow> bool"
  isDNS1123Label :: "string \<Rightarrow> bool"

definition sha256_len32 :: "Crypto \<Rightarrow> bool" where
  "sha256_len32 cr \<longleftrightarrow> (\<forall>b. length (sha256_Sum256 cr b) = 32)"

definition base64_inverse :: "Crypto \<Rightarrow> bool" where
  "base64_inverse cr \<longleftrightarrow> (\<forall>b. base64_Decode cr (base64_Encode cr b) = Some b)"

text \<open>\<open>shortDigest\<close>: the first ten hex characters of the SHA-256 sum.\<close>

definition shortDigest :: "Crypto \<Rightarrow> bytes \<Rightarrow> string" where
  "shortDigest cr seed = take 10 (hex_encode (sha256_Sum256 cr seed))"

lemma length_shortDigest: "sha256_len32 cr \<Longrightarrow> length (shortDigest cr b) = 10"
  by (simp add: shortDigest_def sha256_len32_def)

text \<open>
  A concrete environment for evaluating the model: a certificate is its own PEM text with a
  leading marker, and the digest pads or cuts its input to 32 bytes.
\<close>

definition toy_crypto :: Crypto where
  "toy_crypto = \<lparr>
     pem_Decode = (\<lambda>b. case b of [] \<Rightarrow> None | c # cs \<Rightarrow>
        if c = CHR ''C'' then Some (''CERTIFICATE'', cs, []) else if c = CHR ''K'' then Some (''PRIVATE KEY'', cs, []) else None),
     x509_ParseCertificate = (\<lambda>b. Inr \<lparr>x_IsCA = (take 1 b = ''A''), x_Raw = b, x_Subject = ''CN'',
        x_Issuer = ''CA'', x_NotBefore = 0, x_NotAfter = 100 * 24 * 60 * 60 * 1000000000, x_ExtKeyUsage = []\<rparr>),
     x509_ParsePrivateKey = (\<lambda>_ _. Inr ()),
     sha256_Sum256 = (\<lambda>b. take 32 (b @ replicate 32 (CHR ''0''))),
     base64_Encode = (\<lambda>b. b),
     base64_Decode = Some,
     net_ParseIP = (\<lambda>_. False),
     isDNS1123Subdomain = (\<lambda>s. s \<noteq> []),
     isDNS1123Label = (\<lambda>s. s \<noteq> [])\<rparr>"

lemma toy_crypto_laws [simp]: "sha256_len32 toy_crypto" "base64_inverse toy_crypto"
  by (simp_all add: toy_crypto_def sha256_len32_def base64_inverse_def min_def)

end
