(* ===== verification/Raft_Config.thy ===== *)
theory Raft_Config
  imports Crypto_Env "HOL-Library.Monad_Syntax"
begin

text \<open>
  \<^verbatim>\<open>internal/channelconfig/raft.go\<close>: planning and validating a change of the Raft consenter set of
  a channel configuration. A JSON document is a tree (\<open>json\<close>); \<open>json.RawMessage\<close> is an optional
  tree, \<open>None\<close> standing for a message of length zero. Decoding into a Go struct matches member
  names without regard to case and lets the last of several equal members count; decoding into a
  Go map is by exact name and \<open>json.Marshal\<close> of a map sorts the keys.
\<close>

section \<open>JSON\<close>

datatype json =
    JNull
  | JBool bool
  | JNum string
  | JStr string
  | JArr "json list"
  | JObj "(string \<times> json) list"

definition jmap :: "(string \<times> json) list \<Rightarrow> (string, json) gomap" where
  "jmap kvs = foldl (\<lambda>m kv. go_set m (fst kv) (snd kv)) [] kvs"

definition marshal_map :: "(string, json) gomap \<Rightarrow> json" where
  "marshal_map m = JObj (sort_key fst m)"

text \<open>The value \<open>any\<close> a decoder with \<open>UseNumber\<close> builds; equality of these is \<open>reflect.DeepEqual\<close>.\<close>

fun canon :: "json \<Rightarrow> json" where
  "canon (JArr xs) = JArr (map canon xs)"
| "canon (JObj kvs) = marshal_map (jmap (map (\<lambda>kv. (fst kv, canon (snd kv))) kvs))"
| "canon v = v"

text \<open>Decoding into struct fields; an absent member reads as \<open>null\<close>, which leaves the zero value.\<close>

definition jmember_opt :: "string \<Rightarrow> (string \<times> json) list \<Rightarrow> json option" where
  "jmember_opt name kvs =
     (case filter (\<lambda>kv. toLower (fst kv) = toLower name) kvs of [] \<Rightarrow> None | xs \<Rightarrow> Some (snd (last xs)))"

definition jmember :: "string \<Rightarrow> (string \<times> json) list \<Rightarrow> json" where
  "jmember name kvs = (case jmember_opt name kvs of None \<Rightarrow> JNull | Some v \<Rightarrow> v)"

fun jstruct :: "json \<Rightarrow> (string \<times> json) list option" where
  "jstruct (JObj kvs) = Some kvs"
| "jstruct JNull = Some []"
| "jstruct _ = None"

fun jslice :: "json \<Rightarrow> json list option" where
  "jslice (JArr xs) = Some xs"
| "jslice JNull = Some []"
| "jslice _ = None"

fun jstring :: "json \<Rightarrow> string option" where
  "jstring (JStr s) = Some s"
| "jstring JNull = Some []"
| "jstring _ = None"

fun jint :: "json \<Rightarrow> int option" where
  "jint (JNum s) = atoi s"
| "jint JNull = Some 0"
| "jint _ = None"

fun juint :: "nat \<Rightarrow> json \<Rightarrow> nat option" where
  "juint w (JNum s) = parseUint w s"
| "juint w JNull = Some 0"
| "juint w _ = None"

fun mapM_option :: "('a \<Rightarrow> 'b option) \<Rightarrow> 'a list \<Rightarrow> 'b list option" where
  "mapM_option f [] = Some []"
| "mapM_option f (x # xs) =
     (case f x of None \<Rightarrow> None
      | Some y \<Rightarrow> (case mapM_option f xs of None \<Rightarrow> None | Some ys \<Rightarrow> Some (y # ys)))"

fun jbytes :: "Crypto \<Rightarrow> json \<Rightarrow> bytes option" where
  "jbytes cr (JStr s) = base64_Decode cr s"
| "jbytes cr JNull = Some []"
| "jbytes cr (JArr xs) = map_option (map char_of) (mapM_option (juint 8) xs)"
| "jbytes cr _ = None"

definition marshal_bytes :: "Crypto \<Rightarrow> bytes \<Rightarrow> json" where
  "marshal_bytes cr b = (if b = [] then JNull else JStr (base64_Encode cr b))"

section \<open>Consenters and plans\<close>

record RaftConsenter =
  rc_Host :: string
  rc_Port :: nat
  rc_ClientTLSCert :: bytes
  rc_ServerTLSCert :: bytes

record RaftUpdatePlan =
  rp_APIVersion :: string
  rp_Kind :: string
  rp_Channel :: string
  rp_ConfigSequence :: string
  rp_Action :: string
  rp_Target :: "RaftConsenter option"
  rp_CurrentQuorum :: int
  rp_DesiredQuorum :: int
  rp_Warnings :: "string list"
  rp_OriginalConfig :: "json option"
  rp_UpdatedConfig :: "json option"

definition decodeConsenter :: "Crypto \<Rightarrow> json \<Rightarrow> RaftConsenter option" where
  "decodeConsenter cr j = do {
     kvs \<leftarrow> jstruct j;
     host \<leftarrow> jstring (jmember ''host'' kvs);
     port \<leftarrow> juint 32 (jmember ''port'' kvs);
     client \<leftarrow> jbytes cr (jmember ''client_tls_cert'' kvs);
     server \<leftarrow> jbytes cr (jmember ''server_tls_cert'' kvs);
     Some \<lparr>rc_Host = host, rc_Port = port, rc_ClientTLSCert = client, rc_ServerTLSCert = server\<rparr>
   }"

definition decodeConsenters :: "Crypto \<Rightarrow> json \<Rightarrow> RaftConsenter list option" where
  "decodeConsenters cr j = do { xs \<leftarrow> jslice j; mapM_option (decodeConsenter cr) xs }"

definition marshalConsenter :: "Crypto \<Rightarrow> RaftConsenter \<Rightarrow> json" where
  "marshalConsenter cr c = JObj [
     (''host'', JStr (rc_Host c)), (''port'', JNum (itoa_nat (rc_Port c))),
     (''client_tls_cert'', marshal_bytes cr (rc_ClientTLSCert c)),
     (''server_tls_cert'', marshal_bytes cr (rc_ServerTLSCert c))]"

section \<open>Reading and replacing along a path\<close>

fun raftJSONValue :: "json option \<Rightarrow> string list \<Rightarrow> string + json" where
  "raftJSONValue raw [] = (case raw of None \<Rightarrow> Inl ''empty message'' | Some v \<Rightarrow> Inr v)"
| "raftJSONValue raw (field # path) =
     (case raw of
        Some (JObj kvs) \<Rightarrow>
          (case map_of (jmap kvs) field of
             None \<Rightarrow> Inl (''config is missing '' @ field)
           | Some v \<Rightarrow> if v = JNull then Inl (''config is missing '' @ field)
                       else raftJSONValue (Some v) path)
      | Some JNull \<Rightarrow> Inl (''config is missing '' @ field)
      | _ \<Rightarrow> Inl (''decode config field '' @ field))"

fun replaceRaftJSONValue :: "json option \<Rightarrow> string list \<Rightarrow> json \<Rightarrow> string + json" where
  "replaceRaftJSONValue raw [] value = Inr value"
| "replaceRaftJSONValue raw (field # path) value =
     (case raw of
        Some (JObj kvs) \<Rightarrow>
          (case replaceRaftJSONValue (map_of (jmap kvs) field) path value of
             Inl e \<Rightarrow> Inl e
           | Inr updated \<Rightarrow> Inr (marshal_map (go_set (jmap kvs) field updated)))
      | Some JNull \<Rightarrow>
          (case replaceRaftJSONValue None path value of
             Inl e \<Rightarrow> Inl e
           | Inr updated \<Rightarrow> Inl ''panic: assignment to entry in nil map'')
      | None \<Rightarrow> Inl ''unexpected end of JSON input''
      | _ \<Rightarrow> Inl ''cannot unmarshal into an object'')"

definition consensusPath :: "string list" where
  "consensusPath = [''channel_group'', ''groups'', ''Orderer'', ''values'', ''ConsensusType'', ''value'']"

definition consentersPath :: "string list" where
  "consentersPath = consensusPath @ [''metadata'', ''consenters'']"

definition RaftConsentersFromConfig :: "Crypto \<Rightarrow> json option \<Rightarrow> string + RaftConsenter list" where
  "RaftConsentersFromConfig cr config =
     (case raftJSONValue config consentersPath of
        Inl e \<Rightarrow> Inl e
      | Inr raw \<Rightarrow> (case decodeConsenters cr raw of None \<Rightarrow> Inl ''decode consenters'' | Some cs \<Rightarrow> Inr cs))"

section \<open>Validating a consenter set\<close>

definition endpointHostOf :: "RaftConsenter \<Rightarrow> string" where
  "endpointHostOf c = toLower (trimSuffix (rc_Host c) ''.'')"

definition consenterEndpoint :: "RaftConsenter \<Rightarrow> string" where
  "consenterEndpoint c = joinHostPort (endpointHostOf c) (itoa_nat (rc_Port c))"

text \<open>One iteration of the loop over the two TLS certificates of consenter \<open>index\<close>.\<close>

definition checkConsenterCert ::
  "Crypto \<Rightarrow> nat \<Rightarrow> (bytes, nat) gomap \<Rightarrow> bytes \<Rightarrow> string + ((bytes, nat) gomap \<times> bytes)" where
  "checkConsenterCert cr index certificates cert =
     (case pem_Decode cr cert of
        None \<Rightarrow> Inl (''consenter '' @ itoa_nat index @ '' requires a single public PEM certificate for each TLS role'')
      | Some (ty, blockBytes, rest) \<Rightarrow>
          if ty \<noteq> ''CERTIFICATE'' \<or> trimSpace rest \<noteq> []
          then Inl (''consenter '' @ itoa_nat index @ '' requires a single public PEM certificate for each TLS role'')
          else (case x509_ParseCertificate cr blockBytes of
                  Inl e \<Rightarrow> Inl (''consenter '' @ itoa_nat index @ '' has an invalid TLS certificate: '' @ e)
                | Inr parsed \<Rightarrow>
                    if x_IsCA parsed
                    then Inl (''consenter '' @ itoa_nat index @ '' requires TLS leaf certificates, not CA certificates'')
                    else (let hash = sha256_Sum256 cr (x_Raw parsed)
                          in case map_of certificates hash of
                               Some owner \<Rightarrow>
                                 if owner \<noteq> index
                                 then Inl (''consenters '' @ itoa_nat owner @ '' and '' @ itoa_nat index @ '' reuse a TLS certificate'')
                                 else Inr (go_set certificates hash index, hash)
                             | None \<Rightarrow> Inr (go_set certificates hash index, hash))))"

fun validateConsentersFrom ::
  "Crypto \<Rightarrow> nat \<Rightarrow> (string, nat) gomap \<Rightarrow> string set \<Rightarrow> (bytes, nat) gomap \<Rightarrow> RaftConsenter list \<Rightarrow>
     string + (string, nat) gomap" where
  "validateConsentersFrom cr index keys endpoints certificates [] = Inr keys"
| "validateConsentersFrom cr index keys endpoints certificates (consenter # rest) =
     (let host = endpointHostOf consenter
      in if \<not> net_ParseIP cr host \<and> \<not> isDNS1123Subdomain cr host
         then Inl (''consenter '' @ itoa_nat index @ '' has an invalid host'')
         else if rc_Port consenter = 0 \<or> rc_Port consenter > 65535
         then Inl (''consenter '' @ itoa_nat index @ '' has an invalid port'')
         else (let endpoint = consenterEndpoint consenter
               in if endpoint \<in> endpoints then Inl (''duplicate consenter endpoint '' @ endpoint)
                  else (case checkConsenterCert cr index certificates (rc_ClientTLSCert consenter) of
                          Inl e \<Rightarrow> Inl e
                        | Inr (certificates1, hash1) \<Rightarrow>
                            (case checkConsenterCert cr index certificates1 (rc_ServerTLSCert consenter) of
                               Inl e \<Rightarrow> Inl e
                             | Inr (certificates2, hash2) \<Rightarrow>
                                 validateConsentersFrom cr (Suc index)
                                   (go_set keys (endpoint @ ''/'' @ hex_encode hash1 @ ''/'' @ hex_encode hash2) index)
                                   (insert endpoint endpoints) certificates2 rest))))"

definition validateRaftConsenters :: "Crypto \<Rightarrow> RaftConsenter list \<Rightarrow> string + (string, nat) gomap" where
  "validateRaftConsenters cr consenters =
     (if consenters = [] then Inl ''at least one consenter must remain''
      else validateConsentersFrom cr 0 [] {} [] consenters)"

section \<open>Planning\<close>

definition raftWarnings :: "string list" where
  "raftWarnings = [
     ''Offline plan only: no update is signed or submitted and no workloads are changed'',
     ''Node health, catch-up, quorum availability, TLS trust/validity, and policy signatures are not verified'',
     ''Orderer MSPs, endpoint advertisements, policies, and Raft tuning are unchanged'']"

text \<open>The two loops over the key maps: the last key of one set that the other lacks, and how many.\<close>

definition missingKeys :: "(string, nat) gomap \<Rightarrow> (string, nat) gomap \<Rightarrow> (string \<times> nat) list" where
  "missingKeys ks other = filter (\<lambda>kv. map_of other (fst kv) = None) ks"

text \<open>From the two validated key maps to the plan: at most one difference, applied to the raw entries.\<close>

definition planRaftDelta ::
  "Crypto \<Rightarrow> json option \<Rightarrow> string \<Rightarrow> string \<Rightarrow> json \<Rightarrow> RaftConsenter list \<Rightarrow> (string, nat) gomap \<Rightarrow>
     RaftConsenter list \<Rightarrow> (string, nat) gomap \<Rightarrow> string + RaftUpdatePlan" where
  "planRaftDelta cr original channel sequence currentRaw current currentKeys desired desiredKeys =
    (let added = missingKeys desiredKeys currentKeys;
         removed = missingKeys currentKeys desiredKeys;
         changes = length added + length removed;
         plan = \<lparr>rp_APIVersion = ''fabricops.io/v1alpha1'', rp_Kind = ''FabricChannelRaftUpdatePlan'',
                 rp_Channel = channel, rp_ConfigSequence = sequence, rp_Action = ''AlreadyApplied'',
                 rp_Target = None, rp_CurrentQuorum = int (length current div 2 + 1),
                 rp_DesiredQuorum = int (length desired div 2 + 1), rp_Warnings = raftWarnings,
                 rp_OriginalConfig = original, rp_UpdatedConfig = original\<rparr>
     in if changes > 1
        then Inl (''change exactly one Raft consenter at a time; '' @
                  ''batch changes, replacements, endpoint moves, and certificate rotation are not supported'')
        else if changes = 0 then Inr plan
        else (case jslice currentRaw of
                None \<Rightarrow> Inl ''decode consenter entries''
              | Some entries \<Rightarrow>
                  (let (action, target, entries') =
                     (if added \<noteq> [] then
                        (let c = desired ! snd (last added)
                         in (''Add'', c, entries @ [marshalConsenter cr c]))
                      else
                        (let i = snd (last removed)
                         in (''Remove'', current ! i, take i entries @ drop (Suc i) entries)))
                   in case replaceRaftJSONValue original consentersPath (JArr entries') of
                        Inl e \<Rightarrow> Inl e
                      | Inr updated \<Rightarrow>
                          Inr (plan\<lparr>rp_Action := action, rp_Target := Some target,
                                    rp_UpdatedConfig := Some updated\<rparr>))))"

text \<open>The checks on the source configuration, in the order of the code.\<close>

definition configSequenceOf :: "json option \<Rightarrow> string option" where
  "configSequenceOf original = do {
     j \<leftarrow> original; kvs \<leftarrow> jstruct j; jstring (jmember ''sequence'' kvs) }"

definition consensusOf :: "json \<Rightarrow> (string \<times> string) option" where
  "consensusOf raw = do {
     kvs \<leftarrow> jstruct raw; ty \<leftarrow> jstring (jmember ''type'' kvs);
     state \<leftarrow> jstring (jmember ''state'' kvs); Some (ty, state) }"

definition planRaftConfig ::
  "Crypto \<Rightarrow> json option \<Rightarrow> string \<Rightarrow> RaftConsenter list \<Rightarrow> string + RaftUpdatePlan" where
  "planRaftConfig cr original channel desired =
    (case configSequenceOf original of
       None \<Rightarrow> Inl ''decode channel config''
     | Some sequence \<Rightarrow>
         if parseUint 64 sequence = None
         then Inl ''config sequence must be an unsigned 64-bit decimal string''
         else (case raftJSONValue original consensusPath of
            Inl e \<Rightarrow> Inl e
          | Inr consensusRaw \<Rightarrow>
              (case consensusOf consensusRaw of
                 None \<Rightarrow> Inl ''decode consensus type''
               | Some (ty, state) \<Rightarrow>
                   if ty \<noteq> ''etcdraft'' \<or> state \<noteq> ''STATE_NORMAL''
                   then Inl ''only etcdraft in STATE_NORMAL is supported; migration/maintenance updates are unsupported''
                   else (case raftJSONValue original consentersPath of
                      Inl e \<Rightarrow> Inl e
                    | Inr currentRaw \<Rightarrow>
                        (case decodeConsenters cr currentRaw of
                           None \<Rightarrow> Inl ''decode current consenters''
                         | Some current \<Rightarrow>
                             (case validateRaftConsenters cr current of
                                Inl e \<Rightarrow> Inl (''current consenters: '' @ e)
                              | Inr currentKeys \<Rightarrow>
                                  (case validateRaftConsenters cr desired of
                                     Inl e \<Rightarrow> Inl (''desired consenters: '' @ e)
                                   | Inr desiredKeys \<Rightarrow>
                                       planRaftDelta cr original channel sequence currentRaw current
                                         currentKeys desired desiredKeys)))))))"

record ConfigTransaction =
  tx_ChannelID :: string
  tx_Type :: int
  tx_Config :: "json option"

definition decodeTransaction :: "json \<Rightarrow> ConfigTransaction option" where
  "decodeTransaction j = do {
     tx \<leftarrow> jstruct j;
     payload \<leftarrow> jstruct (jmember ''payload'' tx);
     header \<leftarrow> jstruct (jmember ''header'' payload);
     ch \<leftarrow> jstruct (jmember ''channel_header'' header);
     cid \<leftarrow> jstring (jmember ''channel_id'' ch);
     ty \<leftarrow> jint (jmember ''type'' ch);
     d \<leftarrow> jstruct (jmember ''data'' payload);
     Some \<lparr>tx_ChannelID = cid, tx_Type = ty, tx_Config = jmember_opt ''config'' d\<rparr>
   }"

definition decodeConfigBlock :: "json \<Rightarrow> ConfigTransaction list option" where
  "decodeConfigBlock j = do {
     block \<leftarrow> jstruct j;
     d \<leftarrow> jstruct (jmember ''data'' block);
     txs \<leftarrow> jslice (jmember ''data'' d);
     mapM_option decodeTransaction txs
   }"

definition PlanRaftUpdate :: "Crypto \<Rightarrow> json \<Rightarrow> string \<Rightarrow> RaftConsenter list \<Rightarrow> string + RaftUpdatePlan" where
  "PlanRaftUpdate cr block channel desired =
     (case decodeConfigBlock block of
        None \<Rightarrow> Inl ''decode config block''
      | Some txs \<Rightarrow>
          (case txs of
             [payload] \<Rightarrow>
               if channel = []
               then Inl ''expected a config block containing exactly one CONFIG transaction''
               else if tx_Type payload \<noteq> 1 \<or> tx_ChannelID payload \<noteq> channel
               then Inl (''expected a CONFIG transaction for channel '' @ goquote channel)
               else planRaftConfig cr (tx_Config payload) channel desired
           | _ \<Rightarrow> Inl ''expected a config block containing exactly one CONFIG transaction''))"

section \<open>Validating a reviewed plan\<close>

definition decodePlan :: "Crypto \<Rightarrow> json \<Rightarrow> RaftUpdatePlan option" where
  "decodePlan cr j = do {
     kvs \<leftarrow> jstruct j;
     api \<leftarrow> jstring (jmember ''apiVersion'' kvs);
     kind \<leftarrow> jstring (jmember ''kind'' kvs);
     channel \<leftarrow> jstring (jmember ''channel'' kvs);
     sequence \<leftarrow> jstring (jmember ''configSequence'' kvs);
     action \<leftarrow> jstring (jmember ''action'' kvs);
     target \<leftarrow> (case jmember ''target'' kvs of
                  JNull \<Rightarrow> Some None | t \<Rightarrow> map_option Some (decodeConsenter cr t));
     cq \<leftarrow> jint (jmember ''currentQuorum'' kvs);
     dq \<leftarrow> jint (jmember ''desiredQuorum'' kvs);
     ws \<leftarrow> jslice (jmember ''warnings'' kvs);
     warnings \<leftarrow> mapM_option jstring ws;
     Some \<lparr>rp_APIVersion = api, rp_Kind = kind, rp_Channel = channel, rp_ConfigSequence = sequence,
           rp_Action = action, rp_Target = target, rp_CurrentQuorum = cq, rp_DesiredQuorum = dq,
           rp_Warnings = warnings, rp_OriginalConfig = jmember_opt ''originalConfig'' kvs,
           rp_UpdatedConfig = jmember_opt ''updatedConfig'' kvs\<rparr>
   }"

definition marshal_raw :: "json option \<Rightarrow> json" where
  "marshal_raw r = (case r of None \<Rightarrow> JNull | Some v \<Rightarrow> v)"

definition marshalPlan :: "Crypto \<Rightarrow> RaftUpdatePlan \<Rightarrow> json" where
  "marshalPlan cr p = JObj (
     [(''apiVersion'', JStr (rp_APIVersion p)), (''kind'', JStr (rp_Kind p)),
      (''channel'', JStr (rp_Channel p)), (''configSequence'', JStr (rp_ConfigSequence p)),
      (''action'', JStr (rp_Action p))] @
     (case rp_Target p of None \<Rightarrow> [] | Some c \<Rightarrow> [(''target'', marshalConsenter cr c)]) @
     [(''currentQuorum'', JNum (itoa (rp_CurrentQuorum p))),
      (''desiredQuorum'', JNum (itoa (rp_DesiredQuorum p))),
      (''warnings'', JArr (map JStr (rp_Warnings p))),
      (''originalConfig'', marshal_raw (rp_OriginalConfig p)),
      (''updatedConfig'', marshal_raw (rp_UpdatedConfig p))])"

definition ValidateRaftPlan :: "Crypto \<Rightarrow> json \<Rightarrow> string \<Rightarrow> string + RaftUpdatePlan" where
  "ValidateRaftPlan cr raw channel =
    (case decodePlan cr raw of None \<Rightarrow> Inl ''decode Raft plan''
     | Some supplied \<Rightarrow>
    if rp_APIVersion supplied \<noteq> ''fabricops.io/v1alpha1'' \<or>
       rp_Kind supplied \<noteq> ''FabricChannelRaftUpdatePlan'' \<or> channel = [] \<or> rp_Channel supplied \<noteq> channel
    then Inl (''expected a FabricChannelRaftUpdatePlan for channel '' @ goquote channel)
    else (case raftJSONValue (rp_UpdatedConfig supplied) consentersPath of Inl e \<Rightarrow> Inl e
     | Inr desiredRaw \<Rightarrow>
    (case decodeConsenters cr desiredRaw of None \<Rightarrow> Inl ''decode desired consenters''
     | Some desired \<Rightarrow>
    (case planRaftConfig cr (rp_OriginalConfig supplied) channel desired of Inl e \<Rightarrow> Inl e
     | Inr computed \<Rightarrow>
    if rp_ConfigSequence supplied \<noteq> rp_ConfigSequence computed \<or> rp_Action supplied \<noteq> rp_Action computed
    then Inl ''reviewed Raft plan action or source sequence does not match its config pair''
    else if map_option canon (rp_UpdatedConfig supplied) \<noteq> map_option canon (rp_UpdatedConfig computed)
    then Inl ''reviewed Raft plan changes fields outside the permitted single-consenter delta''
    else Inr computed))))"

end
