(* ===== verification/Raft_Safety.thy ===== *)
theory Raft_Safety
  imports Raft_Config "HOL-Library.Multiset"
begin

text \<open>
  Correctness of the Raft planner: what the consenter validation accepts, the effect of a plan on
  the consenter set and on the rest of the configuration, overlap of the quorums before and after,
  and the round trip of a plan through review.
\<close>

section \<open>Objects\<close>

lemma map_of_jmap_aux:
  "map_of (foldl (\<lambda>m kv. go_set m (fst kv) (snd kv)) m kvs) = map_of (rev kvs @ m)"
  by (induction kvs arbitrary: m) auto

lemma map_of_jmap: "map_of (jmap kvs) = map_of (rev kvs)"
  by (simp add: jmap_def map_of_jmap_aux)

lemma distinct_jmap [simp]: "distinct (map fst (jmap kvs))"
proof -
  have "distinct (map fst m) \<Longrightarrow> distinct (map fst (foldl (\<lambda>m kv. go_set m (fst kv) (snd kv)) m kvs))" for m
    by (induction kvs arbitrary: m) auto
  then show ?thesis by (simp add: jmap_def)
qed

lemma map_of_perm:
  assumes "distinct (map fst xs)" and "mset xs = mset ys"
  shows "map_of xs = map_of ys"
proof -
  have "distinct (map fst ys)" using assms by (metis mset_eq_imp_distinct_iff mset_map)
  moreover have "set xs = set ys" using assms(2) by (rule mset_eq_setD)
  ultimately show ?thesis using assms(1) by (simp add: map_of_inject_set)
qed

lemma map_of_jmap_sorted:
  assumes "distinct (map fst m)"
  shows "map_of (jmap (sort_key fst m)) = map_of m"
proof -
  have "mset m = mset (rev (sort_key fst m))" by simp
  with assms show ?thesis by (metis map_of_jmap map_of_perm)
qed

section \<open>Paths\<close>

lemma raftJSONValue_Cons:
  "raftJSONValue (Some (JObj kvs)) (f # p) =
     (case map_of (jmap kvs) f of None \<Rightarrow> Inl (''config is missing '' @ f)
      | Some v \<Rightarrow> if v = JNull then Inl (''config is missing '' @ f) else raftJSONValue (Some v) p)"
  by simp

lemma raftJSONValue_ConsD:
  "raftJSONValue (Some j) (f # p) = Inr v \<Longrightarrow>
   \<exists>kvs w. j = JObj kvs \<and> map_of (jmap kvs) f = Some w \<and> w \<noteq> JNull \<and> raftJSONValue (Some w) p = Inr v"
  by (cases j) (auto split: option.splits if_splits)

text \<open>Reading succeeds where replacing is attempted, so the replacement never meets a nil map.\<close>

lemma replace_after_read:
  "raftJSONValue (Some j) p = Inr old \<Longrightarrow> p \<noteq> [] \<Longrightarrow> v \<noteq> JNull \<Longrightarrow>
   \<exists>kvs. replaceRaftJSONValue (Some j) p v = Inr (JObj kvs) \<and> raftJSONValue (Some (JObj kvs)) p = Inr v"
proof (induction p arbitrary: j)
  case (Cons f p)
  from raftJSONValue_ConsD [OF Cons.prems(1)] obtain kvs w where
    w: "j = JObj kvs" "map_of (jmap kvs) f = Some w" "w \<noteq> JNull" "raftJSONValue (Some w) p = Inr old"
    by blast
  have "\<exists>u. replaceRaftJSONValue (Some w) p v = Inr u \<and> u \<noteq> JNull \<and> raftJSONValue (Some u) p = Inr v"
  proof (cases "p = []")
    case True
    with Cons.prems show ?thesis by simp
  next
    case False
    from Cons.IH [OF w(4) False Cons.prems(3)] show ?thesis by blast
  qed
  then obtain u where u: "replaceRaftJSONValue (Some w) p v = Inr u" "u \<noteq> JNull" "raftJSONValue (Some u) p = Inr v"
    by blast
  then show ?case
    by (simp add: w marshal_map_def map_of_jmap_sorted)
qed simp

text \<open>Two paths that part ways: neither is a prefix of the other.\<close>

fun diverge :: "string list \<Rightarrow> string list \<Rightarrow> bool" where
  "diverge (a # p) (b # q) \<longleftrightarrow> a \<noteq> b \<or> diverge p q"
| "diverge _ _ \<longleftrightarrow> False"

lemma replace_frame:
  "replaceRaftJSONValue (Some j) p v = Inr j' \<Longrightarrow> raftJSONValue (Some j) p = Inr old \<Longrightarrow> diverge p q \<Longrightarrow>
   v \<noteq> JNull \<Longrightarrow> raftJSONValue (Some j') q = raftJSONValue (Some j) q"
proof (induction p q arbitrary: j j' rule: diverge.induct)
  case (1 a p b q)
  from raftJSONValue_ConsD [OF 1(3)] obtain kvs w where
    w: "j = JObj kvs" "map_of (jmap kvs) a = Some w" "w \<noteq> JNull" "raftJSONValue (Some w) p = Inr old"
    by blast
  from 1(2) w obtain u where
    u: "replaceRaftJSONValue (Some w) p v = Inr u" "j' = marshal_map (go_set (jmap kvs) a u)"
    by (auto split: sum.splits)
  have lookup: "map_of (jmap (sort_key fst (go_set (jmap kvs) a u))) b = (if b = a then Some u else map_of (jmap kvs) b)"
    by (simp add: map_of_jmap_sorted)
  show ?case
  proof (cases "a = b")
    case False
    then show ?thesis by (simp add: u(2) w(1) marshal_map_def lookup)
  next
    case True
    with 1(4) have d: "diverge p q" by simp
    then have pne: "p \<noteq> []" by (cases p) auto
    from replace_after_read [OF w(4) pne 1(5)] u(1) have "u \<noteq> JNull" by auto
    moreover have "raftJSONValue (Some u) q = raftJSONValue (Some w) q"
      using True d u(1) w(4) 1(1) 1(5) by blast
    moreover have "map_of (jmap (sort_key fst (go_set (jmap kvs) a u))) b = Some u"
      "map_of (jmap kvs) b = Some w"
      using lookup True w(2) by simp_all
    ultimately show ?thesis using w(3) by (simp add: u(2) w(1) marshal_map_def)
  qed
qed simp_all

section \<open>What validation accepts\<close>

definition certHash :: "Crypto \<Rightarrow> bytes \<Rightarrow> bytes option" where
  "certHash cr cert =
     (case pem_Decode cr cert of
        None \<Rightarrow> None
      | Some (ty, blockBytes, rest) \<Rightarrow>
          if ty \<noteq> ''CERTIFICATE'' \<or> trimSpace rest \<noteq> [] then None
          else (case x509_ParseCertificate cr blockBytes of
                  Inl e \<Rightarrow> None
                | Inr c \<Rightarrow> if x_IsCA c then None else Some (sha256_Sum256 cr (x_Raw c))))"

definition consenterOk :: "Crypto \<Rightarrow> RaftConsenter \<Rightarrow> bool" where
  "consenterOk cr c \<longleftrightarrow>
     (net_ParseIP cr (endpointHostOf c) \<or> isDNS1123Subdomain cr (endpointHostOf c)) \<and>
     1 \<le> rc_Port c \<and> rc_Port c \<le> 65535 \<and>
     certHash cr (rc_ClientTLSCert c) \<noteq> None \<and> certHash cr (rc_ServerTLSCert c) \<noteq> None"

definition clientHash :: "Crypto \<Rightarrow> RaftConsenter \<Rightarrow> bytes" where
  "clientHash cr c = the (certHash cr (rc_ClientTLSCert c))"

definition serverHash :: "Crypto \<Rightarrow> RaftConsenter \<Rightarrow> bytes" where
  "serverHash cr c = the (certHash cr (rc_ServerTLSCert c))"

text \<open>The identity of a consenter: its endpoint and the digests of its two certificates.\<close>

definition consenterKey :: "Crypto \<Rightarrow> RaftConsenter \<Rightarrow> string" where
  "consenterKey cr c =
     consenterEndpoint c @ ''/'' @ hex_encode (clientHash cr c) @ ''/'' @ hex_encode (serverHash cr c)"

definition hashes :: "Crypto \<Rightarrow> RaftConsenter \<Rightarrow> bytes set" where
  "hashes cr c = {clientHash cr c, serverHash cr c}"

fun compatible :: "Crypto \<Rightarrow> RaftConsenter list \<Rightarrow> bool" where
  "compatible cr [] \<longleftrightarrow> True"
| "compatible cr (c # cs) \<longleftrightarrow>
     consenterOk cr c \<and> compatible cr cs \<and>
     (\<forall>d \<in> set cs. consenterEndpoint d \<noteq> consenterEndpoint c \<and> hashes cr c \<inter> hashes cr d = {})"

lemma checkConsenterCert_iff:
  "checkConsenterCert cr i certs cert = Inr (certs', h) \<longleftrightarrow>
     certHash cr cert = Some h \<and> (map_of certs h = None \<or> map_of certs h = Some i) \<and> certs' = go_set certs h i"
  unfolding checkConsenterCert_def certHash_def
  by (auto simp: Let_def split: option.splits prod.splits sum.splits if_splits)

lemma go_set_fresh: "k \<notin> fst ` set m \<Longrightarrow> go_set m k v = m @ [(k, v)]"
  by (induction m) (auto simp: go_set_def)

lemma certHash_length: "sha256_len32 cr \<Longrightarrow> certHash cr c = Some h \<Longrightarrow> length h = 32"
  by (auto simp: certHash_def sha256_len32_def split: option.splits prod.splits sum.splits if_splits)

lemma consenterKey_eqD:
  assumes "sha256_len32 cr" and "consenterOk cr c" and "consenterOk cr d"
    and "consenterKey cr c = consenterKey cr d"
  shows "consenterEndpoint c = consenterEndpoint d \<and>
         hex_encode (clientHash cr c) = hex_encode (clientHash cr d) \<and>
         hex_encode (serverHash cr c) = hex_encode (serverHash cr d)"
proof -
  have len: "length (clientHash cr x) = 32 \<and> length (serverHash cr x) = 32" if "consenterOk cr x" for x
    using that certHash_length [OF assms(1)]
    by (auto simp: consenterOk_def clientHash_def serverHash_def)
  from assms(4) len [OF assms(2)] len [OF assms(3)] show ?thesis
    unfolding consenterKey_def by (auto simp: append_eq_append_conv)
qed

lemma hex_digit_inj: "a < 16 \<Longrightarrow> b < 16 \<Longrightarrow> hex_digit a = hex_digit b \<Longrightarrow> a = b"
proof -
  assume a: "a < 16" "b < 16" "hex_digit a = hex_digit b"
  then have "(of_char (hex_digit a) :: nat) = of_char (hex_digit b)" by simp
  with a show ?thesis by (auto simp: hex_digit_def split: if_splits)
qed

lemma hex_byte_inj: "hex_byte a = hex_byte b \<Longrightarrow> a = b"
proof -
  assume "hex_byte a = hex_byte b"
  then have "hex_digit ((of_char a :: nat) div 16) = hex_digit (of_char b div 16)"
    and "hex_digit ((of_char a :: nat) mod 16) = hex_digit (of_char b mod 16)"
    by (simp_all add: hex_byte_def)
  moreover have lt: "(of_char x :: nat) div 16 < 16" for x :: char
    by (simp add: less_mult_imp_div_less)
  ultimately have "(of_char a :: nat) div 16 = of_char b div 16" "(of_char a :: nat) mod 16 = of_char b mod 16"
    by (auto intro: hex_digit_inj [OF lt lt] hex_digit_inj)
  then have "(of_char a :: nat) = of_char b" by (metis div_mult_mod_eq)
  then show "a = b" by simp
qed

lemma hex_encode_inj: "hex_encode a = hex_encode b \<longleftrightarrow> a = b"
proof
  show "hex_encode a = hex_encode b \<Longrightarrow> a = b"
  proof (induction a arbitrary: b)
    case (Cons x a)
    then obtain y b' where b: "b = y # b'" by (cases b) (auto simp: hex_encode_def hex_byte_def)
    with Cons.prems have "hex_byte x = hex_byte y \<and> hex_encode a = hex_encode b'"
      by (simp add: hex_encode_def hex_byte_def)
    with b Cons.IH show ?case by (auto dest: hex_byte_inj)
  qed (auto simp: hex_encode_def hex_byte_def)
qed simp

section \<open>Validation characterised\<close>

definition ownedBefore :: "Crypto \<Rightarrow> nat \<Rightarrow> (bytes, nat) gomap \<Rightarrow> bool" where
  "ownedBefore cr i certs \<longleftrightarrow> (\<forall>h j. map_of certs h = Some j \<longrightarrow> j < i)"

lemma checkBothCerts_iff:
  assumes "ownedBefore cr i certs"
  shows "(\<exists>c1 h1 c2 h2. checkConsenterCert cr i certs (rc_ClientTLSCert c) = Inr (c1, h1) \<and>
            checkConsenterCert cr i c1 (rc_ServerTLSCert c) = Inr (c2, h2)) \<longleftrightarrow>
         certHash cr (rc_ClientTLSCert c) \<noteq> None \<and> certHash cr (rc_ServerTLSCert c) \<noteq> None \<and>
         hashes cr c \<inter> dom (map_of certs) = {}"
proof -
  have none: "(map_of certs h = None \<or> map_of certs h = Some i) \<longleftrightarrow> h \<notin> dom (map_of certs)" for h
    using assms by (auto simp: ownedBefore_def domIff)
  show ?thesis
    by (auto simp: checkConsenterCert_iff none hashes_def clientHash_def serverHash_def)
qed

lemma checkBothCerts_result:
  assumes "checkConsenterCert cr i certs (rc_ClientTLSCert c) = Inr (c1, h1)"
    and "checkConsenterCert cr i c1 (rc_ServerTLSCert c) = Inr (c2, h2)"
  shows "h1 = clientHash cr c" and "h2 = serverHash cr c"
    and "c2 = go_set (go_set certs (clientHash cr c) i) (serverHash cr c) i"
  using assms by (auto simp: checkConsenterCert_iff clientHash_def serverHash_def)

definition stepOk :: "Crypto \<Rightarrow> string set \<Rightarrow> (bytes, nat) gomap \<Rightarrow> RaftConsenter \<Rightarrow> bool" where
  "stepOk cr E certs c \<longleftrightarrow>
     consenterOk cr c \<and> consenterEndpoint c \<notin> E \<and> hashes cr c \<inter> dom (map_of certs) = {}"

declare validateConsentersFrom.simps(2) [simp del]

lemma validateConsentersFrom_Cons:
  assumes "ownedBefore cr i certs"
  shows "validateConsentersFrom cr i keys E certs (c # cs) = Inr K \<longleftrightarrow>
     stepOk cr E certs c \<and>
     validateConsentersFrom cr (Suc i) (go_set keys (consenterKey cr c) i) (insert (consenterEndpoint c) E)
       (go_set (go_set certs (clientHash cr c) i) (serverHash cr c) i) cs = Inr K"
proof (cases "\<exists>c1 h1 c2 h2. checkConsenterCert cr i certs (rc_ClientTLSCert c) = Inr (c1, h1) \<and>
            checkConsenterCert cr i c1 (rc_ServerTLSCert c) = Inr (c2, h2)")
  case True
  then obtain c1 h1 c2 h2 where
    r: "checkConsenterCert cr i certs (rc_ClientTLSCert c) = Inr (c1, h1)"
       "checkConsenterCert cr i c1 (rc_ServerTLSCert c) = Inr (c2, h2)" by blast
  note h = checkBothCerts_result [OF r]
  from True have "certHash cr (rc_ClientTLSCert c) \<noteq> None" "certHash cr (rc_ServerTLSCert c) \<noteq> None"
    "hashes cr c \<inter> dom (map_of certs) = {}"
    unfolding checkBothCerts_iff [OF assms] by simp_all
  then show ?thesis
    by (auto simp: validateConsentersFrom.simps(2) Let_def r h stepOk_def consenterOk_def consenterKey_def)
next
  case False
  then have "\<not> stepOk cr E certs c"
    using checkBothCerts_iff [OF assms, of c] by (auto simp: stepOk_def consenterOk_def)
  with False show ?thesis
    by (auto simp: validateConsentersFrom.simps(2) Let_def split: sum.splits if_splits)
qed

definition keysFrom :: "Crypto \<Rightarrow> nat \<Rightarrow> RaftConsenter list \<Rightarrow> (string, nat) gomap" where
  "keysFrom cr i xs = zip (map (consenterKey cr) xs) [i..<i + length xs]"

definition keysOver :: "Crypto \<Rightarrow> string set \<Rightarrow> (string, nat) gomap \<Rightarrow> bool" where
  "keysOver cr E keys \<longleftrightarrow>
     (\<forall>k \<in> fst ` set keys. \<exists>c. consenterOk cr c \<and> consenterEndpoint c \<in> E \<and> k = consenterKey cr c)"

lemma validateConsentersFrom_iff:
  assumes "sha256_len32 cr"
  shows "ownedBefore cr i certs \<Longrightarrow> keysOver cr E keys \<Longrightarrow>
   validateConsentersFrom cr i keys E certs xs = Inr K \<longleftrightarrow>
   compatible cr xs \<and>
   (\<forall>c \<in> set xs. consenterEndpoint c \<notin> E \<and> hashes cr c \<inter> dom (map_of certs) = {}) \<and>
   K = keys @ keysFrom cr i xs"
proof (induction xs arbitrary: i keys E certs)
  case Nil
  then show ?case by (auto simp: keysFrom_def)
next
  case (Cons c cs)
  let ?certs = "go_set (go_set certs (clientHash cr c) i) (serverHash cr c) i"
  show ?case
  proof (cases "stepOk cr E certs c")
    case False
    then show ?thesis
      by (auto simp: validateConsentersFrom_Cons [OF Cons.prems(1)] stepOk_def)
  next
    case True
    have owned: "ownedBefore cr (Suc i) ?certs"
      using Cons.prems(1) by (auto simp: ownedBefore_def less_Suc_eq split: if_splits)
    have "consenterKey cr c \<notin> fst ` set keys"
    proof
      assume "consenterKey cr c \<in> fst ` set keys"
      then obtain d where d: "consenterOk cr d" "consenterEndpoint d \<in> E" "consenterKey cr c = consenterKey cr d"
        using Cons.prems(2) by (auto simp: keysOver_def)
      have "consenterOk cr c" "consenterEndpoint c \<notin> E" using True by (simp_all add: stepOk_def)
      with consenterKey_eqD [OF assms _ d(1) d(3)] d(2) show False by simp
    qed
    then have keys: "go_set keys (consenterKey cr c) i = keys @ [(consenterKey cr c, i)]"
      by (rule go_set_fresh)
    have over: "keysOver cr (insert (consenterEndpoint c) E) (keys @ [(consenterKey cr c, i)])"
      using Cons.prems(2) True unfolding keysOver_def stepOk_def
      by (metis (no_types, lifting) Un_iff fst_conv image_Un image_insert insert_iff set_append
          list.set(1) list.set(2) image_empty empty_iff)
    have dom: "dom (map_of ?certs) = hashes cr c \<union> dom (map_of certs)"
      by (auto simp: hashes_def)
    have kf: "keysFrom cr i (c # cs) = (consenterKey cr c, i) # keysFrom cr (Suc i) cs"
      by (simp add: keysFrom_def upt_conv_Cons del: upt_Suc)
    have apart: "(\<forall>d \<in> set cs. consenterEndpoint d \<notin> insert (consenterEndpoint c) E \<and>
          hashes cr d \<inter> dom (map_of ?certs) = {}) \<longleftrightarrow>
        (\<forall>d \<in> set cs. consenterEndpoint d \<noteq> consenterEndpoint c \<and> hashes cr c \<inter> hashes cr d = {}) \<and>
        (\<forall>d \<in> set cs. consenterEndpoint d \<notin> E \<and> hashes cr d \<inter> dom (map_of certs) = {})"
      unfolding dom by blast
    show ?thesis
      unfolding validateConsentersFrom_Cons [OF Cons.prems(1)] keys Cons.IH [OF owned over] apart kf
      using True by (auto simp: stepOk_def)
  qed
qed

lemma validateRaftConsenters_iff:
  assumes "sha256_len32 cr"
  shows "validateRaftConsenters cr xs = Inr K \<longleftrightarrow>
         xs \<noteq> [] \<and> compatible cr xs \<and> K = keysFrom cr 0 xs"
  using validateConsentersFrom_iff [OF assms, of 0 "[]" "{}" "[]" xs K]
  by (auto simp: validateRaftConsenters_def ownedBefore_def keysOver_def)

lemma compatible_ok: "compatible cr xs \<Longrightarrow> c \<in> set xs \<Longrightarrow> consenterOk cr c"
  by (induction xs) auto

lemma compatible_keys_distinct:
  assumes "sha256_len32 cr"
  shows "compatible cr xs \<Longrightarrow> distinct (map (consenterKey cr) xs)"
proof (induction xs)
  case (Cons c cs)
  have "consenterKey cr c \<noteq> consenterKey cr d" if "d \<in> set cs" for d
  proof -
    have "consenterOk cr c" "consenterOk cr d" "consenterEndpoint d \<noteq> consenterEndpoint c"
      using Cons.prems that compatible_ok by auto
    then show ?thesis using consenterKey_eqD [OF assms, of c d] by auto
  qed
  with Cons show ?case by auto
qed simp

lemma fst_keysFrom: "map fst (keysFrom cr i xs) = map (consenterKey cr) xs"
  by (simp add: keysFrom_def)

lemma keysFrom_nth: "(k, j) \<in> set (keysFrom cr i xs) \<longleftrightarrow> i \<le> j \<and> j < i + length xs \<and> k = consenterKey cr (xs ! (j - i))"
proof
  assume "i \<le> j \<and> j < i + length xs \<and> k = consenterKey cr (xs ! (j - i))"
  then show "(k, j) \<in> set (keysFrom cr i xs)"
    unfolding keysFrom_def in_set_zip by (intro exI [of _ "j - i"]) auto
qed (auto simp: keysFrom_def in_set_zip)

section \<open>Key sets and their differences\<close>

definition keyset :: "Crypto \<Rightarrow> RaftConsenter list \<Rightarrow> string set" where
  "keyset cr xs = consenterKey cr ` set xs"

lemma map_of_keysFrom_None: "map_of (keysFrom cr i xs) k = None \<longleftrightarrow> k \<notin> keyset cr xs"
  by (simp add: map_of_eq_None_iff keyset_def flip: set_map fst_keysFrom [of cr i xs])

lemma missingKeys_keysFrom:
  "missingKeys ks (keysFrom cr 0 xs) = filter (\<lambda>kv. fst kv \<notin> keyset cr xs) ks"
  by (simp add: missingKeys_def map_of_keysFrom_None)

lemma length_missingKeys:
  assumes "distinct (map (consenterKey cr) ys)"
  shows "length (missingKeys (keysFrom cr 0 ys) (keysFrom cr 0 xs)) = card (keyset cr ys - keyset cr xs)"
proof -
  let ?ms = "missingKeys (keysFrom cr 0 ys) (keysFrom cr 0 xs)"
  have "distinct (map fst ?ms)"
    using assms unfolding missingKeys_def by (metis distinct_map_filter fst_keysFrom)
  moreover have "set (map fst ?ms) = keyset cr ys - keyset cr xs"
  proof -
    have "set (map fst ?ms) = set (filter (\<lambda>k. k \<notin> keyset cr xs) (map fst (keysFrom cr 0 ys)))"
      by (simp add: missingKeys_keysFrom filter_map comp_def)
    then show ?thesis by (auto simp: fst_keysFrom keyset_def)
  qed
  ultimately show ?thesis by (metis distinct_card length_map)
qed

lemma card_keyset:
  "distinct (map (consenterKey cr) xs) \<Longrightarrow> card (keyset cr xs) = length xs"
  unfolding keyset_def by (metis distinct_card length_map set_map)

lemma missing_index:
  assumes "missingKeys (keysFrom cr 0 ys) (keysFrom cr 0 xs) \<noteq> []"
  defines "i \<equiv> snd (last (missingKeys (keysFrom cr 0 ys) (keysFrom cr 0 xs)))"
  shows "i < length ys" and "consenterKey cr (ys ! i) \<in> keyset cr ys - keyset cr xs"
proof -
  obtain k where "(k, i) \<in> set (missingKeys (keysFrom cr 0 ys) (keysFrom cr 0 xs))"
    unfolding i_def using last_in_set [OF assms(1)] by (metis surjective_pairing)
  then have "i < length ys \<and> k = consenterKey cr (ys ! i) \<and> k \<notin> keyset cr xs"
    by (auto simp: missingKeys_keysFrom keysFrom_nth)
  then show "i < length ys" "consenterKey cr (ys ! i) \<in> keyset cr ys - keyset cr xs"
    by (auto simp: keyset_def)
qed

text \<open>The action a plan takes, as a change of the consenter list.\<close>

datatype RaftDelta = NoChange | AddConsenter RaftConsenter | RemoveConsenter nat

definition planDelta :: "Crypto \<Rightarrow> RaftConsenter list \<Rightarrow> RaftConsenter list \<Rightarrow> RaftDelta option" where
  "planDelta cr current desired =
    (let added = missingKeys (keysFrom cr 0 desired) (keysFrom cr 0 current);
         removed = missingKeys (keysFrom cr 0 current) (keysFrom cr 0 desired)
     in if length added + length removed > 1 then None
        else if length added + length removed = 0 then Some NoChange
        else if added \<noteq> [] then Some (AddConsenter (desired ! snd (last added)))
        else Some (RemoveConsenter (snd (last removed))))"

fun applyDelta :: "RaftDelta \<Rightarrow> RaftConsenter list \<Rightarrow> RaftConsenter list" where
  "applyDelta NoChange xs = xs"
| "applyDelta (AddConsenter c) xs = xs @ [c]"
| "applyDelta (RemoveConsenter i) xs = take i xs @ drop (Suc i) xs"

lemma single_difference:
  assumes "finite A" "finite B" "card (A - B) + card (B - A) = 1"
  shows "(\<exists>x. x \<notin> B \<and> A = insert x B) \<or> (\<exists>x. x \<notin> A \<and> B = insert x A)"
proof -
  consider "card (A - B) = 1" "card (B - A) = 0" | "card (A - B) = 0" "card (B - A) = 1"
    using assms(3) by linarith
  then show ?thesis
  proof cases
    case 1
    then obtain x where "A - B = {x}" by (auto simp: card_1_singleton_iff)
    moreover have "B - A = {}" using 1 assms by simp
    ultimately show ?thesis by blast
  next
    case 2
    then obtain x where "B - A = {x}" by (auto simp: card_1_singleton_iff)
    moreover have "A - B = {}" using 2 assms by simp
    ultimately show ?thesis by blast
  qed
qed

lemma keyset_simps [simp]:
  "keyset cr [] = {}"
  "keyset cr (c # xs) = insert (consenterKey cr c) (keyset cr xs)"
  "keyset cr (xs @ ys) = keyset cr xs \<union> keyset cr ys"
  by (auto simp: keyset_def)

lemma finite_keyset [simp]: "finite (keyset cr xs)"
  by (simp add: keyset_def)

definition consistent :: "Crypto \<Rightarrow> RaftConsenter list \<Rightarrow> bool" where
  "consistent cr xs \<longleftrightarrow> xs \<noteq> [] \<and> compatible cr xs"

lemma planDelta_Add:
  assumes "planDelta cr cur des = Some (AddConsenter c)"
    and "distinct (map (consenterKey cr) cur)" "distinct (map (consenterKey cr) des)"
  shows "c \<in> set des" "consenterKey cr c \<notin> keyset cr cur" "keyset cr des = insert (consenterKey cr c) (keyset cr cur)"
proof -
  let ?added = "missingKeys (keysFrom cr 0 des) (keysFrom cr 0 cur)"
  from assms(1) have ne: "?added \<noteq> []" and c: "c = des ! snd (last ?added)"
    and le: "length ?added + length (missingKeys (keysFrom cr 0 cur) (keysFrom cr 0 des)) \<le> 1"
    by (auto simp: planDelta_def Let_def split: if_splits)
  from missing_index [OF ne] c show "c \<in> set des" "consenterKey cr c \<notin> keyset cr cur" by auto
  have "length ?added \<ge> 1" using ne by (cases ?added) auto
  with le have "card (keyset cr des - keyset cr cur) + card (keyset cr cur - keyset cr des) = 1"
    "card (keyset cr des - keyset cr cur) = 1"
    by (simp_all add: length_missingKeys [OF assms(2)] length_missingKeys [OF assms(3)])
  then have d: "card (keyset cr des - keyset cr cur) = 1" "keyset cr cur - keyset cr des = {}" by auto
  moreover have "consenterKey cr c \<in> keyset cr des - keyset cr cur" using missing_index [OF ne] c by simp
  ultimately have "keyset cr des - keyset cr cur = {consenterKey cr c}"
    by (metis card_1_singletonE singletonD)
  with d(2) show "keyset cr des = insert (consenterKey cr c) (keyset cr cur)" by blast
qed

lemma planDelta_Remove:
  assumes "planDelta cr cur des = Some (RemoveConsenter i)"
    and "distinct (map (consenterKey cr) cur)" "distinct (map (consenterKey cr) des)"
  shows "i < length cur" "consenterKey cr (cur ! i) \<notin> keyset cr des"
    "keyset cr cur = insert (consenterKey cr (cur ! i)) (keyset cr des)"
proof -
  let ?removed = "missingKeys (keysFrom cr 0 cur) (keysFrom cr 0 des)"
  from assms(1) have ne: "?removed \<noteq> []" and i: "i = snd (last ?removed)"
    and no: "missingKeys (keysFrom cr 0 des) (keysFrom cr 0 cur) = []"
    and le: "length ?removed \<le> 1"
    by (auto simp: planDelta_def Let_def split: if_splits)
  from missing_index [OF ne] i show "i < length cur" "consenterKey cr (cur ! i) \<notin> keyset cr des" by auto
  have "length ?removed = 1" using ne le by (cases ?removed) auto
  then have "card (keyset cr cur - keyset cr des) = 1" by (simp add: length_missingKeys [OF assms(2)])
  moreover have "consenterKey cr (cur ! i) \<in> keyset cr cur - keyset cr des" using missing_index [OF ne] i by simp
  ultimately have "keyset cr cur - keyset cr des = {consenterKey cr (cur ! i)}"
    by (metis card_1_singletonE singletonD)
  moreover have "keyset cr des - keyset cr cur = {}"
    using no length_missingKeys [OF assms(3), of cur] by simp
  ultimately show "keyset cr cur = insert (consenterKey cr (cur ! i)) (keyset cr des)" by blast
qed

lemma planDelta_NoChange:
  assumes "planDelta cr cur des = Some NoChange"
    and "distinct (map (consenterKey cr) cur)" "distinct (map (consenterKey cr) des)"
  shows "keyset cr des = keyset cr cur"
proof -
  have "length (missingKeys (keysFrom cr 0 des) (keysFrom cr 0 cur)) = 0"
    "length (missingKeys (keysFrom cr 0 cur) (keysFrom cr 0 des)) = 0"
    using assms(1) by (auto simp: planDelta_def Let_def split: if_splits)
  then show ?thesis
    unfolding length_missingKeys [OF assms(2)] length_missingKeys [OF assms(3)] by auto
qed

section \<open>The plan as a change of the consenter list\<close>

lemma mapM_option_append:
  "mapM_option f (xs @ ys) =
     (case mapM_option f xs of None \<Rightarrow> None
      | Some a \<Rightarrow> (case mapM_option f ys of None \<Rightarrow> None | Some b \<Rightarrow> Some (a @ b)))"
  by (induction xs) (auto split: option.splits)

lemma mapM_option_length: "mapM_option f xs = Some ys \<Longrightarrow> length ys = length xs"
  by (induction xs arbitrary: ys) (auto split: option.splits)

lemma mapM_option_take_drop:
  assumes "mapM_option f xs = Some ys"
  shows "mapM_option f (take i xs) = Some (take i ys)" "mapM_option f (drop i xs) = Some (drop i ys)"
proof -
  have "mapM_option f (take i xs @ drop i xs) = Some ys" using assms by simp
  then obtain a b where ab: "mapM_option f (take i xs) = Some a" "mapM_option f (drop i xs) = Some b" "ys = a @ b"
    by (auto simp: mapM_option_append split: option.splits simp del: append_take_drop_id)
  moreover have "length a = min (length xs) i" using mapM_option_length [OF ab(1)] by simp
  moreover have "length ys = length xs" by (rule mapM_option_length [OF assms])
  ultimately show "mapM_option f (take i xs) = Some (take i ys)" "mapM_option f (drop i xs) = Some (drop i ys)"
    by (auto simp: min_def split: if_splits)
qed

lemma parseUint_itoa_nat: "n < 2 ^ w \<Longrightarrow> parseUint w (itoa_nat n) = Some n"
  by (simp add: parseUint_def)

lemma jbytes_marshal_bytes: "base64_inverse cr \<Longrightarrow> jbytes cr (marshal_bytes cr b) = Some b"
  by (simp add: marshal_bytes_def base64_inverse_def)

lemma decode_marshalConsenter:
  assumes "base64_inverse cr" and "rc_Port c < 2 ^ 32"
  shows "decodeConsenter cr (marshalConsenter cr c) = Some c"
proof -
  have low: "toLower ''host'' = ''host''" "toLower ''port'' = ''port''"
    "toLower ''client_tls_cert'' = ''client_tls_cert''" "toLower ''server_tls_cert'' = ''server_tls_cert''"
    by code_simp+
  show ?thesis
    using assms
    by (simp add: decodeConsenter_def marshalConsenter_def jmember_def jmember_opt_def low
        parseUint_itoa_nat jbytes_marshal_bytes del: itoa_nat.simps)
qed

lemma decodeConsenters_slice:
  "decodeConsenters cr j = Some cs \<longleftrightarrow> (\<exists>es. jslice j = Some es \<and> mapM_option (decodeConsenter cr) es = Some cs)"
  by (auto simp: decodeConsenters_def bind_eq_Some_conv)

definition raftSource :: "Crypto \<Rightarrow> json option \<Rightarrow> string \<Rightarrow> RaftConsenter list \<Rightarrow> bool" where
  "raftSource cr original sequence current \<longleftrightarrow>
     configSequenceOf original = Some sequence \<and> parseUint 64 sequence \<noteq> None \<and>
     (\<exists>raw. raftJSONValue original consensusPath = Inr raw \<and> consensusOf raw = Some (''etcdraft'', ''STATE_NORMAL'')) \<and>
     RaftConsentersFromConfig cr original = Inr current \<and> consistent cr current"

lemma RaftConsentersFromConfig_iff:
  "RaftConsentersFromConfig cr config = Inr cs \<longleftrightarrow>
     (\<exists>raw. raftJSONValue config consentersPath = Inr raw \<and> decodeConsenters cr raw = Some cs)"
  by (auto simp: RaftConsentersFromConfig_def split: sum.splits option.splits)

lemma planRaftConfig_iff:
  assumes "sha256_len32 cr"
  shows "planRaftConfig cr original channel desired = Inr plan \<longleftrightarrow>
     (\<exists>sequence current raw. raftSource cr original sequence current \<and> consistent cr desired \<and>
        raftJSONValue original consentersPath = Inr raw \<and> decodeConsenters cr raw = Some current \<and>
        planRaftDelta cr original channel sequence raw current (keysFrom cr 0 current) desired
          (keysFrom cr 0 desired) = Inr plan)"
proof -
  note v = validateRaftConsenters_iff [OF assms]
  have ok: "validateRaftConsenters cr xs = Inr (keysFrom cr 0 xs)" if "consistent cr xs" for xs
    using that by (simp add: v consistent_def)
  show ?thesis (is "?L \<longleftrightarrow> ?R")
  proof
    show "?L \<Longrightarrow> ?R"
      by (auto simp: planRaftConfig_def raftSource_def RaftConsentersFromConfig_iff consistent_def v
          split: option.splits sum.splits prod.splits if_splits)
    show "?R \<Longrightarrow> ?L"
      by (auto simp: planRaftConfig_def raftSource_def RaftConsentersFromConfig_iff ok)
  qed
qed

definition planOf ::
  "json option \<Rightarrow> string \<Rightarrow> string \<Rightarrow> RaftConsenter list \<Rightarrow> RaftConsenter list \<Rightarrow> RaftUpdatePlan" where
  "planOf original channel sequence current desired =
     \<lparr>rp_APIVersion = ''fabricops.io/v1alpha1'', rp_Kind = ''FabricChannelRaftUpdatePlan'',
      rp_Channel = channel, rp_ConfigSequence = sequence, rp_Action = ''AlreadyApplied'',
      rp_Target = None, rp_CurrentQuorum = int (length current div 2 + 1),
      rp_DesiredQuorum = int (length desired div 2 + 1), rp_Warnings = raftWarnings,
      rp_OriginalConfig = original, rp_UpdatedConfig = original\<rparr>"

fun actionOf :: "RaftDelta \<Rightarrow> string" where
  "actionOf NoChange = ''AlreadyApplied''"
| "actionOf (AddConsenter c) = ''Add''"
| "actionOf (RemoveConsenter i) = ''Remove''"

fun targetOf :: "RaftConsenter list \<Rightarrow> RaftDelta \<Rightarrow> RaftConsenter option" where
  "targetOf current NoChange = None"
| "targetOf current (AddConsenter c) = Some c"
| "targetOf current (RemoveConsenter i) = Some (current ! i)"

fun entriesAfter :: "Crypto \<Rightarrow> RaftDelta \<Rightarrow> json list \<Rightarrow> json list" where
  "entriesAfter cr NoChange es = es"
| "entriesAfter cr (AddConsenter c) es = es @ [marshalConsenter cr c]"
| "entriesAfter cr (RemoveConsenter i) es = take i es @ drop (Suc i) es"

lemma planRaftDelta_eq:
  assumes "jslice raw = Some entries"
  shows "planRaftDelta cr original channel sequence raw current (keysFrom cr 0 current) desired (keysFrom cr 0 desired) =
    (case planDelta cr current desired of
       None \<Rightarrow> Inl (''change exactly one Raft consenter at a time; '' @
                  ''batch changes, replacements, endpoint moves, and certificate rotation are not supported'')
     | Some NoChange \<Rightarrow> Inr (planOf original channel sequence current desired)
     | Some d \<Rightarrow>
         (case replaceRaftJSONValue original consentersPath (JArr (entriesAfter cr d entries)) of
            Inl e \<Rightarrow> Inl e
          | Inr updated \<Rightarrow>
              Inr ((planOf original channel sequence current desired)
                     \<lparr>rp_Action := actionOf d, rp_Target := targetOf current d, rp_UpdatedConfig := Some updated\<rparr>)))"
  using assms by (simp add: planRaftDelta_def planDelta_def planOf_def Let_def split: sum.splits)

lemma consentersPath_ne: "consentersPath \<noteq> []"
  by (simp add: consentersPath_def)

lemma consistent_distinct: "sha256_len32 cr \<Longrightarrow> consistent cr xs \<Longrightarrow> distinct (map (consenterKey cr) xs)"
  by (simp add: consistent_def compatible_keys_distinct)

lemma decode_entriesAfter:
  assumes "mapM_option (decodeConsenter cr) es = Some cs" and "base64_inverse cr"
    and "\<And>c. d = AddConsenter c \<Longrightarrow> consenterOk cr c"
  shows "mapM_option (decodeConsenter cr) (entriesAfter cr d es) = Some (applyDelta d cs)"
proof (cases d)
  case (AddConsenter c)
  then have "rc_Port c < 2 ^ 32" using assms(3) by (auto simp: consenterOk_def)
  with AddConsenter assms decode_marshalConsenter show ?thesis by (simp add: mapM_option_append)
next
  case (RemoveConsenter i)
  with assms show ?thesis by (simp add: mapM_option_append mapM_option_take_drop)
qed (use assms in simp)

lemma config_is_object: "raftJSONValue config consentersPath = Inr v \<Longrightarrow> \<exists>j. config = Some j"
  by (cases config) (auto simp: consentersPath_def consensusPath_def)

text \<open>The planner succeeds exactly on a well-formed source and a desired set at most one step away.\<close>

lemma planRaftConfig_delta:
  assumes "sha256_len32 cr" and "base64_inverse cr"
    and "raftSource cr original sequence current" and "consistent cr desired"
    and "planDelta cr current desired = Some d"
  shows "\<exists>updated. planRaftConfig cr original channel desired =
           Inr ((planOf original channel sequence current desired)
                  \<lparr>rp_Action := actionOf d, rp_Target := targetOf current d, rp_UpdatedConfig := updated\<rparr>) \<and>
         RaftConsentersFromConfig cr updated = Inr (applyDelta d current) \<and>
         (d = NoChange \<longrightarrow> updated = original) \<and> (\<exists>j. updated = Some j) \<and>
         (\<forall>q. diverge consentersPath q \<longrightarrow> raftJSONValue updated q = raftJSONValue original q)"
proof -
  from assms(3) obtain raw where
    raw: "raftJSONValue original consentersPath = Inr raw" "decodeConsenters cr raw = Some current"
    by (auto simp: raftSource_def RaftConsentersFromConfig_iff)
  then obtain es where es: "jslice raw = Some es" "mapM_option (decodeConsenter cr) es = Some current"
    by (auto simp: decodeConsenters_slice)
  from config_is_object [OF raw(1)] obtain j where j: "original = Some j" by blast
  note run = planRaftConfig_iff [OF assms(1), of original channel desired]
  show ?thesis
  proof (cases "d = NoChange")
    case True
    have "planRaftConfig cr original channel desired = Inr (planOf original channel sequence current desired)"
      unfolding run using assms raw True by (auto simp: planRaftDelta_eq [OF es(1)])
    with True assms(3) j show ?thesis
      by (intro exI [of _ original]) (simp add: planOf_def raftSource_def)
  next
    case False
    from replace_after_read [OF raw(1) [unfolded j] consentersPath_ne] obtain kvs where
      upd: "replaceRaftJSONValue (Some j) consentersPath (JArr (entriesAfter cr d es)) = Inr (JObj kvs)"
        "raftJSONValue (Some (JObj kvs)) consentersPath = Inr (JArr (entriesAfter cr d es))"
      by blast
    have "planRaftConfig cr original channel desired =
      Inr ((planOf original channel sequence current desired)
             \<lparr>rp_Action := actionOf d, rp_Target := targetOf current d, rp_UpdatedConfig := Some (JObj kvs)\<rparr>)"
      unfolding run using assms raw False upd(1)
      by (intro exI [of _ sequence] exI [of _ current] exI [of _ raw])
         (auto simp: planRaftDelta_eq [OF es(1)] j split: RaftDelta.splits)
    moreover have "consenterOk cr c" if "d = AddConsenter c" for c
      using planDelta_Add(1) [of cr current desired c] that assms compatible_ok consistent_distinct
      by (auto simp: consistent_def raftSource_def)
    then have "RaftConsentersFromConfig cr (Some (JObj kvs)) = Inr (applyDelta d current)"
      unfolding RaftConsentersFromConfig_iff upd(2)
      using decode_entriesAfter [OF es(2) assms(2)] by (auto simp: decodeConsenters_slice)
    moreover have "raftJSONValue (Some (JObj kvs)) q = raftJSONValue original q" if "diverge consentersPath q" for q
      unfolding j by (rule replace_frame [OF upd(1) raw(1) [unfolded j] that]) simp
    ultimately show ?thesis using False by blast
  qed
qed

section \<open>The consenter set a plan leads to\<close>

definition apart :: "Crypto \<Rightarrow> RaftConsenter \<Rightarrow> RaftConsenter \<Rightarrow> bool" where
  "apart cr c d \<longleftrightarrow> consenterEndpoint d \<noteq> consenterEndpoint c \<and> hashes cr c \<inter> hashes cr d = {}"

lemma compatible_sorted_wrt:
  "compatible cr xs \<longleftrightarrow> (\<forall>c \<in> set xs. consenterOk cr c) \<and> sorted_wrt (apart cr) xs"
  by (induction xs) (auto simp: apart_def)

lemma apart_sym: "apart cr c d \<Longrightarrow> apart cr d c"
  by (auto simp: apart_def)

lemma compatible_apart:
  "compatible cr xs \<Longrightarrow> c \<in> set xs \<Longrightarrow> d \<in> set xs \<Longrightarrow> c \<noteq> d \<Longrightarrow> apart cr c d"
  by (induction xs) (auto simp: compatible_sorted_wrt dest: apart_sym)

lemma same_key:
  assumes "sha256_len32 cr" "consenterOk cr c" "consenterOk cr d" "consenterKey cr c = consenterKey cr d"
  shows "consenterEndpoint c = consenterEndpoint d" "hashes cr c = hashes cr d"
  using consenterKey_eqD [OF assms] by (simp_all add: hashes_def hex_encode_inj)

lemma applyDelta_keyset:
  assumes "sha256_len32 cr" "consistent cr cur" "consistent cr des" "planDelta cr cur des = Some d"
  shows "keyset cr (applyDelta d cur) = keyset cr des"
proof (cases d)
  case NoChange
  with planDelta_NoChange assms consistent_distinct show ?thesis by simp
next
  case (AddConsenter c)
  with planDelta_Add(3) [of cr cur des c] assms consistent_distinct show ?thesis by (simp add: keyset_def)
next
  case (RemoveConsenter i)
  with assms have r: "i < length cur" "consenterKey cr (cur ! i) \<notin> keyset cr des"
    "keyset cr cur = insert (consenterKey cr (cur ! i)) (keyset cr des)"
    using planDelta_Remove consistent_distinct by blast+
  have cur: "cur = take i cur @ cur ! i # drop (Suc i) cur" using r(1) by (rule id_take_nth_drop)
  have "distinct (map (consenterKey cr) (take i cur @ cur ! i # drop (Suc i) cur))"
    using consistent_distinct [OF assms(1,2)] cur by simp
  moreover have "keyset cr (take i cur @ cur ! i # drop (Suc i) cur) = insert (consenterKey cr (cur ! i)) (keyset cr des)"
    using r(3) cur by simp
  ultimately have "consenterKey cr (cur ! i) \<notin> keyset cr (take i cur @ drop (Suc i) cur)"
    and "insert (consenterKey cr (cur ! i)) (keyset cr (take i cur @ drop (Suc i) cur)) =
         insert (consenterKey cr (cur ! i)) (keyset cr des)"
    by (simp_all add: keyset_def image_Un)
  then show ?thesis using r(2) unfolding RemoveConsenter applyDelta.simps by (simp add: insert_ident)
qed

lemma applyDelta_consistent:
  assumes "sha256_len32 cr" "consistent cr cur" "consistent cr des" "planDelta cr cur des = Some d"
  shows "consistent cr (applyDelta d cur)"
proof -
  have "keyset cr (applyDelta d cur) \<noteq> {}"
    using applyDelta_keyset [OF assms] assms(3) by (simp add: consistent_def keyset_def)
  then have ne: "applyDelta d cur \<noteq> []" by (auto simp: keyset_def)
  have cur: "compatible cr cur" and des: "compatible cr des" using assms by (simp_all add: consistent_def)
  have "compatible cr (applyDelta d cur)"
  proof (cases d)
    case (AddConsenter c)
    with assms have c: "c \<in> set des" "consenterKey cr c \<notin> keyset cr cur"
      "keyset cr des = insert (consenterKey cr c) (keyset cr cur)"
      using planDelta_Add consistent_distinct by blast+
    have "apart cr x c" if x: "x \<in> set cur" for x
    proof -
      from x c(3) obtain y where y: "y \<in> set des" "consenterKey cr x = consenterKey cr y"
        by (auto simp: keyset_def)
      then have "y \<noteq> c" using c(2) x by (metis imageI keyset_def)
      then have "apart cr y c" using compatible_apart [OF des y(1) c(1)] by simp
      with same_key [OF assms(1) compatible_ok [OF cur x] compatible_ok [OF des y(1)] y(2)]
      show ?thesis by (simp add: apart_def)
    qed
    with cur compatible_ok [OF des c(1)] AddConsenter show ?thesis
      by (auto simp: compatible_sorted_wrt sorted_wrt_append)
  next
    case (RemoveConsenter i)
    have srt: "sorted_wrt (apart cr) (take i cur @ drop i cur)" "sorted_wrt (apart cr) (drop (Suc i) cur)"
      using cur by (simp_all add: compatible_sorted_wrt sorted_wrt_drop)
    moreover have "set (drop (Suc i) cur) \<subseteq> set (drop i cur)" by (simp add: set_drop_subset_set_drop)
    ultimately have "sorted_wrt (apart cr) (take i cur @ drop (Suc i) cur)"
      unfolding sorted_wrt_append by blast
    with cur RemoveConsenter show ?thesis
      by (auto simp: compatible_sorted_wrt dest: in_set_takeD in_set_dropD)
  qed (use cur in simp)
  with ne show ?thesis by (simp add: consistent_def)
qed

lemma length_eq_keyset:
  assumes "sha256_len32 cr" "consistent cr xs" "consistent cr ys" "keyset cr xs = keyset cr ys"
  shows "length xs = length ys"
  using assms card_keyset consistent_distinct by metis

lemma planRaftConfig_InrD:
  assumes "sha256_len32 cr" and "planRaftConfig cr original channel desired = Inr plan"
  obtains sequence current d where "raftSource cr original sequence current" "consistent cr current"
    "consistent cr desired" "planDelta cr current desired = Some d"
proof -
  from assms(2) obtain sequence current raw where
    s: "raftSource cr original sequence current" "consistent cr desired" "decodeConsenters cr raw = Some current"
    and p: "planRaftDelta cr original channel sequence raw current (keysFrom cr 0 current) desired
          (keysFrom cr 0 desired) = Inr plan"
    unfolding planRaftConfig_iff [OF assms(1)] by blast
  from s(3) obtain es where es: "jslice raw = Some es" by (auto simp: decodeConsenters_slice)
  from p obtain d where "planDelta cr current desired = Some d"
    by (auto simp: planRaftDelta_eq [OF es] split: option.splits)
  with that s show ?thesis by (auto simp: raftSource_def)
qed

section \<open>Review of a plan\<close>

lemma missingKeys_self: "missingKeys (keysFrom cr 0 xs) (keysFrom cr 0 xs) = []"
  by (auto simp: missingKeys_keysFrom keyset_def filter_empty_conv keysFrom_nth)

lemma keysFrom_append: "keysFrom cr i (xs @ ys) = keysFrom cr i xs @ keysFrom cr (i + length xs) ys"
proof -
  have "[i..<i + length (xs @ ys)] = [i..<i + length xs] @ [i + length xs..<i + length xs + length ys]"
    using upt_add_eq_append [of i "i + length xs" "length ys"] by (simp add: add.assoc)
  then show ?thesis by (simp add: keysFrom_def)
qed

lemma missingKeys_subset:
  "keyset cr ys \<subseteq> keyset cr xs \<Longrightarrow> missingKeys (keysFrom cr 0 ys) (keysFrom cr 0 xs) = []"
  by (auto simp: missingKeys_keysFrom keyset_def filter_empty_conv keysFrom_nth)

text \<open>Planning the outcome of a change from the same source proposes that very change again.\<close>

lemma planDelta_again:
  assumes "sha256_len32 cr" "consistent cr cur" "consistent cr des" "planDelta cr cur des = Some d"
  shows "planDelta cr cur (applyDelta d cur) = Some d"
proof (cases d)
  case NoChange
  then show ?thesis by (simp add: planDelta_def missingKeys_self)
next
  case (AddConsenter c)
  with assms have new: "consenterKey cr c \<notin> keyset cr cur"
    using planDelta_Add consistent_distinct by blast
  have none: "missingKeys (keysFrom cr 0 cur) (keysFrom cr 0 (cur @ [c])) = []"
    by (rule missingKeys_subset) (auto simp: keyset_def)
  have "filter (\<lambda>kv. fst kv \<notin> keyset cr cur) (keysFrom cr 0 cur) = []"
    using missingKeys_self [of cr cur] by (simp add: missingKeys_keysFrom)
  then have "missingKeys (keysFrom cr 0 (cur @ [c])) (keysFrom cr 0 cur) = [(consenterKey cr c, length cur)]"
    using new by (simp add: missingKeys_keysFrom keysFrom_append keysFrom_def [of cr _ "[c]"])
  with none AddConsenter show ?thesis by (simp add: planDelta_def)
next
  case (RemoveConsenter i)
  let ?new = "take i cur @ drop (Suc i) cur" and ?k = "consenterKey cr (cur ! i)"
  from RemoveConsenter assms have r: "i < length cur" "?k \<notin> keyset cr des"
    "keyset cr cur = insert ?k (keyset cr des)"
    using planDelta_Remove consistent_distinct by blast+
  have ks: "keyset cr ?new = keyset cr des" using applyDelta_keyset [OF assms] RemoveConsenter by simp
  then have none: "missingKeys (keysFrom cr 0 ?new) (keysFrom cr 0 cur) = []"
    using r(3) by (intro missingKeys_subset) auto
  let ?gone = "missingKeys (keysFrom cr 0 cur) (keysFrom cr 0 ?new)"
  have dist: "distinct (map (consenterKey cr) cur)" using assms consistent_distinct by blast
  have "length ?gone = 1"
    unfolding length_missingKeys [OF dist] ks using r(2,3) by (simp add: insert_Diff_if)
  moreover have ne: "?gone \<noteq> []" using calculation by auto
  have "consenterKey cr (cur ! snd (last ?gone)) = ?k"
    using missing_index(2) [OF ne] r(3) unfolding ks by auto
  then have "snd (last ?gone) = i"
    using missing_index(1) [OF ne] r(1) dist by (simp add: distinct_conv_nth) (metis length_map nth_map)
  ultimately show ?thesis using none RemoveConsenter ne by (simp add: planDelta_def)
qed

lemma planOf_length: "length des = length des' \<Longrightarrow> planOf orig ch s cur des = planOf orig ch s cur des'"
  by (simp add: planOf_def)

lemma plan_again:
  assumes "sha256_len32 cr" and "base64_inverse cr" and "planRaftConfig cr original channel desired = Inr plan"
  obtains new where "RaftConsentersFromConfig cr (rp_UpdatedConfig plan) = Inr new"
    "planRaftConfig cr original channel new = Inr plan"
proof -
  from assms obtain sequence current d where
    s: "raftSource cr original sequence current" "consistent cr current" "consistent cr desired"
       "planDelta cr current desired = Some d"
    using planRaftConfig_InrD by blast
  let ?new = "applyDelta d current"
  have n: "consistent cr ?new" "planDelta cr current ?new = Some d" "length ?new = length desired"
    using applyDelta_consistent planDelta_again length_eq_keyset applyDelta_keyset assms(1) s by blast+
  from planRaftConfig_delta [OF assms(1,2) s(1,3,4), of channel] assms(3) have
    "RaftConsentersFromConfig cr (rp_UpdatedConfig plan) = Inr ?new" by auto
  moreover have "planRaftConfig cr original channel ?new = planRaftConfig cr original channel desired"
  proof -
    from s(1) obtain raw where
      raw: "raftJSONValue original consentersPath = Inr raw" "decodeConsenters cr raw = Some current"
      by (auto simp: raftSource_def RaftConsentersFromConfig_iff)
    then obtain es where es: "jslice raw = Some es" by (auto simp: decodeConsenters_slice)
    let ?delta = "\<lambda>x. planRaftDelta cr original channel sequence raw current (keysFrom cr 0 current) x (keysFrom cr 0 x)"
    have "?delta ?new = ?delta desired"
      unfolding planRaftDelta_eq [OF es] n(2) s(4) planOf_length [OF n(3)] ..
    moreover have "?delta desired = Inr plan"
      using assms(3) s raw unfolding planRaftConfig_iff [OF assms(1)] by (auto simp: raftSource_def)
    ultimately have "planRaftConfig cr original channel ?new = Inr plan"
      unfolding planRaftConfig_iff [OF assms(1)] using s(1) n(1) raw by metis
    with assms(3) show ?thesis by simp
  qed
  ultimately show ?thesis using that assms(3) by simp
qed

lemma planMembers_lower:
  "toLower ''apiVersion'' = ''apiversion''" "toLower ''kind'' = ''kind''" "toLower ''channel'' = ''channel''"
  "toLower ''configSequence'' = ''configsequence''" "toLower ''action'' = ''action''" "toLower ''target'' = ''target''"
  "toLower ''currentQuorum'' = ''currentquorum''" "toLower ''desiredQuorum'' = ''desiredquorum''"
  "toLower ''warnings'' = ''warnings''" "toLower ''originalConfig'' = ''originalconfig''"
  "toLower ''updatedConfig'' = ''updatedconfig''"
  by code_simp+

lemma itoa_nat_hd: "itoa_nat n = c # cs \<Longrightarrow> c \<noteq> CHR ''-'' \<and> c \<noteq> CHR ''+''"
  using itoa_nat_digits [of n] by (auto simp: is_digit_def)

lemma atoi_itoa:
  assumes "0 \<le> i" "i < 2 ^ 63"
  shows "atoi (itoa i) = Some i"
proof (cases "itoa_nat (nat i)")
  case Nil
  then show ?thesis by simp
next
  case (Cons c cs)
  have "decimal (c # cs) = Some (nat i)" using Cons decimal_itoa_nat by metis
  moreover have "nat i < 2 ^ 63" using assms by simp
  ultimately show ?thesis
    using assms itoa_nat_hd [OF Cons] Cons by (simp add: atoi_def itoa_def)
qed

lemma mapM_jstring [simp]: "mapM_option jstring (map JStr xs) = Some xs"
  by (induction xs) auto

lemma decode_marshalPlan:
  assumes "base64_inverse cr" and "\<forall>c. rp_Target p = Some c \<longrightarrow> rc_Port c < 2 ^ 32"
    and "0 \<le> rp_CurrentQuorum p" "rp_CurrentQuorum p < 2 ^ 63"
    and "0 \<le> rp_DesiredQuorum p" "rp_DesiredQuorum p < 2 ^ 63"
    and "rp_OriginalConfig p = Some a" and "rp_UpdatedConfig p = Some b"
  shows "decodePlan cr (marshalPlan cr p) = Some p"
proof -
  have t: "(case marshalConsenter cr c of JNull \<Rightarrow> Some None | t \<Rightarrow> map_option Some (decodeConsenter cr t)) = Some (Some c)"
    if "rp_Target p = Some c" for c
    using decode_marshalConsenter [OF assms(1)] assms(2) that by (simp add: marshalConsenter_def)
  show ?thesis
    using t atoi_itoa [OF assms(3,4)] atoi_itoa [OF assms(5,6)]
    by (cases "rp_Target p")
       (simp_all add: decodePlan_def marshalPlan_def jmember_def jmember_opt_def planMembers_lower
         marshal_raw_def assms(7,8))
qed

text \<open>Two documents equal after decoding to values read equally along every path.\<close>

lemma map_of_map_snd: "map_of (map (\<lambda>kv. (fst kv, f (snd kv))) kvs) k = map_option f (map_of kvs k)"
  by (induction kvs) auto

lemma map_of_canon:
  "canon (JObj kvs) = JObj kvs' \<Longrightarrow> map_of kvs' f = map_option canon (map_of (jmap kvs) f)"
proof -
  assume "canon (JObj kvs) = JObj kvs'"
  then have "kvs' = sort_key fst (jmap (map (\<lambda>kv. (fst kv, canon (snd kv))) kvs))"
    by (simp add: marshal_map_def)
  then have "map_of kvs' = map_of (jmap (map (\<lambda>kv. (fst kv, canon (snd kv))) kvs))"
    by (metis distinct_jmap map_of_perm mset_sort)
  then show ?thesis by (simp add: map_of_jmap map_of_map_snd rev_map)
qed

lemma canon_eq_JNull [simp]: "canon v = JNull \<longleftrightarrow> v = JNull"
  by (cases v) (auto simp: marshal_map_def)

lemma canon_read:
  "canon a = canon b \<Longrightarrow>
   map_sum id canon (raftJSONValue (Some a) q) = map_sum id canon (raftJSONValue (Some b) q)"
proof (induction q arbitrary: a b)
  case (Cons f q)
  show ?case
  proof (cases "\<exists>ka. a = JObj ka")
    case True
    then obtain ka where a: "a = JObj ka" by blast
    with Cons.prems obtain kb where b: "b = JObj kb" by (cases b) (auto simp: marshal_map_def)
    have same: "map_option canon (map_of (jmap ka) f) = map_option canon (map_of (jmap kb) f)"
      using map_of_canon [of ka _ f] map_of_canon [of kb _ f] Cons.prems
      by (simp add: a b marshal_map_def)
    show ?thesis
    proof (cases "map_of (jmap ka) f")
      case None
      with same show ?thesis by (simp add: a b)
    next
      case (Some v)
      with same obtain w where w: "map_of (jmap kb) f = Some w" "canon v = canon w"
        by (cases "map_of (jmap kb) f") simp_all
      then have "v = JNull \<longleftrightarrow> w = JNull" using canon_eq_JNull by metis
      with Some w Cons.IH [OF w(2)] show ?thesis by (simp add: a b)
    qed
  next
    case False
    with Cons.prems show ?thesis by (cases a; cases b) (auto simp: marshal_map_def)
  qed
qed simp

section \<open>Properties\<close>

definition sampleConsenter :: "string \<Rightarrow> RaftConsenter" where
  "sampleConsenter n = \<lparr>rc_Host = n, rc_Port = 7050, rc_ClientTLSCert = ''C'' @ n @ ''c'', rc_ServerTLSCert = ''C'' @ n @ ''s''\<rparr>"

definition sampleConfig :: "RaftConsenter list \<Rightarrow> json" where
  "sampleConfig cs = JObj [(''channel_group'', JObj [(''groups'', JObj [(''Orderer'', JObj [(''values'',
     JObj [(''ConsensusType'', JObj [(''value'', JObj [
        (''metadata'', JObj [(''consenters'', JArr (map (marshalConsenter toy_crypto) cs))]),
        (''type'', JStr ''etcdraft''), (''state'', JStr ''STATE_NORMAL'')])])])])])]),
     (''sequence'', JStr ''5'')]"

definition sampleCurrent :: "RaftConsenter list" where
  "sampleCurrent = map sampleConsenter [''a'', ''b'', ''c'']"

definition sampleDesired :: "RaftConsenter list" where
  "sampleDesired = map sampleConsenter [''d'', ''a'', ''b'', ''c'']"

definition samplePlan :: RaftUpdatePlan where
  "samplePlan = (case planRaftConfig toy_crypto (Some (sampleConfig sampleCurrent)) ''ch'' sampleDesired of
     Inr p \<Rightarrow> p | Inl e \<Rightarrow> planOf None [] [] [] [])"

lemma mapM_marshal:
  "base64_inverse cr \<Longrightarrow> \<forall>c \<in> set cs. rc_Port c < 2 ^ 32 \<Longrightarrow>
   mapM_option (decodeConsenter cr) (map (marshalConsenter cr) cs) = Some cs"
  by (induction cs) (auto simp: decode_marshalConsenter)

lemma sampleMembers:
  "configSequenceOf (Some (sampleConfig cs)) = Some ''5''" "parseUint 64 ''5'' = Some 5"
  "raftJSONValue (Some (sampleConfig cs)) consentersPath = Inr (JArr (map (marshalConsenter toy_crypto) cs))"
  "\<exists>raw. raftJSONValue (Some (sampleConfig cs)) consensusPath = Inr raw \<and> consensusOf raw = Some (''etcdraft'', ''STATE_NORMAL'')"
proof -
  have low: "toLower ''sequence'' = ''sequence''" "toLower ''channel_group'' = ''channel_group''"
    "toLower ''metadata'' = ''metadata''" "toLower ''type'' = ''type''" "toLower ''state'' = ''state''"
    by code_simp+
  show "configSequenceOf (Some (sampleConfig cs)) = Some ''5''"
    by (simp add: configSequenceOf_def sampleConfig_def jmember_def jmember_opt_def low)
  show "parseUint 64 ''5'' = Some 5"
    by (simp add: parseUint_def decimal_def is_digit_def digit_val_def)
  show "raftJSONValue (Some (sampleConfig cs)) consentersPath = Inr (JArr (map (marshalConsenter toy_crypto) cs))"
    by (simp add: sampleConfig_def consentersPath_def consensusPath_def map_of_jmap)
  show "\<exists>raw. raftJSONValue (Some (sampleConfig cs)) consensusPath = Inr raw \<and> consensusOf raw = Some (''etcdraft'', ''STATE_NORMAL'')"
    by (simp add: sampleConfig_def consensusPath_def map_of_jmap consensusOf_def jmember_def jmember_opt_def low)
qed

lemma sample_consistent: "consistent toy_crypto sampleCurrent" "consistent toy_crypto sampleDesired"
proof -
  have ep: "consenterEndpoint (sampleConsenter [c]) = [c] @ '':'' @ itoa_nat 7050" if "c \<in> set ''abcd''" for c
    using that
    by (auto simp: consenterEndpoint_def endpointHostOf_def sampleConsenter_def joinHostPort_def
        trimSuffix_def hasPrefix_def toLower_def lower_char_def)
  have h: "certHash toy_crypto (''C'' @ [c, r]) = Some ([c, r] @ replicate 30 (CHR ''0''))" if "c \<noteq> CHR ''A''" for c r
    using that by (simp add: certHash_def toy_crypto_def)
  have hs: "hashes toy_crypto (sampleConsenter [c]) =
      {[c, CHR ''c''] @ replicate 30 (CHR ''0''), [c, CHR ''s''] @ replicate 30 (CHR ''0'')}" if "c \<noteq> CHR ''A''" for c
    using h [OF that, of "CHR ''c''"] h [OF that, of "CHR ''s''"]
    by (simp add: hashes_def clientHash_def serverHash_def sampleConsenter_def)
  have ok: "consenterOk toy_crypto (sampleConsenter [c])" if "c \<in> set ''abcd''" for c
    using that h [of c "CHR ''c''"] h [of c "CHR ''s''"]
    by (auto simp: consenterOk_def sampleConsenter_def endpointHostOf_def toy_crypto_def trimSuffix_def toLower_def
        certHash_def hasPrefix_def)
  show "consistent toy_crypto sampleCurrent" "consistent toy_crypto sampleDesired"
    by (simp_all add: consistent_def sampleCurrent_def sampleDesired_def ok ep hs)
qed

lemma sample_source: "raftSource toy_crypto (Some (sampleConfig sampleCurrent)) ''5'' sampleCurrent"
proof -
  have "\<forall>c \<in> set sampleCurrent. rc_Port c < 2 ^ 32"
    by (simp add: sampleCurrent_def sampleConsenter_def)
  then have "decodeConsenters toy_crypto (JArr (map (marshalConsenter toy_crypto) sampleCurrent)) = Some sampleCurrent"
    using mapM_marshal [of toy_crypto sampleCurrent] by (simp add: decodeConsenters_slice)
  then show ?thesis
    by (simp add: raftSource_def sampleMembers RaftConsentersFromConfig_iff sample_consistent)
qed

lemma planRaftConfig_success_iff:
  assumes "sha256_len32 cr" and "base64_inverse cr"
  shows "(\<exists>plan. planRaftConfig cr original channel desired = Inr plan) \<longleftrightarrow>
         (\<exists>sequence current. raftSource cr original sequence current \<and> consistent cr desired \<and>
            card (keyset cr desired - keyset cr current) + card (keyset cr current - keyset cr desired) \<le> 1)"
  (is "?L \<longleftrightarrow> ?R")
proof -
  have some: "(\<exists>d. planDelta cr cur des = Some d) \<longleftrightarrow>
      card (keyset cr des - keyset cr cur) + card (keyset cr cur - keyset cr des) \<le> 1"
    if "consistent cr cur" "consistent cr des" for cur des
    using length_missingKeys [OF consistent_distinct [OF assms(1) that(1)], of des]
      length_missingKeys [OF consistent_distinct [OF assms(1) that(2)], of cur]
    by (simp add: planDelta_def Let_def)
  show ?thesis
  proof
    assume ?L
    then obtain plan where "planRaftConfig cr original channel desired = Inr plan" ..
    from planRaftConfig_InrD [OF assms(1) this] some show ?R by metis
  next
    assume ?R
    then obtain sequence current where
      s: "raftSource cr original sequence current" "consistent cr desired"
         "card (keyset cr desired - keyset cr current) + card (keyset cr current - keyset cr desired) \<le> 1"
      by blast
    then obtain d where "planDelta cr current desired = Some d"
      using some [of current desired] by (auto simp: raftSource_def)
    from planRaftConfig_delta [OF assms s(1,2) this] show ?L by blast
  qed
qed

lemma samplePlan_ok:
  "planRaftConfig toy_crypto (Some (sampleConfig sampleCurrent)) ''ch'' sampleDesired = Inr samplePlan"
proof -
  have "keyset toy_crypto sampleDesired - keyset toy_crypto sampleCurrent \<subseteq> {consenterKey toy_crypto (sampleConsenter ''d'')}"
    "keyset toy_crypto sampleCurrent - keyset toy_crypto sampleDesired = {}"
    by (auto simp: sampleDesired_def sampleCurrent_def)
  then have "card (keyset toy_crypto sampleDesired - keyset toy_crypto sampleCurrent) \<le> 1"
    "card (keyset toy_crypto sampleCurrent - keyset toy_crypto sampleDesired) = 0"
    using card_mono [of "{consenterKey toy_crypto (sampleConsenter ''d'')}"] by (force, simp del: Diff_eq_empty_iff)
  then have "card (keyset toy_crypto sampleDesired - keyset toy_crypto sampleCurrent) +
      card (keyset toy_crypto sampleCurrent - keyset toy_crypto sampleDesired) \<le> 1" by linarith
  then have "\<exists>plan. planRaftConfig toy_crypto (Some (sampleConfig sampleCurrent)) ''ch'' sampleDesired = Inr plan"
    unfolding planRaftConfig_success_iff [OF toy_crypto_laws]
    using sample_source sample_consistent(2) by blast
  then show ?thesis by (auto simp: samplePlan_def)
qed

lemma plan_quorums:
  assumes "sha256_len32 cr" and "base64_inverse cr" and "planRaftConfig cr original channel desired = Inr plan"
    and "RaftConsentersFromConfig cr original = Inr current"
  shows "rp_CurrentQuorum plan = int (length current div 2 + 1)"
    and "rp_DesiredQuorum plan = int (length desired div 2 + 1)"
proof -
  from planRaftConfig_InrD [OF assms(1,3)] obtain sequence cur d where
    s: "raftSource cr original sequence cur" "consistent cr desired" "planDelta cr cur desired = Some d" by blast
  then have cur: "cur = current" using assms(4) by (simp add: raftSource_def)
  from planRaftConfig_delta [OF assms(1,2) s, of channel] assms(3)
  show "rp_CurrentQuorum plan = int (length current div 2 + 1)"
    "rp_DesiredQuorum plan = int (length desired div 2 + 1)"
    by (auto simp: planOf_def cur)
qed

lemma quorum_sets_meet:
  assumes "finite U" "S \<subseteq> U" "T \<subseteq> U" "card U < card S + card T"
  shows "S \<inter> T \<noteq> {}"
proof
  assume "S \<inter> T = {}"
  then have "card (S \<union> T) = card S + card T"
    using assms finite_subset by (metis card_Un_disjoint)
  moreover have "card (S \<union> T) \<le> card U" using assms by (simp add: card_mono)
  ultimately show False using assms(4) by simp
qed

lemma card_union_bound:
  assumes "sha256_len32 cr" "consistent cr cur" "consistent cr des" "planDelta cr cur des = Some d"
  shows "card (keyset cr cur \<union> keyset cr des) < (length cur div 2 + 1) + (length des div 2 + 1)"
proof (cases d)
  note dist = consistent_distinct [OF assms(1,2)] consistent_distinct [OF assms(1,3)]
  note sizes = card_keyset [OF dist(1)] card_keyset [OF dist(2)]
  {
    case NoChange
    then have "keyset cr des = keyset cr cur" using planDelta_NoChange assms(4) dist by blast
    with sizes show ?thesis by simp
  next
    case (AddConsenter c)
    then have k: "consenterKey cr c \<notin> keyset cr cur" "keyset cr des = insert (consenterKey cr c) (keyset cr cur)"
      using planDelta_Add assms(4) dist by blast+
    then have "card (keyset cr des) = Suc (card (keyset cr cur))" by simp
    moreover have "keyset cr cur \<union> keyset cr des = keyset cr des" using k(2) by blast
    ultimately show ?thesis using sizes by simp
  next
    case (RemoveConsenter i)
    then have k: "consenterKey cr (cur ! i) \<notin> keyset cr des"
      "keyset cr cur = insert (consenterKey cr (cur ! i)) (keyset cr des)"
      using planDelta_Remove assms(4) dist by blast+
    then have "card (keyset cr cur) = Suc (card (keyset cr des))" by simp
    moreover have "keyset cr cur \<union> keyset cr des = keyset cr cur" using k(2) by blast
    ultimately show ?thesis using sizes by simp
  }
qed





lemma planned_frame:
  assumes "sha256_len32 cr" and "base64_inverse cr" and "planRaftConfig cr original channel desired = Inr plan"
    and "diverge consentersPath q"
  shows "raftJSONValue (rp_UpdatedConfig plan) q = raftJSONValue original q"
proof -
  from planRaftConfig_InrD [OF assms(1,3)] obtain sequence current d where
    s: "raftSource cr original sequence current" "consistent cr current" "consistent cr desired"
       "planDelta cr current desired = Some d" by blast
  from planRaftConfig_delta [OF assms(1,2) s(1,3,4), of channel] assms(3,4) show ?thesis by auto
qed

text \<open>
  Claim C3. A plan touches nothing but the consenter list: along every path that parts from the
  path of the consenters, the updated configuration reads like the original one, errors included.
\<close>

theorem raft_plan_frame:
  assumes "sha256_len32 cr" and "base64_inverse cr" and "planRaftConfig cr original channel desired = Inr plan"
    and "diverge consentersPath q"
  shows "raftJSONValue (rp_UpdatedConfig plan) q = raftJSONValue original q"
  by (rule planned_frame [OF assms])

theorem raft_plan_frame_witness:
  "raftJSONValue (rp_UpdatedConfig samplePlan) (consensusPath @ [''type'']) =
   raftJSONValue (Some (sampleConfig sampleCurrent)) (consensusPath @ [''type''])"
  by (rule raft_plan_frame [OF toy_crypto_laws samplePlan_ok]) (simp add: consentersPath_def consensusPath_def)

text \<open>
  Claim C4. No split brain across a planned change: every set of current consenters that reaches
  \<open>CurrentQuorum\<close> shares a consenter with every set of desired consenters that reaches
  \<open>DesiredQuorum\<close>.
\<close>

theorem raft_quorum_overlap:
  assumes "sha256_len32 cr" and "base64_inverse cr" and "planRaftConfig cr original channel desired = Inr plan"
    and "RaftConsentersFromConfig cr original = Inr current"
    and "S \<subseteq> keyset cr current" and "rp_CurrentQuorum plan \<le> int (card S)"
    and "T \<subseteq> keyset cr desired" and "rp_DesiredQuorum plan \<le> int (card T)"
  shows "S \<inter> T \<noteq> {}"
proof -
  from planRaftConfig_InrD [OF assms(1,3)] obtain sequence cur d where
    s: "raftSource cr original sequence cur" "consistent cr cur" "consistent cr desired"
       "planDelta cr cur desired = Some d" by blast
  then have cur: "cur = current" using assms(4) by (simp add: raftSource_def)
  show ?thesis
    using assms(6,8) card_union_bound [OF assms(1) s(2,3,4)] unfolding cur plan_quorums [OF assms(1-4)]
    by (intro quorum_sets_meet [of "keyset cr current \<union> keyset cr desired"]) (use assms(5,7) in auto)
qed

theorem raft_quorum_overlap_witness:
  "keyset toy_crypto sampleCurrent \<inter> keyset toy_crypto sampleDesired \<noteq> {}"
proof -
  have cur: "RaftConsentersFromConfig toy_crypto (Some (sampleConfig sampleCurrent)) = Inr sampleCurrent"
    using sample_source by (simp add: raftSource_def)
  have "card (keyset toy_crypto sampleCurrent) = 3" "card (keyset toy_crypto sampleDesired) = 4"
    using card_keyset [OF consistent_distinct [OF toy_crypto_laws(1) sample_consistent(1)]]
      card_keyset [OF consistent_distinct [OF toy_crypto_laws(1) sample_consistent(2)]]
    by (simp_all add: sampleCurrent_def sampleDesired_def del: keyset_simps)
  moreover have "rp_CurrentQuorum samplePlan = 2" "rp_DesiredQuorum samplePlan = 3"
    using plan_quorums [OF toy_crypto_laws samplePlan_ok cur] by (simp_all add: sampleCurrent_def sampleDesired_def)
  ultimately show ?thesis
    using raft_quorum_overlap [OF toy_crypto_laws samplePlan_ok cur, of
        "keyset toy_crypto sampleCurrent" "keyset toy_crypto sampleDesired"] by simp
qed

lemma validate_marshalled_plan:
  assumes "sha256_len32 cr" and "base64_inverse cr" and "planRaftConfig cr original channel desired = Inr plan"
    and "channel \<noteq> []" and "length desired < 2 ^ 62"
  shows "ValidateRaftPlan cr (marshalPlan cr plan) channel = Inr plan"
proof -
  from planRaftConfig_InrD [OF assms(1,3)] obtain sequence current d where
    s: "raftSource cr original sequence current" "consistent cr current" "consistent cr desired"
       "planDelta cr current desired = Some d" by blast
  from planRaftConfig_delta [OF assms(1,2) s(1,3,4), of channel] assms(3) obtain updated where
    p: "plan = (planOf original channel sequence current desired)
               \<lparr>rp_Action := actionOf d, rp_Target := targetOf current d, rp_UpdatedConfig := Some updated\<rparr>"
    by auto
  have orig: "\<exists>j. original = Some j"
    using s(1) config_is_object by (auto simp: raftSource_def RaftConsentersFromConfig_iff)
  have "length current < length current div 2 + 1 + (length desired div 2 + 1)"
    using card_union_bound [OF assms(1) s(2,3,4)] card_keyset [OF consistent_distinct [OF assms(1) s(2)]]
      card_mono [of "keyset cr current \<union> keyset cr desired" "keyset cr current"] by simp
  then have "length current \<le> length desired + 2" by presburger
  moreover have "rc_Port c < 2 ^ 32" if "targetOf current d = Some c" for c
  proof -
    have "consenterOk cr c"
      using that s planDelta_Add(1) planDelta_Remove(1) consistent_distinct [OF assms(1)] compatible_ok
      by (cases d) (auto simp: consistent_def)
    then show ?thesis by (simp add: consenterOk_def)
  qed
  ultimately have dec: "decodePlan cr (marshalPlan cr plan) = Some plan"
    using assms(2,5) orig
    by (auto intro!: decode_marshalPlan simp: p planOf_def)
  from plan_again [OF assms(1-3)] obtain new where
    "RaftConsentersFromConfig cr (rp_UpdatedConfig plan) = Inr new" "planRaftConfig cr original channel new = Inr plan" .
  with dec assms(4) show ?thesis
    by (auto simp: ValidateRaftPlan_def RaftConsentersFromConfig_iff p planOf_def)
qed

text \<open>
  Claim C5. A plan written out and handed back for review is accepted unchanged: validation of the
  encoded plan recomputes exactly the plan that was produced. The bound only says that the number
  of consenters fits a Go \<open>int\<close>.
\<close>

theorem raft_plan_review_roundtrip:
  assumes "sha256_len32 cr" and "base64_inverse cr" and "planRaftConfig cr original channel desired = Inr plan"
    and "channel \<noteq> []" and "length desired < 2 ^ 62"
  shows "ValidateRaftPlan cr (marshalPlan cr plan) channel = Inr plan"
  by (rule validate_marshalled_plan [OF assms])

theorem raft_plan_review_roundtrip_witness:
  "ValidateRaftPlan toy_crypto (marshalPlan toy_crypto samplePlan) ''ch'' = Inr samplePlan"
  by (rule raft_plan_review_roundtrip [OF toy_crypto_laws samplePlan_ok]) (simp_all add: sampleDesired_def)

text \<open>
  Claim C6. Tampering shows: whatever document passes \<open>ValidateRaftPlan\<close>, the result is the
  planner's own output for the original configuration it carries; its updated configuration holds
  the very consenters the plan was computed for, and reads, as a decoded value, like the original
  along every path that parts from the consenter list.
\<close>

theorem raft_review_sound:
  assumes "sha256_len32 cr" and "base64_inverse cr" and "ValidateRaftPlan cr raw channel = Inr plan"
  shows "\<exists>supplied desired. decodePlan cr raw = Some supplied \<and>
     planRaftConfig cr (rp_OriginalConfig supplied) channel desired = Inr plan \<and>
     rp_Action supplied = rp_Action plan \<and> rp_ConfigSequence supplied = rp_ConfigSequence plan \<and>
     RaftConsentersFromConfig cr (rp_UpdatedConfig supplied) = Inr desired \<and>
     (\<forall>q. diverge consentersPath q \<longrightarrow>
        map_sum id canon (raftJSONValue (rp_UpdatedConfig supplied) q) =
        map_sum id canon (raftJSONValue (rp_OriginalConfig supplied) q))"
proof -
  from assms(3) obtain supplied desired where
    d: "decodePlan cr raw = Some supplied" "RaftConsentersFromConfig cr (rp_UpdatedConfig supplied) = Inr desired"
       "planRaftConfig cr (rp_OriginalConfig supplied) channel desired = Inr plan"
       "rp_ConfigSequence supplied = rp_ConfigSequence plan" "rp_Action supplied = rp_Action plan"
       "map_option canon (rp_UpdatedConfig supplied) = map_option canon (rp_UpdatedConfig plan)"
    by (auto simp: ValidateRaftPlan_def RaftConsentersFromConfig_iff split: option.splits sum.splits if_splits)
  obtain u where u: "rp_UpdatedConfig supplied = Some u"
    using d(2) config_is_object by (auto simp: RaftConsentersFromConfig_iff)
  with d(6) obtain v where v: "rp_UpdatedConfig plan = Some v" "canon u = canon v"
    by (cases "rp_UpdatedConfig plan") simp_all
  have "map_sum id canon (raftJSONValue (rp_UpdatedConfig supplied) q) =
        map_sum id canon (raftJSONValue (rp_OriginalConfig supplied) q)" if "diverge consentersPath q" for q
    using canon_read [OF v(2), of q] planned_frame [OF assms(1,2) d(3) that] by (simp add: u v)
  with d show ?thesis by blast
qed

theorem raft_review_sound_witness:
  "\<exists>supplied desired. decodePlan toy_crypto (marshalPlan toy_crypto samplePlan) = Some supplied \<and>
     planRaftConfig toy_crypto (rp_OriginalConfig supplied) ''ch'' desired = Inr samplePlan"
  using raft_review_sound [OF toy_crypto_laws, of "marshalPlan toy_crypto samplePlan" "''ch''" samplePlan]
    validate_marshalled_plan [OF toy_crypto_laws samplePlan_ok] by (auto simp: sampleDesired_def)

end
