(* ===== verification/Json_Text.thy ===== *)
theory Json_Text
  imports Raft_Config
begin

text \<open>
  The part of \<open>encoding/json\<close> the sources use on text: the syntax check and the tree
  \<open>json.Unmarshal\<close> reads (\<open>jsonParse\<close>), and the compact text \<open>json.Marshal\<close> writes (\<open>jsonText\<close>), HTML
  characters escaped. Texts are taken to be valid UTF-8, whose bytes outside ASCII are copied; the
  nesting limit of the decoder, ten thousand levels, is not modelled. Reading a printed tree gives
  the tree back.
\<close>

section \<open>Reading\<close>

definition json_space :: "char \<Rightarrow> bool" where
  "json_space c \<longleftrightarrow> c = CHR '' '' \<or> c = CHR 0x09 \<or> c = CHR 0x0A \<or> c = CHR 0x0D"

definition skipSpace :: "string \<Rightarrow> string" where
  "skipSpace s = dropWhile json_space s"

definition intPart :: "string \<Rightarrow> (string \<times> string) option" where
  "intPart s =
     (case s of [] \<Rightarrow> None
      | c # rest \<Rightarrow> if c = CHR ''0'' then Some ([c], rest)
                    else if is_digit c then Some (takeWhile is_digit s, dropWhile is_digit s) else None)"

definition fracPart :: "string \<Rightarrow> (string \<times> string) option" where
  "fracPart s =
     (case s of [] \<Rightarrow> Some ([], [])
      | c # rest \<Rightarrow> if c \<noteq> CHR ''.'' then Some ([], s)
                    else if takeWhile is_digit rest = [] then None
                    else Some (c # takeWhile is_digit rest, dropWhile is_digit rest))"

definition expPart :: "string \<Rightarrow> (string \<times> string) option" where
  "expPart s =
     (case s of [] \<Rightarrow> Some ([], [])
      | c # rest \<Rightarrow> if c \<noteq> CHR ''e'' \<and> c \<noteq> CHR ''E'' then Some ([], s)
                    else let sign = (case rest of [] \<Rightarrow> [] | d # _ \<Rightarrow> if d = CHR ''+'' \<or> d = CHR ''-'' then [d] else []);
                             digits = drop (length sign) rest
                         in if takeWhile is_digit digits = [] then None
                            else Some (c # sign @ takeWhile is_digit digits, dropWhile is_digit digits))"

definition numSign :: "string \<Rightarrow> string" where
  "numSign s = (if take 1 s = ''-'' then ''-'' else [])"

definition jsonNumber :: "string \<Rightarrow> (string \<times> string) option" where
  "jsonNumber s =
     (case intPart (drop (length (numSign s)) s) of None \<Rightarrow> None | Some (i, s1) \<Rightarrow>
     (case fracPart s1 of None \<Rightarrow> None | Some (f, s2) \<Rightarrow>
     (case expPart s2 of None \<Rightarrow> None | Some (e, s3) \<Rightarrow> Some (numSign s @ i @ f @ e, s3))))"

definition hexVal :: "char \<Rightarrow> nat option" where
  "hexVal c =
     (if is_digit c then Some (digit_val c)
      else if CHR ''a'' \<le> c \<and> c \<le> CHR ''f'' then Some (of_char c - 87)
      else if CHR ''A'' \<le> c \<and> c \<le> CHR ''F'' then Some (of_char c - 55) else None)"

fun hex4 :: "string \<Rightarrow> (nat \<times> string) option" where
  "hex4 (a # b # c # d # s) =
     (case (hexVal a, hexVal b, hexVal c, hexVal d) of
        (Some w, Some x, Some y, Some z) \<Rightarrow> Some (((w * 16 + x) * 16 + y) * 16 + z, s)
      | _ \<Rightarrow> None)"
| "hex4 s = None"

definition utf8 :: "nat \<Rightarrow> string" where
  "utf8 r =
     (if r < 128 then [char_of r]
      else if r < 2048 then [char_of (192 + r div 64), char_of (128 + r mod 64)]
      else if r < 65536 then [char_of (224 + r div 4096), char_of (128 + r div 64 mod 64), char_of (128 + r mod 64)]
      else [char_of (240 + r div 262144), char_of (128 + r div 4096 mod 64), char_of (128 + r div 64 mod 64), char_of (128 + r mod 64)])"

definition isHighSurrogate :: "nat \<Rightarrow> bool" where "isHighSurrogate r \<longleftrightarrow> 55296 \<le> r \<and> r < 56320"
definition isLowSurrogate :: "nat \<Rightarrow> bool" where "isLowSurrogate r \<longleftrightarrow> 56320 \<le> r \<and> r < 57344"

text \<open>The rune behind \<^verbatim>\<open>\u\<close>: a surrogate pair is one rune, a lone surrogate the replacement character.\<close>

definition escapedRune :: "string \<Rightarrow> (nat \<times> string) option" where
  "escapedRune s =
     (case hex4 s of None \<Rightarrow> None
      | Some (r, s1) \<Rightarrow>
          if \<not> isHighSurrogate r \<and> \<not> isLowSurrogate r then Some (r, s1)
          else (case (if take 2 s1 = [CHR 0x5C, CHR ''u''] then hex4 (drop 2 s1) else None) of
                  Some (r2, s2) \<Rightarrow>
                    (if isHighSurrogate r \<and> isLowSurrogate r2
                     then Some (65536 + (r - 55296) * 1024 + (r2 - 56320), s2) else Some (65533, s1))
                | None \<Rightarrow> Some (65533, s1)))"

definition simpleEscape :: "char \<Rightarrow> char option" where
  "simpleEscape c =
     (if c = CHR 0x22 \<or> c = CHR 0x5C \<or> c = CHR ''/'' then Some c
      else if c = CHR ''b'' then Some (CHR 0x08) else if c = CHR ''f'' then Some (CHR 0x0C)
      else if c = CHR ''n'' then Some (CHR 0x0A) else if c = CHR ''r'' then Some (CHR 0x0D)
      else if c = CHR ''t'' then Some (CHR 0x09) else None)"

lemma hex4_length: "hex4 s = Some (r, t) \<Longrightarrow> length t < length s"
  by (induction s rule: hex4.induct) (auto split: option.splits)

lemma escapedRune_length: "escapedRune s = Some (r, t) \<Longrightarrow> length t < length s"
  by (auto simp: escapedRune_def split: option.splits if_splits dest!: hex4_length)

text \<open>A string, after its opening quote.\<close>

function (sequential) jsonString :: "string \<Rightarrow> (string \<times> string) option" where
  "jsonString [] = None"
| "jsonString (c # s) =
     (if c = CHR 0x22 then Some ([], s)
      else if c = CHR 0x5C then
        (case s of [] \<Rightarrow> None
         | e # t \<Rightarrow>
             if e = CHR ''u'' then
               (case escapedRune t of None \<Rightarrow> None
                | Some (r, rest) \<Rightarrow> (case jsonString rest of None \<Rightarrow> None | Some (v, r') \<Rightarrow> Some (utf8 r @ v, r')))
             else (case simpleEscape e of None \<Rightarrow> None
                   | Some x \<Rightarrow> (case jsonString t of None \<Rightarrow> None | Some (v, r') \<Rightarrow> Some (x # v, r'))))
      else if of_char c < (32 :: nat) then None
      else (case jsonString s of None \<Rightarrow> None | Some (v, r') \<Rightarrow> Some (c # v, r')))"
  by pat_completeness auto
termination by (relation "measure length") (auto dest: escapedRune_length)

text \<open>Values, list elements and object members; every step of the fuel is paid for by a byte read.\<close>

fun pValue :: "nat \<Rightarrow> string \<Rightarrow> (json \<times> string) option"
and pElems :: "nat \<Rightarrow> string \<Rightarrow> (json list \<times> string) option"
and pMembers :: "nat \<Rightarrow> string \<Rightarrow> ((string \<times> json) list \<times> string) option" where
  "pValue 0 s = None"
| "pValue (Suc n) s =
     (case skipSpace s of [] \<Rightarrow> None
      | c # rest \<Rightarrow>
          if c = CHR ''{'' then
            (if take 1 (skipSpace rest) = ''}'' then Some (JObj [], drop 1 (skipSpace rest))
             else (case pMembers n rest of None \<Rightarrow> None | Some (kvs, r) \<Rightarrow> Some (JObj kvs, r)))
          else if c = CHR ''['' then
            (if take 1 (skipSpace rest) = '']'' then Some (JArr [], drop 1 (skipSpace rest))
             else (case pElems n rest of None \<Rightarrow> None | Some (xs, r) \<Rightarrow> Some (JArr xs, r)))
          else if c = CHR 0x22 then (case jsonString rest of None \<Rightarrow> None | Some (v, r) \<Rightarrow> Some (JStr v, r))
          else if c = CHR ''t'' then (if take 3 rest = ''rue'' then Some (JBool True, drop 3 rest) else None)
          else if c = CHR ''f'' then (if take 4 rest = ''alse'' then Some (JBool False, drop 4 rest) else None)
          else if c = CHR ''n'' then (if take 3 rest = ''ull'' then Some (JNull, drop 3 rest) else None)
          else (case jsonNumber (c # rest) of None \<Rightarrow> None | Some (v, r) \<Rightarrow> Some (JNum v, r)))"
| "pElems 0 s = None"
| "pElems (Suc n) s =
     (case pValue n s of None \<Rightarrow> None
      | Some (v, r) \<Rightarrow>
          if take 1 (skipSpace r) = '','' then
            (case pElems n (drop 1 (skipSpace r)) of None \<Rightarrow> None | Some (vs, r') \<Rightarrow> Some (v # vs, r'))
          else if take 1 (skipSpace r) = '']'' then Some ([v], drop 1 (skipSpace r)) else None)"
| "pMembers 0 s = None"
| "pMembers (Suc n) s =
     (if take 1 (skipSpace s) \<noteq> [CHR 0x22] then None
      else (case jsonString (drop 1 (skipSpace s)) of None \<Rightarrow> None
      | Some (k, r1) \<Rightarrow>
          (if take 1 (skipSpace r1) \<noteq> '':'' then None
           else (case pValue n (drop 1 (skipSpace r1)) of None \<Rightarrow> None
           | Some (v, r) \<Rightarrow>
               (if take 1 (skipSpace r) = '','' then
                  (case pMembers n (drop 1 (skipSpace r)) of None \<Rightarrow> None | Some (kvs, r') \<Rightarrow> Some ((k, v) # kvs, r'))
                else if take 1 (skipSpace r) = ''}'' then Some ([(k, v)], drop 1 (skipSpace r)) else None)))))"

definition jsonParse :: "string \<Rightarrow> json option" where
  "jsonParse s =
     (case pValue (2 * length s + 2) s of None \<Rightarrow> None
      | Some (v, rest) \<Rightarrow> if skipSpace rest = [] then Some v else None)"

definition jsonValid :: "string \<Rightarrow> bool" where
  "jsonValid s \<longleftrightarrow> jsonParse s \<noteq> None"

section \<open>Writing\<close>

definition escapeChar :: "char \<Rightarrow> string" where
  "escapeChar c =
     (if c = CHR 0x22 \<or> c = CHR 0x5C then [CHR 0x5C, c]
      else if c = CHR 0x08 then [CHR 0x5C, CHR ''b''] else if c = CHR 0x0C then [CHR 0x5C, CHR ''f'']
      else if c = CHR 0x0A then [CHR 0x5C, CHR ''n''] else if c = CHR 0x0D then [CHR 0x5C, CHR ''r'']
      else if c = CHR 0x09 then [CHR 0x5C, CHR ''t'']
      else if of_char c < (32 :: nat) \<or> c = CHR ''<'' \<or> c = CHR ''>'' \<or> c = CHR ''&'' then [CHR 0x5C] @ ''u00'' @ hex_byte c
      else [c])"

definition jsonQuote :: "string \<Rightarrow> string" where
  "jsonQuote s = [CHR 0x22] @ concat (map escapeChar s) @ [CHR 0x22]"

fun jsonText :: "json \<Rightarrow> string" where
  "jsonText JNull = ''null''"
| "jsonText (JBool b) = (if b then ''true'' else ''false'')"
| "jsonText (JNum n) = n"
| "jsonText (JStr s) = jsonQuote s"
| "jsonText (JArr xs) = ''['' @ joinWith '','' (map jsonText xs) @ '']''"
| "jsonText (JObj kvs) = ''{'' @ joinWith '','' (map (\<lambda>kv. jsonQuote (fst kv) @ '':'' @ jsonText (snd kv)) kvs) @ ''}''"

text \<open>An optional text member, left out when it is empty.\<close>

definition jOmit :: "string \<Rightarrow> string \<Rightarrow> (string \<times> json) list" where
  "jOmit name s = (if s = [] then [] else [(name, JStr s)])"

text \<open>\<open>json.MarshalIndent\<close> with an indentation of two spaces.\<close>

definition jsonNewline :: "nat \<Rightarrow> string" where
  "jsonNewline depth = CHR 0x0A # replicate (2 * depth) CHR '' ''"

fun jsonIndent :: "nat \<Rightarrow> json \<Rightarrow> string" where
  "jsonIndent depth (JArr xs) =
     (if xs = [] then ''[]''
      else ''['' @ jsonNewline (depth + 1) @ joinWith ('','' @ jsonNewline (depth + 1)) (map (jsonIndent (depth + 1)) xs) @ jsonNewline depth @ '']'')"
| "jsonIndent depth (JObj kvs) =
     (if kvs = [] then ''{}''
      else ''{'' @ jsonNewline (depth + 1) @
        joinWith ('','' @ jsonNewline (depth + 1)) (map (\<lambda>kv. jsonQuote (fst kv) @ '': '' @ jsonIndent (depth + 1) (snd kv)) kvs) @
        jsonNewline depth @ ''}'')"
| "jsonIndent depth j = jsonText j"

section \<open>Reading what was written\<close>

text \<open>The trees the code prints hold number literals where they hold numbers.\<close>

fun jsonWf :: "json \<Rightarrow> bool" where
  "jsonWf (JNum s) \<longleftrightarrow> jsonNumber s = Some (s, [])"
| "jsonWf (JArr xs) \<longleftrightarrow> list_all jsonWf xs"
| "jsonWf (JObj kvs) \<longleftrightarrow> list_all (\<lambda>kv. jsonWf (snd kv)) kvs"
| "jsonWf _ \<longleftrightarrow> True"

definition numEnd :: "string \<Rightarrow> bool" where
  "numEnd r \<longleftrightarrow> r = [] \<or> hd r = CHR '','' \<or> hd r = CHR '']'' \<or> hd r = CHR ''}''"

lemma numEnd_cases: "numEnd r \<Longrightarrow> r = [] \<or> (\<exists>c s. r = c # s \<and> (c = CHR '','' \<or> c = CHR '']'' \<or> c = CHR ''}''))"
  by (cases r) (auto simp: numEnd_def)

lemma digits_append:
  assumes "numEnd r"
  shows "takeWhile is_digit (xs @ r) = takeWhile is_digit xs" "dropWhile is_digit (xs @ r) = dropWhile is_digit xs @ r"
proof -
  have "\<not> is_digit (CHR '','')" "\<not> is_digit (CHR '']'')" "\<not> is_digit (CHR ''}'')" by code_simp+
  then have "takeWhile is_digit r = []" "dropWhile is_digit r = r" using numEnd_cases [OF assms] by auto
  then show "takeWhile is_digit (xs @ r) = takeWhile is_digit xs" "dropWhile is_digit (xs @ r) = dropWhile is_digit xs @ r"
    by (induction xs) auto
qed

lemma intPart_append: "intPart s = Some (i, t) \<Longrightarrow> numEnd r \<Longrightarrow> intPart (s @ r) = Some (i, t @ r)"
  using digits_append [of r s] by (cases s) (auto simp: intPart_def split: if_splits)

lemma fracPart_append: "fracPart s = Some (i, t) \<Longrightarrow> numEnd r \<Longrightarrow> fracPart (s @ r) = Some (i, t @ r)"
proof (cases s)
  case Nil
  assume "fracPart s = Some (i, t)" "numEnd r"
  with Nil numEnd_cases [of r] show ?thesis by (auto simp: fracPart_def)
next
  case (Cons c s')
  assume "fracPart s = Some (i, t)" "numEnd r"
  with Cons digits_append [of r s'] show ?thesis by (auto simp: fracPart_def split: if_splits)
qed

lemma expPart_append: "expPart s = Some (i, t) \<Longrightarrow> numEnd r \<Longrightarrow> expPart (s @ r) = Some (i, t @ r)"
proof (cases s)
  case Nil
  assume "expPart s = Some (i, t)" "numEnd r"
  with Nil numEnd_cases [of r] show ?thesis by (auto simp: expPart_def)
next
  case (Cons c s')
  assume "expPart s = Some (i, t)" "numEnd r"
  with Cons digits_append [of r s'] digits_append [of r "tl s'"] show ?thesis
    by (cases s') (auto simp: expPart_def Let_def split: if_splits)
qed

lemma jsonNumber_Some:
  "jsonNumber s = Some (v, t) \<longleftrightarrow>
   (\<exists>i s1 f s2 e. intPart (drop (length (numSign s)) s) = Some (i, s1) \<and> fracPart s1 = Some (f, s2) \<and>
      expPart s2 = Some (e, t) \<and> v = numSign s @ i @ f @ e)"
  by (auto simp: jsonNumber_def split: option.splits)

lemma jsonNumber_append:
  assumes "jsonNumber s = Some (v, t)" and "numEnd r"
  shows "jsonNumber (s @ r) = Some (v, t @ r)"
proof -
  have "s \<noteq> []" using assms(1) by (auto simp: jsonNumber_def numSign_def intPart_def)
  then have "numSign (s @ r) = numSign s" "drop (length (numSign s)) (s @ r) = drop (length (numSign s)) s @ r"
    by (cases s; simp add: numSign_def)+
  moreover obtain i s1 f s2 e where "intPart (drop (length (numSign s)) s) = Some (i, s1)" "fracPart s1 = Some (f, s2)"
    "expPart s2 = Some (e, t)" "v = numSign s @ i @ f @ e"
    using assms(1) by (auto simp: jsonNumber_Some)
  ultimately show ?thesis
    using assms(2) by (simp add: jsonNumber_def intPart_append fracPart_append expPart_append)
qed

lemma jsonNumber_start:
  assumes "jsonNumber s = Some (v, t)"
  obtains c s' where "s = c # s'" and "c = CHR ''-'' \<or> is_digit c"
proof (cases s)
  case Nil
  with assms show ?thesis by (simp add: jsonNumber_def intPart_def numSign_def)
next
  case (Cons c s')
  with assms that show ?thesis
    by (cases "c = CHR ''-''") (auto simp: jsonNumber_Some numSign_def intPart_def is_digit_def split: if_splits)
qed

lemma hexVal_digit: "d < 16 \<Longrightarrow> hexVal (hex_digit d) = Some d"
  by (simp add: hexVal_def hex_digit_def is_digit_def digit_val_def less_eq_char_def)

lemma escapedRune_ascii:
  assumes "of_char c < (128 :: nat)"
  shows "escapedRune (''00'' @ hex_byte c @ r) = Some (of_char c, r)" "utf8 (of_char c) = [c]"
proof -
  have "of_char c div 16 * 16 + of_char c mod 16 = (of_char c :: nat)" by simp
  moreover have "hexVal (CHR ''0'') = Some 0" by code_simp
  ultimately show "escapedRune (''00'' @ hex_byte c @ r) = Some (of_char c, r)"
    using assms by (simp add: escapedRune_def hex_byte_def hexVal_digit isHighSurrogate_def isLowSurrogate_def)
  show "utf8 (of_char c) = [c]" using assms by (simp add: utf8_def)
qed

lemma jsonString_escape: "jsonString (concat (map escapeChar s) @ CHR 0x22 # r) = Some (s, r)"
proof (induction s)
  case (Cons c s)
  show ?case
  proof (cases "of_char c < (32 :: nat) \<or> c = CHR ''<'' \<or> c = CHR ''>'' \<or> c = CHR ''&''")
    case True
    then have "of_char c < (128 :: nat)" by auto
    from escapedRune_ascii [OF this] Cons show ?thesis by (auto simp: escapeChar_def simpleEscape_def)
  next
    case False
    with Cons show ?thesis by (auto simp: escapeChar_def simpleEscape_def)
  qed
qed simp

lemma skipSpace_simps [simp]:
  "skipSpace [] = []" "\<not> json_space c \<Longrightarrow> skipSpace (c # s) = c # s"
  by (simp_all add: skipSpace_def)

lemma json_space_simps [simp]:
  "\<not> json_space (CHR ''{'')" "\<not> json_space (CHR ''['')" "\<not> json_space (CHR '']'')" "\<not> json_space (CHR ''}'')"
  "\<not> json_space (CHR '','')" "\<not> json_space (CHR '':'')" "\<not> json_space (CHR 0x22)"
  "\<not> json_space (CHR ''t'')" "\<not> json_space (CHR ''f'')" "\<not> json_space (CHR ''n'')"
  by code_simp+

definition memberText :: "string \<times> json \<Rightarrow> string" where
  "memberText kv = jsonQuote (fst kv) @ '':'' @ jsonText (snd kv)"

definition readsBack :: "json \<Rightarrow> bool" where
  "readsBack j \<longleftrightarrow> (\<forall>n r. 2 * length (jsonText j) \<le> n \<longrightarrow> numEnd r \<longrightarrow> pValue n (jsonText j @ r) = Some (j, r))"

lemma jsonQuote_append: "jsonQuote s @ r = CHR 0x22 # concat (map escapeChar s) @ CHR 0x22 # r"
  by (simp add: jsonQuote_def)

lemma numEnd_simps [simp]: "numEnd (CHR '','' # r)" "numEnd (CHR '']'' # r)" "numEnd (CHR ''}'' # r)"
  by (simp_all add: numEnd_def)

lemma joinWith_Cons: "joinWith sep (x # xs) = x @ (if xs = [] then [] else sep @ joinWith sep xs)"
  by (cases xs) simp_all

lemma jsonText_nonempty: "jsonWf j \<Longrightarrow> jsonText j \<noteq> []"
  by (cases j) (auto simp: jsonQuote_def elim: jsonNumber_start)

lemma pElems_reads:
  assumes "xs \<noteq> []" and "\<And>x. x \<in> set xs \<Longrightarrow> readsBack x" and "2 * length (joinWith '','' (map jsonText xs)) + 1 \<le> n"
  shows "pElems n (joinWith '','' (map jsonText xs) @ CHR '']'' # r) = Some (xs, r)"
  using assms
proof (induction xs arbitrary: n)
  case (Cons x xs)
  then obtain m where n: "n = Suc m" by (cases n) auto
  have x: "readsBack x" using Cons.prems by simp
  show ?case
  proof (cases "xs = []")
    case True
    with x n Cons.prems(3) show ?thesis by (simp add: readsBack_def)
  next
    case False
    have "pValue m (jsonText x @ '','' @ joinWith '','' (map jsonText xs) @ CHR '']'' # r) =
        Some (x, '','' @ joinWith '','' (map jsonText xs) @ CHR '']'' # r)"
      using x Cons.prems(3) n by (simp add: readsBack_def joinWith_Cons)
    moreover have "pElems m (joinWith '','' (map jsonText xs) @ CHR '']'' # r) = Some (xs, r)"
      using Cons.IH [of m] Cons.prems False n by (simp add: joinWith_Cons)
    ultimately show ?thesis using n False by (simp add: joinWith_Cons)
  qed
qed simp

lemma pMembers_reads:
  assumes "kvs \<noteq> []" and "\<And>kv. kv \<in> set kvs \<Longrightarrow> readsBack (snd kv)" and "2 * length (joinWith '','' (map memberText kvs)) + 1 \<le> n"
  shows "pMembers n (joinWith '','' (map memberText kvs) @ CHR ''}'' # r) = Some (kvs, r)"
  using assms
proof (induction kvs arbitrary: n)
  case (Cons kv kvs)
  obtain k x where kv: "kv = (k, x)" by (cases kv)
  from Cons obtain m where n: "n = Suc m" by (cases n) auto
  have x: "readsBack x" using Cons.prems(2) [of kv] kv by simp
  show ?case
  proof (cases "kvs = []")
    case True
    with x n kv Cons.prems(3) show ?thesis
      by (simp add: readsBack_def memberText_def jsonQuote_append jsonString_escape)
  next
    case False
    have "pValue m (jsonText x @ '','' @ joinWith '','' (map memberText kvs) @ CHR ''}'' # r) =
        Some (x, '','' @ joinWith '','' (map memberText kvs) @ CHR ''}'' # r)"
      using x Cons.prems(3) n kv by (simp add: readsBack_def joinWith_Cons memberText_def)
    moreover have "pMembers m (joinWith '','' (map memberText kvs) @ CHR ''}'' # r) = Some (kvs, r)"
      using Cons.IH [of m] Cons.prems False n kv by (simp add: joinWith_Cons)
    ultimately show ?thesis using n kv False by (simp add: joinWith_Cons memberText_def [of "(k, x)"] jsonQuote_append jsonString_escape)
  qed
qed simp

lemma first_char:
  assumes "jsonWf j" "jsonText j = c # s"
  shows "\<not> json_space c" "c \<noteq> CHR '']'' \<and> c \<noteq> CHR ''}''"
proof -
  have "c \<in> {CHR 0x22, CHR ''['', CHR ''{'', CHR ''t'', CHR ''f'', CHR ''n'', CHR ''-''} \<or> is_digit c"
    using assms by (cases j) (auto simp: jsonQuote_def elim: jsonNumber_start split: if_splits)
  then show "\<not> json_space c" "c \<noteq> CHR '']'' \<and> c \<noteq> CHR ''}''"
    by (auto simp: json_space_def is_digit_def)
qed

lemma list_start:
  assumes "xs \<noteq> []" and "list_all jsonWf xs"
  shows "take 1 (skipSpace (joinWith '','' (map jsonText xs) @ r)) \<noteq> '']''"
proof (cases xs)
  case (Cons x xs')
  then have "jsonWf x" using assms(2) by simp
  then obtain c s where "jsonText x = c # s" using jsonText_nonempty by (cases "jsonText x") auto
  with first_char [OF \<open>jsonWf x\<close> this] Cons show ?thesis by (simp add: joinWith_Cons)
qed (use assms in simp)

lemma obj_start: "kvs \<noteq> [] \<Longrightarrow> take 1 (skipSpace (joinWith '','' (map memberText kvs) @ r)) \<noteq> ''}''"
  by (cases kvs) (simp_all add: joinWith_Cons memberText_def jsonQuote_def)

lemma number_chars: "is_digit c \<or> c = CHR ''-'' \<Longrightarrow> c \<notin> {CHR ''{'', CHR ''['', CHR 0x22, CHR ''t'', CHR ''f'', CHR ''n''}"
  by (auto simp: is_digit_def)

lemma number_space: "is_digit c \<or> c = CHR ''-'' \<Longrightarrow> \<not> json_space c"
  by (auto simp: is_digit_def json_space_def)

lemma readsBack_JNum:
  assumes "jsonNumber v = Some (v, [])"
  shows "readsBack (JNum v)"
  unfolding readsBack_def
proof (intro allI impI)
  fix n r
  assume n: "2 * length (jsonText (JNum v)) \<le> n" and r: "numEnd r"
  obtain c s where v: "v = c # s" "c = CHR ''-'' \<or> is_digit c" using jsonNumber_start [OF assms] .
  then obtain m where m: "n = Suc m" using n by (cases n) auto
  have c: "c \<notin> {CHR ''{'', CHR ''['', CHR 0x22, CHR ''t'', CHR ''f'', CHR ''n''}" "\<not> json_space c"
    using v(2) number_chars number_space by auto
  have "jsonNumber (c # s @ r) = Some (v, r)" using jsonNumber_append [OF assms r] v(1) by simp
  with m c v(1) show "pValue n (jsonText (JNum v) @ r) = Some (JNum v, r)" by simp
qed

lemma jsonWf_readsBack: "jsonWf j \<Longrightarrow> readsBack j"
proof (induction j)
  case JNull
  show ?case unfolding readsBack_def by (intro allI impI, case_tac n) simp_all
next
  case (JBool b)
  show ?case unfolding readsBack_def by (intro allI impI, case_tac n) (simp_all split: if_splits)
next
  case (JNum v)
  then show ?case by (simp add: readsBack_JNum)
next
  case (JStr s)
  show ?case unfolding readsBack_def
    by (intro allI impI, case_tac n) (simp_all add: jsonQuote_append jsonString_escape, simp add: jsonQuote_def)
next
  case (JArr xs)
  show ?case unfolding readsBack_def
  proof (intro allI impI)
    fix n r assume n: "2 * length (jsonText (JArr xs)) \<le> n"
    then obtain m where m: "n = Suc m" by (cases n) auto
    have reads: "\<And>x. x \<in> set xs \<Longrightarrow> readsBack x" using JArr by (simp add: list_all_iff)
    show "pValue n (jsonText (JArr xs) @ r) = Some (JArr xs, r)"
    proof (cases "xs = []")
      case False
      then have "pElems m (joinWith '','' (map jsonText xs) @ CHR '']'' # r) = Some (xs, r)"
        using pElems_reads [OF False reads] n m by simp
      with False list_start [OF False, of "CHR '']'' # r"] JArr.prems m show ?thesis by simp
    qed (use m in simp)
  qed
next
  case (JObj kvs)
  have shape: "jsonText (JObj kvs) = ''{'' @ joinWith '','' (map memberText kvs) @ ''}''"
    by (simp add: memberText_def [abs_def])
  show ?case unfolding readsBack_def
  proof (intro allI impI)
    fix n r assume n: "2 * length (jsonText (JObj kvs)) \<le> n"
    then obtain m where m: "n = Suc m" by (cases n) auto
    have reads: "\<And>kv. kv \<in> set kvs \<Longrightarrow> readsBack (snd kv)" using JObj by (auto simp: list_all_iff snds.simps)
    show "pValue n (jsonText (JObj kvs) @ r) = Some (JObj kvs, r)"
    proof (cases "kvs = []")
      case False
      then have "pMembers m (joinWith '','' (map memberText kvs) @ CHR ''}'' # r) = Some (kvs, r)"
        using pMembers_reads [OF False reads] n m shape by simp
      with False obj_start [OF False, of "CHR ''}'' # r"] m shape show ?thesis by (simp del: jsonText.simps)
    qed (use m in simp)
  qed
qed

text \<open>
  Reading a JSON text the code has written gives the tree back: for every tree whose numbers are
  number literals, whatever its strings hold (quotes, backslashes, control characters, HTML), parsing
  the marshalled text succeeds, uses all of it and returns the same tree. In particular the fuel of the
  parser is enough.
\<close>

lemma json_round_trip:
  assumes "jsonWf j"
  shows "jsonParse (jsonText j) = Some j"
proof -
  have "pValue (2 * length (jsonText j) + 2) (jsonText j @ []) = Some (j, [])"
    using jsonWf_readsBack [OF assms] unfolding readsBack_def by (simp add: numEnd_def del: pValue.simps)
  then show ?thesis by (simp add: jsonParse_def)
qed

section \<open>The fuel is always enough\<close>

lemma jsonString_consumes: "jsonString s = Some (v, r) \<Longrightarrow> length r < length s"
proof (induction s arbitrary: v r rule: jsonString.induct)
  case (2 c s)
  then show ?case by (auto split: if_splits list.splits option.splits dest!: escapedRune_length) fastforce+
qed simp

lemma parts_consume:
  "intPart s = Some (i, t) \<Longrightarrow> length t < length s"
  "fracPart s = Some (i, t) \<Longrightarrow> length t \<le> length s"
  "expPart s = Some (i, t) \<Longrightarrow> length t \<le> length s"
proof -
  show "intPart s = Some (i, t) \<Longrightarrow> length t < length s"
    by (cases s) (auto simp: intPart_def le_imp_less_Suc length_dropWhile_le split: if_splits)
  show "fracPart s = Some (i, t) \<Longrightarrow> length t \<le> length s"
    by (cases s) (auto simp: fracPart_def le_SucI length_dropWhile_le split: if_splits)
  show "expPart s = Some (i, t) \<Longrightarrow> length t \<le> length s"
  proof (cases s)
    case (Cons c s')
    assume "expPart s = Some (i, t)"
    moreover have "length (dropWhile is_digit (drop m s')) \<le> length s'" for m
      using length_dropWhile_le [of is_digit "drop m s'"] by simp
    ultimately show ?thesis using Cons by (auto simp: expPart_def Let_def le_SucI split: if_splits)
  qed (simp add: expPart_def)
qed

lemma jsonNumber_consumes: "jsonNumber s = Some (v, r) \<Longrightarrow> length r < length s"
  by (fastforce simp: jsonNumber_Some dest: parts_consume)

lemma skipSpace_length: "length (skipSpace s) \<le> length s"
  by (simp add: skipSpace_def length_dropWhile_le)

lemma skipSpace_Cons: "skipSpace s = c # t \<Longrightarrow> length t < length s"
  using skipSpace_length [of s] by simp

lemma drop_skipSpace: "length (drop 1 (skipSpace s)) \<le> length s" "take 1 (skipSpace s) = [c] \<Longrightarrow> length (drop 1 (skipSpace s)) < length s"
  using skipSpace_length [of s] by (auto, cases "skipSpace s", auto)

lemma parser_consumes:
  "pValue n s = Some (v, r) \<Longrightarrow> length r < length s"
  "pElems n s = Some (xs, r) \<Longrightarrow> length r < length s"
  "pMembers n s = Some (kvs, r) \<Longrightarrow> length r < length s"
proof (induction n s and n s and n s arbitrary: v r and xs r and kvs r rule: pValue_pElems_pMembers.induct)
  case (2 n s)
  show ?case
  proof (cases "skipSpace s")
    case (Cons c rest)
    note le = skipSpace_Cons [OF this] drop_skipSpace(1) [of rest]
    have "length r \<le> length rest"
    proof -
      have "length q < length (c # rest)" if "jsonNumber (c # rest) = Some (w, q)" for w q using jsonNumber_consumes [OF that] .
      moreover have "length q < length rest" if "jsonString rest = Some (w, q)" for w q using jsonString_consumes [OF that] .
      ultimately show ?thesis using 2 Cons le by (auto split: if_splits option.splits) fastforce+
    qed
    with le show ?thesis by simp
  qed (use 2 in simp)
next
  case (4 n s)
  then obtain w q where w: "pValue n s = Some (w, q)" by (auto split: option.splits)
  note q = 4(1) [OF w] drop_skipSpace(1) [of q]
  show ?case
  proof (cases "take 1 (skipSpace q) = '',''")
    case True
    with 4(3) w obtain ys where "pElems n (drop 1 (skipSpace q)) = Some (ys, r)" by (auto split: option.splits)
    from 4(2) [OF w refl True this] q show ?thesis by simp
  qed (use 4(3) w q in \<open>auto split: if_splits\<close>)
next
  case (6 n s)
  then obtain k q1 w q where k: "take 1 (skipSpace s) = [CHR 0x22]" "jsonString (drop 1 (skipSpace s)) = Some (k, q1)"
    "take 1 (skipSpace q1) = '':''" and w: "pValue n (drop 1 (skipSpace q1)) = Some (w, q)"
    by (auto split: option.splits if_splits)
  have le: "length q < length s" "length (drop 1 (skipSpace q)) \<le> length q"
    using 6(1) [OF _ k(2) refl _ w] k drop_skipSpace(1) [of s] drop_skipSpace(1) [of q1] drop_skipSpace(1) [of q] jsonString_consumes [OF k(2)] by auto
  show ?case
  proof (cases "take 1 (skipSpace q) = '',''")
    case True
    with 6(3) k w obtain ys where ys: "pMembers n (drop 1 (skipSpace q)) = Some (ys, r)" by (auto split: option.splits)
    have "length r < length (drop 1 (skipSpace q))" using 6(2) [OF _ k(2) refl _ w refl True ys] k by simp
    with le show ?thesis by simp
  qed (use 6(3) k w le in \<open>auto split: if_splits\<close>)
qed simp_all

lemma fuel_step:
  "(\<forall>s. 2 * length s + 1 \<le> n \<longrightarrow> pValue (Suc n) s = pValue n s) \<and>
   (\<forall>s. 2 * length s + 2 \<le> n \<longrightarrow> pElems (Suc n) s = pElems n s) \<and>
   (\<forall>s. 2 * length s + 2 \<le> n \<longrightarrow> pMembers (Suc n) s = pMembers n s)"
proof (induction n)
  case (Suc n)
  have "pValue (Suc (Suc n)) s = pValue (Suc n) s" if "2 * length s + 1 \<le> Suc n" for s
  proof (cases "skipSpace s")
    case (Cons c rest)
    have "2 * length rest + 2 \<le> n" using skipSpace_Cons [OF Cons] that by simp
    then have "pElems (Suc n) rest = pElems n rest" "pMembers (Suc n) rest = pMembers n rest" using Suc.IH by blast+
    with Cons show ?thesis by (simp del: pElems.simps pMembers.simps)
  qed simp
  moreover have "pElems (Suc (Suc n)) s = pElems (Suc n) s" if "2 * length s + 2 \<le> Suc n" for s
  proof -
    have v: "pValue (Suc n) s = pValue n s" using Suc.IH that by simp
    have "pElems (Suc n) (drop 1 (skipSpace r)) = pElems n (drop 1 (skipSpace r))"
      if "pValue n s = Some (w, r)" for w r
    proof -
      have "2 * length (drop 1 (skipSpace r)) + 2 \<le> n"
        using parser_consumes(1) [OF that] drop_skipSpace(1) [of r] \<open>2 * length s + 2 \<le> Suc n\<close> by linarith
      then show ?thesis using Suc.IH by blast
    qed
    then show ?thesis by (subst (1 2) pElems.simps(2)) (simp add: v del: pValue.simps pElems.simps split: option.splits)
  qed
  moreover have "pMembers (Suc (Suc n)) s = pMembers (Suc n) s" if len: "2 * length s + 2 \<le> Suc n" for s
  proof -
    have v: "pValue (Suc n) (drop 1 (skipSpace q)) = pValue n (drop 1 (skipSpace q))"
      if "jsonString (drop 1 (skipSpace s)) = Some (k, q)" for k q
    proof -
      have "2 * length (drop 1 (skipSpace q)) + 1 \<le> n"
        using jsonString_consumes [OF that] drop_skipSpace(1) [of q] drop_skipSpace(1) [of s] len by linarith
      then show ?thesis using Suc.IH by blast
    qed
    have "pMembers (Suc n) (drop 1 (skipSpace r)) = pMembers n (drop 1 (skipSpace r))"
      if "jsonString (drop 1 (skipSpace s)) = Some (k, q)" "pValue n (drop 1 (skipSpace q)) = Some (w, r)" for k q w r
    proof -
      have "2 * length (drop 1 (skipSpace r)) + 2 \<le> n"
        using jsonString_consumes [OF that(1)] parser_consumes(1) [OF that(2)] drop_skipSpace(1) [of q] drop_skipSpace(1) [of r]
          drop_skipSpace(1) [of s] len by linarith
      then show ?thesis using Suc.IH by blast
    qed
    with v show ?thesis
      by (subst (1 2) pMembers.simps(2)) (simp del: pValue.simps pMembers.simps split: option.splits)
  qed
  ultimately show ?case by blast
qed simp

lemma fuel_enough: "2 * length s + 2 \<le> n \<Longrightarrow> pValue n s = pValue (2 * length s + 2) s"
proof (induction rule: dec_induct)
  case (step m)
  then show ?case using fuel_step [of m] by (simp del: pValue.simps)
qed simp

text \<open>
  The parser terminates with an answer of its own: the fuel it is given is never what decides.
  Whatever the text, well formed or not, running it with more fuel gives the same tree or the same
  refusal.
\<close>

lemma json_parser_fuel:
  "jsonParse s = (case pValue (2 * length s + 2 + extra) s of None \<Rightarrow> None
     | Some (v, rest) \<Rightarrow> if skipSpace rest = [] then Some v else None)"
  using fuel_enough [of s "2 * length s + 2 + extra"] by (simp add: jsonParse_def del: pValue.simps)

end
