(* ===== verification/Naming.thy ===== *)
theory Naming
  imports Api_Types
begin

text \<open>
  Kubernetes resource names: \<open>sanitizeName\<close> of \<^verbatim>\<open>internal/controller/fabricnetwork_org.go\<close> and the
  name functions built on it. The main results are that every generated name is a DNS-1123 label
  of at most 63 bytes, that sanitising is idempotent, and that the workload names of one orderer
  or peer group are pairwise distinct.
\<close>

unbundle bit_operations_syntax

section \<open>Sanitising\<close>

definition maxKubernetesNameLength :: nat where
  "maxKubernetesNameLength = 63"

text \<open>The \<open>lastDash\<close> loop: runs of other characters become one dash.\<close>

fun collapse :: "bool \<Rightarrow> string \<Rightarrow> string" where
  "collapse lastDash [] = []"
| "collapse lastDash (r # rs) =
     (if is_alnum_lower r then r # collapse False rs
      else if \<not> lastDash then CHR ''-'' # collapse True rs
      else collapse True rs)"

abbreviation is_dash :: "char \<Rightarrow> bool" where
  "is_dash c \<equiv> c = CHR ''-''"

text \<open>\<open>hash/fnv\<close>'s 32-bit FNV-1a, and \<^verbatim>\<open>%08x\<close> of a 32-bit value.\<close>

definition fnv32a :: "string \<Rightarrow> 32 word" where
  "fnv32a s = foldl (\<lambda>h c. (h XOR of_nat (of_char c)) * 16777619) 2166136261 s"

definition hex8 :: "32 word \<Rightarrow> string" where
  "hex8 w = map (\<lambda>i. hex_digit (unat w div 16 ^ (7 - i) mod 16)) [0..<8]"

definition sanitizeName :: "string \<Rightarrow> string" where
  "sanitizeName name =
     (let b = collapse False (toLower (trimSpace name));
          t = trim_right is_dash (trim_left is_dash b);
          s = (if t = [] then ''resource'' else t)
      in if length s \<le> maxKubernetesNameLength then s
         else (let suffix = hex8 (fnv32a s);
                   prefixLength = maxKubernetesNameLength - length suffix - 1;
                   p = trim_right is_dash (take prefixLength s);
                   prefix = (if p = [] then take prefixLength s else p)
               in prefix @ ''-'' @ suffix))"

text \<open>What Kubernetes asks of a name (DNS-1123 label), and the stronger shape sanitising gives.\<close>

definition dns_label :: "string \<Rightarrow> bool" where
  "dns_label s \<longleftrightarrow> s \<noteq> [] \<and> length s \<le> 63 \<and> (\<forall>c \<in> set s. is_alnum_lower c \<or> is_dash c) \<and>
     is_alnum_lower (hd s) \<and> is_alnum_lower (last s)"

definition no_double_dash :: "string \<Rightarrow> bool" where
  "no_double_dash s \<longleftrightarrow> successively (\<lambda>a b. \<not> (is_dash a \<and> is_dash b)) s"

definition clean_name :: "string \<Rightarrow> bool" where
  "clean_name s \<longleftrightarrow> dns_label s \<and> no_double_dash s"

lemma length_hex8 [simp]: "length (hex8 w) = 8"
  by (simp add: hex8_def)

lemma hex_digit_alnum: "d < 16 \<Longrightarrow> is_alnum_lower (hex_digit d)"
  by (auto simp: hex_digit_def is_alnum_lower_def)

lemma hex8_alnum: "c \<in> set (hex8 w) \<Longrightarrow> is_alnum_lower c"
  by (auto simp: hex8_def intro!: hex_digit_alnum)

lemma hex8_nonempty [simp]: "hex8 w \<noteq> []"
  using length_hex8 [of w] by fastforce

lemma hex8_hd: "\<not> is_dash (hd (hex8 w))"
  using hex8_alnum hex8_nonempty hd_in_set is_alnum_lower_not_dash by blast

lemma collapse_chars: "c \<in> set (collapse d s) \<Longrightarrow> is_alnum_lower c \<or> is_dash c"
  by (induction d s rule: collapse.induct) (auto split: if_splits)

lemma collapse_no_double:
  "no_double_dash (collapse d s) \<and> (d \<longrightarrow> collapse d s = [] \<or> \<not> is_dash (hd (collapse d s)))"
proof (induction d s rule: collapse.induct)
  case (2 d r rs)
  then show ?case
    by (cases "collapse False rs"; cases "collapse True rs")
       (auto simp: no_double_dash_def dest: is_alnum_lower_not_dash)
qed (simp add: no_double_dash_def)

text \<open>A list that already has the clean shape goes through the loop unchanged.\<close>

lemma collapse_id:
  "(\<forall>c \<in> set s. is_alnum_lower c \<or> is_dash c) \<Longrightarrow> no_double_dash s \<Longrightarrow>
   (d \<longrightarrow> s = [] \<or> \<not> is_dash (hd s)) \<Longrightarrow> collapse d s = s"
proof (induction d s rule: collapse.induct)
  case (2 d r rs)
  then show ?case
    by (cases rs) (auto simp: no_double_dash_def is_alnum_lower_not_dash)
qed simp

lemma no_double_dash_suffix: "no_double_dash (a @ b) \<Longrightarrow> no_double_dash b"
  by (simp add: no_double_dash_def successively_append_iff)

lemma no_double_dash_prefix: "no_double_dash (a @ b) \<Longrightarrow> no_double_dash a"
  by (simp add: no_double_dash_def successively_append_iff)

lemma no_double_dash_trim_left: "no_double_dash s \<Longrightarrow> no_double_dash (trim_left P s)"
  by (metis no_double_dash_suffix takeWhile_dropWhile_id trim_left_def)

lemma no_double_dash_trim_right: "no_double_dash s \<Longrightarrow> no_double_dash (trim_right P s)"
  using trim_right_prefix [of s P] by (metis no_double_dash_prefix)

lemma no_double_dash_take: "no_double_dash s \<Longrightarrow> no_double_dash (take n s)"
  by (metis append_take_drop_id no_double_dash_prefix)

lemma no_double_dash_alnum: "(\<And>c. c \<in> set s \<Longrightarrow> is_alnum_lower c) \<Longrightarrow> no_double_dash s"
proof (induction s)
  case (Cons a s)
  then show ?case by (cases s) (auto simp: no_double_dash_def dest: is_alnum_lower_not_dash)
qed (simp add: no_double_dash_def)

lemma no_double_dash_append:
  "no_double_dash a \<Longrightarrow> no_double_dash b \<Longrightarrow> a = [] \<or> b = [] \<or> \<not> is_dash (last a) \<or> \<not> is_dash (hd b) \<Longrightarrow>
   no_double_dash (a @ b)"
  by (auto simp: no_double_dash_def successively_append_iff)

text \<open>The trimmed loop output, before the length rule: clean in every respect but length.\<close>

definition base_name :: "string \<Rightarrow> string" where
  "base_name name =
     (let t = trim_right is_dash (trim_left is_dash (collapse False (toLower (trimSpace name))))
      in if t = [] then ''resource'' else t)"

definition clean_shape :: "string \<Rightarrow> bool" where
  "clean_shape s \<longleftrightarrow> s \<noteq> [] \<and> (\<forall>c \<in> set s. is_alnum_lower c \<or> is_dash c) \<and>
     is_alnum_lower (hd s) \<and> is_alnum_lower (last s) \<and> no_double_dash s"

lemma clean_name_iff: "clean_name s \<longleftrightarrow> clean_shape s \<and> length s \<le> 63"
  by (auto simp: clean_name_def clean_shape_def dns_label_def)

lemma clean_shape_base_name: "clean_shape (base_name name)"
proof -
  let ?b = "collapse False (toLower (trimSpace name))"
  let ?t = "trim_right is_dash (trim_left is_dash ?b)"
  have chars: "\<forall>c \<in> set ?t. is_alnum_lower c \<or> is_dash c"
    using collapse_chars set_trim_right [of is_dash] set_dropWhileD
    by (fastforce simp: trim_left_def)
  have nd: "no_double_dash ?t"
    by (intro no_double_dash_trim_right no_double_dash_trim_left) (simp add: collapse_no_double)
  show ?thesis
  proof (cases "?t = []")
    case True
    then show ?thesis
      by (simp add: base_name_def clean_shape_def no_double_dash_def is_alnum_lower_def)
  next
    case False
    then have l: "trim_left is_dash ?b \<noteq> []" by (auto simp: trim_right_def)
    have "\<not> is_dash (hd ?t)" using False trim_left_hd [OF l] by (simp add: trim_right_hd)
    moreover have "\<not> is_dash (last ?t)" using False by (rule trim_right_last)
    ultimately show ?thesis
      using False chars nd by (auto simp: base_name_def clean_shape_def Let_def)
  qed
qed

lemma base_name_clean_id:
  assumes "clean_shape s"
  shows "base_name s = s"
proof -
  from assms have ends: "\<not> is_space (hd s)" "\<not> is_space (last s)" "\<not> is_dash (hd s)" "\<not> is_dash (last s)"
    by (auto simp: clean_shape_def is_alnum_lower_not_space dest: is_alnum_lower_not_dash)
  have trim: "trimSpace s = s" using ends by (simp add: trimSpace_id)
  have low: "toLower s = s"
    using assms by (auto simp: toLower_def clean_shape_def intro!: map_idI)
  have "collapse False s = s"
    using assms by (auto simp: clean_shape_def intro!: collapse_id)
  with trim low ends assms show ?thesis
    by (simp add: base_name_def trim_left_id trim_right_id clean_shape_def)
qed

lemma sanitizeName_base:
  "sanitizeName name =
     (let s = base_name name
      in if length s \<le> 63 then s else trim_right is_dash (take 54 s) @ ''-'' @ hex8 (fnv32a s))"
proof -
  have "trim_right is_dash (take 54 (base_name name)) \<noteq> []"
  proof
    let ?s = "base_name name"
    assume e: "trim_right is_dash (take 54 ?s) = []"
    have c: "clean_shape ?s" by (rule clean_shape_base_name)
    then have ne: "take 54 ?s \<noteq> []" by (simp add: clean_shape_def)
    obtain ys where ys: "take 54 ?s = trim_right is_dash (take 54 ?s) @ ys" "\<forall>y \<in> set ys. is_dash y"
      using trim_right_prefix [of "take 54 ?s" is_dash] by auto
    with e ne have "is_dash (hd (take 54 ?s))" by (metis append_Nil hd_in_set)
    moreover have "hd (take 54 ?s) = hd ?s" using ne by simp
    ultimately show False
      using c is_alnum_lower_not_dash by (auto simp: clean_shape_def)
  qed
  then show ?thesis
    by (simp add: sanitizeName_def base_name_def maxKubernetesNameLength_def Let_def)
qed

lemma clean_truncated:
  assumes "clean_shape s"
  shows "clean_name (trim_right is_dash (take 54 s) @ ''-'' @ hex8 h)"
proof -
  let ?p = "trim_right is_dash (take 54 s)"
  have c: "\<forall>c \<in> set ?p. is_alnum_lower c \<or> is_dash c"
    using assms set_trim_right [of is_dash "take 54 s"] set_take_subset [of 54 s]
    by (auto simp: clean_shape_def)
  have nd: "no_double_dash ?p"
    using assms by (auto simp: clean_shape_def intro!: no_double_dash_trim_right no_double_dash_take)
  have len: "length ?p \<le> 54"
    using trim_right_prefix [of "take 54 s" is_dash] by (metis length_append length_take min.bounded_iff trans_le_add1 le_add1 order_trans order_refl min.cobounded2)
  have tail: "no_double_dash (''-'' @ hex8 h)"
    using hex8_hd
    by (intro no_double_dash_append)
       (auto simp: hex8_alnum no_double_dash_def [of "''-''"] intro!: no_double_dash_alnum)
  have whole: "no_double_dash (?p @ ''-'' @ hex8 h)"
    by (rule no_double_dash_append [OF nd tail]) (auto dest: trim_right_last)
  have hd_ok: "is_alnum_lower (hd (?p @ ''-'' @ hex8 h))"
  proof (cases "?p = []")
    case True
    obtain ys where "take 54 s = ?p @ ys" "\<forall>y \<in> set ys. is_dash y"
      using trim_right_prefix [of "take 54 s" is_dash] by auto
    with True assms have "is_dash (hd (take 54 s))"
      by (metis append_Nil clean_shape_def hd_in_set take_eq_Nil zero_neq_numeral)
    with assms show ?thesis
      by (auto simp: clean_shape_def dest: is_alnum_lower_not_dash)
  next
    case False
    then have "hd ?p = hd s" by (simp add: trim_right_hd)
    with False assms show ?thesis by (simp add: clean_shape_def)
  qed
  show ?thesis
    unfolding clean_name_iff clean_shape_def
    using c whole hd_ok len hex8_alnum [of "last (hex8 h)" h] by (auto simp: hex8_alnum)
qed

lemma clean_sanitizeName: "clean_name (sanitizeName name)"
  using clean_shape_base_name [of name] clean_truncated [of "base_name name"]
  by (auto simp: sanitizeName_base Let_def clean_name_iff [of "base_name name"])

lemma sanitizeName_clean_id: "clean_name s \<Longrightarrow> sanitizeName s = s"
  by (simp add: clean_name_iff sanitizeName_base base_name_clean_id)

section \<open>Names of generated resources\<close>

definition compactNetworkName :: "string \<Rightarrow> string" where
  "compactNetworkName name =
     (let s = sanitizeName name;
          ok = (\<lambda>prefix. trimPrefix s prefix \<noteq> s \<and> trimPrefix s prefix \<noteq> [])
      in case List.find ok [''fabricnetwork-'', ''fabric-network-'', ''network-''] of
           Some prefix \<Rightarrow> trimPrefix s prefix
         | None \<Rightarrow> s)"

definition networkNamespaceSlug :: "FabricNetwork \<Rightarrow> string" where
  "networkNamespaceSlug net =
     (let networkName = compactNetworkName (fn_Name net);
          controlNamespace = sanitizeName (fn_Namespace net)
      in if controlNamespace = [] \<or> controlNamespace = ''default'' then networkName
         else sanitizeName (controlNamespace @ ''-'' @ networkName))"

definition orgNamespaceName :: "FabricNetwork \<Rightarrow> Org \<Rightarrow> string" where
  "orgNamespaceName net org =
     sanitizeName (''fo-'' @ networkNamespaceSlug net @ ''-'' @ om_Name (org_Organization org))"

definition serviceDNS :: "string \<Rightarrow> string \<Rightarrow> int \<Rightarrow> string" where
  "serviceDNS name namespace port = name @ ''.'' @ namespace @ ''.svc.cluster.local:'' @ itoa port"

definition identitySecretName :: "string \<Rightarrow> string \<Rightarrow> string" where
  "identitySecretName workloadName kind = sanitizeName (workloadName @ ''-'' @ kind)"

definition operationsServiceName :: "string \<Rightarrow> string" where
  "operationsServiceName workloadName = sanitizeName (workloadName @ ''-operations'')"

definition caBootstrapSecretName :: "Org \<Rightarrow> string" where
  "caBootstrapSecretName org = sanitizeName (om_Name (org_Organization org) @ ''-ca-bootstrap'')"

definition adminIdentityName :: "Org \<Rightarrow> string" where
  "adminIdentityName org = sanitizeName (om_Name (org_Organization org) @ ''-admin'')"

definition identityEnrollmentSecretName :: "string \<Rightarrow> string" where
  "identityEnrollmentSecretName identityName = sanitizeName (identityName @ ''-enrollment'')"

definition adminEnrollmentSecretName :: "Org \<Rightarrow> string" where
  "adminEnrollmentSecretName org = identityEnrollmentSecretName (adminIdentityName org)"

text \<open>The workload \<open>i\<close> of a group, \<open>sanitizeName(fmt.Sprintf("%s%d", prefix, i))\<close>, and the
  \<open>for i := 0; i < instances; i++\<close> loops over them.\<close>

definition workloadName :: "string \<Rightarrow> nat \<Rightarrow> string" where
  "workloadName prefix i = sanitizeName (prefix @ itoa_nat i)"

definition workloadNames :: "string \<Rightarrow> int \<Rightarrow> string list" where
  "workloadNames prefix instances = map (workloadName prefix) [0..<nat instances]"

text \<open>The CRD pattern of \<open>OrdererGroup.Prefix\<close> and \<open>PeerConfig.Prefix\<close>.\<close>

definition prefix_pattern :: "string \<Rightarrow> bool" where
  "prefix_pattern p \<longleftrightarrow> dns_label p \<and> length p \<le> 50"

section \<open>Distinctness of workload names\<close>

text \<open>Collapsing acts on the prefix alone, since the decimal digits pass through unchanged.\<close>

lemma collapse_alnum_id: "(\<And>c. c \<in> set b \<Longrightarrow> is_alnum_lower c) \<Longrightarrow> collapse d b = b"
  by (induction d b rule: collapse.induct) auto

lemma collapse_append_alnum:
  "(\<And>c. c \<in> set b \<Longrightarrow> is_alnum_lower c) \<Longrightarrow> collapse d (a @ b) = collapse d a @ b"
  by (induction d a rule: collapse.induct) (auto simp: collapse_alnum_id)

lemma collapse_length: "length (collapse d s) \<le> length s"
  by (induction d s rule: collapse.induct) auto

lemma collapse_hd: "s \<noteq> [] \<Longrightarrow> is_alnum_lower (hd s) \<Longrightarrow> collapse d s \<noteq> [] \<and> hd (collapse d s) = hd s"
  by (cases s) auto

lemma toLower_label: "dns_label p \<Longrightarrow> toLower p = p"
  by (auto simp: toLower_def dns_label_def intro!: map_idI)

lemma workloadName_eq:
  assumes p: "prefix_pattern p" and i: "i < 10 ^ 12"
  shows "workloadName p i = collapse False p @ itoa_nat i"
proof -
  let ?n = "p @ itoa_nat i"
  have len: "length (itoa_nat i) \<le> 12" using length_itoa_nat [of i 11] i by simp
  have pne: "p \<noteq> []" and hdp: "is_alnum_lower (hd p)" and lenp: "length p \<le> 50"
    using p by (auto simp: prefix_pattern_def dns_label_def)
  have last_n: "is_alnum_lower (last ?n)"
    using itoa_nat_alnum last_in_set by (metis itoa_nat_nonempty last_appendR)
  have trim: "trimSpace ?n = ?n"
    using pne hdp last_n by (intro trimSpace_id) (simp add: is_alnum_lower_not_space)
  have low: "toLower ?n = ?n"
    using p by (auto simp: dns_label_def prefix_pattern_def toLower_def itoa_nat_alnum intro!: map_idI)
  have col: "collapse False ?n = collapse False p @ itoa_nat i"
    by (rule collapse_append_alnum) (rule itoa_nat_alnum)
  have hdc: "collapse False p \<noteq> []" "hd (collapse False p) = hd p"
    using collapse_hd [OF pne hdp] by auto
  have "\<not> is_dash (hd (collapse False p @ itoa_nat i))" "\<not> is_dash (last (collapse False p @ itoa_nat i))"
    using hdc hdp last_n by (auto dest: is_alnum_lower_not_dash)
  then have base: "base_name ?n = collapse False p @ itoa_nat i"
    using trim low col hdc by (simp add: base_name_def trim_left_id trim_right_id)
  have "length (collapse False p @ itoa_nat i) \<le> 63"
    using collapse_length [of False p] lenp len by simp
  with base show ?thesis by (simp add: workloadName_def sanitizeName_base)
qed

lemma workloadName_inj:
  assumes "prefix_pattern p" and "i < 10 ^ 12" and "j < 10 ^ 12" and "workloadName p i = workloadName p j"
  shows "i = j"
  using assms by (simp add: workloadName_eq itoa_nat_inj)

lemma workloadNames_distinct:
  assumes "prefix_pattern p" and "n \<le> 10 ^ 12"
  shows "distinct (workloadNames p n)"
proof -
  have "inj_on (workloadName p) (set [0..<nat n])"
    using assms by (intro inj_onI) (auto intro: workloadName_inj)
  then show ?thesis by (simp add: workloadNames_def distinct_map)
qed

section \<open>Properties\<close>

text \<open>
  Claim C37. Every name \<open>sanitizeName\<close> produces is a DNS-1123 label of at most 63 characters with no
  two adjacent dashes, whatever the input, and names already of that form are left alone; so the
  function is idempotent.
\<close>

theorem sanitizeName_normal_form:
  "clean_name (sanitizeName name) \<and> sanitizeName (sanitizeName name) = sanitizeName name"
  using clean_sanitizeName sanitizeName_clean_id by blast

text \<open>
  The instances of one orderer group or peer set never share a name: under the prefix
  pattern of the resource definition the generated workload names are pairwise distinct, hashing
  and truncation notwithstanding.
\<close>

theorem workload_names_distinct:
  assumes "prefix_pattern p" and "n \<le> 10 ^ 12"
  shows "distinct (workloadNames p n)"
  by (rule workloadNames_distinct [OF assms])

theorem workload_names_distinct_witness:
  "distinct (workloadNames ''peer'' 4)"
  by (rule workload_names_distinct) (simp_all add: prefix_pattern_def dns_label_def is_alnum_lower_def)

end
