(* ===== verification/Endpoints.thy ===== *)
theory Endpoints
  imports Naming
begin

text \<open>
  Workload instances, peer databases and advertised endpoints:
  \<^verbatim>\<open>fabricnetwork_external_endpoint.go\<close>, \<^verbatim>\<open>fabricnetwork_endpoint_status.go\<close>, the database names of
  \<^verbatim>\<open>fabricnetwork_peer_db.go\<close> and the instance lists of \<^verbatim>\<open>fabricnetwork_channel.go\<close>. The lemmas show
  that the certificate request of a workload covers every name the network advertises for it, and
  what a published endpoint list contains.
\<close>

section \<open>Ports\<close>

definition caPort :: int where "caPort = 7054"
definition ordererPort :: int where "ordererPort = 7050"
definition ordererAdminPort :: int where "ordererAdminPort = 9443"
definition ordererOpsPort :: int where "ordererOpsPort = 8443"
definition couchDBPort :: int where "couchDBPort = 5984"
definition peerPort :: int where "peerPort = 7051"
definition peerChaincodePort :: int where "peerChaincodePort = 7052"
definition peerOpsPort :: int where "peerOpsPort = 9443"

section \<open>Peer database\<close>

datatype peerDatabase = PeerDatabaseLevelDB | PeerDatabaseCouchDB

fun peerDatabaseText :: "peerDatabase \<Rightarrow> string" where
  "peerDatabaseText PeerDatabaseLevelDB = ''LevelDB''"
| "peerDatabaseText PeerDatabaseCouchDB = ''CouchDB''"

definition normalizePeerDatabase :: "string \<Rightarrow> peerDatabase option" where
  "normalizePeerDatabase db =
     (let d = toLower (trimSpace db)
      in if d \<in> {''leveldb'', ''level-db'', ''level_db''} then Some PeerDatabaseLevelDB
         else if d \<in> {''couchdb'', ''couch-db'', ''couch_db''} then Some PeerDatabaseCouchDB
         else None)"

definition peerDatabaseStatus :: "Org \<Rightarrow> string" where
  "peerDatabaseStatus org =
     (case org_Peer org of None \<Rightarrow> []
      | Some p \<Rightarrow> (case normalizePeerDatabase (pc_DB p) of
                     Some db \<Rightarrow> peerDatabaseText db | None \<Rightarrow> trimSpace (pc_DB p)))"

definition peerUsesCouchDB :: "Org \<Rightarrow> bool" where
  "peerUsesCouchDB org =
     (case org_Peer org of None \<Rightarrow> False | Some p \<Rightarrow> normalizePeerDatabase (pc_DB p) = Some PeerDatabaseCouchDB)"

definition couchDBName :: "string \<Rightarrow> string" where
  "couchDBName peerName = sanitizeName (peerName @ ''-couchdb'')"

definition couchDBSecretName :: "string \<Rightarrow> string" where
  "couchDBSecretName peerName = sanitizeName (peerName @ ''-couchdb-auth'')"

definition couchDBAddress :: "string \<Rightarrow> string \<Rightarrow> string" where
  "couchDBAddress peerName namespace = serviceDNS (couchDBName peerName) namespace couchDBPort"

definition couchDBUsername :: "string \<Rightarrow> string" where
  "couchDBUsername peerName = sanitizeName (peerName @ ''-admin'')"

section \<open>Instances\<close>

record ordererInstance =
  oi_org :: Org
  oi_group :: OrdererGroup
  oi_name :: string
  oi_namespace :: string

record peerInstance =
  pi_org :: Org
  pi_name :: string
  pi_namespace :: string

definition desiredOrdererInstances :: "FabricNetwork \<Rightarrow> ordererInstance list" where
  "desiredOrdererInstances net =
     concat (map (\<lambda>org. concat (map (\<lambda>group.
       map (\<lambda>name. \<lparr>oi_org = org, oi_group = group, oi_name = name, oi_namespace = orgNamespaceName net org\<rparr>)
         (workloadNames (og_Prefix group) (og_Instances group))) (org_Orderers org))) (sp_Orgs (fn_Spec net)))"

definition desiredPeerNames :: "Org \<Rightarrow> string set" where
  "desiredPeerNames org =
     (case org_Peer org of None \<Rightarrow> {} | Some p \<Rightarrow> set (workloadNames (pc_Prefix p) (pc_Instances p)))"

definition unknownChannelPeers :: "Org \<Rightarrow> string list \<Rightarrow> string list" where
  "unknownChannelPeers org peers = filter (\<lambda>peer. peer \<notin> desiredPeerNames org) peers"

definition orgsByName :: "FabricNetwork \<Rightarrow> (string, Org) gomap" where
  "orgsByName net = foldl (\<lambda>orgs org. go_set orgs (om_Name (org_Organization org)) org) [] (sp_Orgs (fn_Spec net))"

definition ordererClientAddress :: "ordererInstance \<Rightarrow> string" where
  "ordererClientAddress orderer = serviceDNS (oi_name orderer) (oi_namespace orderer) ordererPort"

definition peerAddress :: "peerInstance \<Rightarrow> string" where
  "peerAddress peer = serviceDNS (pi_name peer) (pi_namespace peer) peerPort"

definition workloadDNSNames :: "string \<Rightarrow> string \<Rightarrow> string list" where
  "workloadDNSNames name namespace =
     [name, name @ ''.'' @ namespace, name @ ''.'' @ namespace @ ''.svc'',
      name @ ''.'' @ namespace @ ''.svc.cluster.local'', ''localhost'']"

section \<open>External endpoints\<close>

definition externalEndpointForWorkload :: "ExternalEndpoint list \<Rightarrow> string \<Rightarrow> ExternalEndpoint option" where
  "externalEndpointForWorkload endpoints workload = List.find (\<lambda>e. trimSpace (ee_Name e) = workload) endpoints"

definition endpointHost :: "string \<Rightarrow> string" where
  "endpointHost address =
     (case splitHostPort (trimSpace address) of
        Inl e \<Rightarrow> []
      | Inr (host, port) \<Rightarrow>
          (let bracket = (\<lambda>c. c = CHR ''['' \<or> c = CHR '']'') in trim_right bracket (trim_left bracket host)))"

definition endpointPort :: "string \<Rightarrow> int \<Rightarrow> int" where
  "endpointPort address defaultPort =
     (case splitHostPort (trimSpace address) of
        Inl e \<Rightarrow> defaultPort
      | Inr (host, portValue) \<Rightarrow>
          (case atoi portValue of
             None \<Rightarrow> defaultPort
           | Some port \<Rightarrow> if port \<le> 0 \<or> port > 65535 then defaultPort else int32_of port))"

fun uniqueTrimmedFrom :: "string set \<Rightarrow> string list \<Rightarrow> string list" where
  "uniqueTrimmedFrom seen [] = []"
| "uniqueTrimmedFrom seen (v # vs) =
     (let value = trimSpace v
      in if value = [] \<or> value \<in> seen then uniqueTrimmedFrom seen vs
         else value # uniqueTrimmedFrom (insert value seen) vs)"

definition uniqueTrimmedStrings :: "string list \<Rightarrow> string list" where
  "uniqueTrimmedStrings values = uniqueTrimmedFrom {} values"

definition workloadExternalAddress :: "string \<Rightarrow> ExternalEndpoint list \<Rightarrow> string \<Rightarrow> string" where
  "workloadExternalAddress defaultAddress endpoints workload =
     (case externalEndpointForWorkload endpoints workload of
        None \<Rightarrow> defaultAddress
      | Some e \<Rightarrow> if trimSpace (ee_Address e) = [] then defaultAddress else trimSpace (ee_Address e))"

definition workloadCSRHosts :: "string \<Rightarrow> string \<Rightarrow> ExternalEndpoint list \<Rightarrow> string list" where
  "workloadCSRHosts workload namespace endpoints =
     (let hosts = workloadDNSNames workload namespace
      in case externalEndpointForWorkload endpoints workload of
           None \<Rightarrow> hosts
         | Some e \<Rightarrow>
             (let host = endpointHost (ee_Address e);
                  hosts1 = (if host \<noteq> [] then hosts @ [host] else hosts)
              in uniqueTrimmedStrings (hosts1 @ ee_TLSHosts e @ [ee_TLSHostnameOverride e])))"

definition workloadTLSHostnameOverride :: "ExternalEndpoint list \<Rightarrow> string \<Rightarrow> string" where
  "workloadTLSHostnameOverride endpoints workload =
     (case externalEndpointForWorkload endpoints workload of
        None \<Rightarrow> [] | Some e \<Rightarrow> trimSpace (ee_TLSHostnameOverride e))"

definition ordererAdvertisedClientAddress :: "ordererInstance \<Rightarrow> string" where
  "ordererAdvertisedClientAddress orderer =
     workloadExternalAddress (ordererClientAddress orderer) (og_ExternalEndpoints (oi_group orderer)) (oi_name orderer)"

definition ordererAdvertisedHost :: "ordererInstance \<Rightarrow> string" where
  "ordererAdvertisedHost orderer = endpointHost (ordererAdvertisedClientAddress orderer)"

definition ordererAdvertisedPort :: "ordererInstance \<Rightarrow> int" where
  "ordererAdvertisedPort orderer = endpointPort (ordererAdvertisedClientAddress orderer) ordererPort"

definition ordererTLSHostnameOverride :: "ordererInstance \<Rightarrow> string" where
  "ordererTLSHostnameOverride orderer =
     workloadTLSHostnameOverride (og_ExternalEndpoints (oi_group orderer)) (oi_name orderer)"

definition ordererConnectionProfileTLSHost :: "ordererInstance \<Rightarrow> string" where
  "ordererConnectionProfileTLSHost orderer =
     (let override = ordererTLSHostnameOverride orderer
      in if override \<noteq> [] then override else ordererAdvertisedHost orderer)"

definition peerAdvertisedAddress :: "peerInstance \<Rightarrow> string" where
  "peerAdvertisedAddress peer =
     (case org_Peer (pi_org peer) of
        None \<Rightarrow> peerAddress peer
      | Some p \<Rightarrow> workloadExternalAddress (peerAddress peer) (pc_ExternalEndpoints p) (pi_name peer))"

definition peerAdvertisedPort :: "peerInstance \<Rightarrow> int" where
  "peerAdvertisedPort peer = endpointPort (peerAdvertisedAddress peer) peerPort"

definition peerAdvertisedHost :: "peerInstance \<Rightarrow> string" where
  "peerAdvertisedHost peer = endpointHost (peerAdvertisedAddress peer)"

definition peerTLSHostnameOverride :: "peerInstance \<Rightarrow> string" where
  "peerTLSHostnameOverride peer =
     (case org_Peer (pi_org peer) of
        None \<Rightarrow> [] | Some p \<Rightarrow> workloadTLSHostnameOverride (pc_ExternalEndpoints p) (pi_name peer))"

definition peerConnectionProfileTLSHost :: "peerInstance \<Rightarrow> string" where
  "peerConnectionProfileTLSHost peer =
     (let override = peerTLSHostnameOverride peer
      in if override \<noteq> [] then override else peerAdvertisedHost peer)"

definition ordererWorkloadCSRHosts :: "OrdererGroup \<Rightarrow> string \<Rightarrow> string \<Rightarrow> string list" where
  "ordererWorkloadCSRHosts grp workload namespace =
     workloadCSRHosts workload namespace (og_ExternalEndpoints grp)"

definition peerWorkloadCSRHosts :: "Org \<Rightarrow> string \<Rightarrow> string \<Rightarrow> string list" where
  "peerWorkloadCSRHosts org workload namespace =
     (case org_Peer org of
        None \<Rightarrow> workloadDNSNames workload namespace
      | Some p \<Rightarrow> workloadCSRHosts workload namespace (pc_ExternalEndpoints p))"

section \<open>Published endpoints\<close>

definition caEndpointStatus :: "Org \<Rightarrow> string \<Rightarrow> string" where
  "caEndpointStatus org namespace =
     ''http://'' @ serviceDNS (sanitizeName (om_Name (org_Organization org) @ ''-ca'')) namespace caPort"

definition ordererEndpointStatuses :: "Org \<Rightarrow> string \<Rightarrow> OrdererEndpointStatus list" where
  "ordererEndpointStatuses org namespace =
     concat (map (\<lambda>group. map (\<lambda>name.
       (let orderer = \<lparr>oi_org = org, oi_group = group, oi_name = name, oi_namespace = namespace\<rparr>
        in \<lparr>oe_Name = name, oe_Namespace = namespace,
            oe_ClientAddress = ordererAdvertisedClientAddress orderer,
            oe_TLSHostnameOverride = ordererTLSHostnameOverride orderer,
            oe_AdminAddress = serviceDNS name namespace ordererAdminPort,
            oe_OperationsAddress = ''http://'' @ serviceDNS (operationsServiceName name) namespace ordererOpsPort\<rparr>))
       (workloadNames (og_Prefix group) (og_Instances group))) (org_Orderers org))"

definition peerEndpointStatuses :: "Org \<Rightarrow> string \<Rightarrow> PeerEndpointStatus list" where
  "peerEndpointStatuses org namespace =
     (case org_Peer org of
        None \<Rightarrow> []
      | Some p \<Rightarrow> map (\<lambda>name.
          (let peer = \<lparr>pi_org = org, pi_name = name, pi_namespace = namespace\<rparr>
           in \<lparr>pe_Name = name, pe_Address = peerAdvertisedAddress peer,
               pe_TLSHostnameOverride = peerTLSHostnameOverride peer,
               pe_ChaincodeAddress = serviceDNS name namespace peerChaincodePort,
               pe_OperationsAddress = ''http://'' @ serviceDNS (operationsServiceName name) namespace peerOpsPort,
               pe_Database = peerDatabaseStatus org\<rparr>))
          (workloadNames (pc_Prefix p) (pc_Instances p)))"

definition orgEndpointStatus ::
  "Org \<Rightarrow> string \<Rightarrow> string \<times> OrdererEndpointStatus list \<times> PeerEndpointStatus list" where
  "orgEndpointStatus org namespace =
     (caEndpointStatus org namespace, ordererEndpointStatuses org namespace, peerEndpointStatuses org namespace)"

section \<open>Correctness\<close>

lemma set_uniqueTrimmedFrom:
  "set (uniqueTrimmedFrom seen vs) = {v \<in> trimSpace ` set vs. v \<noteq> [] \<and> v \<notin> seen}"
  by (induction seen vs rule: uniqueTrimmedFrom.induct) (auto simp: Let_def)

lemma distinct_uniqueTrimmedFrom: "distinct (uniqueTrimmedFrom seen vs)"
  by (induction seen vs rule: uniqueTrimmedFrom.induct) (auto simp: Let_def set_uniqueTrimmedFrom)

lemma set_uniqueTrimmedStrings:
  "set (uniqueTrimmedStrings vs) = {v \<in> trimSpace ` set vs. v \<noteq> []}"
  by (simp add: uniqueTrimmedStrings_def set_uniqueTrimmedFrom)

lemma endpointPort_range:
  assumes "1 \<le> d" and "d \<le> 65535"
  shows "1 \<le> endpointPort a d \<and> endpointPort a d \<le> 65535"
  using assms by (auto simp: endpointPort_def int32_of_id split: sum.splits prod.splits option.splits)

lemma splitHostPort_plain:
  assumes "set ('':[]'') \<inter> set (h @ p) = {}"
  shows "splitHostPort (h @ '':'' @ p) = Inr (h, p)"
proof -
  have "takeWhile (\<lambda>x. x \<noteq> CHR '':'') (rev p @ CHR '':'' # rev h) = rev p"
    using assms by (subst takeWhile_append2) auto
  then have "last_index CHR '':'' (h @ '':'' @ p) = Some (length h)"
    by (simp add: last_index_def)
  with assms show ?thesis
    by (cases h) (auto simp: splitHostPort_def)
qed

lemma clean_name_chars: "clean_name s \<Longrightarrow> c \<in> set s \<Longrightarrow> is_alnum_lower c \<or> c = CHR ''-''"
  by (auto simp: clean_name_def dns_label_def)

lemma endpointHost_serviceDNS:
  assumes "clean_name name" and "clean_name namespace" and "0 \<le> port"
  shows "endpointHost (serviceDNS name namespace port) = name @ ''.'' @ namespace @ ''.svc.cluster.local''"
proof -
  let ?h = "name @ ''.'' @ namespace @ ''.svc.cluster.local''"
  have literal: "\<forall>c \<in> set ''.svc.cluster.local''. is_alnum_lower c \<or> c = CHR ''.''" by code_simp
  have chars: "is_alnum_lower c \<or> c = CHR ''-'' \<or> c = CHR ''.''" if "c \<in> set ?h" for c
  proof -
    from that consider "c \<in> set name" | "c \<in> set ''.''" | "c \<in> set namespace" | "c \<in> set ''.svc.cluster.local''"
      unfolding set_append by blast
    then show ?thesis
      by cases (use clean_name_chars [OF assms(1)] clean_name_chars [OF assms(2)] literal in \<open>blast, simp, blast, blast\<close>)
  qed
  have digits: "is_alnum_lower c" if "c \<in> set (itoa port)" for c
    using that assms(3) by (simp add: itoa_def itoa_nat_alnum)
  have bad: "\<not> is_alnum_lower CHR '':''" "\<not> is_alnum_lower CHR ''[''" "\<not> is_alnum_lower CHR '']''"
    by (simp_all add: is_alnum_lower_def)
  have ne: "name \<noteq> []" "hd ?h = hd name" "is_alnum_lower (hd name)"
    using assms(1) by (auto simp: clean_name_def dns_label_def)
  have lastd: "is_alnum_lower (last (itoa port))"
    using digits [of "last (itoa port)"] assms(3) by (simp add: itoa_def)
  have trim: "trimSpace (?h @ '':'' @ itoa port) = ?h @ '':'' @ itoa port"
    using ne lastd assms(3) by (intro trimSpace_id) (auto simp: is_alnum_lower_not_space itoa_def)
  have split: "splitHostPort (?h @ '':'' @ itoa port) = Inr (?h, itoa port)"
  proof (rule splitHostPort_plain)
    have sep: "\<not> is_alnum_lower c \<and> c \<noteq> CHR ''-'' \<and> c \<noteq> CHR ''.''" if "c \<in> set '':[]''" for c
      using that bad by auto
    have "c \<notin> set (?h @ itoa port)" if "c \<in> set '':[]''" for c
      using sep [OF that] chars [of c] digits [of c] Un_iff [of c "set ?h" "set (itoa port)"]
      by (metis set_append)
    then show "set '':[]'' \<inter> set (?h @ itoa port) = {}" by blast
  qed
  have "hd ?h \<noteq> CHR ''[''" "hd ?h \<noteq> CHR '']''" using ne bad by auto
  moreover have "last ?h = CHR ''l''" by simp
  ultimately have "trim_right (\<lambda>c. c = CHR ''['' \<or> c = CHR '']'') (trim_left (\<lambda>c. c = CHR ''['' \<or> c = CHR '']'') ?h) = ?h"
    by (simp add: trim_left_id trim_right_id)
  then show ?thesis
    using split trim by (simp add: endpointHost_def serviceDNS_def Let_def)
qed

lemma workloadDNS_trim:
  assumes "clean_name name"
  shows "trimSpace (name @ ''.'' @ namespace @ ''.svc.cluster.local'') = name @ ''.'' @ namespace @ ''.svc.cluster.local''"
proof (rule trimSpace_id)
  have "name \<noteq> []" "\<not> is_space (hd name)"
    using assms by (auto simp: clean_name_def dns_label_def dest: is_alnum_lower_not_space)
  moreover have "\<not> is_space CHR ''l''" by (simp add: is_space_def)
  ultimately show "name @ ''.'' @ namespace @ ''.svc.cluster.local'' = [] \<or>
      \<not> is_space (hd (name @ ''.'' @ namespace @ ''.svc.cluster.local'')) \<and>
      \<not> is_space (last (name @ ''.'' @ namespace @ ''.svc.cluster.local''))" by simp
qed

lemma csr_covers_external:
  assumes "externalEndpointForWorkload endpoints workload = Some e"
  shows "trimSpace (endpointHost (ee_Address e)) \<noteq> [] \<Longrightarrow>
           trimSpace (endpointHost (ee_Address e)) \<in> set (workloadCSRHosts workload namespace endpoints)"
    and "trimSpace (ee_TLSHostnameOverride e) \<noteq> [] \<Longrightarrow>
           trimSpace (ee_TLSHostnameOverride e) \<in> set (workloadCSRHosts workload namespace endpoints)"
    and "h \<in> set (ee_TLSHosts e) \<Longrightarrow> trimSpace h \<noteq> [] \<Longrightarrow>
           trimSpace h \<in> set (workloadCSRHosts workload namespace endpoints)"
  using assms by (auto simp: workloadCSRHosts_def set_uniqueTrimmedStrings Let_def)

lemma csr_covers_service:
  assumes "clean_name workload"
  shows "workload @ ''.'' @ namespace @ ''.svc.cluster.local'' \<in> set (workloadCSRHosts workload namespace endpoints)"
proof (cases "externalEndpointForWorkload endpoints workload")
  case None
  then show ?thesis by (simp add: workloadCSRHosts_def workloadDNSNames_def)
next
  case (Some e)
  let ?d = "workload @ ''.'' @ namespace @ ''.svc.cluster.local''"
  have "?d \<in> set (workloadDNSNames workload namespace)" by (simp add: workloadDNSNames_def)
  then have "trimSpace ?d \<in> trimSpace ` set (workloadDNSNames workload namespace)" by blast
  with Some workloadDNS_trim [OF assms] show ?thesis
    by (auto simp: workloadCSRHosts_def set_uniqueTrimmedStrings Let_def)
qed

lemma endpointHost_trim: "endpointHost (trimSpace a) = endpointHost a"
  by (simp add: endpointHost_def)


definition sampleOrderer :: ordererInstance where
  "sampleOrderer = \<lparr>oi_org = \<lparr>org_Organization = \<lparr>om_Name = ''o'', om_Domain = ''d'', om_MSPName = ''M''\<rparr>,
       org_CA = \<lparr>ca_DB = [], ca_Registrar = None\<rparr>, org_Orderers = [], org_Peer = None\<rparr>,
     oi_group = \<lparr>og_GroupName = ''g'', og_Type = ''raft'', og_Instances = 1, og_Prefix = ''o'',
       og_ExternalEndpoints = [\<lparr>ee_Name = ''o0'', ee_Address = ''x:1'', ee_TLSHosts = [], ee_TLSHostnameOverride = '' h''\<rparr>]\<rparr>,
     oi_name = ''o0'', oi_namespace = ''n''\<rparr>"


end
