(* ===== verification/Kube_Objects.thy ===== *)
theory Kube_Objects
  imports Endpoints Crypto_Env
begin

text \<open>
  The Kubernetes objects the operator reads and writes, with the fields its code sets or inspects:
  the \<open>core/v1\<close>, \<open>apps/v1\<close>, \<open>batch/v1\<close>, \<open>networking/v1\<close> and \<open>rbac/v1\<close> structs as records, the union of
  them as \<open>KObject\<close>, and the key an object is stored under. Resource quantities are kept as the
  texts the code parses. A nil map is \<open>None\<close> where the code tells it from an empty one.
\<close>

section \<open>Metadata, Secrets and ConfigMaps\<close>

record ObjectMeta =
  mt_Name :: string
  mt_Namespace :: string
  mt_Labels :: "(string, string) gomap option" \<comment> \<open>\<open>None\<close> is the nil map\<close>
  mt_Annotations :: "(string, string) gomap option"

record Secret =
  sec_Meta :: ObjectMeta
  sec_Type :: string
  sec_Data :: "(string, bytes) gomap"

record ConfigMap =
  cm_Meta :: ObjectMeta
  cm_Data :: "(string, string) gomap"
  cm_BinaryData :: "(string, bytes) gomap"
  cm_Immutable :: bool

section \<open>Pods\<close>

text \<open>
  A Job container runs \<^verbatim>\<open>sh -ec\<close> on a shell text, named by the Go function that returns it.
\<close>

datatype Script =
    CARegistrarRotationScript
  | AdminEnrollmentScript
  | PublishAdminIdentityScript
  | WorkloadEnrollmentScript
  | PublishWorkloadIdentityScript
  | GenerateChannelBlockScript string \<comment> \<open>channel\<close>
  | PublishChannelBlockScript
  | JoinOrdererScript string string string \<comment> \<open>channel, admin address, admin TLS path\<close>
  | PublishOrdererJoinResultScript
  | JoinPeerScript string string string string string \<comment> \<open>channel, MSP, peer address, MSP path, admin TLS path\<close>
  | PublishPeerJoinResultScript
  | UpdateAnchorPeerScript string string string string int string string string string string
      \<comment> \<open>channel, MSP, peer address, anchor host and port, orderer address, MSP, admin TLS and orderer TLS paths, file\<close>
  | PublishAnchorPeerUpdateResultScript
  | AddLocalOrgScript string string string string string string string string
      \<comment> \<open>channel, admin and joining MSP, peer and orderer address, MSP, admin TLS and orderer TLS paths\<close>
  | PublishLocalOrgAddResultScript
  | AddExternalOrgScript string string string string string string string string string string ChannelExternalOrgState string bool
      \<comment> \<open>as before, then the application org path, the update file, state, operation, submit\<close>
  | PublishExternalOrgUpdateResultScript
  | SignedChannelUpdateScript string string string string string string string string string bool
      \<comment> \<open>as for a local org, then the output file and whether the MSP is to be present\<close>
  | RaftStagingScript string string string \<comment> \<open>channel, admin MSP, orderer address\<close>
  | PublishRaftStagingScript
  | RaftSubmissionScript string string string
  | InstallChaincodeScript string string bool \<comment> \<open>MSP, peer address, TLS\<close>
  | PublishChaincodeInstallScript
  | ApproveChaincodeScript string string string string int string string bool string string string "(string \<times> string) option"
      \<comment> \<open>channel, name, version, package ID, sequence, orderer address, policy, init required, collections, MSP,
         peer address; with TLS the orderer's CA file and host name\<close>
  | CommitChaincodeScript string string string int string string bool string string string "(string \<times> (string \<times> string) list) option"
      \<comment> \<open>channel, name, version, sequence, orderer address, policy, init required, collections, MSP, peer address;
         with TLS the orderer's CA file and every endorsing peer with its own\<close>
  | PublishChaincodeLifecycleResultScript

datatype Command = ImageCommand | ShellScript Script | CommandLine "string list"

datatype IntOrString = IntPort int | NamedPort string

record ContainerPort =
  cp_ContainerPort :: int
  cp_Name :: string
  cp_Protocol :: string

datatype ProbeHandler = TCPSocket IntOrString | HTTPGet string IntOrString string \<comment> \<open>path, port, scheme\<close>

record Probe =
  pb_Handler :: ProbeHandler
  pb_InitialDelaySeconds :: int
  pb_PeriodSeconds :: int
  pb_TimeoutSeconds :: int
  pb_SuccessThreshold :: int
  pb_FailureThreshold :: int

record VolumeMount =
  vm_Name :: string
  vm_MountPath :: string
  vm_ReadOnly :: bool

record Container =
  ct_Name :: string
  ct_Image :: string
  ct_ImagePullPolicy :: string
  ct_Command :: Command
  ct_Args :: "string list"
  ct_Env :: "(string \<times> EnvSource) list"
  ct_Ports :: "ContainerPort list"
  ct_ReadinessProbe :: "Probe option"
  ct_LivenessProbe :: "Probe option"
  ct_Resources :: ResourceRequirements
  ct_VolumeMounts :: "VolumeMount list"

text \<open>The container of a Job: no ports, probes, arguments or pull policy.\<close>

definition shellContainer ::
  "string \<Rightarrow> string \<Rightarrow> Script \<Rightarrow> (string \<times> EnvSource) list \<Rightarrow> ResourceRequirements \<Rightarrow> VolumeMount list \<Rightarrow> Container" where
  "shellContainer name img script env resources mounts =
     \<lparr>ct_Name = name, ct_Image = img, ct_ImagePullPolicy = [], ct_Command = ShellScript script, ct_Args = [], ct_Env = env,
      ct_Ports = [], ct_ReadinessProbe = None, ct_LivenessProbe = None, ct_Resources = resources, ct_VolumeMounts = mounts\<rparr>"

text \<open>A projected Secret or ConfigMap lists the keys it shows and their paths; an empty list shows all.\<close>

datatype VolumeSource =
    EmptyDir
  | SecretVolume string "(string \<times> string) list" "int option"
  | ConfigMapVolume string "(string \<times> string) list"
  | ClaimVolume string

record Job =
  job_Meta :: ObjectMeta
  job_BackoffLimit :: int
  job_PodLabels :: "(string, string) gomap"
  job_PodAnnotations :: "(string, string) gomap"
  job_ServiceAccount :: string
  job_RestartPolicy :: string
  job_Volumes :: "(string \<times> VolumeSource) list"
  job_InitContainers :: "Container list"
  job_Containers :: "Container list"
  job_Conditions :: "(string \<times> ConditionStatus) list"
  job_Succeeded :: int
  job_CompletionTime :: "gotime option"

section \<open>Workloads\<close>

record Deployment =
  dep_Meta :: ObjectMeta
  dep_Generation :: int
  dep_Replicas :: "int option"
  dep_Strategy :: string
  dep_Selector :: "(string, string) gomap"
  dep_PodLabels :: "(string, string) gomap option"
  dep_PodAnnotations :: "(string, string) gomap option"
  dep_Volumes :: "(string \<times> VolumeSource) list"
  dep_Containers :: "Container list"
  dep_ObservedGeneration :: int
  dep_ReadyReplicas :: int
  dep_UpdatedReplicas :: int
  dep_AvailableReplicas :: int

record ServicePort =
  svp_Name :: string
  svp_Port :: int
  svp_Protocol :: string
  svp_TargetPort :: IntOrString

record Service =
  svc_Meta :: ObjectMeta
  svc_Selector :: "(string, string) gomap option"
  svc_Ports :: "ServicePort list"

record PersistentVolumeClaim =
  pvc_Meta :: ObjectMeta
  pvc_AccessModes :: "string list"
  pvc_StorageClassName :: "string option"
  pvc_Storage :: string

section \<open>Network policies, monitors and access control\<close>

text \<open>A missing selector selects everything; selectors hold \<open>matchLabels\<close> only.\<close>

record NetworkPolicyPeer =
  npp_NamespaceSelector :: "(string, string) gomap option"
  npp_PodSelector :: "(string, string) gomap option"

record NetworkPolicyPort =
  npt_Protocol :: string
  npt_Port :: IntOrString

record NetworkPolicyRule =
  npr_Peers :: "NetworkPolicyPeer list"
  npr_Ports :: "NetworkPolicyPort list"

record NetworkPolicySpec =
  nps_PodSelector :: "(string, string) gomap"
  nps_PolicyTypes :: "string list"
  nps_Ingress :: "NetworkPolicyRule list"
  nps_Egress :: "NetworkPolicyRule list"

record NetworkPolicy =
  np_Meta :: ObjectMeta
  np_Spec :: NetworkPolicySpec

text \<open>The unstructured \<open>spec\<close> of a ServiceMonitor is a tree of maps, lists and scalars.\<close>

datatype unstructured =
    UString string
  | UBool bool
  | UList "unstructured list"
  | UMap "(string \<times> unstructured) list"

record ServiceMonitor =
  sm_Meta :: ObjectMeta
  sm_Spec :: "unstructured option"

record PolicyRule =
  pr_APIGroups :: "string list"
  pr_Resources :: "string list"
  pr_Verbs :: "string list"

record RBACSubject =
  su_Kind :: string
  su_Name :: string
  su_Namespace :: string

record RoleRef =
  rr_APIGroup :: string
  rr_Kind :: string
  rr_Name :: string

section \<open>Objects and their keys\<close>

datatype KObject =
    OSecret Secret
  | OJob Job
  | OServiceAccount ObjectMeta
  | ORole ObjectMeta "PolicyRule list"
  | ORoleBinding ObjectMeta "RBACSubject list" RoleRef
  | OConfigMap ConfigMap
  | ONamespace ObjectMeta
  | ODeployment Deployment
  | OService Service
  | OPersistentVolumeClaim PersistentVolumeClaim
  | ONetworkPolicy NetworkPolicy
  | OServiceMonitor ServiceMonitor

datatype Kind =
    KSecret | KJob | KServiceAccount | KRole | KRoleBinding | KConfigMap | KNamespace | KDeployment
  | KService | KPersistentVolumeClaim | KNetworkPolicy | KServiceMonitor

type_synonym objkey = "Kind \<times> string \<times> string" \<comment> \<open>kind, namespace, name\<close>

fun objKind :: "KObject \<Rightarrow> Kind" where
  "objKind (OSecret _) = KSecret"
| "objKind (OJob _) = KJob"
| "objKind (OServiceAccount _) = KServiceAccount"
| "objKind (ORole _ _) = KRole"
| "objKind (ORoleBinding _ _ _) = KRoleBinding"
| "objKind (OConfigMap _) = KConfigMap"
| "objKind (ONamespace _) = KNamespace"
| "objKind (ODeployment _) = KDeployment"
| "objKind (OService _) = KService"
| "objKind (OPersistentVolumeClaim _) = KPersistentVolumeClaim"
| "objKind (ONetworkPolicy _) = KNetworkPolicy"
| "objKind (OServiceMonitor _) = KServiceMonitor"

fun objMeta :: "KObject \<Rightarrow> ObjectMeta" where
  "objMeta (OSecret s) = sec_Meta s"
| "objMeta (OJob j) = job_Meta j"
| "objMeta (OServiceAccount m) = m"
| "objMeta (ORole m _) = m"
| "objMeta (ORoleBinding m _ _) = m"
| "objMeta (OConfigMap c) = cm_Meta c"
| "objMeta (ONamespace m) = m"
| "objMeta (ODeployment d) = dep_Meta d"
| "objMeta (OService s) = svc_Meta s"
| "objMeta (OPersistentVolumeClaim p) = pvc_Meta p"
| "objMeta (ONetworkPolicy p) = np_Meta p"
| "objMeta (OServiceMonitor m) = sm_Meta m"

definition objKey :: "KObject \<Rightarrow> objkey" where
  "objKey ob = (objKind ob, mt_Namespace (objMeta ob), mt_Name (objMeta ob))"

fun kindText :: "Kind \<Rightarrow> string" where
  "kindText KSecret = ''Secret''"
| "kindText KJob = ''Job''"
| "kindText KServiceAccount = ''ServiceAccount''"
| "kindText KRole = ''Role''"
| "kindText KRoleBinding = ''RoleBinding''"
| "kindText KConfigMap = ''ConfigMap''"
| "kindText KNamespace = ''Namespace''"
| "kindText KDeployment = ''Deployment''"
| "kindText KService = ''Service''"
| "kindText KPersistentVolumeClaim = ''PersistentVolumeClaim''"
| "kindText KNetworkPolicy = ''NetworkPolicy''"
| "kindText KServiceMonitor = ''ServiceMonitor''"

text \<open>
  Kinds of which only the operator writes the modelled fields. Jobs, Deployments, claims, Namespaces
  and ConfigMaps are also written by the cluster's own controllers, by admission or by the Jobs.
\<close>

fun settled :: "Kind \<Rightarrow> bool" where
  "settled KJob = False"
| "settled KConfigMap = False"
| "settled KNamespace = False"
| "settled KDeployment = False"
| "settled KPersistentVolumeClaim = False"
| "settled KSecret = True"
| "settled KServiceAccount = True"
| "settled KRole = True"
| "settled KRoleBinding = True"
| "settled KService = True"
| "settled KNetworkPolicy = True"
| "settled KServiceMonitor = True"

lemma objKind_objects:
  "objKind ob = KSecret \<longleftrightarrow> (\<exists>s. ob = OSecret s)"
  "objKind ob = KJob \<longleftrightarrow> (\<exists>j. ob = OJob j)"
  "objKind ob = KDeployment \<longleftrightarrow> (\<exists>d. ob = ODeployment d)"
  "objKind ob = KService \<longleftrightarrow> (\<exists>s. ob = OService s)"
  by (cases ob; simp)+

end
