(* ===== verification/Kube_Api.thy ===== *)
theory Kube_Api
  imports Kube_Objects
begin

text \<open>
  Kubernetes objects and the client the reconcilers use. The API server, the clock and the random
  source are not part of the repository: the record \<open>Kube\<close> holds their operations over an abstract
  state, and every reconciler function takes it as an argument. The locale \<open>kube_api\<close> states what
  the code relies on, through a \<open>view\<close> of the stored objects: reading returns the stored object,
  writes hit only the addressed object, and a failed write may or may not have taken effect.
  Kinds that are not \<open>settled\<close> also change behind the controller's back and are exempt from the laws.
  The second half holds the object bookkeeping of \<^verbatim>\<open>fabricnetwork_controller.go\<close>,
  \<^verbatim>\<open>fabricnetwork_org.go\<close>, \<^verbatim>\<open>fabricnetwork_identity.go\<close> and \<^verbatim>\<open>fabricnetwork_enrollment.go\<close>: labels,
  ownership, retry on conflict and the \<open>ensure\<close> functions.
\<close>

definition resourceRequirements :: "string \<Rightarrow> string \<Rightarrow> string \<Rightarrow> string \<Rightarrow> ResourceRequirements" where
  "resourceRequirements requestCPU requestMemory limitCPU limitMemory =
     \<lparr>rq_RequestCPU = requestCPU, rq_RequestMemory = requestMemory, rq_LimitCPU = limitCPU, rq_LimitMemory = limitMemory\<rparr>"

definition componentResourceRequirements :: "string \<Rightarrow> ResourceRequirements" where
  "componentResourceRequirements component =
     (if component = ''ca'' then resourceRequirements ''100m'' ''128Mi'' ''500m'' ''512Mi''
      else if component = ''orderer'' then resourceRequirements ''250m'' ''256Mi'' ''1'' ''1Gi''
      else if component = ''peer'' then resourceRequirements ''250m'' ''512Mi'' ''1'' ''1Gi''
      else if component = ''chaincode'' then resourceRequirements ''50m'' ''128Mi'' ''500m'' ''512Mi''
      else if component = ''couchdb'' then resourceRequirements ''100m'' ''512Mi'' ''500m'' ''2Gi''
      else if component = ''fabric-cli'' then resourceRequirements ''50m'' ''128Mi'' ''500m'' ''512Mi''
      else if component = ''kubectl'' then resourceRequirements ''50m'' ''64Mi'' ''250m'' ''128Mi''
      else resourceRequirements ''100m'' ''128Mi'' ''500m'' ''512Mi'')"

section \<open>The client\<close>

datatype ApiError = NotFound | Conflict | OtherError string

type_synonym ('s, 'a) io = "'s \<Rightarrow> (ApiError + 'a) \<times> 's"

record 's Kube =
  k_Get :: "objkey \<Rightarrow> ('s, KObject) io"
  k_Create :: "KObject \<Rightarrow> ('s, unit) io"
  k_Update :: "KObject \<Rightarrow> ('s, unit) io"
  k_Now :: "'s \<Rightarrow> gotime \<times> 's"
  k_RandInt :: "nat \<Rightarrow> ('s, nat) io"

text \<open>\<open>if err := f(); err != nil { return err }\<close> before the rest, and a loop of such calls.\<close>

definition ioBind :: "('s, 'a) io \<Rightarrow> ('a \<Rightarrow> ('s, 'b) io) \<Rightarrow> ('s, 'b) io" where
  "ioBind f g s = (case f s of (Inl e, s1) \<Rightarrow> (Inl e, s1) | (Inr a, s1) \<Rightarrow> g a s1)"

definition ioReturn :: "'a \<Rightarrow> ('s, 'a) io" where
  "ioReturn a s = (Inr a, s)"

fun ioSeq :: "('s, unit) io list \<Rightarrow> ('s, unit) io" where
  "ioSeq [] = ioReturn ()"
| "ioSeq (f # fs) = ioBind f (\<lambda>_. ioSeq fs)"

text \<open>What a call keeps of the state, it keeps through binding and loops.\<close>

definition ioKeeps :: "('s \<Rightarrow> bool) \<Rightarrow> ('s, 'a) io \<Rightarrow> bool" where
  "ioKeeps Q f \<longleftrightarrow> (\<forall>s. Q s \<longrightarrow> Q (snd (f s)))"

lemma ioKeeps_bind [intro]: "ioKeeps Q f \<Longrightarrow> (\<And>a. ioKeeps Q (g a)) \<Longrightarrow> ioKeeps Q (ioBind f g)"
  by (fastforce simp: ioKeeps_def ioBind_def split: prod.splits sum.splits)

lemma ioKeeps_return [simp]: "ioKeeps Q (ioReturn a)"
  by (simp add: ioKeeps_def ioReturn_def)

lemma ioKeeps_seq: "(\<And>f. f \<in> set fs \<Longrightarrow> ioKeeps Q f) \<Longrightarrow> ioKeeps Q (ioSeq fs)"
  by (induction fs) (auto intro: ioKeeps_bind)

text \<open>A write leaves the other objects alone; the addressed one is stored on success and either
  stored or untouched on failure.\<close>

locale kube_api =
  fixes api :: "'s Kube" and view :: "'s \<Rightarrow> objkey \<Rightarrow> KObject option"
  assumes get_frame: "settled (fst k) \<Longrightarrow> view (snd (k_Get api k' s)) k = view s k"
    and get_found: "settled (fst k) \<Longrightarrow> fst (k_Get api k s) = Inr ob \<Longrightarrow> view s k = Some ob \<and> objKey ob = k"
    and get_not_found: "settled (fst k) \<Longrightarrow> fst (k_Get api k s) = Inl NotFound \<Longrightarrow> view s k = None"
    and create_frame: "settled (fst k) \<Longrightarrow> k \<noteq> objKey ob \<Longrightarrow> view (snd (k_Create api ob s)) k = view s k"
    and create_done: "settled (objKind ob) \<Longrightarrow> fst (k_Create api ob s) = Inr () \<Longrightarrow>
          view (snd (k_Create api ob s)) (objKey ob) = Some ob"
    and create_failed: "settled (objKind ob) \<Longrightarrow>
          view (snd (k_Create api ob s)) (objKey ob) \<in> {view s (objKey ob), Some ob}"
    and update_frame: "settled (fst k) \<Longrightarrow> k \<noteq> objKey ob \<Longrightarrow> view (snd (k_Update api ob s)) k = view s k"
    and update_done: "settled (objKind ob) \<Longrightarrow> fst (k_Update api ob s) = Inr () \<Longrightarrow>
          view (snd (k_Update api ob s)) (objKey ob) = Some ob"
    and update_failed: "settled (objKind ob) \<Longrightarrow>
          view (snd (k_Update api ob s)) (objKey ob) \<in> {view s (objKey ob), Some ob}"
    and now_frame: "settled (fst k) \<Longrightarrow> view (snd (k_Now api s)) k = view s k"
    and rand_frame: "settled (fst k) \<Longrightarrow> view (snd (k_RandInt api n s)) k = view s k"
    and rand_range: "fst (k_RandInt api n s) = Inr r \<Longrightarrow> 0 < n \<Longrightarrow> r < n"

section \<open>Labels and annotations\<close>

definition nilmap :: "(string, string) gomap option \<Rightarrow> (string, string) gomap" where
  "nilmap m = (case m of None \<Rightarrow> [] | Some kvs \<Rightarrow> kvs)"

definition labelOf :: "ObjectMeta \<Rightarrow> string \<Rightarrow> string" where
  "labelOf m k = go_get (nilmap (mt_Labels m)) k"

definition annotationOf :: "ObjectMeta \<Rightarrow> string \<Rightarrow> string" where
  "annotationOf m k = go_get (nilmap (mt_Annotations m)) k"

definition labelFabricNetwork :: string where "labelFabricNetwork = ''fabricops.io/fabricnetwork''"
definition labelFabricNetworkNamespace :: string where "labelFabricNetworkNamespace = ''fabricops.io/fabricnetwork-namespace''"
definition labelOrg :: string where "labelOrg = ''fabricops.io/org''"
definition labelComponent :: string where "labelComponent = ''fabricops.io/component''"
definition labelIdentityKind :: string where "labelIdentityKind = ''fabricops.io/identity-kind''"
definition labelIdentitySource :: string where "labelIdentitySource = ''fabricops.io/identity-source''"
definition labelWorkload :: string where "labelWorkload = ''fabricops.io/workload''"
definition labelAppName :: string where "labelAppName = ''app.kubernetes.io/name''"
definition labelAppManagedBy :: string where "labelAppManagedBy = ''app.kubernetes.io/managed-by''"
definition labelAppPartOf :: string where "labelAppPartOf = ''app.kubernetes.io/part-of''"
definition labelAppComponent :: string where "labelAppComponent = ''app.kubernetes.io/component''"
definition annotationManagedBy :: string where "annotationManagedBy = ''fabricops.io/managed-by''"
definition annotationFabricNetwork :: string where "annotationFabricNetwork = ''fabricops.io/fabricnetwork''"
definition annotationFabricNetworkNamespace :: string where "annotationFabricNetworkNamespace = ''fabricops.io/fabricnetwork-namespace''"
definition annotationFabricNetworkUID :: string where "annotationFabricNetworkUID = ''fabricops.io/fabricnetwork-uid''"
definition annotationOrg :: string where "annotationOrg = ''fabricops.io/org''"
definition annotationSucceededJobCleanup :: string where "annotationSucceededJobCleanup = ''fabricops.io/succeeded-job-cleanup''"

lemmas label_names =
  labelFabricNetwork_def labelFabricNetworkNamespace_def labelOrg_def labelComponent_def labelIdentityKind_def
  labelIdentitySource_def labelWorkload_def labelAppName_def labelAppManagedBy_def labelAppPartOf_def
  labelAppComponent_def annotationManagedBy_def annotationFabricNetwork_def annotationFabricNetworkNamespace_def
  annotationFabricNetworkUID_def annotationOrg_def annotationSucceededJobCleanup_def

definition baseLabels :: "FabricNetwork \<Rightarrow> (string, string) gomap" where
  "baseLabels net = [
     (labelFabricNetwork, sanitizeName (fn_Name net)), (labelFabricNetworkNamespace, sanitizeName (fn_Namespace net)),
     (labelAppName, ''fabricops''), (labelAppManagedBy, ''fabricops''), (labelAppPartOf, sanitizeName (fn_Name net))]"

definition orgLabels :: "FabricNetwork \<Rightarrow> Org \<Rightarrow> string \<Rightarrow> (string, string) gomap" where
  "orgLabels net org component =
     go_set (go_set (go_set (baseLabels net) labelOrg (sanitizeName (om_Name (org_Organization org))))
       labelComponent component) labelAppComponent component"

definition identityLabels ::
  "FabricNetwork \<Rightarrow> Org \<Rightarrow> string \<Rightarrow> string \<Rightarrow> (string, string) gomap \<Rightarrow> (string, string) gomap" where
  "identityLabels net org component workload extra =
     foldl (\<lambda>m kv. go_set m (fst kv) (snd kv)) (go_set (orgLabels net org component) labelWorkload workload) extra"

definition resourceAnnotations :: "FabricNetwork \<Rightarrow> Org \<Rightarrow> (string, string) gomap" where
  "resourceAnnotations net org =
     (let annotations = [
        (annotationManagedBy, ''fabricops-controller''), (annotationFabricNetwork, fn_Name net),
        (annotationFabricNetworkNamespace, fn_Namespace net), (annotationOrg, om_Name (org_Organization org))]
      in if fn_UID net \<noteq> [] then go_set annotations annotationFabricNetworkUID (fn_UID net) else annotations)"

definition succeededJobCleanupAnnotations :: "(string, string) gomap \<Rightarrow> (string, string) gomap" where
  "succeededJobCleanupAnnotations annotations = go_set annotations annotationSucceededJobCleanup ''true''"

text \<open>The loop of \<open>mergeStringMap\<close> over a non-nil map: a key is written only when it reads differently.\<close>

fun mergeStep :: "bool \<times> (string, string) gomap \<Rightarrow> string \<times> string \<Rightarrow> bool \<times> (string, string) gomap" where
  "mergeStep (changed, m) (k, v) = (if go_get m k \<noteq> v then (True, go_set m k v) else (changed, m))"

definition mergeEntries :: "(string, string) gomap \<Rightarrow> (string, string) gomap \<Rightarrow> bool \<times> (string, string) gomap" where
  "mergeEntries existing desired = foldl mergeStep (False, existing) desired"

definition mergeStringMap ::
  "(string, string) gomap option \<Rightarrow> (string, string) gomap \<Rightarrow> bool \<times> (string, string) gomap option" where
  "mergeStringMap existing desired =
     (case existing of
        None \<Rightarrow> (let (c, m) = mergeEntries [] desired in (desired \<noteq> [] \<or> c, Some m))
      | Some e \<Rightarrow> (let (c, m) = mergeEntries e desired in (c, Some m)))"

section \<open>Ownership\<close>

record fabricNetworkOwner =
  ow_name :: string
  ow_namespace :: string

definition annotationOwner :: "ObjectMeta \<Rightarrow> fabricNetworkOwner" where
  "annotationOwner m = \<lparr>ow_name = annotationOf m annotationFabricNetwork,
                        ow_namespace = annotationOf m annotationFabricNetworkNamespace\<rparr>"

definition labelOwner :: "ObjectMeta \<Rightarrow> fabricNetworkOwner" where
  "labelOwner m = \<lparr>ow_name = labelOf m labelFabricNetwork, ow_namespace = labelOf m labelFabricNetworkNamespace\<rparr>"

definition fabricNetworkOwnerFromAnnotations :: "ObjectMeta \<Rightarrow> fabricNetworkOwner option" where
  "fabricNetworkOwnerFromAnnotations m =
     (let owner = annotationOwner m in if ow_name owner \<noteq> [] \<or> ow_namespace owner \<noteq> [] then Some owner else None)"

definition fabricNetworkOwnerFromLabels :: "ObjectMeta \<Rightarrow> fabricNetworkOwner option" where
  "fabricNetworkOwnerFromLabels m =
     (let owner = labelOwner m in if ow_name owner \<noteq> [] \<or> ow_namespace owner \<noteq> [] then Some owner else None)"

definition objectDescription :: "KObject \<Rightarrow> string" where
  "objectDescription ob =
     (let m = objMeta ob; kind = kindText (objKind ob)
      in if mt_Namespace m = [] then kind @ '' '' @ mt_Name m else kind @ '' '' @ mt_Namespace m @ ''/'' @ mt_Name m)"

definition ensureMatchingFabricNetworkOwner ::
  "KObject \<Rightarrow> fabricNetworkOwner \<Rightarrow> fabricNetworkOwner \<Rightarrow> ApiError option" where
  "ensureMatchingFabricNetworkOwner ob existing desired =
     (if ow_name existing = ow_name desired \<and> ow_namespace existing = ow_namespace desired then None
      else Some (OtherError (objectDescription ob @ '' is owned by FabricNetwork '' @ ow_namespace existing @ ''/'' @
             ow_name existing @ '', refusing to update for FabricNetwork '' @ ow_namespace desired @ ''/'' @ ow_name desired)))"

definition ensureSameFabricNetworkOwner :: "KObject \<Rightarrow> KObject \<Rightarrow> ApiError option" where
  "ensureSameFabricNetworkOwner existing desired =
     (case fabricNetworkOwnerFromAnnotations (objMeta existing) of
        Some owner \<Rightarrow> ensureMatchingFabricNetworkOwner existing owner (annotationOwner (objMeta desired))
      | None \<Rightarrow>
          (case fabricNetworkOwnerFromLabels (objMeta existing) of
             Some owner \<Rightarrow> ensureMatchingFabricNetworkOwner existing owner (labelOwner (objMeta desired))
           | None \<Rightarrow> None))"

definition hasFabricNetworkOwner :: "KObject \<Rightarrow> bool" where
  "hasFabricNetworkOwner ob \<longleftrightarrow>
     fabricNetworkOwnerFromAnnotations (objMeta ob) \<noteq> None \<or> fabricNetworkOwnerFromLabels (objMeta ob) \<noteq> None"

section \<open>Writing with retry\<close>

text \<open>\<open>retry.RetryOnConflict\<close> with \<open>DefaultRetry\<close>: at most five attempts, repeated on a conflict only.\<close>

fun retryOnConflict :: "nat \<Rightarrow> ('s, unit) io \<Rightarrow> ('s, unit) io" where
  "retryOnConflict 0 attempt s = (Inl Conflict, s)"
| "retryOnConflict (Suc n) attempt s =
     (case attempt s of
        (Inl Conflict, s1) \<Rightarrow> if n = 0 then (Inl Conflict, s1) else retryOnConflict n attempt s1
      | (r, s1) \<Rightarrow> (r, s1))"

definition updateAttempt :: "'s Kube \<Rightarrow> KObject \<Rightarrow> (KObject \<Rightarrow> bool \<times> KObject) \<Rightarrow> ('s, unit) io" where
  "updateAttempt api desired mutate s =
     (case k_Get api (objKey desired) s of
        (Inl e, s1) \<Rightarrow> (Inl e, s1)
      | (Inr existing, s1) \<Rightarrow>
          (case ensureSameFabricNetworkOwner existing desired of
             Some e \<Rightarrow> (Inl e, s1)
           | None \<Rightarrow> (case mutate existing of
                        (False, _) \<Rightarrow> (Inr (), s1)
                      | (True, updated) \<Rightarrow> k_Update api updated s1)))"

definition updateObjectWithRetry :: "'s Kube \<Rightarrow> KObject \<Rightarrow> (KObject \<Rightarrow> bool \<times> KObject) \<Rightarrow> ('s, unit) io" where
  "updateObjectWithRetry api desired mutate = retryOnConflict 5 (updateAttempt api desired mutate)"

text \<open>The shape all \<open>ensure\<close> functions share: create when absent, else update in place.\<close>

definition createOrUpdate :: "'s Kube \<Rightarrow> KObject \<Rightarrow> (KObject \<Rightarrow> bool \<times> KObject) \<Rightarrow> ('s, unit) io" where
  "createOrUpdate api desired mutate s =
     (case k_Get api (objKey desired) s of
        (Inl NotFound, s1) \<Rightarrow> k_Create api desired s1
      | (Inl e, s1) \<Rightarrow> (Inl e, s1)
      | (Inr _, s1) \<Rightarrow> updateObjectWithRetry api desired mutate s1)"

definition mergeMeta :: "ObjectMeta \<Rightarrow> ObjectMeta \<Rightarrow> bool \<times> ObjectMeta" where
  "mergeMeta existing desired =
     (let (c1, labels) = mergeStringMap (mt_Labels existing) (nilmap (mt_Labels desired));
          (c2, annotations) = mergeStringMap (mt_Annotations existing) (nilmap (mt_Annotations desired))
      in (c1 \<or> c2, existing\<lparr>mt_Labels := labels, mt_Annotations := annotations\<rparr>))"

definition mutateSecret :: "Secret \<Rightarrow> (Secret \<Rightarrow> string) \<Rightarrow> KObject \<Rightarrow> bool \<times> KObject" where
  "mutateSecret desired validationError ob =
     (case ob of
        OSecret existing \<Rightarrow>
          (let labels0 = nilmap (mt_Labels (sec_Meta existing));
               (c1, labels) = mergeEntries labels0 (nilmap (mt_Labels (sec_Meta desired)));
               (c2, annotations) = mergeStringMap (mt_Annotations (sec_Meta existing)) (nilmap (mt_Annotations (sec_Meta desired)));
               existing1 = existing\<lparr>sec_Meta := (sec_Meta existing)\<lparr>mt_Labels := Some labels, mt_Annotations := annotations\<rparr>\<rparr>;
               bad = validationError existing1 \<noteq> []
           in (mt_Labels (sec_Meta existing) = None \<or> c1 \<or> c2 \<or> bad,
               OSecret (if bad then existing1\<lparr>sec_Data := sec_Data desired, sec_Type := sec_Type desired\<rparr> else existing1)))
      | _ \<Rightarrow> (False, ob))"

definition ensureSecret :: "'s Kube \<Rightarrow> Secret \<Rightarrow> (Secret \<Rightarrow> string) \<Rightarrow> ('s, unit) io" where
  "ensureSecret api desired validationError = createOrUpdate api (OSecret desired) (mutateSecret desired validationError)"

definition secretDataEqual :: "(string, bytes) gomap \<Rightarrow> (string, bytes) gomap \<Rightarrow> bool" where
  "secretDataEqual a b \<longleftrightarrow> length a = length b \<and> list_all (\<lambda>(k, v). v = go_get b k) a"

definition copySecretData :: "(string, bytes) gomap \<Rightarrow> (string, bytes) gomap" where
  "copySecretData d = map (\<lambda>(k, v). (k, v)) d"

definition mutateSecretData :: "Secret \<Rightarrow> KObject \<Rightarrow> bool \<times> KObject" where
  "mutateSecretData desired ob =
     (case ob of
        OSecret existing \<Rightarrow>
          (let (c, meta) = mergeMeta (sec_Meta existing) (sec_Meta desired);
               c2 = (sec_Type existing \<noteq> sec_Type desired);
               c3 = (\<not> secretDataEqual (sec_Data existing) (sec_Data desired))
           in (c \<or> c2 \<or> c3,
               OSecret (existing\<lparr>sec_Meta := meta, sec_Type := sec_Type desired,
                         sec_Data := (if c3 then copySecretData (sec_Data desired) else sec_Data existing)\<rparr>)))
      | _ \<Rightarrow> (False, ob))"

definition upsertSecretData :: "'s Kube \<Rightarrow> Secret \<Rightarrow> ('s, unit) io" where
  "upsertSecretData api desired = createOrUpdate api (OSecret desired) (mutateSecretData desired)"

definition mutateJob :: "Job \<Rightarrow> KObject \<Rightarrow> bool \<times> KObject" where
  "mutateJob desired ob =
     (case ob of
        OJob existing \<Rightarrow>
          (let wanted = nilmap (mt_Annotations (job_Meta desired));
               wanted1 = (if annotationOf (job_Meta existing) annotationSucceededJobCleanup \<noteq> ''true''
                          then AList.delete annotationSucceededJobCleanup wanted else wanted);
               (c, meta) = mergeMeta (job_Meta existing) ((job_Meta desired)\<lparr>mt_Annotations := Some wanted1\<rparr>)
           in (c, OJob (existing\<lparr>job_Meta := meta\<rparr>)))
      | _ \<Rightarrow> (False, ob))"

definition ensureJob :: "'s Kube \<Rightarrow> Job \<Rightarrow> ('s, unit) io" where
  "ensureJob api desired = createOrUpdate api (OJob desired) (mutateJob desired)"

definition mutateServiceAccount :: "ObjectMeta \<Rightarrow> KObject \<Rightarrow> bool \<times> KObject" where
  "mutateServiceAccount desired ob =
     (case ob of OServiceAccount existing \<Rightarrow> (let (c, m) = mergeMeta existing desired in (c, OServiceAccount m))
      | _ \<Rightarrow> (False, ob))"

definition ensureServiceAccount :: "'s Kube \<Rightarrow> ObjectMeta \<Rightarrow> ('s, unit) io" where
  "ensureServiceAccount api desired = createOrUpdate api (OServiceAccount desired) (mutateServiceAccount desired)"

definition mutateRole :: "ObjectMeta \<Rightarrow> PolicyRule list \<Rightarrow> KObject \<Rightarrow> bool \<times> KObject" where
  "mutateRole desired rules ob =
     (case ob of ORole existing oldRules \<Rightarrow>
        (let (c, m) = mergeMeta existing desired in (c \<or> oldRules \<noteq> rules, ORole m rules))
      | _ \<Rightarrow> (False, ob))"

definition ensureRole :: "'s Kube \<Rightarrow> ObjectMeta \<Rightarrow> PolicyRule list \<Rightarrow> ('s, unit) io" where
  "ensureRole api desired rules = createOrUpdate api (ORole desired rules) (mutateRole desired rules)"

definition mutateRoleBinding :: "ObjectMeta \<Rightarrow> RBACSubject list \<Rightarrow> RoleRef \<Rightarrow> KObject \<Rightarrow> bool \<times> KObject" where
  "mutateRoleBinding desired subjects roleRef ob =
     (case ob of ORoleBinding existing oldSubjects oldRef \<Rightarrow>
        (let (c, m) = mergeMeta existing desired
         in (c \<or> oldSubjects \<noteq> subjects \<or> oldRef \<noteq> roleRef, ORoleBinding m subjects roleRef))
      | _ \<Rightarrow> (False, ob))"

definition ensureRoleBinding :: "'s Kube \<Rightarrow> ObjectMeta \<Rightarrow> RBACSubject list \<Rightarrow> RoleRef \<Rightarrow> ('s, unit) io" where
  "ensureRoleBinding api desired subjects roleRef =
     createOrUpdate api (ORoleBinding desired subjects roleRef) (mutateRoleBinding desired subjects roleRef)"

section \<open>Job outcome\<close>

definition jobFailed :: "Job \<Rightarrow> bool" where
  "jobFailed job = list_ex (\<lambda>(ty, st). st = ConditionTrue \<and> (ty = ''Failed'' \<or> ty = ''FailureTarget'')) (job_Conditions job)"

definition jobSucceeded :: "Job \<Rightarrow> bool" where
  "jobSucceeded job =
     (list_ex (\<lambda>(ty, st). st = ConditionTrue \<and> ty = ''Complete'') (job_Conditions job) \<or> job_Succeeded job > 0)"

section \<open>What the write functions do to the store\<close>

definition keepsKey :: "(KObject \<Rightarrow> bool \<times> KObject) \<Rightarrow> bool" where
  "keepsKey mutate \<longleftrightarrow> (\<forall>ob. objKey (snd (mutate ob)) = objKey ob)"

lemma mergeMeta_key [simp]:
  "mt_Name (snd (mergeMeta e d)) = mt_Name e" "mt_Namespace (snd (mergeMeta e d)) = mt_Namespace e"
  by (simp_all add: mergeMeta_def Let_def split: prod.splits)

lemma keepsKey_mutators [simp]:
  "keepsKey (mutateSecret sec v)" "keepsKey (mutateSecretData sec)" "keepsKey (mutateJob j)"
  "keepsKey (mutateServiceAccount m)" "keepsKey (mutateRole m rules)" "keepsKey (mutateRoleBinding m subs rr)"
  by (auto simp: keepsKey_def objKey_def mutateSecret_def mutateSecretData_def mutateJob_def mutateServiceAccount_def
      mutateRole_def mutateRoleBinding_def Let_def case_prod_unfold split: KObject.split)

context kube_api
begin

lemma view_get: "k_Get api k' s = (r, s1) \<Longrightarrow> settled (fst k) \<Longrightarrow> view s1 k = view s k"
  using get_frame [of k k' s] by simp

lemma attempt_frame:
  assumes "keepsKey mutate" and "k \<noteq> objKey desired" and "settled (fst k)" and "settled (fst (objKey desired))"
  shows "view (snd (updateAttempt api desired mutate s)) k = view s k"
proof (cases "k_Get api (objKey desired) s")
  case (Pair r s1)
  note v1 = view_get [OF Pair assms(3)]
  show ?thesis
  proof (cases r)
    case (Inl e)
    with Pair v1 show ?thesis by (simp add: updateAttempt_def)
  next
    case (Inr ob)
    have "objKey ob = objKey desired" using get_found [OF assms(4), of s ob] Pair Inr by simp
    then have "objKey (snd (mutate ob)) = objKey desired" using assms(1) by (simp add: keepsKey_def)
    with assms(2,3) v1 Pair Inr show ?thesis
      by (auto simp: updateAttempt_def update_frame split: option.splits prod.splits bool.splits)
  qed
qed

text \<open>For unsettled kinds nothing is known of the object read, but what is written is unsettled too.\<close>

lemma attempt_volatile_frame:
  assumes "\<not> settled (fst (objKey desired))" and "\<And>ob. \<not> settled (objKind (snd (mutate ob))) \<or> \<not> fst (mutate ob)" and "settled (fst k)"
  shows "view (snd (updateAttempt api desired mutate s)) k = view s k"
proof (cases "k_Get api (objKey desired) s")
  case (Pair r s1)
  note v1 = view_get [OF Pair assms(3)]
  show ?thesis
  proof (cases r)
    case (Inl e)
    with Pair v1 show ?thesis by (simp add: updateAttempt_def)
  next
    case (Inr ob)
    have "view (snd (k_Update api u s1)) k = view s1 k" if "mutate ob = (True, u)" for u
      using assms(2) [of ob] assms(3) that by (intro update_frame) (auto simp: objKey_def)
    with v1 Pair Inr show ?thesis
      by (auto simp: updateAttempt_def split: option.splits prod.splits bool.splits)
  qed
qed

lemma attempt_invariant:
  assumes "keepsKey mutate" and "settled (fst (objKey desired))" and "P (view s (objKey desired))"
    and "\<And>ob. P (Some ob) \<Longrightarrow> ensureSameFabricNetworkOwner ob desired = None \<Longrightarrow> P (Some (snd (mutate ob)))"
  shows "P (view (snd (updateAttempt api desired mutate s)) (objKey desired))"
proof (cases "k_Get api (objKey desired) s")
  case (Pair r s1)
  note v1 = view_get [OF Pair assms(2)]
  show ?thesis
  proof (cases r)
    case (Inl e)
    with Pair v1 assms(3) show ?thesis by (simp add: updateAttempt_def)
  next
    case (Inr ob)
    have ob: "view s (objKey desired) = Some ob" "objKey ob = objKey desired"
      using get_found [OF assms(2), of s ob] Pair Inr by auto
    have key: "objKey (snd (mutate ob)) = objKey desired" using assms(1) ob by (simp add: keepsKey_def)
    then have kind: "settled (objKind (snd (mutate ob)))" using assms(2) by (simp add: objKey_def)
    have "P (view (snd (k_Update api (snd (mutate ob)) s1)) (objKey desired))"
      if "ensureSameFabricNetworkOwner ob desired = None"
      using update_failed [OF kind, of s1] key v1 ob assms(3) assms(4) [of ob] that by auto
    with v1 assms(3) Pair Inr show ?thesis
      by (auto simp: updateAttempt_def split: option.splits prod.splits bool.splits)
  qed
qed

lemma retry_invariant:
  assumes "\<And>s. Q s \<Longrightarrow> Q (snd (attempt s))" and "Q s"
  shows "Q (snd (retryOnConflict n attempt s))"
  using assms(2)
proof (induction n arbitrary: s)
  case (Suc n)
  from assms(1) [OF Suc.prems] Suc.IH show ?case by (auto split: prod.splits sum.splits ApiError.splits)
qed simp

lemma createOrUpdate_frame:
  assumes "keepsKey mutate" and "k \<noteq> objKey desired" and "settled (fst k)" and "settled (fst (objKey desired))"
  shows "view (snd (createOrUpdate api desired mutate s)) k = view s k"
proof -
  have "view (snd (updateObjectWithRetry api desired mutate s1)) k = view s k" if "view s1 k = view s k" for s1
    unfolding updateObjectWithRetry_def
    by (rule retry_invariant [of "\<lambda>x. view x k = view s k"]) (use attempt_frame [OF assms] that in auto)
  then show ?thesis
    using view_get [OF _ assms(3)] create_frame [OF assms(3,2)]
    by (auto simp: createOrUpdate_def split: prod.splits sum.splits ApiError.splits)
qed

lemma createOrUpdate_volatile_frame:
  assumes "\<not> settled (fst (objKey desired))" and "\<And>ob. \<not> settled (objKind (snd (mutate ob))) \<or> \<not> fst (mutate ob)" and "settled (fst k)"
  shows "view (snd (createOrUpdate api desired mutate s)) k = view s k"
proof -
  have "view (snd (updateObjectWithRetry api desired mutate s1)) k = view s k" if "view s1 k = view s k" for s1
    unfolding updateObjectWithRetry_def
    by (rule retry_invariant [of "\<lambda>x. view x k = view s k"]) (use attempt_volatile_frame [OF assms] that in auto)
  moreover have "k \<noteq> objKey desired" using assms(1,3) by auto
  ultimately show ?thesis
    using view_get [OF _ assms(3)] create_frame [OF assms(3)]
    by (auto simp: createOrUpdate_def split: prod.splits sum.splits ApiError.splits)
qed

text \<open>What the view of a settled object satisfies survives writes to other objects.\<close>

lemma keeps_volatile:
  assumes "\<not> settled (fst (objKey desired))" and "\<And>ob. \<not> settled (objKind (snd (mutate ob))) \<or> \<not> fst (mutate ob)" and "settled (fst k)"
  shows "ioKeeps (\<lambda>s. P (view s k)) (createOrUpdate api desired mutate)"
  using createOrUpdate_volatile_frame [OF assms] by (simp add: ioKeeps_def)

lemma keeps_other:
  assumes "keepsKey mutate" and "k \<noteq> objKey desired" and "settled (fst k)" and "settled (fst (objKey desired))"
  shows "ioKeeps (\<lambda>s. P (view s k)) (createOrUpdate api desired mutate)"
  using createOrUpdate_frame [OF assms] by (simp add: ioKeeps_def)

lemma createOrUpdate_invariant:
  assumes "keepsKey mutate" and "settled (fst (objKey desired))" and "P (view s (objKey desired))"
    and "view s (objKey desired) = None \<Longrightarrow> P (Some desired)"
    and "\<And>ob. P (Some ob) \<Longrightarrow> ensureSameFabricNetworkOwner ob desired = None \<Longrightarrow> P (Some (snd (mutate ob)))"
  shows "P (view (snd (createOrUpdate api desired mutate s)) (objKey desired))"
proof (cases "k_Get api (objKey desired) s")
  case (Pair r s1)
  note v1 = view_get [OF Pair assms(2)]
  have step: "P (view (snd (updateAttempt api desired mutate x)) (objKey desired))" if "P (view x (objKey desired))" for x
    using assms(1,2) that assms(5) by (rule attempt_invariant)
  have upd: "P (view (snd (updateObjectWithRetry api desired mutate s1)) (objKey desired))"
    unfolding updateObjectWithRetry_def
    by (rule retry_invariant [of "\<lambda>x. P (view x (objKey desired))"]) (use step v1 assms(3) in auto)
  have "P (view (snd (k_Create api desired s1)) (objKey desired))" if "r = Inl NotFound"
  proof -
    have "view s (objKey desired) = None" using get_not_found [OF assms(2), of s] Pair that by simp
    moreover have "settled (objKind desired)" using assms(2) by (simp add: objKey_def)
    ultimately show ?thesis
      using create_failed [of desired s1] v1 assms(3,4) by auto
  qed
  with upd v1 assms(3) Pair show ?thesis
    by (auto simp: createOrUpdate_def split: sum.splits ApiError.splits)
qed

text \<open>On success the stored object satisfies whatever the mutation establishes.\<close>

lemma attempt_done:
  assumes "keepsKey mutate" and "settled (fst (objKey desired))"
    and "fst (updateAttempt api desired mutate s) = Inr ()"
    and "\<And>ob. R (snd (mutate ob)) \<and> (\<not> fst (mutate ob) \<longrightarrow> R ob) \<or> objKind ob \<noteq> objKind desired"
  shows "\<exists>ob. view (snd (updateAttempt api desired mutate s)) (objKey desired) = Some ob \<and> R ob"
proof (cases "k_Get api (objKey desired) s")
  case (Pair r s1)
  note v1 = view_get [OF Pair assms(2)]
  show ?thesis
  proof (cases r)
    case (Inl e)
    with Pair assms(3) show ?thesis by (simp add: updateAttempt_def)
  next
    case (Inr ob)
    have ob: "view s (objKey desired) = Some ob" "objKey ob = objKey desired"
      using get_found [OF assms(2), of s ob] Pair Inr by auto
    then have R: "R (snd (mutate ob))" "\<not> fst (mutate ob) \<Longrightarrow> R ob"
      using assms(4) [of ob] by (auto simp: objKey_def)
    have key: "objKey (snd (mutate ob)) = objKey desired" using assms(1) ob by (simp add: keepsKey_def)
    then have kind: "settled (objKind (snd (mutate ob)))" using assms(2) by (simp add: objKey_def)
    from assms(3) Pair Inr have own: "ensureSameFabricNetworkOwner ob desired = None"
      by (auto simp: updateAttempt_def split: option.splits)
    show ?thesis
    proof (cases "fst (mutate ob)")
      case True
      with assms(3) Pair Inr own have "fst (k_Update api (snd (mutate ob)) s1) = Inr ()"
        by (auto simp: updateAttempt_def split: prod.splits)
      from update_done [OF kind this] True Pair Inr own key R(1) show ?thesis
        by (auto simp: updateAttempt_def split: prod.splits)
    next
      case False
      with Pair Inr own v1 ob R(2) show ?thesis
        by (auto simp: updateAttempt_def split: prod.splits)
    qed
  qed
qed

lemma retry_done:
  assumes "fst (retryOnConflict n attempt s) = Inr ()"
  shows "\<exists>s0. fst (attempt s0) = Inr () \<and> snd (retryOnConflict n attempt s) = snd (attempt s0)"
  using assms
proof (induction n arbitrary: s)
  case (Suc n)
  then show ?case
    by (auto split: prod.splits sum.splits ApiError.splits if_splits) (metis fst_conv snd_conv)+
qed simp

lemma createOrUpdate_done:
  assumes "keepsKey mutate" and "settled (fst (objKey desired))"
    and "fst (createOrUpdate api desired mutate s) = Inr ()" and "R desired"
    and "\<And>ob. R (snd (mutate ob)) \<and> (\<not> fst (mutate ob) \<longrightarrow> R ob) \<or> objKind ob \<noteq> objKind desired"
  shows "\<exists>ob. view (snd (createOrUpdate api desired mutate s)) (objKey desired) = Some ob \<and> R ob"
proof (cases "k_Get api (objKey desired) s")
  case (Pair r s1)
  show ?thesis
  proof (cases r)
    case (Inl e)
    with Pair assms(3) have e: "e = NotFound" "fst (k_Create api desired s1) = Inr ()"
      by (cases e; simp add: createOrUpdate_def)+
    have "settled (objKind desired)" using assms(2) by (simp add: objKey_def)
    from create_done [OF this e(2)] Pair Inl e assms(4) show ?thesis by (simp add: createOrUpdate_def)
  next
    case (Inr ob)
    with Pair assms(3) have "fst (updateObjectWithRetry api desired mutate s1) = Inr ()"
      by (simp add: createOrUpdate_def)
    from retry_done [OF this [unfolded updateObjectWithRetry_def]] obtain s0 where
      s0: "fst (updateAttempt api desired mutate s0) = Inr ()"
        "snd (updateObjectWithRetry api desired mutate s1) = snd (updateAttempt api desired mutate s0)"
      unfolding updateObjectWithRetry_def by blast
    from attempt_done [OF assms(1,2) s0(1) assms(5)] show ?thesis
      using Pair Inr s0(2) by (simp add: createOrUpdate_def)
  qed
qed

end

section \<open>A store with faults\<close>

text \<open>
  An in-memory API server: every call consumes one entry of a fault schedule, which may reject the
  call, or apply a write and still report an error. It satisfies the laws of \<open>kube_api\<close> and is used
  to evaluate the reconcilers.
\<close>

datatype Fault = NoFault | Reject ApiError | ApplyAndReport ApiError

record MemStore =
  mem_objects :: "(objkey, KObject) gomap"
  mem_faults :: "Fault list"
  mem_clock :: gotime
  mem_random :: "nat list"
  mem_networks :: "(string \<times> string, FabricNetwork) gomap"
  mem_events :: "(string \<times> string \<times> string) list"

definition nextFault :: "MemStore \<Rightarrow> Fault \<times> MemStore" where
  "nextFault s = (case mem_faults s of [] \<Rightarrow> (NoFault, s) | f # fs \<Rightarrow> (f, s\<lparr>mem_faults := fs\<rparr>))"

definition faultError :: "ApiError \<Rightarrow> ApiError" where
  "faultError e = (if e = NotFound then OtherError ''fault'' else e)"

definition memView :: "MemStore \<Rightarrow> objkey \<Rightarrow> KObject option" where
  "memView s k = (case map_of (mem_objects s) k of None \<Rightarrow> None | Some ob \<Rightarrow> if objKey ob = k then Some ob else None)"

definition memGet :: "objkey \<Rightarrow> (MemStore, KObject) io" where
  "memGet k s =
     (case nextFault s of
        (NoFault, s1) \<Rightarrow> (case memView s k of None \<Rightarrow> (Inl NotFound, s1) | Some ob \<Rightarrow> (Inr ob, s1))
      | (Reject e, s1) \<Rightarrow> (Inl (faultError e), s1)
      | (ApplyAndReport e, s1) \<Rightarrow> (Inl (faultError e), s1))"

definition memPut :: "KObject \<Rightarrow> MemStore \<Rightarrow> MemStore" where
  "memPut ob s = s\<lparr>mem_objects := go_set (mem_objects s) (objKey ob) ob\<rparr>"

definition memWrite :: "KObject \<Rightarrow> (MemStore, unit) io" where
  "memWrite ob s =
     (case nextFault s of
        (NoFault, s1) \<Rightarrow> (Inr (), memPut ob s1)
      | (Reject e, s1) \<Rightarrow> (Inl (faultError e), s1)
      | (ApplyAndReport e, s1) \<Rightarrow> (Inl (faultError e), memPut ob s1))"

definition memRand :: "nat \<Rightarrow> (MemStore, nat) io" where
  "memRand n s = (case mem_random s of [] \<Rightarrow> (Inr (0 mod n), s) | r # rs \<Rightarrow> (Inr (r mod n), s\<lparr>mem_random := rs\<rparr>))"

definition memKube :: "MemStore Kube" where
  "memKube = \<lparr>k_Get = memGet, k_Create = memWrite, k_Update = memWrite, k_Now = (\<lambda>s. (mem_clock s, s)), k_RandInt = memRand\<rparr>"

lemma nextFault_objects: "nextFault s = (f, s1) \<Longrightarrow> mem_objects s1 = mem_objects s"
  by (auto simp: nextFault_def split: list.splits)

lemma memView_cong: "mem_objects s1 = mem_objects s \<Longrightarrow> memView s1 = memView s"
  by (simp add: memView_def fun_eq_iff)

lemma memView_put: "memView (memPut ob s) k = (if k = objKey ob then Some ob else memView s k)"
  by (simp add: memView_def memPut_def)

lemma memGet_view: "memView (snd (memGet k s)) = memView s"
proof (cases "nextFault s")
  case (Pair f s1)
  with memView_cong [OF nextFault_objects [OF Pair]] show ?thesis
    by (auto simp: memGet_def split: Fault.splits option.splits)
qed

lemma memWrite_view:
  "memView (snd (memWrite ob s)) k =
     (case fst (nextFault s) of Reject e \<Rightarrow> memView s k | _ \<Rightarrow> if k = objKey ob then Some ob else memView s k)"
proof (cases "nextFault s")
  case (Pair f s1)
  with memView_cong [OF nextFault_objects [OF Pair]] show ?thesis
    by (auto simp: memWrite_def memView_put split: Fault.splits)
qed

lemma faultError_not_found [simp]: "faultError e \<noteq> NotFound"
  by (simp add: faultError_def)

interpretation mem: kube_api memKube memView
proof unfold_locales
  fix k k' :: objkey and s ob
  show "memView (snd (k_Get memKube k' s)) k = memView s k" by (simp add: memKube_def memGet_view)
  show "fst (k_Get memKube k s) = Inr ob \<Longrightarrow> memView s k = Some ob \<and> objKey ob = k"
    by (auto simp: memKube_def memGet_def memView_def split: prod.splits Fault.splits option.splits if_splits)
  show "fst (k_Get memKube k s) = Inl NotFound \<Longrightarrow> memView s k = None"
    using faultError_not_found [symmetric]
    by (auto simp: memKube_def memGet_def split: prod.splits Fault.splits option.splits)
  show "k \<noteq> objKey ob \<Longrightarrow> memView (snd (k_Create memKube ob s)) k = memView s k"
    "k \<noteq> objKey ob \<Longrightarrow> memView (snd (k_Update memKube ob s)) k = memView s k"
    by (simp_all add: memKube_def memWrite_view split: Fault.splits)
  show "fst (k_Create memKube ob s) = Inr () \<Longrightarrow> memView (snd (k_Create memKube ob s)) (objKey ob) = Some ob"
    "fst (k_Update memKube ob s) = Inr () \<Longrightarrow> memView (snd (k_Update memKube ob s)) (objKey ob) = Some ob"
    by (auto simp: memKube_def memWrite_def memView_put split: prod.splits Fault.splits)
  show "memView (snd (k_Create memKube ob s)) (objKey ob) \<in> {memView s (objKey ob), Some ob}"
    "memView (snd (k_Update memKube ob s)) (objKey ob) \<in> {memView s (objKey ob), Some ob}"
    by (simp_all add: memKube_def memWrite_view split: Fault.splits)
next
  fix k :: objkey and s n r
  show "memView (snd (k_Now memKube s)) k = memView s k" by (simp add: memKube_def)
  show "memView (snd (k_RandInt memKube n s)) k = memView s k"
    by (simp add: memKube_def memRand_def memView_def split: list.splits)
  show "fst (k_RandInt memKube n s) = Inr r \<Longrightarrow> 0 < n \<Longrightarrow> r < n"
    by (auto simp: memKube_def memRand_def split: list.splits)
qed

section \<open>Merging and comparing maps\<close>

lemma foldl_mergeStep:
  "foldl mergeStep (c, m) d = (c \<or> fst (foldl mergeStep (False, m) d), snd (foldl mergeStep (False, m) d))"
proof (induction d arbitrary: c m)
  case (Cons kv d)
  obtain k v where kv: "kv = (k, v)" by (cases kv)
  from Cons [of True] Cons [of False] Cons [of c] show ?case by (simp add: kv)
qed simp

lemma mergeEntries_Cons:
  "mergeEntries m ((k, v) # d) =
     (go_get m k \<noteq> v \<or> fst (mergeEntries (if go_get m k \<noteq> v then go_set m k v else m) d),
      snd (mergeEntries (if go_get m k \<noteq> v then go_set m k v else m) d))"
  using foldl_mergeStep [of True "go_set m k v" d] by (simp add: mergeEntries_def)

lemma mergeEntries_get:
  "distinct (map fst d) \<Longrightarrow> go_get (snd (mergeEntries m d)) k = (case map_of d k of Some v \<Rightarrow> v | None \<Rightarrow> go_get m k)"
proof (induction d arbitrary: m)
  case (Cons kv d)
  obtain k' v where kv: "kv = (k', v)" by (cases kv)
  have "snd (mergeEntries m (kv # d)) = snd (mergeEntries (if go_get m k' \<noteq> v then go_set m k' v else m) d)"
    by (simp add: kv mergeEntries_Cons)
  moreover have "k' \<notin> fst ` set d" using Cons.prems by (simp add: kv)
  then have "map_of d k' = None" by (simp add: map_of_eq_None_iff)
  ultimately show ?case using Cons by (auto simp: kv split: option.splits)
qed (simp add: mergeEntries_def)

lemma mergeEntries_unchanged: "\<not> fst (mergeEntries m d) \<Longrightarrow> snd (mergeEntries m d) = m"
proof (induction d arbitrary: m)
  case (Cons kv d)
  then show ?case by (cases kv) (auto simp: mergeEntries_Cons)
qed (simp add: mergeEntries_def)

lemma secretDataEqual_iff:
  assumes "distinct (map fst a)" and "distinct (map fst b)" and "\<forall>v \<in> snd ` set a. v \<noteq> []"
  shows "secretDataEqual a b \<longleftrightarrow> map_of a = map_of b"
proof
  assume eq: "secretDataEqual a b"
  have sub: "set a \<subseteq> set b"
  proof
    fix kv
    assume kv: "kv \<in> set a"
    then have "snd kv \<noteq> []" "snd kv = go_get b (fst kv)"
      using eq assms(3) by (auto simp: secretDataEqual_def list_all_iff)
    then show "kv \<in> set b" by (auto simp: go_get_def split: option.splits dest: map_of_SomeD)
  qed
  have "card (set a) = length a" "card (set b) = length b"
    using assms(1,2) by (auto simp: distinct_card distinct_map)
  then have "set a = set b" using sub eq by (metis card_subset_eq finite_set secretDataEqual_def)
  then show "map_of a = map_of b" using assms(1,2) by (simp add: map_of_inject_set)
next
  assume eq: "map_of a = map_of b"
  then have "set a = set b" using assms(1,2) by (simp add: map_of_inject_set)
  moreover have "length a = length b"
    using calculation assms(1,2) by (metis distinct_card distinct_map)
  moreover have "v = go_get b k" if "(k, v) \<in> set a" for k v
    using that eq assms(1) by (auto simp: go_get_def simp flip: eq)
  ultimately show "secretDataEqual a b" by (auto simp: secretDataEqual_def list_all_iff)
qed

section \<open>Properties\<close>

context kube_api
begin

lemma createOrUpdate_foreign:
  assumes "keepsKey mutate" and "settled (fst (objKey desired))" and "view s (objKey desired) = Some ob"
    and "ensureSameFabricNetworkOwner ob desired \<noteq> None" and "settled (fst k)"
  shows "view (snd (createOrUpdate api desired mutate s)) k = view s k"
proof (cases "k = objKey desired")
  case True
  have "view (snd (createOrUpdate api desired mutate s)) (objKey desired) = Some ob"
    using createOrUpdate_invariant [OF assms(1,2), of "\<lambda>v. v = Some ob"] assms(3,4) by auto
  with True assms(3) show ?thesis by simp
next
  case False
  with assms createOrUpdate_frame show ?thesis by blast
qed

lemma ensureSecret_keeps_data:
  assumes "view s (objKey (OSecret desired)) = Some (OSecret old)" and "validationError old = []"
    and "\<And>a b. sec_Data a = sec_Data b \<Longrightarrow> validationError a = validationError b"
  shows "\<exists>sec. view (snd (ensureSecret api desired validationError s)) (objKey (OSecret desired)) = Some (OSecret sec) \<and>
           sec_Data sec = sec_Data old"
proof -
  let ?P = "\<lambda>v. \<exists>sec. v = Some (OSecret sec) \<and> sec_Data sec = sec_Data old"
  have "?P (view (snd (createOrUpdate api (OSecret desired) (mutateSecret desired validationError) s)) (objKey (OSecret desired)))"
  proof (rule createOrUpdate_invariant)
    fix ob
    assume "?P (Some ob)"
    then obtain sec where sec: "ob = OSecret sec" "sec_Data sec = sec_Data old" by auto
    then have "validationError (sec\<lparr>sec_Meta := m\<rparr>) = []" for m
      using assms(2) assms(3) [of "sec\<lparr>sec_Meta := m\<rparr>" old] by simp
    with sec show "?P (Some (snd (mutateSecret desired validationError ob)))"
      by (simp add: mutateSecret_def Let_def case_prod_unfold)
  qed (use assms(1) in \<open>simp_all add: objKey_def\<close>)
  then show ?thesis by (simp add: ensureSecret_def)
qed

end

definition otherMeta :: "string \<Rightarrow> ObjectMeta" where
  "otherMeta owner = \<lparr>mt_Name = ''s'', mt_Namespace = ''n'', mt_Labels = None,
     mt_Annotations = Some [(annotationFabricNetwork, owner), (annotationFabricNetworkNamespace, ''default'')]\<rparr>"

definition otherSecret :: "string \<Rightarrow> bytes \<Rightarrow> Secret" where
  "otherSecret owner d = \<lparr>sec_Meta = otherMeta owner, sec_Type = ''Opaque'', sec_Data = [(''k'', d)]\<rparr>"

definition storeOf :: "KObject list \<Rightarrow> MemStore" where
  "storeOf obs = \<lparr>mem_objects = map (\<lambda>ob. (objKey ob, ob)) obs, mem_faults = [], mem_clock = 0, mem_random = [],
     mem_networks = [], mem_events = []\<rparr>"



text \<open>
  \<open>ensureSecret\<close> never replaces working credentials: if the stored Secret passes its
  validation, its data is the same afterwards, whatever fails on the way.
\<close>

theorem valid_credentials_kept:
  assumes "kube_api api view" and "view s (objKey (OSecret desired)) = Some (OSecret old)" and "validationError old = []"
    and "\<And>a b. sec_Data a = sec_Data b \<Longrightarrow> validationError a = validationError b"
  shows "\<exists>sec. view (snd (ensureSecret api desired validationError s)) (objKey (OSecret desired)) = Some (OSecret sec) \<and>
           sec_Data sec = sec_Data old"
  using assms by (rule kube_api.ensureSecret_keeps_data)

theorem valid_credentials_kept_witness:
  "\<exists>sec. memView (snd (ensureSecret memKube (otherSecret ''net-a'' ''new'') (\<lambda>_. []) (storeOf [OSecret (otherSecret ''net-a'' ''old'')])))
     (objKey (OSecret (otherSecret ''net-a'' ''new''))) = Some (OSecret sec) \<and> sec_Data sec = [(''k'', ''old'')]"
  using valid_credentials_kept [OF mem.kube_api_axioms, of "storeOf [OSecret (otherSecret ''net-a'' ''old'')]"
      "otherSecret ''net-a'' ''new''" "otherSecret ''net-a'' ''old''" "\<lambda>_. []"]
  by (simp add: storeOf_def memView_def objKey_def otherSecret_def otherMeta_def)

text \<open>
  \<open>secretDataEqual\<close> is equality of the two maps when the first holds no empty value; with
  an empty value it can call two different maps equal, so that an update is skipped.
\<close>

theorem secretDataEqual_sound_without_empty_values:
  "(\<forall>a b. distinct (map fst a) \<and> distinct (map fst b) \<and> (\<forall>v \<in> snd ` set a. v \<noteq> []) \<longrightarrow>
      (secretDataEqual a b \<longleftrightarrow> map_of a = map_of b)) \<and>
   secretDataEqual [(''x'', [])] [(''y'', ''v'')] \<and> map_of [(''x'', [])] \<noteq> map_of [(''y'', ''v'')]"
proof (intro conjI allI impI)
  show "secretDataEqual [(''x'', [])] [(''y'', ''v'')]" by (simp add: secretDataEqual_def go_get_def)
  show "map_of [(''x'', [])] \<noteq> map_of [(''y'', ''v'')]" by (simp add: fun_eq_iff) metis
qed (use secretDataEqual_iff in blast)

theorem secretDataEqual_sound_without_empty_values_witness:
  "secretDataEqual [(''x'', ''1'')] [(''x'', ''1'')] \<longleftrightarrow> map_of [(''x'', ''1'')] = map_of [(''x'', ''1'')]"
  using secretDataEqual_sound_without_empty_values by simp

end
