(* ===== verification/Identity.thy ===== *)
theory Identity
  imports Kube_Api
begin

text \<open>
  Identity material: \<^verbatim>\<open>fabricnetwork_identity.go\<close>, the enrollment of \<^verbatim>\<open>fabricnetwork_enrollment.go\<close> and
  the required Secrets and their status in \<^verbatim>\<open>fabricnetwork_org.go\<close>. Credentials are created once and
  kept while they validate; certificates arrive from enrollment Jobs and are checked before the
  organization counts as ready.
\<close>

section \<open>Kinds and keys\<close>

definition secretKindCABootstrap :: string where "secretKindCABootstrap = ''ca-bootstrap''"
definition secretKindAdminEnroll :: string where "secretKindAdminEnroll = ''admin-enrollment''"
definition secretKindWorkloadEnroll :: string where "secretKindWorkloadEnroll = ''workload-enrollment''"
definition secretKindAdminMSP :: string where "secretKindAdminMSP = ''admin-msp''"
definition secretKindAdminTLS :: string where "secretKindAdminTLS = ''admin-tls''"
definition secretKindMSP :: string where "secretKindMSP = ''msp''"
definition secretKindTLS :: string where "secretKindTLS = ''tls''"

lemmas secret_kinds = secretKindCABootstrap_def secretKindAdminEnroll_def secretKindWorkloadEnroll_def
  secretKindAdminMSP_def secretKindAdminTLS_def secretKindMSP_def secretKindTLS_def

definition caBootstrapUsername :: string where "caBootstrapUsername = ''admin''"
definition bootstrapPasswordLength :: nat where "bootstrapPasswordLength = 32"
definition identitySourceFabricCA :: string where "identitySourceFabricCA = ''fabric-ca''"

definition mspSecretKeys :: "bool \<Rightarrow> string list" where
  "mspSecretKeys tlsEnabled =
     [''config.yaml'', ''cacert.pem'', ''signcert.pem'', ''keystore.pem''] @ (if tlsEnabled then [''tlscacert.pem''] else [])"

definition tlsSecretKeys :: "string list" where
  "tlsSecretKeys = [''ca.crt'', ''server.crt'', ''server.key'']"

definition adminTLSSecretKeys :: "string list" where
  "adminTLSSecretKeys = [''ca.crt'', ''client.crt'', ''client.key'']"

definition caBootstrapSecretKeys :: "string list" where
  "caBootstrapSecretKeys = [''username'', ''password'', ''user-pass'']"

section \<open>Validation\<close>

definition missingSecretKeys :: "Secret \<Rightarrow> string list \<Rightarrow> string list" where
  "missingSecretKeys secret keys = filter (\<lambda>k. map_of (sec_Data secret) k = None) keys"

definition dataOf :: "Secret \<Rightarrow> string \<Rightarrow> bytes" where
  "dataOf secret k = go_get (sec_Data secret) k"

definition missingText :: "string list \<Rightarrow> string" where
  "missingText missing = ''missing keys: '' @ joinWith '','' missing"

definition enrollmentCredentialSecretValidationError :: "Secret \<Rightarrow> string" where
  "enrollmentCredentialSecretValidationError secret =
     (let missing = missingSecretKeys secret caBootstrapSecretKeys;
          username = trimSpace (dataOf secret ''username'');
          password = trimSpace (dataOf secret ''password'');
          userPass = trimSpace (dataOf secret ''user-pass'')
      in if missing \<noteq> [] then missingText missing
         else if username = [] then ''empty enrollment username''
         else if password = [] then ''empty enrollment password''
         else if userPass \<noteq> username @ '':'' @ password then ''enrollment user-pass does not match username/password''
         else [])"

definition caBootstrapSecretValidationError :: "Secret \<Rightarrow> string" where
  "caBootstrapSecretValidationError secret = enrollmentCredentialSecretValidationError secret"

definition parsePEMCertificate :: "Crypto \<Rightarrow> bytes \<Rightarrow> string + X509Certificate" where
  "parsePEMCertificate cr b =
     (case pem_Decode cr b of
        None \<Rightarrow> Inl ''missing certificate PEM block''
      | Some (ty, blockBytes, rest) \<Rightarrow>
          if ty \<noteq> ''CERTIFICATE'' then Inl ''missing certificate PEM block'' else x509_ParseCertificate cr blockBytes)"

definition parsePEMPrivateKey :: "Crypto \<Rightarrow> bytes \<Rightarrow> string + unit" where
  "parsePEMPrivateKey cr b =
     (case pem_Decode cr b of
        None \<Rightarrow> Inl ''missing private key PEM block''
      | Some (ty, blockBytes, rest) \<Rightarrow>
          if ty \<in> {''EC PRIVATE KEY'', ''PRIVATE KEY'', ''RSA PRIVATE KEY''} then x509_ParsePrivateKey cr ty blockBytes
          else Inl (''unsupported private key PEM block '' @ goquote ty))"

definition hasExtKeyUsage :: "X509Certificate \<Rightarrow> string \<Rightarrow> bool" where
  "hasExtKeyUsage cert usage \<longleftrightarrow> usage \<in> set (x_ExtKeyUsage cert)"

definition mspIdentitySecretValidationError :: "Crypto \<Rightarrow> Secret \<Rightarrow> bool \<Rightarrow> string" where
  "mspIdentitySecretValidationError cr secret tlsEnabled =
     (let missing = missingSecretKeys secret (mspSecretKeys tlsEnabled)
      in if missing \<noteq> [] then missingText missing
         else if trimSpace (dataOf secret ''config.yaml'') = [] then ''empty MSP config''
         else if isl (parsePEMCertificate cr (dataOf secret ''cacert.pem'')) then ''invalid MSP CA certificate''
         else if tlsEnabled \<and> isl (parsePEMCertificate cr (dataOf secret ''tlscacert.pem'')) then ''invalid TLS CA certificate''
         else (case parsePEMCertificate cr (dataOf secret ''signcert.pem'') of
                 Inl e \<Rightarrow> ''invalid signing certificate''
               | Inr signCert \<Rightarrow>
                   if x_ExtKeyUsage signCert \<noteq> [] then ''signing certificate has incompatible extended key usage''
                   else if isl (parsePEMPrivateKey cr (dataOf secret ''keystore.pem'')) then ''invalid private key''
                   else []))"

definition tlsIdentitySecretValidationError :: "Crypto \<Rightarrow> Secret \<Rightarrow> string" where
  "tlsIdentitySecretValidationError cr secret =
     (let missing = missingSecretKeys secret tlsSecretKeys
      in if missing \<noteq> [] then missingText missing
         else if isl (parsePEMCertificate cr (dataOf secret ''ca.crt'')) then ''invalid TLS CA certificate''
         else if isl (parsePEMCertificate cr (dataOf secret ''server.crt'')) then ''invalid TLS server certificate''
         else if isl (parsePEMPrivateKey cr (dataOf secret ''server.key'')) then ''invalid TLS server key''
         else [])"

definition adminTLSIdentitySecretValidationError :: "Crypto \<Rightarrow> Secret \<Rightarrow> string" where
  "adminTLSIdentitySecretValidationError cr secret =
     (let missing = missingSecretKeys secret adminTLSSecretKeys
      in if missing \<noteq> [] then missingText missing
         else if isl (parsePEMCertificate cr (dataOf secret ''ca.crt'')) then ''invalid TLS CA certificate''
         else (case parsePEMCertificate cr (dataOf secret ''client.crt'') of
                 Inl e \<Rightarrow> ''invalid TLS client certificate''
               | Inr cert \<Rightarrow>
                   if \<not> hasExtKeyUsage cert ''ClientAuth'' then ''TLS client certificate missing client auth usage''
                   else if isl (parsePEMPrivateKey cr (dataOf secret ''client.key'')) then ''invalid TLS client key''
                   else []))"

definition identitySecretValidationError :: "Crypto \<Rightarrow> Secret \<Rightarrow> string \<Rightarrow> bool \<Rightarrow> string" where
  "identitySecretValidationError cr secret kind tlsEnabled =
     (if kind = secretKindCABootstrap then caBootstrapSecretValidationError secret
      else if kind = secretKindAdminEnroll then enrollmentCredentialSecretValidationError secret
      else if kind = secretKindWorkloadEnroll then enrollmentCredentialSecretValidationError secret
      else if kind = secretKindMSP then mspIdentitySecretValidationError cr secret tlsEnabled
      else if kind = secretKindTLS then tlsIdentitySecretValidationError cr secret
      else if kind = secretKindAdminMSP then mspIdentitySecretValidationError cr secret tlsEnabled
      else if kind = secretKindAdminTLS then adminTLSIdentitySecretValidationError cr secret
      else [])"

section \<open>Credentials\<close>

definition passwordAlphabet :: string where
  "passwordAlphabet = ''abcdefghijklmnopqrstuvwxyzABCDEFGHIJKLMNOPQRSTUVWXYZ0123456789''"

fun randomChars :: "'s Kube \<Rightarrow> nat \<Rightarrow> ('s, string) io" where
  "randomChars api 0 = ioReturn []"
| "randomChars api (Suc n) =
     ioBind (k_RandInt api (length passwordAlphabet)) (\<lambda>r.
     ioBind (randomChars api n) (\<lambda>cs. ioReturn (passwordAlphabet ! r # cs)))"

definition generateBootstrapPassword :: "'s Kube \<Rightarrow> ('s, string) io" where
  "generateBootstrapPassword api = randomChars api bootstrapPasswordLength"

definition credentialData :: "string \<Rightarrow> string \<Rightarrow> (string, bytes) gomap" where
  "credentialData username password =
     [(''username'', username), (''password'', password), (''user-pass'', username @ '':'' @ password)]"

definition buildCABootstrapSecret :: "'s Kube \<Rightarrow> FabricNetwork \<Rightarrow> Org \<Rightarrow> string \<Rightarrow> ('s, Secret) io" where
  "buildCABootstrapSecret api net org namespace =
     ioBind (generateBootstrapPassword api) (\<lambda>password.
       (let name = caBootstrapSecretName org
        in ioReturn \<lparr>
             sec_Meta = \<lparr>mt_Name = name, mt_Namespace = namespace,
                mt_Labels = Some (identityLabels net org ''ca'' name [(labelIdentityKind, secretKindCABootstrap)]),
                mt_Annotations = Some (resourceAnnotations net org)\<rparr>,
             sec_Type = ''Opaque'', sec_Data = credentialData caBootstrapUsername password\<rparr>))"

definition buildEnrollmentCredentialSecret ::
  "'s Kube \<Rightarrow> FabricNetwork \<Rightarrow> Org \<Rightarrow> string \<Rightarrow> string \<Rightarrow> string \<Rightarrow> string \<Rightarrow> ('s, Secret) io" where
  "buildEnrollmentCredentialSecret api net org namespace identityName component kind =
     ioBind (generateBootstrapPassword api) (\<lambda>password.
       ioReturn \<lparr>
         sec_Meta = \<lparr>mt_Name = identityEnrollmentSecretName identityName, mt_Namespace = namespace,
            mt_Labels = Some (identityLabels net org component identityName [(labelIdentityKind, kind)]),
            mt_Annotations = Some (resourceAnnotations net org)\<rparr>,
         sec_Type = ''Opaque'', sec_Data = credentialData identityName password\<rparr>)"

definition tlsOn :: "FabricNetwork \<Rightarrow> bool" where
  "tlsOn net = gl_TLS (sp_Global (fn_Spec net))"

definition ensureCABootstrapSecret :: "Crypto \<Rightarrow> 's Kube \<Rightarrow> FabricNetwork \<Rightarrow> Org \<Rightarrow> string \<Rightarrow> ('s, unit) io" where
  "ensureCABootstrapSecret cr api net org namespace =
     ioBind (buildCABootstrapSecret api net org namespace) (\<lambda>desired.
       ensureSecret api desired (\<lambda>secret. identitySecretValidationError cr secret secretKindCABootstrap (tlsOn net)))"

definition ensureEnrollmentCredentialSecret ::
  "Crypto \<Rightarrow> 's Kube \<Rightarrow> FabricNetwork \<Rightarrow> Org \<Rightarrow> string \<Rightarrow> string \<Rightarrow> string \<Rightarrow> string \<Rightarrow> ('s, unit) io" where
  "ensureEnrollmentCredentialSecret cr api net org namespace identityName component kind =
     ioBind (buildEnrollmentCredentialSecret api net org namespace identityName component kind) (\<lambda>desired.
       ensureSecret api desired (\<lambda>secret. identitySecretValidationError cr secret kind (tlsOn net)))"

definition ensureAdminEnrollmentSecret :: "Crypto \<Rightarrow> 's Kube \<Rightarrow> FabricNetwork \<Rightarrow> Org \<Rightarrow> string \<Rightarrow> ('s, unit) io" where
  "ensureAdminEnrollmentSecret cr api net org namespace =
     ensureEnrollmentCredentialSecret cr api net org namespace (adminIdentityName org) ''admin'' secretKindAdminEnroll"

text \<open>The workloads of an organization in the order of the loops: orderer groups, then peers.\<close>

definition ordererWorkloads :: "Org \<Rightarrow> (OrdererGroup \<times> string) list" where
  "ordererWorkloads org =
     concat (map (\<lambda>grp. map (Pair grp) (workloadNames (og_Prefix grp) (og_Instances grp))) (org_Orderers org))"

definition peerWorkloads :: "Org \<Rightarrow> string list" where
  "peerWorkloads org = (case org_Peer org of None \<Rightarrow> [] | Some p \<Rightarrow> workloadNames (pc_Prefix p) (pc_Instances p))"

definition reconcileIdentityMaterial :: "Crypto \<Rightarrow> 's Kube \<Rightarrow> FabricNetwork \<Rightarrow> Org \<Rightarrow> string \<Rightarrow> ('s, unit) io" where
  "reconcileIdentityMaterial cr api net org namespace =
     ioBind (ensureCABootstrapSecret cr api net org namespace) (\<lambda>_.
     ioBind (ensureAdminEnrollmentSecret cr api net org namespace) (\<lambda>_.
     ioBind (ioSeq (map (\<lambda>(grp, name).
        ensureEnrollmentCredentialSecret cr api net org namespace name ''orderer'' secretKindWorkloadEnroll)
        (ordererWorkloads org))) (\<lambda>_.
     ioSeq (map (\<lambda>name.
        ensureEnrollmentCredentialSecret cr api net org namespace name ''peer'' secretKindWorkloadEnroll)
        (peerWorkloads org)))))"

section \<open>Required Secrets and their status\<close>

record identitySecretRequirement =
  req_namespace :: string
  req_name :: string
  req_kind :: string
  req_keys :: "string list"

definition workloadRequirements :: "bool \<Rightarrow> string \<Rightarrow> string \<Rightarrow> identitySecretRequirement list" where
  "workloadRequirements tlsEnabled namespace name =
     [\<lparr>req_namespace = namespace, req_name = identityEnrollmentSecretName name, req_kind = secretKindWorkloadEnroll,
       req_keys = caBootstrapSecretKeys\<rparr>,
      \<lparr>req_namespace = namespace, req_name = identitySecretName name secretKindMSP, req_kind = secretKindMSP,
       req_keys = mspSecretKeys tlsEnabled\<rparr>] @
     (if tlsEnabled then [\<lparr>req_namespace = namespace, req_name = identitySecretName name secretKindTLS,
        req_kind = secretKindTLS, req_keys = tlsSecretKeys\<rparr>] else [])"

definition requiredIdentitySecrets :: "FabricNetwork \<Rightarrow> Org \<Rightarrow> string \<Rightarrow> identitySecretRequirement list" where
  "requiredIdentitySecrets net org namespace =
     (let tlsEnabled = tlsOn net; adminName = adminIdentityName org
      in [\<lparr>req_namespace = namespace, req_name = caBootstrapSecretName org, req_kind = secretKindCABootstrap,
           req_keys = caBootstrapSecretKeys\<rparr>,
          \<lparr>req_namespace = namespace, req_name = adminEnrollmentSecretName org, req_kind = secretKindAdminEnroll,
           req_keys = caBootstrapSecretKeys\<rparr>,
          \<lparr>req_namespace = namespace, req_name = identitySecretName adminName secretKindMSP, req_kind = secretKindAdminMSP,
           req_keys = mspSecretKeys tlsEnabled\<rparr>] @
         (if tlsEnabled then [\<lparr>req_namespace = namespace, req_name = identitySecretName adminName secretKindTLS,
            req_kind = secretKindAdminTLS, req_keys = adminTLSSecretKeys\<rparr>] else []) @
         concat (map (\<lambda>(grp, name). workloadRequirements tlsEnabled namespace name) (ordererWorkloads org)) @
         concat (map (workloadRequirements tlsEnabled namespace) (peerWorkloads org)))"

definition getSecret :: "'s Kube \<Rightarrow> string \<Rightarrow> string \<Rightarrow> ('s, Secret option) io" where
  "getSecret api namespace name s =
     (case k_Get api (KSecret, namespace, name) s of
        (Inl NotFound, s1) \<Rightarrow> (Inr None, s1)
      | (Inl e, s1) \<Rightarrow> (Inl e, s1)
      | (Inr (OSecret secret), s1) \<Rightarrow> (Inr (Some secret), s1)
      | (Inr _, s1) \<Rightarrow> (Inl (OtherError ''decode Secret''), s1))"

definition requirementProblem :: "Crypto \<Rightarrow> FabricNetwork \<Rightarrow> identitySecretRequirement \<Rightarrow> Secret option \<Rightarrow> string option" where
  "requirementProblem cr net requirement found =
     (let ref = req_namespace requirement @ ''/'' @ req_name requirement
      in case found of
           None \<Rightarrow> Some ref
         | Some secret \<Rightarrow>
             (let missing = missingSecretKeys secret (req_keys requirement);
                  reason = identitySecretValidationError cr secret (req_kind requirement) (tlsOn net)
              in if missing \<noteq> [] then Some (ref @ '' missing keys: '' @ joinWith '','' missing)
                 else if reason \<noteq> [] then Some (ref @ '' invalid: '' @ reason)
                 else None))"

fun missingIdentity :: "Crypto \<Rightarrow> 's Kube \<Rightarrow> FabricNetwork \<Rightarrow> identitySecretRequirement list \<Rightarrow> ('s, string list) io" where
  "missingIdentity cr api net [] = ioReturn []"
| "missingIdentity cr api net (r # rs) =
     ioBind (getSecret api (req_namespace r) (req_name r)) (\<lambda>found.
     ioBind (missingIdentity cr api net rs) (\<lambda>rest.
       ioReturn (case requirementProblem cr net r found of None \<Rightarrow> rest | Some p \<Rightarrow> p # rest)))"

definition identityMaterialStatus :: "Crypto \<Rightarrow> 's Kube \<Rightarrow> FabricNetwork \<Rightarrow> Org \<Rightarrow> string \<Rightarrow> ('s, bool \<times> string) io" where
  "identityMaterialStatus cr api net org namespace =
     ioBind (missingIdentity cr api net (requiredIdentitySecrets net org namespace)) (\<lambda>missing.
       ioReturn (if missing \<noteq> [] then (False, ''Missing identity material: '' @ joinWith ''; '' missing) else (True, [])))"

section \<open>Enrollment\<close>

definition enrollmentWorkDir :: string where "enrollmentWorkDir = ''/fabricops/enrollment''"
definition enrollmentVolumeName :: string where "enrollmentVolumeName = ''enrollment-output''"
definition caImage :: string where "caImage = ''hyperledger/fabric-ca:1.5.15''"
definition kubectlImage :: string where
  "kubectlImage = ''bitnami/kubectl@sha256:08afc880eea24f36572644ccae85fb3e573a6ff1b7161135a3ae9a5eab222df2''"

definition adminEnrollmentJobName :: "Org \<Rightarrow> string" where
  "adminEnrollmentJobName org = sanitizeName (adminIdentityName org @ ''-enroll'')"

definition workloadEnrollmentJobName :: "string \<Rightarrow> string" where
  "workloadEnrollmentJobName workload = sanitizeName (workload @ ''-enroll'')"

definition enrollmentServiceAccountName :: "Org \<Rightarrow> string" where
  "enrollmentServiceAccountName org = sanitizeName (adminIdentityName org @ ''-identity-enroller'')"

definition boolString :: "bool \<Rightarrow> string" where
  "boolString v = (if v then ''true'' else ''false'')"

definition enrollmentMeta :: "FabricNetwork \<Rightarrow> Org \<Rightarrow> string \<Rightarrow> ObjectMeta" where
  "enrollmentMeta net org namespace =
     \<lparr>mt_Name = enrollmentServiceAccountName org, mt_Namespace = namespace,
      mt_Labels = Some (orgLabels net org ''admin''), mt_Annotations = Some (resourceAnnotations net org)\<rparr>"

definition buildEnrollmentServiceAccount :: "FabricNetwork \<Rightarrow> Org \<Rightarrow> string \<Rightarrow> ObjectMeta" where
  "buildEnrollmentServiceAccount net org namespace = enrollmentMeta net org namespace"

definition buildEnrollmentRole :: "FabricNetwork \<Rightarrow> Org \<Rightarrow> string \<Rightarrow> ObjectMeta \<times> PolicyRule list" where
  "buildEnrollmentRole net org namespace =
     (enrollmentMeta net org namespace,
      [\<lparr>pr_APIGroups = [[]], pr_Resources = [''secrets''], pr_Verbs = [''get'', ''create'', ''update'', ''patch'']\<rparr>])"

definition buildEnrollmentRoleBinding :: "FabricNetwork \<Rightarrow> Org \<Rightarrow> string \<Rightarrow> ObjectMeta \<times> RBACSubject list \<times> RoleRef" where
  "buildEnrollmentRoleBinding net org namespace =
     (let name = enrollmentServiceAccountName org
      in (enrollmentMeta net org namespace,
          [\<lparr>su_Kind = ''ServiceAccount'', su_Name = name, su_Namespace = namespace\<rparr>],
          \<lparr>rr_APIGroup = ''rbac.authorization.k8s.io'', rr_Kind = ''Role'', rr_Name = name\<rparr>))"

definition ensureEnrollmentRBAC :: "'s Kube \<Rightarrow> FabricNetwork \<Rightarrow> Org \<Rightarrow> string \<Rightarrow> ('s, unit) io" where
  "ensureEnrollmentRBAC api net org namespace =
     ioBind (ensureServiceAccount api (buildEnrollmentServiceAccount net org namespace)) (\<lambda>_.
     ioBind (ensureRole api (fst (buildEnrollmentRole net org namespace)) (snd (buildEnrollmentRole net org namespace))) (\<lambda>_.
     (let (m, subjects, roleRef) = buildEnrollmentRoleBinding net org namespace
      in ensureRoleBinding api m subjects roleRef)))"

definition caAddress :: "Org \<Rightarrow> string \<Rightarrow> string" where
  "caAddress org namespace = serviceDNS (sanitizeName (om_Name (org_Organization org) @ ''-ca'')) namespace caPort"

definition adminEnrollmentEnv :: "Org \<Rightarrow> string \<Rightarrow> (string \<times> EnvSource) list" where
  "adminEnrollmentEnv org namespace = [
     (''FABRICOPS_CA_ADDRESS'', EnvValue (caAddress org namespace)),
     (''FABRICOPS_CA_BOOTSTRAP_USER_PASS'', EnvSecretKey (caBootstrapSecretName org) ''user-pass''),
     (''FABRICOPS_ADMIN_USERNAME'', EnvSecretKey (adminEnrollmentSecretName org) ''username''),
     (''FABRICOPS_ADMIN_PASSWORD'', EnvSecretKey (adminEnrollmentSecretName org) ''password''),
     (''FABRICOPS_ADMIN_NAME'', EnvValue (adminIdentityName org))]"

definition workloadEnrollmentEnv ::
  "FabricNetwork \<Rightarrow> Org \<Rightarrow> string \<Rightarrow> string \<Rightarrow> string \<Rightarrow> string list \<Rightarrow> (string \<times> EnvSource) list" where
  "workloadEnrollmentEnv net org namespace workload component csrHosts = [
     (''FABRICOPS_CA_ADDRESS'', EnvValue (caAddress org namespace)),
     (''FABRICOPS_CA_BOOTSTRAP_USER_PASS'', EnvSecretKey (caBootstrapSecretName org) ''user-pass''),
     (''FABRICOPS_WORKLOAD_USERNAME'', EnvSecretKey (identityEnrollmentSecretName workload) ''username''),
     (''FABRICOPS_WORKLOAD_PASSWORD'', EnvSecretKey (identityEnrollmentSecretName workload) ''password''),
     (''FABRICOPS_WORKLOAD_NAME'', EnvValue workload), (''FABRICOPS_WORKLOAD_TYPE'', EnvValue component),
     (''FABRICOPS_WORKLOAD_CSR_HOSTS'', EnvValue (joinWith '','' csrHosts)),
     (''FABRICOPS_TLS_ENABLED'', EnvValue (boolString (tlsOn net)))]"

definition publishAdminIdentityEnv :: "FabricNetwork \<Rightarrow> Org \<Rightarrow> (string \<times> EnvSource) list" where
  "publishAdminIdentityEnv net org = [
     (''FABRICOPS_ADMIN_NAME'', EnvValue (adminIdentityName org)),
     (''FABRICOPS_ADMIN_MSP_SECRET'', EnvValue (identitySecretName (adminIdentityName org) secretKindMSP)),
     (''FABRICOPS_ADMIN_TLS_SECRET'', EnvValue (identitySecretName (adminIdentityName org) secretKindTLS)),
     (''FABRICOPS_TLS_ENABLED'', EnvValue (boolString (tlsOn net))), (''POD_NAMESPACE'', EnvField ''metadata.namespace'')]"

definition publishWorkloadIdentityEnv :: "FabricNetwork \<Rightarrow> string \<Rightarrow> (string \<times> EnvSource) list" where
  "publishWorkloadIdentityEnv net workload = [
     (''FABRICOPS_WORKLOAD_NAME'', EnvValue workload),
     (''FABRICOPS_WORKLOAD_MSP_SECRET'', EnvValue (identitySecretName workload secretKindMSP)),
     (''FABRICOPS_WORKLOAD_TLS_SECRET'', EnvValue (identitySecretName workload secretKindTLS)),
     (''FABRICOPS_TLS_ENABLED'', EnvValue (boolString (tlsOn net))), (''POD_NAMESPACE'', EnvField ''metadata.namespace'')]"

definition enrollmentMount :: "VolumeMount list" where
  "enrollmentMount = [\<lparr>vm_Name = enrollmentVolumeName, vm_MountPath = enrollmentWorkDir, vm_ReadOnly = False\<rparr>]"

definition buildAdminEnrollmentJob :: "FabricNetwork \<Rightarrow> Org \<Rightarrow> string \<Rightarrow> Job" where
  "buildAdminEnrollmentJob net org namespace =
     (let labels = identityLabels net org ''admin'' (adminIdentityName org) [(labelIdentityKind, secretKindAdminEnroll)];
          annotations = resourceAnnotations net org
      in \<lparr>job_Meta = \<lparr>mt_Name = adminEnrollmentJobName org, mt_Namespace = namespace, mt_Labels = Some labels,
                        mt_Annotations = Some (succeededJobCleanupAnnotations annotations)\<rparr>,
          job_BackoffLimit = 4, job_PodLabels = labels, job_PodAnnotations = annotations,
          job_ServiceAccount = enrollmentServiceAccountName org,
          job_RestartPolicy = ''Never'', job_Volumes = [(enrollmentVolumeName, EmptyDir)],
          job_InitContainers = [shellContainer ''enroll-admin'' caImage AdminEnrollmentScript
             (adminEnrollmentEnv org namespace)
             (componentResourceRequirements ''ca'') enrollmentMount],
          job_Containers = [shellContainer ''publish-admin-identity'' kubectlImage PublishAdminIdentityScript
             (publishAdminIdentityEnv net org)
             (componentResourceRequirements ''kubectl'') enrollmentMount],
          job_Conditions = [], job_Succeeded = 0, job_CompletionTime = None\<rparr>)"

definition buildWorkloadEnrollmentJob ::
  "FabricNetwork \<Rightarrow> Org \<Rightarrow> string \<Rightarrow> string \<Rightarrow> string \<Rightarrow> string list \<Rightarrow> Job" where
  "buildWorkloadEnrollmentJob net org namespace workload component csrHosts =
     (let labels = identityLabels net org component workload [(labelIdentityKind, secretKindWorkloadEnroll)];
          annotations = resourceAnnotations net org
      in \<lparr>job_Meta = \<lparr>mt_Name = workloadEnrollmentJobName workload, mt_Namespace = namespace, mt_Labels = Some labels,
                        mt_Annotations = Some (succeededJobCleanupAnnotations annotations)\<rparr>,
          job_BackoffLimit = 4, job_PodLabels = labels, job_PodAnnotations = annotations,
          job_ServiceAccount = enrollmentServiceAccountName org,
          job_RestartPolicy = ''Never'', job_Volumes = [(enrollmentVolumeName, EmptyDir)],
          job_InitContainers = [shellContainer ''enroll-workload'' caImage WorkloadEnrollmentScript
             (workloadEnrollmentEnv net org namespace workload component csrHosts)
             (componentResourceRequirements ''ca'') enrollmentMount],
          job_Containers = [shellContainer ''publish-workload-identity'' kubectlImage PublishWorkloadIdentityScript
             (publishWorkloadIdentityEnv net workload)
             (componentResourceRequirements ''kubectl'') enrollmentMount],
          job_Conditions = [], job_Succeeded = 0, job_CompletionTime = None\<rparr>)"

text \<open>\<open>client.IgnoreNotFound\<close> turns an absent Secret into \<open>not enrolled\<close>.\<close>

definition enrolledSecret :: "Crypto \<Rightarrow> FabricNetwork \<Rightarrow> string \<Rightarrow> Secret option \<Rightarrow> bool" where
  "enrolledSecret cr net kind found =
     (case found of
        None \<Rightarrow> False
      | Some secret \<Rightarrow> labelOf (sec_Meta secret) labelIdentitySource = identitySourceFabricCA \<and>
                       identitySecretValidationError cr secret kind (tlsOn net) = [])"

definition fabricCAIdentityEnrolled ::
  "Crypto \<Rightarrow> 's Kube \<Rightarrow> FabricNetwork \<Rightarrow> string \<Rightarrow> string \<Rightarrow> string \<Rightarrow> string \<Rightarrow> ('s, bool) io" where
  "fabricCAIdentityEnrolled cr api net namespace workload mspKind tlsKind =
     ioBind (getSecret api namespace (identitySecretName workload secretKindMSP)) (\<lambda>mspSecret.
       if \<not> enrolledSecret cr net mspKind mspSecret then ioReturn False
       else if \<not> tlsOn net then ioReturn True
       else ioBind (getSecret api namespace (identitySecretName workload secretKindTLS)) (\<lambda>tlsSecret.
              ioReturn (enrolledSecret cr net tlsKind tlsSecret)))"

definition adminIdentityEnrolled :: "Crypto \<Rightarrow> 's Kube \<Rightarrow> FabricNetwork \<Rightarrow> Org \<Rightarrow> string \<Rightarrow> ('s, bool) io" where
  "adminIdentityEnrolled cr api net org namespace =
     fabricCAIdentityEnrolled cr api net namespace (adminIdentityName org) secretKindAdminMSP secretKindAdminTLS"

definition workloadIdentityEnrolled :: "Crypto \<Rightarrow> 's Kube \<Rightarrow> FabricNetwork \<Rightarrow> string \<Rightarrow> string \<Rightarrow> ('s, bool) io" where
  "workloadIdentityEnrolled cr api net namespace workload =
     fabricCAIdentityEnrolled cr api net namespace workload secretKindMSP secretKindTLS"

definition reconcileAdminEnrollment :: "Crypto \<Rightarrow> 's Kube \<Rightarrow> FabricNetwork \<Rightarrow> Org \<Rightarrow> string \<Rightarrow> ('s, unit) io" where
  "reconcileAdminEnrollment cr api net org namespace =
     ioBind (adminIdentityEnrolled cr api net org namespace) (\<lambda>enrolled.
       if enrolled then ioReturn ()
       else ioBind (ensureEnrollmentRBAC api net org namespace) (\<lambda>_.
              ensureJob api (buildAdminEnrollmentJob net org namespace)))"

definition reconcileWorkloadEnrollment ::
  "Crypto \<Rightarrow> 's Kube \<Rightarrow> FabricNetwork \<Rightarrow> Org \<Rightarrow> string \<Rightarrow> string \<Rightarrow> string \<Rightarrow> string list \<Rightarrow> ('s, unit) io" where
  "reconcileWorkloadEnrollment cr api net org namespace workload component csrHosts =
     ioBind (workloadIdentityEnrolled cr api net namespace workload) (\<lambda>enrolled.
       if enrolled then ioReturn ()
       else ensureJob api (buildWorkloadEnrollmentJob net org namespace workload component csrHosts))"

definition reconcileWorkloadEnrollments :: "Crypto \<Rightarrow> 's Kube \<Rightarrow> FabricNetwork \<Rightarrow> Org \<Rightarrow> string \<Rightarrow> ('s, unit) io" where
  "reconcileWorkloadEnrollments cr api net org namespace =
     ioBind (ensureEnrollmentRBAC api net org namespace) (\<lambda>_.
     ioBind (ioSeq (map (\<lambda>(grp, name). reconcileWorkloadEnrollment cr api net org namespace name ''orderer''
        (ordererWorkloadCSRHosts grp name namespace)) (ordererWorkloads org))) (\<lambda>_.
     ioSeq (map (\<lambda>name. reconcileWorkloadEnrollment cr api net org namespace name ''peer''
        (peerWorkloadCSRHosts org name namespace)) (peerWorkloads org))))"

section \<open>What reconciliation keeps\<close>

lemma validation_by_data:
  "sec_Data a = sec_Data b \<Longrightarrow>
   enrollmentCredentialSecretValidationError a = enrollmentCredentialSecretValidationError b"
  by (simp add: enrollmentCredentialSecretValidationError_def missingSecretKeys_def dataOf_def)

lemma credential_kinds:
  "kind \<in> {secretKindCABootstrap, secretKindAdminEnroll, secretKindWorkloadEnroll} \<Longrightarrow>
   identitySecretValidationError cr secret kind t = enrollmentCredentialSecretValidationError secret"
  by (auto simp: identitySecretValidationError_def caBootstrapSecretValidationError_def)

lemma mutateJob_kind: "\<not> settled (objKind (snd (mutateJob j ob))) \<or> \<not> fst (mutateJob j ob)"
  by (cases ob) (auto simp: mutateJob_def Let_def case_prod_unfold)

context kube_api
begin

lemma snd_getSecret: "snd (getSecret api ns n s) = snd (k_Get api (KSecret, ns, n) s)"
  by (simp add: getSecret_def split: prod.splits sum.splits ApiError.splits KObject.splits)

lemma getSecret_Some: "fst (getSecret api ns n s) = Inr (Some sec) \<Longrightarrow> view s (KSecret, ns, n) = Some (OSecret sec)"
  using get_found [of "(KSecret, ns, n)" s "OSecret sec"]
  by (auto simp: getSecret_def split: prod.splits sum.splits ApiError.splits KObject.splits)

lemma getSecret_None: "fst (getSecret api ns n s) = Inr None \<Longrightarrow> view s (KSecret, ns, n) = None"
  using get_not_found [of "(KSecret, ns, n)" s]
  by (auto simp: getSecret_def split: prod.splits sum.splits ApiError.splits KObject.splits)

lemma keeps_getSecret: "settled (fst k) \<Longrightarrow> ioKeeps (\<lambda>s. P (view s k)) (getSecret api ns n)"
  by (simp add: ioKeeps_def snd_getSecret get_frame)

lemma keeps_rand: "settled (fst k) \<Longrightarrow> ioKeeps (\<lambda>s. P (view s k)) (randomChars api n)"
proof (induction n)
  case (Suc n)
  have "ioKeeps (\<lambda>s. P (view s k)) (k_RandInt api m)" for m
    using Suc.prems by (simp add: ioKeeps_def rand_frame)
  with Suc show ?case by (auto intro!: ioKeeps_bind)
qed simp

lemma keeps_ensureJob: "settled (fst k) \<Longrightarrow> ioKeeps (\<lambda>s. P (view s k)) (ensureJob api j)"
  unfolding ensureJob_def by (rule keeps_volatile) (use mutateJob_kind in \<open>auto simp: objKey_def\<close>)

lemma keeps_RBAC: "fst k = KSecret \<Longrightarrow> ioKeeps (\<lambda>s. P (view s k)) (ensureEnrollmentRBAC api net org ns)"
proof -
  assume k: "fst k = KSecret"
  have "ioKeeps (\<lambda>s. P (view s k)) (createOrUpdate api desired mutate)"
    if "keepsKey mutate" "objKind desired \<in> {KServiceAccount, KRole, KRoleBinding}" for desired mutate
  proof -
    have "k \<noteq> objKey desired" using k that(2) by (cases k) (auto simp: objKey_def)
    moreover have "settled (fst (objKey desired))" using that(2) by (auto simp: objKey_def)
    ultimately show ?thesis using createOrUpdate_frame [OF that(1), of k desired] k by (simp add: ioKeeps_def)
  qed
  then show ?thesis
    unfolding ensureEnrollmentRBAC_def ensureServiceAccount_def ensureRole_def ensureRoleBinding_def
    by (intro ioKeeps_bind) (auto simp: case_prod_unfold Let_def)
qed

end

definition secretAt :: "('s \<Rightarrow> objkey \<Rightarrow> KObject option) \<Rightarrow> 's \<Rightarrow> string \<Rightarrow> string \<Rightarrow> Secret option" where
  "secretAt view s ns n = (case view s (KSecret, ns, n) of Some (OSecret sec) \<Rightarrow> Some sec | _ \<Rightarrow> None)"

lemma ioBind_Inr:
  "fst (ioBind f g s) = Inr b \<longleftrightarrow> (\<exists>a. fst (f s) = Inr a \<and> fst (g a (snd (f s))) = Inr b)"
  by (auto simp: ioBind_def split: prod.splits sum.splits)

lemma snd_ioBind_Inr: "fst (f s) = Inr a \<Longrightarrow> snd (ioBind f g s) = snd (g a (snd (f s)))"
  by (auto simp: ioBind_def split: prod.splits)

definition sameSecrets :: "('s \<Rightarrow> objkey \<Rightarrow> KObject option) \<Rightarrow> 's \<Rightarrow> 's \<Rightarrow> bool" where
  "sameSecrets view s s' \<longleftrightarrow> (\<forall>ns n. view s (KSecret, ns, n) = view s' (KSecret, ns, n))"

context kube_api
begin

lemma getSecret_result: "fst (getSecret api ns n s) = Inr found \<Longrightarrow> found = secretAt view s ns n"
  using getSecret_Some [of ns n s] getSecret_None [of ns n s] by (cases found) (auto simp: secretAt_def)

lemma secretAt_get: "secretAt view (snd (getSecret api ns n s)) ns' n' = secretAt view s ns' n'"
  by (simp add: secretAt_def snd_getSecret get_frame)

lemma missingIdentity_result:
  "fst (missingIdentity cr api net rs s) = Inr missing \<Longrightarrow>
   missing = [] \<longleftrightarrow> (\<forall>r \<in> set rs. requirementProblem cr net r (secretAt view s (req_namespace r) (req_name r)) = None)"
proof (induction rs arbitrary: s missing)
  case (Cons r rs)
  from Cons.prems obtain found rest where
    f: "fst (getSecret api (req_namespace r) (req_name r) s) = Inr found"
       "fst (missingIdentity cr api net rs (snd (getSecret api (req_namespace r) (req_name r) s))) = Inr rest"
       "missing = (case requirementProblem cr net r found of None \<Rightarrow> rest | Some p \<Rightarrow> p # rest)"
    by (auto simp: ioBind_Inr ioReturn_def)
  from Cons.IH [OF f(2)] getSecret_result [OF f(1)] f(3) show ?case
    by (auto simp: secretAt_get split: option.splits)
qed (simp add: ioReturn_def)

lemma ensureCredential_keeps:
  assumes "enrollmentCredentialSecretValidationError old = []"
    and "\<And>sec. validationError sec = enrollmentCredentialSecretValidationError sec"
    and "\<exists>sec. view s (KSecret, ns, n) = Some (OSecret sec) \<and> sec_Data sec = sec_Data old"
  shows "\<exists>sec. view (snd (ensureSecret api desired validationError s)) (KSecret, ns, n) = Some (OSecret sec) \<and> sec_Data sec = sec_Data old"
proof (cases "objKey (OSecret desired) = (KSecret, ns, n)")
  case True
  from assms(3) obtain sec where sec: "view s (KSecret, ns, n) = Some (OSecret sec)" "sec_Data sec = sec_Data old" by blast
  have "\<exists>x. view (snd (ensureSecret api desired validationError s)) (objKey (OSecret desired)) = Some (OSecret x) \<and>
      sec_Data x = sec_Data sec"
  proof (rule ensureSecret_keeps_data)
    show "view s (objKey (OSecret desired)) = Some (OSecret sec)" using sec(1) True by simp
    show "validationError sec = []"
      unfolding assms(2) [of sec] using assms(1) validation_by_data [OF sec(2)] by simp
    show "validationError a = validationError b" if "sec_Data a = sec_Data b" for a b
      unfolding assms(2) [of a] assms(2) [of b] by (rule validation_by_data [OF that])
  qed
  then show ?thesis using sec(2) True by simp
next
  case False
  then have "view (snd (ensureSecret api desired validationError s)) (KSecret, ns, n) = view s (KSecret, ns, n)"
    unfolding ensureSecret_def by (intro createOrUpdate_frame) (auto simp: objKey_def)
  with assms(3) show ?thesis by simp
qed

lemma reconcileIdentity_keeps:
  assumes "enrollmentCredentialSecretValidationError old = []"
  shows "ioKeeps (\<lambda>s. \<exists>sec. view s (KSecret, ns', n) = Some (OSecret sec) \<and> sec_Data sec = sec_Data old)
           (reconcileIdentityMaterial cr api net org ns)"
proof -
  let ?Q = "\<lambda>s. \<exists>sec. view s (KSecret, ns', n) = Some (OSecret sec) \<and> sec_Data sec = sec_Data old"
  have ens: "ioKeeps ?Q (ensureSecret api desired (\<lambda>sec. identitySecretValidationError cr sec kind t))"
    if "kind \<in> {secretKindCABootstrap, secretKindAdminEnroll, secretKindWorkloadEnroll}" for desired kind t
    using ensureCredential_keeps [OF assms credential_kinds [OF that]] by (simp add: ioKeeps_def)
  have pw: "ioKeeps ?Q (generateBootstrapPassword api)"
    unfolding generateBootstrapPassword_def
    by (rule keeps_rand [where P = "\<lambda>v. \<exists>sec. v = Some (OSecret sec) \<and> sec_Data sec = sec_Data old"]) simp
  have cred: "ioKeeps ?Q (ensureEnrollmentCredentialSecret cr api net org ns i c kind)"
    if "kind \<in> {secretKindCABootstrap, secretKindAdminEnroll, secretKindWorkloadEnroll}" for i c kind
    unfolding ensureEnrollmentCredentialSecret_def buildEnrollmentCredentialSecret_def
    by (intro ioKeeps_bind pw ens that) simp
  have boot: "ioKeeps ?Q (ensureCABootstrapSecret cr api net org ns)"
    unfolding ensureCABootstrapSecret_def buildCABootstrapSecret_def Let_def
    by (intro ioKeeps_bind pw ens) simp_all
  show ?thesis
    unfolding reconcileIdentityMaterial_def ensureAdminEnrollmentSecret_def
    by (intro ioKeeps_bind ioKeeps_seq boot cred) (auto simp: cred)
qed

lemma enrollment_keeps_secrets:
  "ioKeeps (\<lambda>s. P (view s (KSecret, ns', n))) (reconcileAdminEnrollment cr api net org ns)"
  "ioKeeps (\<lambda>s. P (view s (KSecret, ns', n))) (reconcileWorkloadEnrollments cr api net org ns)"
proof -
  have enr: "ioKeeps (\<lambda>s. P (view s (KSecret, ns', n))) (fabricCAIdentityEnrolled cr api net ns w mk tk)" for w mk tk
    unfolding fabricCAIdentityEnrolled_def by (auto intro!: ioKeeps_bind keeps_getSecret)
  show "ioKeeps (\<lambda>s. P (view s (KSecret, ns', n))) (reconcileAdminEnrollment cr api net org ns)"
    unfolding reconcileAdminEnrollment_def adminIdentityEnrolled_def
    by (auto intro!: ioKeeps_bind enr keeps_RBAC keeps_ensureJob)
  show "ioKeeps (\<lambda>s. P (view s (KSecret, ns', n))) (reconcileWorkloadEnrollments cr api net org ns)"
    unfolding reconcileWorkloadEnrollments_def reconcileWorkloadEnrollment_def workloadIdentityEnrolled_def
    by (auto intro!: ioKeeps_bind ioKeeps_seq enr keeps_RBAC keeps_ensureJob)
qed

lemma randomChars_result:
  "fst (randomChars api n s) = Inr cs \<Longrightarrow> length cs = n \<and> set cs \<subseteq> set passwordAlphabet"
proof (induction n arbitrary: s cs)
  case (Suc n)
  have pos: "0 < length passwordAlphabet" by (simp add: passwordAlphabet_def)
  from Suc.prems obtain r cs' s1 where
    r: "fst (k_RandInt api (length passwordAlphabet) s) = Inr r" "fst (randomChars api n s1) = Inr cs'"
       "cs = passwordAlphabet ! r # cs'"
    by (auto simp: ioBind_Inr ioReturn_def)
  have "passwordAlphabet ! r \<in> set passwordAlphabet" using rand_range [OF r(1) pos] by simp
  with Suc.IH [OF r(2)] r(3) show ?case by simp
qed (simp add: ioReturn_def)

end

section \<open>Generated credentials\<close>

lemma credential_valid:
  assumes "username \<noteq> []" and "trimSpace username = username" and "trimSpace password = password" and "password \<noteq> []"
  shows "enrollmentCredentialSecretValidationError \<lparr>sec_Meta = m, sec_Type = t, sec_Data = credentialData username password\<rparr> = []"
proof -
  have "trimSpace (username @ '':'' @ password) = username @ '':'' @ password"
  proof (rule trimSpace_id)
    have "trim_left is_space username \<noteq> []" using assms(1,2) by (auto simp: trimSpace_def trim_right_def)
    then have "\<not> is_space (hd (trim_left is_space username))" by (rule trim_left_hd)
    moreover have "hd (trim_left is_space username) = hd username"
      using assms(1,2) trim_right_hd [of is_space "trim_left is_space username"] by (simp add: trimSpace_def)
    ultimately have "\<not> is_space (hd username)" by simp
    moreover have "\<not> is_space (last password)"
      using assms(3,4) trim_right_last [of is_space "trim_left is_space password"] by (simp add: trimSpace_def)
    ultimately show "username @ '':'' @ password = [] \<or>
        \<not> is_space (hd (username @ '':'' @ password)) \<and> \<not> is_space (last (username @ '':'' @ password))"
      using assms(1,4) by simp
  qed
  with assms show ?thesis
    by (simp add: enrollmentCredentialSecretValidationError_def missingSecretKeys_def caBootstrapSecretKeys_def
        dataOf_def credentialData_def go_get_def)
qed

lemma alphabet_no_space: "c \<in> set passwordAlphabet \<Longrightarrow> \<not> is_space c"
proof -
  have "list_all (\<lambda>c. \<not> is_space c) passwordAlphabet" by code_simp
  then show "c \<in> set passwordAlphabet \<Longrightarrow> \<not> is_space c" by (simp add: list_all_iff)
qed

lemma trimSpace_no_space: "(\<And>c. c \<in> set s \<Longrightarrow> \<not> is_space c) \<Longrightarrow> trimSpace s = s"
  by (cases "s = []") (auto intro!: trimSpace_id)

lemma trimSpace_clean: "clean_name s \<Longrightarrow> trimSpace s = s \<and> s \<noteq> []"
proof
  assume clean: "clean_name s"
  have "\<not> is_space c" if "c \<in> set s" for c
    using clean_name_chars [OF clean that] is_alnum_lower_not_space [of c] by (auto simp: is_space_def)
  then show "trimSpace s = s" by (rule trimSpace_no_space)
  show "s \<noteq> []" using clean by (simp add: clean_name_def dns_label_def)
qed

section \<open>Properties\<close>

text \<open>
  Claim C26. An organization's identity counts as ready exactly when every required Secret is stored
  with all its keys and passes the validation of its kind: CA bootstrap, admin and workload
  enrollment credentials, MSP material and, with TLS on, TLS material.
\<close>

theorem identity_ready_iff_material_valid:
  assumes "kube_api api view" and "fst (identityMaterialStatus cr api net org ns s) = Inr (ready, message)"
  shows "ready \<longleftrightarrow> (\<forall>r \<in> set (requiredIdentitySecrets net org ns).
     \<exists>secret. view s (KSecret, req_namespace r, req_name r) = Some (OSecret secret) \<and>
       (\<forall>k \<in> set (req_keys r). map_of (sec_Data secret) k \<noteq> None) \<and>
       identitySecretValidationError cr secret (req_kind r) (tlsOn net) = [])"
proof -
  from assms(2) obtain missing where
    m: "fst (missingIdentity cr api net (requiredIdentitySecrets net org ns) s) = Inr missing" "ready = (missing = [])"
    by (auto simp: identityMaterialStatus_def ioBind_Inr ioReturn_def split: if_splits)
  have "requirementProblem cr net r (secretAt view s (req_namespace r) (req_name r)) = None \<longleftrightarrow>
      (\<exists>secret. view s (KSecret, req_namespace r, req_name r) = Some (OSecret secret) \<and>
       (\<forall>k \<in> set (req_keys r). map_of (sec_Data secret) k \<noteq> None) \<and>
       identitySecretValidationError cr secret (req_kind r) (tlsOn net) = [])" for r
    by (auto simp: requirementProblem_def secretAt_def missingSecretKeys_def filter_empty_conv Let_def
        split: option.splits KObject.splits if_splits)
  with kube_api.missingIdentity_result [OF assms(1) m(1)] m(2) show ?thesis by simp
qed

definition tinyNetwork :: FabricNetwork where
  "tinyNetwork = \<lparr>fn_Name = ''net'', fn_Namespace = ''default'', fn_UID = ''u'', fn_Generation = 1,
     fn_Finalizers = [], fn_DeletionTimestamp = None,
     fn_Spec = \<lparr>sp_Global = \<lparr>gl_FabricVersion = ''2.5.0'', gl_TLS = False, gl_Images = None, gl_Jobs = None, gl_Storage = None,
                 gl_Observability = None, gl_NetworkPolicy = None\<rparr>, sp_Orgs = [], sp_Channels = [], sp_Chaincodes = []\<rparr>,
     fn_Status = \<lparr>fs_Phase = PhaseUnset, fs_Message = [], fs_OrgStatus = [], fs_ChannelStatus = [], fs_ChaincodeStatus = [], fs_Conditions = []\<rparr>\<rparr>"

definition tinyOrg :: Org where
  "tinyOrg = \<lparr>org_Organization = \<lparr>om_Name = ''o'', om_Domain = ''d'', om_MSPName = ''M''\<rparr>,
     org_CA = \<lparr>ca_DB = [], ca_Registrar = Some \<lparr>reg_Rotation = Some \<lparr>rot_RequestID = ''r1''\<rparr>\<rparr>\<rparr>, org_Orderers = [], org_Peer = None\<rparr>"

definition credentialSecret :: "string \<Rightarrow> string \<Rightarrow> Secret" where
  "credentialSecret name password = \<lparr>sec_Meta = \<lparr>mt_Name = name, mt_Namespace = ''n'', mt_Labels = None, mt_Annotations = None\<rparr>,
     sec_Type = ''Opaque'', sec_Data = credentialData ''admin'' password\<rparr>"

theorem identity_ready_iff_material_valid_witness:
  "\<exists>r \<in> set (requiredIdentitySecrets tinyNetwork tinyOrg ''n'').
     memView (storeOf []) (KSecret, req_namespace r, req_name r) = None"
proof -
  have run: "fst (identityMaterialStatus toy_crypto memKube tinyNetwork tinyOrg ''n'' (storeOf [])) =
      Inr (False, ''Missing identity material: n/o-ca-bootstrap; n/o-admin-enrollment; n/o-admin-msp'')"
    by code_simp
  have "memView (storeOf []) k = None" for k by (simp add: memView_def storeOf_def)
  moreover have "requiredIdentitySecrets tinyNetwork tinyOrg ''n'' \<noteq> []"
    using identity_ready_iff_material_valid [OF mem.kube_api_axioms run] by auto
  ultimately show ?thesis using hd_in_set by blast
qed

text \<open>
  Claim C27. Reconciling identity material never rotates working credentials by accident: whatever
  the API server answers and wherever the reconciliation stops, a stored credential Secret that
  validates holds the same data afterwards; and the enrollment steps write no Secret at all.
\<close>

theorem reconcile_keeps_valid_credentials:
  assumes "kube_api api view" and "view s (KSecret, ns', n) = Some (OSecret old)"
    and "enrollmentCredentialSecretValidationError old = []"
  shows "(\<exists>sec. view (snd (reconcileIdentityMaterial cr api net org ns s)) (KSecret, ns', n) = Some (OSecret sec) \<and>
            sec_Data sec = sec_Data old) \<and>
         view (snd (reconcileAdminEnrollment cr api net org ns s)) (KSecret, ns', n) = Some (OSecret old) \<and>
         view (snd (reconcileWorkloadEnrollments cr api net org ns s)) (KSecret, ns', n) = Some (OSecret old)"
  using kube_api.reconcileIdentity_keeps [OF assms(1,3), of ns' n cr net org ns] assms(2)
    kube_api.enrollment_keeps_secrets [OF assms(1), of "\<lambda>v. v = Some (OSecret old)" ns' n cr net org ns]
  unfolding ioKeeps_def by blast

theorem reconcile_keeps_valid_credentials_witness:
  "\<exists>sec. memView (snd (reconcileIdentityMaterial toy_crypto memKube tinyNetwork tinyOrg ''n''
            (storeOf [OSecret (credentialSecret ''o-ca-bootstrap'' ''pw'')]))) (KSecret, ''n'', ''o-ca-bootstrap'') = Some (OSecret sec) \<and>
     sec_Data sec = credentialData ''admin'' ''pw''"
proof -
  let ?old = "credentialSecret ''o-ca-bootstrap'' ''pw''"
  have v: "memView (storeOf [OSecret ?old]) (KSecret, ''n'', ''o-ca-bootstrap'') = Some (OSecret ?old)"
    by (simp add: memView_def storeOf_def objKey_def credentialSecret_def)
  have ok: "enrollmentCredentialSecretValidationError ?old = []" by code_simp
  have d: "sec_Data ?old = credentialData ''admin'' ''pw''" by (simp add: credentialSecret_def)
  have "\<exists>sec. memView (snd (reconcileIdentityMaterial toy_crypto memKube tinyNetwork tinyOrg ''n'' (storeOf [OSecret ?old])))
      (KSecret, ''n'', ''o-ca-bootstrap'') = Some (OSecret sec) \<and> sec_Data sec = sec_Data ?old"
    by (rule reconcile_keeps_valid_credentials [THEN conjunct1]) (fact mem.kube_api_axioms, fact v, fact ok)
  then show ?thesis unfolding d .
qed

text \<open>
  A generated enrollment credential is well formed: the password has 32 characters of the
  alphabet, the stored \<open>user-pass\<close> joins user name and password, and the Secret passes the validation
  the controller applies to it later.
\<close>

theorem generated_credentials_valid:
  assumes "kube_api api view" and "clean_name identityName"
    and "fst (buildEnrollmentCredentialSecret api net org ns identityName component kind s) = Inr secret"
  shows "enrollmentCredentialSecretValidationError secret = [] \<and>
     (\<exists>password. sec_Data secret = credentialData identityName password \<and> length password = 32 \<and>
        set password \<subseteq> set passwordAlphabet)"
proof -
  from assms(3) obtain password where
    p: "fst (randomChars api 32 s) = Inr password" and sec: "sec_Data secret = credentialData identityName password"
    by (auto simp: buildEnrollmentCredentialSecret_def generateBootstrapPassword_def bootstrapPasswordLength_def
        ioBind_Inr ioReturn_def)
  from kube_api.randomChars_result [OF assms(1) p] have
    pw: "length password = 32" "set password \<subseteq> set passwordAlphabet" by auto
  then have "trimSpace password = password" "password \<noteq> []"
    using alphabet_no_space by (auto intro!: trimSpace_no_space)
  moreover have "secret = \<lparr>sec_Meta = sec_Meta secret, sec_Type = sec_Type secret, sec_Data = credentialData identityName password\<rparr>"
    using sec by simp
  ultimately have "enrollmentCredentialSecretValidationError secret = []"
    using credential_valid trimSpace_clean [OF assms(2)] by metis
  with sec pw show ?thesis by blast
qed

theorem generated_credentials_valid_witness:
  "\<exists>secret. fst (buildEnrollmentCredentialSecret memKube tinyNetwork tinyOrg ''n'' ''peer0'' ''peer'' secretKindWorkloadEnroll (storeOf [])) = Inr secret \<and>
     enrollmentCredentialSecretValidationError secret = []"
proof -
  have "clean_name ''peer0''" by code_simp
  moreover have "\<not> isl (fst (buildEnrollmentCredentialSecret memKube tinyNetwork tinyOrg ''n'' ''peer0'' ''peer'' secretKindWorkloadEnroll (storeOf [])))"
    by code_simp
  then obtain secret where
    "fst (buildEnrollmentCredentialSecret memKube tinyNetwork tinyOrg ''n'' ''peer0'' ''peer'' secretKindWorkloadEnroll (storeOf [])) = Inr secret"
    by (metis isl_def sum.exhaust)
  ultimately show ?thesis using generated_credentials_valid [OF mem.kube_api_axioms] by blast
qed

end
