(* ===== verification/Go_Time.thy ===== *)
theory Go_Time
  imports Api_Types
begin

text \<open>
  The RFC 3339 texts of Go's \<open>time\<close> package: an instant is a number of nanoseconds since the epoch,
  printed in UTC with whole seconds and read with an optional fraction and zone offset. The calendar
  is the proleptic Gregorian one, counted from 1 March of year 0 in eras of 400 years.
\<close>

definition second :: gotime where "second = 1000000000"

definition civilFromDays :: "int \<Rightarrow> int \<times> int \<times> int" where
  "civilFromDays days =
     (let z = days + 719468; era = z div 146097; doe = z mod 146097;
          yoe = (doe - doe div 1460 + doe div 36524 - doe div 146096) div 365;
          doy = doe - (365 * yoe + yoe div 4 - yoe div 100);
          mp = (5 * doy + 2) div 153; d = doy - (153 * mp + 2) div 5 + 1;
          m = (if mp < 10 then mp + 3 else mp - 9);
          y = yoe + era * 400
      in (if m \<le> 2 then y + 1 else y, m, d))"

definition daysFromCivil :: "int \<Rightarrow> int \<Rightarrow> int \<Rightarrow> int" where
  "daysFromCivil year m d =
     (let y = (if m \<le> 2 then year - 1 else year); era = y div 400; yoe = y mod 400;
          doy = (153 * (if m > 2 then m - 3 else m + 9) + 2) div 5 + d - 1;
          doe = yoe * 365 + yoe div 4 - yoe div 100 + doy
      in era * 146097 + doe - 719468)"

definition pad :: "nat \<Rightarrow> int \<Rightarrow> string" where
  "pad w i = (let t = itoa i in replicate (w - length t) (CHR ''0'') @ t)"

definition rfc3339Format :: "gotime \<Rightarrow> string" where
  "rfc3339Format t =
     (let secs = t div second; days = secs div 86400; sod = secs mod 86400; (y, m, d) = civilFromDays days
      in pad 4 y @ ''-'' @ pad 2 m @ ''-'' @ pad 2 d @ ''T'' @ pad 2 (sod div 3600) @ '':'' @
         pad 2 (sod div 60 mod 60) @ '':'' @ pad 2 (sod mod 60) @ ''Z'')"

definition fixedNum :: "nat \<Rightarrow> nat \<Rightarrow> int \<Rightarrow> int \<Rightarrow> string \<Rightarrow> int option" where
  "fixedNum start width lo hi s =
     (case decimal (take width (drop start s)) of
        None \<Rightarrow> None
      | Some n \<Rightarrow> if length s \<ge> start + width \<and> lo \<le> int n \<and> int n \<le> hi then Some (int n) else None)"

definition isLeap :: "int \<Rightarrow> bool" where
  "isLeap y \<longleftrightarrow> y mod 4 = 0 \<and> (y mod 100 \<noteq> 0 \<or> y mod 400 = 0)"

definition daysIn :: "int \<Rightarrow> int \<Rightarrow> int" where
  "daysIn m y = (if m = 2 then (if isLeap y then 29 else 28) else if m \<in> {4, 6, 9, 11} then 30 else 31)"

text \<open>The fraction (truncated to nanoseconds) and the zone that may follow the seconds.\<close>

definition parseFraction :: "string \<Rightarrow> (int \<times> string) option" where
  "parseFraction s =
     (case s of
        c # cs \<Rightarrow>
          (if c = CHR ''.'' then
             (let ds = takeWhile is_digit cs; nine = take 9 (ds @ replicate 9 (CHR ''0''))
              in if ds = [] then None
                 else (case decimal nine of None \<Rightarrow> None | Some n \<Rightarrow> Some (int n, dropWhile is_digit cs)))
           else Some (0, s))
      | [] \<Rightarrow> Some (0, s))"

definition parseZone :: "string \<Rightarrow> int option" where
  "parseZone s =
     (if s = ''Z'' then Some 0
      else if length s = 6 \<and> (hd s = CHR ''+'' \<or> hd s = CHR ''-'') \<and> s ! 3 = CHR '':'' then
        (case (fixedNum 1 2 0 23 s, fixedNum 4 2 0 59 s) of
           (Some h, Some m) \<Rightarrow> Some ((if hd s = CHR ''-'' then -1 else 1) * (h * 3600 + m * 60))
         | _ \<Rightarrow> None)
      else None)"

definition rfc3339Parse :: "string \<Rightarrow> gotime option" where
  "rfc3339Parse s =
     (if length s < 19 \<or> s ! 4 \<noteq> CHR ''-'' \<or> s ! 7 \<noteq> CHR ''-'' \<or> s ! 10 \<noteq> CHR ''T'' \<or> s ! 13 \<noteq> CHR '':'' \<or> s ! 16 \<noteq> CHR '':''
      then None
      else (case (fixedNum 0 4 0 9999 s, fixedNum 5 2 1 12 s) of
              (Some y, Some m) \<Rightarrow>
                (case (fixedNum 8 2 1 (daysIn m y) s, fixedNum 11 2 0 23 s, fixedNum 14 2 0 59 s, fixedNum 17 2 0 59 s) of
                   (Some d, Some h, Some mi, Some se) \<Rightarrow>
                     (case parseFraction (drop 19 s) of
                        None \<Rightarrow> None
                      | Some (ns, zone) \<Rightarrow>
                          (case parseZone zone of
                             None \<Rightarrow> None
                           | Some off \<Rightarrow> Some ((daysFromCivil y m d * 86400 + h * 3600 + mi * 60 + se - off) * second + ns)))
                 | _ \<Rightarrow> None)
            | _ \<Rightarrow> None))"

lemma rfc3339_epoch: "rfc3339Format 0 = ''1970-01-01T00:00:00Z''" "rfc3339Parse ''1970-01-01T00:00:00Z'' = Some 0"
  by code_simp+

lemma rfc3339_leap_day:
  "rfc3339Format (1709209800 * second) = ''2024-02-29T12:30:00Z''"
  by code_simp

end
