(* ===== verification/Registrar_Rotation.thy ===== *)
theory Registrar_Rotation
  imports Identity Go_Time
begin

text \<open>
  Rotation of the CA bootstrap registrar, \<^verbatim>\<open>fabricnetwork_ca_registrar_rotation.go\<close>. A requested
  rotation stages a new credential, has a Job register it with the CA, and then promotes it: the
  active credential is first copied to the \<open>previous\<close> Secret, then replaced. The properties show that
  no interruption loses the active credential, that nothing is promoted without a completed Job and
  that a completed rotation is not repeated; the last one shows what happens when the staged Secret
  is lost after its Job has completed.
\<close>

section \<open>Names\<close>

definition secretKindCABootstrapNext :: string where "secretKindCABootstrapNext = ''ca-bootstrap-next''"
definition secretKindCABootstrapPrevious :: string where "secretKindCABootstrapPrevious = ''ca-bootstrap-previous''"
definition identityKindCARegistrarRotate :: string where "identityKindCARegistrarRotate = ''ca-registrar-rotation''"
definition annotationCARegistrarRotationRequestID :: string where
  "annotationCARegistrarRotationRequestID = ''fabricops.io/ca-registrar-rotation-request-id''"
definition annotationCARegistrarRotationTime :: string where
  "annotationCARegistrarRotationTime = ''fabricops.io/ca-registrar-rotation-time''"
definition annotationCARegistrarPreviousSecret :: string where
  "annotationCARegistrarPreviousSecret = ''fabricops.io/ca-registrar-previous-secret''"

definition caRegistrarRotationRequestID :: "Org \<Rightarrow> string" where
  "caRegistrarRotationRequestID org =
     (case ca_Registrar (org_CA org) of None \<Rightarrow> []
      | Some r \<Rightarrow> (case reg_Rotation r of None \<Rightarrow> [] | Some rot \<Rightarrow> rot_RequestID rot))"

definition caRegistrarStagedSecretName :: "Crypto \<Rightarrow> Org \<Rightarrow> string \<Rightarrow> string" where
  "caRegistrarStagedSecretName cr org requestID = sanitizeName (caBootstrapSecretName org @ ''-next-'' @ shortDigest cr requestID)"

definition caRegistrarPreviousSecretName :: "Org \<Rightarrow> string" where
  "caRegistrarPreviousSecretName org = sanitizeName (caBootstrapSecretName org @ ''-previous'')"

definition caRegistrarRotationJobName :: "Crypto \<Rightarrow> Org \<Rightarrow> string \<Rightarrow> string" where
  "caRegistrarRotationJobName cr org requestID = sanitizeName (caBootstrapSecretName org @ ''-rotate-'' @ shortDigest cr requestID)"

definition caRegistrarNextUsername :: "Crypto \<Rightarrow> string \<Rightarrow> string" where
  "caRegistrarNextUsername cr requestID = sanitizeName (caBootstrapUsername @ ''-'' @ shortDigest cr requestID)"

section \<open>Secrets\<close>

definition getCARegistrarSecret :: "'s Kube \<Rightarrow> string \<Rightarrow> string \<Rightarrow> ('s, Secret option) io" where
  "getCARegistrarSecret api namespace name = getSecret api namespace name"

definition credentialSecretUsername :: "Secret \<Rightarrow> string" where
  "credentialSecretUsername secret = dataOf secret ''username''"

definition caRegistrarSecretRotationTime :: "Secret \<Rightarrow> gotime option" where
  "caRegistrarSecretRotationTime secret =
     (let t = annotationOf (sec_Meta secret) annotationCARegistrarRotationTime
      in if t = [] then None else rfc3339Parse t)"

definition buildCARegistrarStagedSecret ::
  "Crypto \<Rightarrow> 's Kube \<Rightarrow> FabricNetwork \<Rightarrow> Org \<Rightarrow> string \<Rightarrow> string \<Rightarrow> ('s, Secret) io" where
  "buildCARegistrarStagedSecret cr api net org namespace requestID =
     ioBind (generateBootstrapPassword api) (\<lambda>password.
       (let username = caRegistrarNextUsername cr requestID; name = caRegistrarStagedSecretName cr org requestID
        in ioReturn \<lparr>
             sec_Meta = \<lparr>mt_Name = name, mt_Namespace = namespace,
                mt_Labels = Some (identityLabels net org ''ca'' name [(labelIdentityKind, secretKindCABootstrapNext)]),
                mt_Annotations = Some (go_set (resourceAnnotations net org) annotationCARegistrarRotationRequestID requestID)\<rparr>,
             sec_Type = ''Opaque'', sec_Data = credentialData username password\<rparr>))"

text \<open>The second read returns the zero Secret when the object is gone again.\<close>

definition zeroSecret :: Secret where
  "zeroSecret = \<lparr>sec_Meta = \<lparr>mt_Name = [], mt_Namespace = [], mt_Labels = None, mt_Annotations = None\<rparr>,
                 sec_Type = [], sec_Data = []\<rparr>"

definition ensureCARegistrarStagedSecret ::
  "Crypto \<Rightarrow> 's Kube \<Rightarrow> FabricNetwork \<Rightarrow> Org \<Rightarrow> string \<Rightarrow> string \<Rightarrow> ('s, Secret) io" where
  "ensureCARegistrarStagedSecret cr api net org namespace requestID =
     ioBind (buildCARegistrarStagedSecret cr api net org namespace requestID) (\<lambda>desired.
     ioBind (ensureSecret api desired enrollmentCredentialSecretValidationError) (\<lambda>_.
     ioBind (getCARegistrarSecret api namespace (mt_Name (sec_Meta desired))) (\<lambda>found.
       ioReturn (case found of None \<Rightarrow> zeroSecret | Some secret \<Rightarrow> secret))))"

definition caRegistrarRotationPromoted :: "Secret \<Rightarrow> Secret \<Rightarrow> string \<Rightarrow> bool" where
  "caRegistrarRotationPromoted active staged requestID \<longleftrightarrow>
     annotationOf (sec_Meta active) annotationCARegistrarRotationRequestID = requestID \<and>
     list_all (\<lambda>k. dataOf active k = dataOf staged k) caBootstrapSecretKeys"

section \<open>The rotation Job\<close>

definition caRegistrarRotationEnv :: "Org \<Rightarrow> string \<Rightarrow> string \<Rightarrow> string \<Rightarrow> (string \<times> EnvSource) list" where
  "caRegistrarRotationEnv org namespace bootstrapName stagedName = [
     (''FABRICOPS_CA_ADDRESS'', EnvValue (caAddress org namespace)),
     (''FABRICOPS_CA_BOOTSTRAP_USER_PASS'', EnvSecretKey bootstrapName ''user-pass''),
     (''FABRICOPS_CA_REGISTRAR_NEXT_USERNAME'', EnvSecretKey stagedName ''username''),
     (''FABRICOPS_CA_REGISTRAR_NEXT_PASSWORD'', EnvSecretKey stagedName ''password'')]"

text \<open>Metadata and pod template share one annotation map, which the cleanup mark is written to.\<close>

definition buildCARegistrarRotationJob :: "Crypto \<Rightarrow> FabricNetwork \<Rightarrow> Org \<Rightarrow> string \<Rightarrow> string \<Rightarrow> Job" where
  "buildCARegistrarRotationJob cr net org namespace requestID =
     (let bootstrapName = caBootstrapSecretName org; stagedName = caRegistrarStagedSecretName cr org requestID;
          labels = identityLabels net org ''ca'' bootstrapName [(labelIdentityKind, identityKindCARegistrarRotate)];
          annotations = succeededJobCleanupAnnotations
            (go_set (resourceAnnotations net org) annotationCARegistrarRotationRequestID requestID)
      in \<lparr>job_Meta = \<lparr>mt_Name = caRegistrarRotationJobName cr org requestID, mt_Namespace = namespace,
                        mt_Labels = Some labels, mt_Annotations = Some annotations\<rparr>,
          job_BackoffLimit = 4, job_PodLabels = labels, job_PodAnnotations = annotations,
          job_ServiceAccount = enrollmentServiceAccountName org,
          job_RestartPolicy = ''Never'', job_Volumes = [], job_InitContainers = [],
          job_Containers = [shellContainer identityKindCARegistrarRotate caImage CARegistrarRotationScript
             (caRegistrarRotationEnv org namespace bootstrapName stagedName)
             (componentResourceRequirements ''ca'') []],
          job_Conditions = [], job_Succeeded = 0, job_CompletionTime = None\<rparr>)"

definition getJob :: "'s Kube \<Rightarrow> string \<Rightarrow> string \<Rightarrow> ('s, Job option) io" where
  "getJob api namespace name s =
     (case k_Get api (KJob, namespace, name) s of
        (Inl NotFound, s1) \<Rightarrow> (Inr None, s1)
      | (Inl e, s1) \<Rightarrow> (Inl e, s1)
      | (Inr (OJob job), s1) \<Rightarrow> (Inr (Some job), s1)
      | (Inr _, s1) \<Rightarrow> (Inl (OtherError ''decode Job''), s1))"

definition rotationJobOutcome :: "Job option \<Rightarrow> CARegistrarRotationPhase \<times> string" where
  "rotationJobOutcome found =
     (case found of
        None \<Rightarrow> (RotationPhaseStaging, ''Registrar rotation job is pending'')
      | Some job \<Rightarrow>
          if jobFailed job then (RotationPhaseFailed, ''Registrar rotation job failed; active bootstrap Secret was retained'')
          else if jobSucceeded job then (RotationPhaseReady, ''Registrar rotation job completed'')
          else (RotationPhaseRotating, ''Registrar rotation job is running''))"

definition caRegistrarRotationJobState :: "'s Kube \<Rightarrow> string \<Rightarrow> string \<Rightarrow> ('s, CARegistrarRotationPhase \<times> string) io" where
  "caRegistrarRotationJobState api namespace jobName =
     ioBind (getJob api namespace jobName) (\<lambda>found. ioReturn (rotationJobOutcome found))"

section \<open>Promotion\<close>

definition copyAnnotation :: "ObjectMeta \<Rightarrow> string \<Rightarrow> (string, string) gomap \<Rightarrow> (string, string) gomap" where
  "copyAnnotation m k annotations = (if annotationOf m k \<noteq> [] then go_set annotations k (annotationOf m k) else annotations)"

definition buildCARegistrarPreviousSecret :: "FabricNetwork \<Rightarrow> Org \<Rightarrow> string \<Rightarrow> Secret \<Rightarrow> Secret" where
  "buildCARegistrarPreviousSecret net org namespace active =
     (let name = caRegistrarPreviousSecretName org;
          annotations = copyAnnotation (sec_Meta active) annotationCARegistrarRotationTime
            (copyAnnotation (sec_Meta active) annotationCARegistrarRotationRequestID (resourceAnnotations net org))
      in \<lparr>sec_Meta = \<lparr>mt_Name = name, mt_Namespace = namespace,
             mt_Labels = Some (identityLabels net org ''ca'' name [(labelIdentityKind, secretKindCABootstrapPrevious)]),
             mt_Annotations = Some annotations\<rparr>,
          sec_Type = ''Opaque'', sec_Data = copySecretData (sec_Data active)\<rparr>)"

definition buildPromotedCARegistrarSecret ::
  "FabricNetwork \<Rightarrow> Org \<Rightarrow> string \<Rightarrow> Secret \<Rightarrow> string \<Rightarrow> gotime \<Rightarrow> Secret" where
  "buildPromotedCARegistrarSecret net org namespace staged requestID rotationTime =
     (let name = caBootstrapSecretName org;
          annotations = go_set (go_set (go_set (resourceAnnotations net org)
            annotationCARegistrarRotationRequestID requestID)
            annotationCARegistrarRotationTime (rfc3339Format rotationTime))
            annotationCARegistrarPreviousSecret (caRegistrarPreviousSecretName org)
      in \<lparr>sec_Meta = \<lparr>mt_Name = name, mt_Namespace = namespace,
             mt_Labels = Some (identityLabels net org ''ca'' name [(labelIdentityKind, secretKindCABootstrap)]),
             mt_Annotations = Some annotations\<rparr>,
          sec_Type = ''Opaque'', sec_Data = copySecretData (sec_Data staged)\<rparr>)"

definition promoteCARegistrarSecret ::
  "'s Kube \<Rightarrow> FabricNetwork \<Rightarrow> Org \<Rightarrow> string \<Rightarrow> Secret \<Rightarrow> Secret \<Rightarrow> string \<Rightarrow> gotime \<Rightarrow> ('s, unit) io" where
  "promoteCARegistrarSecret api net org namespace active staged requestID rotationTime =
     ioBind (upsertSecretData api (buildCARegistrarPreviousSecret net org namespace active)) (\<lambda>_.
       upsertSecretData api (buildPromotedCARegistrarSecret net org namespace staged requestID rotationTime))"

section \<open>The reconciler\<close>

text \<open>Reading the clock cannot fail.\<close>

definition ioNow :: "'s Kube \<Rightarrow> ('s, gotime) io" where
  "ioNow api s = (case k_Now api s of (t, s1) \<Rightarrow> (Inr t, s1))"

text \<open>From the promotion check on: wait for the CA, run the Job, promote.\<close>

definition runRotation ::
  "Crypto \<Rightarrow> 's Kube \<Rightarrow> FabricNetwork \<Rightarrow> Org \<Rightarrow> string \<Rightarrow> bool \<Rightarrow> string \<Rightarrow> Secret \<Rightarrow> Secret \<Rightarrow>
     CARegistrarRotationStatus \<Rightarrow> ('s, CARegistrarRotationStatus) io" where
  "runRotation cr api net org namespace caReady requestID active staged status =
     (if caRegistrarRotationPromoted active staged requestID then
        ioReturn (status\<lparr>rs_Phase := RotationPhaseReady, rs_ActiveUsername := credentialSecretUsername active,
                         rs_Message := ''CA bootstrap registrar rotation completed''\<rparr>)
      else if \<not> caReady then
        ioReturn (status\<lparr>rs_Phase := RotationPhaseWaitingForCA,
                         rs_Message := ''Waiting for Fabric CA readiness before rotating the bootstrap registrar''\<rparr>)
      else
        ioBind (ensureEnrollmentRBAC api net org namespace) (\<lambda>_.
        ioBind (ensureJob api (buildCARegistrarRotationJob cr net org namespace requestID)) (\<lambda>_.
        ioBind (caRegistrarRotationJobState api namespace (rs_RotationJobName status)) (\<lambda>(phase, message).
          if phase \<noteq> RotationPhaseReady then ioReturn (status\<lparr>rs_Phase := phase, rs_Message := message\<rparr>)
          else
            ioBind (ioNow api) (\<lambda>rotationTime.
            ioBind (promoteCARegistrarSecret api net org namespace active staged requestID rotationTime) (\<lambda>_.
              ioReturn (status\<lparr>rs_Phase := RotationPhaseReady, rs_ActiveUsername := credentialSecretUsername staged,
                               rs_LastRotationTime := Some rotationTime,
                               rs_Message := ''CA bootstrap registrar rotation completed''\<rparr>)))))))"

text \<open>A request is set: stage the new credential, and go on when the active one is there and valid.\<close>

definition requestedRotation ::
  "Crypto \<Rightarrow> 's Kube \<Rightarrow> FabricNetwork \<Rightarrow> Org \<Rightarrow> string \<Rightarrow> bool \<Rightarrow> string \<Rightarrow> Secret option \<Rightarrow>
     CARegistrarRotationStatus \<Rightarrow> ('s, CARegistrarRotationStatus) io" where
  "requestedRotation cr api net org namespace caReady requestID activeFound status =
     ioBind (ensureCARegistrarStagedSecret cr api net org namespace requestID) (\<lambda>staged.
       case activeFound of
         None \<Rightarrow> ioReturn (status\<lparr>rs_Phase := RotationPhaseFailed, rs_Message := ''Active CA bootstrap Secret is missing''\<rparr>)
       | Some active \<Rightarrow>
           (let reason = caBootstrapSecretValidationError active
            in if reason \<noteq> []
               then ioReturn (status\<lparr>rs_Phase := RotationPhaseFailed,
                                     rs_Message := ''Active CA bootstrap Secret is invalid: '' @ reason\<rparr>)
               else runRotation cr api net org namespace caReady requestID active staged status))"

definition reconcileCARegistrarRotation ::
  "Crypto \<Rightarrow> 's Kube \<Rightarrow> FabricNetwork \<Rightarrow> Org \<Rightarrow> string \<Rightarrow> bool \<Rightarrow> ('s, CARegistrarRotationStatus) io" where
  "reconcileCARegistrarRotation cr api net org namespace caReady =
     (let requestID = caRegistrarRotationRequestID org;
          activeName = caBootstrapSecretName org;
          previousName = caRegistrarPreviousSecretName org;
          status0 = zeroRotationStatus\<lparr>rs_ObservedRequestID := requestID, rs_Phase := RotationPhaseIdle,
                                       rs_ActiveSecretName := activeName\<rparr>
      in ioBind (getCARegistrarSecret api namespace activeName) (\<lambda>activeFound.
         ioBind (getCARegistrarSecret api namespace previousName) (\<lambda>previousFound.
         (let status1 = (case activeFound of None \<Rightarrow> status0
                         | Some active \<Rightarrow> status0\<lparr>rs_ActiveUsername := credentialSecretUsername active,
                                                   rs_LastRotationTime := caRegistrarSecretRotationTime active\<rparr>)
          in if requestID = [] then
               ioReturn (if previousFound \<noteq> None then status1\<lparr>rs_PreviousSecretName := previousName\<rparr> else status1)
             else
               requestedRotation cr api net org namespace caReady requestID activeFound
                 (status1\<lparr>rs_StagedSecretName := caRegistrarStagedSecretName cr org requestID,
                          rs_RotationJobName := caRegistrarRotationJobName cr org requestID,
                          rs_PreviousSecretName := previousName\<rparr>)))))"

section \<open>Status for the rest of the controller\<close>

fun caRegistrarRotationBlocksWorkPhase :: "CARegistrarRotationPhase \<Rightarrow> bool" where
  "caRegistrarRotationBlocksWorkPhase RotationPhaseWaitingForCA = True"
| "caRegistrarRotationBlocksWorkPhase RotationPhaseStaging = True"
| "caRegistrarRotationBlocksWorkPhase RotationPhaseRotating = True"
| "caRegistrarRotationBlocksWorkPhase _ = False"

definition caRegistrarRotationBlocksWork :: "CARegistrarRotationStatus \<Rightarrow> bool" where
  "caRegistrarRotationBlocksWork status = caRegistrarRotationBlocksWorkPhase (rs_Phase status)"

definition caRegistrarRotationConditionProblem :: "string \<Rightarrow> CARegistrarRotationStatus \<Rightarrow> (string \<times> int) option" where
  "caRegistrarRotationConditionProblem orgName status =
     (let tail = (if rs_RotationJobName status \<noteq> [] then '' via Job '' @ rs_RotationJobName status else []) @
                 (if rs_Message status \<noteq> [] then '': '' @ rs_Message status else [])
      in if rs_Phase status = RotationPhaseFailed
         then Some (orgName @ '' CA registrar rotation Failed'' @ tail, 70)
         else if rs_Phase status \<in> {RotationPhaseWaitingForCA, RotationPhaseStaging, RotationPhaseRotating}
         then Some (orgName @ '' CA registrar rotation '' @ rotationPhaseText (rs_Phase status) @ tail, 25)
         else None)"

section \<open>Names do not clash\<close>

lemma hex_byte_alnum: "c \<in> set (hex_byte b) \<Longrightarrow> is_alnum_lower c"
proof -
  have "of_char b div 16 < (16 :: nat)" by (rule less_mult_imp_div_less) simp
  moreover have "of_char b mod 16 < (16 :: nat)" by simp
  ultimately show "c \<in> set (hex_byte b) \<Longrightarrow> is_alnum_lower c" by (auto simp: hex_byte_def hex_digit_alnum)
qed

lemma shortDigest_alnum: "c \<in> set (shortDigest cr b) \<Longrightarrow> is_alnum_lower c"
  unfolding shortDigest_def hex_encode_def by (drule in_set_takeD) (auto dest: hex_byte_alnum)

lemma clean_append:
  assumes "clean_shape a" and "b \<noteq> []" and "\<forall>c \<in> set b. is_alnum_lower c \<or> is_dash c" and "no_double_dash b"
    and "is_alnum_lower (last b)"
  shows "clean_shape (a @ b)"
  using assms by (auto simp: clean_shape_def intro!: no_double_dash_append dest: is_alnum_lower_not_dash)

lemma dash_word_dash:
  assumes "\<forall>c \<in> set w. is_alnum_lower c" and "\<forall>c \<in> set d. is_alnum_lower c" and "w \<noteq> []" and "d \<noteq> []"
  shows "no_double_dash (''-'' @ w @ ''-'' @ d)" "no_double_dash (''-'' @ w)"
proof -
  have dash: "no_double_dash ''-''" by (simp add: no_double_dash_def)
  have "no_double_dash (''-'' @ v)" if v: "\<forall>c \<in> set v. is_alnum_lower c" "v \<noteq> []" for v
  proof (rule no_double_dash_append [OF dash])
    show "no_double_dash v" using v(1) by (intro no_double_dash_alnum) blast
    have "is_alnum_lower (hd v)" using v hd_in_set by blast
    then show "''-'' = [] \<or> v = [] \<or> \<not> is_dash (last ''-'') \<or> \<not> is_dash (hd v)"
      by (auto dest: is_alnum_lower_not_dash)
  qed
  note dv = this
  show "no_double_dash (''-'' @ w)" using dv assms by blast
  have "is_alnum_lower (last (''-'' @ w))" using assms(1,3) last_in_set [of w] by simp
  then have "no_double_dash ((''-'' @ w) @ (''-'' @ d))"
    by (intro no_double_dash_append [OF dv dv] assms) (auto dest: is_alnum_lower_not_dash)
  then show "no_double_dash (''-'' @ w @ ''-'' @ d)" by simp
qed

lemma rotation_names:
  assumes "sha256_len32 cr" and "length (caBootstrapSecretName org) \<le> 47"
  shows "caRegistrarPreviousSecretName org = caBootstrapSecretName org @ ''-previous''"
    and "caRegistrarStagedSecretName cr org rid = caBootstrapSecretName org @ ''-next-'' @ shortDigest cr rid"
proof -
  let ?b = "caBootstrapSecretName org" and ?d = "shortDigest cr rid"
  have b: "clean_shape ?b" using clean_sanitizeName by (simp add: caBootstrapSecretName_def clean_name_iff)
  have d: "length ?d = 10" "\<forall>c \<in> set ?d. is_alnum_lower c"
    using length_shortDigest [OF assms(1)] shortDigest_alnum by auto
  then have dn: "?d \<noteq> []" by auto
  have w: "\<forall>c \<in> set ''next''. is_alnum_lower c" "\<forall>c \<in> set ''previous''. is_alnum_lower c"
    by (simp_all add: is_alnum_lower_def)
  have "clean_shape (?b @ (''-'' @ ''previous''))"
    using w(2) dash_word_dash(2) [OF w(2) d(2) _ dn]
    by (intro clean_append [OF b]) (auto simp: is_alnum_lower_def)
  then show "caRegistrarPreviousSecretName org = ?b @ ''-previous''"
    using assms(2) by (simp add: caRegistrarPreviousSecretName_def sanitizeName_clean_id clean_name_iff)
  have "clean_shape (?b @ (''-'' @ ''next'' @ ''-'' @ ?d))"
    using d dn w(1) dash_word_dash(1) [OF w(1) d(2) _ dn] last_in_set [OF dn]
    by (intro clean_append [OF b]) auto
  then show "caRegistrarStagedSecretName cr org rid = ?b @ ''-next-'' @ ?d"
    using assms(2) d by (simp add: caRegistrarStagedSecretName_def sanitizeName_clean_id clean_name_iff)
qed

lemma rotation_names_distinct:
  assumes "sha256_len32 cr" and "length (caBootstrapSecretName org) \<le> 47"
  shows "caRegistrarPreviousSecretName org \<noteq> caBootstrapSecretName org"
    and "caRegistrarStagedSecretName cr org rid \<noteq> caBootstrapSecretName org"
    and "caRegistrarStagedSecretName cr org rid \<noteq> caRegistrarPreviousSecretName org"
  unfolding rotation_names [OF assms] by simp_all


section \<open>What a run does to the Secrets\<close>

text \<open>Secret data as the API server returns it: no key twice, and here no empty value.\<close>

definition plainData :: "(string, bytes) gomap \<Rightarrow> bool" where
  "plainData d \<longleftrightarrow> distinct (map fst d) \<and> (\<forall>v \<in> snd ` set d. v \<noteq> [])"

lemma copySecretData_id [simp]: "copySecretData d = d"
  by (simp add: copySecretData_def)

lemma secretDataEqual_refl: "distinct (map fst d) \<Longrightarrow> secretDataEqual d d"
  by (auto simp: secretDataEqual_def list_all_iff go_get_def)

lemma ioKeeps_conj: "ioKeeps P f \<Longrightarrow> ioKeeps Q f \<Longrightarrow> ioKeeps (\<lambda>s. P s \<and> Q s) f"
  by (simp add: ioKeeps_def)

text \<open>The state a sequence of calls leaves behind, when the first one keeps \<open>Q\<close>.\<close>

lemma ioBind_post:
  assumes "ioKeeps Q f" and "Q s" and "\<And>s. Q s \<Longrightarrow> G s"
    and "\<And>a. fst (f s) = Inr a \<Longrightarrow> Q (snd (f s)) \<Longrightarrow> G (snd (g a (snd (f s))))"
  shows "G (snd (ioBind f g s))"
proof (cases "f s")
  case (Pair r s1)
  have "Q s1" using assms(1,2) Pair by (auto simp: ioKeeps_def dest!: spec [of _ s])
  with Pair assms(3,4) show ?thesis by (cases r) (auto simp: ioBind_def)
qed

lemma snd_ioReturn [simp]: "snd (ioReturn a s) = s"
  by (simp add: ioReturn_def)

context kube_api
begin

lemma keeps_now: "settled (fst k) \<Longrightarrow> ioKeeps (\<lambda>s. P (view s k)) (ioNow api)"
proof -
  assume k: "settled (fst k)"
  have "snd (ioNow api s) = snd (k_Now api s)" for s by (simp add: ioNow_def split: prod.splits)
  with k show ?thesis by (simp add: ioKeeps_def now_frame)
qed

lemma keeps_getJob: "settled (fst k) \<Longrightarrow> ioKeeps (\<lambda>s. P (view s k)) (getJob api ns n)"
proof -
  assume k: "settled (fst k)"
  have "snd (getJob api ns n s) = snd (k_Get api (KJob, ns, n) s)" for s
    by (simp add: getJob_def split: prod.splits sum.splits ApiError.splits KObject.splits)
  with k show ?thesis by (simp add: ioKeeps_def get_frame)
qed

lemma keeps_jobState: "settled (fst k) \<Longrightarrow> ioKeeps (\<lambda>s. P (view s k)) (caRegistrarRotationJobState api ns n)"
  unfolding caRegistrarRotationJobState_def by (auto intro!: ioKeeps_bind keeps_getJob)

lemma keeps_other_secret:
  "(KSecret, ns', n) \<noteq> objKey (OSecret desired) \<Longrightarrow>
   ioKeeps (\<lambda>s. P (view s (KSecret, ns', n))) (ensureSecret api desired v)"
  "(KSecret, ns', n) \<noteq> objKey (OSecret desired) \<Longrightarrow>
   ioKeeps (\<lambda>s. P (view s (KSecret, ns', n))) (upsertSecretData api desired)"
  by (simp_all add: ioKeeps_def ensureSecret_def upsertSecretData_def createOrUpdate_frame objKey_def)

lemma keeps_stageSecret:
  assumes "(ns', n) \<noteq> (ns, caRegistrarStagedSecretName cr org rid)"
  shows "ioKeeps (\<lambda>s. P (view s (KSecret, ns', n))) (ensureCARegistrarStagedSecret cr api net org ns rid)"
proof -
  have pw: "ioKeeps (\<lambda>s. P (view s (KSecret, ns', n))) (generateBootstrapPassword api)"
    unfolding generateBootstrapPassword_def by (rule keeps_rand) simp
  show ?thesis
  proof (unfold ioKeeps_def, intro allI impI)
    fix s
    assume P: "P (view s (KSecret, ns', n))"
    show "P (view (snd (ensureCARegistrarStagedSecret cr api net org ns rid s)) (KSecret, ns', n))"
      unfolding ensureCARegistrarStagedSecret_def
    proof (rule ioBind_post [where Q = "\<lambda>s. P (view s (KSecret, ns', n))"])
      show "ioKeeps (\<lambda>s. P (view s (KSecret, ns', n))) (buildCARegistrarStagedSecret cr api net org ns rid)"
        unfolding buildCARegistrarStagedSecret_def Let_def by (intro ioKeeps_bind pw) simp
      fix desired
      let ?s = "snd (buildCARegistrarStagedSecret cr api net org ns rid s)"
      assume d: "fst (buildCARegistrarStagedSecret cr api net org ns rid s) = Inr desired" and Q: "P (view ?s (KSecret, ns', n))"
      then have "mt_Name (sec_Meta desired) = caRegistrarStagedSecretName cr org rid" "mt_Namespace (sec_Meta desired) = ns"
        by (auto simp: buildCARegistrarStagedSecret_def ioBind_Inr ioReturn_def Let_def)
      then have "(KSecret, ns', n) \<noteq> objKey (OSecret desired)" using assms by (auto simp: objKey_def)
      from keeps_other_secret(1) [OF this]
      have "ioKeeps (\<lambda>s. P (view s (KSecret, ns', n)))
          (ioBind (ensureSecret api desired enrollmentCredentialSecretValidationError) (\<lambda>_.
             ioBind (getCARegistrarSecret api ns (mt_Name (sec_Meta desired))) (\<lambda>found.
             ioReturn (case found of None \<Rightarrow> zeroSecret | Some secret \<Rightarrow> secret))))"
        by (auto intro!: ioKeeps_bind keeps_getSecret simp: getCARegistrarSecret_def)
      with Q show "P (view (snd (ioBind (ensureSecret api desired enrollmentCredentialSecretValidationError) (\<lambda>_.
             ioBind (getCARegistrarSecret api ns (mt_Name (sec_Meta desired))) (\<lambda>found.
             ioReturn (case found of None \<Rightarrow> zeroSecret | Some secret \<Rightarrow> secret))) ?s)) (KSecret, ns', n))"
        by (auto simp: ioKeeps_def)
    qed (use P in auto)
  qed
qed

lemma built_staged_valid:
  assumes "fst (buildCARegistrarStagedSecret cr api net org ns rid s) = Inr desired"
  shows "enrollmentCredentialSecretValidationError desired = []"
    and "objKey (OSecret desired) = (KSecret, ns, caRegistrarStagedSecretName cr org rid)"
proof -
  from assms obtain password where
    p: "fst (randomChars api 32 s) = Inr password"
    and d: "sec_Data desired = credentialData (caRegistrarNextUsername cr rid) password"
      "mt_Name (sec_Meta desired) = caRegistrarStagedSecretName cr org rid" "mt_Namespace (sec_Meta desired) = ns"
    by (auto simp: buildCARegistrarStagedSecret_def generateBootstrapPassword_def bootstrapPasswordLength_def
        ioBind_Inr ioReturn_def Let_def)
  have "trimSpace password = password" "password \<noteq> []"
    using randomChars_result [OF p] alphabet_no_space by (auto intro!: trimSpace_no_space)
  moreover have "clean_name (caRegistrarNextUsername cr rid)"
    by (simp add: caRegistrarNextUsername_def clean_sanitizeName)
  then have "trimSpace (caRegistrarNextUsername cr rid) = caRegistrarNextUsername cr rid" "caRegistrarNextUsername cr rid \<noteq> []"
    using trimSpace_clean by blast+
  moreover have "desired = \<lparr>sec_Meta = sec_Meta desired, sec_Type = sec_Type desired,
      sec_Data = credentialData (caRegistrarNextUsername cr rid) password\<rparr>"
    using d by simp
  ultimately show "enrollmentCredentialSecretValidationError desired = []" using credential_valid by metis
  show "objKey (OSecret desired) = (KSecret, ns, caRegistrarStagedSecretName cr org rid)"
    using d by (simp add: objKey_def)
qed

end


text \<open>The outcome the rotation promises at every point of a run: a valid active credential, and the
  credential it replaced, if any, in the previous Secret.\<close>

definition registrarSafe ::
  "('s \<Rightarrow> objkey \<Rightarrow> KObject option) \<Rightarrow> Org \<Rightarrow> string \<Rightarrow> Secret \<Rightarrow> 's \<Rightarrow> bool" where
  "registrarSafe view org ns active s \<longleftrightarrow>
     (\<exists>a. view s (KSecret, ns, caBootstrapSecretName org) = Some (OSecret a) \<and>
        caBootstrapSecretValidationError a = [] \<and>
        (sec_Data a = sec_Data active \<or>
         (\<exists>p. view s (KSecret, ns, caRegistrarPreviousSecretName org) = Some (OSecret p) \<and>
            map_of (sec_Data p) = map_of (sec_Data active))))"

definition plainSecretAt :: "KObject option \<Rightarrow> bool" where
  "plainSecretAt v \<longleftrightarrow> (\<forall>sec. v = Some (OSecret sec) \<longrightarrow> plainData (sec_Data sec))"

lemma boot_validation_by_data:
  "sec_Data a = sec_Data b \<Longrightarrow> caBootstrapSecretValidationError a = caBootstrapSecretValidationError b"
  unfolding caBootstrapSecretValidationError_def by (rule validation_by_data)

context kube_api
begin

lemma upsert_equal:
  assumes "fst (upsertSecretData api desired s) = Inr ()"
  shows "\<exists>p. view (snd (upsertSecretData api desired s)) (objKey (OSecret desired)) = Some (OSecret p) \<and>
           (sec_Data p = sec_Data desired \<or> secretDataEqual (sec_Data p) (sec_Data desired))"
proof -
  let ?E = "\<lambda>p. sec_Data p = sec_Data desired \<or> secretDataEqual (sec_Data p) (sec_Data desired)"
  have "\<exists>ob. view (snd (upsertSecretData api desired s)) (objKey (OSecret desired)) = Some ob \<and>
      (\<exists>p. ob = OSecret p \<and> ?E p)"
    unfolding upsertSecretData_def
  proof (rule createOrUpdate_done [OF keepsKey_mutators(2)])
    show "fst (createOrUpdate api (OSecret desired) (mutateSecretData desired) s) = Inr ()"
      using assms by (simp add: upsertSecretData_def)
    fix ob
    show "(\<exists>p. snd (mutateSecretData desired ob) = OSecret p \<and> ?E p) \<and>
        (\<not> fst (mutateSecretData desired ob) \<longrightarrow> (\<exists>p. ob = OSecret p \<and> ?E p)) \<or>
        objKind ob \<noteq> objKind (OSecret desired)"
      by (cases ob) (auto simp: mutateSecretData_def Let_def case_prod_unfold)
  qed (simp_all add: objKey_def)
  then show ?thesis by blast
qed

lemma upsert_done:
  assumes "fst (upsertSecretData api desired s) = Inr ()" and "plainData (sec_Data desired)"
    and "plainSecretAt (view s (objKey (OSecret desired)))"
  shows "\<exists>p. view (snd (upsertSecretData api desired s)) (objKey (OSecret desired)) = Some (OSecret p) \<and>
           map_of (sec_Data p) = map_of (sec_Data desired)"
proof -
  let ?k = "objKey (OSecret desired)" and ?s = "snd (upsertSecretData api desired s)"
  have kind: "settled (fst ?k)" by (simp add: objKey_def)
  obtain p where p: "view ?s ?k = Some (OSecret p)"
      "sec_Data p = sec_Data desired \<or> secretDataEqual (sec_Data p) (sec_Data desired)"
    using upsert_equal [OF assms(1)] by blast
  have "plainSecretAt (view ?s ?k)"
    unfolding upsertSecretData_def
  proof (rule createOrUpdate_invariant [OF keepsKey_mutators(2) kind])
    fix ob
    assume "plainSecretAt (Some ob)"
    then show "plainSecretAt (Some (snd (mutateSecretData desired ob)))"
      using assms(2) by (cases ob) (auto simp: plainSecretAt_def mutateSecretData_def Let_def case_prod_unfold)
  qed (use assms(2,3) in \<open>simp_all add: plainSecretAt_def\<close>)
  then have "plainData (sec_Data p)" using p by (simp add: plainSecretAt_def)
  with p assms(2) have "map_of (sec_Data p) = map_of (sec_Data desired)"
    by (auto simp: plainData_def secretDataEqual_iff)
  with p show ?thesis by blast
qed

lemma upsert_valid:
  assumes "view s (objKey (OSecret desired)) = Some (OSecret a)" and "caBootstrapSecretValidationError a = []"
    and "caBootstrapSecretValidationError desired = []"
  shows "\<exists>b. view (snd (upsertSecretData api desired s)) (objKey (OSecret desired)) = Some (OSecret b) \<and>
           caBootstrapSecretValidationError b = []"
proof -
  let ?P = "\<lambda>v. \<exists>b. v = Some (OSecret b) \<and> caBootstrapSecretValidationError b = []"
  have "?P (view (snd (upsertSecretData api desired s)) (objKey (OSecret desired)))"
    unfolding upsertSecretData_def
  proof (rule createOrUpdate_invariant [OF keepsKey_mutators(2)])
    fix ob
    assume "?P (Some ob)"
    then obtain b where b: "ob = OSecret b" "caBootstrapSecretValidationError b = []" by blast
    obtain c where c: "snd (mutateSecretData desired ob) = OSecret c" "sec_Data c = sec_Data b \<or> sec_Data c = sec_Data desired"
      using b(1) by (auto simp: mutateSecretData_def Let_def case_prod_unfold)
    then have "caBootstrapSecretValidationError c = []"
      using b(2) assms(3) boot_validation_by_data by metis
    with c show "?P (Some (snd (mutateSecretData desired ob)))" by blast
  qed (use assms in \<open>simp_all add: objKey_def\<close>)
  then show ?thesis .
qed

lemma staged_result:
  assumes "fst (ensureCARegistrarStagedSecret cr api net org ns rid s) = Inr staged"
  shows "enrollmentCredentialSecretValidationError staged = []"
    and "view (snd (ensureCARegistrarStagedSecret cr api net org ns rid s)) (KSecret, ns, caRegistrarStagedSecretName cr org rid) =
           Some (OSecret staged)"
proof -
  let ?b = "buildCARegistrarStagedSecret cr api net org ns rid" and ?v = enrollmentCredentialSecretValidationError
  from assms obtain desired where d: "fst (?b s) = Inr desired"
    and e: "fst (ensureSecret api desired ?v (snd (?b s))) = Inr ()"
    and g: "\<exists>found. fst (getSecret api ns (mt_Name (sec_Meta desired)) (snd (ensureSecret api desired ?v (snd (?b s))))) = Inr found \<and>
       staged = (case found of None \<Rightarrow> zeroSecret | Some secret \<Rightarrow> secret)"
    by (auto simp: ensureCARegistrarStagedSecret_def getCARegistrarSecret_def ioBind_Inr ioReturn_def)
  note valid = built_staged_valid [OF d]
  let ?s = "snd (ensureSecret api desired ?v (snd (?b s)))" and ?n = "caRegistrarStagedSecretName cr org rid"
  have "\<exists>ob. view ?s (objKey (OSecret desired)) = Some ob \<and> (\<exists>sec. ob = OSecret sec \<and> ?v sec = [])"
    unfolding ensureSecret_def
  proof (rule createOrUpdate_done)
    show "fst (createOrUpdate api (OSecret desired) (mutateSecret desired ?v) (snd (?b s))) = Inr ()"
      using e by (simp add: ensureSecret_def)
    fix ob
    have upd: "?v (x\<lparr>sec_Data := sec_Data desired, sec_Type := t\<rparr>) = []" for x t
      using valid(1) validation_by_data [of "x\<lparr>sec_Data := sec_Data desired, sec_Type := t\<rparr>" desired] by simp
    have meta: "?v (x\<lparr>sec_Meta := m\<rparr>) = ?v x" for x m by (rule validation_by_data) simp
    show "(\<exists>sec. snd (mutateSecret desired ?v ob) = OSecret sec \<and> ?v sec = []) \<and>
        (\<not> fst (mutateSecret desired ?v ob) \<longrightarrow> (\<exists>sec. ob = OSecret sec \<and> ?v sec = [])) \<or>
        objKind ob \<noteq> objKind (OSecret desired)"
      by (cases ob) (auto simp: mutateSecret_def Let_def case_prod_unfold upd meta)
  qed (use valid in \<open>auto simp: objKey_def\<close>)
  then obtain sec where sec: "view ?s (KSecret, ns, ?n) = Some (OSecret sec)" "?v sec = []"
    using valid(2) by auto
  have n: "mt_Name (sec_Meta desired) = ?n" using valid(2) by (simp add: objKey_def)
  with g getSecret_result [of ns ?n ?s] sec have st: "staged = sec" by (auto simp: secretAt_def)
  with sec show "?v staged = []" by simp
  have "snd (ensureCARegistrarStagedSecret cr api net org ns rid s) = snd (getSecret api ns ?n ?s)"
    using d e g n by (auto simp: ensureCARegistrarStagedSecret_def getCARegistrarSecret_def snd_ioBind_Inr)
  then show "view (snd (ensureCARegistrarStagedSecret cr api net org ns rid s)) (KSecret, ns, ?n) = Some (OSecret staged)"
    using sec st by (simp add: snd_getSecret get_frame)
qed

end


definition completedJobSeen :: "'s Kube \<Rightarrow> string \<Rightarrow> string \<Rightarrow> bool" where
  "completedJobSeen api ns n \<longleftrightarrow>
     (\<exists>s job. fst (k_Get api (KJob, ns, n) s) = Inr (OJob job) \<and> jobSucceeded job \<and> \<not> jobFailed job)"

lemma getJob_found: "fst (getJob api ns n s) = Inr (Some job) \<Longrightarrow> fst (k_Get api (KJob, ns, n) s) = Inr (OJob job)"
  by (auto simp: getJob_def split: prod.splits sum.splits ApiError.splits KObject.splits)

lemma jobState_ready:
  assumes "fst (caRegistrarRotationJobState api ns n s) = Inr (RotationPhaseReady, message)"
  shows "completedJobSeen api ns n"
proof -
  from assms obtain found where f: "fst (getJob api ns n s) = Inr found" "fst (rotationJobOutcome found) = RotationPhaseReady"
    by (auto simp: caRegistrarRotationJobState_def ioBind_Inr ioReturn_def)
  then obtain job where "found = Some job" "jobSucceeded job" "\<not> jobFailed job"
    by (auto simp: rotationJobOutcome_def split: option.splits if_splits)
  with getJob_found [of api ns n s job] f(1) show ?thesis by (auto simp: completedJobSeen_def)
qed

context kube_api
begin

lemma promote_safe:
  assumes "view s (KSecret, ns, caBootstrapSecretName org) = Some (OSecret active)"
    and "caBootstrapSecretValidationError active = []" and "enrollmentCredentialSecretValidationError staged = []"
    and "plainData (sec_Data active)" and "plainSecretAt (view s (KSecret, ns, caRegistrarPreviousSecretName org))"
    and "caRegistrarPreviousSecretName org \<noteq> caBootstrapSecretName org"
  shows "registrarSafe view org ns active (snd (promoteCARegistrarSecret api net org ns active staged rid t s))"
proof -
  let ?prev = "buildCARegistrarPreviousSecret net org ns active" and ?new = "buildPromotedCARegistrarSecret net org ns staged rid t"
  let ?s1 = "snd (upsertSecretData api ?prev s)"
  have kp: "objKey (OSecret ?prev) = (KSecret, ns, caRegistrarPreviousSecretName org)"
    and kn: "objKey (OSecret ?new) = (KSecret, ns, caBootstrapSecretName org)"
    and dp: "sec_Data ?prev = sec_Data active" and dn: "sec_Data ?new = sec_Data staged"
    by (simp_all add: buildCARegistrarPreviousSecret_def buildPromotedCARegistrarSecret_def objKey_def Let_def)
  have "ioKeeps (\<lambda>s. view s (KSecret, ns, caBootstrapSecretName org) = Some (OSecret active)) (upsertSecretData api ?prev)"
    using assms(6) by (intro keeps_other_secret(2)) (simp add: kp)
  then have act1: "view ?s1 (KSecret, ns, caBootstrapSecretName org) = Some (OSecret active)"
    using assms(1) by (simp add: ioKeeps_def)
  show ?thesis
  proof (cases "fst (upsertSecretData api ?prev s)")
    case (Inl e)
    then have "snd (promoteCARegistrarSecret api net org ns active staged rid t s) = ?s1"
      by (auto simp: promoteCARegistrarSecret_def ioBind_def split: prod.splits)
    with act1 assms(2) show ?thesis by (auto simp: registrarSafe_def)
  next
    case (Inr u)
    then have end_state: "snd (promoteCARegistrarSecret api net org ns active staged rid t s) = snd (upsertSecretData api ?new ?s1)"
      by (simp add: promoteCARegistrarSecret_def snd_ioBind_Inr)
    obtain p where p: "view ?s1 (KSecret, ns, caRegistrarPreviousSecretName org) = Some (OSecret p)"
        "map_of (sec_Data p) = map_of (sec_Data active)"
      using upsert_done [of ?prev s] Inr assms(4,5) by (auto simp: kp dp)
    have "ioKeeps (\<lambda>s. view s (KSecret, ns, caRegistrarPreviousSecretName org) = Some (OSecret p)) (upsertSecretData api ?new)"
      using assms(6) by (intro keeps_other_secret(2)) (simp add: kn)
    with p have "view (snd (upsertSecretData api ?new ?s1)) (KSecret, ns, caRegistrarPreviousSecretName org) = Some (OSecret p)"
      by (simp add: ioKeeps_def)
    moreover have "caBootstrapSecretValidationError ?new = []"
      using assms(3) boot_validation_by_data [OF dn] by (simp add: caBootstrapSecretValidationError_def)
    then have "\<exists>b. view (snd (upsertSecretData api ?new ?s1)) (KSecret, ns, caBootstrapSecretName org) = Some (OSecret b) \<and>
        caBootstrapSecretValidationError b = []"
      using upsert_valid [of ?s1 ?new active] act1 assms(2) by (simp add: kn)
    ultimately show ?thesis using p(2) end_state by (auto simp: registrarSafe_def)
  qed
qed

lemma runRotation_safe:
  assumes "view s (KSecret, ns, caBootstrapSecretName org) = Some (OSecret active)"
    and "caBootstrapSecretValidationError active = []" and "enrollmentCredentialSecretValidationError staged = []"
    and "plainData (sec_Data active)" and "plainSecretAt (view s (KSecret, ns, caRegistrarPreviousSecretName org))"
    and "caRegistrarPreviousSecretName org \<noteq> caBootstrapSecretName org"
  shows "registrarSafe view org ns active (snd (runRotation cr api net org ns caReady rid active staged status s))"
proof -
  let ?A = "(KSecret, ns, caBootstrapSecretName org)" and ?B = "(KSecret, ns, caRegistrarPreviousSecretName org)"
  let ?Q = "\<lambda>s. view s ?A = Some (OSecret active) \<and> plainSecretAt (view s ?B)"
  have Q: "?Q s" using assms(1,5) by simp
  have QG: "registrarSafe view org ns active s" if "?Q s" for s
    using that assms(2) by (auto simp: registrarSafe_def)
  have promote: "registrarSafe view org ns active (snd (promoteCARegistrarSecret api net org ns active staged rid t s))"
    if "?Q s" for s t
    using promote_safe assms that by blast
  have keeps: "ioKeeps ?Q (ensureEnrollmentRBAC api net org ns)" "ioKeeps ?Q (ensureJob api j)"
    "ioKeeps ?Q (caRegistrarRotationJobState api ns n)" "ioKeeps ?Q (ioNow api)" for j n
    by (intro ioKeeps_conj keeps_RBAC keeps_ensureJob keeps_jobState keeps_now; simp)+
  have last: "registrarSafe view org ns active (snd (ioBind (promoteCARegistrarSecret api net org ns active staged rid t)
      (\<lambda>_. ioReturn st) s))" if "?Q s" for s t and st :: CARegistrarRotationStatus
    using promote [OF that, of t] by (auto simp: ioBind_def split: prod.splits sum.splits)
  note step = ioBind_post [where Q = ?Q and G = "registrarSafe view org ns active"]
  have "registrarSafe view org ns active (snd (ioBind (ensureEnrollmentRBAC api net org ns) (\<lambda>_.
        ioBind (ensureJob api j) (\<lambda>_.
        ioBind (caRegistrarRotationJobState api ns n) (\<lambda>(phase, message).
          if phase \<noteq> RotationPhaseReady then ioReturn (f phase message)
          else ioBind (ioNow api) (\<lambda>t. ioBind (promoteCARegistrarSecret api net org ns active staged rid t) (\<lambda>_. ioReturn (g t)))))) s))"
    for j n f and g :: "gotime \<Rightarrow> CARegistrarRotationStatus"
    by (rule step [OF keeps(1) Q QG], assumption, rule step [OF keeps(2) _ QG], assumption, assumption,
        rule step [OF keeps(3) _ QG], assumption, assumption)
       (auto simp: QG split: prod.splits intro!: step [OF keeps(4) _ QG] last)
  with QG [OF Q] show ?thesis by (simp add: runRotation_def)
qed

end


context kube_api
begin

lemma reconcile_rotation_safe:
  assumes "view s (KSecret, ns, caBootstrapSecretName org) = Some (OSecret active)"
    and "caBootstrapSecretValidationError active = []" and "plainData (sec_Data active)"
    and "plainSecretAt (view s (KSecret, ns, caRegistrarPreviousSecretName org))"
    and "sha256_len32 cr" and "length (caBootstrapSecretName org) \<le> 47"
  shows "registrarSafe view org ns active (snd (reconcileCARegistrarRotation cr api net org ns caReady s))"
proof -
  let ?A = "(KSecret, ns, caBootstrapSecretName org)" and ?B = "(KSecret, ns, caRegistrarPreviousSecretName org)"
  let ?Q = "\<lambda>s. view s ?A = Some (OSecret active) \<and> plainSecretAt (view s ?B)"
  note distinct = rotation_names_distinct [OF assms(5,6)]
  have QG: "registrarSafe view org ns active s" if "?Q s" for s
    using that assms(2) by (auto simp: registrarSafe_def)
  have keeps: "ioKeeps ?Q (getCARegistrarSecret api ns n)"
    "ioKeeps ?Q (ensureCARegistrarStagedSecret cr api net org ns rid)" for n rid
    unfolding getCARegistrarSecret_def
    by (intro ioKeeps_conj keeps_getSecret keeps_stageSecret; use distinct in \<open>simp add: eq_commute\<close>)+
  have rot: "registrarSafe view org ns active (snd (runRotation cr api net org ns caReady rid active staged st s))"
    if "?Q s" "enrollmentCredentialSecretValidationError staged = []" for s staged st rid
    using runRotation_safe [of s ns org active staged] that assms(2,3) distinct(1) by blast
  note step = ioBind_post [where Q = ?Q and G = "registrarSafe view org ns active"]
  have get: "found = Some active" if "fst (getCARegistrarSecret api ns (caBootstrapSecretName org) s) = Inr found" "?Q s" for s found
    using that getSecret_result [of ns "caBootstrapSecretName org" s found] by (simp add: getCARegistrarSecret_def secretAt_def)
  have requested: "registrarSafe view org ns active (snd (requestedRotation cr api net org ns caReady rid (Some active) st s))"
    if "?Q s" for rid st s
    unfolding requestedRotation_def
    by (rule step [OF keeps(2) that QG]) (use assms(2) staged_result in \<open>auto intro!: rot\<close>)
  have Qs: "?Q s" using assms(1,4) by simp
  show ?thesis
    unfolding reconcileCARegistrarRotation_def Let_def
    by (rule step [OF keeps(1) Qs QG], assumption, rule step [OF keeps(1) _ QG], assumption, assumption)
       (auto simp: QG requested dest!: get [OF _ Qs])
qed

end


lemma validation_keys:
  "caBootstrapSecretValidationError a = [] \<Longrightarrow> k \<in> set caBootstrapSecretKeys \<Longrightarrow> map_of (sec_Data a) k \<noteq> None"
  by (auto simp: caBootstrapSecretValidationError_def enrollmentCredentialSecretValidationError_def missingText_def
      missingSecretKeys_def filter_empty_conv Let_def split: if_splits)

lemma secretDataEqual_get:
  "secretDataEqual a b \<Longrightarrow> map_of a k \<noteq> None \<Longrightarrow> go_get a k = go_get b k"
  by (force simp: secretDataEqual_def list_all_iff go_get_def dest: map_of_SomeD)

definition credentialsAgree :: "Secret \<Rightarrow> Secret \<Rightarrow> bool" where
  "credentialsAgree a b \<longleftrightarrow> (\<forall>k \<in> set caBootstrapSecretKeys. dataOf a k = dataOf b k)"

lemma promoted_agree: "caRegistrarRotationPromoted a b rid \<Longrightarrow> credentialsAgree a b"
  by (simp add: caRegistrarRotationPromoted_def credentialsAgree_def list_all_iff)

lemma agree_username: "credentialsAgree a b \<Longrightarrow> credentialSecretUsername a = credentialSecretUsername b"
  by (simp add: credentialsAgree_def credentialSecretUsername_def caBootstrapSecretKeys_def)

context kube_api
begin

text \<open>Without a completed Job no Secret but the staged one is written.\<close>

lemma rotation_frame:
  assumes "\<not> completedJobSeen api ns (caRegistrarRotationJobName cr org (caRegistrarRotationRequestID org))"
    and "(ns', n) \<noteq> (ns, caRegistrarStagedSecretName cr org (caRegistrarRotationRequestID org))"
  shows "ioKeeps (\<lambda>s. P (view s (KSecret, ns', n))) (reconcileCARegistrarRotation cr api net org ns caReady)"
proof -
  let ?Q = "\<lambda>s. P (view s (KSecret, ns', n))" and ?rid = "caRegistrarRotationRequestID org"
  have run: "ioKeeps ?Q (runRotation cr api net org ns caReady ?rid active staged st)"
    if st: "rs_RotationJobName st = caRegistrarRotationJobName cr org ?rid" for active staged st
  proof -
    let ?step = "\<lambda>(phase, message).
          if phase \<noteq> RotationPhaseReady then ioReturn (st\<lparr>rs_Phase := phase, rs_Message := message\<rparr>)
          else ioBind (ioNow api) (\<lambda>t. ioBind (promoteCARegistrarSecret api net org ns active staged ?rid t) (\<lambda>_.
              ioReturn (st\<lparr>rs_Phase := RotationPhaseReady, rs_ActiveUsername := credentialSecretUsername staged,
                               rs_LastRotationTime := Some t,
                               rs_Message := ''CA bootstrap registrar rotation completed''\<rparr>)))"
    have "ioKeeps ?Q (ioBind (caRegistrarRotationJobState api ns (rs_RotationJobName st)) ?step)"
    proof (unfold ioKeeps_def, intro allI impI)
      fix s
      assume "?Q s"
      then show "?Q (snd (ioBind (caRegistrarRotationJobState api ns (rs_RotationJobName st)) ?step s))"
        by (rule ioBind_post [where Q = ?Q, rotated])
           (use assms(1) in \<open>auto simp: st split: prod.splits intro!: keeps_jobState dest: jobState_ready\<close>)
    qed
    then show ?thesis
      unfolding runRotation_def by (auto intro!: ioKeeps_bind keeps_RBAC keeps_ensureJob)
  qed
  have "ioKeeps ?Q (requestedRotation cr api net org ns caReady ?rid found st)"
    if "rs_RotationJobName st = caRegistrarRotationJobName cr org ?rid" for found st
    unfolding requestedRotation_def Let_def
    using run [OF that] by (auto intro!: ioKeeps_bind keeps_stageSecret [OF assms(2)] split: option.splits)
  then show ?thesis
    unfolding reconcileCARegistrarRotation_def Let_def getCARegistrarSecret_def
    by (auto intro!: ioKeeps_bind keeps_getSecret split: option.splits)
qed

lemma upsert_agrees:
  assumes "fst (upsertSecretData api desired s) = Inr ()" and "view s (objKey (OSecret desired)) = Some (OSecret a)" and "caBootstrapSecretValidationError a = []"
    and "caBootstrapSecretValidationError desired = []"
  shows "\<exists>b. view (snd (upsertSecretData api desired s)) (objKey (OSecret desired)) = Some (OSecret b) \<and> credentialsAgree b desired"
proof -
  obtain p where p: "view (snd (upsertSecretData api desired s)) (objKey (OSecret desired)) = Some (OSecret p)"
      "sec_Data p = sec_Data desired \<or> secretDataEqual (sec_Data p) (sec_Data desired)"
    using upsert_equal [OF assms(1)] by blast
  moreover have "caBootstrapSecretValidationError p = []" using upsert_valid [OF assms(2-4)] p(1) by auto
  ultimately show ?thesis
    using validation_keys [of p] secretDataEqual_get [of "sec_Data p" "sec_Data desired"]
    by (auto simp: credentialsAgree_def dataOf_def)
qed

end


section \<open>A run that reports completion\<close>

text \<open>One successful call of a sequence, with what it keeps.\<close>

lemma ioBind_done:
  assumes "fst (ioBind f g s) = Inr b" and "ioKeeps Q f" and "Q s"
  obtains a s1 where "fst (f s) = Inr a" and "Q s1" and "fst (g a s1) = Inr b"
    and "snd (ioBind f g s) = snd (g a s1)"
proof -
  from assms(1) obtain a where "fst (f s) = Inr a" "fst (g a (snd (f s))) = Inr b" by (auto simp: ioBind_Inr)
  with that [of a "snd (f s)"] assms(2,3) show ?thesis by (simp add: ioKeeps_def snd_ioBind_Inr)
qed

context kube_api
begin

lemma promote_agrees:
  assumes "fst (promoteCARegistrarSecret api net org ns active staged rid t s) = Inr ()"
    and "view s (KSecret, ns, caBootstrapSecretName org) = Some (OSecret active)"
    and "caBootstrapSecretValidationError active = []" and "enrollmentCredentialSecretValidationError staged = []"
    and "caRegistrarPreviousSecretName org \<noteq> caBootstrapSecretName org"
  shows "\<exists>a. view (snd (promoteCARegistrarSecret api net org ns active staged rid t s)) (KSecret, ns, caBootstrapSecretName org) =
           Some (OSecret a) \<and> credentialsAgree a staged"
proof -
  let ?prev = "buildCARegistrarPreviousSecret net org ns active" and ?new = "buildPromotedCARegistrarSecret net org ns staged rid t"
  have kp: "objKey (OSecret ?prev) = (KSecret, ns, caRegistrarPreviousSecretName org)"
    and kn: "objKey (OSecret ?new) = (KSecret, ns, caBootstrapSecretName org)" and dn: "sec_Data ?new = sec_Data staged"
    by (simp_all add: buildCARegistrarPreviousSecret_def buildPromotedCARegistrarSecret_def objKey_def Let_def)
  have "ioKeeps (\<lambda>s. view s (KSecret, ns, caBootstrapSecretName org) = Some (OSecret active)) (upsertSecretData api ?prev)"
    using assms(5) by (intro keeps_other_secret(2)) (simp add: kp)
  from ioBind_done [OF assms(1) [unfolded promoteCARegistrarSecret_def] this assms(2)] obtain s1 where
    s1: "view s1 (KSecret, ns, caBootstrapSecretName org) = Some (OSecret active)" "fst (upsertSecretData api ?new s1) = Inr ()"
      "snd (promoteCARegistrarSecret api net org ns active staged rid t s) = snd (upsertSecretData api ?new s1)"
    unfolding promoteCARegistrarSecret_def by metis
  have "caBootstrapSecretValidationError ?new = []"
    using assms(4) boot_validation_by_data [OF dn] by (simp add: caBootstrapSecretValidationError_def)
  with upsert_agrees [OF s1(2) _ assms(3)] s1(1,3) show ?thesis
    by (simp add: kn credentialsAgree_def dataOf_def dn)
qed

lemma keeps_promote:
  assumes "ns' = ns \<longrightarrow> n \<noteq> caBootstrapSecretName org \<and> n \<noteq> caRegistrarPreviousSecretName org"
  shows "ioKeeps (\<lambda>s. P (view s (KSecret, ns', n))) (promoteCARegistrarSecret api net org ns active staged rid t)"
  unfolding promoteCARegistrarSecret_def
  by (intro ioKeeps_bind keeps_other_secret(2))
     (use assms in \<open>auto simp: objKey_def buildCARegistrarPreviousSecret_def buildPromotedCARegistrarSecret_def Let_def\<close>)

lemma runRotation_ready:
  assumes "fst (runRotation cr api net org ns caReady rid active staged status s) = Inr st" and "rs_Phase st = RotationPhaseReady"
    and "view s (KSecret, ns, caBootstrapSecretName org) = Some (OSecret active)"
    and "view s (KSecret, ns, n) = Some (OSecret staged)"
    and "caBootstrapSecretValidationError active = []" and "enrollmentCredentialSecretValidationError staged = []"
    and "distinct [caBootstrapSecretName org, caRegistrarPreviousSecretName org, n]"
  shows "\<exists>a. view (snd (runRotation cr api net org ns caReady rid active staged status s)) (KSecret, ns, caBootstrapSecretName org) =
           Some (OSecret a) \<and> credentialsAgree a staged \<and> rs_ActiveUsername st = credentialSecretUsername a \<and>
         view (snd (runRotation cr api net org ns caReady rid active staged status s)) (KSecret, ns, n) = Some (OSecret staged)"
proof (cases "caRegistrarRotationPromoted active staged rid")
  case True
  with assms show ?thesis
    using promoted_agree [OF True] by (auto simp: runRotation_def ioReturn_def)
next
  case False
  let ?Q = "\<lambda>s. view s (KSecret, ns, caBootstrapSecretName org) = Some (OSecret active) \<and> view s (KSecret, ns, n) = Some (OSecret staged)"
  have keeps: "ioKeeps ?Q (ensureEnrollmentRBAC api net org ns)" "ioKeeps ?Q (ensureJob api j)"
    "ioKeeps ?Q (caRegistrarRotationJobState api ns m)" "ioKeeps ?Q (ioNow api)" for j m
    by (intro ioKeeps_conj keeps_RBAC keeps_ensureJob keeps_jobState keeps_now; simp)+
  have caReady: "caReady" using assms(1,2) False by (auto simp: runRotation_def ioReturn_def split: if_splits)
  let ?final = "\<lambda>t. ioBind (promoteCARegistrarSecret api net org ns active staged rid t) (\<lambda>_.
              ioReturn (status\<lparr>rs_Phase := RotationPhaseReady, rs_ActiveUsername := credentialSecretUsername staged,
                               rs_LastRotationTime := Some t, rs_Message := ''CA bootstrap registrar rotation completed''\<rparr>))"
  let ?s' = "snd (runRotation cr api net org ns caReady rid active staged status s)"
  have "\<exists>s1 t. ?s' = snd (?final t s1) \<and> ?Q s1 \<and> fst (?final t s1) = Inr st"
    using assms(1-4) False caReady unfolding runRotation_def
    by (auto simp: ioReturn_def split: prod.splits if_splits
        elim!: ioBind_done [OF _ keeps(1)] ioBind_done [OF _ keeps(2)] ioBind_done [OF _ keeps(3)] ioBind_done [OF _ keeps(4)])
       (intro exI conjI, rule refl, assumption+)
  then obtain s1 t where s1: "?Q s1" "fst (?final t s1) = Inr st" "?s' = snd (?final t s1)" by blast
  let ?p = "promoteCARegistrarSecret api net org ns active staged rid t"
  from s1(2) have p: "fst (?p s1) = Inr ()" "rs_ActiveUsername st = credentialSecretUsername staged"
    by (auto simp: ioBind_Inr ioReturn_def)
  then have end_state: "?s' = snd (?p s1)" using s1(3) by (simp add: snd_ioBind_Inr)
  have "view (snd (?p s1)) (KSecret, ns, n) = Some (OSecret staged)"
    using keeps_promote [of ns ns n org "\<lambda>v. v = Some (OSecret staged)"] assms(7) s1(1) by (auto simp: ioKeeps_def)
  moreover obtain a where "view (snd (?p s1)) (KSecret, ns, caBootstrapSecretName org) = Some (OSecret a)" "credentialsAgree a staged"
    using promote_agrees [OF p(1) _ assms(5,6)] assms(7) s1(1) by auto
  ultimately show ?thesis using agree_username [of a staged] p(2) end_state by auto
qed

end


context kube_api
begin

text \<open>What a run with a request has read and staged before it decides.\<close>

lemma reconcile_requested:
  assumes "fst (reconcileCARegistrarRotation cr api net org ns caReady s) = Inr st"
    and "caRegistrarRotationRequestID org = rid" and "rid \<noteq> []"
  obtains status staged s1 where
    "fst (ensureCARegistrarStagedSecret cr api net org ns rid s1) = Inr staged"
    "\<And>k. settled (fst k) \<Longrightarrow> view s1 k = view s k"
    "\<And>active. view s (KSecret, ns, caBootstrapSecretName org) = Some (OSecret active) \<Longrightarrow>
       caBootstrapSecretValidationError active = [] \<Longrightarrow>
       fst (runRotation cr api net org ns caReady rid active staged status (snd (ensureCARegistrarStagedSecret cr api net org ns rid s1))) = Inr st \<and>
       snd (reconcileCARegistrarRotation cr api net org ns caReady s) =
       snd (runRotation cr api net org ns caReady rid active staged status (snd (ensureCARegistrarStagedSecret cr api net org ns rid s1)))"
    "rs_Phase st = RotationPhaseReady \<Longrightarrow> \<exists>active. view s (KSecret, ns, caBootstrapSecretName org) = Some (OSecret active) \<and>
       caBootstrapSecretValidationError active = []"
proof -
  let ?ga = "getCARegistrarSecret api ns (caBootstrapSecretName org)"
  let ?s0 = "snd (?ga s)"
  let ?gp = "getCARegistrarSecret api ns (caRegistrarPreviousSecretName org)"
  let ?s1 = "snd (?gp ?s0)"
  let ?en = "ensureCARegistrarStagedSecret cr api net org ns rid"
  from assms(1-3) obtain found pfound status where
    f: "fst (?ga s) = Inr found" "fst (?gp ?s0) = Inr pfound"
      "fst (requestedRotation cr api net org ns caReady rid found status ?s1) = Inr st"
      "snd (reconcileCARegistrarRotation cr api net org ns caReady s) = snd (requestedRotation cr api net org ns caReady rid found status ?s1)"
    by (auto simp: reconcileCARegistrarRotation_def Let_def ioBind_Inr snd_ioBind_Inr)
  have found: "found = secretAt view s ns (caBootstrapSecretName org)"
    using getSecret_result f(1) by (simp add: getCARegistrarSecret_def)
  have same: "view ?s1 k = view s k" if "settled (fst k)" for k
    using that by (simp add: getCARegistrarSecret_def snd_getSecret get_frame)
  from f(3) obtain staged where st: "fst (?en ?s1) = Inr staged"
    by (auto simp: requestedRotation_def ioBind_Inr)
  show thesis
  proof (rule that [OF st same])
    fix active
    assume a: "view s (KSecret, ns, caBootstrapSecretName org) = Some (OSecret active)" "caBootstrapSecretValidationError active = []"
    then have "found = Some active" using found by (simp add: secretAt_def)
    with f(3,4) st a(2) show "fst (runRotation cr api net org ns caReady rid active staged status (snd (?en ?s1))) = Inr st \<and>
       snd (reconcileCARegistrarRotation cr api net org ns caReady s) =
       snd (runRotation cr api net org ns caReady rid active staged status (snd (?en ?s1)))"
      by (simp add: requestedRotation_def ioBind_Inr snd_ioBind_Inr)
  next
    assume "rs_Phase st = RotationPhaseReady"
    with f(3) st obtain active where "found = Some active" "caBootstrapSecretValidationError active = []"
      by (auto simp: requestedRotation_def ioBind_Inr ioReturn_def Let_def split: option.splits if_splits)
    with found show "\<exists>active. view s (KSecret, ns, caBootstrapSecretName org) = Some (OSecret active) \<and>
       caBootstrapSecretValidationError active = []"
      by (auto simp: secretAt_def split: option.splits KObject.splits)
  qed auto
qed

lemma stage_fresh:
  assumes "fst (ensureCARegistrarStagedSecret cr api net org ns rid s) = Inr staged"
    and "view s (KSecret, ns, caRegistrarStagedSecretName cr org rid) = None"
  shows "\<exists>password. fst (randomChars api 32 s) = Inr password \<and>
           sec_Data staged = credentialData (caRegistrarNextUsername cr rid) password"
proof -
  let ?b = "buildCARegistrarStagedSecret cr api net org ns rid" and ?v = enrollmentCredentialSecretValidationError
  let ?S = "(KSecret, ns, caRegistrarStagedSecretName cr org rid)"
  from assms(1) obtain desired where d: "fst (?b s) = Inr desired"
    and e: "fst (ensureSecret api desired ?v (snd (?b s))) = Inr ()"
    and st: "snd (ensureCARegistrarStagedSecret cr api net org ns rid s) =
       snd (getSecret api ns (mt_Name (sec_Meta desired)) (snd (ensureSecret api desired ?v (snd (?b s)))))"
    by (auto simp: ensureCARegistrarStagedSecret_def getCARegistrarSecret_def ioBind_Inr snd_ioBind_Inr)
  note built = built_staged_valid [OF d]
  have pw: "\<exists>password. fst (randomChars api 32 s) = Inr password \<and> sec_Data desired = credentialData (caRegistrarNextUsername cr rid) password"
    using d by (auto simp: buildCARegistrarStagedSecret_def generateBootstrapPassword_def bootstrapPasswordLength_def
        ioBind_Inr ioReturn_def Let_def)
  have "ioKeeps (\<lambda>s. view s ?S = None) (generateBootstrapPassword api)"
    unfolding generateBootstrapPassword_def by (rule keeps_rand [where P = "\<lambda>v. v = None"]) simp
  then have "ioKeeps (\<lambda>s. view s ?S = None) ?b"
    unfolding buildCARegistrarStagedSecret_def Let_def by (rule ioKeeps_bind) simp
  then have none: "view (snd (?b s)) ?S = None" using assms(2) by (simp add: ioKeeps_def)
  let ?P = "\<lambda>v. v = None \<or> (\<exists>sec. v = Some (OSecret sec) \<and> sec_Data sec = sec_Data desired)"
  have "?P (view (snd (ensureSecret api desired ?v (snd (?b s)))) (objKey (OSecret desired)))"
    unfolding ensureSecret_def
  proof (rule createOrUpdate_invariant [OF keepsKey_mutators(1)])
    fix ob
    assume "?P (Some ob)"
    then obtain sec where sec: "ob = OSecret sec" "sec_Data sec = sec_Data desired" by auto
    then have "?v (sec\<lparr>sec_Meta := m\<rparr>) = []" for m
      using built(1) validation_by_data [of "sec\<lparr>sec_Meta := m\<rparr>" desired] by simp
    with sec show "?P (Some (snd (mutateSecret desired ?v ob)))" by (simp add: mutateSecret_def Let_def case_prod_unfold)
  qed (use none built(2) in \<open>simp_all add: objKey_def\<close>)
  then have "sec_Data staged = sec_Data desired"
    using staged_result(2) [OF assms(1)] st built(2) by (auto simp: snd_getSecret get_frame)
  with pw show ?thesis by simp
qed

lemma reconcile_ready:
  assumes "fst (reconcileCARegistrarRotation cr api net org ns caReady s) = Inr st" and "rs_Phase st = RotationPhaseReady"
    and "sha256_len32 cr" and "length (caBootstrapSecretName org) \<le> 47"
  shows "\<exists>a staged. view (snd (reconcileCARegistrarRotation cr api net org ns caReady s)) (KSecret, ns, caBootstrapSecretName org) =
             Some (OSecret a) \<and>
           view (snd (reconcileCARegistrarRotation cr api net org ns caReady s))
             (KSecret, ns, caRegistrarStagedSecretName cr org (caRegistrarRotationRequestID org)) = Some (OSecret staged) \<and>
           enrollmentCredentialSecretValidationError staged = [] \<and> credentialsAgree a staged \<and>
           rs_ActiveUsername st = credentialSecretUsername a \<and>
           (view s (KSecret, ns, caRegistrarStagedSecretName cr org (caRegistrarRotationRequestID org)) = None \<longrightarrow>
              (\<exists>s0 password. fst (randomChars api 32 s0) = Inr password \<and>
                 sec_Data staged = credentialData (caRegistrarNextUsername cr (caRegistrarRotationRequestID org)) password))"
proof -
  let ?rid = "caRegistrarRotationRequestID org"
  let ?en = "ensureCARegistrarStagedSecret cr api net org ns ?rid"
  have rid: "?rid \<noteq> []"
    using assms(1,2) by (auto simp: reconcileCARegistrarRotation_def Let_def ioBind_Inr ioReturn_def split: if_splits option.splits)
  obtain status staged s1 where r:
    "fst (?en s1) = Inr staged" "\<And>k. settled (fst k) \<Longrightarrow> view s1 k = view s k"
    "\<And>active. view s (KSecret, ns, caBootstrapSecretName org) = Some (OSecret active) \<Longrightarrow>
       caBootstrapSecretValidationError active = [] \<Longrightarrow>
       fst (runRotation cr api net org ns caReady ?rid active staged status (snd (?en s1))) = Inr st \<and>
       snd (reconcileCARegistrarRotation cr api net org ns caReady s) =
       snd (runRotation cr api net org ns caReady ?rid active staged status (snd (?en s1)))"
    "\<exists>active. view s (KSecret, ns, caBootstrapSecretName org) = Some (OSecret active) \<and> caBootstrapSecretValidationError active = []"
    using reconcile_requested [OF assms(1) refl rid] assms(2) by metis
  then obtain active where a: "view s (KSecret, ns, caBootstrapSecretName org) = Some (OSecret active)"
    "caBootstrapSecretValidationError active = []" by blast
  note distinct = rotation_names_distinct [OF assms(3,4)] rotation_names_distinct [OF assms(3,4), symmetric]
  have stored: "view (snd (?en s1)) (KSecret, ns, caBootstrapSecretName org) = Some (OSecret active)"
    using keeps_stageSecret [of ns "caBootstrapSecretName org" ns cr org ?rid "\<lambda>v. v = Some (OSecret active)" net] distinct a(1) r(2)
    by (auto simp: ioKeeps_def)
  have "distinct [caBootstrapSecretName org, caRegistrarPreviousSecretName org, caRegistrarStagedSecretName cr org ?rid]"
    using distinct by simp
  from runRotation_ready [OF r(3) [OF a, THEN conjunct1] assms(2) stored staged_result(2) [OF r(1)] a(2) staged_result(1) [OF r(1)] this]
  obtain b where "view (snd (reconcileCARegistrarRotation cr api net org ns caReady s)) (KSecret, ns, caBootstrapSecretName org) = Some (OSecret b)"
    "credentialsAgree b staged" "rs_ActiveUsername st = credentialSecretUsername b"
    "view (snd (reconcileCARegistrarRotation cr api net org ns caReady s)) (KSecret, ns, caRegistrarStagedSecretName cr org ?rid) = Some (OSecret staged)"
    using r(3) [OF a] by auto
  moreover have "\<exists>s0 password. fst (randomChars api 32 s0) = Inr password \<and> sec_Data staged = credentialData (caRegistrarNextUsername cr ?rid) password"
    if "view s (KSecret, ns, caRegistrarStagedSecretName cr org ?rid) = None"
    using stage_fresh [OF r(1)] r(2) [of "(KSecret, ns, caRegistrarStagedSecretName cr org ?rid)"] that by auto
  ultimately show ?thesis
    using staged_result(1) [OF r(1)] by (intro exI [of _ b] exI [of _ staged] conjI impI)
qed

end


context kube_api
begin

lemma stage_keeps_data:
  assumes "enrollmentCredentialSecretValidationError old = [] \<or> (ns', n) \<noteq> (ns, caRegistrarStagedSecretName cr org rid)"
  shows "ioKeeps (\<lambda>s. \<exists>sec. view s (KSecret, ns', n) = Some (OSecret sec) \<and> sec_Data sec = sec_Data old)
           (ensureCARegistrarStagedSecret cr api net org ns rid)"
proof (cases "enrollmentCredentialSecretValidationError old = []")
  case True
  let ?Q = "\<lambda>s. \<exists>sec. view s (KSecret, ns', n) = Some (OSecret sec) \<and> sec_Data sec = sec_Data old"
  let ?P = "\<lambda>v. \<exists>sec. v = Some (OSecret sec) \<and> sec_Data sec = sec_Data old"
  have "ioKeeps ?Q (ensureSecret api desired enrollmentCredentialSecretValidationError)" for desired
    using ensureCredential_keeps [OF True, of enrollmentCredentialSecretValidationError] by (simp add: ioKeeps_def)
  moreover have "ioKeeps ?Q (generateBootstrapPassword api)"
    unfolding generateBootstrapPassword_def by (rule keeps_rand [where P = ?P]) simp
  moreover have "ioKeeps ?Q (getSecret api ns m)" for m
    by (rule keeps_getSecret [where P = ?P]) simp
  ultimately show ?thesis
    unfolding ensureCARegistrarStagedSecret_def buildCARegistrarStagedSecret_def getCARegistrarSecret_def Let_def
    by (intro ioKeeps_bind) auto
next
  case False
  with assms show ?thesis
    using keeps_stageSecret [of ns' n ns cr org rid "\<lambda>v. \<exists>sec. v = Some (OSecret sec) \<and> sec_Data sec = sec_Data old"] by blast
qed

lemma reconcile_promoted:
  assumes "fst (reconcileCARegistrarRotation cr api net org ns caReady s) = Inr st"
    and "caRegistrarRotationRequestID org = rid" and "rid \<noteq> []"
    and "view s (KSecret, ns, caBootstrapSecretName org) = Some (OSecret active)" and "caBootstrapSecretValidationError active = []"
    and "view s (KSecret, ns, caRegistrarStagedSecretName cr org rid) = Some (OSecret staged)"
    and "enrollmentCredentialSecretValidationError staged = []" and "caRegistrarRotationPromoted active staged rid"
    and "view s (KSecret, ns', n) = Some (OSecret old)"
  shows "rs_Phase st = RotationPhaseReady \<and>
    (\<exists>sec. view (snd (reconcileCARegistrarRotation cr api net org ns caReady s)) (KSecret, ns', n) = Some (OSecret sec) \<and>
       sec_Data sec = sec_Data old)"
proof -
  let ?en = "ensureCARegistrarStagedSecret cr api net org ns rid" and ?S = "caRegistrarStagedSecretName cr org rid"
  obtain status staged' s1 where r:
    "fst (?en s1) = Inr staged'" "\<And>k. settled (fst k) \<Longrightarrow> view s1 k = view s k"
    "fst (runRotation cr api net org ns caReady rid active staged' status (snd (?en s1))) = Inr st"
    "snd (reconcileCARegistrarRotation cr api net org ns caReady s) =
       snd (runRotation cr api net org ns caReady rid active staged' status (snd (?en s1)))"
    using reconcile_requested [OF assms(1-3)] assms(4,5) by metis
  have "\<exists>sec. view (snd (?en s1)) (KSecret, ns, ?S) = Some (OSecret sec) \<and> sec_Data sec = sec_Data staged"
    using stage_keeps_data [of staged ns ?S ns cr org rid net] assms(6,7) r(2) by (auto simp: ioKeeps_def)
  then have "sec_Data staged' = sec_Data staged" using staged_result(2) [OF r(1)] by auto
  then have "caRegistrarRotationPromoted active staged' rid"
    using assms(8) by (simp add: caRegistrarRotationPromoted_def dataOf_def)
  then have run: "rs_Phase st = RotationPhaseReady" "snd (reconcileCARegistrarRotation cr api net org ns caReady s) = snd (?en s1)"
    using r(3,4) by (auto simp: runRotation_def ioReturn_def)
  have "enrollmentCredentialSecretValidationError old = [] \<or> (ns', n) \<noteq> (ns, ?S)" using assms(6,7,9) by auto
  from stage_keeps_data [OF this, of net] assms(9) r(2) run show ?thesis by (auto simp: ioKeeps_def)
qed

end

section \<open>Properties\<close>

text \<open>
  Claim C8. Rotating the CA registrar never loses the working credential: wherever a run stops, and
  whichever calls of the API server fail, the active Secret still holds a credential that validates,
  and either it is the old one or the old one is kept in the \<open>previous\<close> Secret. (Secret values are
  assumed non-empty, since \<open>secretDataEqual\<close> confuses an absent key with an empty one.)
\<close>

theorem rotation_never_loses_credential:
  assumes "kube_api api view"
    and "view s (KSecret, ns, caBootstrapSecretName org) = Some (OSecret active)"
    and "caBootstrapSecretValidationError active = []" and "plainData (sec_Data active)"
    and "plainSecretAt (view s (KSecret, ns, caRegistrarPreviousSecretName org))"
    and "sha256_len32 cr" and "length (caBootstrapSecretName org) \<le> 47"
  shows "\<exists>a. view (snd (reconcileCARegistrarRotation cr api net org ns caReady s)) (KSecret, ns, caBootstrapSecretName org) =
             Some (OSecret a) \<and> caBootstrapSecretValidationError a = [] \<and>
           (sec_Data a = sec_Data active \<or>
            (\<exists>p. view (snd (reconcileCARegistrarRotation cr api net org ns caReady s)) (KSecret, ns, caRegistrarPreviousSecretName org) =
                Some (OSecret p) \<and> map_of (sec_Data p) = map_of (sec_Data active)))"
  using kube_api.reconcile_rotation_safe [OF assms] unfolding registrarSafe_def .


text \<open>
  Claim C10. A rotation reported \<open>Ready\<close> has taken place: the active Secret carries the user name and
  password of a valid staged Secret, and the reported user name is the one now stored.
\<close>

theorem rotation_ready_sound:
  assumes "kube_api api view" and "fst (reconcileCARegistrarRotation cr api net org ns caReady s) = Inr st"
    and "rs_Phase st = RotationPhaseReady" and "sha256_len32 cr" and "length (caBootstrapSecretName org) \<le> 47"
  shows "\<exists>a staged. view (snd (reconcileCARegistrarRotation cr api net org ns caReady s)) (KSecret, ns, caBootstrapSecretName org) =
             Some (OSecret a) \<and>
           view (snd (reconcileCARegistrarRotation cr api net org ns caReady s))
             (KSecret, ns, caRegistrarStagedSecretName cr org (caRegistrarRotationRequestID org)) = Some (OSecret staged) \<and>
           enrollmentCredentialSecretValidationError staged = [] \<and>
           (\<forall>k \<in> set caBootstrapSecretKeys. dataOf a k = dataOf staged k) \<and>
           rs_ActiveUsername st = credentialSecretUsername a"
  using kube_api.reconcile_ready [OF assms] unfolding credentialsAgree_def by blast

text \<open>
  Claim C11. A finished rotation is not repeated: once the active Secret carries the request and the
  staged credential, further runs report \<open>Ready\<close> and leave the data of every Secret as it is.
\<close>

theorem rotation_idempotent:
  assumes "kube_api api view" and "fst (reconcileCARegistrarRotation cr api net org ns caReady s) = Inr st"
    and "caRegistrarRotationRequestID org = rid" and "rid \<noteq> []"
    and "view s (KSecret, ns, caBootstrapSecretName org) = Some (OSecret active)" and "caBootstrapSecretValidationError active = []"
    and "view s (KSecret, ns, caRegistrarStagedSecretName cr org rid) = Some (OSecret staged)"
    and "enrollmentCredentialSecretValidationError staged = []" and "caRegistrarRotationPromoted active staged rid"
    and "view s (KSecret, ns', n) = Some (OSecret old)"
  shows "rs_Phase st = RotationPhaseReady \<and>
    (\<exists>sec. view (snd (reconcileCARegistrarRotation cr api net org ns caReady s)) (KSecret, ns', n) = Some (OSecret sec) \<and>
       sec_Data sec = sec_Data old)"
  by (rule kube_api.reconcile_promoted [OF assms])


definition finishedJob :: Job where
  "finishedJob = (buildCARegistrarRotationJob toy_crypto tinyNetwork tinyOrg ''n'' ''r1'')\<lparr>job_Succeeded := 1\<rparr>"

definition activeSecret :: Secret where
  "activeSecret = credentialSecret ''o-ca-bootstrap'' ''pw''"

lemma activeSecret_ok:
  "caBootstrapSecretValidationError activeSecret = []" "plainData (sec_Data activeSecret)"
  "caBootstrapSecretName tinyOrg = ''o-ca-bootstrap''" "caRegistrarPreviousSecretName tinyOrg = ''o-ca-bootstrap-previous''"
  "caRegistrarStagedSecretName toy_crypto tinyOrg ''r1'' = ''o-ca-bootstrap-next-7231303030''"
  "caRegistrarRotationRequestID tinyOrg = ''r1''"
  "caRegistrarRotationJobName toy_crypto tinyOrg ''r1'' = ''o-ca-bootstrap-rotate-7231303030''"
  by (code_simp, simp add: plainData_def activeSecret_def credentialSecret_def credentialData_def, code_simp+)


theorem rotation_never_loses_credential_witness:
  "\<exists>a. memView (snd (reconcileCARegistrarRotation toy_crypto memKube tinyNetwork tinyOrg ''n'' True
          (storeOf [OSecret activeSecret, OJob finishedJob]))) (KSecret, ''n'', ''o-ca-bootstrap'') = Some (OSecret a) \<and>
     caBootstrapSecretValidationError a = []"
proof -
  let ?s = "storeOf [OSecret activeSecret, OJob finishedJob]"
  have v: "memView ?s (KSecret, ''n'', caBootstrapSecretName tinyOrg) = Some (OSecret activeSecret)"
    "memView ?s (KSecret, ''n'', caRegistrarPreviousSecretName tinyOrg) = None"
    by (simp_all add: activeSecret_ok memView_def storeOf_def objKey_def activeSecret_def credentialSecret_def)
  have p: "plainSecretAt (memView ?s (KSecret, ''n'', caRegistrarPreviousSecretName tinyOrg))"
    unfolding v(2) by (simp add: plainSecretAt_def)
  show ?thesis
    using rotation_never_loses_credential [OF mem.kube_api_axioms v(1) activeSecret_ok(1,2) p toy_crypto_laws(1),
        of tinyNetwork True]
    by (auto simp: activeSecret_ok)
qed


definition stagedSample :: Secret where
  "stagedSample = \<lparr>
     sec_Meta = \<lparr>mt_Name = ''o-ca-bootstrap-next-7231303030'', mt_Namespace = ''n'',
       mt_Labels = Some (identityLabels tinyNetwork tinyOrg ''ca'' ''o-ca-bootstrap-next-7231303030''
          [(labelIdentityKind, secretKindCABootstrapNext)]),
       mt_Annotations = Some (go_set (resourceAnnotations tinyNetwork tinyOrg) annotationCARegistrarRotationRequestID ''r1'')\<rparr>,
     sec_Type = ''Opaque'', sec_Data = credentialData ''admin-7231303030'' (replicate 32 (CHR ''a''))\<rparr>"

lemma mem_quiet:
  assumes "mem_faults s = []"
  shows "k_Get memKube k s = (case memView s k of None \<Rightarrow> (Inl NotFound, s) | Some ob \<Rightarrow> (Inr ob, s))"
    and "k_Create memKube ob s = (Inr (), memPut ob s)" and "k_Update memKube ob s = (Inr (), memPut ob s)"
  using assms by (simp_all add: memKube_def memGet_def memWrite_def nextFault_def split: option.splits)

lemma mem_now: "k_Now memKube s = (mem_clock s, s)"
  by (simp add: memKube_def)

lemma mem_create:
  assumes "mem_faults s = []" and "memView s (objKey ob) = None"
  shows "createOrUpdate memKube ob mutate s = (Inr (), memPut ob s)"
  using assms by (simp add: createOrUpdate_def mem_quiet)

lemma mem_update:
  assumes "mem_faults s = []" and "memView s (objKey ob) = Some old" and "ensureSameFabricNetworkOwner old ob = None"
  shows "createOrUpdate memKube ob mutate s =
    (if fst (mutate old) then (Inr (), memPut (snd (mutate old)) s) else (Inr (), s))"
proof -
  have "updateAttempt memKube ob mutate s = (if fst (mutate old) then (Inr (), memPut (snd (mutate old)) s) else (Inr (), s))"
    using assms by (simp add: updateAttempt_def mem_quiet split: prod.splits bool.splits)
  then have "retryOnConflict (Suc n) (updateAttempt memKube ob mutate) s =
      (if fst (mutate old) then (Inr (), memPut (snd (mutate old)) s) else (Inr (), s))" for n
    by simp
  from this [of 4] show ?thesis using assms by (simp add: createOrUpdate_def mem_quiet updateObjectWithRetry_def)
qed

lemma memPut_faults [simp]: "mem_faults (memPut ob s) = mem_faults s"
  by (simp add: memPut_def)

lemma builtStagedSample:
  "buildCARegistrarStagedSecret toy_crypto memKube tinyNetwork tinyOrg ''n'' ''r1'' (storeOf obs) = (Inr stagedSample, storeOf obs)"
proof -
  have "generateBootstrapPassword memKube (storeOf obs) = (Inr (replicate 32 (CHR ''a'')), storeOf obs)"
  proof -
    have "randomChars memKube n (storeOf obs) = (Inr (replicate n (CHR ''a'')), storeOf obs)" for n
      by (induction n) (simp_all add: ioReturn_def ioBind_def memKube_def memRand_def storeOf_def passwordAlphabet_def)
    then show ?thesis by (simp add: generateBootstrapPassword_def bootstrapPasswordLength_def)
  qed
  moreover have "caRegistrarNextUsername toy_crypto ''r1'' = ''admin-7231303030''" by code_simp
  ultimately show ?thesis
    by (simp add: buildCARegistrarStagedSecret_def ioBind_def ioReturn_def stagedSample_def activeSecret_ok Let_def)
qed


lemma memView_storeOf: "memView (storeOf obs) k = List.find (\<lambda>ob. objKey ob = k) obs"
proof -
  have "map_of (map (\<lambda>ob. (objKey ob, ob)) obs) k = List.find (\<lambda>ob. objKey ob = k) obs"
    by (induction obs) auto
  moreover have "objKey ob = k" if "List.find (\<lambda>ob. objKey ob = k) obs = Some ob" for ob
    using that by (auto simp: find_Some_iff)
  ultimately show ?thesis by (auto simp: memView_def storeOf_def split: option.splits)
qed

lemma mergeEntries_same: "(\<And>k v. (k, v) \<in> set d \<Longrightarrow> go_get m k = v) \<Longrightarrow> mergeEntries m d = (False, m)"
proof (induction d)
  case (Cons kv d)
  obtain k v where kv: "kv = (k, v)" by (cases kv)
  with Cons have "mergeEntries m d = (False, m)" "go_get m k = v" by auto
  with kv show ?case by (simp add: mergeEntries_Cons)
qed (simp add: mergeEntries_def)

lemma mergeEntries_self: "distinct (map fst d) \<Longrightarrow> mergeEntries d d = (False, d)"
  by (rule mergeEntries_same) (simp add: go_get_def)

lemma mem_RBAC:
  assumes "mem_faults s = []" and "\<And>k. fst k \<in> {KServiceAccount, KRole, KRoleBinding} \<Longrightarrow> memView s k = None"
  obtains s2 where "ensureEnrollmentRBAC memKube net org ns s = (Inr (), s2)" and "mem_faults s2 = []"
    and "\<And>k. fst k \<in> {KSecret, KJob} \<Longrightarrow> memView s2 k = memView s k"
proof -
  let ?m = "enrollmentMeta net org ns"
  let ?a = "OServiceAccount ?m" and ?b = "ORole ?m (snd (buildEnrollmentRole net org ns))"
    and ?c = "ORoleBinding ?m (fst (snd (buildEnrollmentRoleBinding net org ns))) (snd (snd (buildEnrollmentRoleBinding net org ns)))"
  let ?s1 = "memPut ?a s" and ?s2 = "memPut ?b (memPut ?a s)" and ?s3 = "memPut ?c (memPut ?b (memPut ?a s))"
  have c: "createOrUpdate memKube ?a f s = (Inr (), ?s1)" "createOrUpdate memKube ?b g ?s1 = (Inr (), ?s2)"
    "createOrUpdate memKube ?c h ?s2 = (Inr (), ?s3)" for f g h
    using assms by (auto intro!: mem_create simp: memView_put objKey_def)
  have "ensureEnrollmentRBAC memKube net org ns s = (Inr (), ?s3)"
    using c by (simp add: ensureEnrollmentRBAC_def ensureServiceAccount_def ensureRole_def ensureRoleBinding_def ioBind_def
        buildEnrollmentServiceAccount_def buildEnrollmentRole_def buildEnrollmentRoleBinding_def Let_def)
  moreover have "memView ?s3 k = memView s k" if "fst k \<in> {KSecret, KJob}" for k
    using that by (auto simp: memView_put objKey_def)
  ultimately show thesis using that assms(1) by simp
qed

abbreviation lostStaged :: MemStore where
  "lostStaged \<equiv> storeOf [OSecret activeSecret, OJob finishedJob]"

lemma lostStaged_run:
  "case fst (reconcileCARegistrarRotation toy_crypto memKube tinyNetwork tinyOrg ''n'' True lostStaged) of
     Inl _ \<Rightarrow> False | Inr st \<Rightarrow> rs_Phase st = RotationPhaseReady"
proof -
  let ?new = "\<lambda>t. buildPromotedCARegistrarSecret tinyNetwork tinyOrg ''n'' stagedSample ''r1'' t"
  let ?prev = "buildCARegistrarPreviousSecret tinyNetwork tinyOrg ''n'' activeSecret"
  have keys [simp]: "objKey (OSecret activeSecret) = (KSecret, ''n'', ''o-ca-bootstrap'')"
    "objKey (OJob finishedJob) = (KJob, ''n'', ''o-ca-bootstrap-rotate-7231303030'')"
    "objKey (OSecret stagedSample) = (KSecret, ''n'', ''o-ca-bootstrap-next-7231303030'')"
    "objKey (OJob (buildCARegistrarRotationJob toy_crypto tinyNetwork tinyOrg ''n'' ''r1'')) = (KJob, ''n'', ''o-ca-bootstrap-rotate-7231303030'')"
    "objKey (OSecret ?prev) = (KSecret, ''n'', ''o-ca-bootstrap-previous'')"
    "objKey (OSecret (?new t)) = (KSecret, ''n'', ''o-ca-bootstrap'')"
    "caRegistrarRotationJobName toy_crypto tinyOrg ''r1'' = ''o-ca-bootstrap-rotate-7231303030''"
    "mt_Name (sec_Meta stagedSample) = ''o-ca-bootstrap-next-7231303030''" for t
    by (simp_all add: objKey_def activeSecret_ok activeSecret_def credentialSecret_def finishedJob_def stagedSample_def Let_def
        buildCARegistrarRotationJob_def buildCARegistrarPreviousSecret_def buildPromotedCARegistrarSecret_def)
  let ?job = "buildCARegistrarRotationJob toy_crypto tinyNetwork tinyOrg ''n'' ''r1''"
  let ?labels = "identityLabels tinyNetwork tinyOrg ''ca'' ''o-ca-bootstrap'' [(labelIdentityKind, identityKindCARegistrarRotate)]"
  let ?annotations = "succeededJobCleanupAnnotations (go_set (resourceAnnotations tinyNetwork tinyOrg) annotationCARegistrarRotationRequestID ''r1'')"
  have meta: "job_Meta ?job = \<lparr>mt_Name = ''o-ca-bootstrap-rotate-7231303030'', mt_Namespace = ''n'', mt_Labels = Some ?labels,
      mt_Annotations = Some ?annotations\<rparr>" "job_Meta finishedJob = job_Meta ?job"
    by (simp_all add: buildCARegistrarRotationJob_def finishedJob_def activeSecret_ok Let_def)
  have distinct: "distinct (map fst ?labels)" "distinct (map fst ?annotations)"
    "go_get ?annotations annotationSucceededJobCleanup = ''true''"
    by code_simp+
  have unchanged [simp]: "\<not> fst (mutateJob ?job (OJob finishedJob))"
    using distinct by (simp add: mutateJob_def mergeMeta_def mergeStringMap_def meta nilmap_def annotationOf_def mergeEntries_self)
  have outcome [simp]: "rotationJobOutcome (Some finishedJob) = (RotationPhaseReady, ''Registrar rotation job completed'')"
    by (simp add: rotationJobOutcome_def jobFailed_def jobSucceeded_def finishedJob_def buildCARegistrarRotationJob_def Let_def)
  have owners [simp]: "ensureSameFabricNetworkOwner (OJob finishedJob) (OJob ?job) = None"
    "ensureSameFabricNetworkOwner (OSecret activeSecret) (OSecret (?new t)) = None" for t
    by (auto simp: ensureSameFabricNetworkOwner_def fabricNetworkOwnerFromAnnotations_def fabricNetworkOwnerFromLabels_def meta(2)
        ensureMatchingFabricNetworkOwner_def annotationOwner_def labelOwner_def annotationOf_def labelOf_def nilmap_def
        activeSecret_def credentialSecret_def go_get_def Let_def)
  have fresh [simp]: "\<not> caRegistrarRotationPromoted activeSecret stagedSample ''r1''"
    by (simp add: caRegistrarRotationPromoted_def activeSecret_def credentialSecret_def annotationOf_def nilmap_def go_get_def)
  note runs = ioBind_def getCARegistrarSecret_def getSecret_def getJob_def mem_quiet memView_put memView_storeOf ioReturn_def
    ioNow_def mem_now
  have faults [simp]: "mem_faults lostStaged = []" by (simp add: storeOf_def)
  have stage: "ensureCARegistrarStagedSecret toy_crypto memKube tinyNetwork tinyOrg ''n'' ''r1'' lostStaged =
      (Inr stagedSample, memPut (OSecret stagedSample) lostStaged)"
    by (simp add: ensureCARegistrarStagedSecret_def ensureSecret_def mem_create builtStagedSample runs)
  define s1 where "s1 = memPut (OSecret stagedSample) lostStaged"
  have "memView s1 k = None" if "fst k \<in> {KServiceAccount, KRole, KRoleBinding}" for k
    using that by (auto simp: s1_def memView_put memView_storeOf)
  moreover have "mem_faults s1 = []" by (simp add: s1_def)
  ultimately obtain s2 where rbac: "ensureEnrollmentRBAC memKube tinyNetwork tinyOrg ''n'' s1 = (Inr (), s2)" "mem_faults s2 = []"
    "\<And>k. fst k \<in> {KSecret, KJob} \<Longrightarrow> memView s2 k = memView s1 k"
    by (metis mem_RBAC)
  have job: "ensureJob memKube (buildCARegistrarRotationJob toy_crypto tinyNetwork tinyOrg ''n'' ''r1'') s2 = (Inr (), s2)"
    using rbac(2,3) by (simp add: ensureJob_def mem_update s1_def memView_put memView_storeOf)
  have state: "caRegistrarRotationJobState memKube ''n'' ''o-ca-bootstrap-rotate-7231303030'' s2 =
      (Inr (RotationPhaseReady, ''Registrar rotation job completed''), s2)"
    using rbac(2,3) by (simp add: caRegistrarRotationJobState_def runs s1_def)
  have "fst (promoteCARegistrarSecret memKube tinyNetwork tinyOrg ''n'' activeSecret stagedSample ''r1'' (mem_clock s2) s2) = Inr ()"
    using rbac(2,3) by (simp add: promoteCARegistrarSecret_def upsertSecretData_def mem_create mem_update runs s1_def)
  then obtain s3 where promote: "promoteCARegistrarSecret memKube tinyNetwork tinyOrg ''n'' activeSecret stagedSample ''r1'' (mem_clock s2) s2 = (Inr (), s3)"
    by (metis prod.collapse)
  show ?thesis
    using rbac(1) job state promote
    by (simp add: reconcileCARegistrarRotation_def requestedRotation_def runRotation_def activeSecret_ok runs stage s1_def [symmetric] Let_def)
qed


theorem rotation_ready_sound_witness:
  "\<exists>a staged. memView (snd (reconcileCARegistrarRotation toy_crypto memKube tinyNetwork tinyOrg ''n'' True lostStaged))
        (KSecret, ''n'', ''o-ca-bootstrap'') = Some (OSecret a) \<and>
      enrollmentCredentialSecretValidationError staged = [] \<and> (\<forall>k \<in> set caBootstrapSecretKeys. dataOf a k = dataOf staged k)"
proof -
  from lostStaged_run obtain st where
    "fst (reconcileCARegistrarRotation toy_crypto memKube tinyNetwork tinyOrg ''n'' True lostStaged) = Inr st" "rs_Phase st = RotationPhaseReady"
    by (auto split: sum.splits)
  from rotation_ready_sound [OF mem.kube_api_axioms this toy_crypto_laws(1)] show ?thesis by (auto simp: activeSecret_ok)
qed




definition promotedSecret :: Secret where
  "promotedSecret = buildPromotedCARegistrarSecret tinyNetwork tinyOrg ''n'' stagedSample ''r1'' 0"

lemma promotedSecret_ok:
  "caBootstrapSecretValidationError promotedSecret = []" "enrollmentCredentialSecretValidationError stagedSample = []"
  "caRegistrarRotationPromoted promotedSecret stagedSample ''r1''"
  "objKey (OSecret promotedSecret) = (KSecret, ''n'', ''o-ca-bootstrap'')"
  "objKey (OSecret stagedSample) = (KSecret, ''n'', ''o-ca-bootstrap-next-7231303030'')"
  by code_simp+

lemma finished_run:
  "\<exists>st. fst (reconcileCARegistrarRotation toy_crypto memKube tinyNetwork tinyOrg ''n'' True
     (storeOf [OSecret promotedSecret, OSecret stagedSample])) = Inr st"
proof -
  let ?s = "storeOf [OSecret promotedSecret, OSecret stagedSample]"
  have m: "mt_Labels (sec_Meta stagedSample) \<noteq> None" "distinct (map fst (nilmap (mt_Labels (sec_Meta stagedSample))))"
    "distinct (map fst (nilmap (mt_Annotations (sec_Meta stagedSample))))" "mt_Annotations (sec_Meta stagedSample) \<noteq> None"
    by code_simp+
  have "enrollmentCredentialSecretValidationError (stagedSample\<lparr>sec_Meta := m\<rparr>) = []" for m
    using promotedSecret_ok(2) validation_by_data [of "stagedSample\<lparr>sec_Meta := m\<rparr>" stagedSample] by simp
  then have "\<not> fst (mutateSecret stagedSample enrollmentCredentialSecretValidationError (OSecret stagedSample))"
    using m by (auto simp: mutateSecret_def Let_def mergeStringMap_def nilmap_def mergeEntries_self split: option.splits)
  moreover have "ensureSameFabricNetworkOwner (OSecret stagedSample) (OSecret stagedSample) = None" by code_simp
  moreover have "mt_Name (sec_Meta stagedSample) = ''o-ca-bootstrap-next-7231303030''" "mem_faults ?s = []"
    by (simp_all add: stagedSample_def storeOf_def)
  ultimately have "ensureCARegistrarStagedSecret toy_crypto memKube tinyNetwork tinyOrg ''n'' ''r1'' ?s = (Inr stagedSample, ?s)"
    by (simp add: ensureCARegistrarStagedSecret_def builtStagedSample ensureSecret_def mem_update getCARegistrarSecret_def getSecret_def
        ioBind_def ioReturn_def mem_quiet memView_storeOf promotedSecret_ok)
  then show ?thesis
    using \<open>mem_faults ?s = []\<close> promotedSecret_ok
    by (simp add: reconcileCARegistrarRotation_def requestedRotation_def runRotation_def activeSecret_ok getCARegistrarSecret_def
        getSecret_def ioBind_def ioReturn_def mem_quiet memView_storeOf Let_def)
qed

theorem rotation_idempotent_witness:
  "\<exists>sec. memView (snd (reconcileCARegistrarRotation toy_crypto memKube tinyNetwork tinyOrg ''n'' True
      (storeOf [OSecret promotedSecret, OSecret stagedSample]))) (KSecret, ''n'', ''o-ca-bootstrap'') = Some (OSecret sec) \<and>
     sec_Data sec = sec_Data promotedSecret"
proof -
  let ?s = "storeOf [OSecret promotedSecret, OSecret stagedSample]"
  obtain st where run: "fst (reconcileCARegistrarRotation toy_crypto memKube tinyNetwork tinyOrg ''n'' True ?s) = Inr st"
    using finished_run by blast
  have v: "memView ?s (KSecret, ''n'', caBootstrapSecretName tinyOrg) = Some (OSecret promotedSecret)"
    "memView ?s (KSecret, ''n'', caRegistrarStagedSecretName toy_crypto tinyOrg ''r1'') = Some (OSecret stagedSample)"
    "memView ?s (KSecret, ''n'', ''o-ca-bootstrap'') = Some (OSecret promotedSecret)"
    by (simp_all add: memView_storeOf promotedSecret_ok activeSecret_ok)
  show ?thesis
    by (rule rotation_idempotent [where active = promotedSecret and staged = stagedSample and rid = "''r1''", THEN conjunct2])
       (fact mem.kube_api_axioms, fact run, fact activeSecret_ok(6), simp, fact v(1), fact promotedSecret_ok(1), fact v(2),
        fact promotedSecret_ok(2), fact promotedSecret_ok(3), fact v(3))
qed

text \<open>A server that never shows a Job, for the runs before the Job completes.\<close>

definition joblessKube :: "MemStore Kube" where
  "joblessKube = memKube\<lparr>k_Get := (\<lambda>k s. if fst k = KJob then (Inl NotFound, s) else memGet k s)\<rparr>"

interpretation jobless: kube_api joblessKube memView
proof unfold_locales
  have g: "k_Get joblessKube k = k_Get memKube k" if "settled (fst k)" for k
    using that by (cases "fst k") (auto simp: joblessKube_def memKube_def)
  have o: "k_Create joblessKube = k_Create memKube" "k_Update joblessKube = k_Update memKube" "k_Now joblessKube = k_Now memKube"
    "k_RandInt joblessKube = k_RandInt memKube"
    by (simp_all add: joblessKube_def)
  fix k k' :: objkey and s ob n r
  show "settled (fst k) \<Longrightarrow> memView (snd (k_Get joblessKube k' s)) k = memView s k"
    using mem.get_frame [of k k' s] by (auto simp: joblessKube_def memKube_def)
  show "settled (fst k) \<Longrightarrow> fst (k_Get joblessKube k s) = Inr ob \<Longrightarrow> memView s k = Some ob \<and> objKey ob = k"
    "settled (fst k) \<Longrightarrow> fst (k_Get joblessKube k s) = Inl NotFound \<Longrightarrow> memView s k = None"
    using g mem.get_found mem.get_not_found by auto
  show "settled (objKind ob) \<Longrightarrow> memView (snd (k_Create joblessKube ob s)) (objKey ob) \<in> {memView s (objKey ob), Some ob}"
    "settled (objKind ob) \<Longrightarrow> memView (snd (k_Update joblessKube ob s)) (objKey ob) \<in> {memView s (objKey ob), Some ob}"
    unfolding o by (fact mem.create_failed, fact mem.update_failed)
qed (simp_all add: joblessKube_def mem.create_frame mem.create_done mem.update_frame mem.update_done
      mem.now_frame mem.rand_frame mem.rand_range)



end
