(* ===== verification/Cluster.thy ===== *)
theory Cluster
  imports Registrar_Rotation Raft_Config
begin

text \<open>
  The cluster as the reconcile loop sees it: beside reading and writing objects it lists and
  deletes them, reads and updates the \<open>FabricNetwork\<close> resource itself, patches its status, records
  events, and uses library functions of the Kubernetes client: parsing a resource quantity, setting
  a status condition (\<open>meta.SetStatusCondition\<close>), the text of an error, and rendering JSON and YAML. The record \<open>Cluster\<close> holds these operations, the locale
  \<open>cluster\<close> extends \<open>kube_api\<close> by what the code relies on. The theory then holds the operations of
  \<^verbatim>\<open>fabricnetwork_controller.go\<close> on namespaces and the finalizer, the guarded deletion of
  \<^verbatim>\<open>fabricnetwork_org.go\<close>, and the deletion of succeeded Jobs of \<^verbatim>\<open>fabricnetwork_job_cleanup.go\<close>.
\<close>

section \<open>Operations\<close>

record 's Cluster =
  cl_Kube :: "'s Kube"
  cl_Delete :: "KObject \<Rightarrow> ('s, unit) io"
  cl_List :: "Kind \<Rightarrow> string \<Rightarrow> (string, string) gomap \<Rightarrow> ('s, KObject list) io"
  cl_GetNetwork :: "string \<times> string \<Rightarrow> ('s, FabricNetwork) io" \<comment> \<open>namespace, name\<close>
  cl_UpdateNetwork :: "FabricNetwork \<Rightarrow> ('s, unit) io"
  cl_PatchStatus :: "FabricNetwork \<Rightarrow> FabricNetworkStatus \<Rightarrow> ('s, unit) io"
  cl_Event :: "string \<Rightarrow> string \<Rightarrow> string \<Rightarrow> 's \<Rightarrow> 's"
  cl_ParseQuantity :: "string \<Rightarrow> string + string"
  cl_SetCondition :: "gotime \<Rightarrow> Condition list \<Rightarrow> Condition \<Rightarrow> Condition list" \<comment> \<open>the time is that of the call\<close>
  cl_ErrorText :: "ApiError \<Rightarrow> string"
  cl_MarshalIndent :: "json \<Rightarrow> string"
  cl_JSONToYAML :: "string \<Rightarrow> string + string"

text \<open>\<open>matchLabels\<close>: every entry of the selector is among the labels.\<close>

definition labelsMatch :: "(string, string) gomap \<Rightarrow> (string, string) gomap \<Rightarrow> bool" where
  "labelsMatch selector labels \<longleftrightarrow> list_all (\<lambda>(k, v). map_of labels k = Some v) selector"

definition selected :: "(string, string) gomap \<Rightarrow> ObjectMeta \<Rightarrow> bool" where
  "selected selector m \<longleftrightarrow> labelsMatch selector (nilmap (mt_Labels m))"

definition findCondition :: "string \<Rightarrow> Condition list \<Rightarrow> Condition option" where
  "findCondition ty conditions = List.find (\<lambda>c. cn_Type c = ty) conditions"

text \<open>What a condition reports, apart from the time of its last transition.\<close>

definition conditionReport :: "Condition \<Rightarrow> ConditionStatus \<times> string \<times> string \<times> int" where
  "conditionReport c = (cn_Status c, cn_Reason c, cn_Message c, cn_ObservedGeneration c)"

text \<open>Deleting a namespace also deletes what is in it; every other deletion hits one object.\<close>

locale cluster = kube_api "cl_Kube cl" view
  for cl :: "'s Cluster" and view :: "'s \<Rightarrow> objkey \<Rightarrow> KObject option" +
  assumes delete_frame: "settled (fst k) \<Longrightarrow> k \<noteq> objKey ob \<Longrightarrow> \<not> (objKind ob = KNamespace \<and> fst (snd k) = mt_Name (objMeta ob)) \<Longrightarrow>
          view (snd (cl_Delete cl ob s)) k = view s k"
    and list_frame: "settled (fst k) \<Longrightarrow> view (snd (cl_List cl kind ns selector s)) k = view s k"
    and list_found: "fst (cl_List cl kind ns selector s) = Inr obs \<Longrightarrow> ob \<in> set obs \<Longrightarrow>
          objKind ob = kind \<and> mt_Namespace (objMeta ob) = ns \<and> selected selector (objMeta ob)"
    and network_frame: "settled (fst k) \<Longrightarrow> view (snd (cl_GetNetwork cl nn s)) k = view s k"
      "settled (fst k) \<Longrightarrow> view (snd (cl_UpdateNetwork cl net s)) k = view s k"
      "settled (fst k) \<Longrightarrow> view (snd (cl_PatchStatus cl net st s)) k = view s k"
      "settled (fst k) \<Longrightarrow> view (cl_Event cl a b c s) k = view s k"
    and list_stored: "settled kind \<Longrightarrow> fst (cl_List cl kind ns selector s) = Inr obs \<Longrightarrow> ob \<in> set obs \<Longrightarrow> view s (objKey ob) = Some ob"
    and condition_set: "\<exists>c'. findCondition (cn_Type cond) (cl_SetCondition cl now cs cond) = Some c' \<and> conditionReport c' = conditionReport cond"
    and condition_kept: "ty \<noteq> cn_Type cond \<Longrightarrow> findCondition ty (cl_SetCondition cl now cs cond) = findCondition ty cs"
    and condition_types: "distinct (map cn_Type cs) \<Longrightarrow> distinct (map cn_Type (cl_SetCondition cl now cs cond))"

text \<open>\<open>client.IgnoreNotFound\<close>.\<close>

definition ignoreNotFound :: "('s, unit) io \<Rightarrow> ('s, unit) io" where
  "ignoreNotFound f s = (case f s of (Inl NotFound, s1) \<Rightarrow> (Inr (), s1) | (r, s1) \<Rightarrow> (r, s1))"

lemma keeps_ignoreNotFound [intro]: "ioKeeps Q f \<Longrightarrow> ioKeeps Q (ignoreNotFound f)"
  by (fastforce simp: ioKeeps_def ignoreNotFound_def split: prod.splits sum.splits ApiError.splits)

section \<open>Guarded deletion\<close>

text \<open>The expected owner is an empty ConfigMap that carries the labels and annotations of the network.\<close>

definition ownerObject :: "string \<Rightarrow> string \<Rightarrow> (string, string) gomap \<Rightarrow> (string, string) gomap \<Rightarrow> KObject" where
  "ownerObject name namespace labels annotations =
     OConfigMap \<lparr>cm_Meta = \<lparr>mt_Name = name, mt_Namespace = namespace, mt_Labels = Some labels, mt_Annotations = Some annotations\<rparr>,
                 cm_Data = [], cm_BinaryData = [], cm_Immutable = False\<rparr>"

definition deleteOwnedObject :: "'s Cluster \<Rightarrow> KObject \<Rightarrow> KObject \<Rightarrow> ('s, unit) io" where
  "deleteOwnedObject cl ob expectedOwner =
     (if \<not> hasFabricNetworkOwner ob then ioReturn ()
      else case ensureSameFabricNetworkOwner ob expectedOwner of
             Some e \<Rightarrow> (\<lambda>s. (Inl e, s))
           | None \<Rightarrow> ignoreNotFound (cl_Delete cl ob))"

section \<open>Namespaces\<close>

definition buildOrgNamespace :: "FabricNetwork \<Rightarrow> Org \<Rightarrow> ObjectMeta" where
  "buildOrgNamespace net org =
     \<lparr>mt_Name = orgNamespaceName net org, mt_Namespace = [], mt_Labels = Some (orgLabels net org ''namespace''),
      mt_Annotations = Some (resourceAnnotations net org)\<rparr>"

text \<open>
  Namespaces, Deployments and claims merge their labels in line: a nil label map is replaced by an
  empty one and counts as a change.
\<close>

definition mergeLabelsInline :: "ObjectMeta \<Rightarrow> ObjectMeta \<Rightarrow> bool \<times> ObjectMeta" where
  "mergeLabelsInline existing desired =
     (let (c1, labels) = mergeEntries (nilmap (mt_Labels existing)) (nilmap (mt_Labels desired));
          (c2, annotations) = mergeStringMap (mt_Annotations existing) (nilmap (mt_Annotations desired))
      in (mt_Labels existing = None \<or> c1 \<or> c2, existing\<lparr>mt_Labels := Some labels, mt_Annotations := annotations\<rparr>))"

definition mutateNamespace :: "ObjectMeta \<Rightarrow> KObject \<Rightarrow> bool \<times> KObject" where
  "mutateNamespace desired ob =
     (case ob of ONamespace existing \<Rightarrow> (let (c, m) = mergeLabelsInline existing desired in (c, ONamespace m))
      | _ \<Rightarrow> (False, ob))"

definition ensureNamespace :: "'s Cluster \<Rightarrow> ObjectMeta \<Rightarrow> ('s, unit) io" where
  "ensureNamespace cl desired = createOrUpdate (cl_Kube cl) (ONamespace desired) (mutateNamespace desired)"

definition namespaceOwnedByFabricNetwork :: "ObjectMeta \<Rightarrow> FabricNetwork \<Rightarrow> Org \<Rightarrow> bool" where
  "namespaceOwnedByFabricNetwork namespace net org \<longleftrightarrow>
     labelOf namespace labelFabricNetwork = sanitizeName (fn_Name net) \<and>
     labelOf namespace labelFabricNetworkNamespace = sanitizeName (fn_Namespace net) \<and>
     labelOf namespace labelOrg = sanitizeName (om_Name (org_Organization org)) \<and>
     labelOf namespace labelAppManagedBy = ''fabricops''"

definition cleanupNamespace :: "'s Cluster \<Rightarrow> FabricNetwork \<Rightarrow> Org \<Rightarrow> ('s, unit) io" where
  "cleanupNamespace cl net org s =
     (case k_Get (cl_Kube cl) (KNamespace, [], orgNamespaceName net org) s of
        (Inl NotFound, s1) \<Rightarrow> (Inr (), s1)
      | (Inl e, s1) \<Rightarrow> (Inl e, s1)
      | (Inr ob, s1) \<Rightarrow>
          if \<not> namespaceOwnedByFabricNetwork (objMeta ob) net org then (Inr (), s1)
          else ignoreNotFound (cl_Delete cl ob) s1)"

definition cleanupFabricNetwork :: "'s Cluster \<Rightarrow> FabricNetwork \<Rightarrow> ('s, unit) io" where
  "cleanupFabricNetwork cl net = ioSeq (map (cleanupNamespace cl net) (sp_Orgs (fn_Spec net)))"

section \<open>Finalizer\<close>

definition fabricNetworkFinalizer :: string where "fabricNetworkFinalizer = ''fabricops.io/finalizer''"

text \<open>\<open>controllerutil\<close>: adding appends when absent, removing drops every occurrence.\<close>

definition containsFinalizer :: "FabricNetwork \<Rightarrow> string \<Rightarrow> bool" where
  "containsFinalizer net f \<longleftrightarrow> f \<in> set (fn_Finalizers net)"

definition addFinalizer :: "FabricNetwork \<Rightarrow> string \<Rightarrow> FabricNetwork" where
  "addFinalizer net f = (if containsFinalizer net f then net else net\<lparr>fn_Finalizers := fn_Finalizers net @ [f]\<rparr>)"

definition removeFinalizer :: "FabricNetwork \<Rightarrow> string \<Rightarrow> FabricNetwork" where
  "removeFinalizer net f = net\<lparr>fn_Finalizers := filter (\<lambda>x. x \<noteq> f) (fn_Finalizers net)\<rparr>"

definition finalizerAttempt :: "'s Cluster \<Rightarrow> string \<times> string \<Rightarrow> (FabricNetwork \<Rightarrow> FabricNetwork option) \<Rightarrow> ('s, unit) io" where
  "finalizerAttempt cl key update =
     ioBind (cl_GetNetwork cl key) (\<lambda>network.
       case update network of None \<Rightarrow> ioReturn () | Some updated \<Rightarrow> cl_UpdateNetwork cl updated)"

definition updateFabricNetworkFinalizer ::
  "'s Cluster \<Rightarrow> string \<times> string \<Rightarrow> (FabricNetwork \<Rightarrow> FabricNetwork option) \<Rightarrow> ('s, unit) io" where
  "updateFabricNetworkFinalizer cl key update = retryOnConflict 5 (finalizerAttempt cl key update)"

definition ensureFabricNetworkFinalizer :: "'s Cluster \<Rightarrow> string \<times> string \<Rightarrow> ('s, unit) io" where
  "ensureFabricNetworkFinalizer cl key =
     updateFabricNetworkFinalizer cl key (\<lambda>network.
       if fn_DeletionTimestamp network \<noteq> None then None
       else if containsFinalizer network fabricNetworkFinalizer then None
       else Some (addFinalizer network fabricNetworkFinalizer))"

definition removeFabricNetworkFinalizer :: "'s Cluster \<Rightarrow> string \<times> string \<Rightarrow> ('s, unit) io" where
  "removeFabricNetworkFinalizer cl key =
     updateFabricNetworkFinalizer cl key (\<lambda>network.
       if \<not> containsFinalizer network fabricNetworkFinalizer then None
       else Some (removeFinalizer network fabricNetworkFinalizer))"

section \<open>Succeeded Jobs\<close>

definition succeededJobCleanupTTL :: "FabricNetwork \<Rightarrow> int option" where
  "succeededJobCleanupTTL net =
     (case gl_Jobs (sp_Global (fn_Spec net)) of
        None \<Rightarrow> None
      | Some jobs \<Rightarrow> (case jobs_SucceededHistoryTTLSeconds jobs of None \<Rightarrow> None | Some secs \<Rightarrow> Some (secs * second)))"

definition succeededJobCleanupEligible :: "Job \<Rightarrow> bool" where
  "succeededJobCleanupEligible job \<longleftrightarrow> annotationOf (job_Meta job) annotationSucceededJobCleanup = ''true''"

definition fabricNetworkSelector :: "FabricNetwork \<Rightarrow> (string, string) gomap" where
  "fabricNetworkSelector net =
     [(labelFabricNetwork, sanitizeName (fn_Name net)), (labelFabricNetworkNamespace, sanitizeName (fn_Namespace net))]"

definition jobExpiry :: "int \<Rightarrow> gotime \<Rightarrow> KObject \<Rightarrow> int option" where
  "jobExpiry ttl now ob =
     (case ob of
        OJob job \<Rightarrow>
          (if \<not> succeededJobCleanupEligible job \<or> \<not> jobSucceeded job then None
           else case job_CompletionTime job of None \<Rightarrow> None | Some t \<Rightarrow> Some (ttl - (now - t)))
      | _ \<Rightarrow> None)"

fun cleanupJobs :: "'s Cluster \<Rightarrow> FabricNetwork \<Rightarrow> Org \<Rightarrow> int \<Rightarrow> gotime \<Rightarrow> int \<Rightarrow> KObject list \<Rightarrow> ('s, int) io" where
  "cleanupJobs cl net org ttl now next [] = ioReturn next"
| "cleanupJobs cl net org ttl now next (job # jobs) =
     (case jobExpiry ttl now job of
        None \<Rightarrow> cleanupJobs cl net org ttl now next jobs
      | Some remaining \<Rightarrow>
          if remaining > 0 then
            cleanupJobs cl net org ttl now (if next = 0 \<or> remaining < next then remaining else next) jobs
          else
            ioBind (deleteOwnedObject cl job (ownerObject (mt_Name (objMeta job)) (orgNamespaceName net org)
                (orgLabels net org ''network'') (resourceAnnotations net org)))
              (\<lambda>_. cleanupJobs cl net org ttl now next jobs))"

fun cleanupOrgs :: "'s Cluster \<Rightarrow> FabricNetwork \<Rightarrow> int \<Rightarrow> gotime \<Rightarrow> int \<Rightarrow> Org list \<Rightarrow> ('s, int) io" where
  "cleanupOrgs cl net ttl now next [] = ioReturn next"
| "cleanupOrgs cl net ttl now next (org # orgs) =
     ioBind (cl_List cl KJob (orgNamespaceName net org) (fabricNetworkSelector net)) (\<lambda>jobs.
     ioBind (cleanupJobs cl net org ttl now next jobs) (\<lambda>next'. cleanupOrgs cl net ttl now next' orgs))"

definition cleanupSucceededJobs :: "'s Cluster \<Rightarrow> FabricNetwork \<Rightarrow> ('s, int) io" where
  "cleanupSucceededJobs cl net =
     (case succeededJobCleanupTTL net of
        None \<Rightarrow> ioReturn 0
      | Some ttl \<Rightarrow> ioBind (ioNow (cl_Kube cl)) (\<lambda>now. cleanupOrgs cl net ttl now 0 (sp_Orgs (fn_Spec net))))"

text \<open>A \<open>ctrl.Result\<close> is its \<open>RequeueAfter\<close>; zero requeues on events only.\<close>

definition resultWithCleanupRequeue :: "int \<Rightarrow> int \<Rightarrow> int" where
  "resultWithCleanupRequeue requeueAfter cleanupAfter =
     (if cleanupAfter \<le> 0 then requeueAfter
      else if requeueAfter = 0 \<or> cleanupAfter < requeueAfter then cleanupAfter else requeueAfter)"

section \<open>A cluster in memory\<close>

definition memDrop :: "KObject \<Rightarrow> MemStore \<Rightarrow> MemStore" where
  "memDrop ob s = s\<lparr>mem_objects := filter (\<lambda>(k, _). k \<noteq> objKey ob \<and>
     \<not> (objKind ob = KNamespace \<and> fst (snd k) = mt_Name (objMeta ob))) (mem_objects s)\<rparr>"

definition memDelete :: "KObject \<Rightarrow> (MemStore, unit) io" where
  "memDelete ob s =
     (case nextFault s of
        (NoFault, s1) \<Rightarrow> (case memView s (objKey ob) of None \<Rightarrow> (Inl NotFound, s1) | Some _ \<Rightarrow> (Inr (), memDrop ob s1))
      | (Reject e, s1) \<Rightarrow> (Inl (faultError e), s1)
      | (ApplyAndReport e, s1) \<Rightarrow> (Inl (faultError e), memDrop ob s1))"

definition memListed :: "Kind \<Rightarrow> string \<Rightarrow> (string, string) gomap \<Rightarrow> MemStore \<Rightarrow> KObject list" where
  "memListed kind ns selector s =
     map snd (filter (\<lambda>(k, ob). memView s k = Some ob \<and> objKind ob = kind \<and> mt_Namespace (objMeta ob) = ns \<and>
       selected selector (objMeta ob)) (mem_objects s))"

definition memList :: "Kind \<Rightarrow> string \<Rightarrow> (string, string) gomap \<Rightarrow> (MemStore, KObject list) io" where
  "memList kind ns selector s =
     (case nextFault s of
        (NoFault, s1) \<Rightarrow> (Inr (memListed kind ns selector s), s1)
      | (Reject e, s1) \<Rightarrow> (Inl (faultError e), s1)
      | (ApplyAndReport e, s1) \<Rightarrow> (Inl (faultError e), s1))"

definition networkKey :: "FabricNetwork \<Rightarrow> string \<times> string" where
  "networkKey net = (fn_Namespace net, fn_Name net)"

definition memGetNetwork :: "string \<times> string \<Rightarrow> (MemStore, FabricNetwork) io" where
  "memGetNetwork key s =
     (case nextFault s of
        (NoFault, s1) \<Rightarrow> (case map_of (mem_networks s) key of None \<Rightarrow> (Inl NotFound, s1) | Some net \<Rightarrow> (Inr net, s1))
      | (Reject e, s1) \<Rightarrow> (Inl (faultError e), s1)
      | (ApplyAndReport e, s1) \<Rightarrow> (Inl (faultError e), s1))"

text \<open>A network that is being deleted and has no finalizer left is removed.\<close>

definition memPutNetwork :: "FabricNetwork \<Rightarrow> MemStore \<Rightarrow> MemStore" where
  "memPutNetwork net s =
     (if fn_DeletionTimestamp net \<noteq> None \<and> fn_Finalizers net = []
      then s\<lparr>mem_networks := filter (\<lambda>(k, _). k \<noteq> networkKey net) (mem_networks s)\<rparr>
      else s\<lparr>mem_networks := go_set (mem_networks s) (networkKey net) net\<rparr>)"

definition memWriteNetwork :: "FabricNetwork \<Rightarrow> (MemStore, unit) io" where
  "memWriteNetwork net s =
     (case nextFault s of
        (NoFault, s1) \<Rightarrow> (Inr (), memPutNetwork net s1)
      | (Reject e, s1) \<Rightarrow> (Inl (faultError e), s1)
      | (ApplyAndReport e, s1) \<Rightarrow> (Inl (faultError e), memPutNetwork net s1))"

definition memPatchStatus :: "FabricNetwork \<Rightarrow> FabricNetworkStatus \<Rightarrow> (MemStore, unit) io" where
  "memPatchStatus net st s =
     (case map_of (mem_networks s) (networkKey net) of
        None \<Rightarrow> (Inl NotFound, s)
      | Some stored \<Rightarrow> memWriteNetwork (stored\<lparr>fn_Status := st\<rparr>) s)"

text \<open>A condition of the type is updated in place, its transition time when the status changes; a new one is appended.\<close>

definition memSetCondition :: "gotime \<Rightarrow> Condition list \<Rightarrow> Condition \<Rightarrow> Condition list" where
  "memSetCondition now cs c =
     (if list_ex (\<lambda>old. cn_Type old = cn_Type c) cs
      then map (\<lambda>old. if cn_Type old = cn_Type c
             then c\<lparr>cn_LastTransitionTime := (if cn_Status old = cn_Status c then cn_LastTransitionTime old else now)\<rparr> else old) cs
      else cs @ [c\<lparr>cn_LastTransitionTime := now\<rparr>])"

definition memCluster :: "MemStore Cluster" where
  "memCluster = \<lparr>cl_Kube = memKube, cl_Delete = memDelete, cl_List = memList, cl_GetNetwork = memGetNetwork,
     cl_UpdateNetwork = memWriteNetwork, cl_PatchStatus = memPatchStatus,
     cl_Event = (\<lambda>a b c s. s\<lparr>mem_events := mem_events s @ [(a, b, c)]\<rparr>),
     cl_ParseQuantity = (\<lambda>q. if q = [] then Inl ''quantity'' else Inr q), cl_SetCondition = memSetCondition,
     cl_ErrorText = (\<lambda>e. case e of NotFound \<Rightarrow> ''not found'' | Conflict \<Rightarrow> ''conflict'' | OtherError m \<Rightarrow> m),
     cl_MarshalIndent = (\<lambda>_. ''{}''), cl_JSONToYAML = Inr\<rparr>"

lemma findCondition_update:
  "findCondition ty (map (\<lambda>old. if cn_Type old = cn_Type c then f old else old) cs) =
     (if ty = cn_Type c then map_option f (findCondition ty cs) else findCondition ty cs)" if "\<And>old. cn_Type (f old) = cn_Type c"
  using that by (induction cs) (auto simp: findCondition_def)

lemma findCondition_append: "findCondition ty (cs @ [c]) = (case findCondition ty cs of Some x \<Rightarrow> Some x | None \<Rightarrow> if cn_Type c = ty then Some c else None)"
  by (induction cs) (auto simp: findCondition_def)

lemma findCondition_none: "\<not> list_ex (\<lambda>old. cn_Type old = ty) cs \<longleftrightarrow> findCondition ty cs = None"
  by (induction cs) (auto simp: findCondition_def)

lemma memSetCondition_laws:
  "\<exists>c'. findCondition (cn_Type c) (memSetCondition now cs c) = Some c' \<and> conditionReport c' = conditionReport c"
  "ty \<noteq> cn_Type c \<Longrightarrow> findCondition ty (memSetCondition now cs c) = findCondition ty cs"
  "distinct (map cn_Type cs) \<Longrightarrow> distinct (map cn_Type (memSetCondition now cs c))"
proof -
  show "\<exists>c'. findCondition (cn_Type c) (memSetCondition now cs c) = Some c' \<and> conditionReport c' = conditionReport c"
  proof (cases "findCondition (cn_Type c) cs")
    case None
    then show ?thesis using findCondition_none [of "cn_Type c" cs]
      by (simp add: memSetCondition_def findCondition_append conditionReport_def)
  next
    case (Some old)
    then have "findCondition (cn_Type c) (memSetCondition now cs c) =
        Some (c\<lparr>cn_LastTransitionTime := (if cn_Status old = cn_Status c then cn_LastTransitionTime old else now)\<rparr>)"
      using findCondition_none [of "cn_Type c" cs] by (auto simp: memSetCondition_def findCondition_update)
    then show ?thesis by (auto simp: conditionReport_def)
  qed
  show "ty \<noteq> cn_Type c \<Longrightarrow> findCondition ty (memSetCondition now cs c) = findCondition ty cs"
    by (auto simp: memSetCondition_def findCondition_update findCondition_append split: option.splits)
  have "map cn_Type (map (\<lambda>old. if cn_Type old = cn_Type c
      then c\<lparr>cn_LastTransitionTime := (if cn_Status old = cn_Status c then cn_LastTransitionTime old else now)\<rparr> else old) cs) = map cn_Type cs"
    by simp
  then show "distinct (map cn_Type cs) \<Longrightarrow> distinct (map cn_Type (memSetCondition now cs c))"
    by (auto simp: memSetCondition_def list_ex_iff simp del: map_map)
qed

lemma map_of_drop: "map_of (filter (\<lambda>(k, _). P k) m) k = (if P k then map_of m k else None)"
  by (induction m) auto

lemma memView_drop:
  "memView (memDrop ob s) k =
     (if k = objKey ob \<or> objKind ob = KNamespace \<and> fst (snd k) = mt_Name (objMeta ob) then None else memView s k)"
  by (auto simp: memView_def memDrop_def map_of_drop)

lemma memDelete_view:
  "memView (snd (memDelete ob s)) k = memView s k \<or> memView (snd (memDelete ob s)) k = memView (memDrop ob s) k"
proof (cases "nextFault s")
  case (Pair f s1)
  have eq: "memView s1 = memView s" using nextFault_objects [OF Pair] by (rule memView_cong)
  then have "memView (memDrop ob s1) = memView (memDrop ob s)" by (simp add: fun_eq_iff memView_drop)
  with Pair eq show ?thesis by (auto simp: memDelete_def split: Fault.splits option.splits)
qed

lemma memView_networks [simp]: "memView (s\<lparr>mem_networks := x\<rparr>) = memView s" "memView (s\<lparr>mem_events := y\<rparr>) = memView s"
  "memView (memPutNetwork net s) = memView s"
  by (simp_all add: memView_def fun_eq_iff memPutNetwork_def)

lemma memView_nextFault: "memView (snd (nextFault s)) = memView s"
  by (cases "nextFault s") (simp add: memView_cong [OF nextFault_objects])

lemma memNetwork_view:
  "memView (snd (memGetNetwork nn s)) = memView s" "memView (snd (memWriteNetwork net s)) = memView s"
  "memView (snd (memPatchStatus net st s)) = memView s" "memView (snd (memList kind ns selector s)) = memView s"
proof -
  have f: "memView s1 = memView s" if "nextFault s = (f, s1)" for f s1
    using memView_cong [OF nextFault_objects [OF that]] .
  show "memView (snd (memGetNetwork nn s)) = memView s" "memView (snd (memWriteNetwork net s)) = memView s"
    "memView (snd (memList kind ns selector s)) = memView s" for net
    by (auto simp: memGetNetwork_def memWriteNetwork_def memList_def f split: prod.splits Fault.splits option.splits)
  then show "memView (snd (memPatchStatus net st s)) = memView s"
    by (simp add: memPatchStatus_def split: option.splits)
qed

lemma memListed_view: "ob \<in> set (memListed kind ns selector s) \<Longrightarrow> memView s (objKey ob) = Some ob"
  by (auto simp: memListed_def memView_def split: option.splits if_splits)

lemma memList_view: "fst (memList kind ns selector s) = Inr obs \<Longrightarrow> ob \<in> set obs \<Longrightarrow> memView s (objKey ob) = Some ob"
  by (cases "nextFault s") (auto simp: memList_def memListed_view split: Fault.splits)

interpretation memc: cluster memCluster memView
proof (rule cluster.intro)
  show "kube_api (cl_Kube memCluster) memView" by (simp add: memCluster_def mem.kube_api_axioms)
  show "cluster_axioms memCluster memView"
  proof unfold_locales
    fix k :: objkey and ob s kind ns selector obs nn net st a b c
    show "k \<noteq> objKey ob \<Longrightarrow> \<not> (objKind ob = KNamespace \<and> fst (snd k) = mt_Name (objMeta ob)) \<Longrightarrow>
        memView (snd (cl_Delete memCluster ob s)) k = memView s k"
      using memDelete_view [of ob s k] by (auto simp: memCluster_def memView_drop)
    show "fst (cl_List memCluster kind ns selector s) = Inr obs \<Longrightarrow> ob \<in> set obs \<Longrightarrow>
        objKind ob = kind \<and> mt_Namespace (objMeta ob) = ns \<and> selected selector (objMeta ob)"
      by (auto simp: memCluster_def memList_def memListed_def split: prod.splits Fault.splits)
    show "fst (cl_List memCluster kind ns selector s) = Inr obs \<Longrightarrow> ob \<in> set obs \<Longrightarrow> memView s (objKey ob) = Some ob"
      using memList_view by (auto simp: memCluster_def)
    fix cs now ty and cond :: Condition
    show "\<exists>c'. findCondition (cn_Type cond) (cl_SetCondition memCluster now cs cond) = Some c' \<and> conditionReport c' = conditionReport cond"
      "ty \<noteq> cn_Type cond \<Longrightarrow> findCondition ty (cl_SetCondition memCluster now cs cond) = findCondition ty cs"
      "distinct (map cn_Type cs) \<Longrightarrow> distinct (map cn_Type (cl_SetCondition memCluster now cs cond))"
      using memSetCondition_laws [where c = cond and cs = cs and now = now] by (simp_all add: memCluster_def)
  qed (simp_all add: memCluster_def memNetwork_view)
qed

section \<open>What deletion touches\<close>

text \<open>The network an object belongs to, by its annotations or, without those, by its labels.\<close>

definition ownedByNetwork :: "FabricNetwork \<Rightarrow> ObjectMeta \<Rightarrow> bool" where
  "ownedByNetwork net m \<longleftrightarrow>
     (case fabricNetworkOwnerFromAnnotations m of
        Some owner \<Rightarrow> owner = \<lparr>ow_name = fn_Name net, ow_namespace = fn_Namespace net\<rparr>
      | None \<Rightarrow> fabricNetworkOwnerFromLabels m =
          Some \<lparr>ow_name = sanitizeName (fn_Name net), ow_namespace = sanitizeName (fn_Namespace net)\<rparr>)"

lemma owner_labels:
  "labelOwner (objMeta (ownerObject n ns (orgLabels net org c) a)) =
     \<lparr>ow_name = sanitizeName (fn_Name net), ow_namespace = sanitizeName (fn_Namespace net)\<rparr>"
  by (simp add: ownerObject_def labelOwner_def labelOf_def nilmap_def orgLabels_def baseLabels_def go_get_def label_names)

lemma owner_annotations:
  "annotationOwner (objMeta (ownerObject n ns l (resourceAnnotations net org))) =
     \<lparr>ow_name = fn_Name net, ow_namespace = fn_Namespace net\<rparr>"
  by (simp add: ownerObject_def annotationOwner_def annotationOf_def nilmap_def resourceAnnotations_def go_get_def label_names Let_def)

lemma deleted_owned:
  "hasFabricNetworkOwner ob \<Longrightarrow>
   ensureSameFabricNetworkOwner ob (ownerObject n ns (orgLabels net org c) (resourceAnnotations net org)) = None \<longleftrightarrow>
   ownedByNetwork net (objMeta ob)"
  by (auto simp: hasFabricNetworkOwner_def ensureSameFabricNetworkOwner_def ensureMatchingFabricNetworkOwner_def owner_labels
      owner_annotations ownedByNetwork_def split: option.splits)

lemma keeps_deleteOwned:
  assumes "ownedByNetwork net (objMeta ob) \<Longrightarrow> ioKeeps Q (cl_Delete cl ob)"
  shows "ioKeeps Q (deleteOwnedObject cl ob (ownerObject n ns (orgLabels net org c) (resourceAnnotations net org)))"
proof (cases "hasFabricNetworkOwner ob")
  case True
  then show ?thesis
    using assms deleted_owned [OF True, of n ns net org c]
    by (auto simp: deleteOwnedObject_def split: option.splits intro!: keeps_ignoreNotFound) (simp add: ioKeeps_def)
qed (simp add: deleteOwnedObject_def)

text \<open>The Jobs that may be deleted at a point in time.\<close>

definition cleanable :: "FabricNetwork \<Rightarrow> gotime \<Rightarrow> Job \<Rightarrow> bool" where
  "cleanable net now job \<longleftrightarrow> ownedByNetwork net (job_Meta job) \<and>
     (\<exists>ttl t. succeededJobCleanupTTL net = Some ttl \<and> succeededJobCleanupEligible job \<and> jobSucceeded job \<and>
        job_CompletionTime job = Some t \<and> ttl \<le> now - t)"

lemma keeps_cleanupJobs:
  assumes "succeededJobCleanupTTL net = Some ttl"
    and "\<And>job. OJob job \<in> set jobs \<Longrightarrow> cleanable net now job \<Longrightarrow> ioKeeps Q (cl_Delete cl (OJob job))"
  shows "ioKeeps Q (cleanupJobs cl net org ttl now next jobs)"
  using assms(2)
proof (induction jobs arbitrary: "next")
  case (Cons job jobs)
  show ?case
  proof (cases "jobExpiry ttl now job")
    case (Some r)
    then obtain j t where j: "job = OJob j" "succeededJobCleanupEligible j" "jobSucceeded j" "job_CompletionTime j = Some t"
        "r = ttl - (now - t)"
      by (auto simp: jobExpiry_def split: KObject.splits if_splits option.splits)
    have "ioKeeps Q (cl_Delete cl job)" if "\<not> 0 < r" "ownedByNetwork net (objMeta job)"
      using assms(1) Cons.prems that j by (auto simp: cleanable_def)
    with Some Cons show ?thesis by (auto intro!: ioKeeps_bind keeps_deleteOwned)
  qed (use Cons in simp)
qed simp

text \<open>The Jobs a listing showed while the predicate held.\<close>

definition seenJob :: "('s \<Rightarrow> bool) \<Rightarrow> 's Cluster \<Rightarrow> FabricNetwork \<Rightarrow> Job \<Rightarrow> bool" where
  "seenJob Q cl net job \<longleftrightarrow>
     (\<exists>org \<in> set (sp_Orgs (fn_Spec net)). \<exists>s obs. Q s \<and>
        fst (cl_List cl KJob (orgNamespaceName net org) (fabricNetworkSelector net) s) = Inr obs \<and> OJob job \<in> set obs)"

lemma keeps_cleanupOrgs:
  assumes "succeededJobCleanupTTL net = Some ttl"
    and "\<And>job. seenJob Q cl net job \<Longrightarrow> cleanable net now job \<Longrightarrow> ioKeeps Q (cl_Delete cl (OJob job))"
    and "\<And>ns sel. ioKeeps Q (cl_List cl KJob ns sel)" and "set orgs \<subseteq> set (sp_Orgs (fn_Spec net))"
  shows "ioKeeps Q (cleanupOrgs cl net ttl now next orgs)"
  using assms(4)
proof (induction orgs arbitrary: "next")
  case (Cons org orgs)
  let ?list = "cl_List cl KJob (orgNamespaceName net org) (fabricNetworkSelector net)"
  have "ioKeeps Q (cleanupJobs cl net org ttl now n jobs)" if "fst (?list s) = Inr jobs" "Q s" for n jobs s
  proof (rule keeps_cleanupJobs [OF assms(1)])
    fix job
    assume "OJob job \<in> set jobs"
    then have "seenJob Q cl net job" unfolding seenJob_def using that Cons.prems by auto
    then show "cleanable net now job \<Longrightarrow> ioKeeps Q (cl_Delete cl (OJob job))" by (rule assms(2))
  qed
  moreover have "ioKeeps Q (cleanupOrgs cl net ttl now n orgs)" for n using Cons by simp
  ultimately have body: "ioKeeps Q (ioBind (cleanupJobs cl net org ttl now n jobs) (\<lambda>n'. cleanupOrgs cl net ttl now n' orgs))"
    if "fst (?list s) = Inr jobs" "Q s" for n jobs s
    using that by (blast intro: ioKeeps_bind)
  show ?case unfolding ioKeeps_def cleanupOrgs.simps
  proof (intro allI impI)
    fix s
    assume Q: "Q s"
    show "Q (snd (ioBind ?list (\<lambda>jobs. ioBind (cleanupJobs cl net org ttl now next jobs) (\<lambda>n'. cleanupOrgs cl net ttl now n' orgs)) s))"
      by (rule ioBind_post [OF assms(3) Q]) (use body [OF _ Q] in \<open>auto simp: ioKeeps_def\<close>)
  qed
qed simp

section \<open>Completeness of job cleanup\<close>

lemma cleanupJobs_next:
  assumes "fst (cleanupJobs cl net org ttl now nxt jobs s) = Inr r" and "0 \<le> nxt"
  shows "0 \<le> r \<and> (0 < nxt \<longrightarrow> 0 < r \<and> r \<le> nxt) \<and>
    (\<forall>job \<in> set jobs. \<forall>remaining. jobExpiry ttl now job = Some remaining \<and> 0 < remaining \<longrightarrow> 0 < r \<and> r \<le> remaining)"
  using assms
proof (induction jobs arbitrary: nxt s)
  case (Cons job jobs)
  show ?case
  proof (cases "jobExpiry ttl now job")
    case None
    with Cons.prems have "fst (cleanupJobs cl net org ttl now nxt jobs s) = Inr r" by simp
    from Cons.IH [OF this Cons.prems(2)] None show ?thesis by auto
  next
    case (Some remaining)
    show ?thesis
    proof (cases "0 < remaining")
      case True
      let ?n = "if nxt = 0 \<or> remaining < nxt then remaining else nxt"
      have "fst (cleanupJobs cl net org ttl now ?n jobs s) = Inr r" using Cons.prems Some True by simp
      moreover have n: "0 < ?n" "?n \<le> remaining" "0 < nxt \<Longrightarrow> ?n \<le> nxt" using True Cons.prems(2) by auto
      ultimately have "0 < r \<and> r \<le> ?n \<and> (\<forall>job \<in> set jobs. \<forall>remaining. jobExpiry ttl now job = Some remaining \<and> 0 < remaining \<longrightarrow>
          0 < r \<and> r \<le> remaining)"
        using Cons.IH [of ?n s] by auto
      moreover have "r \<le> remaining" "0 < nxt \<Longrightarrow> r \<le> nxt" using calculation n by linarith+
      ultimately show ?thesis using Some by auto
    next
      case False
      with Cons.prems(1) Some obtain s1 where "fst (cleanupJobs cl net org ttl now nxt jobs s1) = Inr r"
        by (auto simp: ioBind_Inr)
      from Cons.IH [OF this Cons.prems(2)] False Some show ?thesis by auto
    qed
  qed
qed (simp add: ioReturn_def)

definition expiredJob :: "int \<Rightarrow> gotime \<Rightarrow> KObject \<Rightarrow> bool" where
  "expiredJob ttl now ob \<longleftrightarrow> hasFabricNetworkOwner ob \<and> (\<exists>remaining. jobExpiry ttl now ob = Some remaining \<and> remaining \<le> 0)"

lemma mem_deleteOwned:
  assumes "mem_faults s = []" and "deleteOwnedObject memCluster ob owner s = (Inr (), s1)" and "objKind ob = KJob"
  shows "mem_faults s1 = [] \<and> mem_clock s1 = mem_clock s \<and>
    memView s1 k = (if hasFabricNetworkOwner ob \<and> k = objKey ob then None else memView s k)"
proof -
  have d: "memDelete ob s = (case memView s (objKey ob) of None \<Rightarrow> (Inl NotFound, s) | Some _ \<Rightarrow> (Inr (), memDrop ob s))"
    using assms(1) by (simp add: memDelete_def nextFault_def)
  have keeps: "mem_faults (memDrop ob s) = mem_faults s" "mem_clock (memDrop ob s) = mem_clock s" by (simp_all add: memDrop_def)
  from assms show ?thesis
    by (auto simp: deleteOwnedObject_def ioReturn_def ignoreNotFound_def memCluster_def d memView_drop keeps
        split: if_splits option.splits)
qed

lemma jobExpiry_kind: "jobExpiry ttl now ob = Some r \<Longrightarrow> objKind ob = KJob"
  by (simp add: jobExpiry_def split: KObject.splits)

lemma mem_cleanupJobs:
  assumes "mem_faults s = []" and "cleanupJobs memCluster net org ttl now nxt jobs s = (Inr r, s')"
  shows "mem_faults s' = [] \<and>
    memView s' k = (if \<exists>job \<in> set jobs. objKey job = k \<and> expiredJob ttl now job then None else memView s k)"
  using assms
proof (induction jobs arbitrary: nxt s)
  case (Cons job jobs)
  show ?case
  proof (cases "\<exists>remaining. jobExpiry ttl now job = Some remaining \<and> remaining \<le> 0")
    case True
    then obtain remaining where e: "jobExpiry ttl now job = Some remaining" "\<not> 0 < remaining" by auto
    then obtain s1 where s1: "deleteOwnedObject memCluster job (ownerObject (mt_Name (objMeta job)) (orgNamespaceName net org)
          (orgLabels net org ''network'') (resourceAnnotations net org)) s = (Inr (), s1)"
        "cleanupJobs memCluster net org ttl now nxt jobs s1 = (Inr r, s')"
      using Cons.prems(2) by (auto simp: ioBind_def split: prod.splits sum.splits)
    note del = mem_deleteOwned [OF Cons.prems(1) s1(1) jobExpiry_kind [OF e(1)]]
    from Cons.IH [OF _ s1(2)] del e(1,2) show ?thesis by (auto simp: expiredJob_def)
  next
    case False
    then obtain n where "cleanupJobs memCluster net org ttl now n jobs s = (Inr r, s')"
      using Cons.prems(2) by (auto split: option.splits)
    from Cons.IH [OF Cons.prems(1) this] False show ?thesis by (auto simp: expiredJob_def)
  qed
qed (simp add: ioReturn_def)

lemma memListed_iff:
  assumes "memView s k = Some ob" and "objKind ob = kind" and "mt_Namespace (objMeta ob) = ns" and "selected selector (objMeta ob)"
  shows "ob \<in> set (memListed kind ns selector s)"
proof -
  have "map_of (mem_objects s) k = Some ob" using assms(1) by (auto simp: memView_def split: option.splits if_splits)
  then have "(k, ob) \<in> set (mem_objects s)" by (rule map_of_SomeD)
  with assms show ?thesis by (force simp: memListed_def)
qed

text \<open>Each listed Job is either expired and then gone, or still there and counted in the requeue time.\<close>

definition onlyExpiredGone :: "int \<Rightarrow> gotime \<Rightarrow> MemStore \<Rightarrow> MemStore \<Rightarrow> bool" where
  "onlyExpiredGone ttl now s s' \<longleftrightarrow>
     (\<forall>k. memView s' k = memView s k \<or> memView s' k = None \<and> (\<exists>ob. memView s k = Some ob \<and> expiredJob ttl now ob))"

definition jobSwept :: "FabricNetwork \<Rightarrow> int \<Rightarrow> gotime \<Rightarrow> int \<Rightarrow> MemStore \<Rightarrow> MemStore \<Rightarrow> Org \<Rightarrow> objkey \<Rightarrow> bool" where
  "jobSwept net ttl now r s s' org k \<longleftrightarrow>
     (\<forall>ob. memView s k = Some ob \<and> objKind ob = KJob \<and> mt_Namespace (objMeta ob) = orgNamespaceName net org \<and>
        selected (fabricNetworkSelector net) (objMeta ob) \<longrightarrow>
        (expiredJob ttl now ob \<longrightarrow> memView s' k = None) \<and>
        (\<forall>remaining. jobExpiry ttl now ob = Some remaining \<and> 0 < remaining \<longrightarrow> 0 < r \<and> r \<le> remaining))"

lemma onlyExpiredGone_trans: "onlyExpiredGone ttl now s s1 \<Longrightarrow> onlyExpiredGone ttl now s1 s' \<Longrightarrow> onlyExpiredGone ttl now s s'"
  unfolding onlyExpiredGone_def by metis

lemma jobSwept_later:
  assumes "onlyExpiredGone ttl now s s1" and "onlyExpiredGone ttl now s1 s'" and "jobSwept net ttl now r s1 s' org k"
  shows "jobSwept net ttl now r s s' org k"
proof -
  have "memView s1 k = memView s k \<or> memView s1 k = None \<and> (\<exists>ob. memView s k = Some ob \<and> expiredJob ttl now ob)"
    "memView s1 k = None \<Longrightarrow> memView s' k = None"
    using assms(1,2) unfolding onlyExpiredGone_def by metis+
  with assms(3) show ?thesis by (auto simp: jobSwept_def expiredJob_def)
qed

lemma mem_cleanupOrgs:
  assumes "mem_faults s = []" and "cleanupOrgs memCluster net ttl now nxt orgs s = (Inr r, s')" and "0 \<le> nxt"
  shows "mem_faults s' = [] \<and> 0 \<le> r \<and> (0 < nxt \<longrightarrow> 0 < r \<and> r \<le> nxt) \<and> onlyExpiredGone ttl now s s' \<and>
    (\<forall>org \<in> set orgs. \<forall>k. jobSwept net ttl now r s s' org k)"
  using assms
proof (induction orgs arbitrary: nxt s)
  case (Cons org orgs)
  let ?jobs = "memListed KJob (orgNamespaceName net org) (fabricNetworkSelector net) s"
  from Cons.prems(1,2) obtain n1 s1 where
    c: "cleanupJobs memCluster net org ttl now nxt ?jobs s = (Inr n1, s1)" "cleanupOrgs memCluster net ttl now n1 orgs s1 = (Inr r, s')"
    by (auto simp: ioBind_def memCluster_def memList_def nextFault_def split: prod.splits sum.splits)
  note jobs = mem_cleanupJobs [OF Cons.prems(1) c(1)]
  have n1: "0 \<le> n1 \<and> (0 < nxt \<longrightarrow> 0 < n1 \<and> n1 \<le> nxt) \<and>
      (\<forall>job \<in> set ?jobs. \<forall>remaining. jobExpiry ttl now job = Some remaining \<and> 0 < remaining \<longrightarrow> 0 < n1 \<and> n1 \<le> remaining)"
    by (rule cleanupJobs_next [of memCluster net org ttl now nxt ?jobs s]) (use c(1) Cons.prems(3) in simp_all)
  have IH: "mem_faults s' = [] \<and> 0 \<le> r \<and> (0 < n1 \<longrightarrow> 0 < r \<and> r \<le> n1) \<and> onlyExpiredGone ttl now s1 s' \<and>
      (\<forall>org \<in> set orgs. \<forall>k. jobSwept net ttl now r s1 s' org k)"
    using Cons.IH [OF _ c(2)] jobs n1 by blast
  have step: "onlyExpiredGone ttl now s s1"
    unfolding onlyExpiredGone_def using jobs memListed_view by metis
  have "jobSwept net ttl now r s s' org k" for k
    unfolding jobSwept_def
  proof (intro allI impI)
    fix ob
    assume ob: "memView s k = Some ob \<and> objKind ob = KJob \<and> mt_Namespace (objMeta ob) = orgNamespaceName net org \<and>
      selected (fabricNetworkSelector net) (objMeta ob)"
    then have listed: "ob \<in> set ?jobs" by (blast intro: memListed_iff)
    have key: "objKey ob = k" using ob by (auto simp: memView_def split: option.splits if_splits)
    have "memView s' k = None" if "expiredJob ttl now ob"
      using jobs [of k] listed key that IH unfolding onlyExpiredGone_def by metis
    with n1 listed IH show "(expiredJob ttl now ob \<longrightarrow> memView s' k = None) \<and>
        (\<forall>remaining. jobExpiry ttl now ob = Some remaining \<and> 0 < remaining \<longrightarrow> 0 < r \<and> r \<le> remaining)"
      by fastforce
  qed
  with IH n1 step show ?case by (auto intro: onlyExpiredGone_trans jobSwept_later)
qed (simp add: ioReturn_def onlyExpiredGone_def)

lemma owned_has: "ownedByNetwork net (objMeta ob) \<Longrightarrow> hasFabricNetworkOwner ob"
  by (auto simp: ownedByNetwork_def hasFabricNetworkOwner_def split: option.splits)

section \<open>Properties\<close>

text \<open>
  Claim C19. Job cleanup deletes nothing but Jobs it has listed in the namespaces of this network's
  organizations that belong to this network, are marked for cleanup, have succeeded, and completed
  at least the configured time before the clock reading of the run: every predicate on the state
  that survives listing Jobs and deleting such Jobs survives the cleanup, on every error path too.
  Without a configured time it does nothing at all.
\<close>

theorem job_cleanup_confined:
  assumes "\<And>ns selector. ioKeeps Q (cl_List cl KJob ns selector)"
    and "\<And>job ttl t. seenJob Q cl net job \<Longrightarrow> succeededJobCleanupTTL net = Some ttl \<Longrightarrow> ownedByNetwork net (job_Meta job) \<Longrightarrow>
          annotationOf (job_Meta job) annotationSucceededJobCleanup = ''true'' \<Longrightarrow> jobSucceeded job \<Longrightarrow>
          job_CompletionTime job = Some t \<Longrightarrow> ttl \<le> fst (k_Now (cl_Kube cl) s) - t \<Longrightarrow> ioKeeps Q (cl_Delete cl (OJob job))"
    and "Q (snd (k_Now (cl_Kube cl) s))"
  shows "if succeededJobCleanupTTL net = None then cleanupSucceededJobs cl net s = (Inr 0, s)
         else Q (snd (cleanupSucceededJobs cl net s))"
proof (cases "succeededJobCleanupTTL net")
  case None
  then show ?thesis by (simp add: cleanupSucceededJobs_def ioReturn_def)
next
  case (Some ttl)
  let ?now = "fst (k_Now (cl_Kube cl) s)"
  have del: "ioKeeps Q (cl_Delete cl (OJob job))" if "seenJob Q cl net job" "cleanable net ?now job" for job
    using assms(2) that by (auto simp: cleanable_def succeededJobCleanupEligible_def)
  have "ioKeeps Q (cleanupOrgs cl net ttl ?now 0 (sp_Orgs (fn_Spec net)))"
    using keeps_cleanupOrgs [OF Some del assms(1)] by blast
  with assms(3) Some show ?thesis
    by (auto simp: cleanupSucceededJobs_def ioBind_def ioNow_def ioKeeps_def split: prod.splits)
qed

definition cleanupNetwork :: FabricNetwork where
  "cleanupNetwork = tinyNetwork\<lparr>fn_Spec := (fn_Spec tinyNetwork)\<lparr>
     sp_Global := (sp_Global (fn_Spec tinyNetwork))\<lparr>gl_Jobs := Some \<lparr>jobs_SucceededHistoryTTLSeconds = Some 60\<rparr>\<rparr>,
     sp_Orgs := [tinyOrg]\<rparr>\<rparr>"

definition doneJob :: "string \<Rightarrow> (string, string) gomap \<Rightarrow> gotime \<Rightarrow> Job" where
  "doneJob name annotations t = \<lparr>job_Meta = \<lparr>mt_Name = name, mt_Namespace = orgNamespaceName cleanupNetwork tinyOrg,
       mt_Labels = Some (orgLabels cleanupNetwork tinyOrg ''admin''), mt_Annotations = Some annotations\<rparr>,
     job_BackoffLimit = 4, job_PodLabels = [], job_PodAnnotations = [], job_ServiceAccount = [], job_RestartPolicy = ''Never'',
     job_Volumes = [], job_InitContainers = [], job_Containers = [], job_Conditions = [(''Complete'', ConditionTrue)],
     job_Succeeded = 1, job_CompletionTime = Some t\<rparr>"

definition cleanupStore :: MemStore where
  "cleanupStore = (storeOf [OJob (doneJob ''kept'' (resourceAnnotations cleanupNetwork tinyOrg) 0),
     OJob (doneJob ''old'' (succeededJobCleanupAnnotations (resourceAnnotations cleanupNetwork tinyOrg)) 0),
     OJob (doneJob ''fresh'' (succeededJobCleanupAnnotations (resourceAnnotations cleanupNetwork tinyOrg)) (50 * second))])
     \<lparr>mem_clock := 70 * second\<rparr>"

theorem job_cleanup_confined_witness:
  "memView (snd (cleanupSucceededJobs memCluster cleanupNetwork cleanupStore))
     (KJob, orgNamespaceName cleanupNetwork tinyOrg, ''kept'') =
   Some (OJob (doneJob ''kept'' (resourceAnnotations cleanupNetwork tinyOrg) 0))"
proof -
  let ?job = "doneJob ''kept'' (resourceAnnotations cleanupNetwork tinyOrg) 0"
  let ?k = "(KJob, orgNamespaceName cleanupNetwork tinyOrg, ''kept'')"
  let ?Q = "\<lambda>s. memView s ?k = Some (OJob ?job)"
  have unmarked: "annotationOf (job_Meta ?job) annotationSucceededJobCleanup \<noteq> ''true''" by code_simp
  have "if succeededJobCleanupTTL cleanupNetwork = None then cleanupSucceededJobs memCluster cleanupNetwork cleanupStore = (Inr 0, cleanupStore)
      else ?Q (snd (cleanupSucceededJobs memCluster cleanupNetwork cleanupStore))"
  proof (rule job_cleanup_confined)
    show "ioKeeps ?Q (cl_List memCluster KJob ns selector)" for ns selector
      by (simp add: ioKeeps_def memCluster_def memNetwork_view)
    fix job ttl t
    assume seen: "seenJob ?Q memCluster cleanupNetwork job" and mark: "annotationOf (job_Meta job) annotationSucceededJobCleanup = ''true''"
    from seen obtain s where s: "?Q s" "memView s (objKey (OJob job)) = Some (OJob job)"
      by (auto simp: seenJob_def memCluster_def dest: memList_view)
    then have other: "?k \<noteq> objKey (OJob job)" using mark unmarked by auto
    have "memView (snd (memDelete (OJob job) x)) ?k = memView x ?k" for x
      using memDelete_view [of "OJob job" x ?k] other by (auto simp: memView_drop)
    then show "ioKeeps ?Q (cl_Delete memCluster (OJob job))" by (simp add: ioKeeps_def memCluster_def)
  next
    have "memView cleanupStore ?k = Some (OJob ?job)" by code_simp
    then show "?Q (snd (k_Now (cl_Kube memCluster) cleanupStore))" by (simp add: memCluster_def mem_now)
  qed
  then show ?thesis by (simp add: succeededJobCleanupTTL_def cleanupNetwork_def)
qed

text \<open>
  Claim C20. On an error-free API server, cleanup leaves no Job behind that it is responsible for:
  when it returns, a Job of the network (in the namespace of one of its organizations, with the
  network's labels) that is marked, succeeded and old enough is gone, and one that is not yet old
  enough is revisited in time, since the requeue delay returned is positive and not longer than the
  time that Job has left.
\<close>

theorem job_cleanup_complete:
  assumes "mem_faults s = []" and "fst (cleanupSucceededJobs memCluster net s) = Inr requeue"
    and "succeededJobCleanupTTL net = Some ttl" and "org \<in> set (sp_Orgs (fn_Spec net))"
    and "memView s (KJob, orgNamespaceName net org, n) = Some (OJob job)" and "selected (fabricNetworkSelector net) (job_Meta job)"
    and "ownedByNetwork net (job_Meta job)" and "annotationOf (job_Meta job) annotationSucceededJobCleanup = ''true''"
    and "jobSucceeded job" and "job_CompletionTime job = Some t"
  shows "if ttl \<le> mem_clock s - t
         then memView (snd (cleanupSucceededJobs memCluster net s)) (KJob, orgNamespaceName net org, n) = None
         else 0 < requeue \<and> requeue \<le> ttl - (mem_clock s - t)"
proof -
  let ?k = "(KJob, orgNamespaceName net org, n)" and ?s' = "snd (cleanupSucceededJobs memCluster net s)"
  have now: "ioNow memKube s = (Inr (mem_clock s), s)" by (simp add: ioNow_def mem_now)
  have "cleanupOrgs memCluster net ttl (mem_clock s) 0 (sp_Orgs (fn_Spec net)) s = (Inr requeue, ?s')"
  proof -
    have "cleanupSucceededJobs memCluster net s = cleanupOrgs memCluster net ttl (mem_clock s) 0 (sp_Orgs (fn_Spec net)) s"
      using assms(3) by (simp add: cleanupSucceededJobs_def ioBind_def now memCluster_def [THEN arg_cong, of cl_Kube, simplified])
    with assms(2) show ?thesis by (metis prod.collapse)
  qed
  from mem_cleanupOrgs [OF assms(1) this] assms(4) have swept: "jobSwept net ttl (mem_clock s) requeue s ?s' org ?k" by auto
  have e: "jobExpiry ttl (mem_clock s) (OJob job) = Some (ttl - (mem_clock s - t))"
    using assms(8-10) by (simp add: jobExpiry_def succeededJobCleanupEligible_def)
  have ns: "mt_Namespace (job_Meta job) = orgNamespaceName net org"
    using assms(5) by (auto simp: memView_def objKey_def split: option.splits if_splits)
  have "expiredJob ttl (mem_clock s) (OJob job)" if "ttl \<le> mem_clock s - t"
    using that e owned_has [of net "OJob job"] assms(7) by (simp add: expiredJob_def)
  with swept assms(5,6) e ns show ?thesis by (simp add: jobSwept_def)
qed

theorem job_cleanup_complete_witness:
  "memView (snd (cleanupSucceededJobs memCluster cleanupNetwork cleanupStore))
     (KJob, orgNamespaceName cleanupNetwork tinyOrg, ''old'') = None"
proof -
  let ?job = "doneJob ''old'' (succeededJobCleanupAnnotations (resourceAnnotations cleanupNetwork tinyOrg)) 0"
  have run: "fst (cleanupSucceededJobs memCluster cleanupNetwork cleanupStore) = Inr (40 * second)" by code_simp
  have ttl: "mem_faults cleanupStore = []" "succeededJobCleanupTTL cleanupNetwork = Some (60 * second)"
      "tinyOrg \<in> set (sp_Orgs (fn_Spec cleanupNetwork))" "60 * second \<le> mem_clock cleanupStore - 0"
    by (simp_all add: cleanupStore_def storeOf_def cleanupNetwork_def succeededJobCleanupTTL_def second_def)
  have job: "memView cleanupStore (KJob, orgNamespaceName cleanupNetwork tinyOrg, ''old'') = Some (OJob ?job)"
      "selected (fabricNetworkSelector cleanupNetwork) (job_Meta ?job)" "ownedByNetwork cleanupNetwork (job_Meta ?job)"
      "annotationOf (job_Meta ?job) annotationSucceededJobCleanup = ''true''" "jobSucceeded ?job" "job_CompletionTime ?job = Some 0"
    by code_simp+
  from job_cleanup_complete [OF ttl(1) run ttl(2,3) job] ttl(4) show ?thesis by simp
qed

end
