(* ===== verification/Certificate_Lifecycle.thy ===== *)
theory Certificate_Lifecycle
  imports Registrar_Rotation "HOL-Library.Multiset"
begin

text \<open>
  The certificate lifecycle, \<^verbatim>\<open>fabricnetwork_certificate_lifecycle.go\<close>: the inventory of the managed
  certificates of an organization, the renewal of those that expire soon by one Job per workload,
  the condition that summarises certificates and registrar rotation, and the revision of a
  workload's identity material. The properties characterise the reported states, show that
  renewal requests partition the certificates that need one, that renewing never writes a Secret,
  and that the condition reports the most urgent problem.
\<close>

section \<open>Data\<close>

definition defaultCertificateRenewBefore :: gotime where
  "defaultCertificateRenewBefore = 30 * 24 * 3600 * second"

definition identityKindRenewal :: string where "identityKindRenewal = ''identity-renewal''"
definition certificateRenewalModeAdmin :: string where "certificateRenewalModeAdmin = ''admin''"
definition certificateRenewalModeWorkload :: string where "certificateRenewalModeWorkload = ''workload''"

record managedCertificateRef =
  mr_namespace :: string
  mr_secretName :: string
  mr_secretKind :: string
  mr_key :: string
  mr_component :: string
  mr_workloadName :: string
  mr_renewable :: bool
  mr_renewalMode :: string
  mr_csrHosts :: "string list"

record certificateInventoryItem =
  ci_status :: CertificateStatus
  ci_ref :: managedCertificateRef
  ci_raw :: bytes

record certificateRenewalRequest =
  cq_workloadName :: string
  cq_component :: string
  cq_mode :: string
  cq_csrHosts :: "string list"
  cq_revision :: string
  cq_jobName :: string
  cq_indices :: "nat list"
  cq_seed :: bytes

section \<open>The managed certificates\<close>

definition appendMSPCertificateRefs ::
  "managedCertificateRef list \<Rightarrow> string \<Rightarrow> string \<Rightarrow> string \<Rightarrow> string \<Rightarrow> bool \<Rightarrow> string \<Rightarrow> string list \<Rightarrow> managedCertificateRef list" where
  "appendMSPCertificateRefs refs namespace workload component secretKind tlsEnabled renewalMode csrHosts =
     (let secretName = identitySecretName workload secretKindMSP;
          ref = (\<lambda>key renewable. \<lparr>mr_namespace = namespace, mr_secretName = secretName, mr_secretKind = secretKind, mr_key = key,
             mr_component = component, mr_workloadName = workload, mr_renewable = renewable,
             mr_renewalMode = renewalMode, mr_csrHosts = csrHosts\<rparr>)
      in refs @ [ref ''cacert.pem'' False, ref ''signcert.pem'' True] @ (if tlsEnabled then [ref ''tlscacert.pem'' False] else []))"

definition appendTLSCertificateRefs ::
  "managedCertificateRef list \<Rightarrow> string \<Rightarrow> string \<Rightarrow> string \<Rightarrow> string list \<Rightarrow> managedCertificateRef list" where
  "appendTLSCertificateRefs refs namespace workload component csrHosts =
     (let secretName = identitySecretName workload secretKindTLS;
          ref = (\<lambda>key renewable. \<lparr>mr_namespace = namespace, mr_secretName = secretName, mr_secretKind = secretKindTLS, mr_key = key,
             mr_component = component, mr_workloadName = workload, mr_renewable = renewable,
             mr_renewalMode = certificateRenewalModeWorkload, mr_csrHosts = csrHosts\<rparr>)
      in refs @ [ref ''ca.crt'' False, ref ''server.crt'' True])"

text \<open>The refs of the administrator's TLS Secret, and those one orderer or peer adds.\<close>

definition adminTLSCertificateRefs :: "string \<Rightarrow> string \<Rightarrow> managedCertificateRef list" where
  "adminTLSCertificateRefs namespace adminName =
     (let ref = (\<lambda>key renewable. \<lparr>mr_namespace = namespace, mr_secretName = identitySecretName adminName secretKindTLS,
             mr_secretKind = secretKindAdminTLS, mr_key = key, mr_component = ''admin'', mr_workloadName = adminName,
             mr_renewable = renewable, mr_renewalMode = certificateRenewalModeAdmin, mr_csrHosts = []\<rparr>)
      in [ref ''ca.crt'' False, ref ''client.crt'' True])"

definition workloadCertificateRefs ::
  "bool \<Rightarrow> string \<Rightarrow> string \<Rightarrow> string list \<Rightarrow> managedCertificateRef list \<Rightarrow> string \<Rightarrow> managedCertificateRef list" where
  "workloadCertificateRefs tlsEnabled namespace component csrHosts refs name =
     (let refs1 = appendMSPCertificateRefs refs namespace name component secretKindMSP tlsEnabled certificateRenewalModeWorkload csrHosts
      in if tlsEnabled then appendTLSCertificateRefs refs1 namespace name component csrHosts else refs1)"

definition managedIdentityCertificateRefs :: "FabricNetwork \<Rightarrow> Org \<Rightarrow> string \<Rightarrow> managedCertificateRef list" where
  "managedIdentityCertificateRefs net org namespace =
     (let tlsEnabled = tlsOn net; adminName = adminIdentityName org;
          refs0 = appendMSPCertificateRefs [] namespace adminName ''admin'' secretKindAdminMSP tlsEnabled certificateRenewalModeAdmin [];
          refs1 = (if tlsEnabled then refs0 @ adminTLSCertificateRefs namespace adminName else refs0);
          refs2 = foldl (\<lambda>refs (grp, name).
            workloadCertificateRefs tlsEnabled namespace ''orderer'' (ordererWorkloadCSRHosts grp name namespace) refs name)
            refs1 (ordererWorkloads org)
      in foldl (\<lambda>refs name.
            workloadCertificateRefs tlsEnabled namespace ''peer'' (peerWorkloadCSRHosts org name namespace) refs name)
            refs2 (peerWorkloads org))"

section \<open>Inventory\<close>

definition certificateState :: "gotime \<Rightarrow> gotime \<Rightarrow> gotime \<Rightarrow> bool \<Rightarrow> CertificateState \<times> string" where
  "certificateState now notBefore notAfter renewable =
     (if now < notBefore then (CertificateStateInvalid, ''Certificate is not valid yet'')
      else if \<not> now < notAfter then
        (CertificateStateExpired,
         if renewable then ''Certificate expired and will be renewed by Fabric CA''
         else ''CA root material is expired and requires CA rollover or refreshed enrollment output'')
      else if \<not> now + defaultCertificateRenewBefore < notAfter then
        (CertificateStateRenewalDue,
         if renewable then ''Certificate is inside the renewal window''
         else ''CA root material is inside the renewal window'')
      else (CertificateStateValid, []))"

definition certificateStatusName :: "managedCertificateRef \<Rightarrow> string" where
  "certificateStatusName ref = mr_secretName ref @ ''/'' @ mr_key ref"

definition missingStatus :: "managedCertificateRef \<Rightarrow> CertificateStatus" where
  "missingStatus ref = \<lparr>cs_Name = certificateStatusName ref, cs_Namespace = mr_namespace ref, cs_SecretName = mr_secretName ref,
     cs_SecretKind = mr_secretKind ref, cs_Key = mr_key ref, cs_Component = mr_component ref,
     cs_WorkloadName = mr_workloadName ref, cs_Renewable = mr_renewable ref, cs_State = CertificateStateMissing,
     cs_Subject = [], cs_Issuer = [], cs_NotBefore = None, cs_NotAfter = None, cs_RenewalTime = None,
     cs_RenewalJobName = [], cs_Message = []\<rparr>"

text \<open>One turn of the loop, after the read of the Secret.\<close>

definition inventoryItem :: "Crypto \<Rightarrow> gotime \<Rightarrow> managedCertificateRef \<Rightarrow> Secret option \<Rightarrow> certificateInventoryItem" where
  "inventoryItem cr now ref found =
     (let status = missingStatus ref;
          report = (\<lambda>st raw. \<lparr>ci_status = st, ci_ref = ref, ci_raw = raw\<rparr>)
      in case found of
           None \<Rightarrow> report (status\<lparr>cs_Message := ''Secret not found''\<rparr>) []
         | Some secret \<Rightarrow>
             (let kind = labelOf (sec_Meta secret) labelIdentityKind
              in if labelOf (sec_Meta secret) labelIdentitySource \<noteq> identitySourceFabricCA then
                   report (status\<lparr>cs_State := CertificateStateInvalid, cs_Message := ''Secret is not Fabric CA-managed''\<rparr>) []
                 else if kind \<noteq> [] \<and> kind \<noteq> mr_secretKind ref then
                   report (status\<lparr>cs_State := CertificateStateInvalid,
                     cs_Message := ''Secret has identity kind '' @ goquote kind @ '', expected '' @ goquote (mr_secretKind ref)\<rparr>) []
                 else (case map_of (sec_Data secret) (mr_key ref) of
                         None \<Rightarrow> report (status\<lparr>cs_Message := ''Certificate key not found''\<rparr>) []
                       | Some b \<Rightarrow>
                           (case parsePEMCertificate cr b of
                              Inl err \<Rightarrow> report (status\<lparr>cs_State := CertificateStateInvalid, cs_Message := err\<rparr>) []
                            | Inr cert \<Rightarrow>
                                (let (state, message) = certificateState now (x_NotBefore cert) (x_NotAfter cert) (mr_renewable ref)
                                 in report (status\<lparr>cs_Subject := x_Subject cert, cs_Issuer := x_Issuer cert,
                                      cs_NotBefore := Some (x_NotBefore cert), cs_NotAfter := Some (x_NotAfter cert),
                                      cs_RenewalTime := Some (x_NotAfter cert - defaultCertificateRenewBefore),
                                      cs_State := state, cs_Message := message\<rparr>) (x_Raw cert))))))"

fun inventoryLoop :: "Crypto \<Rightarrow> 's Kube \<Rightarrow> gotime \<Rightarrow> managedCertificateRef list \<Rightarrow> ('s, certificateInventoryItem list) io" where
  "inventoryLoop cr api now [] = ioReturn []"
| "inventoryLoop cr api now (ref # refs) =
     ioBind (getSecret api (mr_namespace ref) (mr_secretName ref)) (\<lambda>found.
     ioBind (inventoryLoop cr api now refs) (\<lambda>items. ioReturn (inventoryItem cr now ref found # items)))"

definition identityCertificateInventory ::
  "Crypto \<Rightarrow> 's Kube \<Rightarrow> FabricNetwork \<Rightarrow> Org \<Rightarrow> string \<Rightarrow> gotime \<Rightarrow> ('s, certificateInventoryItem list) io" where
  "identityCertificateInventory cr api net org namespace now =
     inventoryLoop cr api now (managedIdentityCertificateRefs net org namespace)"

definition certificateStatuses :: "certificateInventoryItem list \<Rightarrow> CertificateStatus list" where
  "certificateStatuses items = map ci_status items"

section \<open>Renewal requests\<close>

fun certificateStateNeedsRenewal :: "CertificateState \<Rightarrow> bool" where
  "certificateStateNeedsRenewal CertificateStateExpired = True"
| "certificateStateNeedsRenewal CertificateStateRenewalDue = True"
| "certificateStateNeedsRenewal _ = False"

definition certificateStatusesNeedRenewal :: "CertificateStatus list \<Rightarrow> bool" where
  "certificateStatusesNeedRenewal statuses =
     list_ex (\<lambda>st. cs_State st \<in> {CertificateStateExpired, CertificateStateRenewalDue, CertificateStateRenewing,
       CertificateStateRenewalFailed}) statuses"

definition certificateRenewalJobName :: "string \<Rightarrow> string \<Rightarrow> string" where
  "certificateRenewalJobName workload revision = sanitizeName (workload @ ''-renew-'' @ revision)"

text \<open>The requests are collected per workload, with the positions of their certificates; the
  revision is computed once the seed is complete.\<close>

definition openRequest :: "certificateInventoryItem \<Rightarrow> certificateRenewalRequest" where
  "openRequest item = \<lparr>cq_workloadName = mr_workloadName (ci_ref item), cq_component = mr_component (ci_ref item),
     cq_mode = mr_renewalMode (ci_ref item), cq_csrHosts = mr_csrHosts (ci_ref item), cq_revision = [], cq_jobName = [],
     cq_indices = [], cq_seed = []\<rparr>"

definition addToRequest :: "nat \<Rightarrow> certificateInventoryItem \<Rightarrow> certificateRenewalRequest \<Rightarrow> certificateRenewalRequest" where
  "addToRequest i item request = request\<lparr>cq_indices := cq_indices request @ [i],
     cq_seed := cq_seed request @ cs_SecretName (ci_status item) @ ''/'' @ cs_Key (ci_status item) @ ci_raw item\<rparr>"

definition itemNeedsRenewal :: "certificateInventoryItem \<Rightarrow> bool" where
  "itemNeedsRenewal item \<longleftrightarrow> mr_renewable (ci_ref item) \<and> certificateStateNeedsRenewal (cs_State (ci_status item))"

fun collectRequests ::
  "nat \<Rightarrow> certificateInventoryItem list \<Rightarrow> (string, certificateRenewalRequest) gomap \<Rightarrow> (string, certificateRenewalRequest) gomap" where
  "collectRequests i [] requests = requests"
| "collectRequests i (item # items) requests =
     (if \<not> itemNeedsRenewal item then collectRequests (Suc i) items requests
      else (let key = mr_workloadName (ci_ref item);
                request = (case map_of requests key of None \<Rightarrow> openRequest item | Some r \<Rightarrow> r)
            in collectRequests (Suc i) items (go_set requests key (addToRequest i item request))))"

definition closeRequest :: "Crypto \<Rightarrow> certificateRenewalRequest \<Rightarrow> certificateRenewalRequest" where
  "closeRequest cr request =
     (let revision = shortDigest cr (cq_seed request)
      in request\<lparr>cq_revision := revision, cq_jobName := certificateRenewalJobName (cq_workloadName request) revision\<rparr>)"

definition certificateRenewalRequests :: "Crypto \<Rightarrow> certificateInventoryItem list \<Rightarrow> certificateRenewalRequest list" where
  "certificateRenewalRequests cr items =
     sort_key cq_jobName (map (closeRequest cr \<circ> snd) (collectRequests 0 items []))"

section \<open>Renewal Jobs\<close>

definition retagCertificateRenewalJob :: "Job \<Rightarrow> Job" where
  "retagCertificateRenewalJob job =
     job\<lparr>job_Meta := (job_Meta job)\<lparr>mt_Labels := Some (go_set (nilmap (mt_Labels (job_Meta job))) labelIdentityKind identityKindRenewal)\<rparr>,
         job_PodLabels := go_set (job_PodLabels job) labelIdentityKind identityKindRenewal\<rparr>"

definition buildCertificateRenewalJob :: "FabricNetwork \<Rightarrow> Org \<Rightarrow> string \<Rightarrow> certificateRenewalRequest \<Rightarrow> Job" where
  "buildCertificateRenewalJob net org namespace request =
     (let job = (if cq_mode request = certificateRenewalModeAdmin then buildAdminEnrollmentJob net org namespace
                 else buildWorkloadEnrollmentJob net org namespace (cq_workloadName request) (cq_component request) (cq_csrHosts request))
      in retagCertificateRenewalJob (job\<lparr>job_Meta := (job_Meta job)\<lparr>mt_Name := cq_jobName request\<rparr>\<rparr>))"

definition renewalJobOutcome :: "Job option \<Rightarrow> CertificateState \<times> string" where
  "renewalJobOutcome found =
     (case found of
        None \<Rightarrow> (CertificateStateRenewing, ''Renewal job is pending'')
      | Some job \<Rightarrow>
          if jobFailed job then (CertificateStateRenewalFailed, ''Renewal job failed; last-known-good Secret data was retained'')
          else if jobSucceeded job then (CertificateStateRenewalDue, ''Renewal job completed; waiting for updated Secret data'')
          else (CertificateStateRenewing, ''Renewal job is running''))"

definition certificateRenewalJobState :: "'s Kube \<Rightarrow> string \<Rightarrow> string \<Rightarrow> ('s, CertificateState \<times> string) io" where
  "certificateRenewalJobState api namespace jobName =
     ioBind (getJob api namespace jobName) (\<lambda>found. ioReturn (renewalJobOutcome found))"

definition setCertificateRenewalJobStatus ::
  "CertificateStatus list \<Rightarrow> certificateRenewalRequest \<Rightarrow> CertificateState \<Rightarrow> string \<Rightarrow> CertificateStatus list" where
  "setCertificateRenewalJobStatus statuses request state message =
     foldl (\<lambda>sts index. sts[index := (sts ! index)\<lparr>cs_RenewalJobName := cq_jobName request, cs_State := state, cs_Message := message\<rparr>])
       statuses (cq_indices request)"

fun renewalLoop ::
  "'s Kube \<Rightarrow> FabricNetwork \<Rightarrow> Org \<Rightarrow> string \<Rightarrow> certificateRenewalRequest list \<Rightarrow> CertificateStatus list \<Rightarrow> string list \<Rightarrow>
     ('s, CertificateStatus list \<times> string list) io" where
  "renewalLoop api net org namespace [] statuses messages = ioReturn (statuses, messages)"
| "renewalLoop api net org namespace (request # requests) statuses messages =
     ioBind (ensureJob api (buildCertificateRenewalJob net org namespace request)) (\<lambda>_.
     ioBind (certificateRenewalJobState api namespace (cq_jobName request)) (\<lambda>(state, message).
       renewalLoop api net org namespace requests (setCertificateRenewalJobStatus statuses request state message)
         (if state = CertificateStateRenewalFailed then messages @ [cq_jobName request @ '': '' @ message] else messages)))"

definition reconcileCertificateLifecycle ::
  "Crypto \<Rightarrow> 's Kube \<Rightarrow> FabricNetwork \<Rightarrow> Org \<Rightarrow> string \<Rightarrow> bool \<Rightarrow> bool \<Rightarrow> bool \<Rightarrow>
     ('s, CertificateStatus list \<times> bool \<times> string) io" where
  "reconcileCertificateLifecycle cr api net org namespace caReady identityReady registrarRotationBlocksWork =
     ioBind (ioNow api) (\<lambda>now.
     ioBind (identityCertificateInventory cr api net org namespace now) (\<lambda>items.
       (let statuses = certificateStatuses items; requests = certificateRenewalRequests cr items;
            renewalRequired = certificateStatusesNeedRenewal statuses
        in if requests = [] then ioReturn (statuses, renewalRequired, [])
           else if \<not> identityReady then
             ioReturn (statuses, renewalRequired, ''Identity material is not ready; certificate renewal is waiting for enrollment to finish'')
           else if \<not> caReady then
             ioReturn (statuses, renewalRequired, ''Fabric CA is not ready; certificate renewal is waiting'')
           else if registrarRotationBlocksWork then
             ioReturn (statuses, renewalRequired, ''CA registrar rotation is in progress; certificate renewal is waiting'')
           else
             ioBind (ensureEnrollmentRBAC api net org namespace) (\<lambda>_.
             ioBind (renewalLoop api net org namespace requests statuses []) (\<lambda>(statuses', messages).
               ioReturn (statuses', certificateStatusesNeedRenewal statuses', joinWith ''; '' messages))))))"

section \<open>The condition\<close>

fun certificateReason :: "CertificateState \<Rightarrow> string" where
  "certificateReason CertificateStateRenewalFailed = ''CertificateRenewalFailed''"
| "certificateReason CertificateStateExpired = ''CertificateExpired''"
| "certificateReason CertificateStateInvalid = ''CertificateMaterialInvalid''"
| "certificateReason CertificateStateMissing = ''CertificateMaterialMissing''"
| "certificateReason CertificateStateRenewing = ''CertificateRenewalRunning''"
| "certificateReason CertificateStateRenewalDue = ''CertificateRenewalRequired''"
| "certificateReason _ = ''CertificateLifecyclePending''"

fun certificateStatePriority :: "CertificateState \<Rightarrow> int" where
  "certificateStatePriority CertificateStateRenewalFailed = 60"
| "certificateStatePriority CertificateStateExpired = 50"
| "certificateStatePriority CertificateStateInvalid = 40"
| "certificateStatePriority CertificateStateMissing = 30"
| "certificateStatePriority CertificateStateRenewing = 20"
| "certificateStatePriority CertificateStateRenewalDue = 10"
| "certificateStatePriority _ = 0"

definition certificateReasonPriority :: "string \<Rightarrow> int" where
  "certificateReasonPriority reason =
     (if reason = ''CARegistrarRotationFailed'' then 70
      else if reason = ''CertificateRenewalFailed'' then 60
      else if reason = ''CertificateExpired'' then 50
      else if reason = ''CertificateMaterialInvalid'' then 40
      else if reason = ''CertificateMaterialMissing'' then 30
      else if reason \<in> {''CARegistrarRotationWaitingForCA'', ''CARegistrarRotationStaging'', ''CARegistrarRotationRunning''} then 25
      else if reason = ''CertificateRenewalRunning'' then 20
      else if reason = ''CertificateRenewalRequired'' then 10
      else 0)"

fun caRegistrarRotationReason :: "CARegistrarRotationPhase \<Rightarrow> string" where
  "caRegistrarRotationReason RotationPhaseFailed = ''CARegistrarRotationFailed''"
| "caRegistrarRotationReason RotationPhaseWaitingForCA = ''CARegistrarRotationWaitingForCA''"
| "caRegistrarRotationReason RotationPhaseStaging = ''CARegistrarRotationStaging''"
| "caRegistrarRotationReason RotationPhaseRotating = ''CARegistrarRotationRunning''"
| "caRegistrarRotationReason _ = ''CARegistrarRotationPending''"

definition certificateProblemMessage :: "string \<Rightarrow> CertificateStatus \<Rightarrow> string" where
  "certificateProblemMessage orgName certificate =
     orgName @ '' '' @ cs_Name certificate @ '' '' @ certificateStateText (cs_State certificate) @
     (if cs_RenewalJobName certificate \<noteq> [] then '' via Job '' @ cs_RenewalJobName certificate else []) @
     (if cs_Message certificate \<noteq> [] then '': '' @ cs_Message certificate else [])"

text \<open>The accumulator of the loops: reason, rotation problems, certificate problems.\<close>

definition noteCertificate ::
  "string \<Rightarrow> string \<times> string list \<Rightarrow> CertificateStatus \<Rightarrow> string \<times> string list" where
  "noteCertificate orgName acc certificate =
     (let (reason, problems) = acc
      in if cs_State certificate = CertificateStateUnset \<or> cs_State certificate = CertificateStateValid then acc
         else (if reason = ''CertificateLifecycleReady'' \<or>
                  certificateStatePriority (cs_State certificate) > certificateReasonPriority reason
               then certificateReason (cs_State certificate) else reason,
               problems @ [certificateProblemMessage orgName certificate]))"

definition noteOrg :: "string \<times> string list \<times> string list \<Rightarrow> OrgStatus \<Rightarrow> string \<times> string list \<times> string list" where
  "noteOrg acc org =
     (let (reason, rotationProblems, certificateProblems) = acc;
          (reason1, rotationProblems1) =
            (case caRegistrarRotationConditionProblem (os_Name org) (os_CARegistrarRotation org) of
               None \<Rightarrow> (reason, rotationProblems)
             | Some (problem, priority) \<Rightarrow>
                 (if reason = ''CertificateLifecycleReady'' \<or> priority > certificateReasonPriority reason
                  then caRegistrarRotationReason (rs_Phase (os_CARegistrarRotation org)) else reason,
                  rotationProblems @ [problem]));
          (reason2, certificateProblems2) = foldl (noteCertificate (os_Name org)) (reason1, certificateProblems) (os_Certificates org)
      in (reason2, rotationProblems1, certificateProblems2))"

definition certificateLifecycleConditionStatus :: "OrgStatus list \<Rightarrow> ConditionStatus \<times> string \<times> string" where
  "certificateLifecycleConditionStatus statuses =
     (let (reason, rotationProblems, certificateProblems) = foldl noteOrg (''CertificateLifecycleReady'', [], []) statuses;
          problems = rotationProblems @ certificateProblems
      in if problems = [] then (ConditionTrue, reason, ''All Fabric certificates are valid'')
         else (let shown = (if length problems > 4
                            then take 4 problems @ [itoa (int (length problems - 4)) @ '' more certificate items need attention'']
                            else problems)
               in (ConditionFalse, reason, joinWith ''; '' shown)))"

section \<open>The revision of a workload's identity\<close>

definition revisionRefs :: "string \<Rightarrow> bool \<Rightarrow> (string \<times> string list) list" where
  "revisionRefs workload tlsEnabled =
     (identitySecretName workload secretKindMSP, mspSecretKeys tlsEnabled) #
     (if tlsEnabled then [(identitySecretName workload secretKindTLS, tlsSecretKeys)] else [])"

definition secretSeed :: "string \<Rightarrow> string list \<Rightarrow> Secret \<Rightarrow> bytes" where
  "secretSeed name keys secret = name @ concat (map (\<lambda>k. k @ dataOf secret k) (sort keys))"

fun revisionSeed :: "'s Kube \<Rightarrow> string \<Rightarrow> (string \<times> string list) list \<Rightarrow> bytes \<Rightarrow> ('s, bytes option) io" where
  "revisionSeed api namespace [] seed = ioReturn (Some seed)"
| "revisionSeed api namespace ((name, keys) # refs) seed =
     ioBind (getSecret api namespace name) (\<lambda>found.
       case found of None \<Rightarrow> ioReturn None
       | Some secret \<Rightarrow> revisionSeed api namespace refs (seed @ secretSeed name keys secret))"

definition identityMaterialRevision :: "Crypto \<Rightarrow> 's Kube \<Rightarrow> string \<Rightarrow> string \<Rightarrow> bool \<Rightarrow> ('s, string) io" where
  "identityMaterialRevision cr api namespace workload tlsEnabled =
     ioBind (revisionSeed api namespace (revisionRefs workload tlsEnabled) []) (\<lambda>seed.
       ioReturn (case seed of None \<Rightarrow> [] | Some b \<Rightarrow> shortDigest cr b))"

section \<open>Requests partition the certificates to renew\<close>

text \<open>The positions of the certificates of a workload that need renewal, in order.\<close>

definition renewalIndices :: "certificateInventoryItem list \<Rightarrow> string \<Rightarrow> nat list" where
  "renewalIndices items workload =
     filter (\<lambda>i. itemNeedsRenewal (items ! i) \<and> mr_workloadName (ci_ref (items ! i)) = workload) [0..<length items]"

lemma renewalIndices_snoc:
  "renewalIndices (items @ [item]) k = renewalIndices items k @
     (if itemNeedsRenewal item \<and> mr_workloadName (ci_ref item) = k then [length items] else [])"
  by (auto simp: renewalIndices_def nth_append intro!: filter_cong)

definition requestFor :: "certificateInventoryItem list \<Rightarrow> string \<Rightarrow> certificateRenewalRequest option \<Rightarrow> bool" where
  "requestFor items k request \<longleftrightarrow>
     (case request of
        None \<Rightarrow> renewalIndices items k = []
      | Some r \<Rightarrow> cq_workloadName r = k \<and> cq_indices r = renewalIndices items k \<and> renewalIndices items k \<noteq> [])"

definition requestsFor ::
  "certificateInventoryItem list \<Rightarrow> (string, certificateRenewalRequest) gomap \<Rightarrow> bool" where
  "requestsFor items requests \<longleftrightarrow> distinct (map fst requests) \<and> (\<forall>k. requestFor items k (map_of requests k))"

lemma requestFor_other:
  "\<not> (itemNeedsRenewal item \<and> mr_workloadName (ci_ref item) = k) \<Longrightarrow> requestFor (items @ [item]) k r \<longleftrightarrow> requestFor items k r"
  by (auto simp: requestFor_def renewalIndices_snoc split: option.splits)

lemma requestFor_add:
  assumes "requestFor items (mr_workloadName (ci_ref item)) request" and "itemNeedsRenewal item"
  shows "requestFor (items @ [item]) (mr_workloadName (ci_ref item))
           (Some (addToRequest (length items) item (case request of None \<Rightarrow> openRequest item | Some r \<Rightarrow> r)))"
  using assms by (auto simp: requestFor_def renewalIndices_snoc addToRequest_def openRequest_def split: option.splits)

lemma collectRequests_for:
  "requestsFor done requests \<Longrightarrow> requestsFor (done @ items) (collectRequests (length done) items requests)"
proof (induction items arbitrary: "done" requests)
  case (Cons item items)
  let ?k = "mr_workloadName (ci_ref item)"
  let ?r = "case map_of requests ?k of None \<Rightarrow> openRequest item | Some r \<Rightarrow> r"
  have "requestsFor (done @ [item])
      (if itemNeedsRenewal item then go_set requests ?k (addToRequest (length done) item ?r) else requests)"
    using Cons.prems by (auto simp: requestsFor_def requestFor_other requestFor_add)
  from Cons.IH [OF this] show ?case by (simp add: Let_def split: if_splits)
qed simp

lemma requestsFor_Nil [simp]: "requestsFor [] []"
  by (simp add: requestsFor_def requestFor_def renewalIndices_def)

lemma closeRequest_simps [simp]:
  "cq_workloadName (closeRequest cr r) = cq_workloadName r" "cq_indices (closeRequest cr r) = cq_indices r"
  by (simp_all add: closeRequest_def Let_def)

lemma requests_of_map:
  assumes "requestsFor items m"
  shows "distinct (map (cq_workloadName \<circ> closeRequest cr \<circ> snd) m)"
    and "kr \<in> set m \<Longrightarrow> cq_workloadName (snd kr) = fst kr \<and> cq_indices (snd kr) = renewalIndices items (fst kr) \<and> renewalIndices items (fst kr) \<noteq> []"
    and "renewalIndices items k \<noteq> [] \<Longrightarrow> k \<in> fst ` set m"
proof -
  show entry: "cq_workloadName (snd kr) = fst kr \<and> cq_indices (snd kr) = renewalIndices items (fst kr) \<and> renewalIndices items (fst kr) \<noteq> []"
    if "kr \<in> set m" for kr
  proof -
    obtain k r where kr: "kr = (k, r)" by (cases kr)
    have "map_of m k = Some r" using assms that kr by (simp add: requestsFor_def)
    moreover have "requestFor items k (map_of m k)" using assms by (simp add: requestsFor_def)
    ultimately show ?thesis using kr by (simp add: requestFor_def)
  qed
  have "map (cq_workloadName \<circ> closeRequest cr \<circ> snd) m = map fst m" using entry by simp
  moreover have "distinct (map fst m)" using assms by (simp add: requestsFor_def)
  ultimately show "distinct (map (cq_workloadName \<circ> closeRequest cr \<circ> snd) m)" by metis
  show "renewalIndices items k \<noteq> [] \<Longrightarrow> k \<in> fst ` set m"
    using assms by (cases "map_of m k") (auto simp: requestsFor_def requestFor_def dest!: spec [of _ k] map_of_SomeD intro: rev_image_eqI)
qed

lemma requests_structure:
  "distinct (map cq_workloadName (certificateRenewalRequests cr items))"
  "sorted (map cq_jobName (certificateRenewalRequests cr items))"
  "r \<in> set (certificateRenewalRequests cr items) \<Longrightarrow>
     cq_indices r = renewalIndices items (cq_workloadName r) \<and> cq_indices r \<noteq> []"
  "renewalIndices items k \<noteq> [] \<Longrightarrow> \<exists>r \<in> set (certificateRenewalRequests cr items). cq_workloadName r = k"
proof -
  let ?m = "collectRequests 0 items []"
  have m: "requestsFor items ?m" using collectRequests_for [of "[]" "[]" items] by simp
  have "mset (map cq_workloadName (certificateRenewalRequests cr items)) = mset (map (cq_workloadName \<circ> closeRequest cr \<circ> snd) ?m)"
    by (simp add: certificateRenewalRequests_def multiset.map_comp comp_assoc)
  then show "distinct (map cq_workloadName (certificateRenewalRequests cr items))"
    using requests_of_map(1) [OF m, of cr] by (metis mset_eq_imp_distinct_iff)
  show "sorted (map cq_jobName (certificateRenewalRequests cr items))"
    by (simp add: certificateRenewalRequests_def)
  show "r \<in> set (certificateRenewalRequests cr items) \<Longrightarrow>
     cq_indices r = renewalIndices items (cq_workloadName r) \<and> cq_indices r \<noteq> []"
    using requests_of_map(2) [OF m] by (auto simp: certificateRenewalRequests_def)
  show "\<exists>r \<in> set (certificateRenewalRequests cr items). cq_workloadName r = k" if "renewalIndices items k \<noteq> []"
  proof -
    from requests_of_map(3) [OF m that] obtain kr where kr: "kr \<in> set ?m" "fst kr = k" by auto
    with requests_of_map(2) [OF m kr(1)] have "cq_workloadName (closeRequest cr (snd kr)) = k" by simp
    with kr(1) show ?thesis by (auto simp: certificateRenewalRequests_def)
  qed
qed


section \<open>Runs\<close>

definition renewalState :: "CertificateState \<Rightarrow> bool" where
  "renewalState st \<longleftrightarrow> st \<in> {CertificateStateRenewing, CertificateStateRenewalFailed, CertificateStateRenewalDue}"

lemma renewalJobOutcome_state: "renewalState (fst (renewalJobOutcome found))"
  by (simp add: renewalJobOutcome_def renewalState_def split: option.splits)

text \<open>Recording a Job's outcome touches the positions of its request only, and never makes or
  unmakes a valid certificate.\<close>

lemma setStatus_nth:
  assumes "\<forall>i \<in> set (cq_indices request). i < length statuses" and "i < length statuses"
  shows "length (setCertificateRenewalJobStatus statuses request state message) = length statuses"
    and "cs_State (setCertificateRenewalJobStatus statuses request state message ! i) =
           (if i \<in> set (cq_indices request) then state else cs_State (statuses ! i))"
proof -
  let ?f = "\<lambda>sts index. sts[index := (sts ! index)\<lparr>cs_RenewalJobName := cq_jobName request, cs_State := state, cs_Message := message\<rparr>]"
  have run: "length (foldl ?f sts is) = length sts \<and>
      (i < length sts \<longrightarrow> (\<forall>j \<in> set is. j < length sts) \<longrightarrow>
         cs_State (foldl ?f sts is ! i) = (if i \<in> set is then state else cs_State (sts ! i)))" for "is" sts
    by (induction "is" arbitrary: sts) (auto simp: nth_list_update)
  from run [of statuses "cq_indices request"] show "length (setCertificateRenewalJobStatus statuses request state message) = length statuses"
    "cs_State (setCertificateRenewalJobStatus statuses request state message ! i) =
       (if i \<in> set (cq_indices request) then state else cs_State (statuses ! i))"
    using assms by (simp_all add: setCertificateRenewalJobStatus_def)
qed

definition sameValidity :: "CertificateStatus list \<Rightarrow> CertificateStatus list \<Rightarrow> bool" where
  "sameValidity before after \<longleftrightarrow> length after = length before \<and>
     (\<forall>i < length before. cs_State (after ! i) = CertificateStateValid \<longleftrightarrow> cs_State (before ! i) = CertificateStateValid)"

lemma setStatus_validity:
  assumes "\<forall>i \<in> set (cq_indices request). i < length statuses \<and> cs_State (statuses ! i) \<noteq> CertificateStateValid" and "renewalState state"
  shows "sameValidity statuses (setCertificateRenewalJobStatus statuses request state message)"
proof (cases "statuses = []")
  case True
  with assms(1) have "cq_indices request = []" by (cases "cq_indices request") auto
  with True show ?thesis by (simp add: sameValidity_def setCertificateRenewalJobStatus_def)
next
  case False
  have r: "\<forall>i \<in> set (cq_indices request). i < length statuses" using assms(1) by blast
  from False setStatus_nth(1) [OF r, of 0] setStatus_nth(2) [OF r] assms show ?thesis
    by (auto simp: sameValidity_def renewalState_def)
qed

lemma renewalLoop_validity:
  assumes "fst (renewalLoop api net org ns requests statuses messages s) = Inr (statuses', messages')"
    and "\<forall>r \<in> set requests. \<forall>i \<in> set (cq_indices r). i < length statuses \<and> cs_State (statuses ! i) \<noteq> CertificateStateValid"
  shows "sameValidity statuses statuses'"
  using assms
proof (induction requests arbitrary: statuses messages s)
  case (Cons request requests)
  from Cons.prems(1) obtain state message messages1 s1 where
    st: "renewalState state" and rest: "fst (renewalLoop api net org ns requests
      (setCertificateRenewalJobStatus statuses request state message) messages1 s1) = Inr (statuses', messages')"
    using renewalJobOutcome_state
    by (auto simp: ioBind_Inr certificateRenewalJobState_def ioReturn_def split: prod.splits) (metis fst_conv)
  have same: "sameValidity statuses (setCertificateRenewalJobStatus statuses request state message)"
    using Cons.prems(2) st by (intro setStatus_validity) auto
  moreover have "sameValidity (setCertificateRenewalJobStatus statuses request state message) statuses'"
    using Cons.prems(2) same by (intro Cons.IH [OF rest]) (auto simp: sameValidity_def)
  ultimately show ?case by (simp add: sameValidity_def)
qed (simp add: ioReturn_def sameValidity_def)

context kube_api
begin

lemma inventoryLoop_result:
  "fst (inventoryLoop cr api now refs s) = Inr items \<Longrightarrow>
   items = map (\<lambda>ref. inventoryItem cr now ref (secretAt view s (mr_namespace ref) (mr_secretName ref))) refs"
proof (induction refs arbitrary: s items)
  case (Cons ref refs)
  from Cons.prems obtain found rest where
    f: "fst (getSecret api (mr_namespace ref) (mr_secretName ref) s) = Inr found"
       "fst (inventoryLoop cr api now refs (snd (getSecret api (mr_namespace ref) (mr_secretName ref) s))) = Inr rest"
       "items = inventoryItem cr now ref found # rest"
    by (auto simp: ioBind_Inr ioReturn_def)
  from Cons.IH [OF f(2)] getSecret_result [OF f(1)] f(3) show ?case by (simp add: secretAt_get)
qed (simp add: ioReturn_def)

lemma keeps_inventory: "settled (fst k) \<Longrightarrow> ioKeeps (\<lambda>s. P (view s k)) (inventoryLoop cr api now refs)"
  by (induction refs) (auto intro!: ioKeeps_bind keeps_getSecret)

lemma keeps_renewalLoop: "settled (fst k) \<Longrightarrow> ioKeeps (\<lambda>s. P (view s k)) (renewalLoop api net org ns requests statuses messages)"
proof (induction requests arbitrary: statuses messages)
  case (Cons request requests)
  then show ?case
    by (auto intro!: ioKeeps_bind keeps_ensureJob keeps_getJob simp: certificateRenewalJobState_def split: prod.splits)
qed simp

lemma keeps_lifecycle:
  "ioKeeps (\<lambda>s. P (view s (KSecret, ns', n))) (reconcileCertificateLifecycle cr api net org ns caReady identityReady blocked)"
  unfolding reconcileCertificateLifecycle_def identityCertificateInventory_def Let_def
  by (auto intro!: ioKeeps_bind keeps_now keeps_inventory keeps_RBAC keeps_renewalLoop split: prod.splits)

end


text \<open>What makes the report on a certificate \<open>Valid\<close>.\<close>

definition certificateIsValid :: "Crypto \<Rightarrow> gotime \<Rightarrow> managedCertificateRef \<Rightarrow> KObject option \<Rightarrow> bool" where
  "certificateIsValid cr now ref stored \<longleftrightarrow>
     (\<exists>secret b cert. stored = Some (OSecret secret) \<and>
        labelOf (sec_Meta secret) labelIdentitySource = identitySourceFabricCA \<and>
        labelOf (sec_Meta secret) labelIdentityKind \<in> {[], mr_secretKind ref} \<and>
        map_of (sec_Data secret) (mr_key ref) = Some b \<and> parsePEMCertificate cr b = Inr cert \<and>
        x_NotBefore cert \<le> now \<and> now + defaultCertificateRenewBefore < x_NotAfter cert)"

lemma certificateState_valid:
  "fst (certificateState now notBefore notAfter renewable) = CertificateStateValid \<longleftrightarrow>
     notBefore \<le> now \<and> now + defaultCertificateRenewBefore < notAfter"
proof -
  have "0 < defaultCertificateRenewBefore" by (simp add: defaultCertificateRenewBefore_def second_def)
  then show ?thesis by (auto simp: certificateState_def)
qed

lemma inventoryItem_valid:
  "cs_State (ci_status (inventoryItem cr now ref (secretAt view s (mr_namespace ref) (mr_secretName ref)))) = CertificateStateValid \<longleftrightarrow>
   certificateIsValid cr now ref (view s (KSecret, mr_namespace ref, mr_secretName ref))"
proof (cases "secretAt view s (mr_namespace ref) (mr_secretName ref)")
  case None
  then have "view s (KSecret, mr_namespace ref, mr_secretName ref) \<noteq> Some (OSecret secret)" for secret
    by (auto simp: secretAt_def)
  with None show ?thesis by (simp add: inventoryItem_def certificateIsValid_def missingStatus_def)
next
  case (Some secret)
  then have "view s (KSecret, mr_namespace ref, mr_secretName ref) = Some (OSecret secret)"
    by (auto simp: secretAt_def split: option.splits KObject.splits)
  with Some show ?thesis
    by (auto simp: inventoryItem_def certificateIsValid_def missingStatus_def Let_def case_prod_unfold certificateState_valid
        split: option.splits sum.splits)
qed

lemma requests_positions:
  assumes "r \<in> set (certificateRenewalRequests cr items)" and "i \<in> set (cq_indices r)"
  shows "i < length (certificateStatuses items) \<and> cs_State (certificateStatuses items ! i) \<noteq> CertificateStateValid"
proof -
  have "i < length items" "itemNeedsRenewal (items ! i)"
    using requests_structure(3) [OF assms(1)] assms(2) by (auto simp: renewalIndices_def)
  then show ?thesis by (auto simp: certificateStatuses_def itemNeedsRenewal_def)
qed

context kube_api
begin

lemma lifecycle_statuses:
  assumes "fst (reconcileCertificateLifecycle cr api net org ns caReady identityReady blocked s) = Inr (statuses, required, message)"
  shows "\<exists>items. items = map (\<lambda>ref. inventoryItem cr (fst (k_Now api s)) ref (secretAt view s (mr_namespace ref) (mr_secretName ref)))
             (managedIdentityCertificateRefs net org ns) \<and> sameValidity (certificateStatuses items) statuses"
proof -
  let ?s1 = "snd (ioNow api s)" and ?now = "fst (k_Now api s)"
  have now: "fst (ioNow api s) = Inr ?now" "snd (ioNow api s) = snd (k_Now api s)"
    by (simp_all add: ioNow_def split: prod.splits)
  from assms obtain items where
    items: "fst (inventoryLoop cr api ?now (managedIdentityCertificateRefs net org ns) ?s1) = Inr items"
    and rest: "statuses = certificateStatuses items \<or>
      (\<exists>s2 messages. fst (renewalLoop api net org ns (certificateRenewalRequests cr items) (certificateStatuses items) [] s2) =
         Inr (statuses, messages))"
    by (auto simp: reconcileCertificateLifecycle_def identityCertificateInventory_def ioBind_Inr now(1) ioReturn_def Let_def
        split: if_splits prod.splits)
  have "secretAt view ?s1 a b = secretAt view s a b" for a b by (simp add: secretAt_def now(2) now_frame)
  with inventoryLoop_result [OF items] have "items = map (\<lambda>ref. inventoryItem cr ?now ref (secretAt view s (mr_namespace ref) (mr_secretName ref)))
      (managedIdentityCertificateRefs net org ns)"
    by simp
  moreover have "sameValidity (certificateStatuses items) statuses"
    using rest
  proof (elim disjE exE)
    fix s2 messages
    assume run: "fst (renewalLoop api net org ns (certificateRenewalRequests cr items) (certificateStatuses items) [] s2) = Inr (statuses, messages)"
    show ?thesis by (rule renewalLoop_validity [OF run]) (blast dest: requests_positions)
  qed (simp add: sameValidity_def)
  ultimately show ?thesis by blast
qed

lemma lifecycle_valid:
  assumes "fst (reconcileCertificateLifecycle cr api net org ns caReady identityReady blocked s) = Inr (statuses, required, message)"
  shows "length statuses = length (managedIdentityCertificateRefs net org ns) \<and>
    (\<forall>i < length statuses. (let ref = managedIdentityCertificateRefs net org ns ! i in
       cs_State (statuses ! i) = CertificateStateValid \<longleftrightarrow>
       certificateIsValid cr (fst (k_Now api s)) ref (view s (KSecret, mr_namespace ref, mr_secretName ref))))"
  using lifecycle_statuses [OF assms] by (auto simp: sameValidity_def certificateStatuses_def Let_def inventoryItem_valid)

end

section \<open>The condition reports the most urgent problem\<close>

definition certificateProblem :: "CertificateStatus \<Rightarrow> bool" where
  "certificateProblem certificate \<longleftrightarrow> cs_State certificate \<noteq> CertificateStateUnset \<and> cs_State certificate \<noteq> CertificateStateValid"

definition rotationPriorities :: "OrgStatus \<Rightarrow> int list" where
  "rotationPriorities org =
     (case caRegistrarRotationConditionProblem (os_Name org) (os_CARegistrarRotation org) of None \<Rightarrow> [] | Some (_, p) \<Rightarrow> [p])"

definition orgPriorities :: "OrgStatus \<Rightarrow> int list" where
  "orgPriorities org =
     rotationPriorities org @ map (certificateStatePriority \<circ> cs_State) (filter certificateProblem (os_Certificates org))"

definition reasonFits :: "string \<Rightarrow> int list \<Rightarrow> bool" where
  "reasonFits reason priorities \<longleftrightarrow>
     certificateReasonPriority reason = foldl max 0 priorities \<and> (reason = ''CertificateLifecycleReady'' \<longleftrightarrow> priorities = [])"

lemma foldl_max_Max: "priorities \<noteq> [] \<Longrightarrow> \<forall>p \<in> set priorities. 0 < p \<Longrightarrow> foldl max 0 priorities = Max (set priorities)"
  for priorities :: "int list"
proof (induction priorities rule: rev_induct)
  case (snoc p ps)
  then show ?case by (cases "ps = []") (auto simp: max.commute)
qed simp

lemma reasonFits_add:
  assumes "reasonFits reason priorities" and "certificateReasonPriority new = p" and "0 < p"
  shows "reasonFits (if reason = ''CertificateLifecycleReady'' \<or> p > certificateReasonPriority reason then new else reason) (priorities @ [p])"
proof -
  have ready: "certificateReasonPriority ''CertificateLifecycleReady'' = 0" by (simp add: certificateReasonPriority_def)
  then have "new \<noteq> ''CertificateLifecycleReady''" using assms(2,3) by auto
  with assms ready show ?thesis by (auto simp: reasonFits_def max_def)
qed

lemma certificateReason_priority:
  "certificateProblem c \<Longrightarrow> certificateReasonPriority (certificateReason (cs_State c)) = certificateStatePriority (cs_State c) \<and>
     0 < certificateStatePriority (cs_State c)"
  by (cases "cs_State c") (simp_all add: certificateProblem_def certificateReasonPriority_def)

lemma rotationReason_priority:
  "caRegistrarRotationConditionProblem n st = Some (problem, p) \<Longrightarrow>
     certificateReasonPriority (caRegistrarRotationReason (rs_Phase st)) = p \<and> 0 < p"
  by (cases "rs_Phase st")
     (auto simp: caRegistrarRotationConditionProblem_def certificateReasonPriority_def Let_def split: if_splits)

lemma noteCertificates:
  assumes "reasonFits reason priorities" and "foldl (noteCertificate n) (reason, problems) certificates = (reason', problems')"
  shows "reasonFits reason' (priorities @ map (certificateStatePriority \<circ> cs_State) (filter certificateProblem certificates)) \<and>
         length problems' = length problems + length (filter certificateProblem certificates)"
  using assms
proof (induction certificates arbitrary: reason problems priorities)
  case (Cons c certificates)
  show ?case
  proof (cases "certificateProblem c")
    case True
    let ?reason = "if reason = ''CertificateLifecycleReady'' \<or> certificateStatePriority (cs_State c) > certificateReasonPriority reason
      then certificateReason (cs_State c) else reason"
    have "noteCertificate n (reason, problems) c = (?reason, problems @ [certificateProblemMessage n c])"
      using True by (simp add: noteCertificate_def certificateProblem_def)
    with Cons.prems(2) have "foldl (noteCertificate n) (?reason, problems @ [certificateProblemMessage n c]) certificates = (reason', problems')"
      by (simp only: foldl_Cons)
    moreover have "reasonFits ?reason (priorities @ [certificateStatePriority (cs_State c)])"
      using certificateReason_priority [OF True] Cons.prems(1) by (intro reasonFits_add) auto
    ultimately show ?thesis using Cons.IH [of ?reason "priorities @ [certificateStatePriority (cs_State c)]"] True by simp
  next
    case False
    then have "noteCertificate n (reason, problems) c = (reason, problems)"
      by (simp add: noteCertificate_def certificateProblem_def)
    with Cons False show ?thesis by simp
  qed
qed simp

lemma noteOrg_step:
  assumes "reasonFits reason priorities" and "noteOrg (reason, rot, cert) org = (reason', rot', cert')"
    and "length rot + length cert = length priorities"
  shows "reasonFits reason' (priorities @ orgPriorities org) \<and> length rot' + length cert' = length (priorities @ orgPriorities org)"
proof -
  let ?n = "os_Name org" and ?st = "os_CARegistrarRotation org"
  obtain reason1 where r1: "reasonFits reason1 (priorities @ rotationPriorities org)"
      "length rot' = length rot + length (rotationPriorities org)"
      "foldl (noteCertificate ?n) (reason1, cert) (os_Certificates org) = (reason', cert')"
  proof (cases "caRegistrarRotationConditionProblem ?n ?st")
    case None
    with assms that [of reason] show thesis by (auto simp: noteOrg_def rotationPriorities_def split: prod.splits)
  next
    case (Some pp)
    obtain problem p where pp: "pp = (problem, p)" by (cases pp)
    note pr = rotationReason_priority [OF Some [unfolded pp]]
    let ?reason = "if reason = ''CertificateLifecycleReady'' \<or> p > certificateReasonPriority reason
      then caRegistrarRotationReason (rs_Phase ?st) else reason"
    have "reasonFits ?reason (priorities @ [p])" using assms(1) pr by (intro reasonFits_add) auto
    with assms(2) Some pp that [of ?reason] show thesis
      by (auto simp: noteOrg_def rotationPriorities_def Let_def split: prod.splits)
  qed
  from noteCertificates [OF r1(1,3)] r1(2) assms(3) show ?thesis by (simp add: orgPriorities_def)
qed

lemma noteOrgs:
  assumes "reasonFits reason priorities" and "foldl noteOrg (reason, rot, cert) statuses = (reason', rot', cert')"
    and "length rot + length cert = length priorities"
  shows "reasonFits reason' (priorities @ concat (map orgPriorities statuses)) \<and>
         length rot' + length cert' = length (priorities @ concat (map orgPriorities statuses))"
  using assms
proof (induction statuses arbitrary: reason rot cert priorities)
  case (Cons org statuses)
  obtain reason1 rot1 cert1 where n: "noteOrg (reason, rot, cert) org = (reason1, rot1, cert1)" by (metis prod_cases3)
  from noteOrg_step [OF Cons.prems(1) n Cons.prems(3)] Cons.IH [of reason1 "priorities @ orgPriorities org" rot1 cert1] Cons.prems(2) n
  show ?case by simp
qed simp

section \<open>Properties\<close>

text \<open>
  Claim C31. The certificate condition is true exactly when no organization has a registrar rotation
  under way or failed and every certificate is valid; otherwise its reason is one of the highest
  priority among all problems of all organizations, whatever order they are visited in.
\<close>

theorem certificate_condition_most_urgent:
  assumes "certificateLifecycleConditionStatus statuses = (status, reason, message)"
  shows "(status = ConditionTrue \<longleftrightarrow> (\<forall>org \<in> set statuses.
            caRegistrarRotationConditionProblem (os_Name org) (os_CARegistrarRotation org) = None \<and>
            (\<forall>c \<in> set (os_Certificates org). cs_State c \<in> {CertificateStateUnset, CertificateStateValid}))) \<and>
         (status \<noteq> ConditionTrue \<longrightarrow>
            certificateReasonPriority reason = Max (\<Union>org \<in> set statuses. set (orgPriorities org)))"
proof -
  obtain r rot cert where f: "foldl noteOrg (''CertificateLifecycleReady'', [], []) statuses = (r, rot, cert)" by (metis prod_cases3)
  let ?P = "concat (map orgPriorities statuses)"
  have "reasonFits ''CertificateLifecycleReady'' []" by (simp add: reasonFits_def certificateReasonPriority_def)
  from noteOrgs [OF this f] have fits: "reasonFits r ?P" "length rot + length cert = length ?P" by auto
  have "rot @ cert = [] \<longleftrightarrow> ?P = []" using fits(2) by (metis length_0_conv length_append)
  moreover have st0: "status = ConditionTrue \<longleftrightarrow> rot @ cert = []" "reason = r"
    using assms f by (auto simp: certificateLifecycleConditionStatus_def Let_def split: if_splits)
  ultimately have st: "status = ConditionTrue \<longleftrightarrow> ?P = []" "reason = r" by auto
  have empty: "orgPriorities org = [] \<longleftrightarrow> caRegistrarRotationConditionProblem (os_Name org) (os_CARegistrarRotation org) = None \<and>
      (\<forall>c \<in> set (os_Certificates org). cs_State c \<in> {CertificateStateUnset, CertificateStateValid})" for org
    by (auto simp: orgPriorities_def rotationPriorities_def filter_empty_conv certificateProblem_def split: option.splits)
  have "0 < p" if "p \<in> set (orgPriorities org)" for p org
    using that by (auto simp: orgPriorities_def rotationPriorities_def certificateReason_priority split: option.splits
        dest!: sym [of "Some _"] dest: rotationReason_priority)
  then have "foldl max 0 ?P = Max (set ?P)" if "?P \<noteq> []" using that by (intro foldl_max_Max) auto
  with st fits(1) empty show ?thesis by (auto simp: reasonFits_def)
qed


definition sampleCertificate :: "CertificateState \<Rightarrow> CertificateStatus" where
  "sampleCertificate st = (missingStatus \<lparr>mr_namespace = ''n'', mr_secretName = ''peer0-msp'', mr_secretKind = secretKindMSP,
     mr_key = ''signcert.pem'', mr_component = ''peer'', mr_workloadName = ''peer0'', mr_renewable = True,
     mr_renewalMode = certificateRenewalModeWorkload, mr_csrHosts = []\<rparr>)\<lparr>cs_State := st\<rparr>"

definition sampleOrgStatus :: "CertificateState list \<Rightarrow> OrgStatus" where
  "sampleOrgStatus sts = zeroOrgStatus\<lparr>os_Name := ''o'', os_Certificates := map sampleCertificate sts\<rparr>"

theorem certificate_condition_most_urgent_witness:
  "certificateReasonPriority ''CertificateExpired'' =
     Max (\<Union>org \<in> {sampleOrgStatus [CertificateStateRenewing, CertificateStateExpired]}. set (orgPriorities org))"
proof -
  have "certificateLifecycleConditionStatus [sampleOrgStatus [CertificateStateRenewing, CertificateStateExpired]] =
      (ConditionFalse, ''CertificateExpired'', ''o peer0-msp/signcert.pem Renewing; o peer0-msp/signcert.pem Expired'')"
    by code_simp
  from certificate_condition_most_urgent [OF this] show ?thesis by simp
qed

text \<open>
  Renewal requests partition the renewable certificates that are expired or due: one
  request per workload, each with exactly the positions of that workload's certificates in
  increasing order, every such certificate in some request, and the requests sorted by Job name.
\<close>

theorem renewal_requests_partition:
  "distinct (map cq_workloadName (certificateRenewalRequests cr items)) \<and>
   sorted (map cq_jobName (certificateRenewalRequests cr items)) \<and>
   (\<forall>r \<in> set (certificateRenewalRequests cr items). cq_indices r \<noteq> [] \<and>
      cq_indices r = filter (\<lambda>i. mr_renewable (ci_ref (items ! i)) \<and> certificateStateNeedsRenewal (cs_State (ci_status (items ! i))) \<and>
                               mr_workloadName (ci_ref (items ! i)) = cq_workloadName r) [0..<length items]) \<and>
   (\<forall>i < length items. mr_renewable (ci_ref (items ! i)) \<and> certificateStateNeedsRenewal (cs_State (ci_status (items ! i))) \<longrightarrow>
      (\<exists>r \<in> set (certificateRenewalRequests cr items). i \<in> set (cq_indices r)))"
proof -
  have "\<exists>r \<in> set (certificateRenewalRequests cr items). i \<in> set (cq_indices r)"
    if "i < length items" "itemNeedsRenewal (items ! i)" for i
  proof -
    let ?k = "mr_workloadName (ci_ref (items ! i))"
    have "i \<in> set (renewalIndices items ?k)" using that by (simp add: renewalIndices_def)
    then obtain r where r: "r \<in> set (certificateRenewalRequests cr items)" "cq_workloadName r = ?k"
      using requests_structure(4) [of items ?k cr] by fastforce
    with \<open>i \<in> set (renewalIndices items ?k)\<close> requests_structure(3) [OF r(1)] show ?thesis by (intro bexI [of _ r]) auto
  qed
  then show ?thesis
    using requests_structure(1,2) requests_structure(3) [of _ cr items] unfolding renewalIndices_def itemNeedsRenewal_def conj_assoc
    by blast
qed

definition sampleItem :: "string \<Rightarrow> string \<Rightarrow> certificateInventoryItem" where
  "sampleItem workload key =
     (let ref = \<lparr>mr_namespace = ''n'', mr_secretName = workload @ ''-msp'', mr_secretKind = secretKindMSP, mr_key = key,
            mr_component = ''peer'', mr_workloadName = workload, mr_renewable = True,
            mr_renewalMode = certificateRenewalModeWorkload, mr_csrHosts = []\<rparr>
      in \<lparr>ci_status = (missingStatus ref)\<lparr>cs_State := CertificateStateExpired\<rparr>, ci_ref = ref, ci_raw = ''raw''\<rparr>)"

theorem renewal_requests_partition_witness:
  "\<exists>r \<in> set (certificateRenewalRequests toy_crypto [sampleItem ''peer1'' ''a'', sampleItem ''peer0'' ''a'', sampleItem ''peer1'' ''b'']).
     2 \<in> set (cq_indices r)"
proof -
  let ?items = "[sampleItem ''peer1'' ''a'', sampleItem ''peer0'' ''a'', sampleItem ''peer1'' ''b'']"
  have "2 < length ?items" "mr_renewable (ci_ref (?items ! 2)) \<and> certificateStateNeedsRenewal (cs_State (ci_status (?items ! 2)))"
    by (simp_all add: sampleItem_def Let_def)
  with renewal_requests_partition [of toy_crypto ?items] show ?thesis by blast
qed

text \<open>
  Claim C29. A certificate is reported valid exactly when its Secret is stored, marked as issued by
  the Fabric CA and of the expected kind, holds a parsable certificate under its key, and the time
  of the run is inside its validity period and more than 30 days before its end; renewal Jobs never turn a report
  into a valid one nor take validity away.
\<close>

theorem certificate_valid_iff:
  assumes "kube_api api view"
    and "fst (reconcileCertificateLifecycle cr api net org ns caReady identityReady blocked s) = Inr (statuses, required, message)"
  shows "length statuses = length (managedIdentityCertificateRefs net org ns) \<and>
    (\<forall>i < length statuses. (let ref = managedIdentityCertificateRefs net org ns ! i in
       cs_State (statuses ! i) = CertificateStateValid \<longleftrightarrow>
       (\<exists>secret b cert. view s (KSecret, mr_namespace ref, mr_secretName ref) = Some (OSecret secret) \<and>
          labelOf (sec_Meta secret) labelIdentitySource = identitySourceFabricCA \<and>
          labelOf (sec_Meta secret) labelIdentityKind \<in> {[], mr_secretKind ref} \<and>
          map_of (sec_Data secret) (mr_key ref) = Some b \<and> parsePEMCertificate cr b = Inr cert \<and>
          x_NotBefore cert \<le> fst (k_Now api s) \<and> fst (k_Now api s) + defaultCertificateRenewBefore < x_NotAfter cert)))"
  using kube_api.lifecycle_valid [OF assms] by (simp add: certificateIsValid_def)


lemma lifecycle_waiting:
  assumes "\<not> identityReady \<or> \<not> caReady \<or> blocked"
  shows "snd (reconcileCertificateLifecycle cr api net org ns caReady identityReady blocked s) =
    snd (identityCertificateInventory cr api net org ns (fst (k_Now api s)) (snd (k_Now api s)))"
proof -
  have now: "ioNow api s = (Inr (fst (k_Now api s)), snd (k_Now api s))" by (simp add: ioNow_def split: prod.splits)
  from assms show ?thesis
    by (auto simp: reconcileCertificateLifecycle_def ioBind_def now Let_def ioReturn_def split: prod.splits sum.splits)
qed

lemma mem_getSecret: "mem_faults s = [] \<Longrightarrow> getSecret memKube ns n s = (Inr (secretAt memView s ns n), s)"
  by (auto simp: getSecret_def mem_quiet secretAt_def memView_def objKey_def split: option.splits KObject.splits if_splits)

lemma mem_inventory:
  "mem_faults s = [] \<Longrightarrow> inventoryLoop cr memKube now refs s =
     (Inr (map (\<lambda>ref. inventoryItem cr now ref (secretAt memView s (mr_namespace ref) (mr_secretName ref))) refs), s)"
  by (induction refs) (simp_all add: ioReturn_def ioBind_def mem_getSecret)

lemma mem_lifecycle_waiting:
  assumes "mem_faults s = []"
  shows "\<exists>statuses required message.
    reconcileCertificateLifecycle cr memKube net org ns caReady False blocked s = (Inr (statuses, required, message), s)"
  using assms by (auto simp: reconcileCertificateLifecycle_def identityCertificateInventory_def mem_inventory ioNow_def mem_now
      ioBind_def ioReturn_def Let_def)

definition adminMSPSecret :: Secret where
  "adminMSPSecret = \<lparr>sec_Meta = \<lparr>mt_Name = ''o-admin-msp'', mt_Namespace = ''n'',
     mt_Labels = Some [(labelIdentitySource, identitySourceFabricCA)], mt_Annotations = None\<rparr>,
     sec_Type = ''Opaque'', sec_Data = [(''signcert.pem'', ''Cx'')]\<rparr>"

theorem certificate_valid_iff_witness:
  "\<exists>statuses required message.
     fst (reconcileCertificateLifecycle toy_crypto memKube tinyNetwork tinyOrg ''n'' True False False (storeOf [OSecret adminMSPSecret])) =
       Inr (statuses, required, message) \<and>
     length statuses = 2 \<and> cs_State (statuses ! 0) \<noteq> CertificateStateValid \<and> cs_State (statuses ! 1) = CertificateStateValid"
proof -
  let ?s = "storeOf [OSecret adminMSPSecret]"
  have "mem_faults ?s = []" by (simp add: storeOf_def)
  then obtain statuses required message where
    run: "fst (reconcileCertificateLifecycle toy_crypto memKube tinyNetwork tinyOrg ''n'' True False False ?s) = Inr (statuses, required, message)"
    by (metis mem_lifecycle_waiting fst_conv)
  let ?refs = "managedIdentityCertificateRefs tinyNetwork tinyOrg ''n''"
  have refs: "length ?refs = 2"
    "(mr_namespace (?refs ! 0), mr_secretName (?refs ! 0), mr_key (?refs ! 0)) = (''n'', ''o-admin-msp'', ''cacert.pem'')"
    "(mr_namespace (?refs ! 1), mr_secretName (?refs ! 1), mr_key (?refs ! 1)) = (''n'', ''o-admin-msp'', ''signcert.pem'')"
    by code_simp+
  have store: "memView ?s (KSecret, ''n'', ''o-admin-msp'') = Some (OSecret adminMSPSecret)" "fst (k_Now memKube ?s) = 0"
    by code_simp+
  have secret: "labelOf (sec_Meta adminMSPSecret) labelIdentitySource = identitySourceFabricCA"
    "labelOf (sec_Meta adminMSPSecret) labelIdentityKind = []"
    "map_of (sec_Data adminMSPSecret) ''cacert.pem'' = None" "map_of (sec_Data adminMSPSecret) ''signcert.pem'' = Some ''Cx''"
    by code_simp+
  obtain cert where cert: "parsePEMCertificate toy_crypto ''Cx'' = Inr cert" "x_NotBefore cert = 0" "x_NotAfter cert = 100 * 24 * 60 * 60 * 1000000000"
    by (simp add: parsePEMCertificate_def toy_crypto_def)
  have "defaultCertificateRenewBefore < 100 * 24 * 60 * 60 * 1000000000" by (simp add: defaultCertificateRenewBefore_def second_def)
  with certificate_valid_iff [OF mem.kube_api_axioms run] refs store secret cert run show ?thesis
    by (auto simp: Let_def All_less_Suc2 numeral_2_eq_2)
qed

text \<open>
  Claim C30. Reporting on certificates and renewing them never writes a Secret: the running identity
  material changes only through the renewal Jobs the controller starts. While identity material is
  incomplete, the CA is not ready, or a registrar rotation is under way, no Job is started either:
  the step only reads the clock and the Secrets it reports on.
\<close>

theorem renewal_keeps_secrets:
  assumes "kube_api api view"
  shows "view (snd (reconcileCertificateLifecycle cr api net org ns caReady identityReady blocked s)) (KSecret, ns', n) =
           view s (KSecret, ns', n) \<and>
         (\<not> identityReady \<or> \<not> caReady \<or> blocked \<longrightarrow>
           snd (reconcileCertificateLifecycle cr api net org ns caReady identityReady blocked s) =
           snd (identityCertificateInventory cr api net org ns (fst (k_Now api s)) (snd (k_Now api s))))"
proof (intro conjI impI)
  show "view (snd (reconcileCertificateLifecycle cr api net org ns caReady identityReady blocked s)) (KSecret, ns', n) = view s (KSecret, ns', n)"
    using kube_api.keeps_lifecycle [OF assms, where P = "\<lambda>v. v = view s (KSecret, ns', n)"] by (simp add: ioKeeps_def)
qed (rule lifecycle_waiting)

theorem renewal_keeps_secrets_witness:
  "snd (reconcileCertificateLifecycle toy_crypto memKube tinyNetwork tinyOrg ''n'' True False False (storeOf [OSecret adminMSPSecret])) =
     storeOf [OSecret adminMSPSecret]"
  using renewal_keeps_secrets [OF mem.kube_api_axioms, of toy_crypto tinyNetwork tinyOrg "''n''" True False False "storeOf [OSecret adminMSPSecret]"]
  by (simp add: identityCertificateInventory_def mem_now mem_inventory storeOf_def)

end
