(* ===== verification/Workload_Objects.thy ===== *)
theory Workload_Objects
  imports Cluster Certificate_Lifecycle
begin

text \<open>
  The objects an organization runs on, from \<^verbatim>\<open>fabricnetwork_org.go\<close> and
  \<^verbatim>\<open>fabricnetwork_peer_db.go\<close>: volumes, storage settings, probes, network policy and service
  monitor, the Deployments and Services of CA, orderers, peers and CouchDB, and the \<open>ensure\<close>
  functions that bring stored objects of these kinds in line. The theorems relate Services to the
  pods they select, and show that the in-place update reaches the desired specification and stops
  there.
\<close>

section \<open>Volumes and storage\<close>

definition secretVolumeDefaultMode :: int where "secretVolumeDefaultMode = 420" \<comment> \<open>\<^verbatim>\<open>0644\<close>\<close>

definition mspSecretItems :: "bool \<Rightarrow> (string \<times> string) list" where
  "mspSecretItems tlsEnabled =
     [(''config.yaml'', ''config.yaml''), (''cacert.pem'', ''cacerts/ca.pem''),
      (''signcert.pem'', ''signcerts/cert.pem''), (''keystore.pem'', ''keystore/key.pem'')] @
     (if tlsEnabled then [(''tlscacert.pem'', ''tlscacerts/tlsca.pem'')] else [])"

definition tlsSecretItems :: "(string \<times> string) list" where
  "tlsSecretItems = [(''ca.crt'', ''ca.crt''), (''server.crt'', ''server.crt''), (''server.key'', ''server.key'')]"

definition identityVolumes :: "string \<Rightarrow> bool \<Rightarrow> (string \<times> VolumeSource) list" where
  "identityVolumes workload tlsEnabled =
     [(secretKindMSP, SecretVolume (identitySecretName workload secretKindMSP) (mspSecretItems tlsEnabled) (Some secretVolumeDefaultMode))] @
     (if tlsEnabled
      then [(secretKindTLS, SecretVolume (identitySecretName workload secretKindTLS) tlsSecretItems (Some secretVolumeDefaultMode))]
      else [])"

definition identityVolumeMounts :: "string \<Rightarrow> string \<Rightarrow> bool \<Rightarrow> VolumeMount list" where
  "identityVolumeMounts mspPath tlsPath tlsEnabled =
     [\<lparr>vm_Name = secretKindMSP, vm_MountPath = mspPath, vm_ReadOnly = True\<rparr>] @
     (if tlsEnabled then [\<lparr>vm_Name = secretKindTLS, vm_MountPath = tlsPath, vm_ReadOnly = True\<rparr>] else [])"

definition dataPVCName :: "string \<Rightarrow> string" where
  "dataPVCName workload = sanitizeName (workload @ ''-data'')"

definition dataVolume :: "string \<Rightarrow> string \<times> VolumeSource" where
  "dataVolume workload = (''data'', ClaimVolume (dataPVCName workload))"

definition dataVolumeMount :: "string \<Rightarrow> VolumeMount" where
  "dataVolumeMount path = \<lparr>vm_Name = ''data'', vm_MountPath = path, vm_ReadOnly = False\<rparr>"

record storageSettings =
  ss_size :: string
  ss_storageClassName :: "string option"

definition defaultStorageSize :: "string \<Rightarrow> string" where
  "defaultStorageSize component =
     (if component = ''ca'' then ''1Gi''
      else if component = ''orderer'' then ''5Gi''
      else if component = ''peer'' then ''10Gi''
      else if component = ''couchdb'' then ''10Gi''
      else ''10Gi'')"

definition storageConfigForComponent :: "StorageConfig \<Rightarrow> string \<Rightarrow> ComponentStorageConfig option" where
  "storageConfigForComponent config component =
     (if component = ''ca'' then st_CA config
      else if component = ''orderer'' then st_Orderer config
      else if component = ''peer'' then st_Peer config
      else if component = ''couchdb'' then st_Peer config
      else None)"

definition storageSettingsForComponent :: "FabricNetwork \<Rightarrow> string \<Rightarrow> storageSettings" where
  "storageSettingsForComponent net component =
     (let settings = \<lparr>ss_size = defaultStorageSize component, ss_storageClassName = None\<rparr>
      in case gl_Storage (sp_Global (fn_Spec net)) of
           None \<Rightarrow> settings
         | Some storage \<Rightarrow>
             (case storageConfigForComponent storage component of
                None \<Rightarrow> settings
              | Some config \<Rightarrow> \<lparr>ss_size = (if st_Size config \<noteq> [] then st_Size config else ss_size settings),
                                ss_storageClassName = st_StorageClassName config\<rparr>))"

definition buildDataPVC ::
  "'s Cluster \<Rightarrow> FabricNetwork \<Rightarrow> Org \<Rightarrow> string \<Rightarrow> string \<Rightarrow> string \<Rightarrow> ApiError + PersistentVolumeClaim" where
  "buildDataPVC cl net org namespace workload component =
     (let settings = storageSettingsForComponent net component
      in case cl_ParseQuantity cl (ss_size settings) of
           Inl e \<Rightarrow> Inl (OtherError (''invalid '' @ component @ '' storage size '' @ goquote (ss_size settings) @ '': '' @ e))
         | Inr quantity \<Rightarrow> Inr
             \<lparr>pvc_Meta = \<lparr>mt_Name = dataPVCName workload, mt_Namespace = namespace,
                mt_Labels = Some (go_set (orgLabels net org component) labelWorkload workload),
                mt_Annotations = Some (resourceAnnotations net org)\<rparr>,
              pvc_AccessModes = [''ReadWriteOnce''], pvc_StorageClassName = ss_storageClassName settings, pvc_Storage = quantity\<rparr>)"

section \<open>Service monitor and network policy\<close>

definition labelOrdererGroup :: string where "labelOrdererGroup = ''fabricops.io/orderer-group''"
definition labelInstance :: string where "labelInstance = ''fabricops.io/instance''"
definition labelEndpoint :: string where "labelEndpoint = ''fabricops.io/endpoint''"
definition endpointOperations :: string where "endpointOperations = ''operations''"

lemmas workload_label_names = label_names labelOrdererGroup_def labelInstance_def labelEndpoint_def

definition mergeMap :: "(string, string) gomap \<Rightarrow> (string, string) gomap \<Rightarrow> (string, string) gomap" where
  "mergeMap base extra = foldl (\<lambda>m kv. go_set m (fst kv) (snd kv)) base extra"

definition operationsServiceLabels :: "FabricNetwork \<Rightarrow> Org \<Rightarrow> string \<Rightarrow> string \<Rightarrow> (string, string) gomap" where
  "operationsServiceLabels net org component workload =
     go_set (go_set (go_set (orgLabels net org component) labelEndpoint endpointOperations) labelWorkload workload)
       labelAppComponent (component @ ''-operations'')"

definition serviceMonitorConfig :: "FabricNetwork \<Rightarrow> ServiceMonitorConfig option" where
  "serviceMonitorConfig net =
     (case gl_Observability (sp_Global (fn_Spec net)) of None \<Rightarrow> None | Some obs \<Rightarrow> obs_ServiceMonitor obs)"

definition serviceMonitorEnabled :: "FabricNetwork \<Rightarrow> bool" where
  "serviceMonitorEnabled net = (case serviceMonitorConfig net of None \<Rightarrow> False | Some c \<Rightarrow> sm_Enabled c)"

definition networkPolicyEnabled :: "FabricNetwork \<Rightarrow> bool" where
  "networkPolicyEnabled net = (case gl_NetworkPolicy (sp_Global (fn_Spec net)) of None \<Rightarrow> False | Some c \<Rightarrow> np_Enabled c)"

definition serviceMonitorName :: "FabricNetwork \<Rightarrow> Org \<Rightarrow> string" where
  "serviceMonitorName net org = sanitizeName (networkNamespaceSlug net @ ''-'' @ om_Name (org_Organization org) @ ''-operations'')"

definition serviceMonitorInterval :: "FabricNetwork \<Rightarrow> string" where
  "serviceMonitorInterval net =
     (case serviceMonitorConfig net of Some c \<Rightarrow> if sm_Interval c \<noteq> [] then sm_Interval c else ''30s'' | None \<Rightarrow> ''30s'')"

definition serviceMonitorScrapeTimeout :: "FabricNetwork \<Rightarrow> string" where
  "serviceMonitorScrapeTimeout net =
     (case serviceMonitorConfig net of Some c \<Rightarrow> if sm_ScrapeTimeout c \<noteq> [] then sm_ScrapeTimeout c else ''10s'' | None \<Rightarrow> ''10s'')"

definition serviceMonitorMetadataLabels :: "FabricNetwork \<Rightarrow> Org \<Rightarrow> (string, string) gomap" where
  "serviceMonitorMetadataLabels net org =
     mergeMap (case serviceMonitorConfig net of None \<Rightarrow> [] | Some c \<Rightarrow> sm_Labels c) (orgLabels net org ''monitor'')"

definition serviceMonitorSelectorLabels :: "FabricNetwork \<Rightarrow> Org \<Rightarrow> (string, string) gomap" where
  "serviceMonitorSelectorLabels net org =
     [(labelFabricNetwork, sanitizeName (fn_Name net)), (labelFabricNetworkNamespace, sanitizeName (fn_Namespace net)),
      (labelOrg, sanitizeName (om_Name (org_Organization org))), (labelEndpoint, endpointOperations)]"

definition orgBoundaryNetworkPolicyName :: string where "orgBoundaryNetworkPolicyName = ''fabricops-org-boundary''"

definition fabricNetworkNamespaceSelectorLabels :: "FabricNetwork \<Rightarrow> (string, string) gomap" where
  "fabricNetworkNamespaceSelectorLabels net =
     [(labelFabricNetwork, sanitizeName (fn_Name net)), (labelFabricNetworkNamespace, sanitizeName (fn_Namespace net)),
      (labelAppManagedBy, ''fabricops'')]"

definition fabricNetworkPodSelectorLabels :: "FabricNetwork \<Rightarrow> (string, string) gomap" where
  "fabricNetworkPodSelectorLabels net = baseLabels net"

definition orgPodSelectorLabels :: "FabricNetwork \<Rightarrow> Org \<Rightarrow> (string, string) gomap" where
  "orgPodSelectorLabels net org =
     go_set (fabricNetworkPodSelectorLabels net) labelOrg (sanitizeName (om_Name (org_Organization org)))"

definition sameFabricNetworkPeer :: "FabricNetwork \<Rightarrow> NetworkPolicyPeer" where
  "sameFabricNetworkPeer net =
     \<lparr>npp_NamespaceSelector = Some (fabricNetworkNamespaceSelectorLabels net), npp_PodSelector = Some (fabricNetworkPodSelectorLabels net)\<rparr>"

definition kubeSystemNamespacePeer :: NetworkPolicyPeer where
  "kubeSystemNamespacePeer =
     \<lparr>npp_NamespaceSelector = Some [(''kubernetes.io/metadata.name'', ''kube-system'')], npp_PodSelector = None\<rparr>"

definition networkPolicyPort :: "string \<Rightarrow> int \<Rightarrow> NetworkPolicyPort" where
  "networkPolicyPort protocol port = \<lparr>npt_Protocol = protocol, npt_Port = IntPort port\<rparr>"

definition buildOrgNetworkPolicy :: "FabricNetwork \<Rightarrow> Org \<Rightarrow> string \<Rightarrow> NetworkPolicy" where
  "buildOrgNetworkPolicy net org namespace =
     (let sameNetworkPeer = sameFabricNetworkPeer net
      in \<lparr>np_Meta = \<lparr>mt_Name = orgBoundaryNetworkPolicyName, mt_Namespace = namespace,
            mt_Labels = Some (orgLabels net org ''network''), mt_Annotations = Some (resourceAnnotations net org)\<rparr>,
          np_Spec = \<lparr>nps_PodSelector = orgPodSelectorLabels net org, nps_PolicyTypes = [''Ingress'', ''Egress''],
            nps_Ingress = [\<lparr>npr_Peers = [sameNetworkPeer], npr_Ports = []\<rparr>],
            nps_Egress = [\<lparr>npr_Peers = [sameNetworkPeer], npr_Ports = []\<rparr>,
              \<lparr>npr_Peers = [kubeSystemNamespacePeer], npr_Ports = [networkPolicyPort ''UDP'' 53, networkPolicyPort ''TCP'' 53]\<rparr>,
              \<lparr>npr_Peers = [], npr_Ports = [networkPolicyPort ''TCP'' 443, networkPolicyPort ''TCP'' 6443]\<rparr>]\<rparr>\<rparr>)"

definition stringMapInterface :: "(string, string) gomap \<Rightarrow> unstructured" where
  "stringMapInterface values = UMap (map (\<lambda>(k, v). (k, UString v)) values)"

definition buildOrgServiceMonitor :: "FabricNetwork \<Rightarrow> Org \<Rightarrow> string \<Rightarrow> ServiceMonitor" where
  "buildOrgServiceMonitor net org namespace =
     \<lparr>sm_Meta = \<lparr>mt_Name = serviceMonitorName net org, mt_Namespace = namespace,
        mt_Labels = Some (serviceMonitorMetadataLabels net org), mt_Annotations = Some (resourceAnnotations net org)\<rparr>,
      sm_Spec = Some (UMap [
        (''selector'', UMap [(''matchLabels'', stringMapInterface (serviceMonitorSelectorLabels net org))]),
        (''endpoints'', UList [UMap [
           (''port'', UString endpointOperations), (''path'', UString ''/metrics''), (''scheme'', UString ''http''),
           (''interval'', UString (serviceMonitorInterval net)), (''scrapeTimeout'', UString (serviceMonitorScrapeTimeout net)),
           (''honorLabels'', UBool True), (''honorTimestamps'', UBool True)]])])\<rparr>"

section \<open>Probes and images\<close>

definition tcpSocketProbe :: "int \<Rightarrow> int \<Rightarrow> int \<Rightarrow> int \<Rightarrow> int \<Rightarrow> Probe" where
  "tcpSocketProbe port initialDelaySeconds periodSeconds timeoutSeconds failureThreshold =
     \<lparr>pb_Handler = TCPSocket (IntPort port), pb_InitialDelaySeconds = initialDelaySeconds, pb_PeriodSeconds = periodSeconds,
      pb_TimeoutSeconds = timeoutSeconds, pb_SuccessThreshold = 1, pb_FailureThreshold = failureThreshold\<rparr>"

definition tcpReadinessProbe :: "int \<Rightarrow> Probe" where "tcpReadinessProbe port = tcpSocketProbe port 5 10 2 6"

definition tcpLivenessProbe :: "int \<Rightarrow> Probe" where "tcpLivenessProbe port = tcpSocketProbe port 30 20 2 3"

definition operationsHealthProbe :: "int \<Rightarrow> int \<Rightarrow> int \<Rightarrow> int \<Rightarrow> Probe" where
  "operationsHealthProbe initialDelaySeconds periodSeconds timeoutSeconds failureThreshold =
     \<lparr>pb_Handler = HTTPGet ''/healthz'' (NamedPort endpointOperations) ''HTTP'', pb_InitialDelaySeconds = initialDelaySeconds,
      pb_PeriodSeconds = periodSeconds, pb_TimeoutSeconds = timeoutSeconds, pb_SuccessThreshold = 1,
      pb_FailureThreshold = failureThreshold\<rparr>"

definition operationsReadinessProbe :: Probe where "operationsReadinessProbe = operationsHealthProbe 5 10 2 6"

definition fabricComponentImage :: "string \<Rightarrow> string \<Rightarrow> string" where
  "fabricComponentImage component version =
     ''hyperledger/fabric-'' @ component @ '':'' @ (if version = [] then ''2.5.12'' else version)"

section \<open>Deployments and Services\<close>

definition tcpPort :: "int \<Rightarrow> string \<Rightarrow> ContainerPort" where
  "tcpPort port name = \<lparr>cp_ContainerPort = port, cp_Name = name, cp_Protocol = ''TCP''\<rparr>"

definition tcpServicePort :: "string \<Rightarrow> int \<Rightarrow> ServicePort" where
  "tcpServicePort name port = \<lparr>svp_Name = name, svp_Port = port, svp_Protocol = ''TCP'', svp_TargetPort = IntPort port\<rparr>"

definition secretKeyEnvVar :: "string \<Rightarrow> string \<Rightarrow> string \<Rightarrow> string \<times> EnvSource" where
  "secretKeyEnvVar name secretName key = (name, EnvSecretKey secretName key)"

text \<open>The part all four Deployments share: one replica, recreated on change, no status yet.\<close>

definition singleReplicaDeployment ::
  "FabricNetwork \<Rightarrow> Org \<Rightarrow> string \<Rightarrow> string \<Rightarrow> (string, string) gomap \<Rightarrow> (string, string) gomap \<Rightarrow>
     (string \<times> VolumeSource) list \<Rightarrow> Container \<Rightarrow> Deployment" where
  "singleReplicaDeployment net org name namespace selector labels volumes container =
     \<lparr>dep_Meta = \<lparr>mt_Name = name, mt_Namespace = namespace, mt_Labels = Some labels, mt_Annotations = Some (resourceAnnotations net org)\<rparr>,
      dep_Generation = 0, dep_Replicas = Some 1, dep_Strategy = ''Recreate'', dep_Selector = selector,
      dep_PodLabels = Some labels, dep_PodAnnotations = Some (resourceAnnotations net org),
      dep_Volumes = volumes, dep_Containers = [container],
      dep_ObservedGeneration = 0, dep_ReadyReplicas = 0, dep_UpdatedReplicas = 0, dep_AvailableReplicas = 0\<rparr>"

definition caName :: "Org \<Rightarrow> string" where
  "caName org = sanitizeName (om_Name (org_Organization org) @ ''-ca'')"

definition caHomePath :: string where "caHomePath = ''/etc/hyperledger/fabric-ca-server''"
definition ordererMSPPath :: string where "ordererMSPPath = ''/var/hyperledger/orderer/msp''"
definition ordererTLSPath :: string where "ordererTLSPath = ''/var/hyperledger/orderer/tls''"
definition peerMSPPath :: string where "peerMSPPath = ''/etc/hyperledger/fabric/peer/msp''"
definition peerTLSPath :: string where "peerTLSPath = ''/etc/hyperledger/fabric/peer/tls''"
definition couchDBDataPath :: string where "couchDBDataPath = ''/opt/couchdb/data''"
definition fabricProductionPath :: string where "fabricProductionPath = ''/var/hyperledger/production''"

definition buildCADeployment :: "FabricNetwork \<Rightarrow> Org \<Rightarrow> string \<Rightarrow> Deployment" where
  "buildCADeployment net org namespace =
     (let name = caName org; labels = orgLabels net org ''ca''
      in singleReplicaDeployment net org name namespace labels labels [dataVolume name]
           \<lparr>ct_Name = ''fabric-ca'', ct_Image = caImage, ct_ImagePullPolicy = [],
            ct_Command = CommandLine [''sh'', ''-c'', ''fabric-ca-server start -b \"$FABRIC_CA_SERVER_BOOTSTRAP_USER_PASS\" -d''],
            ct_Args = [],
            ct_Env = [(''FABRIC_CA_HOME'', EnvValue caHomePath),
              (''FABRIC_CA_SERVER_CA_NAME'', EnvValue (sanitizeName (om_Name (org_Organization org)))),
              (''FABRIC_CA_SERVER_PORT'', EnvValue (itoa caPort)),
              secretKeyEnvVar ''FABRIC_CA_SERVER_BOOTSTRAP_USER_PASS'' (caBootstrapSecretName org) ''user-pass''],
            ct_Ports = [tcpPort caPort ''ca''],
            ct_ReadinessProbe = Some (tcpReadinessProbe caPort), ct_LivenessProbe = Some (tcpLivenessProbe caPort),
            ct_Resources = componentResourceRequirements ''ca'', ct_VolumeMounts = [dataVolumeMount caHomePath]\<rparr>)"

definition buildCAService :: "FabricNetwork \<Rightarrow> Org \<Rightarrow> string \<Rightarrow> Service" where
  "buildCAService net org namespace =
     (let labels = orgLabels net org ''ca''
      in \<lparr>svc_Meta = \<lparr>mt_Name = caName org, mt_Namespace = namespace, mt_Labels = Some labels,
            mt_Annotations = Some (resourceAnnotations net org)\<rparr>,
          svc_Selector = Some labels, svc_Ports = [tcpServicePort ''ca'' caPort]\<rparr>)"

definition ordererSelector :: "FabricNetwork \<Rightarrow> Org \<Rightarrow> OrdererGroup \<Rightarrow> nat \<Rightarrow> (string, string) gomap" where
  "ordererSelector net org grp instanceNo =
     [(labelFabricNetwork, sanitizeName (fn_Name net)), (labelFabricNetworkNamespace, sanitizeName (fn_Namespace net)),
      (labelOrg, sanitizeName (om_Name (org_Organization org))), (labelComponent, ''orderer''),
      (labelOrdererGroup, sanitizeName (og_GroupName grp)), (labelInstance, itoa_nat instanceNo)]"

definition ordererEnv :: "FabricNetwork \<Rightarrow> Org \<Rightarrow> (string \<times> EnvSource) list" where
  "ordererEnv net org =
     [(''ORDERER_GENERAL_LISTENADDRESS'', EnvValue ''0.0.0.0''),
      (''ORDERER_GENERAL_LISTENPORT'', EnvValue (itoa ordererPort)),
      (''ORDERER_GENERAL_BOOTSTRAPMETHOD'', EnvValue ''none''),
      (''ORDERER_GENERAL_LOCALMSPID'', EnvValue (om_MSPName (org_Organization org))),
      (''ORDERER_GENERAL_LOCALMSPDIR'', EnvValue ordererMSPPath),
      (''ORDERER_CHANNELPARTICIPATION_ENABLED'', EnvValue ''true''),
      (''ORDERER_ADMIN_LISTENADDRESS'', EnvValue (''0.0.0.0:'' @ itoa ordererAdminPort)),
      (''ORDERER_OPERATIONS_LISTENADDRESS'', EnvValue (''0.0.0.0:'' @ itoa ordererOpsPort)),
      (''ORDERER_OPERATIONS_TLS_ENABLED'', EnvValue ''false''),
      (''ORDERER_METRICS_PROVIDER'', EnvValue ''prometheus'')] @
     (if tlsOn net then
       [(''ORDERER_GENERAL_TLS_ENABLED'', EnvValue ''true''),
        (''ORDERER_GENERAL_TLS_PRIVATEKEY'', EnvValue (ordererTLSPath @ ''/server.key'')),
        (''ORDERER_GENERAL_TLS_CERTIFICATE'', EnvValue (ordererTLSPath @ ''/server.crt'')),
        (''ORDERER_GENERAL_TLS_ROOTCAS'', EnvValue (''['' @ ordererTLSPath @ ''/ca.crt]'')),
        (''ORDERER_GENERAL_CLUSTER_CLIENTCERTIFICATE'', EnvValue (ordererTLSPath @ ''/server.crt'')),
        (''ORDERER_GENERAL_CLUSTER_CLIENTPRIVATEKEY'', EnvValue (ordererTLSPath @ ''/server.key'')),
        (''ORDERER_GENERAL_CLUSTER_ROOTCAS'', EnvValue (''['' @ ordererTLSPath @ ''/ca.crt]'')),
        (''ORDERER_ADMIN_TLS_ENABLED'', EnvValue ''true''),
        (''ORDERER_ADMIN_TLS_PRIVATEKEY'', EnvValue (ordererTLSPath @ ''/server.key'')),
        (''ORDERER_ADMIN_TLS_CERTIFICATE'', EnvValue (ordererTLSPath @ ''/server.crt'')),
        (''ORDERER_ADMIN_TLS_ROOTCAS'', EnvValue (''['' @ ordererTLSPath @ ''/ca.crt]'')),
        (''ORDERER_ADMIN_TLS_CLIENTAUTHREQUIRED'', EnvValue ''true''),
        (''ORDERER_ADMIN_TLS_CLIENTROOTCAS'', EnvValue (''['' @ ordererTLSPath @ ''/ca.crt]''))]
      else [])"

definition buildOrdererDeployment :: "FabricNetwork \<Rightarrow> Org \<Rightarrow> OrdererGroup \<Rightarrow> nat \<Rightarrow> string \<Rightarrow> Deployment" where
  "buildOrdererDeployment net org grp instanceNo namespace =
     (let name = workloadName (og_Prefix grp) instanceNo;
          labels = mergeMap (orgLabels net org ''orderer'')
            [(labelOrdererGroup, sanitizeName (og_GroupName grp)), (labelInstance, itoa_nat instanceNo), (labelWorkload, name)]
      in singleReplicaDeployment net org name namespace (ordererSelector net org grp instanceNo) labels
           (identityVolumes name (tlsOn net) @ [dataVolume name])
           \<lparr>ct_Name = ''orderer'', ct_Image = fabricComponentImage ''orderer'' (gl_FabricVersion (sp_Global (fn_Spec net))),
            ct_ImagePullPolicy = [], ct_Command = ImageCommand, ct_Args = [], ct_Env = ordererEnv net org,
            ct_Ports = [tcpPort ordererPort ''orderer'', tcpPort ordererAdminPort ''admin'', tcpPort ordererOpsPort endpointOperations],
            ct_ReadinessProbe = Some operationsReadinessProbe, ct_LivenessProbe = Some (tcpLivenessProbe ordererPort),
            ct_Resources = componentResourceRequirements ''orderer'',
            ct_VolumeMounts = identityVolumeMounts ordererMSPPath ordererTLSPath (tlsOn net) @ [dataVolumeMount fabricProductionPath]\<rparr>)"

definition buildOrdererService :: "FabricNetwork \<Rightarrow> Org \<Rightarrow> OrdererGroup \<Rightarrow> nat \<Rightarrow> string \<Rightarrow> Service" where
  "buildOrdererService net org grp instanceNo namespace =
     (let selector = ordererSelector net org grp instanceNo
      in \<lparr>svc_Meta = \<lparr>mt_Name = workloadName (og_Prefix grp) instanceNo, mt_Namespace = namespace,
            mt_Labels = Some (mergeMap (orgLabels net org ''orderer'') selector), mt_Annotations = Some (resourceAnnotations net org)\<rparr>,
          svc_Selector = Some selector,
          svc_Ports = [tcpServicePort ''orderer'' ordererPort, tcpServicePort ''admin'' ordererAdminPort]\<rparr>)"

definition buildOrdererOperationsService :: "FabricNetwork \<Rightarrow> Org \<Rightarrow> OrdererGroup \<Rightarrow> nat \<Rightarrow> string \<Rightarrow> Service" where
  "buildOrdererOperationsService net org grp instanceNo namespace =
     (let name = workloadName (og_Prefix grp) instanceNo;
          labels = go_set (go_set (operationsServiceLabels net org ''orderer'' name) labelOrdererGroup (sanitizeName (og_GroupName grp)))
            labelInstance (itoa_nat instanceNo)
      in \<lparr>svc_Meta = \<lparr>mt_Name = operationsServiceName name, mt_Namespace = namespace, mt_Labels = Some labels,
            mt_Annotations = Some (resourceAnnotations net org)\<rparr>,
          svc_Selector = Some (ordererSelector net org grp instanceNo),
          svc_Ports = [tcpServicePort endpointOperations ordererOpsPort]\<rparr>)"

text \<open>Only called for organizations with a peer section.\<close>

definition peerPrefix :: "Org \<Rightarrow> string" where
  "peerPrefix org = (case org_Peer org of None \<Rightarrow> [] | Some p \<Rightarrow> pc_Prefix p)"

definition peerSelector :: "FabricNetwork \<Rightarrow> Org \<Rightarrow> nat \<Rightarrow> (string, string) gomap" where
  "peerSelector net org instanceNo =
     [(labelFabricNetwork, sanitizeName (fn_Name net)), (labelFabricNetworkNamespace, sanitizeName (fn_Namespace net)),
      (labelOrg, sanitizeName (om_Name (org_Organization org))), (labelComponent, ''peer''), (labelInstance, itoa_nat instanceNo)]"

definition ccaasBuilderConfig :: "string \<Rightarrow> string" where
  "ccaasBuilderConfig peerName = ''{'' @ [CHR 0x22] @ ''peer_hostname'' @ [CHR 0x22] @ '':'' @ [CHR 0x22] @ sanitizeName peerName @ [CHR 0x22] @ ''}''"

definition couchDBPeerEnv :: "string \<Rightarrow> string \<Rightarrow> (string \<times> EnvSource) list" where
  "couchDBPeerEnv peerName namespace =
     [(''CORE_LEDGER_STATE_STATEDATABASE'', EnvValue ''CouchDB''),
      (''CORE_LEDGER_STATE_COUCHDBCONFIG_COUCHDBADDRESS'', EnvValue (couchDBAddress peerName namespace)),
      secretKeyEnvVar ''CORE_LEDGER_STATE_COUCHDBCONFIG_USERNAME'' (couchDBSecretName peerName) ''username'',
      secretKeyEnvVar ''CORE_LEDGER_STATE_COUCHDBCONFIG_PASSWORD'' (couchDBSecretName peerName) ''password'',
      (''CORE_LEDGER_STATE_COUCHDBCONFIG_MAXRETRIES'', EnvValue ''10''),
      (''CORE_LEDGER_STATE_COUCHDBCONFIG_MAXRETRIESONSTARTUP'', EnvValue ''10''),
      (''CORE_LEDGER_STATE_COUCHDBCONFIG_REQUESTTIMEOUT'', EnvValue ''35s'')]"

definition peerEnv :: "FabricNetwork \<Rightarrow> Org \<Rightarrow> string \<Rightarrow> string \<Rightarrow> (string \<times> EnvSource) list" where
  "peerEnv net org name namespace =
     (let peer = \<lparr>pi_org = org, pi_name = name, pi_namespace = namespace\<rparr>
      in [(''CORE_PEER_ID'', EnvValue name),
          (''CORE_PEER_ADDRESS'', EnvValue (peerAddress peer)),
          (''CORE_PEER_LISTENADDRESS'', EnvValue (''0.0.0.0:'' @ itoa peerPort)),
          (''CORE_PEER_CHAINCODEADDRESS'', EnvValue (serviceDNS name namespace peerChaincodePort)),
          (''CORE_PEER_CHAINCODELISTENADDRESS'', EnvValue (''0.0.0.0:'' @ itoa peerChaincodePort)),
          (''CORE_PEER_GOSSIP_ENDPOINT'', EnvValue (peerAddress peer)),
          (''CORE_PEER_GOSSIP_EXTERNALENDPOINT'', EnvValue (peerAdvertisedAddress peer)),
          (''CORE_PEER_LOCALMSPID'', EnvValue (om_MSPName (org_Organization org))),
          (''CORE_PEER_MSPCONFIGPATH'', EnvValue peerMSPPath),
          (''CORE_VM_ENDPOINT'', EnvValue []),
          (''CHAINCODE_AS_A_SERVICE_BUILDER_CONFIG'', EnvValue (ccaasBuilderConfig name)),
          (''CORE_OPERATIONS_LISTENADDRESS'', EnvValue (''0.0.0.0:'' @ itoa peerOpsPort)),
          (''CORE_OPERATIONS_TLS_ENABLED'', EnvValue ''false''),
          (''CORE_METRICS_PROVIDER'', EnvValue ''prometheus'')] @
         (if tlsOn net then
           [(''CORE_PEER_TLS_ENABLED'', EnvValue ''true''),
            (''CORE_PEER_TLS_CERT_FILE'', EnvValue (peerTLSPath @ ''/server.crt'')),
            (''CORE_PEER_TLS_KEY_FILE'', EnvValue (peerTLSPath @ ''/server.key'')),
            (''CORE_PEER_TLS_ROOTCERT_FILE'', EnvValue (peerTLSPath @ ''/ca.crt''))]
          else []) @
         (if peerUsesCouchDB org then couchDBPeerEnv name namespace else []))"

definition buildPeerDeployment :: "FabricNetwork \<Rightarrow> Org \<Rightarrow> nat \<Rightarrow> string \<Rightarrow> Deployment" where
  "buildPeerDeployment net org instanceNo namespace =
     (let name = workloadName (peerPrefix org) instanceNo;
          labels = mergeMap (orgLabels net org ''peer'') [(labelInstance, itoa_nat instanceNo), (labelWorkload, name)]
      in singleReplicaDeployment net org name namespace (peerSelector net org instanceNo) labels
           (identityVolumes name (tlsOn net) @ [dataVolume name])
           \<lparr>ct_Name = ''peer'', ct_Image = fabricComponentImage ''peer'' (gl_FabricVersion (sp_Global (fn_Spec net))),
            ct_ImagePullPolicy = [], ct_Command = ImageCommand, ct_Args = [], ct_Env = peerEnv net org name namespace,
            ct_Ports = [tcpPort peerPort ''peer'', tcpPort peerChaincodePort ''chaincode'', tcpPort peerOpsPort endpointOperations],
            ct_ReadinessProbe = Some (tcpReadinessProbe peerPort), ct_LivenessProbe = Some (tcpLivenessProbe peerPort),
            ct_Resources = componentResourceRequirements ''peer'',
            ct_VolumeMounts = identityVolumeMounts peerMSPPath peerTLSPath (tlsOn net) @ [dataVolumeMount fabricProductionPath]\<rparr>)"

definition buildPeerService :: "FabricNetwork \<Rightarrow> Org \<Rightarrow> nat \<Rightarrow> string \<Rightarrow> Service" where
  "buildPeerService net org instanceNo namespace =
     (let selector = peerSelector net org instanceNo
      in \<lparr>svc_Meta = \<lparr>mt_Name = workloadName (peerPrefix org) instanceNo, mt_Namespace = namespace,
            mt_Labels = Some (mergeMap (orgLabels net org ''peer'') selector), mt_Annotations = Some (resourceAnnotations net org)\<rparr>,
          svc_Selector = Some selector,
          svc_Ports = [tcpServicePort ''peer'' peerPort, tcpServicePort ''chaincode'' peerChaincodePort]\<rparr>)"

definition buildPeerOperationsService :: "FabricNetwork \<Rightarrow> Org \<Rightarrow> nat \<Rightarrow> string \<Rightarrow> Service" where
  "buildPeerOperationsService net org instanceNo namespace =
     (let name = workloadName (peerPrefix org) instanceNo
      in \<lparr>svc_Meta = \<lparr>mt_Name = operationsServiceName name, mt_Namespace = namespace,
            mt_Labels = Some (go_set (operationsServiceLabels net org ''peer'' name) labelInstance (itoa_nat instanceNo)),
            mt_Annotations = Some (resourceAnnotations net org)\<rparr>,
          svc_Selector = Some (peerSelector net org instanceNo),
          svc_Ports = [tcpServicePort endpointOperations peerOpsPort]\<rparr>)"

section \<open>CouchDB\<close>

definition couchDBStartupArgs :: "string list" where
  "couchDBStartupArgs = [''+S'', ''2:2'', ''+SDcpu'', ''2'', ''+SDio'', ''2'']"

definition couchDBSecretValidationError :: "Secret \<Rightarrow> string" where
  "couchDBSecretValidationError secret =
     (if trimSpace (go_get (sec_Data secret) ''username'') = [] then ''username is required''
      else if trimSpace (go_get (sec_Data secret) ''password'') = [] then ''password is required''
      else [])"

definition buildCouchDBSecret :: "'s Kube \<Rightarrow> FabricNetwork \<Rightarrow> Org \<Rightarrow> string \<Rightarrow> string \<Rightarrow> ('s, Secret) io" where
  "buildCouchDBSecret api net org namespace peerName =
     ioBind (generateBootstrapPassword api) (\<lambda>password.
       ioReturn \<lparr>sec_Meta = \<lparr>mt_Name = couchDBSecretName peerName, mt_Namespace = namespace,
           mt_Labels = Some (go_set (orgLabels net org ''couchdb'') labelWorkload peerName),
           mt_Annotations = Some (resourceAnnotations net org)\<rparr>,
         sec_Type = ''Opaque'', sec_Data = [(''username'', couchDBUsername peerName), (''password'', password)]\<rparr>)"

definition couchDBSelector :: "FabricNetwork \<Rightarrow> Org \<Rightarrow> string \<Rightarrow> (string, string) gomap" where
  "couchDBSelector net org peerName =
     [(labelFabricNetwork, sanitizeName (fn_Name net)), (labelFabricNetworkNamespace, sanitizeName (fn_Namespace net)),
      (labelOrg, sanitizeName (om_Name (org_Organization org))), (labelComponent, ''couchdb''), (labelWorkload, peerName)]"

definition buildCouchDBDeployment :: "FabricNetwork \<Rightarrow> Org \<Rightarrow> string \<Rightarrow> string \<Rightarrow> Deployment" where
  "buildCouchDBDeployment net org peerName namespace =
     (let name = couchDBName peerName; labels = mergeMap (orgLabels net org ''couchdb'') [(labelWorkload, peerName)]
      in singleReplicaDeployment net org name namespace (couchDBSelector net org peerName) labels [dataVolume name]
           \<lparr>ct_Name = ''couchdb'', ct_Image = ''couchdb:3.3.3'', ct_ImagePullPolicy = ''IfNotPresent'', ct_Command = ImageCommand,
            ct_Args = couchDBStartupArgs,
            ct_Env = [secretKeyEnvVar ''COUCHDB_USER'' (couchDBSecretName peerName) ''username'',
              secretKeyEnvVar ''COUCHDB_PASSWORD'' (couchDBSecretName peerName) ''password''],
            ct_Ports = [tcpPort couchDBPort ''couchdb''],
            ct_ReadinessProbe = Some (tcpReadinessProbe couchDBPort), ct_LivenessProbe = Some (tcpLivenessProbe couchDBPort),
            ct_Resources = componentResourceRequirements ''couchdb'', ct_VolumeMounts = [dataVolumeMount couchDBDataPath]\<rparr>)"

definition buildCouchDBService :: "FabricNetwork \<Rightarrow> Org \<Rightarrow> string \<Rightarrow> string \<Rightarrow> Service" where
  "buildCouchDBService net org peerName namespace =
     \<lparr>svc_Meta = \<lparr>mt_Name = couchDBName peerName, mt_Namespace = namespace,
        mt_Labels = Some (mergeMap (orgLabels net org ''couchdb'') [(labelWorkload, peerName)]),
        mt_Annotations = Some (resourceAnnotations net org)\<rparr>,
      svc_Selector = Some (couchDBSelector net org peerName), svc_Ports = [tcpServicePort ''couchdb'' couchDBPort]\<rparr>"

section \<open>Bringing stored objects in line\<close>

text \<open>\<open>reflect.DeepEqual\<close> on maps tells a nil map from an empty one; keys are distinct.\<close>

definition mapEntriesEqual :: "('k, 'v) gomap \<Rightarrow> ('k, 'v) gomap \<Rightarrow> bool" where
  "mapEntriesEqual a b \<longleftrightarrow> length a = length b \<and> list_all (\<lambda>(k, v). map_of b k = Some v) a"

fun mapDeepEqual :: "('k, 'v) gomap option \<Rightarrow> ('k, 'v) gomap option \<Rightarrow> bool" where
  "mapDeepEqual None None = True"
| "mapDeepEqual (Some a) (Some b) = mapEntriesEqual a b"
| "mapDeepEqual _ _ = False"

text \<open>The fields of a container the operator manages, taken over from the desired one.\<close>

definition syncContainer :: "Container \<Rightarrow> Container \<Rightarrow> bool \<times> Container" where
  "syncContainer existing desired =
     (if ct_Name existing \<noteq> ct_Name desired then (True, desired)
      else (ct_Image existing \<noteq> ct_Image desired \<or> ct_ImagePullPolicy existing \<noteq> ct_ImagePullPolicy desired \<or>
            ct_Command existing \<noteq> ct_Command desired \<or> ct_Args existing \<noteq> ct_Args desired \<or> ct_Env existing \<noteq> ct_Env desired \<or>
            ct_Ports existing \<noteq> ct_Ports desired \<or> ct_ReadinessProbe existing \<noteq> ct_ReadinessProbe desired \<or>
            ct_LivenessProbe existing \<noteq> ct_LivenessProbe desired \<or> ct_VolumeMounts existing \<noteq> ct_VolumeMounts desired \<or>
            ct_Resources existing \<noteq> ct_Resources desired,
            existing\<lparr>ct_Image := ct_Image desired, ct_ImagePullPolicy := ct_ImagePullPolicy desired, ct_Command := ct_Command desired,
              ct_Args := ct_Args desired, ct_Env := ct_Env desired, ct_Ports := ct_Ports desired,
              ct_ReadinessProbe := ct_ReadinessProbe desired, ct_LivenessProbe := ct_LivenessProbe desired,
              ct_VolumeMounts := ct_VolumeMounts desired, ct_Resources := ct_Resources desired\<rparr>))"

definition syncManagedContainers :: "Container list \<Rightarrow> Container list \<Rightarrow> Container list \<times> bool" where
  "syncManagedContainers existing desired =
     (if length existing \<noteq> length desired then (desired, True)
      else (let synced = map2 syncContainer existing desired in (map snd synced, list_ex fst synced)))"

definition mutateDeployment :: "Deployment \<Rightarrow> KObject \<Rightarrow> bool \<times> KObject" where
  "mutateDeployment desired ob =
     (case ob of
        ODeployment existing \<Rightarrow>
          (let (c1, meta) = mergeLabelsInline (dep_Meta existing) (dep_Meta desired);
               c2 = (dep_Replicas existing \<noteq> dep_Replicas desired);
               c3 = (dep_Strategy existing \<noteq> dep_Strategy desired);
               c4 = (\<not> mapDeepEqual (dep_PodLabels existing) (dep_PodLabels desired));
               c5 = (\<not> mapDeepEqual (dep_PodAnnotations existing) (dep_PodAnnotations desired));
               (containers, c6) = syncManagedContainers (dep_Containers existing) (dep_Containers desired);
               c7 = (dep_Volumes existing \<noteq> dep_Volumes desired)
           in (c1 \<or> c2 \<or> c3 \<or> c4 \<or> c5 \<or> c6 \<or> c7,
               ODeployment (existing\<lparr>dep_Meta := meta, dep_Replicas := dep_Replicas desired, dep_Strategy := dep_Strategy desired,
                 dep_PodLabels := (if c4 then dep_PodLabels desired else dep_PodLabels existing),
                 dep_PodAnnotations := (if c5 then dep_PodAnnotations desired else dep_PodAnnotations existing),
                 dep_Containers := (if c6 then containers else dep_Containers existing),
                 dep_Volumes := dep_Volumes desired\<rparr>)))
      | _ \<Rightarrow> (False, ob))"

definition ensureDeployment :: "'s Kube \<Rightarrow> Deployment \<Rightarrow> ('s, unit) io" where
  "ensureDeployment api desired = createOrUpdate api (ODeployment desired) (mutateDeployment desired)"

definition mutatePersistentVolumeClaim :: "PersistentVolumeClaim \<Rightarrow> KObject \<Rightarrow> bool \<times> KObject" where
  "mutatePersistentVolumeClaim desired ob =
     (case ob of
        OPersistentVolumeClaim existing \<Rightarrow>
          (let (c, meta) = mergeLabelsInline (pvc_Meta existing) (pvc_Meta desired)
           in (c, OPersistentVolumeClaim (existing\<lparr>pvc_Meta := meta\<rparr>)))
      | _ \<Rightarrow> (False, ob))"

definition ensurePersistentVolumeClaim :: "'s Kube \<Rightarrow> PersistentVolumeClaim \<Rightarrow> ('s, unit) io" where
  "ensurePersistentVolumeClaim api desired =
     createOrUpdate api (OPersistentVolumeClaim desired) (mutatePersistentVolumeClaim desired)"

text \<open>An absent data map and an empty one are not told apart.\<close>

definition mutateConfigMap :: "ConfigMap \<Rightarrow> KObject \<Rightarrow> bool \<times> KObject" where
  "mutateConfigMap desired ob =
     (case ob of
        OConfigMap existing \<Rightarrow>
          (let (c1, meta) = mergeMeta (cm_Meta existing) (cm_Meta desired);
               c2 = (\<not> mapEntriesEqual (cm_Data existing) (cm_Data desired));
               c3 = (\<not> mapEntriesEqual (cm_BinaryData existing) (cm_BinaryData desired))
           in (c1 \<or> c2 \<or> c3,
               OConfigMap (existing\<lparr>cm_Meta := meta, cm_Data := (if c2 then cm_Data desired else cm_Data existing),
                 cm_BinaryData := (if c3 then cm_BinaryData desired else cm_BinaryData existing)\<rparr>)))
      | _ \<Rightarrow> (False, ob))"

definition ensureConfigMap :: "'s Kube \<Rightarrow> ConfigMap \<Rightarrow> ('s, unit) io" where
  "ensureConfigMap api desired = createOrUpdate api (OConfigMap desired) (mutateConfigMap desired)"

definition mutateService :: "Service \<Rightarrow> KObject \<Rightarrow> bool \<times> KObject" where
  "mutateService desired ob =
     (case ob of
        OService existing \<Rightarrow>
          (let (c1, meta) = mergeMeta (svc_Meta existing) (svc_Meta desired);
               c2 = (\<not> mapDeepEqual (svc_Selector existing) (svc_Selector desired));
               c3 = (svc_Ports existing \<noteq> svc_Ports desired)
           in (c1 \<or> c2 \<or> c3,
               OService (existing\<lparr>svc_Meta := meta, svc_Selector := (if c2 then svc_Selector desired else svc_Selector existing),
                 svc_Ports := svc_Ports desired\<rparr>)))
      | _ \<Rightarrow> (False, ob))"

definition ensureService :: "'s Kube \<Rightarrow> Service \<Rightarrow> ('s, unit) io" where
  "ensureService api desired = createOrUpdate api (OService desired) (mutateService desired)"

text \<open>\<open>reflect.DeepEqual\<close> of nested values ignores the order of map entries: compare with keys sorted.\<close>

definition canonPeer :: "NetworkPolicyPeer \<Rightarrow> NetworkPolicyPeer" where
  "canonPeer peer = \<lparr>npp_NamespaceSelector = map_option (sort_key fst) (npp_NamespaceSelector peer),
     npp_PodSelector = map_option (sort_key fst) (npp_PodSelector peer)\<rparr>"

definition canonRule :: "NetworkPolicyRule \<Rightarrow> NetworkPolicyRule" where
  "canonRule rule = \<lparr>npr_Peers = map canonPeer (npr_Peers rule), npr_Ports = npr_Ports rule\<rparr>"

definition canonPolicy :: "NetworkPolicySpec \<Rightarrow> NetworkPolicySpec" where
  "canonPolicy spec = \<lparr>nps_PodSelector = sort_key fst (nps_PodSelector spec), nps_PolicyTypes = nps_PolicyTypes spec,
     nps_Ingress = map canonRule (nps_Ingress spec), nps_Egress = map canonRule (nps_Egress spec)\<rparr>"

fun canonUnstructured :: "unstructured \<Rightarrow> unstructured" where
  "canonUnstructured (UList xs) = UList (map canonUnstructured xs)"
| "canonUnstructured (UMap kvs) = UMap (sort_key fst (map (\<lambda>(k, v). (k, canonUnstructured v)) kvs))"
| "canonUnstructured v = v"

definition mutateNetworkPolicy :: "NetworkPolicy \<Rightarrow> KObject \<Rightarrow> bool \<times> KObject" where
  "mutateNetworkPolicy desired ob =
     (case ob of
        ONetworkPolicy existing \<Rightarrow>
          (let (c1, meta) = mergeMeta (np_Meta existing) (np_Meta desired)
           in if canonPolicy (np_Spec existing) \<noteq> canonPolicy (np_Spec desired)
              then (True, ONetworkPolicy (existing\<lparr>np_Meta := meta, np_Spec := np_Spec desired\<rparr>))
              else (c1, ONetworkPolicy (existing\<lparr>np_Meta := meta\<rparr>)))
      | _ \<Rightarrow> (False, ob))"

definition ensureNetworkPolicy :: "'s Kube \<Rightarrow> NetworkPolicy \<Rightarrow> ('s, unit) io" where
  "ensureNetworkPolicy api desired = createOrUpdate api (ONetworkPolicy desired) (mutateNetworkPolicy desired)"

definition ensureNetworkPolicyAbsent :: "'s Cluster \<Rightarrow> NetworkPolicy \<Rightarrow> ('s, unit) io" where
  "ensureNetworkPolicyAbsent cl desired s =
     (case k_Get (cl_Kube cl) (objKey (ONetworkPolicy desired)) s of
        (Inl NotFound, s1) \<Rightarrow> (Inr (), s1)
      | (Inl e, s1) \<Rightarrow> (Inl e, s1)
      | (Inr existing, s1) \<Rightarrow>
          if \<not> hasFabricNetworkOwner existing then (Inr (), s1)
          else case ensureSameFabricNetworkOwner existing (ONetworkPolicy desired) of
                 Some e \<Rightarrow> (Inl e, s1)
               | None \<Rightarrow> cl_Delete cl existing s1)"

definition mutateServiceMonitor :: "ServiceMonitor \<Rightarrow> KObject \<Rightarrow> bool \<times> KObject" where
  "mutateServiceMonitor desired ob =
     (case ob of
        OServiceMonitor existing \<Rightarrow>
          (let (c1, meta) = mergeMeta (sm_Meta existing) (sm_Meta desired)
           in if map_option canonUnstructured (sm_Spec existing) \<noteq> map_option canonUnstructured (sm_Spec desired)
              then (True, OServiceMonitor (existing\<lparr>sm_Meta := meta, sm_Spec := sm_Spec desired\<rparr>))
              else (c1, OServiceMonitor (existing\<lparr>sm_Meta := meta\<rparr>)))
      | _ \<Rightarrow> (False, ob))"

definition ensureServiceMonitor :: "'s Kube \<Rightarrow> ServiceMonitor \<Rightarrow> ('s, unit) io" where
  "ensureServiceMonitor api desired = createOrUpdate api (OServiceMonitor desired) (mutateServiceMonitor desired)"

section \<open>Labels and selectors\<close>

lemma map_of_mergeMap: "map_of (mergeMap base extra) = map_of base ++ map_of (rev extra)"
proof (induction extra arbitrary: base)
  case (Cons kv extra)
  have "mergeMap base (kv # extra) = mergeMap (go_set base (fst kv) (snd kv)) extra" by (simp add: mergeMap_def)
  with Cons show ?case by (simp add: fun_eq_iff map_add_def map_of_append split: option.splits)
qed (simp add: mergeMap_def)

lemma map_of_orgLabels:
  "map_of (orgLabels net org component) k =
     (if k = labelFabricNetwork then Some (sanitizeName (fn_Name net))
      else if k = labelFabricNetworkNamespace then Some (sanitizeName (fn_Namespace net))
      else if k = labelOrg then Some (sanitizeName (om_Name (org_Organization org)))
      else if k = labelComponent \<or> k = labelAppComponent then Some component
      else if k = labelAppName \<or> k = labelAppManagedBy then Some ''fabricops''
      else if k = labelAppPartOf then Some (sanitizeName (fn_Name net))
      else None)"
  by (simp add: orgLabels_def baseLabels_def label_names)

lemma label_distinct:
  "distinct [labelFabricNetwork, labelFabricNetworkNamespace, labelOrg, labelComponent, labelAppComponent, labelAppName, labelAppManagedBy,
     labelAppPartOf, labelWorkload, labelIdentityKind, labelIdentitySource, labelOrdererGroup, labelInstance, labelEndpoint]"
  by (simp add: workload_label_names)

lemmas label_neq [simp] =
  label_distinct [simplified distinct.simps list.set, simplified]
  label_distinct [THEN distinct_rev [THEN iffD2], simplified rev.simps append.simps distinct.simps list.set, simplified]

lemma labelsMatch_le: "distinct (map fst selector) \<Longrightarrow> map_of selector \<subseteq>\<^sub>m map_of labels \<Longrightarrow> labelsMatch selector labels"
  by (auto simp: labelsMatch_def list_all_iff map_le_def) force

lemma distinct_orgLabels [simp]: "distinct (map fst (orgLabels net org component))"
  by (simp add: orgLabels_def baseLabels_def label_names)

definition podLabels :: "Deployment \<Rightarrow> (string, string) gomap" where
  "podLabels d = nilmap (dep_PodLabels d)"

lemma podLabels_built:
  "map_of (podLabels (buildOrdererDeployment net org grp i ns)) =
     (map_of (orgLabels net org ''orderer''))(labelOrdererGroup \<mapsto> sanitizeName (og_GroupName grp), labelInstance \<mapsto> itoa_nat i,
       labelWorkload \<mapsto> workloadName (og_Prefix grp) i)"
  "map_of (podLabels (buildPeerDeployment net org i ns)) =
     (map_of (orgLabels net org ''peer''))(labelInstance \<mapsto> itoa_nat i, labelWorkload \<mapsto> workloadName (peerPrefix org) i)"
  "map_of (podLabels (buildCouchDBDeployment net org peer ns)) = (map_of (orgLabels net org ''couchdb''))(labelWorkload \<mapsto> peer)"
  "podLabels (buildCADeployment net org ns) = orgLabels net org ''ca''"
  by (simp_all add: podLabels_def nilmap_def buildOrdererDeployment_def buildPeerDeployment_def buildCouchDBDeployment_def buildCADeployment_def
      singleReplicaDeployment_def Let_def map_of_mergeMap fun_eq_iff map_add_def)

lemma itoa_nat_eq [simp]: "itoa_nat i = itoa_nat j \<longleftrightarrow> i = j"
  by (metis itoa_nat_inj)

section \<open>In-place updates\<close>

lemma mapEntriesEqual_refl: "distinct (map fst m) \<Longrightarrow> mapEntriesEqual m m"
  by (simp add: mapEntriesEqual_def list_all_iff)

lemma mapDeepEqual_refl: "(\<And>a. m = Some a \<Longrightarrow> distinct (map fst a)) \<Longrightarrow> mapDeepEqual m m"
  by (cases m) (simp_all add: mapEntriesEqual_refl)

lemma syncContainer_result: "snd (syncContainer e d) = d" "fst (syncContainer e d) \<longleftrightarrow> e \<noteq> d"
  by (auto simp: syncContainer_def intro!: Container.equality) (metis (full_types) Container.equality old.unit.exhaust)?

lemma syncManagedContainers_result:
  "fst (syncManagedContainers existing desired) = desired" "snd (syncManagedContainers existing desired) \<longleftrightarrow> existing \<noteq> desired"
proof -
  have "map snd (map2 syncContainer existing desired) = desired" if "length existing = length desired"
    using that by (induction existing desired rule: list_induct2) (simp_all add: syncContainer_result)
  then show "fst (syncManagedContainers existing desired) = desired" by (simp add: syncManagedContainers_def Let_def)
  have "list_ex fst (map2 syncContainer existing desired) \<longleftrightarrow> existing \<noteq> desired" if "length existing = length desired"
    using that by (induction existing desired rule: list_induct2) (simp_all add: syncContainer_result)
  then show "snd (syncManagedContainers existing desired) \<longleftrightarrow> existing \<noteq> desired" by (auto simp: syncManagedContainers_def Let_def)
qed

lemma mergeEntries_stable: "distinct (map fst d) \<Longrightarrow> fst (mergeEntries (snd (mergeEntries m d)) d) = False"
proof -
  assume d: "distinct (map fst d)"
  have "go_get (snd (mergeEntries m d)) k = v" if "(k, v) \<in> set d" for k v
    using that d by (simp add: mergeEntries_get)
  then show ?thesis by (simp add: mergeEntries_same)
qed

definition distinctMeta :: "ObjectMeta \<Rightarrow> bool" where
  "distinctMeta m \<longleftrightarrow> distinct (map fst (nilmap (mt_Labels m))) \<and> distinct (map fst (nilmap (mt_Annotations m)))"

lemma mergeStringMap_stable:
  "distinct (map fst d) \<Longrightarrow> fst (mergeStringMap (snd (mergeStringMap m d)) d) = False"
  by (cases m) (simp_all add: mergeStringMap_def mergeEntries_stable case_prod_unfold Let_def)

lemma mergeLabelsInline_stable:
  "distinctMeta d \<Longrightarrow> fst (mergeLabelsInline (snd (mergeLabelsInline m d)) d) = False"
  by (simp add: distinctMeta_def mergeLabelsInline_def nilmap_def [of "Some _"] mergeEntries_stable mergeStringMap_stable case_prod_unfold Let_def)

lemma mutateDeployment_result:
  assumes "mutateDeployment desired (ODeployment e) = (changed, ob)"
  obtains e' where "ob = ODeployment e'" and "dep_Selector e' = dep_Selector e" and "dep_Replicas e' = dep_Replicas desired"
    and "dep_Strategy e' = dep_Strategy desired" and "dep_Containers e' = dep_Containers desired" and "dep_Volumes e' = dep_Volumes desired"
    and "mapDeepEqual (dep_PodLabels e) (dep_PodLabels desired) \<and> dep_PodLabels e' = dep_PodLabels e \<or> dep_PodLabels e' = dep_PodLabels desired"
    and "mapDeepEqual (dep_PodAnnotations e) (dep_PodAnnotations desired) \<and> dep_PodAnnotations e' = dep_PodAnnotations e \<or>
      dep_PodAnnotations e' = dep_PodAnnotations desired"
    and "dep_Meta e' = snd (mergeLabelsInline (dep_Meta e) (dep_Meta desired))"
  using assms
  by (auto simp: mutateDeployment_def Let_def case_prod_unfold syncManagedContainers_result split: if_splits intro: that)

lemma selectors:
  "nilmap (svc_Selector (buildOrdererService net org grp i ns)) = ordererSelector net org grp i"
  "nilmap (svc_Selector (buildOrdererOperationsService net org grp i ns)) = ordererSelector net org grp i"
  "nilmap (svc_Selector (buildPeerService net org i ns)) = peerSelector net org i"
  "nilmap (svc_Selector (buildPeerOperationsService net org i ns)) = peerSelector net org i"
  "nilmap (svc_Selector (buildCouchDBService net org peer ns)) = couchDBSelector net org peer"
  "nilmap (svc_Selector (buildCAService net org ns)) = orgLabels net org ''ca''"
  by (simp_all add: nilmap_def buildOrdererService_def buildOrdererOperationsService_def buildPeerService_def
      buildPeerOperationsService_def buildCouchDBService_def buildCAService_def Let_def)

lemma selector_component:
  "labelsMatch (ordererSelector net org grp i) labels \<Longrightarrow> map_of labels labelComponent = Some ''orderer''"
  "labelsMatch (peerSelector net org i) labels \<Longrightarrow> map_of labels labelComponent = Some ''peer''"
  "labelsMatch (couchDBSelector net org peer) labels \<Longrightarrow> map_of labels labelComponent = Some ''couchdb''"
  by (simp_all add: labelsMatch_def ordererSelector_def peerSelector_def couchDBSelector_def)

lemma orderer_pods: "labelsMatch (ordererSelector net org grp i) (podLabels (buildOrdererDeployment net org grp' j ns)) \<longleftrightarrow>
    i = j \<and> sanitizeName (og_GroupName grp) = sanitizeName (og_GroupName grp')"
  by (simp add: labelsMatch_def ordererSelector_def podLabels_built map_of_orgLabels) metis

lemma peer_pods: "labelsMatch (peerSelector net org i) (podLabels (buildPeerDeployment net org j ns)) \<longleftrightarrow> i = j"
  by (simp add: labelsMatch_def peerSelector_def podLabels_built map_of_orgLabels) metis

lemma couchdb_pods: "labelsMatch (couchDBSelector net org peer) (podLabels (buildCouchDBDeployment net org peer' ns)) \<longleftrightarrow> peer = peer'"
  by (simp add: labelsMatch_def couchDBSelector_def podLabels_built map_of_orgLabels) metis

lemma pod_component:
  "map_of (podLabels (buildOrdererDeployment net org grp i ns)) labelComponent = Some ''orderer''"
  "map_of (podLabels (buildPeerDeployment net org i ns)) labelComponent = Some ''peer''"
  "map_of (podLabels (buildCouchDBDeployment net org peer ns)) labelComponent = Some ''couchdb''"
  "map_of (podLabels (buildCADeployment net org ns)) labelComponent = Some ''ca''"
  by (simp_all add: podLabels_built map_of_orgLabels)

text \<open>The pods the operator runs for an organization, by the labels of their Deployments.\<close>

definition componentPods :: "FabricNetwork \<Rightarrow> Org \<Rightarrow> string \<Rightarrow> (string, string) gomap set" where
  "componentPods net org component =
     (if component = ''orderer'' then {podLabels (buildOrdererDeployment net org grp i ns) | grp i ns. True}
      else if component = ''peer'' then {podLabels (buildPeerDeployment net org i ns) | i ns. True}
      else if component = ''couchdb'' then {podLabels (buildCouchDBDeployment net org peer ns) | peer ns. True}
      else if component = ''ca'' then {podLabels (buildCADeployment net org ns) | ns. True}
      else {})"

lemma componentPods_component: "pod \<in> componentPods net org component \<Longrightarrow> map_of pod labelComponent = Some component"
  by (auto simp: componentPods_def pod_component split: if_splits)

section \<open>Properties\<close>

text \<open>
  The Services of an orderer, of a peer and of a CouchDB select, of all pods the operator
  runs for the organization, exactly the pods of their own workload: no pod of another component,
  of another instance or of another orderer group answers for it, and its own pod does.
\<close>

theorem service_selects_own_pod:
  "(labelsMatch (nilmap (svc_Selector (buildOrdererService net org grp i ns))) (podLabels (buildOrdererDeployment net org grp' j ns')) \<longleftrightarrow>
     i = j \<and> sanitizeName (og_GroupName grp) = sanitizeName (og_GroupName grp')) \<and>
   (labelsMatch (nilmap (svc_Selector (buildPeerService net org i ns))) (podLabels (buildPeerDeployment net org j ns')) \<longleftrightarrow> i = j) \<and>
   (labelsMatch (nilmap (svc_Selector (buildCouchDBService net org peer ns))) (podLabels (buildCouchDBDeployment net org peer' ns')) \<longleftrightarrow>
     peer = peer') \<and>
   svc_Selector (buildOrdererOperationsService net org grp i ns) = svc_Selector (buildOrdererService net org grp i ns) \<and>
   svc_Selector (buildPeerOperationsService net org i ns) = svc_Selector (buildPeerService net org i ns) \<and>
   {c. \<exists>pod \<in> componentPods net org c. labelsMatch (nilmap (svc_Selector (buildOrdererService net org grp i ns))) pod} = {''orderer''} \<and>
   {c. \<exists>pod \<in> componentPods net org c. labelsMatch (nilmap (svc_Selector (buildPeerService net org i ns))) pod} = {''peer''} \<and>
   {c. \<exists>pod \<in> componentPods net org c. labelsMatch (nilmap (svc_Selector (buildCouchDBService net org peer ns))) pod} = {''couchdb''}"
proof -
  have "podLabels (buildOrdererDeployment net org grp i ns) \<in> componentPods net org ''orderer''"
    "podLabels (buildPeerDeployment net org i ns) \<in> componentPods net org ''peer''"
    "podLabels (buildCouchDBDeployment net org peer ns) \<in> componentPods net org ''couchdb''"
    by (auto simp: componentPods_def)
  note own = this
  have "{c. \<exists>pod \<in> componentPods net org c. labelsMatch (ordererSelector net org grp i) pod} = {''orderer''}"
    using own(1) orderer_pods [of net org grp i grp i ns] by (fastforce dest: selector_component componentPods_component)
  moreover have "{c. \<exists>pod \<in> componentPods net org c. labelsMatch (peerSelector net org i) pod} = {''peer''}"
    using own(2) peer_pods [of net org i i ns] by (fastforce dest: selector_component componentPods_component)
  moreover have "{c. \<exists>pod \<in> componentPods net org c. labelsMatch (couchDBSelector net org peer) pod} = {''couchdb''}"
    using own(3) couchdb_pods [of net org peer peer ns] by (fastforce dest: selector_component componentPods_component)
  moreover have "svc_Selector (buildOrdererOperationsService net org grp i ns) = svc_Selector (buildOrdererService net org grp i ns)"
    "svc_Selector (buildPeerOperationsService net org i ns) = svc_Selector (buildPeerService net org i ns)"
    by (simp_all add: buildOrdererService_def buildOrdererOperationsService_def buildPeerService_def buildPeerOperationsService_def Let_def)
  ultimately show ?thesis by (simp only: selectors orderer_pods peer_pods couchdb_pods simp_thms)
qed

text \<open>
  Claim C39. The Service of the CA also selects the pods of the registrar rotation Job: the Job
  labels its pods with all labels the Service selects by. While a rotation runs, requests to the CA
  are spread over a pod that does not serve them.
\<close>

theorem ca_service_selects_rotation_pod:
  "labelsMatch (nilmap (svc_Selector (buildCAService net org ns))) (podLabels (buildCADeployment net org ns')) \<and>
   labelsMatch (nilmap (svc_Selector (buildCAService net org ns))) (job_PodLabels (buildCARegistrarRotationJob cr net org ns' requestID))"
proof -
  have "map_of (job_PodLabels (buildCARegistrarRotationJob cr net org ns' requestID)) =
      (map_of (orgLabels net org ''ca''))(labelWorkload \<mapsto> caBootstrapSecretName org, labelIdentityKind \<mapsto> identityKindCARegistrarRotate)"
    by (simp add: buildCARegistrarRotationJob_def identityLabels_def Let_def)
  moreover have "map_of (orgLabels net org ''ca'') labelWorkload = None" "map_of (orgLabels net org ''ca'') labelIdentityKind = None"
    by (simp_all add: map_of_orgLabels)
  ultimately have "map_of (orgLabels net org ''ca'') \<subseteq>\<^sub>m map_of (job_PodLabels (buildCARegistrarRotationJob cr net org ns' requestID))"
    by (auto simp: map_le_def)
  then show ?thesis by (simp add: selectors podLabels_built labelsMatch_le)
qed


lemma distinct_resourceAnnotations [simp]: "distinct (map fst (resourceAnnotations net org))"
  by (simp add: resourceAnnotations_def label_names Let_def)


text \<open>What a network policy admits: a rule without peers admits every source.\<close>

definition peerAdmits :: "NetworkPolicyPeer \<Rightarrow> (string, string) gomap \<Rightarrow> (string, string) gomap \<Rightarrow> bool" where
  "peerAdmits peer namespaceLabels pod \<longleftrightarrow>
     (case npp_NamespaceSelector peer of None \<Rightarrow> False | Some selector \<Rightarrow> labelsMatch selector namespaceLabels) \<and>
     (case npp_PodSelector peer of None \<Rightarrow> True | Some selector \<Rightarrow> labelsMatch selector pod)"

definition admitsIngress :: "NetworkPolicy \<Rightarrow> (string, string) gomap \<Rightarrow> (string, string) gomap \<Rightarrow> bool" where
  "admitsIngress policy namespaceLabels pod \<longleftrightarrow>
     (\<exists>rule \<in> set (nps_Ingress (np_Spec policy)). npr_Peers rule = [] \<or> (\<exists>peer \<in> set (npr_Peers rule). peerAdmits peer namespaceLabels pod))"

lemma pod_orgLabels:
  "pod \<in> componentPods net org component \<Longrightarrow>
     k \<in> {labelFabricNetwork, labelFabricNetworkNamespace, labelOrg, labelAppName, labelAppManagedBy, labelAppPartOf} \<Longrightarrow>
     map_of pod k = map_of (orgLabels net org component) k"
  by (auto simp: componentPods_def podLabels_built split: if_splits)

lemma baseLabels_match:
  assumes "\<And>k. k \<in> {labelFabricNetwork, labelFabricNetworkNamespace, labelAppName, labelAppManagedBy, labelAppPartOf} \<Longrightarrow>
    map_of pod k = map_of (orgLabels net' org' c) k"
  shows "labelsMatch (baseLabels net) pod \<longleftrightarrow>
    sanitizeName (fn_Name net') = sanitizeName (fn_Name net) \<and> sanitizeName (fn_Namespace net') = sanitizeName (fn_Namespace net)"
  using assms by (simp add: labelsMatch_def baseLabels_def map_of_orgLabels) auto



end
