(* ===== verification/Workloads.thy ===== *)
theory Workloads
  imports Workload_Objects
begin

text \<open>
  Running the workloads of an organization, from \<^verbatim>\<open>fabricnetwork_org.go\<close>: claims, Deployments and
  Services of the CA, the orderers, the peers and their CouchDB databases, the readiness read back
  from the Deployments, the annotation that restarts pods when their identity material changes, and
  the removal of peers that are no longer declared. Replica counts are sums of at most fifty ones
  per group, so the \<open>int32\<close> sums of the code are exact and written as integers.
\<close>

section \<open>Identity revision and readiness\<close>

definition annotationIdentityRevision :: string where "annotationIdentityRevision = ''fabricops.io/identity-revision''"

definition setDeploymentIdentityRevision ::
  "Crypto \<Rightarrow> 's Kube \<Rightarrow> Deployment \<Rightarrow> FabricNetwork \<Rightarrow> string \<Rightarrow> ('s, Deployment) io" where
  "setDeploymentIdentityRevision cr api deploy net workload =
     ioBind (identityMaterialRevision cr api (mt_Namespace (dep_Meta deploy)) workload (tlsOn net)) (\<lambda>revision.
       ioReturn (if revision = [] then deploy
                 else deploy\<lparr>dep_PodAnnotations := Some (go_set (nilmap (dep_PodAnnotations deploy)) annotationIdentityRevision revision)\<rparr>))"

definition getDeployment :: "'s Kube \<Rightarrow> string \<Rightarrow> string \<Rightarrow> ('s, Deployment) io" where
  "getDeployment api namespace name s =
     (case k_Get api (KDeployment, namespace, name) s of
        (Inl e, s1) \<Rightarrow> (Inl e, s1)
      | (Inr (ODeployment deploy), s1) \<Rightarrow> (Inr deploy, s1)
      | (Inr _, s1) \<Rightarrow> (Inl (OtherError ''decode Deployment''), s1))"

definition workloadStatusOf :: "Deployment \<Rightarrow> WorkloadStatus" where
  "workloadStatusOf deploy =
     (case dep_Replicas deploy of
        None \<Rightarrow> zeroWorkloadStatus
      | Some replicas \<Rightarrow>
          \<lparr>ws_Desired = replicas,
           ws_Ready = (if dep_ObservedGeneration deploy < dep_Generation deploy \<or> dep_UpdatedReplicas deploy < replicas \<or>
                          dep_AvailableReplicas deploy < replicas
                       then 0 else dep_ReadyReplicas deploy)\<rparr>)"

definition deploymentWorkloadStatus :: "'s Kube \<Rightarrow> string \<Rightarrow> string \<Rightarrow> ('s, WorkloadStatus) io" where
  "deploymentWorkloadStatus api namespace name =
     ioBind (getDeployment api namespace name) (\<lambda>deploy. ioReturn (workloadStatusOf deploy))"

definition workloadReady :: "WorkloadStatus \<Rightarrow> bool" where
  "workloadReady status \<longleftrightarrow> ws_Ready status \<ge> ws_Desired status"

definition isDeploymentReady :: "'s Kube \<Rightarrow> string \<Rightarrow> string \<Rightarrow> ('s, bool) io" where
  "isDeploymentReady api namespace name =
     ioBind (deploymentWorkloadStatus api namespace name) (\<lambda>status. ioReturn (workloadReady status))"

definition addStatus :: "WorkloadStatus \<Rightarrow> int \<Rightarrow> int \<Rightarrow> WorkloadStatus" where
  "addStatus status desired ready = \<lparr>ws_Desired = ws_Desired status + desired, ws_Ready = ws_Ready status + ready\<rparr>"

section \<open>CA and orderers\<close>

text \<open>A value or the error of a builder.\<close>

definition ioLift :: "ApiError + 'a \<Rightarrow> ('s, 'a) io" where
  "ioLift r s = (r, s)"

definition ensureDataPVC :: "'s Cluster \<Rightarrow> FabricNetwork \<Rightarrow> Org \<Rightarrow> string \<Rightarrow> string \<Rightarrow> string \<Rightarrow> ('s, unit) io" where
  "ensureDataPVC cl net org namespace workload component =
     ioBind (ioLift (buildDataPVC cl net org namespace workload component)) (ensurePersistentVolumeClaim (cl_Kube cl))"

definition reconcileCA :: "'s Cluster \<Rightarrow> FabricNetwork \<Rightarrow> Org \<Rightarrow> string \<Rightarrow> ('s, bool) io" where
  "reconcileCA cl net org namespace =
     ioBind (ensureDataPVC cl net org namespace (caName org) ''ca'') (\<lambda>_.
     ioBind (ensureDeployment (cl_Kube cl) (buildCADeployment net org namespace)) (\<lambda>_.
     ioBind (ensureService (cl_Kube cl) (buildCAService net org namespace)) (\<lambda>_.
       isDeploymentReady (cl_Kube cl) namespace (mt_Name (dep_Meta (buildCADeployment net org namespace))))))"

definition reconcileOrderer ::
  "Crypto \<Rightarrow> 's Cluster \<Rightarrow> FabricNetwork \<Rightarrow> Org \<Rightarrow> string \<Rightarrow> WorkloadStatus \<Rightarrow> OrdererGroup \<Rightarrow> nat \<Rightarrow> ('s, WorkloadStatus) io" where
  "reconcileOrderer cr cl net org namespace status grp i =
     (let api = cl_Kube cl; name = workloadName (og_Prefix grp) i
      in ioBind (setDeploymentIdentityRevision cr api (buildOrdererDeployment net org grp i namespace) net name) (\<lambda>deploy.
         ioBind (ensureDataPVC cl net org namespace name ''orderer'') (\<lambda>_.
         ioBind (ensureDeployment api deploy) (\<lambda>_.
         ioBind (ensureService api (buildOrdererService net org grp i namespace)) (\<lambda>_.
         ioBind (ensureService api (buildOrdererOperationsService net org grp i namespace)) (\<lambda>_.
         ioBind (deploymentWorkloadStatus api namespace name) (\<lambda>st.
           ioReturn (addStatus status (ws_Desired st) (ws_Ready st)))))))))"

fun reconcileOrdererList ::
  "Crypto \<Rightarrow> 's Cluster \<Rightarrow> FabricNetwork \<Rightarrow> Org \<Rightarrow> string \<Rightarrow> WorkloadStatus \<Rightarrow> (OrdererGroup \<times> nat) list \<Rightarrow> ('s, WorkloadStatus) io" where
  "reconcileOrdererList cr cl net org namespace status [] = ioReturn status"
| "reconcileOrdererList cr cl net org namespace status ((grp, i) # instances) =
     ioBind (reconcileOrderer cr cl net org namespace status grp i) (\<lambda>status'.
       reconcileOrdererList cr cl net org namespace status' instances)"

definition ordererInstanceList :: "Org \<Rightarrow> (OrdererGroup \<times> nat) list" where
  "ordererInstanceList org = concat (map (\<lambda>grp. map (Pair grp) [0..<nat (og_Instances grp)]) (org_Orderers org))"

definition reconcileOrderers :: "Crypto \<Rightarrow> 's Cluster \<Rightarrow> FabricNetwork \<Rightarrow> Org \<Rightarrow> string \<Rightarrow> ('s, WorkloadStatus) io" where
  "reconcileOrderers cr cl net org namespace =
     reconcileOrdererList cr cl net org namespace zeroWorkloadStatus (ordererInstanceList org)"

section \<open>Peers\<close>

definition reconcilePeerCouchDB :: "'s Cluster \<Rightarrow> FabricNetwork \<Rightarrow> Org \<Rightarrow> string \<Rightarrow> string \<Rightarrow> ('s, bool) io" where
  "reconcilePeerCouchDB cl net org namespace peerName =
     (let api = cl_Kube cl
      in ioBind (buildCouchDBSecret api net org namespace peerName) (\<lambda>secret.
         ioBind (ensureSecret api secret couchDBSecretValidationError) (\<lambda>_.
         ioBind (ensureDataPVC cl net org namespace (couchDBName peerName) ''couchdb'') (\<lambda>_.
         ioBind (ensureDeployment api (buildCouchDBDeployment net org peerName namespace)) (\<lambda>_.
         ioBind (ensureService api (buildCouchDBService net org peerName namespace)) (\<lambda>_.
           isDeploymentReady api namespace (couchDBName peerName)))))))"

definition reconcilePeer ::
  "Crypto \<Rightarrow> 's Cluster \<Rightarrow> FabricNetwork \<Rightarrow> Org \<Rightarrow> string \<Rightarrow> WorkloadStatus \<Rightarrow> nat \<Rightarrow> ('s, WorkloadStatus) io" where
  "reconcilePeer cr cl net org namespace status i =
     (let api = cl_Kube cl; name = workloadName (peerPrefix org) i
      in ioBind (setDeploymentIdentityRevision cr api (buildPeerDeployment net org i namespace) net name) (\<lambda>deploy.
         ioBind (if peerUsesCouchDB org then reconcilePeerCouchDB cl net org namespace name else ioReturn True) (\<lambda>peerDatabaseReady.
         ioBind (ensureDataPVC cl net org namespace name ''peer'') (\<lambda>_.
         ioBind (ensureDeployment api deploy) (\<lambda>_.
         ioBind (ensureService api (buildPeerService net org i namespace)) (\<lambda>_.
         ioBind (ensureService api (buildPeerOperationsService net org i namespace)) (\<lambda>_.
         ioBind (deploymentWorkloadStatus api namespace name) (\<lambda>st.
           ioReturn (addStatus status (ws_Desired st) (if peerDatabaseReady then ws_Ready st else 0))))))))))"

fun reconcilePeerList ::
  "Crypto \<Rightarrow> 's Cluster \<Rightarrow> FabricNetwork \<Rightarrow> Org \<Rightarrow> string \<Rightarrow> WorkloadStatus \<Rightarrow> nat list \<Rightarrow> ('s, WorkloadStatus) io" where
  "reconcilePeerList cr cl net org namespace status [] = ioReturn status"
| "reconcilePeerList cr cl net org namespace status (i # instances) =
     ioBind (reconcilePeer cr cl net org namespace status i) (\<lambda>status'.
       reconcilePeerList cr cl net org namespace status' instances)"

section \<open>Scaling down\<close>

definition componentSelector :: "FabricNetwork \<Rightarrow> Org \<Rightarrow> string \<Rightarrow> (string, string) gomap" where
  "componentSelector net org component =
     [(labelFabricNetwork, sanitizeName (fn_Name net)), (labelFabricNetworkNamespace, sanitizeName (fn_Namespace net)),
      (labelOrg, sanitizeName (om_Name (org_Organization org))), (labelComponent, component)]"

definition deleteUndesired ::
  "'s Cluster \<Rightarrow> FabricNetwork \<Rightarrow> Org \<Rightarrow> string \<Rightarrow> string \<Rightarrow> string set \<Rightarrow> KObject \<Rightarrow> ('s, unit) io" where
  "deleteUndesired cl net org namespace component desired ob =
     (if mt_Name (objMeta ob) \<in> desired then ioReturn ()
      else deleteOwnedObject cl ob (ownerObject (mt_Name (objMeta ob)) namespace (orgLabels net org component) (resourceAnnotations net org)))"

definition cleanupScaledDownComponentWorkloads ::
  "'s Cluster \<Rightarrow> FabricNetwork \<Rightarrow> Org \<Rightarrow> string \<Rightarrow> string \<Rightarrow> string set \<Rightarrow> ('s, unit) io" where
  "cleanupScaledDownComponentWorkloads cl net org namespace component desiredWorkloads =
     (let selector = componentSelector net org component;
          desiredServices = desiredWorkloads \<union> (if component = ''peer'' then operationsServiceName ` desiredWorkloads else {})
      in ioBind (cl_List cl KDeployment namespace selector) (\<lambda>deployments.
         ioBind (ioSeq (map (deleteUndesired cl net org namespace component desiredWorkloads) deployments)) (\<lambda>_.
         ioBind (cl_List cl KService namespace selector) (\<lambda>services.
           ioSeq (map (deleteUndesired cl net org namespace component desiredServices) services)))))"

definition cleanupScaledDownPeerWorkloads :: "'s Cluster \<Rightarrow> FabricNetwork \<Rightarrow> Org \<Rightarrow> string \<Rightarrow> string set \<Rightarrow> ('s, unit) io" where
  "cleanupScaledDownPeerWorkloads cl net org namespace desiredPeers =
     ioBind (cleanupScaledDownComponentWorkloads cl net org namespace ''peer'' desiredPeers) (\<lambda>_.
       cleanupScaledDownComponentWorkloads cl net org namespace ''couchdb''
         (if peerUsesCouchDB org then couchDBName ` desiredPeers else {}))"

definition reconcilePeers :: "Crypto \<Rightarrow> 's Cluster \<Rightarrow> FabricNetwork \<Rightarrow> Org \<Rightarrow> string \<Rightarrow> ('s, WorkloadStatus) io" where
  "reconcilePeers cr cl net org namespace =
     (case org_Peer org of
        None \<Rightarrow> ioBind (cleanupScaledDownPeerWorkloads cl net org namespace (desiredPeerNames org)) (\<lambda>_. ioReturn zeroWorkloadStatus)
      | Some peer \<Rightarrow>
          ioBind (reconcilePeerList cr cl net org namespace zeroWorkloadStatus [0..<nat (pc_Instances peer)]) (\<lambda>status.
          ioBind (cleanupScaledDownPeerWorkloads cl net org namespace (desiredPeerNames org)) (\<lambda>_. ioReturn status)))"

end
