(* ===== verification/Topology.thy ===== *)
theory Topology
  imports Endpoints Crypto_Env
begin

text \<open>
  Topology validation, \<^verbatim>\<open>internal/controller/fabricnetwork_topology.go\<close>, with the helpers it calls in
  \<^verbatim>\<open>fabricnetwork_channel.go\<close>, \<^verbatim>\<open>fabricnetwork_chaincode.go\<close>, \<^verbatim>\<open>fabricnetwork_external_org.go\<close>,
  \<^verbatim>\<open>fabricnetwork_raft_update.go\<close> and \<^verbatim>\<open>fabricparticipant_topology.go\<close>. Every validator returns the
  list of problem texts in the order the code appends them; the loops carry their \<open>seen\<close> maps as
  arguments and \<open>continue\<close> is the early branch.
\<close>

section \<open>Consensus and capabilities\<close>

definition ordererConsensusEtcdRaft :: string where "ordererConsensusEtcdRaft = ''etcdraft''"
definition ordererConsensusBFT :: string where "ordererConsensusBFT = ''BFT''"

definition ordererConsensusType :: "string \<Rightarrow> string" where
  "ordererConsensusType groupType =
     (let t = toLower (trimSpace groupType)
      in if t \<in> {''raft'', ''etcdraft'', ''''} then ordererConsensusEtcdRaft
         else if t \<in> {''bft'', ''smartbft'', ''smart-bft''} then ordererConsensusBFT
         else groupType)"

record fabricCapabilitySet =
  cap_channel :: string
  cap_orderer :: string
  cap_application :: string
  cap_isV3 :: bool

definition fabricCapabilities :: "string \<Rightarrow> fabricCapabilitySet" where
  "fabricCapabilities version =
     (let v = trimPrefix (trimSpace version) ''v''
      in if hasPrefix v ''3.''
         then \<lparr>cap_channel = ''V2_0'', cap_orderer = ''V2_0'', cap_application = ''V2_5'', cap_isV3 = True\<rparr>
         else if hasPrefix v ''2.5.'' \<or> v = ''2.5''
         then \<lparr>cap_channel = ''V2_0'', cap_orderer = ''V2_0'', cap_application = ''V2_5'', cap_isV3 = False\<rparr>
         else \<lparr>cap_channel = ''V2_0'', cap_orderer = ''V2_0'', cap_application = ''V2_0'', cap_isV3 = False\<rparr>)"

definition networkUsesBFTOrderers :: "FabricNetwork \<Rightarrow> bool" where
  "networkUsesBFTOrderers net =
     list_ex (\<lambda>orderer. ordererConsensusType (og_Type (oi_group orderer)) = ordererConsensusBFT)
       (desiredOrdererInstances net)"

section \<open>Organizations\<close>

fun orgConsensusProblems :: "FabricNetwork \<Rightarrow> Org \<Rightarrow> nat \<Rightarrow> OrdererGroup list \<Rightarrow> string list" where
  "orgConsensusProblems net org i [] = []"
| "orgConsensusProblems net org i (grp # groups) =
     (if ordererConsensusType (og_Type grp) = ordererConsensusBFT \<and>
         \<not> cap_isV3 (fabricCapabilities (gl_FabricVersion (sp_Global (fn_Spec net))))
      then [''org '' @ goquote (om_Name (org_Organization org)) @ '' orderers['' @ itoa_nat i @ ''].type '' @
            goquote (og_Type grp) @ '' requires spec.global.fabricVersion 3.x'']
      else []) @ orgConsensusProblems net org (Suc i) groups"

definition validateOrgOrdererConsensus :: "FabricNetwork \<Rightarrow> Org \<Rightarrow> string list" where
  "validateOrgOrdererConsensus net org =
     orgConsensusProblems net org 0 (org_Orderers org) @
     (if card (set (map (\<lambda>grp. ordererConsensusType (og_Type grp)) (org_Orderers org))) > 1
      then [''org '' @ goquote (om_Name (org_Organization org)) @
            '' mixes orderer consensus types; all orderer groups must use the same consensus type'']
      else [])"

definition validateOrgPeerDatabase :: "Org \<Rightarrow> string list" where
  "validateOrgPeerDatabase org =
     (case org_Peer org of
        None \<Rightarrow> []
      | Some p \<Rightarrow>
          if normalizePeerDatabase (pc_DB p) \<noteq> None then []
          else [''org '' @ goquote (om_Name (org_Organization org)) @ '' peer.db '' @ goquote (pc_DB p) @
                '' is unsupported; supported values are LevelDB and CouchDB''])"

section \<open>References and endpoints\<close>

definition validateKeySelector :: "string \<Rightarrow> KeySelector \<Rightarrow> string list" where
  "validateKeySelector path r =
     (if trimSpace (ks_Name r) = [] then [path @ ''.name is required''] else []) @
     (if trimSpace (ks_Key r) = [] then [path @ ''.key is required''] else [])"

definition validateChannelArtifactRef :: "string \<Rightarrow> ChannelArtifactKeyRef option \<Rightarrow> string list" where
  "validateChannelArtifactRef path ro =
     (case ro of
        None \<Rightarrow> [path @ '' is required'']
      | Some r \<Rightarrow>
          (case (ref_ConfigMapKeyRef r, ref_SecretKeyRef r) of
             (Some cm, None) \<Rightarrow> validateKeySelector (path @ ''.configMapKeyRef'') cm
           | (None, Some s) \<Rightarrow> validateKeySelector (path @ ''.secretKeyRef'') s
           | _ \<Rightarrow> [path @ '' must set exactly one of configMapKeyRef or secretKeyRef'']))"

definition validateParticipantEndpoint :: "string \<Rightarrow> string \<Rightarrow> bool \<Rightarrow> string list" where
  "validateParticipantEndpoint path addr required =
     (let address = trimSpace addr
      in if address = [] then (if required then [path @ '' is required''] else [])
         else (case splitHostPort address of
                 Inl err \<Rightarrow> [path @ '' is invalid: '' @ err]
               | Inr (host, portValue) \<Rightarrow>
                   if trimSpace host = [] then [path @ '' host is required'']
                   else (case atoi portValue of
                           None \<Rightarrow> [path @ '' port must be between 1 and 65535'']
                         | Some port \<Rightarrow>
                             if port \<le> 0 \<or> port > 65535
                             then [path @ '' port must be between 1 and 65535''] else [])))"

fun blankHostProblems :: "string \<Rightarrow> nat \<Rightarrow> string list \<Rightarrow> string list" where
  "blankHostProblems endpointPath j [] = []"
| "blankHostProblems endpointPath j (host # hosts) =
     (if trimSpace host = [] then [endpointPath @ ''.tlsHosts['' @ itoa_nat j @ ''] is required''] else []) @
     blankHostProblems endpointPath (Suc j) hosts"

fun externalEndpointProblems ::
  "string \<Rightarrow> string set \<Rightarrow> nat \<Rightarrow> string set \<Rightarrow> ExternalEndpoint list \<Rightarrow> string list" where
  "externalEndpointProblems path knownWorkloads i seen [] = []"
| "externalEndpointProblems path knownWorkloads i seen (endpoint # endpoints) =
     (let endpointPath = path @ ''['' @ itoa_nat i @ '']'';
          name = trimSpace (ee_Name endpoint)
      in (if name = [] then [endpointPath @ ''.name is required'']
          else (if name \<in> seen then [path @ '' workload '' @ goquote name @ '' is declared more than once''] else []) @
               (if name \<notin> knownWorkloads then [endpointPath @ '' references unknown workload '' @ goquote name] else [])) @
         validateParticipantEndpoint (endpointPath @ ''.address'') (ee_Address endpoint) True @
         blankHostProblems endpointPath 0 (ee_TLSHosts endpoint) @
         externalEndpointProblems path knownWorkloads (Suc i)
           (if name = [] then seen else insert name seen) endpoints)"

definition validateExternalEndpoints :: "string \<Rightarrow> ExternalEndpoint list \<Rightarrow> string set \<Rightarrow> string list" where
  "validateExternalEndpoints path endpoints knownWorkloads = externalEndpointProblems path knownWorkloads 0 {} endpoints"

fun ordererEndpointProblems :: "string \<Rightarrow> nat \<Rightarrow> OrdererGroup list \<Rightarrow> string list" where
  "ordererEndpointProblems orgName i [] = []"
| "ordererEndpointProblems orgName i (grp # groups) =
     validateExternalEndpoints (''org '' @ goquote orgName @ '' orderers['' @ itoa_nat i @ ''].externalEndpoints'')
       (og_ExternalEndpoints grp) (set (workloadNames (og_Prefix grp) (og_Instances grp))) @
     ordererEndpointProblems orgName (Suc i) groups"

definition validateOrgExternalEndpoints :: "Org \<Rightarrow> string list" where
  "validateOrgExternalEndpoints org =
     (let orgName = trimSpace (om_Name (org_Organization org))
      in ordererEndpointProblems orgName 0 (org_Orderers org) @
         (case org_Peer org of
            None \<Rightarrow> []
          | Some p \<Rightarrow> validateExternalEndpoints (''org '' @ goquote orgName @ '' peer.externalEndpoints'')
                        (pc_ExternalEndpoints p) (desiredPeerNames org)))"

definition channelOrdererRefMatchesAny :: "FabricNetwork \<Rightarrow> ChannelOrdererRef \<Rightarrow> bool" where
  "channelOrdererRefMatchesAny net r =
     (if trimSpace (or_Org r) = [] \<and> trimSpace (or_Name r) = [] then False
      else list_ex (\<lambda>orderer.
             \<not> (trimSpace (or_Org r) \<noteq> [] \<and> or_Org r \<noteq> om_Name (org_Organization (oi_org orderer))) \<and>
             \<not> (trimSpace (or_Name r) \<noteq> [] \<and> or_Name r \<noteq> oi_name orderer)) (desiredOrdererInstances net))"

section \<open>Memberships\<close>

definition channelExternalOrgDesiredState :: "ChannelExternalOrg \<Rightarrow> ChannelExternalOrgState" where
  "channelExternalOrgDesiredState e =
     (if eo_State e = ChannelExternalOrgAbsent then ChannelExternalOrgAbsent else ChannelExternalOrgPresent)"

definition orgMSPNames :: "(string, Org) gomap \<Rightarrow> string set" where
  "orgMSPNames orgs = set (filter (\<lambda>m. m \<noteq> []) (map (\<lambda>(n, org). trimSpace (om_MSPName (org_Organization org))) orgs))"

definition externalMSPs :: "Channel \<Rightarrow> string set" where
  "externalMSPs channel =
     set (filter (\<lambda>m. m \<noteq> []) (map (\<lambda>e. trimSpace (eo_MSPID e))
       (filter (\<lambda>e. channelExternalOrgDesiredState e \<noteq> ChannelExternalOrgAbsent) (ch_ExternalOrgs channel))))"

definition channelMSPNames :: "Channel \<Rightarrow> (string, Org) gomap \<Rightarrow> string set" where
  "channelMSPNames channel orgs =
     set (filter (\<lambda>m. m \<noteq> []) (List.map_filter (\<lambda>co.
        map_option (\<lambda>org. trimSpace (om_MSPName (org_Organization org))) (map_of orgs (trimSpace (co_Name co))))
        (ch_Orgs channel))) \<union> externalMSPs channel"

definition channelPeerCountsByOrg :: "Channel \<Rightarrow> (string, nat) gomap" where
  "channelPeerCountsByOrg channel = foldl (\<lambda>m co. go_set m (co_Name co) (length (co_Peers co))) [] (ch_Orgs channel)"

section \<open>External organizations of a channel\<close>

fun signerProblems :: "string \<Rightarrow> string set \<Rightarrow> nat \<Rightarrow> string set \<Rightarrow> string list \<Rightarrow> string list" where
  "signerProblems path localChannelMSPs j seen [] = []"
| "signerProblems path localChannelMSPs j seen (s # signers) =
     (let signer = trimSpace s
      in if signer = []
         then (path @ ''.requiredSignerMSPIDs['' @ itoa_nat j @ ''] is required'') #
              signerProblems path localChannelMSPs (Suc j) seen signers
         else (if signer \<in> seen
               then [path @ '' required signer MSP '' @ goquote signer @ '' is declared more than once''] else []) @
              (if signer \<notin> localChannelMSPs
               then [path @ '' required signer MSP '' @ goquote signer @ '' is not a local channel org MSP''] else []) @
              signerProblems path localChannelMSPs (Suc j) (insert signer seen) signers)"

fun anchorPeerProblems :: "string \<Rightarrow> nat \<Rightarrow> ChannelExternalAnchorPeer list \<Rightarrow> string list" where
  "anchorPeerProblems path j [] = []"
| "anchorPeerProblems path j (a # anchors) =
     (let anchorPath = path @ ''.anchorPeers['' @ itoa_nat j @ '']''
      in (if trimSpace (ap_Host a) = [] then [anchorPath @ ''.host is required''] else []) @
         (if ap_Port a \<le> 0 \<or> ap_Port a > 65535 then [anchorPath @ ''.port must be between 1 and 65535''] else []) @
         anchorPeerProblems path (Suc j) anchors)"

definition externalOrgNameProblems ::
  "string \<Rightarrow> string \<Rightarrow> (string, Org) gomap \<Rightarrow> string set \<Rightarrow> string \<Rightarrow> string list" where
  "externalOrgNameProblems channelName path orgs seenNames name =
     (if name = [] then [path @ '' name is required'']
      else (if name \<in> seenNames
            then [''channel '' @ goquote channelName @ '' external org '' @ goquote name @ '' is declared more than once''] else []) @
           (if map_of orgs name \<noteq> None
            then [''channel '' @ goquote channelName @ '' external org '' @ goquote name @ '' is already a local org''] else []))"

definition externalOrgMSPProblems ::
  "string \<Rightarrow> string \<Rightarrow> (string, Org) gomap \<Rightarrow> string set \<Rightarrow> string \<Rightarrow> string list" where
  "externalOrgMSPProblems channelName path orgs seenMSPIDs mspID =
     (if mspID = [] then [path @ '' mspID is required'']
      else (if mspID \<in> seenMSPIDs
            then [''channel '' @ goquote channelName @ '' external MSP '' @ goquote mspID @ '' is declared more than once''] else []) @
           (if mspID \<in> orgMSPNames orgs
            then [''channel '' @ goquote channelName @ '' external MSP '' @ goquote mspID @ '' is already managed by a local org''] else []))"

definition externalOrgAdminProblems ::
  "string \<Rightarrow> string \<Rightarrow> (string, Org) gomap \<Rightarrow> string set \<Rightarrow> string \<Rightarrow> string list" where
  "externalOrgAdminProblems channelName path orgs localChannelOrgNames admin =
     (let adminOrg = trimSpace admin
      in if adminOrg = [] then []
         else if map_of orgs adminOrg = None
         then [path @ '' adminOrg '' @ goquote adminOrg @ '' is not a local org'']
         else if adminOrg \<notin> localChannelOrgNames
         then [path @ '' adminOrg '' @ goquote adminOrg @ '' is not a local org on channel '' @ goquote channelName]
         else [])"

fun externalOrgProblems ::
  "Channel \<Rightarrow> (string, Org) gomap \<Rightarrow> string set \<Rightarrow> string set \<Rightarrow> FabricNetwork \<Rightarrow> nat \<Rightarrow> string set \<Rightarrow> string set \<Rightarrow>
     ChannelExternalOrg list \<Rightarrow> string list" where
  "externalOrgProblems channel orgs localChannelOrgNames localChannelMSPs net i seenNames seenMSPIDs [] = []"
| "externalOrgProblems channel orgs localChannelOrgNames localChannelMSPs net i seenNames seenMSPIDs (e # es) =
     (let path = ''channel '' @ goquote (ch_Name channel) @ '' externalOrgs['' @ itoa_nat i @ '']'';
          name = trimSpace (eo_Name e);
          mspID = trimSpace (eo_MSPID e)
      in (case eo_SignedUpdateRef e of None \<Rightarrow> []
          | Some r \<Rightarrow> validateChannelArtifactRef (path @ ''.signedUpdateRef'') (Some r)) @
         externalOrgNameProblems (ch_Name channel) path orgs seenNames name @
         externalOrgMSPProblems (ch_Name channel) path orgs seenMSPIDs mspID @
         (if channelExternalOrgDesiredState e = ChannelExternalOrgPresent
          then validateChannelArtifactRef (path @ ''.applicationOrgRef'') (Some (eo_ApplicationOrgRef e))
          else if eo_AnchorPeers e \<noteq> [] then [path @ '' anchorPeers must be empty when state is Absent''] else []) @
         externalOrgAdminProblems (ch_Name channel) path orgs localChannelOrgNames (eo_AdminOrg e) @
         signerProblems path localChannelMSPs 0 {} (eo_RequiredSignerMSPIDs e) @
         (case eo_Orderer e of None \<Rightarrow> []
          | Some r \<Rightarrow> if channelOrdererRefMatchesAny net r then []
                      else [path @ '' orderer does not match a local orderer instance'']) @
         anchorPeerProblems path 0 (eo_AnchorPeers e) @
         externalOrgProblems channel orgs localChannelOrgNames localChannelMSPs net (Suc i)
           (if name = [] then seenNames else insert name seenNames)
           (if mspID = [] then seenMSPIDs else insert mspID seenMSPIDs) es)"

definition validateChannelExternalOrgs ::
  "Channel \<Rightarrow> (string, Org) gomap \<Rightarrow> string set \<Rightarrow> FabricNetwork \<Rightarrow> string list" where
  "validateChannelExternalOrgs channel orgs localChannelOrgNames net =
     (let localChannelMSPs = (\<Union>n \<in> localChannelOrgNames.
            case map_of orgs n of None \<Rightarrow> {} | Some org \<Rightarrow> {om_MSPName (org_Organization org)})
      in externalOrgProblems channel orgs localChannelOrgNames localChannelMSPs net 0 {} {} (ch_ExternalOrgs channel))"

definition validateChannelRaftUpdate :: "Crypto \<Rightarrow> FabricNetwork \<Rightarrow> Channel \<Rightarrow> string list" where
  "validateChannelRaftUpdate cr net channel =
     (case ch_RaftUpdate channel of
        None \<Rightarrow> []
      | Some op \<Rightarrow>
          (let path = ''channel '' @ ch_Name channel @ '' raftUpdate''
           in validateChannelArtifactRef (path @ ''.planRef'') (Some (ru_PlanRef op)) @
              (case ru_SignedUpdateRef op of None \<Rightarrow> []
               | Some r \<Rightarrow> validateChannelArtifactRef (path @ ''.signedUpdateRef'') (Some r)) @
              (if \<not> isDNS1123Label cr (ru_OperationID op)
               then [path @ '' operationID must be a non-empty DNS label''] else []) @
              (case map_of (orgsByName net) (ru_AdminOrg op) of
                 Some org \<Rightarrow> if org_Orderers org = []
                             then [path @ '' adminOrg must be a local ordering organization''] else []
               | None \<Rightarrow> [path @ '' adminOrg must be a local ordering organization'']) @
              (if or_Org (ru_Orderer op) \<noteq> ru_AdminOrg op \<or> or_Name (ru_Orderer op) = [] \<or>
                  \<not> channelOrdererRefMatchesAny net (ru_Orderer op)
               then [path @ '' orderer must name an instance within adminOrg''] else []) @
              (if networkUsesBFTOrderers net then [path @ '' does not support BFT reconfiguration''] else [])))"

section \<open>Chaincode\<close>

definition chaincodePackageLabel :: "Chaincode \<Rightarrow> string" where
  "chaincodePackageLabel cc =
     (if trimSpace (cd_PackageLabel cc) \<noteq> [] then cd_PackageLabel cc
      else cd_Channel cc @ ''_'' @ cd_Name cc @ ''_'' @ cd_Version cc)"

definition chaincodePackageMetadataDir :: string where
  "chaincodePackageMetadataDir = ''metadata/META-INF''"

definition chaincodeCouchDBIndexPath :: "CouchDBIndex \<Rightarrow> string" where
  "chaincodeCouchDBIndexPath ix =
     (let fileName = sanitizeName (ix_Name ix) @ ''.json'';
          collection = trimSpace (ix_Collection ix)
      in if collection \<noteq> []
         then chaincodePackageMetadataDir @ ''/statedb/couchdb/collections/'' @ collection @ ''/indexes/'' @ fileName
         else chaincodePackageMetadataDir @ ''/statedb/couchdb/indexes/'' @ fileName)"

text \<open>\<open>signaturePolicyPrincipalPattern\<close>: the non-empty texts between single quotes, left to right.\<close>

function policyPrincipals :: "string \<Rightarrow> string list" where
  "policyPrincipals [] = []"
| "policyPrincipals (c # cs) =
     (if c \<noteq> CHR 0x27 then policyPrincipals cs
      else (let body = takeWhile (\<lambda>x. x \<noteq> CHR 0x27) cs;
                rest = dropWhile (\<lambda>x. x \<noteq> CHR 0x27) cs
            in if body = [] \<or> rest = [] then policyPrincipals cs
               else body # policyPrincipals (tl rest)))"
  by pat_completeness auto
termination
proof (relation "measure length")
  show "wf (measure (length :: string \<Rightarrow> nat))" by simp
next
  fix c :: char and cs x xa
  assume "xa = dropWhile (\<lambda>x. x \<noteq> CHR 0x27) cs"
  then have "length (tl xa) \<le> length cs" using length_dropWhile_le [of "\<lambda>x. x \<noteq> CHR 0x27" cs] by simp
  then show "(tl xa, c # cs) \<in> measure length" by simp
qed auto

fun principalProblems :: "string \<Rightarrow> string \<Rightarrow> string set \<Rightarrow> string set \<Rightarrow> string set \<Rightarrow> string list \<Rightarrow> string list" where
  "principalProblems context channelName allMSPs channelMSPs seen [] = []"
| "principalProblems context channelName allMSPs channelMSPs seen (m # matches) =
     (let principal = trimSpace m; parts = splitN2 principal CHR ''.'';
          report = (\<lambda>key problem.
            if key \<in> seen then principalProblems context channelName allMSPs channelMSPs seen matches
            else problem # principalProblems context channelName allMSPs channelMSPs (insert key seen) matches)
      in if length parts \<noteq> 2 \<or> trimSpace (parts ! 0) = [] \<or> trimSpace (parts ! 1) = []
         then report (''principal:'' @ principal)
                (context @ '' principal '' @ goquote principal @ '' must use MSP.role format'')
         else (let mspName = trimSpace (parts ! 0)
               in if mspName \<notin> allMSPs
                  then report (''unknown:'' @ mspName) (context @ '' references unknown MSP '' @ goquote mspName)
                  else if mspName \<notin> channelMSPs
                  then report (''outside:'' @ mspName)
                         (context @ '' references MSP '' @ goquote mspName @ '' outside channel '' @ goquote channelName)
                  else principalProblems context channelName allMSPs channelMSPs seen matches))"

definition validateSignaturePolicyMSPReferences ::
  "string \<Rightarrow> string \<Rightarrow> Channel \<Rightarrow> (string, Org) gomap \<Rightarrow> string list" where
  "validateSignaturePolicyMSPReferences policy context channel orgs =
     (if policyPrincipals policy = [] then [context @ '' must reference at least one MSP principal'']
      else principalProblems context (ch_Name channel) (orgMSPNames orgs \<union> externalMSPs channel)
             (channelMSPNames channel orgs) {} (policyPrincipals policy))"

definition validateChaincodeEndorsementPolicyTopology ::
  "Chaincode \<Rightarrow> Channel \<Rightarrow> (string, Org) gomap \<Rightarrow> string list" where
  "validateChaincodeEndorsementPolicyTopology cc channel orgs =
     (let policy = trimSpace (cd_EndorsementPolicy cc)
      in if policy = [] then []
         else validateSignaturePolicyMSPReferences policy
                (''chaincode '' @ goquote (cd_Name cc) @ '' endorsementPolicy'') channel orgs)"

text \<open>The loop over \<open>collection.OrgNames\<close>: problems and the number of authorized peers.\<close>

fun authorizedPeersOf ::
  "string \<Rightarrow> Channel \<Rightarrow> (string, Org) gomap \<Rightarrow> (string, nat) gomap \<Rightarrow> string list \<Rightarrow> string list \<times> int" where
  "authorizedPeersOf prefix channel orgs counts [] = ([], 0)"
| "authorizedPeersOf prefix channel orgs counts (n # names) =
     (let orgName = trimSpace n; (problems, peers) = authorizedPeersOf prefix channel orgs counts names
      in case map_of orgs orgName of
           None \<Rightarrow> ((prefix @ '' references unknown org '' @ goquote orgName) # problems, peers)
         | Some _ \<Rightarrow>
             (case map_of counts orgName of
                None \<Rightarrow> ((prefix @ '' references org '' @ goquote orgName @ '' outside channel '' @
                         goquote (ch_Name channel)) # problems, peers)
              | Some peerCount \<Rightarrow> (problems, int peerCount + peers)))"

definition peerCountProblems :: "string \<Rightarrow> PrivateDataCollection \<Rightarrow> int \<Rightarrow> string list" where
  "peerCountProblems prefix collection authorizedPeers =
     (let available = int32_of (max (authorizedPeers - 1) 0);
          maxPeerCount = (case pd_MaxPeerCount collection of None \<Rightarrow> available | Some m \<Rightarrow> m);
          requiredPeerCount = (case pd_RequiredPeerCount collection of None \<Rightarrow> 0 | Some r \<Rightarrow> r)
      in (if pd_MaxPeerCount collection \<noteq> None \<and> maxPeerCount > available
          then [prefix @ '' maxPeerCount '' @ itoa maxPeerCount @ '' exceeds available authorized peers '' @
                itoa (max (authorizedPeers - 1) 0)] else []) @
         (if requiredPeerCount > maxPeerCount
          then [prefix @ '' requiredPeerCount '' @ itoa requiredPeerCount @ '' exceeds maxPeerCount '' @
                itoa maxPeerCount] else []))"

definition collectionPolicyProblems :: "string \<Rightarrow> PrivateDataCollection \<Rightarrow> string list" where
  "collectionPolicyProblems prefix collection =
     (case pd_EndorsementPolicy collection of
        None \<Rightarrow> []
      | Some p \<Rightarrow>
          if trimSpace (pe_SignaturePolicy p) \<noteq> [] \<and> trimSpace (pe_ChannelConfigPolicy p) \<noteq> []
          then [prefix @ '' must use only one endorsementPolicy field''] else [])"

fun collectionProblems ::
  "Chaincode \<Rightarrow> Channel \<Rightarrow> (string, Org) gomap \<Rightarrow> string set \<Rightarrow> PrivateDataCollection list \<Rightarrow> string list" where
  "collectionProblems cc channel orgs seen [] = []"
| "collectionProblems cc channel orgs seen (collection # collections) =
     (let name = trimSpace (pd_Name collection);
          prefix = ''chaincode '' @ goquote (cd_Name cc) @ '' private data collection '' @ goquote name
      in if name = []
         then (''chaincode '' @ goquote (cd_Name cc) @ '' private data collection name is required'') #
              collectionProblems cc channel orgs seen collections
         else (if hasPrefix name ''_'' then [prefix @ '' must not start with _''] else []) @
              (if name \<in> seen then [prefix @ '' is declared more than once''] else []) @
              (if pd_OrgNames collection = [] then [prefix @ '' must include at least one org''] else []) @
              (let (problems, authorizedPeers) =
                 authorizedPeersOf prefix channel orgs (channelPeerCountsByOrg channel) (pd_OrgNames collection)
               in problems @ peerCountProblems prefix collection authorizedPeers) @
              collectionPolicyProblems prefix collection @
              collectionProblems cc channel orgs (insert name seen) collections)"

definition validateChaincodePrivateDataTopology ::
  "Chaincode \<Rightarrow> Channel \<Rightarrow> (string, Org) gomap \<Rightarrow> string list" where
  "validateChaincodePrivateDataTopology cc channel orgs = collectionProblems cc channel orgs {} (cd_PrivateData cc)"

fun couchDBIndexProblems :: "Chaincode \<Rightarrow> string set \<Rightarrow> string set \<Rightarrow> CouchDBIndex list \<Rightarrow> string list" where
  "couchDBIndexProblems cc collections seenPaths [] = []"
| "couchDBIndexProblems cc collections seenPaths (ix # ixs) =
     (let name = trimSpace (ix_Name ix);
          prefix = ''chaincode '' @ goquote (cd_Name cc) @ '' CouchDB index '' @ goquote name;
          collection = trimSpace (ix_Collection ix);
          path = chaincodeCouchDBIndexPath ix
      in if name = []
         then (''chaincode '' @ goquote (cd_Name cc) @ '' CouchDB index name is required'') #
              couchDBIndexProblems cc collections seenPaths ixs
         else (if ix_Fields ix = [] then [prefix @ '' must include at least one field''] else []) @
              map (\<lambda>f. prefix @ '' has an empty field'') (filter (\<lambda>f. trimSpace f = []) (ix_Fields ix)) @
              (if collection \<noteq> [] \<and> collection \<notin> collections
               then [prefix @ '' references unknown private data collection '' @ goquote collection] else []) @
              (if path \<in> seenPaths
               then [''chaincode '' @ goquote (cd_Name cc) @ '' CouchDB index package path '' @ goquote path @
                     '' is declared more than once''] else []) @
              couchDBIndexProblems cc collections (insert path seenPaths) ixs)"

definition validateChaincodeCouchDBIndexes :: "Chaincode \<Rightarrow> string list" where
  "validateChaincodeCouchDBIndexes cc =
     couchDBIndexProblems cc
       (set (filter (\<lambda>n. n \<noteq> []) (map (\<lambda>c. trimSpace (pd_Name c)) (cd_PrivateData cc)))) {} (cd_CouchDBIndexes cc)"

section \<open>The network\<close>

text \<open>The loop over \<open>spec.orgs\<close>: problems, the map of organizations, orderer count and consensus types.\<close>

definition orgProblems :: "FabricNetwork \<Rightarrow> (string, Org) gomap \<Rightarrow> Org \<Rightarrow> string list" where
  "orgProblems net orgs org =
     (let orgName = trimSpace (om_Name (org_Organization org))
      in (if map_of orgs orgName \<noteq> None then [''org '' @ goquote orgName @ '' is declared more than once''] else []) @
         validateOrgOrdererConsensus net org @ validateOrgPeerDatabase org @ validateOrgExternalEndpoints org)"

fun orgLoop ::
  "FabricNetwork \<Rightarrow> (string, Org) gomap \<Rightarrow> int \<Rightarrow> string set \<Rightarrow> Org list \<Rightarrow>
     string list \<times> (string, Org) gomap \<times> int \<times> string set" where
  "orgLoop net orgs ordererCount types [] = ([], orgs, ordererCount, types)"
| "orgLoop net orgs ordererCount types (org # rest) =
     (let orgName = trimSpace (om_Name (org_Organization org))
      in if orgName = [] then orgLoop net orgs ordererCount types rest
         else (let (problems, result) = orgLoop net (go_set orgs orgName org)
                     (ordererCount + sum_list (map og_Instances (org_Orderers org)))
                     (types \<union> set (map (\<lambda>grp. ordererConsensusType (og_Type grp)) (org_Orderers org))) rest
               in (orgProblems net orgs org @ problems, result)))"

definition channelOrgProblems :: "Channel \<Rightarrow> (string, Org) gomap \<Rightarrow> ChannelOrg \<Rightarrow> string list" where
  "channelOrgProblems channel orgs co =
     (let prefix = ''channel '' @ goquote (trimSpace (ch_Name channel));
          orgName = trimSpace (co_Name co)
      in (case co_SignedUpdateRef co of None \<Rightarrow> []
          | Some r \<Rightarrow> validateChannelArtifactRef
              (''channel '' @ ch_Name channel @ '' org '' @ co_Name co @ '' signedUpdateRef'') (Some r)) @
         (case map_of orgs orgName of
            None \<Rightarrow> [prefix @ '' references unknown org '' @ goquote orgName]
          | Some org \<Rightarrow>
              if (case org_Peer org of None \<Rightarrow> True | Some p \<Rightarrow> pc_Instances p = 0)
              then [prefix @ '' org '' @ goquote orgName @ '' has no peer instances'']
              else if co_Peers co = []
              then [prefix @ '' org '' @ goquote orgName @ '' must include at least one peer'']
              else if unknownChannelPeers org (co_Peers co) \<noteq> []
              then [prefix @ '' org '' @ goquote orgName @ '' references unknown peers: '' @
                    joinWith '', '' (unknownChannelPeers org (co_Peers co))]
              else []))"

definition localChannelOrgNames :: "Channel \<Rightarrow> string set" where
  "localChannelOrgNames channel = set (filter (\<lambda>n. n \<noteq> []) (map (\<lambda>co. trimSpace (co_Name co)) (ch_Orgs channel)))"

definition channelProblems :: "Crypto \<Rightarrow> FabricNetwork \<Rightarrow> (string, Org) gomap \<Rightarrow> Channel \<Rightarrow> string list" where
  "channelProblems cr net orgs channel =
     (if ch_Orgs channel = []
      then [''channel '' @ goquote (trimSpace (ch_Name channel)) @ '' must include at least one peer org''] else []) @
     concat (map (channelOrgProblems channel orgs) (ch_Orgs channel)) @
     validateChannelExternalOrgs channel orgs (localChannelOrgNames channel) net @
     validateChannelRaftUpdate cr net channel"

fun channelLoop ::
  "Crypto \<Rightarrow> FabricNetwork \<Rightarrow> (string, Org) gomap \<Rightarrow> (string, Channel) gomap \<Rightarrow> Channel list \<Rightarrow>
     string list \<times> (string, Channel) gomap" where
  "channelLoop cr net orgs channels [] = ([], channels)"
| "channelLoop cr net orgs channels (channel # rest) =
     (let channelName = trimSpace (ch_Name channel)
      in if channelName = [] then channelLoop cr net orgs channels rest
         else (let (problems, result) = channelLoop cr net orgs (go_set channels channelName channel) rest
               in ((if map_of channels channelName \<noteq> None
                    then [''channel '' @ goquote channelName @ '' is declared more than once''] else []) @
                   channelProblems cr net orgs channel @ problems, result)))"

fun chaincodeLoop ::
  "(string, Org) gomap \<Rightarrow> (string, Channel) gomap \<Rightarrow> string set \<Rightarrow> (string, string) gomap \<Rightarrow> Chaincode list \<Rightarrow> string list" where
  "chaincodeLoop orgs channels seen labels [] = []"
| "chaincodeLoop orgs channels seen labels (cc # rest) =
     (let name = trimSpace (cd_Name cc); channelName = trimSpace (cd_Channel cc)
      in if name = [] \<or> channelName = [] then chaincodeLoop orgs channels seen labels rest
         else (let key = channelName @ ''/'' @ name; label = chaincodePackageLabel cc
               in (if key \<in> seen
                   then [''chaincode '' @ goquote name @ '' is declared more than once on channel '' @ goquote channelName]
                   else []) @
                  (if map_of channels channelName = None
                   then [''chaincode '' @ goquote name @ '' references unknown channel '' @ goquote channelName] else []) @
                  (case map_of labels label of None \<Rightarrow> []
                   | Some previous \<Rightarrow> [''chaincode package label '' @ goquote label @ '' is used by both '' @
                                       goquote previous @ '' and '' @ goquote key]) @
                  (case map_of channels channelName of None \<Rightarrow> []
                   | Some channel \<Rightarrow>
                       validateChaincodeEndorsementPolicyTopology cc channel orgs @
                       validateChaincodePrivateDataTopology cc channel orgs @
                       validateChaincodeCouchDBIndexes cc) @
                  chaincodeLoop orgs channels (insert key seen) (go_set labels label key) rest))"

definition validateFabricNetworkTopology :: "Crypto \<Rightarrow> FabricNetwork \<Rightarrow> string list" where
  "validateFabricNetworkTopology cr net =
     (let (problems, orgs, ordererCount, types) = orgLoop net [] 0 {} (sp_Orgs (fn_Spec net));
          (cproblems, channels) = channelLoop cr net orgs [] (sp_Channels (fn_Spec net))
      in (if sp_Orgs (fn_Spec net) = [] then [''spec.orgs must include at least one organization''] else []) @
         problems @
         (if ordererCount = 0 then [''at least one orderer instance is required''] else []) @
         (if card types > 1 then [''orderer consensus types must match across all orderer groups''] else []) @
         (if sp_Channels (fn_Spec net) \<noteq> [] \<and> \<not> gl_TLS (sp_Global (fn_Spec net))
          then [''spec.global.tls must be true when channels are declared''] else []) @
         cproblems @ chaincodeLoop orgs channels {} [] (sp_Chaincodes (fn_Spec net)))"

end
