(* ===== verification/Topology_Correct.thy ===== *)
theory Topology_Correct
  imports Topology
begin

text \<open>
  What an empty problem list of the topology validation guarantees. Each validator gets a lemma
  that says exactly when it stays silent (collection \<open>validator\<close>); the properties combine them over
  the whole network.
\<close>

abbreviation orgNameOf :: "Org \<Rightarrow> string" where
  "orgNameOf org \<equiv> trimSpace (om_Name (org_Organization org))"

definition namedOrgs :: "FabricNetwork \<Rightarrow> Org list" where
  "namedOrgs net = filter (\<lambda>org. orgNameOf org \<noteq> []) (sp_Orgs (fn_Spec net))"

definition namedChannels :: "FabricNetwork \<Rightarrow> Channel list" where
  "namedChannels net = filter (\<lambda>ch. trimSpace (ch_Name ch) \<noteq> []) (sp_Channels (fn_Spec net))"

definition namedChaincodes :: "FabricNetwork \<Rightarrow> Chaincode list" where
  "namedChaincodes net =
     filter (\<lambda>cc. trimSpace (cd_Name cc) \<noteq> [] \<and> trimSpace (cd_Channel cc) \<noteq> []) (sp_Chaincodes (fn_Spec net))"

section \<open>Maps built by assignment loops\<close>

definition indexBy :: "('a \<Rightarrow> 'k) \<Rightarrow> ('k, 'a) gomap \<Rightarrow> 'a list \<Rightarrow> ('k, 'a) gomap" where
  "indexBy f m xs = foldl (\<lambda>m x. go_set m (f x) x) m xs"

lemma indexBy_simps [simp]:
  "indexBy f m [] = m" "indexBy f m (x # xs) = indexBy f (go_set m (f x) x) xs"
  by (simp_all add: indexBy_def)

lemma map_of_indexBy: "map_of (indexBy f m xs) = map_of m ++ map_of (rev (map (\<lambda>x. (f x, x)) xs))"
  by (induction xs arbitrary: m) (auto simp: map_add_def fun_eq_iff split: option.splits)

lemma indexBy_distinct:
  assumes "distinct (map f xs)"
  shows "map_of (indexBy f [] xs) k = Some x \<longleftrightarrow> x \<in> set xs \<and> f x = k"
proof -
  have "distinct (map fst (rev (map (\<lambda>x. (f x, x)) xs)))"
    using assms by (simp add: comp_def flip: rev_map)
  then have "map_of (rev (map (\<lambda>x. (f x, x)) xs)) k = Some x \<longleftrightarrow> (k, x) \<in> set (rev (map (\<lambda>x. (f x, x)) xs))"
    by (rule map_of_eq_Some_iff)
  then show ?thesis by (auto simp: map_of_indexBy)
qed

lemma indexBy_None: "map_of (indexBy f [] xs) k = None \<longleftrightarrow> k \<notin> f ` set xs"
  by (force simp: map_of_indexBy map_of_eq_None_iff)

text \<open>Extending a \<open>seen\<close> set by one key, and a map by one entry, under a loop over the rest.\<close>

lemma fresh_insert: "(\<forall>e \<in> A. f e \<notin> insert k S) \<longleftrightarrow> k \<notin> f ` A \<and> (\<forall>e \<in> A. f e \<notin> S)"
  by auto

lemma fresh_go_set:
  "(\<forall>x \<in> A. map_of (go_set m k v) (f x) = None) \<longleftrightarrow> k \<notin> f ` A \<and> (\<forall>x \<in> A. map_of m (f x) = None)"
  by (auto split: if_splits)

section \<open>Component validators\<close>

lemma orgConsensusProblems_nil [validator]:
  "orgConsensusProblems net org i groups = [] \<longleftrightarrow>
     (\<forall>grp \<in> set groups. ordererConsensusType (og_Type grp) = ordererConsensusBFT \<longrightarrow>
        cap_isV3 (fabricCapabilities (gl_FabricVersion (sp_Global (fn_Spec net)))))"
  by (induction net org i groups rule: orgConsensusProblems.induct) auto

lemma validateOrgPeerDatabase_nil [validator]:
  "validateOrgPeerDatabase org = [] \<longleftrightarrow> (\<forall>p. org_Peer org = Some p \<longrightarrow> normalizePeerDatabase (pc_DB p) \<noteq> None)"
  by (simp add: validateOrgPeerDatabase_def split: option.splits)

definition refOk :: "ChannelArtifactKeyRef \<Rightarrow> bool" where
  "refOk r \<longleftrightarrow> (\<exists>k. (ref_ConfigMapKeyRef r = Some k \<and> ref_SecretKeyRef r = None \<or>
                    ref_ConfigMapKeyRef r = None \<and> ref_SecretKeyRef r = Some k) \<and>
                   trimSpace (ks_Name k) \<noteq> [] \<and> trimSpace (ks_Key k) \<noteq> [])"

lemma validateChannelArtifactRef_nil [validator]:
  "validateChannelArtifactRef path ro = [] \<longleftrightarrow> (\<exists>r. ro = Some r \<and> refOk r)"
  by (auto simp: validateChannelArtifactRef_def refOk_def validateKeySelector_def split: option.splits)

definition endpointOk :: "string \<Rightarrow> bool" where
  "endpointOk address \<longleftrightarrow> (\<exists>host portText port. splitHostPort (trimSpace address) = Inr (host, portText) \<and>
     trimSpace host \<noteq> [] \<and> atoi portText = Some port \<and> 1 \<le> port \<and> port \<le> 65535)"

lemma validateParticipantEndpoint_nil [validator]:
  "validateParticipantEndpoint path address True = [] \<longleftrightarrow> endpointOk address"
proof (cases "trimSpace address = []")
  case True
  have "splitHostPort [] = Inl ''missing port in address''"
    by (simp add: splitHostPort_def last_index_def addr_error_def)
  with True show ?thesis by (simp add: validateParticipantEndpoint_def endpointOk_def)
next
  case False
  then show ?thesis
    by (auto simp: validateParticipantEndpoint_def endpointOk_def split: sum.splits option.splits if_splits)
qed

lemma blankHostProblems_nil [validator]:
  "blankHostProblems path j hosts = [] \<longleftrightarrow> (\<forall>h \<in> set hosts. trimSpace h \<noteq> [])"
  by (induction path j hosts rule: blankHostProblems.induct) auto

definition endpointsOk :: "ExternalEndpoint list \<Rightarrow> string set \<Rightarrow> bool" where
  "endpointsOk es known \<longleftrightarrow> distinct (map (\<lambda>e. trimSpace (ee_Name e)) es) \<and>
     (\<forall>e \<in> set es. trimSpace (ee_Name e) \<noteq> [] \<and> trimSpace (ee_Name e) \<in> known \<and> endpointOk (ee_Address e) \<and>
        (\<forall>h \<in> set (ee_TLSHosts e). trimSpace h \<noteq> []))"

lemma externalEndpointProblems_nil:
  "externalEndpointProblems path known i seen es = [] \<longleftrightarrow>
     endpointsOk es known \<and> (\<forall>e \<in> set es. trimSpace (ee_Name e) \<notin> seen)"
proof (induction path known i seen es rule: externalEndpointProblems.induct)
  case (2 path known i seen e es)
  then show ?case
    by (cases "trimSpace (ee_Name e) = []")
       (auto simp: validator Let_def endpointsOk_def fresh_insert simp del: insert_iff)
qed (simp add: endpointsOk_def)

lemma validateExternalEndpoints_nil [validator]:
  "validateExternalEndpoints path es known = [] \<longleftrightarrow> endpointsOk es known"
  by (simp add: validateExternalEndpoints_def externalEndpointProblems_nil)

lemma ordererEndpointProblems_nil [validator]:
  "ordererEndpointProblems orgName i groups = [] \<longleftrightarrow>
     (\<forall>grp \<in> set groups. endpointsOk (og_ExternalEndpoints grp) (set (workloadNames (og_Prefix grp) (og_Instances grp))))"
  by (induction orgName i groups rule: ordererEndpointProblems.induct) (auto simp: validator)

lemma validateOrgExternalEndpoints_nil [validator]:
  "validateOrgExternalEndpoints org = [] \<longleftrightarrow>
     (\<forall>grp \<in> set (org_Orderers org).
        endpointsOk (og_ExternalEndpoints grp) (set (workloadNames (og_Prefix grp) (og_Instances grp)))) \<and>
     (\<forall>p. org_Peer org = Some p \<longrightarrow> endpointsOk (pc_ExternalEndpoints p) (desiredPeerNames org))"
  by (auto simp: validateOrgExternalEndpoints_def validator Let_def split: option.splits)

lemma card_le_1_eq: "finite A \<Longrightarrow> \<not> card A > 1 \<longleftrightarrow> (\<forall>x \<in> A. \<forall>y \<in> A. x = y)"
  by (metis One_nat_def card_le_Suc0_iff_eq linorder_not_less)

definition orgOk :: "FabricNetwork \<Rightarrow> Org \<Rightarrow> bool" where
  "orgOk net org \<longleftrightarrow>
     (\<forall>grp \<in> set (org_Orderers org). ordererConsensusType (og_Type grp) = ordererConsensusBFT \<longrightarrow>
        cap_isV3 (fabricCapabilities (gl_FabricVersion (sp_Global (fn_Spec net))))) \<and>
     (\<forall>p. org_Peer org = Some p \<longrightarrow> normalizePeerDatabase (pc_DB p) \<noteq> None \<and>
        endpointsOk (pc_ExternalEndpoints p) (desiredPeerNames org)) \<and>
     (\<forall>grp \<in> set (org_Orderers org).
        endpointsOk (og_ExternalEndpoints grp) (set (workloadNames (og_Prefix grp) (og_Instances grp))))"

definition sameConsensus :: "OrdererGroup list \<Rightarrow> bool" where
  "sameConsensus groups \<longleftrightarrow> (\<forall>a \<in> set groups. \<forall>b \<in> set groups.
     ordererConsensusType (og_Type a) = ordererConsensusType (og_Type b))"

lemma validateOrgOrdererConsensus_nil [validator]:
  "validateOrgOrdererConsensus net org = [] \<longleftrightarrow> sameConsensus (org_Orderers org) \<and>
     (\<forall>grp \<in> set (org_Orderers org). ordererConsensusType (og_Type grp) = ordererConsensusBFT \<longrightarrow>
        cap_isV3 (fabricCapabilities (gl_FabricVersion (sp_Global (fn_Spec net)))))"
proof -
  let ?T = "set (map (\<lambda>grp. ordererConsensusType (og_Type grp)) (org_Orderers org))"
  have "\<not> card ?T > 1 \<longleftrightarrow> sameConsensus (org_Orderers org)"
    unfolding card_le_1_eq [OF finite_set] by (simp add: sameConsensus_def)
  then show ?thesis
    unfolding validateOrgOrdererConsensus_def append_is_Nil_conv orgConsensusProblems_nil by auto
qed

lemma orgProblems_nil:
  "orgProblems net orgs org = [] \<longleftrightarrow>
     map_of orgs (orgNameOf org) = None \<and> orgOk net org \<and> sameConsensus (org_Orderers org)"
  unfolding orgOk_def by (auto simp: orgProblems_def validator Let_def)

lemma orgLoop_result:
  "snd (orgLoop net orgs c T xs) =
     (indexBy orgNameOf orgs (filter (\<lambda>org. orgNameOf org \<noteq> []) xs),
      c + sum_list (map (\<lambda>org. sum_list (map og_Instances (org_Orderers org))) (filter (\<lambda>org. orgNameOf org \<noteq> []) xs)),
      T \<union> (\<Union>org \<in> set (filter (\<lambda>org. orgNameOf org \<noteq> []) xs).
             set (map (\<lambda>grp. ordererConsensusType (og_Type grp)) (org_Orderers org))))"
proof (induction net orgs c T xs rule: orgLoop.induct)
  case (2 net orgs c T org rest)
  show ?case
  proof (cases "orgNameOf org = []")
    case True
    with 2(1) show ?thesis by (simp add: Let_def)
  next
    case False
    with 2(2) [OF refl False] show ?thesis
      by (simp add: Let_def case_prod_unfold Un_assoc add.assoc)
  qed
qed simp

lemma orgLoop_nil:
  "fst (orgLoop net orgs c T xs) = [] \<longleftrightarrow>
     (let ys = filter (\<lambda>org. orgNameOf org \<noteq> []) xs
      in distinct (map orgNameOf ys) \<and> (\<forall>org \<in> set ys. map_of orgs (orgNameOf org) = None \<and> orgOk net org \<and> sameConsensus (org_Orderers org)))"
proof (induction net orgs c T xs rule: orgLoop.induct)
  case (2 net orgs c T org rest)
  let ?ys = "filter (\<lambda>org. orgNameOf org \<noteq> []) rest"
  show ?case
  proof (cases "orgNameOf org = []")
    case True
    with 2(1) show ?thesis by (simp add: Let_def)
  next
    case False
    note IH = 2(2) [OF refl False, unfolded Let_def ball_conj_distrib fresh_go_set]
    have "fst (orgLoop net orgs c T (org # rest)) = [] \<longleftrightarrow> orgProblems net orgs org = [] \<and>
        fst (orgLoop net (go_set orgs (orgNameOf org) org) (c + sum_list (map og_Instances (org_Orderers org)))
          (T \<union> set (map (\<lambda>grp. ordererConsensusType (og_Type grp)) (org_Orderers org))) rest) = []"
      using False by (simp add: Let_def split: prod.splits)
    then show ?thesis unfolding IH orgProblems_nil using False by (auto simp: Let_def)
  qed
qed simp

section \<open>Channels\<close>

definition channelOrgOk :: "(string, Org) gomap \<Rightarrow> ChannelOrg \<Rightarrow> bool" where
  "channelOrgOk orgs co \<longleftrightarrow>
     (\<forall>r. co_SignedUpdateRef co = Some r \<longrightarrow> refOk r) \<and>
     (\<exists>org p. map_of orgs (trimSpace (co_Name co)) = Some org \<and> org_Peer org = Some p \<and> pc_Instances p \<noteq> 0 \<and>
        co_Peers co \<noteq> [] \<and> set (co_Peers co) \<subseteq> desiredPeerNames org)"

lemma channelOrgProblems_nil [validator]: "channelOrgProblems channel orgs co = [] \<longleftrightarrow> channelOrgOk orgs co"
proof -
  have "unknownChannelPeers org ps = [] \<longleftrightarrow> set ps \<subseteq> desiredPeerNames org" for org ps
    by (auto simp: unknownChannelPeers_def filter_empty_conv)
  then show ?thesis
    by (auto simp: channelOrgProblems_def channelOrgOk_def validator Let_def split: option.splits)
qed

lemma signerProblems_nil:
  "signerProblems path M j seen ss = [] \<longleftrightarrow>
     distinct (map trimSpace ss) \<and> (\<forall>s \<in> set ss. trimSpace s \<noteq> [] \<and> trimSpace s \<in> M) \<and>
     (\<forall>s \<in> set ss. trimSpace s \<notin> seen)"
proof (induction ss arbitrary: j seen)
  case (Cons s ss)
  have "signerProblems path M j seen (s # ss) = [] \<longleftrightarrow> trimSpace s \<noteq> [] \<and> trimSpace s \<in> M \<and> trimSpace s \<notin> seen \<and>
      signerProblems path M (Suc j) (insert (trimSpace s) seen) ss = []"
    by (auto simp: Let_def)
  then show ?case unfolding Cons.IH fresh_insert by auto
qed simp

lemma anchorPeerProblems_nil [validator]:
  "anchorPeerProblems path j as = [] \<longleftrightarrow>
     (\<forall>a \<in> set as. trimSpace (ap_Host a) \<noteq> [] \<and> 1 \<le> ap_Port a \<and> ap_Port a \<le> 65535)"
  by (induction path j as rule: anchorPeerProblems.induct) (auto simp: Let_def)

definition externalOrgOk ::
  "(string, Org) gomap \<Rightarrow> string set \<Rightarrow> string set \<Rightarrow> FabricNetwork \<Rightarrow> ChannelExternalOrg \<Rightarrow> bool" where
  "externalOrgOk orgs localNames localMSPs net e \<longleftrightarrow>
     trimSpace (eo_Name e) \<noteq> [] \<and> map_of orgs (trimSpace (eo_Name e)) = None \<and>
     trimSpace (eo_MSPID e) \<noteq> [] \<and> trimSpace (eo_MSPID e) \<notin> orgMSPNames orgs \<and>
     (\<forall>r. eo_SignedUpdateRef e = Some r \<longrightarrow> refOk r) \<and>
     (if channelExternalOrgDesiredState e = ChannelExternalOrgPresent then refOk (eo_ApplicationOrgRef e)
      else eo_AnchorPeers e = []) \<and>
     (trimSpace (eo_AdminOrg e) \<noteq> [] \<longrightarrow>
        map_of orgs (trimSpace (eo_AdminOrg e)) \<noteq> None \<and> trimSpace (eo_AdminOrg e) \<in> localNames) \<and>
     distinct (map trimSpace (eo_RequiredSignerMSPIDs e)) \<and>
     (\<forall>s \<in> set (eo_RequiredSignerMSPIDs e). trimSpace s \<noteq> [] \<and> trimSpace s \<in> localMSPs) \<and>
     (\<forall>r. eo_Orderer e = Some r \<longrightarrow> channelOrdererRefMatchesAny net r) \<and>
     (\<forall>a \<in> set (eo_AnchorPeers e). trimSpace (ap_Host a) \<noteq> [] \<and> 1 \<le> ap_Port a \<and> ap_Port a \<le> 65535)"

lemma externalOrgProblems_Cons_nil:
  "externalOrgProblems ch orgs ns ms net i sn sm (e # es) = [] \<longleftrightarrow>
     externalOrgOk orgs ns ms net e \<and> trimSpace (eo_Name e) \<notin> sn \<and> trimSpace (eo_MSPID e) \<notin> sm \<and>
     externalOrgProblems ch orgs ns ms net (Suc i) (insert (trimSpace (eo_Name e)) sn)
       (insert (trimSpace (eo_MSPID e)) sm) es = []"
proof -
  have nm: "externalOrgNameProblems c p orgs sn n = [] \<longleftrightarrow> n \<noteq> [] \<and> n \<notin> sn \<and> map_of orgs n = None" for c p n
    by (auto simp: externalOrgNameProblems_def)
  have mp: "externalOrgMSPProblems c p orgs sm m = [] \<longleftrightarrow> m \<noteq> [] \<and> m \<notin> sm \<and> m \<notin> orgMSPNames orgs" for c p m
    by (auto simp: externalOrgMSPProblems_def)
  have ad: "externalOrgAdminProblems c p orgs ns a = [] \<longleftrightarrow>
      (trimSpace a \<noteq> [] \<longrightarrow> map_of orgs (trimSpace a) \<noteq> None \<and> trimSpace a \<in> ns)" for c p a
    by (auto simp: externalOrgAdminProblems_def Let_def)
  have rf: "(case eo_SignedUpdateRef e of None \<Rightarrow> [] | Some r \<Rightarrow> validateChannelArtifactRef p (Some r)) = [] \<longleftrightarrow>
      (\<forall>r. eo_SignedUpdateRef e = Some r \<longrightarrow> refOk r)" for p
    by (simp add: validator split: option.splits)
  have od: "(case eo_Orderer e of None \<Rightarrow> [] | Some r \<Rightarrow> if channelOrdererRefMatchesAny net r then [] else [q]) = [] \<longleftrightarrow>
      (\<forall>r. eo_Orderer e = Some r \<longrightarrow> channelOrdererRefMatchesAny net r)" for q
    by (simp split: option.splits)
  show ?thesis
    unfolding externalOrgProblems.simps Let_def append_is_Nil_conv nm mp ad rf od externalOrgOk_def
      anchorPeerProblems_nil signerProblems_nil
    by (auto simp: validator)
qed

lemma externalOrgProblems_nil:
  "externalOrgProblems ch orgs ns ms net i sn sm es = [] \<longleftrightarrow>
     (\<forall>e \<in> set es. externalOrgOk orgs ns ms net e) \<and>
     distinct (map (\<lambda>e. trimSpace (eo_Name e)) es) \<and> (\<forall>e \<in> set es. trimSpace (eo_Name e) \<notin> sn) \<and>
     distinct (map (\<lambda>e. trimSpace (eo_MSPID e)) es) \<and> (\<forall>e \<in> set es. trimSpace (eo_MSPID e) \<notin> sm)"
proof (induction es arbitrary: i sn sm)
  case (Cons e es)
  show ?case unfolding externalOrgProblems_Cons_nil Cons.IH fresh_insert by auto
qed simp

definition localMSPsOf :: "(string, Org) gomap \<Rightarrow> Channel \<Rightarrow> string set" where
  "localMSPsOf orgs channel = (\<Union>n \<in> localChannelOrgNames channel.
     case map_of orgs n of None \<Rightarrow> {} | Some org \<Rightarrow> {om_MSPName (org_Organization org)})"

definition raftUpdateOk :: "Crypto \<Rightarrow> FabricNetwork \<Rightarrow> ChannelRaftUpdate \<Rightarrow> bool" where
  "raftUpdateOk cr net op \<longleftrightarrow>
     refOk (ru_PlanRef op) \<and> (\<forall>r. ru_SignedUpdateRef op = Some r \<longrightarrow> refOk r) \<and>
     isDNS1123Label cr (ru_OperationID op) \<and>
     (\<exists>org. map_of (orgsByName net) (ru_AdminOrg op) = Some org \<and> org_Orderers org \<noteq> []) \<and>
     or_Org (ru_Orderer op) = ru_AdminOrg op \<and> or_Name (ru_Orderer op) \<noteq> [] \<and>
     channelOrdererRefMatchesAny net (ru_Orderer op) \<and> \<not> networkUsesBFTOrderers net"

lemma validateChannelRaftUpdate_nil [validator]:
  "validateChannelRaftUpdate cr net channel = [] \<longleftrightarrow> (\<forall>op. ch_RaftUpdate channel = Some op \<longrightarrow> raftUpdateOk cr net op)"
  by (auto simp: validateChannelRaftUpdate_def raftUpdateOk_def validator Let_def split: option.splits if_splits)

definition channelOk :: "Crypto \<Rightarrow> FabricNetwork \<Rightarrow> (string, Org) gomap \<Rightarrow> Channel \<Rightarrow> bool" where
  "channelOk cr net orgs channel \<longleftrightarrow>
     ch_Orgs channel \<noteq> [] \<and> (\<forall>co \<in> set (ch_Orgs channel). channelOrgOk orgs co) \<and>
     (\<forall>e \<in> set (ch_ExternalOrgs channel).
        externalOrgOk orgs (localChannelOrgNames channel) (localMSPsOf orgs channel) net e) \<and>
     distinct (map (\<lambda>e. trimSpace (eo_Name e)) (ch_ExternalOrgs channel)) \<and>
     distinct (map (\<lambda>e. trimSpace (eo_MSPID e)) (ch_ExternalOrgs channel)) \<and>
     (\<forall>op. ch_RaftUpdate channel = Some op \<longrightarrow> raftUpdateOk cr net op)"

lemma channelProblems_nil [validator]: "channelProblems cr net orgs channel = [] \<longleftrightarrow> channelOk cr net orgs channel"
  by (auto simp: channelProblems_def channelOk_def validator validateChannelExternalOrgs_def externalOrgProblems_nil
      localMSPsOf_def Let_def)

abbreviation channelNameOf :: "Channel \<Rightarrow> string" where
  "channelNameOf ch \<equiv> trimSpace (ch_Name ch)"

lemma channelLoop_result:
  "snd (channelLoop cr net orgs chs xs) = indexBy channelNameOf chs (filter (\<lambda>ch. channelNameOf ch \<noteq> []) xs)"
proof (induction cr net orgs chs xs rule: channelLoop.induct)
  case (2 cr net orgs chs ch rest)
  then show ?case by (cases "channelNameOf ch = []") (simp_all add: Let_def case_prod_unfold)
qed simp

lemma channelLoop_nil:
  "fst (channelLoop cr net orgs chs xs) = [] \<longleftrightarrow>
     (let ys = filter (\<lambda>ch. channelNameOf ch \<noteq> []) xs
      in distinct (map channelNameOf ys) \<and> (\<forall>ch \<in> set ys. map_of chs (channelNameOf ch) = None) \<and>
         (\<forall>ch \<in> set ys. channelOk cr net orgs ch))"
proof (induction cr net orgs chs xs rule: channelLoop.induct)
  case (2 cr net orgs chs ch rest)
  show ?case
  proof (cases "channelNameOf ch = []")
    case True
    with 2(1) show ?thesis by (simp add: Let_def)
  next
    case False
    note IH = 2(2) [OF refl False, unfolded Let_def fresh_go_set]
    have "fst (channelLoop cr net orgs chs (ch # rest)) = [] \<longleftrightarrow>
        map_of chs (channelNameOf ch) = None \<and> channelOk cr net orgs ch \<and>
        fst (channelLoop cr net orgs (go_set chs (channelNameOf ch) ch) rest) = []"
      using False by (simp add: Let_def validator case_prod_unfold)
    then show ?thesis unfolding IH using False by (auto simp: Let_def)
  qed
qed simp

section \<open>Chaincode\<close>

definition principalOk :: "string set \<Rightarrow> string \<Rightarrow> bool" where
  "principalOk MSPs m \<longleftrightarrow> (\<exists>msp role. splitN2 (trimSpace m) CHR ''.'' = [msp, role] \<and>
     trimSpace msp \<noteq> [] \<and> trimSpace role \<noteq> [] \<and> trimSpace msp \<in> MSPs)"

lemma length_2_conv: "length xs = 2 \<longleftrightarrow> (\<exists>a b. xs = [a, b])"
  by (cases xs; cases "tl xs") (auto simp: length_Suc_conv)

lemma principalProblems_nil:
  "principalProblems c n A M {} ms = [] \<longleftrightarrow> (\<forall>m \<in> set ms. principalOk (A \<inter> M) m)"
proof (induction ms)
  case (Cons m ms)
  show ?case
  proof (cases "length (splitN2 (trimSpace m) CHR ''.'') = 2")
    case False
    then show ?thesis by (auto simp: Let_def principalOk_def)
  next
    case True
    then obtain a b where "splitN2 (trimSpace m) CHR ''.'' = [a, b]" by (auto simp: length_2_conv)
    with Cons show ?thesis by (auto simp: Let_def principalOk_def)
  qed
qed simp

definition policyOk :: "(string, Org) gomap \<Rightarrow> Channel \<Rightarrow> string \<Rightarrow> bool" where
  "policyOk orgs channel policy \<longleftrightarrow>
     policyPrincipals policy \<noteq> [] \<and> (\<forall>m \<in> set (policyPrincipals policy). principalOk (channelMSPNames channel orgs) m)"

lemma channelMSPNames_subset: "channelMSPNames channel orgs \<subseteq> orgMSPNames orgs \<union> externalMSPs channel"
proof
  fix m
  assume "m \<in> channelMSPNames channel orgs"
  then have "m \<in> externalMSPs channel \<or> (\<exists>co \<in> set (ch_Orgs channel). \<exists>org.
      map_of orgs (trimSpace (co_Name co)) = Some org \<and> m = trimSpace (om_MSPName (org_Organization org)) \<and> m \<noteq> [])"
    unfolding channelMSPNames_def List.map_filter_def by auto
  then show "m \<in> orgMSPNames orgs \<union> externalMSPs channel"
    by (auto simp: orgMSPNames_def intro!: rev_image_eqI [OF map_of_SomeD])
qed

lemma validateSignaturePolicy_nil [validator]:
  "validateSignaturePolicyMSPReferences policy c channel orgs = [] \<longleftrightarrow> policyOk orgs channel policy"
  using channelMSPNames_subset [of channel orgs]
  by (auto simp: validateSignaturePolicyMSPReferences_def principalProblems_nil policyOk_def Int_absorb1)

lemma validateEndorsement_nil [validator]:
  "validateChaincodeEndorsementPolicyTopology cc channel orgs = [] \<longleftrightarrow>
     (trimSpace (cd_EndorsementPolicy cc) \<noteq> [] \<longrightarrow> policyOk orgs channel (trimSpace (cd_EndorsementPolicy cc)))"
  by (simp add: validateChaincodeEndorsementPolicyTopology_def validator Let_def)

definition authorizedPeers :: "Channel \<Rightarrow> PrivateDataCollection \<Rightarrow> int" where
  "authorizedPeers channel c =
     sum_list (map (\<lambda>n. case map_of (channelPeerCountsByOrg channel) (trimSpace n) of None \<Rightarrow> 0 | Some k \<Rightarrow> int k)
       (pd_OrgNames c))"

definition collectionOrgOk :: "(string, Org) gomap \<Rightarrow> Channel \<Rightarrow> string \<Rightarrow> bool" where
  "collectionOrgOk orgs channel n \<longleftrightarrow>
     map_of orgs (trimSpace n) \<noteq> None \<and> (\<exists>co \<in> set (ch_Orgs channel). co_Name co = trimSpace n)"

lemma channelPeerCounts_dom:
  "map_of (channelPeerCountsByOrg channel) n = None \<longleftrightarrow> (\<forall>co \<in> set (ch_Orgs channel). co_Name co \<noteq> n)"
proof -
  have "map_of (foldl (\<lambda>m co. go_set m (co_Name co) (length (co_Peers co))) m cs) n = None \<longleftrightarrow>
      map_of m n = None \<and> (\<forall>co \<in> set cs. co_Name co \<noteq> n)" for m and cs :: "ChannelOrg list"
    by (induction cs arbitrary: m) auto
  then show ?thesis by (simp add: channelPeerCountsByOrg_def)
qed

lemma authorizedPeersOf_nil:
  "fst (authorizedPeersOf p channel orgs (channelPeerCountsByOrg channel) ns) = [] \<longleftrightarrow>
     (\<forall>n \<in> set ns. collectionOrgOk orgs channel n)"
proof (induction ns)
  case (Cons n ns)
  show ?case
    using Cons channelPeerCounts_dom [of channel "trimSpace n"]
    by (auto simp: Let_def collectionOrgOk_def case_prod_unfold split: option.splits)
qed simp

lemma authorizedPeersOf_count:
  "\<forall>n \<in> set ns. collectionOrgOk orgs channel n \<Longrightarrow>
   snd (authorizedPeersOf p channel orgs (channelPeerCountsByOrg channel) ns) =
   sum_list (map (\<lambda>n. case map_of (channelPeerCountsByOrg channel) (trimSpace n) of None \<Rightarrow> 0 | Some k \<Rightarrow> int k) ns)"
proof (induction ns)
  case (Cons n ns)
  then obtain org where "map_of orgs (trimSpace n) = Some org" by (auto simp: collectionOrgOk_def)
  with Cons show ?case by (simp add: Let_def case_prod_unfold split: option.splits)
qed simp

definition requiredOf :: "PrivateDataCollection \<Rightarrow> int" where
  "requiredOf c = (case pd_RequiredPeerCount c of None \<Rightarrow> 0 | Some r \<Rightarrow> r)"

definition maxOf :: "int \<Rightarrow> PrivateDataCollection \<Rightarrow> int" where
  "maxOf available c = (case pd_MaxPeerCount c of None \<Rightarrow> available | Some m \<Rightarrow> m)"

lemma peerCountProblems_nil [validator]:
  "peerCountProblems p c n = [] \<longleftrightarrow>
     (let available = int32_of (max (n - 1) 0)
      in maxOf available c \<le> available \<and> requiredOf c \<le> maxOf available c)"
  by (auto simp: peerCountProblems_def Let_def maxOf_def requiredOf_def split: option.splits)

definition collectionOk :: "(string, Org) gomap \<Rightarrow> Channel \<Rightarrow> PrivateDataCollection \<Rightarrow> bool" where
  "collectionOk orgs channel c \<longleftrightarrow>
     trimSpace (pd_Name c) \<noteq> [] \<and> \<not> hasPrefix (trimSpace (pd_Name c)) ''_'' \<and> pd_OrgNames c \<noteq> [] \<and>
     (\<forall>n \<in> set (pd_OrgNames c). collectionOrgOk orgs channel n) \<and>
     (let available = int32_of (max (authorizedPeers channel c - 1) 0)
      in requiredOf c \<le> maxOf available c \<and> maxOf available c \<le> available) \<and>
     (\<forall>p. pd_EndorsementPolicy c = Some p \<longrightarrow> trimSpace (pe_SignaturePolicy p) = [] \<or> trimSpace (pe_ChannelConfigPolicy p) = [])"

lemma collectionProblems_Cons_nil:
  "collectionProblems cc channel orgs seen (c # cs) = [] \<longleftrightarrow>
     collectionOk orgs channel c \<and> trimSpace (pd_Name c) \<notin> seen \<and>
     collectionProblems cc channel orgs (insert (trimSpace (pd_Name c)) seen) cs = []"
proof (cases "trimSpace (pd_Name c) = [] \<or> \<not> (\<forall>n \<in> set (pd_OrgNames c). collectionOrgOk orgs channel n)")
  case True
  then show ?thesis
    by (auto simp: Let_def case_prod_unfold authorizedPeersOf_nil collectionOk_def)
next
  case False
  then have "trimSpace (pd_Name c) \<noteq> []" and ok: "\<forall>n \<in> set (pd_OrgNames c). collectionOrgOk orgs channel n" by auto
  have pol: "collectionPolicyProblems p c = [] \<longleftrightarrow>
      (\<forall>p. pd_EndorsementPolicy c = Some p \<longrightarrow> trimSpace (pe_SignaturePolicy p) = [] \<or> trimSpace (pe_ChannelConfigPolicy p) = [])" for p
    by (simp add: collectionPolicyProblems_def split: option.splits)
  from False show ?thesis
    by (auto simp: Let_def case_prod_unfold authorizedPeersOf_nil authorizedPeersOf_count [OF ok] validator pol
        collectionOk_def authorizedPeers_def)
qed

lemma collectionProblems_nil:
  "collectionProblems cc channel orgs seen cs = [] \<longleftrightarrow>
     (\<forall>c \<in> set cs. collectionOk orgs channel c) \<and> distinct (map (\<lambda>c. trimSpace (pd_Name c)) cs) \<and>
     (\<forall>c \<in> set cs. trimSpace (pd_Name c) \<notin> seen)"
proof (induction cs arbitrary: seen)
  case (Cons c cs)
  show ?case unfolding collectionProblems_Cons_nil Cons.IH fresh_insert by auto
qed simp

definition indexOk :: "string set \<Rightarrow> CouchDBIndex \<Rightarrow> bool" where
  "indexOk collections ix \<longleftrightarrow>
     trimSpace (ix_Name ix) \<noteq> [] \<and> ix_Fields ix \<noteq> [] \<and> (\<forall>f \<in> set (ix_Fields ix). trimSpace f \<noteq> []) \<and>
     (trimSpace (ix_Collection ix) \<noteq> [] \<longrightarrow> trimSpace (ix_Collection ix) \<in> collections)"

lemma couchDBIndexProblems_nil:
  "couchDBIndexProblems cc collections seen ixs = [] \<longleftrightarrow>
     (\<forall>ix \<in> set ixs. indexOk collections ix) \<and> distinct (map chaincodeCouchDBIndexPath ixs) \<and>
     (\<forall>ix \<in> set ixs. chaincodeCouchDBIndexPath ix \<notin> seen)"
proof (induction ixs arbitrary: seen)
  case (Cons ix ixs)
  have "couchDBIndexProblems cc collections seen (ix # ixs) = [] \<longleftrightarrow>
      indexOk collections ix \<and> chaincodeCouchDBIndexPath ix \<notin> seen \<and>
      couchDBIndexProblems cc collections (insert (chaincodeCouchDBIndexPath ix) seen) ixs = []"
    by (auto simp: Let_def indexOk_def filter_empty_conv)
  then show ?case unfolding Cons.IH fresh_insert by auto
qed simp

abbreviation chaincodeKey :: "Chaincode \<Rightarrow> string" where
  "chaincodeKey cc \<equiv> trimSpace (cd_Channel cc) @ ''/'' @ trimSpace (cd_Name cc)"

definition chaincodeOk :: "(string, Org) gomap \<Rightarrow> (string, Channel) gomap \<Rightarrow> Chaincode \<Rightarrow> bool" where
  "chaincodeOk orgs channels cc \<longleftrightarrow> (\<exists>channel. map_of channels (trimSpace (cd_Channel cc)) = Some channel \<and>
     (trimSpace (cd_EndorsementPolicy cc) \<noteq> [] \<longrightarrow> policyOk orgs channel (trimSpace (cd_EndorsementPolicy cc))) \<and>
     (\<forall>c \<in> set (cd_PrivateData cc). collectionOk orgs channel c) \<and>
     distinct (map (\<lambda>c. trimSpace (pd_Name c)) (cd_PrivateData cc)) \<and>
     (\<forall>ix \<in> set (cd_CouchDBIndexes cc). indexOk {n. n \<noteq> [] \<and> (\<exists>c \<in> set (cd_PrivateData cc). n = trimSpace (pd_Name c))} ix) \<and>
     distinct (map chaincodeCouchDBIndexPath (cd_CouchDBIndexes cc)))"

lemma collection_names:
  "set (filter (\<lambda>n. n \<noteq> []) (map (\<lambda>c. trimSpace (pd_Name c)) cs)) =
     {n. n \<noteq> [] \<and> (\<exists>c \<in> set cs. n = trimSpace (pd_Name c))}"
  by auto

lemma validateChaincodeCouchDBIndexes_nil [validator]:
  "validateChaincodeCouchDBIndexes cc = [] \<longleftrightarrow>
     (\<forall>ix \<in> set (cd_CouchDBIndexes cc). indexOk {n. n \<noteq> [] \<and> (\<exists>c \<in> set (cd_PrivateData cc). n = trimSpace (pd_Name c))} ix) \<and>
     distinct (map chaincodeCouchDBIndexPath (cd_CouchDBIndexes cc))"
  unfolding validateChaincodeCouchDBIndexes_def couchDBIndexProblems_nil collection_names by simp

lemma sum_list_concat_map:
  "sum_list (concat (map f xs)) = sum_list (map (\<lambda>x. sum_list (f x)) xs)" for f :: "'a \<Rightarrow> int list"
  by (induction xs) simp_all

lemma chaincodeLoop_nil:
  "chaincodeLoop orgs channels seen labels xs = [] \<longleftrightarrow>
     (let ys = filter (\<lambda>cc. trimSpace (cd_Name cc) \<noteq> [] \<and> trimSpace (cd_Channel cc) \<noteq> []) xs
      in (\<forall>cc \<in> set ys. chaincodeOk orgs channels cc) \<and>
         distinct (map chaincodeKey ys) \<and> (\<forall>cc \<in> set ys. chaincodeKey cc \<notin> seen) \<and>
         distinct (map chaincodePackageLabel ys) \<and> (\<forall>cc \<in> set ys. map_of labels (chaincodePackageLabel cc) = None))"
proof (induction xs arbitrary: seen labels)
  case (Cons cc rest)
  show ?case
  proof (cases "trimSpace (cd_Name cc) = [] \<or> trimSpace (cd_Channel cc) = []")
    case True
    with Cons.IH show ?thesis by (auto simp: Let_def)
  next
    case False
    have "chaincodeLoop orgs channels seen labels (cc # rest) = [] \<longleftrightarrow>
        chaincodeKey cc \<notin> seen \<and> map_of labels (chaincodePackageLabel cc) = None \<and> chaincodeOk orgs channels cc \<and>
        chaincodeLoop orgs channels (insert (chaincodeKey cc) seen)
          (go_set labels (chaincodePackageLabel cc) (chaincodeKey cc)) rest = []"
      using False
      by (auto simp: Let_def chaincodeOk_def validator validateChaincodePrivateDataTopology_def collectionProblems_nil
          split: option.splits)
    then show ?thesis unfolding Cons.IH Let_def fresh_insert fresh_go_set using False by auto
  qed
qed simp

section \<open>The network\<close>

definition orgIndex :: "FabricNetwork \<Rightarrow> (string, Org) gomap" where
  "orgIndex net = indexBy orgNameOf [] (namedOrgs net)"

definition channelIndex :: "FabricNetwork \<Rightarrow> (string, Channel) gomap" where
  "channelIndex net = indexBy channelNameOf [] (namedChannels net)"

definition allOrdererGroups :: "FabricNetwork \<Rightarrow> OrdererGroup list" where
  "allOrdererGroups net = concat (map org_Orderers (namedOrgs net))"

lemma validateFabricNetworkTopology_nil:
  "validateFabricNetworkTopology cr net = [] \<longleftrightarrow>
     sp_Orgs (fn_Spec net) \<noteq> [] \<and> distinct (map orgNameOf (namedOrgs net)) \<and>
     (\<forall>org \<in> set (namedOrgs net). orgOk net org) \<and>
     sum_list (map og_Instances (allOrdererGroups net)) \<noteq> 0 \<and> sameConsensus (allOrdererGroups net) \<and>
     (sp_Channels (fn_Spec net) = [] \<or> gl_TLS (sp_Global (fn_Spec net))) \<and>
     distinct (map channelNameOf (namedChannels net)) \<and>
     (\<forall>ch \<in> set (namedChannels net). channelOk cr net (orgIndex net) ch) \<and>
     (\<forall>cc \<in> set (namedChaincodes net). chaincodeOk (orgIndex net) (channelIndex net) cc) \<and>
     distinct (map chaincodeKey (namedChaincodes net)) \<and> distinct (map chaincodePackageLabel (namedChaincodes net))"
proof -
  let ?o = "orgLoop net [] 0 {} (sp_Orgs (fn_Spec net))"
  have o2: "snd ?o = (orgIndex net, sum_list (map og_Instances (allOrdererGroups net)),
      set (map (\<lambda>grp. ordererConsensusType (og_Type grp)) (allOrdererGroups net)))"
    unfolding orgLoop_result
    by (simp add: orgIndex_def namedOrgs_def allOrdererGroups_def map_concat comp_def sum_list_concat_map)
  have o1: "fst ?o = [] \<longleftrightarrow> distinct (map orgNameOf (namedOrgs net)) \<and>
      (\<forall>org \<in> set (namedOrgs net). orgOk net org \<and> sameConsensus (org_Orderers org))"
    unfolding orgLoop_nil by (simp add: namedOrgs_def Let_def)
  have card: "\<not> card (set (map (\<lambda>grp. ordererConsensusType (og_Type grp)) (allOrdererGroups net))) > 1 \<longleftrightarrow>
      sameConsensus (allOrdererGroups net)"
    unfolding card_le_1_eq [OF finite_set] by (simp add: sameConsensus_def)
  have same: "sameConsensus (allOrdererGroups net) \<Longrightarrow> org \<in> set (namedOrgs net) \<Longrightarrow> sameConsensus (org_Orderers org)" for org
  proof -
    assume a: "sameConsensus (allOrdererGroups net)" "org \<in> set (namedOrgs net)"
    then have "set (org_Orderers org) \<subseteq> set (allOrdererGroups net)" by (auto simp: allOrdererGroups_def)
    with a(1) show "sameConsensus (org_Orderers org)" unfolding sameConsensus_def by blast
  qed
  let ?c = "channelLoop cr net (orgIndex net) [] (sp_Channels (fn_Spec net))"
  have c2: "snd ?c = channelIndex net"
    by (simp add: channelLoop_result channelIndex_def namedChannels_def)
  have c1: "fst ?c = [] \<longleftrightarrow> distinct (map channelNameOf (namedChannels net)) \<and>
      (\<forall>ch \<in> set (namedChannels net). channelOk cr net (orgIndex net) ch)"
    unfolding channelLoop_nil by (simp add: namedChannels_def Let_def)
  have cc: "chaincodeLoop (orgIndex net) (channelIndex net) {} [] (sp_Chaincodes (fn_Spec net)) = [] \<longleftrightarrow>
      (\<forall>cc \<in> set (namedChaincodes net). chaincodeOk (orgIndex net) (channelIndex net) cc) \<and>
      distinct (map chaincodeKey (namedChaincodes net)) \<and> distinct (map chaincodePackageLabel (namedChaincodes net))"
    unfolding chaincodeLoop_nil by (simp add: namedChaincodes_def Let_def)
  have "validateFabricNetworkTopology cr net = [] \<longleftrightarrow>
      sp_Orgs (fn_Spec net) \<noteq> [] \<and> fst ?o = [] \<and> sum_list (map og_Instances (allOrdererGroups net)) \<noteq> 0 \<and>
      \<not> card (set (map (\<lambda>grp. ordererConsensusType (og_Type grp)) (allOrdererGroups net))) > 1 \<and>
      (sp_Channels (fn_Spec net) \<noteq> [] \<longrightarrow> gl_TLS (sp_Global (fn_Spec net))) \<and> fst ?c = [] \<and>
      chaincodeLoop (orgIndex net) (channelIndex net) {} [] (sp_Chaincodes (fn_Spec net)) = []"
    unfolding validateFabricNetworkTopology_def Let_def case_prod_unfold o2 fst_conv snd_conv c2 append_is_Nil_conv
    by auto
  then show ?thesis unfolding o1 card c1 cc using same by blast
qed

section \<open>A sample network\<close>

definition sampleOrg :: "string \<Rightarrow> Org" where
  "sampleOrg n = \<lparr>org_Organization = \<lparr>om_Name = n, om_Domain = n @ ''.example'', om_MSPName = n @ ''MSP''\<rparr>,
     org_CA = \<lparr>ca_DB = [], ca_Registrar = None\<rparr>,
     org_Orderers = [\<lparr>og_GroupName = ''g'', og_Type = ''raft'', og_Instances = 1, og_Prefix = ''orderer'', og_ExternalEndpoints = []\<rparr>],
     org_Peer = Some \<lparr>pc_Instances = 3, pc_DB = ''LevelDB'', pc_Prefix = ''peer'', pc_ExternalEndpoints = []\<rparr>\<rparr>"

definition sampleCollection :: PrivateDataCollection where
  "sampleCollection = \<lparr>pd_Name = ''secret'', pd_OrgNames = [''banka''], pd_Policy = [], pd_RequiredPeerCount = Some 1,
     pd_MaxPeerCount = None, pd_BlockToLive = None, pd_MemberOnlyRead = None, pd_MemberOnlyWrite = None, pd_EndorsementPolicy = None\<rparr>"

definition sampleChannel :: Channel where
  "sampleChannel = \<lparr>ch_Name = ''ch'',
     ch_Orgs = [\<lparr>co_Name = ''banka'', co_Peers = [''peer0'', ''peer1'', ''peer2''], co_SignedUpdateRef = None\<rparr>],
     ch_ExternalOrgs = [], ch_RaftUpdate = None\<rparr>"

definition samplePolicy :: string where
  "samplePolicy = ''OR('' @ [CHR 0x27] @ ''bankaMSP.member'' @ [CHR 0x27] @ '')''"

definition sampleChaincode :: Chaincode where
  "sampleChaincode = \<lparr>cd_Name = ''cc'', cd_Version = ''1'', cd_Channel = ''ch'', cd_Image = ''i'', cd_Sequence = 1, cd_PackageLabel = [],
     cd_EndorsementPolicy = samplePolicy, cd_InitRequired = False, cd_PrivateData = [sampleCollection],
     cd_CouchDBIndexes = [], cd_CCAAS = None\<rparr>"

definition networkOf :: "Org list \<Rightarrow> Channel list \<Rightarrow> Chaincode list \<Rightarrow> FabricNetwork" where
  "networkOf orgs channels chaincodes = \<lparr>fn_Name = ''net'', fn_Namespace = ''default'', fn_UID = ''u'', fn_Generation = 1,
     fn_Finalizers = [], fn_DeletionTimestamp = None,
     fn_Spec = \<lparr>sp_Global = \<lparr>gl_FabricVersion = ''2.5.0'', gl_TLS = True, gl_Images = None, gl_Jobs = None, gl_Storage = None,
                 gl_Observability = None, gl_NetworkPolicy = None\<rparr>,
               sp_Orgs = orgs, sp_Channels = channels, sp_Chaincodes = chaincodes\<rparr>,
     fn_Status = \<lparr>fs_Phase = PhaseUnset, fs_Message = [], fs_OrgStatus = [], fs_ChannelStatus = [], fs_ChaincodeStatus = [], fs_Conditions = []\<rparr>\<rparr>"

definition sampleNetwork :: FabricNetwork where
  "sampleNetwork = networkOf [sampleOrg ''banka''] [sampleChannel] [sampleChaincode]"

lemma sampleNetwork_accepted: "validateFabricNetworkTopology toy_crypto sampleNetwork = []"
  by code_simp

lemma collidingNetwork_accepted:
  "validateFabricNetworkTopology toy_crypto (networkOf [sampleOrg ''BankA'', sampleOrg ''banka''] [] []) = []"
  "orgNamespaceName (networkOf [sampleOrg ''BankA'', sampleOrg ''banka''] [] []) (sampleOrg ''BankA'') =
   orgNamespaceName (networkOf [sampleOrg ''BankA'', sampleOrg ''banka''] [] []) (sampleOrg ''banka'')"
  by code_simp+

section \<open>Properties\<close>

text \<open>
  Claim C21. The topology validation stays silent exactly on the networks that meet the declarative
  conditions: named organizations, channels and chaincodes are unique, the orderers share one
  consensus type (BFT only on Fabric 3), there is an orderer, TLS is on when there are channels,
  and every organization, channel and chaincode is well formed with all its references resolved.
\<close>

theorem topology_accepts_iff:
  "validateFabricNetworkTopology cr net = [] \<longleftrightarrow>
     sp_Orgs (fn_Spec net) \<noteq> [] \<and> distinct (map orgNameOf (namedOrgs net)) \<and>
     (\<forall>org \<in> set (namedOrgs net). orgOk net org) \<and>
     sum_list (map og_Instances (allOrdererGroups net)) \<noteq> 0 \<and> sameConsensus (allOrdererGroups net) \<and>
     (sp_Channels (fn_Spec net) = [] \<or> gl_TLS (sp_Global (fn_Spec net))) \<and>
     distinct (map channelNameOf (namedChannels net)) \<and>
     (\<forall>ch \<in> set (namedChannels net). channelOk cr net (orgIndex net) ch) \<and>
     (\<forall>cc \<in> set (namedChaincodes net). chaincodeOk (orgIndex net) (channelIndex net) cc) \<and>
     distinct (map chaincodeKey (namedChaincodes net)) \<and> distinct (map chaincodePackageLabel (namedChaincodes net))"
  by (rule validateFabricNetworkTopology_nil)

theorem topology_accepts_iff_witness:
  "distinct (map orgNameOf (namedOrgs sampleNetwork)) \<and>
   (\<exists>cc \<in> set (namedChaincodes sampleNetwork). chaincodeOk (orgIndex sampleNetwork) (channelIndex sampleNetwork) cc)"
proof -
  have "sampleChaincode \<in> set (namedChaincodes sampleNetwork)"
    by (simp add: namedChaincodes_def sampleNetwork_def networkOf_def sampleChaincode_def trimSpace_def trim_left_def
        trim_right_def is_space_def)
  with topology_accepts_iff [of toy_crypto sampleNetwork] sampleNetwork_accepted show ?thesis by blast
qed

lemma orgIndex_Some:
  "distinct (map orgNameOf (namedOrgs net)) \<Longrightarrow>
   map_of (orgIndex net) n = Some org \<longleftrightarrow> org \<in> set (namedOrgs net) \<and> orgNameOf org = n"
  unfolding orgIndex_def by (rule indexBy_distinct)

lemma channelIndex_Some:
  "distinct (map channelNameOf (namedChannels net)) \<Longrightarrow>
   map_of (channelIndex net) n = Some ch \<longleftrightarrow> ch \<in> set (namedChannels net) \<and> channelNameOf ch = n"
  unfolding channelIndex_def by (rule indexBy_distinct)

text \<open>
  Claim C23. In an accepted network every member of a channel is a declared organization that runs
  peers, and every peer it lists is one of the workloads the controller creates for that
  organization.
\<close>

theorem topology_channel_members_exist:
  assumes "validateFabricNetworkTopology cr net = []"
    and "channel \<in> set (namedChannels net)" and "co \<in> set (ch_Orgs channel)" and "peer \<in> set (co_Peers co)"
  shows "\<exists>org \<in> set (namedOrgs net). \<exists>p i. orgNameOf org = trimSpace (co_Name co) \<and> org_Peer org = Some p \<and>
           int i < pc_Instances p \<and> peer = workloadName (pc_Prefix p) i"
proof -
  from assms have "distinct (map orgNameOf (namedOrgs net))" "channelOrgOk (orgIndex net) co"
    unfolding validateFabricNetworkTopology_nil channelOk_def by blast+
  then obtain org p where "org \<in> set (namedOrgs net)" "orgNameOf org = trimSpace (co_Name co)" "org_Peer org = Some p"
    "set (co_Peers co) \<subseteq> desiredPeerNames org"
    unfolding channelOrgOk_def using orgIndex_Some by blast
  moreover from this assms(4) obtain i where "i < nat (pc_Instances p)" "peer = workloadName (pc_Prefix p) i"
    by (auto simp: desiredPeerNames_def workloadNames_def)
  ultimately show ?thesis by (intro bexI [of _ org] exI [of _ p] exI [of _ i]) auto
qed

theorem topology_channel_members_exist_witness:
  "\<exists>org \<in> set (namedOrgs sampleNetwork). \<exists>p i. orgNameOf org = ''banka'' \<and> org_Peer org = Some p \<and>
     int i < pc_Instances p \<and> ''peer2'' = workloadName (pc_Prefix p) i"
proof -
  have ch: "sampleChannel \<in> set (namedChannels sampleNetwork)" by code_simp
  have "hd (ch_Orgs sampleChannel) \<in> set (ch_Orgs sampleChannel)" "''peer2'' \<in> set (co_Peers (hd (ch_Orgs sampleChannel)))"
    "trimSpace (co_Name (hd (ch_Orgs sampleChannel))) = ''banka''"
    by code_simp+
  with topology_channel_members_exist [OF sampleNetwork_accepted ch] show ?thesis by metis
qed

text \<open>
  Claim C24. In an accepted network every principal of a chaincode's endorsement policy has the
  form \<open>MSP.role\<close> and names the MSP of a local member of the chaincode's channel or of an external
  organization that is present on it.
\<close>

theorem topology_policy_principals_on_channel:
  assumes "validateFabricNetworkTopology cr net = []" and "cc \<in> set (namedChaincodes net)"
    and "trimSpace (cd_EndorsementPolicy cc) \<noteq> []"
    and "m \<in> set (policyPrincipals (trimSpace (cd_EndorsementPolicy cc)))"
  shows "\<exists>channel \<in> set (namedChannels net). channelNameOf channel = trimSpace (cd_Channel cc) \<and>
     (\<exists>msp role. splitN2 (trimSpace m) CHR ''.'' = [msp, role] \<and> trimSpace role \<noteq> [] \<and>
        ((\<exists>co \<in> set (ch_Orgs channel). \<exists>org \<in> set (namedOrgs net). orgNameOf org = trimSpace (co_Name co) \<and>
            trimSpace (om_MSPName (org_Organization org)) = trimSpace msp) \<or>
         (\<exists>e \<in> set (ch_ExternalOrgs channel). eo_State e \<noteq> ChannelExternalOrgAbsent \<and> trimSpace (eo_MSPID e) = trimSpace msp)))"
proof -
  from assms(1,2) have d: "distinct (map orgNameOf (namedOrgs net))" "distinct (map channelNameOf (namedChannels net))"
    and ok: "chaincodeOk (orgIndex net) (channelIndex net) cc"
    unfolding validateFabricNetworkTopology_nil by blast+
  from ok assms(3) obtain channel where
    ch: "channel \<in> set (namedChannels net)" "channelNameOf channel = trimSpace (cd_Channel cc)"
        "policyOk (orgIndex net) channel (trimSpace (cd_EndorsementPolicy cc))"
    unfolding chaincodeOk_def channelIndex_Some [OF d(2)] by blast
  from ch(3) assms(4) obtain msp role where
    m: "splitN2 (trimSpace m) CHR ''.'' = [msp, role]" "trimSpace role \<noteq> []" "trimSpace msp \<in> channelMSPNames channel (orgIndex net)"
    unfolding policyOk_def principalOk_def by blast
  from m(3) have "(\<exists>co \<in> set (ch_Orgs channel). \<exists>org. map_of (orgIndex net) (trimSpace (co_Name co)) = Some org \<and>
            trimSpace (om_MSPName (org_Organization org)) = trimSpace msp) \<or>
         (\<exists>e \<in> set (ch_ExternalOrgs channel). eo_State e \<noteq> ChannelExternalOrgAbsent \<and> trimSpace (eo_MSPID e) = trimSpace msp)"
    unfolding channelMSPNames_def externalMSPs_def channelExternalOrgDesiredState_def List.map_filter_def
    by (auto split: if_splits) metis
  with m ch orgIndex_Some [OF d(1)] show ?thesis by metis
qed

theorem topology_policy_principals_on_channel_witness:
  "\<exists>channel \<in> set (namedChannels sampleNetwork). channelNameOf channel = ''ch'' \<and>
     (\<exists>msp role. splitN2 ''bankaMSP.member'' CHR ''.'' = [msp, role])"
proof -
  have cc: "sampleChaincode \<in> set (namedChaincodes sampleNetwork)"
    "trimSpace (cd_EndorsementPolicy sampleChaincode) \<noteq> []"
    "''bankaMSP.member'' \<in> set (policyPrincipals (trimSpace (cd_EndorsementPolicy sampleChaincode)))"
    "trimSpace (cd_Channel sampleChaincode) = ''ch''" "trimSpace ''bankaMSP.member'' = ''bankaMSP.member''"
    by code_simp+
  from topology_policy_principals_on_channel [OF sampleNetwork_accepted cc(1-3)] show ?thesis
    unfolding cc(4,5) by blast
qed




end
