(* ===== verification/Connection_Profile.thy ===== *)
theory Connection_Profile
  imports Workload_Objects Topology_Correct
begin

text \<open>
  Client connection profiles, from \<^verbatim>\<open>fabricnetwork_connection_profile.go\<close>: the profile of an
  organization as a record, its JSON tree by the struct tags, the TLS roots read from the identity
  Secrets, and the reconciler that stores a profile per organization with peers. Printing the JSON
  tree and converting it to YAML are operations of the cluster record.
\<close>

section \<open>The profile\<close>

record connectionProfileTLSRoots =
  tr_peers :: "(string, string) gomap"
  tr_orderers :: "(string, string) gomap"

record fabricConnectionProfileChannelPeer =
  cpp_EndorsingPeer :: bool
  cpp_ChaincodeQuery :: bool
  cpp_LedgerQuery :: bool
  cpp_EventSource :: bool

record fabricConnectionProfileChannel =
  cpc_Orderers :: "string list"
  cpc_Peers :: "(string, fabricConnectionProfileChannelPeer) gomap"

record fabricConnectionProfileOrganization =
  cpo_MSPID :: string
  cpo_Peers :: "string list"
  cpo_Orderers :: "string list"
  cpo_CertificateAuthorities :: "string list"

record fabricConnectionProfileGRPCEndpoint =
  cpe_URL :: string
  cpe_GRPCOptions :: "(string, string) gomap"
  cpe_TLSCACerts :: "string option"

record fabricConnectionProfileCA =
  cpca_URL :: string
  cpca_CAName :: string

record fabricConnectionProfile =
  cp_Name :: string
  cp_Version :: string
  cp_ClientOrganization :: string
  cp_Channels :: "(string, fabricConnectionProfileChannel) gomap"
  cp_Organizations :: "(string, fabricConnectionProfileOrganization) gomap"
  cp_Orderers :: "(string, fabricConnectionProfileGRPCEndpoint) gomap"
  cp_Peers :: "(string, fabricConnectionProfileGRPCEndpoint) gomap"
  cp_CertificateAuthorities :: "(string, fabricConnectionProfileCA) gomap"

definition connectionProfileConfigMapName :: "FabricNetwork \<Rightarrow> string" where
  "connectionProfileConfigMapName net = sanitizeName (fn_Name net @ ''-connection-profile'')"

definition connectionProfileOrdererName :: "Org \<Rightarrow> string \<Rightarrow> string" where
  "connectionProfileOrdererName org ordererName = sanitizeName ordererName @ ''.'' @ sanitizeName (om_Name (org_Organization org))"

definition connectionProfilePeerName :: "Org \<Rightarrow> string \<Rightarrow> string" where
  "connectionProfilePeerName org peerName = sanitizeName peerName @ ''.'' @ sanitizeName (om_Name (org_Organization org))"

definition connectionProfileCAName :: "Org \<Rightarrow> string" where
  "connectionProfileCAName org = sanitizeName (om_Name (org_Organization org) @ ''-ca'')"

definition ordererHost :: "ordererInstance \<Rightarrow> string" where
  "ordererHost orderer = ordererConnectionProfileTLSHost orderer"

definition peerHost :: "peerInstance \<Rightarrow> string" where
  "peerHost peer = peerConnectionProfileTLSHost peer"

definition desiredPeerInstances :: "FabricNetwork \<Rightarrow> peerInstance list" where
  "desiredPeerInstances net =
     concat (map (\<lambda>org. map (\<lambda>name. \<lparr>pi_org = org, pi_name = name, pi_namespace = orgNamespaceName net org\<rparr>) (peerWorkloads org))
       (sp_Orgs (fn_Spec net)))"

definition connectionProfileGRPCEndpoint :: "string \<Rightarrow> string \<Rightarrow> string \<Rightarrow> fabricConnectionProfileGRPCEndpoint" where
  "connectionProfileGRPCEndpoint address host tlsCACert =
     (if tlsCACert \<noteq> []
      then \<lparr>cpe_URL = ''grpcs://'' @ address,
            cpe_GRPCOptions = [(''ssl-target-name-override'', host), (''hostnameOverride'', host)], cpe_TLSCACerts = Some tlsCACert\<rparr>
      else \<lparr>cpe_URL = ''grpc://'' @ address, cpe_GRPCOptions = [], cpe_TLSCACerts = None\<rparr>)"

text \<open>A map filled in the order of a list: later entries of the same key win.\<close>

definition fillMap :: "('a \<Rightarrow> 'k) \<Rightarrow> ('a \<Rightarrow> 'v) \<Rightarrow> 'a list \<Rightarrow> ('k, 'v) gomap" where
  "fillMap key val xs = foldl (\<lambda>m x. go_set m (key x) (val x)) [] xs"

definition profileOrdererName :: "ordererInstance \<Rightarrow> string" where
  "profileOrdererName orderer = connectionProfileOrdererName (oi_org orderer) (oi_name orderer)"

definition profilePeerName :: "peerInstance \<Rightarrow> string" where
  "profilePeerName peer = connectionProfilePeerName (pi_org peer) (pi_name peer)"

definition profileOrganization :: "FabricNetwork \<Rightarrow> Org \<Rightarrow> fabricConnectionProfileOrganization" where
  "profileOrganization net org =
     (let name = om_Name (org_Organization org)
      in \<lparr>cpo_MSPID = om_MSPName (org_Organization org),
          cpo_Peers = map (\<lambda>peer. connectionProfilePeerName org (pi_name peer))
            (filter (\<lambda>peer. om_Name (org_Organization (pi_org peer)) = name) (desiredPeerInstances net)),
          cpo_Orderers = map (\<lambda>orderer. connectionProfileOrdererName org (oi_name orderer))
            (filter (\<lambda>orderer. om_Name (org_Organization (oi_org orderer)) = name) (desiredOrdererInstances net)),
          cpo_CertificateAuthorities = [connectionProfileCAName org]\<rparr>)"

definition profileCA :: "FabricNetwork \<Rightarrow> Org \<Rightarrow> fabricConnectionProfileCA" where
  "profileCA net org =
     \<lparr>cpca_URL = ''http://'' @ serviceDNS (sanitizeName (om_Name (org_Organization org) @ ''-ca'')) (orgNamespaceName net org) caPort,
      cpca_CAName = sanitizeName (om_Name (org_Organization org))\<rparr>"

definition channelPeerNames :: "FabricNetwork \<Rightarrow> Channel \<Rightarrow> string list" where
  "channelPeerNames net channel =
     concat (map (\<lambda>channelOrg. case map_of (orgsByName net) (co_Name channelOrg) of
         None \<Rightarrow> [] | Some org \<Rightarrow> map (connectionProfilePeerName org) (co_Peers channelOrg)) (ch_Orgs channel))"

definition profileChannel :: "FabricNetwork \<Rightarrow> Channel \<Rightarrow> fabricConnectionProfileChannel" where
  "profileChannel net channel =
     \<lparr>cpc_Orderers = map profileOrdererName (desiredOrdererInstances net),
      cpc_Peers = fillMap (\<lambda>name. name)
        (\<lambda>_. \<lparr>cpp_EndorsingPeer = True, cpp_ChaincodeQuery = True, cpp_LedgerQuery = True, cpp_EventSource = True\<rparr>)
        (channelPeerNames net channel)\<rparr>"

definition buildConnectionProfile :: "FabricNetwork \<Rightarrow> Org \<Rightarrow> connectionProfileTLSRoots \<Rightarrow> fabricConnectionProfile" where
  "buildConnectionProfile net clientOrg tlsRoots =
     \<lparr>cp_Name = fn_Name net, cp_Version = ''1.0.0'', cp_ClientOrganization = om_Name (org_Organization clientOrg),
      cp_Channels = fillMap ch_Name (profileChannel net) (sp_Channels (fn_Spec net)),
      cp_Organizations = fillMap (\<lambda>org. om_Name (org_Organization org)) (profileOrganization net) (sp_Orgs (fn_Spec net)),
      cp_Orderers = fillMap profileOrdererName
        (\<lambda>orderer. connectionProfileGRPCEndpoint (ordererAdvertisedClientAddress orderer) (ordererHost orderer)
           (go_get (tr_orderers tlsRoots) (profileOrdererName orderer))) (desiredOrdererInstances net),
      cp_Peers = fillMap profilePeerName
        (\<lambda>peer. connectionProfileGRPCEndpoint (peerAdvertisedAddress peer) (peerHost peer)
           (go_get (tr_peers tlsRoots) (profilePeerName peer))) (desiredPeerInstances net),
      cp_CertificateAuthorities = fillMap connectionProfileCAName (profileCA net) (sp_Orgs (fn_Spec net))\<rparr>"

section \<open>JSON\<close>

definition jStringList :: "string list \<Rightarrow> json" where "jStringList xs = JArr (map JStr xs)"

definition jOmitEmpty :: "string \<Rightarrow> json \<Rightarrow> (string \<times> json) list" where
  "jOmitEmpty key v = (if v = JArr [] \<or> v = JObj [] then [] else [(key, v)])"

definition jMapOf :: "('v \<Rightarrow> json) \<Rightarrow> (string, 'v) gomap \<Rightarrow> json" where
  "jMapOf f m = marshal_map (map (\<lambda>(k, v). (k, f v)) m)"

definition marshalEndpoint :: "fabricConnectionProfileGRPCEndpoint \<Rightarrow> json" where
  "marshalEndpoint e = JObj ([(''url'', JStr (cpe_URL e))] @ jOmitEmpty ''grpcOptions'' (jMapOf JStr (cpe_GRPCOptions e)) @
     (case cpe_TLSCACerts e of None \<Rightarrow> [] | Some pem \<Rightarrow> [(''tlsCACerts'', JObj [(''pem'', JStr pem)])]))"

definition marshalChannelPeer :: "fabricConnectionProfileChannelPeer \<Rightarrow> json" where
  "marshalChannelPeer p = JObj [(''endorsingPeer'', JBool (cpp_EndorsingPeer p)), (''chaincodeQuery'', JBool (cpp_ChaincodeQuery p)),
     (''ledgerQuery'', JBool (cpp_LedgerQuery p)), (''eventSource'', JBool (cpp_EventSource p))]"

definition marshalProfileChannel :: "fabricConnectionProfileChannel \<Rightarrow> json" where
  "marshalProfileChannel c = JObj (jOmitEmpty ''orderers'' (jStringList (cpc_Orderers c)) @
     jOmitEmpty ''peers'' (jMapOf marshalChannelPeer (cpc_Peers c)))"

definition marshalProfileOrganization :: "fabricConnectionProfileOrganization \<Rightarrow> json" where
  "marshalProfileOrganization o' = JObj ([(''mspid'', JStr (cpo_MSPID o'))] @ jOmitEmpty ''peers'' (jStringList (cpo_Peers o')) @
     jOmitEmpty ''orderers'' (jStringList (cpo_Orderers o')) @
     jOmitEmpty ''certificateAuthorities'' (jStringList (cpo_CertificateAuthorities o')))"

definition marshalProfileCA :: "fabricConnectionProfileCA \<Rightarrow> json" where
  "marshalProfileCA c = JObj [(''url'', JStr (cpca_URL c)), (''caName'', JStr (cpca_CAName c))]"

definition marshalProfile :: "fabricConnectionProfile \<Rightarrow> json" where
  "marshalProfile p = JObj ([(''name'', JStr (cp_Name p)), (''version'', JStr (cp_Version p)),
     (''client'', JObj [(''organization'', JStr (cp_ClientOrganization p))])] @
     jOmitEmpty ''channels'' (jMapOf marshalProfileChannel (cp_Channels p)) @
     [(''organizations'', jMapOf marshalProfileOrganization (cp_Organizations p))] @
     jOmitEmpty ''orderers'' (jMapOf marshalEndpoint (cp_Orderers p)) @
     jOmitEmpty ''peers'' (jMapOf marshalEndpoint (cp_Peers p)) @
     jOmitEmpty ''certificateAuthorities'' (jMapOf marshalProfileCA (cp_CertificateAuthorities p)))"

definition buildConnectionProfileConfigMap ::
  "'s Cluster \<Rightarrow> FabricNetwork \<Rightarrow> Org \<Rightarrow> connectionProfileTLSRoots \<Rightarrow> ApiError + ConfigMap" where
  "buildConnectionProfileConfigMap cl net clientOrg tlsRoots =
     (let jsonProfile = cl_MarshalIndent cl (marshalProfile (buildConnectionProfile net clientOrg tlsRoots))
      in case cl_JSONToYAML cl jsonProfile of
           Inl e \<Rightarrow> Inl (OtherError e)
         | Inr yamlProfile \<Rightarrow> Inr
             \<lparr>cm_Meta = \<lparr>mt_Name = connectionProfileConfigMapName net, mt_Namespace = orgNamespaceName net clientOrg,
                mt_Labels = Some (orgLabels net clientOrg ''connection-profile''), mt_Annotations = Some (resourceAnnotations net clientOrg)\<rparr>,
              cm_Data = [(''connection.json'', jsonProfile), (''connection.yaml'', yamlProfile)], cm_BinaryData = [], cm_Immutable = False\<rparr>)"

section \<open>Reconciliation\<close>

definition identityMaterialReady :: "OrgStatus list \<Rightarrow> bool" where
  "identityMaterialReady statuses = list_all os_IdentityReady statuses"

definition loadTLSCACert :: "'s Kube \<Rightarrow> string \<Rightarrow> string \<Rightarrow> ('s, string) io" where
  "loadTLSCACert api namespace secretName =
     ioBind (getSecret api namespace secretName) (\<lambda>found s.
       case found of
         None \<Rightarrow> (Inl NotFound, s)
       | Some secret \<Rightarrow>
           (let pem = trimSpace (go_get (sec_Data secret) ''ca.crt'')
            in if pem = [] then (Inl (OtherError (''secret '' @ namespace @ ''/'' @ secretName @ '' is missing ca.crt'')), s)
               else (Inr pem, s)))"

fun loadRoots :: "'s Kube \<Rightarrow> (string, string) gomap \<Rightarrow> (string \<times> string \<times> string) list \<Rightarrow> ('s, (string, string) gomap) io" where
  "loadRoots api roots [] = ioReturn roots"
| "loadRoots api roots ((key, namespace, secretName) # rest) =
     ioBind (loadTLSCACert api namespace secretName) (\<lambda>pem. loadRoots api (go_set roots key pem) rest)"

definition loadConnectionProfileTLSRoots :: "'s Kube \<Rightarrow> FabricNetwork \<Rightarrow> ('s, connectionProfileTLSRoots) io" where
  "loadConnectionProfileTLSRoots api net =
     (if \<not> tlsOn net then ioReturn \<lparr>tr_peers = [], tr_orderers = []\<rparr>
      else ioBind (loadRoots api [] (map (\<lambda>peer. (profilePeerName peer, pi_namespace peer, identitySecretName (pi_name peer) secretKindTLS))
             (desiredPeerInstances net))) (\<lambda>peers.
           ioBind (loadRoots api [] (map (\<lambda>orderer. (profileOrdererName orderer, oi_namespace orderer, identitySecretName (oi_name orderer) secretKindTLS))
             (desiredOrdererInstances net))) (\<lambda>orderers.
           ioReturn \<lparr>tr_peers = peers, tr_orderers = orderers\<rparr>)))"

text \<open>On an error the statuses written so far are returned with it.\<close>

fun profileLoop ::
  "'s Cluster \<Rightarrow> FabricNetwork \<Rightarrow> connectionProfileTLSRoots \<Rightarrow> OrgStatus list \<Rightarrow> OrgStatus list \<Rightarrow>
     's \<Rightarrow> (OrgStatus list \<times> ApiError option) \<times> 's" where
  "profileLoop cl net tlsRoots written [] s = ((written, None), s)"
| "profileLoop cl net tlsRoots written (status # statuses) s =
     (case map_of (orgsByName net) (os_Name status) of
        None \<Rightarrow> profileLoop cl net tlsRoots (written @ [status]) statuses s
      | Some org \<Rightarrow>
          if org_Peer org = None then profileLoop cl net tlsRoots (written @ [status]) statuses s
          else case buildConnectionProfileConfigMap cl net org tlsRoots of
                 Inl e \<Rightarrow> ((written @ status # statuses, Some e), s)
               | Inr profile \<Rightarrow>
                   (case ensureConfigMap (cl_Kube cl) profile s of
                      (Inl e, s1) \<Rightarrow> ((written @ status # statuses, Some e), s1)
                    | (Inr _, s1) \<Rightarrow> profileLoop cl net tlsRoots
                        (written @ [status\<lparr>os_ConnectionProfileConfigMapName := mt_Name (cm_Meta profile)\<rparr>]) statuses s1))"

definition reconcileConnectionProfiles ::
  "'s Cluster \<Rightarrow> FabricNetwork \<Rightarrow> OrgStatus list \<Rightarrow> 's \<Rightarrow> (OrgStatus list \<times> ApiError option) \<times> 's" where
  "reconcileConnectionProfiles cl net statuses s =
     (if \<not> identityMaterialReady statuses then ((statuses, None), s)
      else case loadConnectionProfileTLSRoots (cl_Kube cl) net s of
             (Inl e, s1) \<Rightarrow> ((statuses, Some e), s1)
           | (Inr tlsRoots, s1) \<Rightarrow> profileLoop cl net tlsRoots [] statuses s1)"

section \<open>References within a profile\<close>

lemma fillMap_keys [simp]: "fst ` set (fillMap key val xs) = key ` set xs"
proof -
  have "fst ` set (foldl (\<lambda>m x. go_set m (key x) (val x)) m xs) = fst ` set m \<union> key ` set xs" for m
    by (induction xs arbitrary: m) (auto simp: go_set_def update_keys dom_update)
  then show ?thesis by (simp add: fillMap_def)
qed

lemma go_set_entry: "(k, v) \<in> set (go_set m k' v') \<Longrightarrow> (k, v) \<in> set m \<or> (k, v) = (k', v')"
  unfolding go_set_def by (induction m) (auto split: if_splits)

lemma fillMap_entry: "(k, v) \<in> set (fillMap key val xs) \<Longrightarrow> \<exists>x \<in> set xs. k = key x \<and> v = val x"
proof -
  have "(k, v) \<in> set (foldl (\<lambda>m x. go_set m (key x) (val x)) m xs) \<Longrightarrow> (k, v) \<in> set m \<or> (\<exists>x \<in> set xs. k = key x \<and> v = val x)" for m
  proof (induction xs arbitrary: m)
    case (Cons x xs)
    from Cons.IH [of "go_set m (key x) (val x)"] Cons.prems show ?case
      by (auto dest: go_set_entry)
  qed simp
  then show "(k, v) \<in> set (fillMap key val xs) \<Longrightarrow> ?thesis" by (fastforce simp: fillMap_def)
qed

lemma peer_listed:
  "org \<in> set (sp_Orgs (fn_Spec net)) \<Longrightarrow> name \<in> desiredPeerNames org \<Longrightarrow>
     connectionProfilePeerName org name \<in> profilePeerName ` set (desiredPeerInstances net)"
proof -
  assume org: "org \<in> set (sp_Orgs (fn_Spec net))" and name: "name \<in> desiredPeerNames org"
  let ?peer = "\<lparr>pi_org = org, pi_name = name, pi_namespace = orgNamespaceName net org\<rparr>"
  have "name \<in> set (peerWorkloads org)" using name by (auto simp: desiredPeerNames_def peerWorkloads_def split: option.splits)
  with org have "?peer \<in> set (desiredPeerInstances net)" by (auto simp: desiredPeerInstances_def)
  then show ?thesis by (force simp: profilePeerName_def)
qed

lemma orgsByName_Some: "map_of (orgsByName net) n = Some org \<Longrightarrow> org \<in> set (sp_Orgs (fn_Spec net)) \<and> om_Name (org_Organization org) = n"
proof -
  have "orgsByName net = fillMap (\<lambda>org. om_Name (org_Organization org)) (\<lambda>org. org) (sp_Orgs (fn_Spec net))"
    by (simp add: orgsByName_def fillMap_def)
  then show "map_of (orgsByName net) n = Some org \<Longrightarrow> ?thesis" by (auto dest!: map_of_SomeD fillMap_entry)
qed

lemma channel_peers_listed:
  assumes "validateFabricNetworkTopology cr net = []" and "channel \<in> set (namedChannels net)"
  shows "set (channelPeerNames net channel) \<subseteq> profilePeerName ` set (desiredPeerInstances net)"
proof
  fix name
  assume "name \<in> set (channelPeerNames net channel)"
  then obtain co org peer where co: "co \<in> set (ch_Orgs channel)" "map_of (orgsByName net) (co_Name co) = Some org"
      "peer \<in> set (co_Peers co)" "name = connectionProfilePeerName org peer"
    by (auto simp: channelPeerNames_def split: option.splits dest!: sym [of "Some _"])
  note org = orgsByName_Some [OF co(2)]
  have d: "distinct (map orgNameOf (namedOrgs net))" and "channelOrgOk (orgIndex net) co"
    using assms co(1) unfolding validateFabricNetworkTopology_nil channelOk_def by blast+
  then obtain org' where org': "org' \<in> set (namedOrgs net)" "orgNameOf org' = trimSpace (co_Name co)" "set (co_Peers co) \<subseteq> desiredPeerNames org'"
    unfolding channelOrgOk_def using orgIndex_Some by blast
  have "orgNameOf org = orgNameOf org'" using org org'(2) by simp
  moreover have "org \<in> set (namedOrgs net)" using org calculation org'(1) by (auto simp: namedOrgs_def)
  ultimately have "org = org'" using d org'(1) by (auto simp: distinct_map inj_on_def)
  with co(3,4) org org'(3) show "name \<in> profilePeerName ` set (desiredPeerInstances net)" by (auto intro: peer_listed)
qed

lemma loadRoots_nonempty:
  assumes "fst (loadRoots api roots items s) = Inr roots'" and "\<forall>k \<in> fst ` set roots. go_get roots k \<noteq> []"
  shows "\<forall>k \<in> fst ` set roots \<union> fst ` set items. go_get roots' k \<noteq> []"
  using assms
proof (induction items arbitrary: roots s)
  case (Cons item items)
  obtain key ns secret where item: "item = (key, ns, secret)" by (cases item)
  from Cons.prems(1) obtain pem s1 where pem: "pem \<noteq> []" "fst (loadRoots api (go_set roots key pem) items s1) = Inr roots'"
    by (auto simp: item ioBind_Inr loadTLSCACert_def Let_def split: option.splits if_splits)
  have "\<forall>k \<in> fst ` set (go_set roots key pem). go_get (go_set roots key pem) k \<noteq> []"
    using Cons.prems(2) pem(1) by (auto dest: go_set_entry)
  from Cons.IH [OF pem(2) this] show ?case by (auto simp: item go_set_def dom_update)
qed (simp add: ioReturn_def)

section \<open>Properties\<close>




definition tlsPeerOrg :: Org where
  "tlsPeerOrg = tinyOrg\<lparr>org_Peer := Some \<lparr>pc_Instances = 1, pc_DB = ''leveldb'', pc_Prefix = ''peer'', pc_ExternalEndpoints = []\<rparr>\<rparr>"

definition tlsNetwork :: FabricNetwork where
  "tlsNetwork = tinyNetwork\<lparr>fn_Spec := (fn_Spec tinyNetwork)\<lparr>
     sp_Global := (sp_Global (fn_Spec tinyNetwork))\<lparr>gl_TLS := True\<rparr>, sp_Orgs := [tlsPeerOrg]\<rparr>\<rparr>"

definition tlsRootSecret :: Secret where
  "tlsRootSecret = \<lparr>sec_Meta = \<lparr>mt_Name = ''peer0-tls'', mt_Namespace = orgNamespaceName tlsNetwork tlsPeerOrg, mt_Labels = None, mt_Annotations = None\<rparr>,
     sec_Type = ''Opaque'', sec_Data = [(''ca.crt'', ''root'')]\<rparr>"


end
