(* ===== verification/Network_Reconcile.thy ===== *)
theory Network_Reconcile
  imports Workloads Connection_Profile
begin

text \<open>
  The reconcile loop of \<^verbatim>\<open>fabricnetwork_controller.go\<close>: one organization, all organizations, the
  five status conditions, the status update with its events, deletion with the finalizer, and
  \<open>Reconcile\<close> itself. Channel and chaincode reconciliation enter as the two operations of the record
  \<open>Stages\<close>, which also may fail after returning part of their statuses.
\<close>

section \<open>One organization\<close>

definition desiredOrdererStatus :: "Org \<Rightarrow> WorkloadStatus" where
  "desiredOrdererStatus org =
     \<lparr>ws_Desired = foldl (\<lambda>n grp. int32_of (n + int32_of (og_Instances grp))) 0 (org_Orderers org), ws_Ready = 0\<rparr>"

definition desiredPeerStatus :: "Org \<Rightarrow> WorkloadStatus" where
  "desiredPeerStatus org =
     (case org_Peer org of None \<Rightarrow> zeroWorkloadStatus | Some p \<Rightarrow> \<lparr>ws_Desired = int32_of (pc_Instances p), ws_Ready = 0\<rparr>)"

definition ensureOrgPolicies :: "'s Cluster \<Rightarrow> FabricNetwork \<Rightarrow> Org \<Rightarrow> string \<Rightarrow> ('s, unit) io" where
  "ensureOrgPolicies cl net org namespace =
     ioBind (ensureNamespace cl (buildOrgNamespace net org)) (\<lambda>_.
     ioBind (if networkPolicyEnabled net then ensureNetworkPolicy (cl_Kube cl) (buildOrgNetworkPolicy net org namespace)
             else ensureNetworkPolicyAbsent cl (buildOrgNetworkPolicy net org namespace)) (\<lambda>_.
       if serviceMonitorEnabled net then ensureServiceMonitor (cl_Kube cl) (buildOrgServiceMonitor net org namespace)
       else ioReturn ()))"

text \<open>The workloads follow only when the identity material is complete.\<close>

definition reconcileOrgWorkloads :: "Crypto \<Rightarrow> 's Cluster \<Rightarrow> FabricNetwork \<Rightarrow> Org \<Rightarrow> string \<Rightarrow> OrgStatus \<Rightarrow> ('s, OrgStatus) io" where
  "reconcileOrgWorkloads cr cl net org namespace status =
     (if \<not> os_IdentityReady status then
        ioReturn (status\<lparr>os_Orderers := desiredOrdererStatus org, os_OrderersReady := workloadReady (desiredOrdererStatus org),
          os_Peers := desiredPeerStatus org, os_PeersReady := workloadReady (desiredPeerStatus org), os_Ready := False\<rparr>)
      else
        ioBind (reconcileOrderers cr cl net org namespace) (\<lambda>orderers.
        ioBind (reconcilePeers cr cl net org namespace) (\<lambda>peers.
          ioReturn (status\<lparr>os_Orderers := orderers, os_OrderersReady := workloadReady orderers,
            os_Peers := peers, os_PeersReady := workloadReady peers,
            os_Ready := (os_IdentityReady status \<and> os_CAReady status \<and> workloadReady orderers \<and> workloadReady peers)\<rparr>))))"

definition reconcileOrg :: "Crypto \<Rightarrow> 's Cluster \<Rightarrow> FabricNetwork \<Rightarrow> Org \<Rightarrow> ('s, OrgStatus) io" where
  "reconcileOrg cr cl net org =
     (let api = cl_Kube cl; namespace = orgNamespaceName net org;
          (ca, orderers, peers) = orgEndpointStatus org namespace;
          status = zeroOrgStatus\<lparr>os_Name := om_Name (org_Organization org), os_Namespace := namespace, os_CAEndpoint := ca,
            os_OrdererEndpoints := orderers, os_PeerEndpoints := peers\<rparr>
      in ioBind (ensureOrgPolicies cl net org namespace) (\<lambda>_.
         ioBind (reconcileIdentityMaterial cr api net org namespace) (\<lambda>_.
         ioBind (reconcileCA cl net org namespace) (\<lambda>caReady.
         ioBind (reconcileCARegistrarRotation cr api net org namespace caReady) (\<lambda>registrarRotation.
         (let blocked = caRegistrarRotationBlocksWork registrarRotation
          in ioBind (if caReady \<and> \<not> blocked
                     then ioBind (reconcileAdminEnrollment cr api net org namespace) (\<lambda>_.
                            reconcileWorkloadEnrollments cr api net org namespace)
                     else ioReturn ()) (\<lambda>_.
             ioBind (identityMaterialStatus cr api net org namespace) (\<lambda>(identityReady, identityError).
             ioBind (reconcileCertificateLifecycle cr api net org namespace caReady identityReady blocked)
               (\<lambda>(certificates, renewalRequired, renewalError).
               reconcileOrgWorkloads cr cl net org namespace
                 (status\<lparr>os_CAReady := caReady, os_CARegistrarRotation := registrarRotation, os_IdentityReady := identityReady,
                   os_IdentityError := identityError, os_Certificates := certificates,
                   os_CertificateRenewalRequired := renewalRequired, os_CertificateRenewalError := renewalError\<rparr>))))))))))"

text \<open>A stage that may fail after part of its work: the statuses so far, and the error.\<close>

type_synonym ('s, 'a) stage = "'s \<Rightarrow> ('a list \<times> ApiError option) \<times> 's"

fun orgLoopIO :: "Crypto \<Rightarrow> 's Cluster \<Rightarrow> FabricNetwork \<Rightarrow> OrgStatus list \<Rightarrow> Org list \<Rightarrow> ('s, OrgStatus) stage" where
  "orgLoopIO cr cl net statuses [] s = ((statuses, None), s)"
| "orgLoopIO cr cl net statuses (org # orgs) s =
     (case reconcileOrg cr cl net org s of
        (Inl e, s1) \<Rightarrow> ((statuses, Some e), s1)
      | (Inr status, s1) \<Rightarrow> orgLoopIO cr cl net (statuses @ [status]) orgs s1)"

definition reconcileOrgs :: "Crypto \<Rightarrow> 's Cluster \<Rightarrow> FabricNetwork \<Rightarrow> ('s, OrgStatus) stage" where
  "reconcileOrgs cr cl net = orgLoopIO cr cl net [] (sp_Orgs (fn_Spec net))"

section \<open>Readiness and messages\<close>

definition allOrgsReady :: "OrgStatus list \<Rightarrow> bool" where
  "allOrgsReady statuses \<longleftrightarrow> statuses \<noteq> [] \<and> list_all os_Ready statuses"

definition identityMaterialMessage :: "OrgStatus list \<Rightarrow> string" where
  "identityMaterialMessage statuses =
     (let messages = map (\<lambda>status. os_Name status @ '': '' @ os_IdentityError status) (filter (\<lambda>status. os_IdentityError status \<noteq> []) statuses)
      in if messages = [] then ''All required identity material is present'' else joinWith ''; '' messages)"

definition allChannelsReady :: "ChannelStatus list \<Rightarrow> bool" where
  "allChannelsReady statuses = list_all chs_Ready statuses"

definition channelStatusMessage :: "ChannelStatus list \<Rightarrow> string" where
  "channelStatusMessage statuses =
     (if statuses = [] then ''No channels declared''
      else let messages = map (\<lambda>status. chs_Name status @ '': '' @ chs_Message status)
             (filter (\<lambda>status. \<not> chs_Ready status \<and> chs_Message status \<noteq> []) statuses)
           in if messages = [] then ''All declared channels are ready'' else joinWith ''; '' messages)"

definition allChaincodesReady :: "ChaincodeStatus list \<Rightarrow> bool" where
  "allChaincodesReady statuses = list_all ccs_Ready statuses"

definition observabilityReady :: "OrgStatus list \<Rightarrow> bool" where
  "observabilityReady statuses = allOrgsReady statuses"

definition orgObservabilityMessages :: "OrgStatus \<Rightarrow> string list" where
  "orgObservabilityMessages status =
     (if \<not> os_CAReady status then [''CA not ready''] else []) @
     (if \<not> os_OrderersReady status then [''orderers not ready''] else []) @
     (if \<not> os_PeersReady status then [''peers not ready''] else [])"

definition observabilityStatusMessage :: "OrgStatus list \<Rightarrow> string" where
  "observabilityStatusMessage statuses =
     (if observabilityReady statuses then ''All Fabric operations endpoints are exposed''
      else let messages = map (\<lambda>status. os_Name status @ '': '' @ joinWith '', '' (orgObservabilityMessages status))
             (filter (\<lambda>status. orgObservabilityMessages status \<noteq> []) statuses)
           in if messages = [] then ''Waiting for Fabric operations endpoints'' else joinWith ''; '' messages)"

section \<open>Conditions\<close>

definition conditionReady :: string where "conditionReady = ''Ready''"
definition conditionIdentityMaterialReady :: string where "conditionIdentityMaterialReady = ''IdentityMaterialReady''"
definition conditionCertificateLifecycleReady :: string where "conditionCertificateLifecycleReady = ''CertificateLifecycleReady''"
definition conditionChannelsReady :: string where "conditionChannelsReady = ''ChannelsReady''"
definition conditionObservabilityReady :: string where "conditionObservabilityReady = ''ObservabilityReady''"

lemmas condition_names = conditionReady_def conditionIdentityMaterialReady_def conditionCertificateLifecycleReady_def
  conditionChannelsReady_def conditionObservabilityReady_def

type_synonym report = "ConditionStatus \<times> string \<times> string" \<comment> \<open>status, reason, message\<close>

definition newCondition :: "FabricNetwork \<Rightarrow> string \<Rightarrow> report \<Rightarrow> Condition" where
  "newCondition net ty report =
     \<lparr>cn_Type = ty, cn_Status = fst report, cn_Reason = fst (snd report), cn_Message = snd (snd report),
      cn_ObservedGeneration = fn_Generation net, cn_LastTransitionTime = 0\<rparr>"

definition setConditionNow :: "'s Cluster \<Rightarrow> FabricNetwork \<Rightarrow> string \<Rightarrow> report \<Rightarrow> Condition list \<Rightarrow> ('s, Condition list) io" where
  "setConditionNow cl net ty report conditions =
     ioBind (ioNow (cl_Kube cl)) (\<lambda>now. ioReturn (cl_SetCondition cl now conditions (newCondition net ty report)))"

definition readyCondition :: "'s Cluster \<Rightarrow> FabricNetwork \<Rightarrow> report \<Rightarrow> ('s, Condition list) io" where
  "readyCondition cl net report = setConditionNow cl net conditionReady report (fs_Conditions (fn_Status net))"

definition identityMaterialCondition :: "'s Cluster \<Rightarrow> FabricNetwork \<Rightarrow> report \<Rightarrow> Condition list \<Rightarrow> ('s, Condition list) io" where
  "identityMaterialCondition cl net = setConditionNow cl net conditionIdentityMaterialReady"

definition certificateLifecycleCondition :: "'s Cluster \<Rightarrow> FabricNetwork \<Rightarrow> report \<Rightarrow> Condition list \<Rightarrow> ('s, Condition list) io" where
  "certificateLifecycleCondition cl net = setConditionNow cl net conditionCertificateLifecycleReady"

definition channelsReadyCondition :: "'s Cluster \<Rightarrow> FabricNetwork \<Rightarrow> report \<Rightarrow> Condition list \<Rightarrow> ('s, Condition list) io" where
  "channelsReadyCondition cl net = setConditionNow cl net conditionChannelsReady"

definition observabilityReadyCondition :: "'s Cluster \<Rightarrow> FabricNetwork \<Rightarrow> report \<Rightarrow> Condition list \<Rightarrow> ('s, Condition list) io" where
  "observabilityReadyCondition cl net = setConditionNow cl net conditionObservabilityReady"

text \<open>The nested calls every status update is built with, innermost first.\<close>

definition networkConditions ::
  "'s Cluster \<Rightarrow> FabricNetwork \<Rightarrow> report \<Rightarrow> report \<Rightarrow> report \<Rightarrow> report \<Rightarrow> report \<Rightarrow> ('s, Condition list) io" where
  "networkConditions cl net ready identity certificate channels observability =
     ioBind (readyCondition cl net ready) (\<lambda>c1.
     ioBind (identityMaterialCondition cl net identity c1) (\<lambda>c2.
     ioBind (certificateLifecycleCondition cl net certificate c2) (\<lambda>c3.
     ioBind (channelsReadyCondition cl net channels c3) (\<lambda>c4.
       observabilityReadyCondition cl net observability c4))))"

definition topologyInvalidConditions :: "'s Cluster \<Rightarrow> FabricNetwork \<Rightarrow> string \<Rightarrow> ('s, Condition list) io" where
  "topologyInvalidConditions cl net message =
     networkConditions cl net (ConditionFalse, ''TopologyInvalid'', message)
       (ConditionUnknown, ''TopologyInvalid'', ''Topology validation failed before identity material check: '' @ message)
       (ConditionUnknown, ''TopologyInvalid'', ''Topology validation failed before certificate lifecycle check: '' @ message)
       (ConditionUnknown, ''TopologyInvalid'', message)
       (ConditionUnknown, ''TopologyInvalid'', ''Topology validation failed before observability check: '' @ message)"

section \<open>Status update\<close>

definition phaseEvent :: "'s Cluster \<Rightarrow> Phase \<Rightarrow> string \<Rightarrow> ('s, unit) io" where
  "phaseEvent cl phase message s =
     (case phase of
        PhaseReady \<Rightarrow> (Inr (), cl_Event cl ''Normal'' ''FabricNetworkReady'' message s)
      | PhaseFailed \<Rightarrow> (Inr (), cl_Event cl ''Warning'' ''FabricNetworkReconcileFailed'' message s)
      | _ \<Rightarrow> (Inr (), s))"

definition updateStatus :: "'s Cluster \<Rightarrow> FabricNetwork \<Rightarrow> FabricNetworkStatus \<Rightarrow> ('s, unit) io" where
  "updateStatus cl net status =
     (if fn_Status net = status then ioReturn ()
      else ioBind (cl_PatchStatus cl net status) (\<lambda>_.
             if fs_Phase (fn_Status net) \<noteq> fs_Phase status \<or> fs_Message (fn_Status net) \<noteq> fs_Message status
             then phaseEvent cl (fs_Phase status) (fs_Message status) else ioReturn ()))"

text \<open>
  A nil slice and an empty one are both the empty list: they are rendered alike, so that the patch the
  code sends for such a difference is empty.
\<close>

section \<open>Reconcile\<close>

text \<open>The two stages between the organizations and the connection profiles.\<close>

record 's Stages =
  st_Channels :: "FabricNetwork \<Rightarrow> OrgStatus list \<Rightarrow> ('s, ChannelStatus) stage"
  st_Chaincodes :: "FabricNetwork \<Rightarrow> ChannelStatus list \<Rightarrow> ('s, ChaincodeStatus) stage"

text \<open>A failed stage: the status is patched with what is known, its own failure is dropped, the error is returned.\<close>

definition failReconcile ::
  "'s Cluster \<Rightarrow> FabricNetwork \<Rightarrow> string \<Rightarrow> ApiError \<Rightarrow> OrgStatus list \<Rightarrow> ChannelStatus list \<Rightarrow> ChaincodeStatus list \<Rightarrow>
   report \<Rightarrow> string \<Rightarrow> ('s, int) io" where
  "failReconcile cl net failure e orgs channels chaincodes channelsReport observabilityFailure s =
     (let text = cl_ErrorText cl e; reason = ''ReconcileError''
      in case ioBind (networkConditions cl net (ConditionFalse, reason, failure @ text)
                (ConditionUnknown, reason, ''Failed to check identity material: '' @ text)
                (ConditionUnknown, reason, ''Failed to check certificate lifecycle: '' @ text)
                channelsReport (ConditionUnknown, reason, observabilityFailure @ text))
              (\<lambda>conditions. updateStatus cl net \<lparr>fs_Phase = PhaseFailed, fs_Message = failure @ text, fs_OrgStatus = orgs,
                fs_ChannelStatus = channels, fs_ChaincodeStatus = chaincodes, fs_Conditions = conditions\<rparr>) s
         of (_, s1) \<Rightarrow> (Inl e, s1))"

definition channelsReport :: "ChannelStatus list \<Rightarrow> report" where
  "channelsReport channels =
     (if channels = [] then (ConditionTrue, ''NoChannelsDeclared'', channelStatusMessage channels)
      else if allChannelsReady channels then (ConditionTrue, ''ChannelsReady'', channelStatusMessage channels)
      else (ConditionFalse, ''ChannelBootstrapPending'', channelStatusMessage channels))"

definition identityReport :: "OrgStatus list \<Rightarrow> report" where
  "identityReport orgs =
     (if identityMaterialReady orgs then (ConditionTrue, ''IdentityMaterialPresent'', identityMaterialMessage orgs)
      else (ConditionFalse, ''IdentityMaterialMissing'', identityMaterialMessage orgs))"

definition observabilityReport :: "OrgStatus list \<Rightarrow> report" where
  "observabilityReport orgs =
     (if observabilityReady orgs then (ConditionTrue, ''OperationsEndpointsReady'', observabilityStatusMessage orgs)
      else (ConditionFalse, ''OperationsEndpointsPending'', observabilityStatusMessage orgs))"

definition networkIsReady :: "OrgStatus list \<Rightarrow> ChannelStatus list \<Rightarrow> ChaincodeStatus list \<Rightarrow> bool" where
  "networkIsReady orgs channels chaincodes \<longleftrightarrow>
     allOrgsReady orgs \<and> allChannelsReady channels \<and> allChaincodesReady chaincodes \<and>
     fst (certificateLifecycleConditionStatus orgs) = ConditionTrue"

definition readyReport :: "ChannelStatus list \<Rightarrow> ChaincodeStatus list \<Rightarrow> report" where
  "readyReport channels chaincodes =
     (if channels \<noteq> [] \<and> chaincodes \<noteq> []
      then (ConditionTrue, ''FabricNetworkReady'', ''All Fabric components, channels, and chaincodes are ready'')
      else if channels \<noteq> [] then (ConditionTrue, ''FabricNetworkReady'', ''All Fabric components and channels are ready'')
      else if chaincodes \<noteq> [] then (ConditionTrue, ''FabricNetworkReady'', ''All Fabric components and chaincodes are ready'')
      else (ConditionTrue, ''ComponentsReady'', ''All Fabric components are ready''))"

definition pendingReport :: "OrgStatus list \<Rightarrow> ChannelStatus list \<Rightarrow> ChaincodeStatus list \<Rightarrow> report" where
  "pendingReport orgs channels chaincodes =
     (if \<not> identityMaterialReady orgs
      then (ConditionFalse, ''IdentityMaterialMissing'', ''Waiting for required Fabric identity material'')
      else if allOrgsReady orgs \<and> fst (certificateLifecycleConditionStatus orgs) \<noteq> ConditionTrue
      then (ConditionFalse, ''CertificateLifecyclePending'', ''Waiting for Fabric certificate lifecycle to become ready'')
      else if allOrgsReady orgs \<and> \<not> allChannelsReady channels
      then (ConditionFalse, ''ChannelsNotReady'', ''Waiting for Fabric channels to become ready'')
      else if allOrgsReady orgs \<and> allChannelsReady channels \<and> \<not> allChaincodesReady chaincodes
      then (ConditionFalse, ''ChaincodesNotReady'', ''Waiting for Fabric chaincodes to become ready'')
      else (ConditionFalse, ''ComponentsNotReady'', ''Waiting for Fabric components to become ready''))"

text \<open>The end of a run in which every stage returned: the status, then the cleanup of succeeded Jobs.\<close>

definition finishReconcile ::
  "'s Cluster \<Rightarrow> FabricNetwork \<Rightarrow> OrgStatus list \<Rightarrow> ChannelStatus list \<Rightarrow> ChaincodeStatus list \<Rightarrow> ('s, int) io" where
  "finishReconcile cl net orgs channels chaincodes =
     (let ready = networkIsReady orgs channels chaincodes;
          report = (if ready then readyReport channels chaincodes else pendingReport orgs channels chaincodes)
      in ioBind (networkConditions cl net report (identityReport orgs) (certificateLifecycleConditionStatus orgs)
           (channelsReport channels) (observabilityReport orgs)) (\<lambda>conditions.
         ioBind (updateStatus cl net \<lparr>fs_Phase = (if ready then PhaseReady else PhaseCreating), fs_Message = snd (snd report),
           fs_OrgStatus = orgs, fs_ChannelStatus = channels, fs_ChaincodeStatus = chaincodes, fs_Conditions = conditions\<rparr>) (\<lambda>_.
         ioBind (cleanupSucceededJobs cl net) (\<lambda>cleanupAfter.
           ioReturn (resultWithCleanupRequeue (if ready then 0 else 10 * second) cleanupAfter)))))"

definition reconcileStages :: "Crypto \<Rightarrow> 's Cluster \<Rightarrow> 's Stages \<Rightarrow> FabricNetwork \<Rightarrow> ('s, int) io" where
  "reconcileStages cr cl st net s =
     (case reconcileOrgs cr cl net s of
        ((orgs, Some e), s1) \<Rightarrow>
          failReconcile cl net ''Failed to reconcile orgs: '' e orgs [] []
            (ConditionUnknown, ''ReconcileError'', ''Failed to check channels: '' @ cl_ErrorText cl e)
            ''Failed to check observability: '' s1
      | ((orgs, None), s1) \<Rightarrow>
     (case st_Channels st net orgs s1 of
        ((channels, Some e), s2) \<Rightarrow>
          failReconcile cl net ''Failed to reconcile channels: '' e orgs channels []
            (ConditionUnknown, ''ReconcileError'', ''Failed to reconcile channels: '' @ cl_ErrorText cl e)
            ''Failed to check observability: '' s2
      | ((channels, None), s2) \<Rightarrow>
     (case st_Chaincodes st net channels s2 of
        ((chaincodes, Some e), s3) \<Rightarrow>
          failReconcile cl net ''Failed to reconcile chaincodes: '' e orgs channels chaincodes (channelsReport channels)
            ''Failed to reconcile chaincodes: '' s3
      | ((chaincodes, None), s3) \<Rightarrow>
     (case reconcileConnectionProfiles cl net orgs s3 of
        ((orgs', Some e), s4) \<Rightarrow>
          failReconcile cl net ''Failed to reconcile connection profiles: '' e orgs' channels chaincodes (channelsReport channels)
            ''Failed to reconcile connection profiles: '' s4
      | ((orgs', None), s4) \<Rightarrow> finishReconcile cl net orgs' channels chaincodes s4))))"

definition rejectTopology :: "'s Cluster \<Rightarrow> FabricNetwork \<Rightarrow> string list \<Rightarrow> ('s, int) io" where
  "rejectTopology cl net problems =
     (let message = ''Invalid Fabric topology: '' @ joinWith ''; '' problems
      in ioBind (topologyInvalidConditions cl net message) (\<lambda>conditions.
         ioBind (updateStatus cl net \<lparr>fs_Phase = PhaseFailed, fs_Message = message, fs_OrgStatus = [], fs_ChannelStatus = [],
           fs_ChaincodeStatus = [], fs_Conditions = conditions\<rparr>) (\<lambda>_. ioReturn 0)))"

definition finalizeNetwork :: "'s Cluster \<Rightarrow> string \<times> string \<Rightarrow> FabricNetwork \<Rightarrow> ('s, int) io" where
  "finalizeNetwork cl key net =
     (if containsFinalizer net fabricNetworkFinalizer
      then ioBind (cleanupFabricNetwork cl net) (\<lambda>_.
           ioBind (removeFabricNetworkFinalizer cl key) (\<lambda>_. ioReturn 0))
      else ioReturn 0)"

definition Reconcile :: "Crypto \<Rightarrow> 's Cluster \<Rightarrow> 's Stages \<Rightarrow> string \<times> string \<Rightarrow> ('s, int) io" where
  "Reconcile cr cl st key s =
     (case cl_GetNetwork cl key s of
        (Inl NotFound, s1) \<Rightarrow> (Inr 0, s1)
      | (Inl e, s1) \<Rightarrow> (Inl e, s1)
      | (Inr net, s1) \<Rightarrow>
          if fn_DeletionTimestamp net \<noteq> None then finalizeNetwork cl key net s1
          else ioBind (if containsFinalizer net fabricNetworkFinalizer then ioReturn () else ensureFabricNetworkFinalizer cl key)
            (\<lambda>_. if validateFabricNetworkTopology cr net \<noteq> []
                 then rejectTopology cl net (validateFabricNetworkTopology cr net)
                 else reconcileStages cr cl st net) s1)"

section \<open>Watches\<close>

text \<open>The network a watched object is enqueued for, namespace and name; annotations before labels.\<close>

definition fabricNetworkRequestsForObject :: "ObjectMeta \<Rightarrow> (string \<times> string) list" where
  "fabricNetworkRequestsForObject m =
     (let name = (if annotationOf m annotationFabricNetwork = [] then labelOf m labelFabricNetwork
                  else annotationOf m annotationFabricNetwork);
          namespace = (if annotationOf m annotationFabricNetworkNamespace = [] then labelOf m labelFabricNetworkNamespace
                  else annotationOf m annotationFabricNetworkNamespace)
      in if name = [] \<or> namespace = [] then [] else [(namespace, name)])"

end
