(* ===== verification/Channel_Objects.thy ===== *)
theory Channel_Objects
  imports Json_Text Network_Reconcile
begin

text \<open>
  The objects of channel bootstrap in \<^verbatim>\<open>fabricnetwork_channel.go\<close>: the names and paths of a channel,
  its organizations and anchor peers, the \<^verbatim>\<open>configtx.yaml\<close> handed to \<open>configtxgen\<close>, and the Jobs that
  generate the channel block, join orderers and peers and set anchor peers. A shell script is named
  by the Go function that renders it and keeps the arguments it is rendered with.
\<close>

section \<open>Constants\<close>

definition channelWorkDir :: string where "channelWorkDir = ''/fabricops/channel''"
definition channelBlockDir :: string where "channelBlockDir = channelWorkDir @ ''/block''"
definition channelConfigDir :: string where "channelConfigDir = channelWorkDir @ ''/config''"
definition channelOutputDir :: string where "channelOutputDir = channelWorkDir @ ''/output''"
definition channelCryptoDir :: string where "channelCryptoDir = channelWorkDir @ ''/crypto''"
definition channelAdminTLSDir :: string where "channelAdminTLSDir = channelCryptoDir @ ''/admin-tls''"
definition channelBlockVolumeName :: string where "channelBlockVolumeName = ''channel-block''"
definition channelConfigVolumeName :: string where "channelConfigVolumeName = ''channel-config''"
definition channelOutputVolumeName :: string where "channelOutputVolumeName = ''channel-output''"
definition channelOrdererJoinResultKey :: string where "channelOrdererJoinResultKey = ''channels.json''"
definition channelOrdererJoinResultFile :: string where "channelOrdererJoinResultFile = ''orderer-channels.json''"
definition channelPeerJoinResultKey :: string where "channelPeerJoinResultKey = ''channels.txt''"
definition channelPeerJoinResultFile :: string where "channelPeerJoinResultFile = ''peer-channels.txt''"
definition channelAnchorPeerResultKey :: string where "channelAnchorPeerResultKey = ''anchor-peer.json''"
definition channelAnchorPeerResultFile :: string where "channelAnchorPeerResultFile = ''anchor-peer.json''"
definition channelServiceAccount :: string where "channelServiceAccount = ''channel-bootstrapper''"
definition labelChannel :: string where "labelChannel = ''fabricops.io/channel''"

section \<open>Labels and names\<close>

definition channelLabels :: "FabricNetwork \<Rightarrow> Org \<Rightarrow> string \<Rightarrow> (string, string) gomap" where
  "channelLabels net hostOrg channelName = go_set (orgLabels net hostOrg ''channel'') labelChannel (sanitizeName channelName)"

definition channelConfigMapName :: "string \<Rightarrow> string" where
  "channelConfigMapName channelName = sanitizeName (channelName @ ''-configtx'')"

definition channelBlockConfigMapName :: "string \<Rightarrow> string" where
  "channelBlockConfigMapName channelName = sanitizeName (channelName @ ''-channel-block'')"

definition channelBlockJobName :: "string \<Rightarrow> string" where
  "channelBlockJobName channelName = sanitizeName (channelName @ ''-channel-block'')"

definition channelOrdererJoinJobName :: "string \<Rightarrow> ordererInstance \<Rightarrow> string" where
  "channelOrdererJoinJobName channelName orderer =
     sanitizeName (channelName @ ''-'' @ om_Name (org_Organization (oi_org orderer)) @ ''-'' @ oi_name orderer @ ''-orderer-join'')"

definition channelOrdererJoinResultConfigMapName :: "string \<Rightarrow> ordererInstance \<Rightarrow> string" where
  "channelOrdererJoinResultConfigMapName channelName orderer =
     sanitizeName (channelOrdererJoinJobName channelName orderer @ ''-result'')"

definition channelPeerJoinJobName :: "string \<Rightarrow> peerInstance \<Rightarrow> string" where
  "channelPeerJoinJobName channelName peer =
     sanitizeName (channelName @ ''-'' @ om_Name (org_Organization (pi_org peer)) @ ''-'' @ pi_name peer @ ''-peer-join'')"

definition channelPeerJoinResultConfigMapName :: "string \<Rightarrow> peerInstance \<Rightarrow> string" where
  "channelPeerJoinResultConfigMapName channelName peer = sanitizeName (channelPeerJoinJobName channelName peer @ ''-result'')"

definition channelAnchorPeerUpdateJobName :: "string \<Rightarrow> Org \<Rightarrow> string" where
  "channelAnchorPeerUpdateJobName channelName org =
     sanitizeName (channelName @ ''-'' @ om_Name (org_Organization org) @ ''-anchor-peer-update'')"

definition channelAnchorPeerUpdateResultConfigMapName :: "string \<Rightarrow> Org \<Rightarrow> string" where
  "channelAnchorPeerUpdateResultConfigMapName channelName org =
     sanitizeName (channelAnchorPeerUpdateJobName channelName org @ ''-result'')"

definition channelServiceAccountName :: "string \<Rightarrow> string" where
  "channelServiceAccountName channelName = sanitizeName (channelName @ ''-'' @ channelServiceAccount)"

definition channelBlockFileName :: "string \<Rightarrow> string" where
  "channelBlockFileName channelName = sanitizeName channelName @ ''.block''"

definition anchorPeerUpdateFileName :: "string \<Rightarrow> Org \<Rightarrow> string" where
  "anchorPeerUpdateFileName channelName org = om_MSPName (org_Organization org) @ ''anchors-'' @ sanitizeName channelName @ ''.tx''"

definition anchorPeerUpdateFilePath :: "string \<Rightarrow> Org \<Rightarrow> string" where
  "anchorPeerUpdateFilePath channelName org = channelOutputDir @ ''/'' @ anchorPeerUpdateFileName channelName org"

text \<open>\<open>strings.Split\<close> with a one-byte separator, \<open>strings.Fields\<close>, and \<open>strings.ToUpper\<close> of one ASCII byte.\<close>

fun splitWhere :: "(char \<Rightarrow> bool) \<Rightarrow> string \<Rightarrow> string list" where
  "splitWhere p [] = [[]]"
| "splitWhere p (x # xs) = (let ws = splitWhere p xs in if p x then [] # ws else (x # hd ws) # tl ws)"

definition fields :: "string \<Rightarrow> string list" where
  "fields s = filter (\<lambda>w. w \<noteq> []) (splitWhere is_space s)"

definition upper_char :: "char \<Rightarrow> char" where
  "upper_char c = (let n = of_char c :: nat in if 97 \<le> n \<and> n \<le> 122 then char_of (n - 32) else c)"

definition configtxPart :: "string \<Rightarrow> string" where
  "configtxPart p = (case p of [] \<Rightarrow> [] | c # cs \<Rightarrow> upper_char c # cs)"

definition configtxIdentifier :: "string \<Rightarrow> string" where
  "configtxIdentifier val =
     (let out = concat (map configtxPart (splitWhere (\<lambda>c. c = CHR ''-'') (sanitizeName val)))
      in case out of [] \<Rightarrow> ''Resource'' | c # _ \<Rightarrow> if is_digit c then ''X'' @ out else out)"

definition channelProfileName :: "string \<Rightarrow> string" where
  "channelProfileName channelName = configtxIdentifier channelName"

definition configtxOrgAnchorName :: "Org \<Rightarrow> string" where
  "configtxOrgAnchorName org = configtxIdentifier (om_Name (org_Organization org))"

definition channelOrgMSPVolumeName :: "Org \<Rightarrow> string" where
  "channelOrgMSPVolumeName org = sanitizeName (''msp-'' @ om_Name (org_Organization org))"

definition channelOrdererTLSVolumeName :: "string \<Rightarrow> string" where
  "channelOrdererTLSVolumeName ordererName = sanitizeName (''tls-'' @ ordererName)"

definition channelOrdererMSPVolumeName :: "string \<Rightarrow> string" where
  "channelOrdererMSPVolumeName ordererName = sanitizeName (''orderer-msp-'' @ ordererName)"

definition channelOrdererAdminTLSVolumeName :: "Org \<Rightarrow> string" where
  "channelOrdererAdminTLSVolumeName org = sanitizeName (''admin-tls-'' @ om_Name (org_Organization org))"

definition channelOrgMSPSecretName :: "string \<Rightarrow> Org \<Rightarrow> string" where
  "channelOrgMSPSecretName channelName org = sanitizeName (channelName @ ''-'' @ om_Name (org_Organization org) @ ''-admin-msp'')"

definition channelOrdererAdminTLSSecretName :: "string \<Rightarrow> Org \<Rightarrow> string" where
  "channelOrdererAdminTLSSecretName channelName org =
     sanitizeName (channelName @ ''-'' @ om_Name (org_Organization org) @ ''-admin-tls'')"

definition channelOrdererTLSSecretName :: "string \<Rightarrow> string \<Rightarrow> string" where
  "channelOrdererTLSSecretName channelName ordererName = sanitizeName (channelName @ ''-'' @ ordererName @ ''-tls'')"

definition channelOrdererMSPSecretName :: "string \<Rightarrow> string \<Rightarrow> string" where
  "channelOrdererMSPSecretName channelName ordererName = sanitizeName (channelName @ ''-'' @ ordererName @ ''-msp'')"

definition channelOrgMSPPath :: "Org \<Rightarrow> string" where
  "channelOrgMSPPath org = channelCryptoDir @ ''/orgs/'' @ sanitizeName (om_Name (org_Organization org)) @ ''/msp''"

definition channelOrdererMSPPath :: "string \<Rightarrow> string" where
  "channelOrdererMSPPath ordererName = channelCryptoDir @ ''/orderers/'' @ sanitizeName ordererName @ ''/msp''"

definition channelOrdererIdentityPath :: "string \<Rightarrow> string" where
  "channelOrdererIdentityPath ordererName = channelOrdererMSPPath ordererName @ ''/signcerts/cert.pem''"

definition channelOrdererTLSPath :: "string \<Rightarrow> string" where
  "channelOrdererTLSPath ordererName = channelCryptoDir @ ''/orderers/'' @ sanitizeName ordererName @ ''/tls''"

definition channelOrdererAdminTLSPath :: "Org \<Rightarrow> string" where
  "channelOrdererAdminTLSPath org = channelAdminTLSDir @ ''/'' @ sanitizeName (om_Name (org_Organization org))"

definition ordererAdminAddress :: "ordererInstance \<Rightarrow> string" where
  "ordererAdminAddress orderer = serviceDNS (oi_name orderer) (oi_namespace orderer) ordererAdminPort"

definition adminTLSSecretItems :: "(string \<times> string) list" where
  "adminTLSSecretItems = [(''ca.crt'', ''ca.crt''), (''client.crt'', ''client.crt''), (''client.key'', ''client.key'')]"

definition fabricToolsImage :: "GlobalConfig \<Rightarrow> string" where
  "fabricToolsImage global =
     (let override = (case gl_Images global of None \<Rightarrow> [] | Some i \<Rightarrow> trimSpace (img_FabricTools i));
          version = (if gl_FabricVersion global = [] then ''2.5.12'' else gl_FabricVersion global);
          version1 = (if hasPrefix (trimPrefix (trimSpace version) ''v'') ''3.'' then ''2.5.14'' else version)
      in if override \<noteq> [] then override else ''hyperledger/fabric-tools:'' @ version1)"

section \<open>Organizations, orderers and anchor peers\<close>

definition desiredNetworkOrdererStatus :: "FabricNetwork \<Rightarrow> WorkloadStatus" where
  "desiredNetworkOrdererStatus net =
     foldl (\<lambda>status org. status\<lparr>ws_Desired := int32_of (ws_Desired status + ws_Desired (desiredOrdererStatus org))\<rparr>)
       zeroWorkloadStatus (sp_Orgs (fn_Spec net))"

definition desiredOrdererOrgs :: "FabricNetwork \<Rightarrow> Org list" where
  "desiredOrdererOrgs net = filter (\<lambda>org. ws_Desired (desiredOrdererStatus org) > 0) (sp_Orgs (fn_Spec net))"

definition readyOrgsByName :: "OrgStatus list \<Rightarrow> (string, bool) gomap" where
  "readyOrgsByName statuses = foldl (\<lambda>orgs status. go_set orgs (os_Name status) (os_Ready status)) [] statuses"

definition channelPeerOrganizations :: "FabricNetwork \<Rightarrow> Channel \<Rightarrow> Org list" where
  "channelPeerOrganizations net channel = List.map_filter (\<lambda>channelOrg. map_of (orgsByName net) (co_Name channelOrg)) (ch_Orgs channel)"

fun appendUnseen :: "Org list \<Rightarrow> string set \<Rightarrow> Org list \<Rightarrow> Org list" where
  "appendUnseen orgs seen [] = orgs"
| "appendUnseen orgs seen (org # rest) =
     (let name = om_Name (org_Organization org)
      in if name \<in> seen then appendUnseen orgs seen rest else appendUnseen (orgs @ [org]) (insert name seen) rest)"

definition channelConfigOrganizations :: "FabricNetwork \<Rightarrow> Channel \<Rightarrow> Org list" where
  "channelConfigOrganizations net channel =
     (let ordererOrgs = desiredOrdererOrgs net
      in appendUnseen ordererOrgs (set (map (\<lambda>org. om_Name (org_Organization org)) ordererOrgs)) (channelPeerOrganizations net channel))"

definition anchorStep :: "FabricNetwork \<Rightarrow> (string, peerInstance list) gomap \<Rightarrow> ChannelOrg \<Rightarrow> (string, peerInstance list) gomap" where
  "anchorStep net anchors channelOrg =
     (case (map_of (orgsByName net) (co_Name channelOrg), co_Peers channelOrg) of
        (Some org, peer # _) \<Rightarrow>
          go_set anchors (om_Name (org_Organization org))
            [\<lparr>pi_org = org, pi_name = peer, pi_namespace = orgNamespaceName net org\<rparr>]
      | _ \<Rightarrow> anchors)"

definition channelAnchorPeersByOrg :: "FabricNetwork \<Rightarrow> Channel \<Rightarrow> (string, peerInstance list) gomap" where
  "channelAnchorPeersByOrg net channel = foldl (anchorStep net) [] (ch_Orgs channel)"

definition channelAnchorPeerForOrg :: "FabricNetwork \<Rightarrow> Channel \<Rightarrow> Org \<Rightarrow> peerInstance option" where
  "channelAnchorPeerForOrg net channel org =
     (case map_of (channelAnchorPeersByOrg net channel) (om_Name (org_Organization org)) of
        Some (peer # _) \<Rightarrow> Some peer | _ \<Rightarrow> None)"

definition channelOrdererHost :: "ordererInstance \<Rightarrow> string" where "channelOrdererHost orderer = ordererAdvertisedHost orderer"
definition channelOrdererPort :: "ordererInstance \<Rightarrow> int" where "channelOrdererPort orderer = ordererAdvertisedPort orderer"
definition channelPeerHost :: "peerInstance \<Rightarrow> string" where "channelPeerHost peer = peerAdvertisedHost peer"
definition channelPeerPort :: "peerInstance \<Rightarrow> int" where "channelPeerPort peer = peerAdvertisedPort peer"

definition channelOrdererEndpoints :: "ordererInstance list \<Rightarrow> string list" where
  "channelOrdererEndpoints orderers = map (\<lambda>orderer. channelOrdererHost orderer @ '':'' @ itoa (channelOrdererPort orderer)) orderers"

fun consensusAgrees :: "string \<Rightarrow> ordererInstance list \<Rightarrow> string option" where
  "consensusAgrees consensus [] = None"
| "consensusAgrees consensus (orderer # orderers) =
     (let other = ordererConsensusType (og_Type (oi_group orderer))
      in if other \<noteq> consensus
         then Some (''orderer consensus types must match across all orderer groups: '' @ goquote consensus @ '' and '' @ goquote other)
         else consensusAgrees consensus orderers)"

definition ordererConsensusForConfigtx :: "ordererInstance list \<Rightarrow> string + string" where
  "ordererConsensusForConfigtx orderers =
     (case orderers of [] \<Rightarrow> Inl ''at least one orderer is required''
      | orderer # rest \<Rightarrow>
          (let consensus = ordererConsensusType (og_Type (oi_group orderer))
           in case consensusAgrees consensus rest of Some e \<Rightarrow> Inl e | None \<Rightarrow> Inr consensus))"

section \<open>The channel configuration\<close>

definition yamlQuoted :: "string \<Rightarrow> string" where
  "yamlQuoted s = [CHR 0x22] @ s @ [CHR 0x22]"

text \<open>A policy of three lines: its name, type and quoted rule.\<close>

definition yamlPolicy :: "string \<Rightarrow> string \<Rightarrow> string \<Rightarrow> string \<Rightarrow> string list" where
  "yamlPolicy indent name ty rule =
     [indent @ name @ '':'', indent @ ''  Type: '' @ ty, indent @ ''  Rule: '' @ yamlQuoted rule]"

definition metaPolicies :: "string list" where
  "metaPolicies = yamlPolicy ''    '' ''Readers'' ''ImplicitMeta'' ''ANY Readers'' @
     yamlPolicy ''    '' ''Writers'' ''ImplicitMeta'' ''ANY Writers'' @
     yamlPolicy ''    '' ''Admins'' ''ImplicitMeta'' ''MAJORITY Admins''"

definition writeEtcdRaftConsenters :: "ordererInstance list \<Rightarrow> string list" where
  "writeEtcdRaftConsenters orderers =
     [''  EtcdRaft:'', ''    Consenters:''] @ concat (map (\<lambda>orderer. [
        ''      - Host: '' @ channelOrdererHost orderer,
        ''        Port: '' @ itoa (channelOrdererPort orderer),
        ''        ClientTLSCert: '' @ channelOrdererTLSPath (oi_name orderer) @ ''/server.crt'',
        ''        ServerTLSCert: '' @ channelOrdererTLSPath (oi_name orderer) @ ''/server.crt'']) orderers)"

fun bftConsenters :: "nat \<Rightarrow> ordererInstance list \<Rightarrow> string list" where
  "bftConsenters i [] = []"
| "bftConsenters i (orderer # orderers) = [
     ''    - ID: '' @ itoa_nat (i + 1),
     ''      Host: '' @ channelOrdererHost orderer,
     ''      Port: '' @ itoa (channelOrdererPort orderer),
     ''      MSPID: '' @ om_MSPName (org_Organization (oi_org orderer)),
     ''      Identity: '' @ channelOrdererIdentityPath (oi_name orderer),
     ''      ClientTLSCert: '' @ channelOrdererTLSPath (oi_name orderer) @ ''/server.crt'',
     ''      ServerTLSCert: '' @ channelOrdererTLSPath (oi_name orderer) @ ''/server.crt''] @ bftConsenters (Suc i) orderers"

definition writeBFTConsenterMapping :: "ordererInstance list \<Rightarrow> string list" where
  "writeBFTConsenterMapping orderers = [''  ConsenterMapping:''] @ bftConsenters 0 orderers"

definition writeSmartBFTDefaults :: "string list" where
  "writeSmartBFTDefaults = [
     ''  SmartBFT:'', ''    RequestBatchMaxInterval: 200ms'', ''    RequestForwardTimeout: 5s'',
     ''    RequestComplainTimeout: 20s'', ''    RequestAutoRemoveTimeout: 3m0s'', ''    ViewChangeResendInterval: 5s'',
     ''    ViewChangeTimeout: 20s'', ''    LeaderHeartbeatTimeout: 1m0s'', ''    CollectTimeout: 1s'',
     ''    IncomingMessageBufferSize: 200'', ''    RequestPoolSize: 100000'', ''    LeaderHeartbeatCount: 10'']"

definition configtxOrg :: "bool \<Rightarrow> string list \<Rightarrow> (string, peerInstance list) gomap \<Rightarrow> Org \<Rightarrow> string list" where
  "configtxOrg isV3 ordererEndpoints anchorPeers org =
     (let msp = om_MSPName (org_Organization org);
          member = ''OR('' @ [CHR 0x27] @ msp @ ''.member'' @ [CHR 0x27] @ '')'';
          admin = ''OR('' @ [CHR 0x27] @ msp @ ''.admin'' @ [CHR 0x27] @ '')'';
          peers = (case map_of anchorPeers (om_Name (org_Organization org)) of None \<Rightarrow> [] | Some ps \<Rightarrow> ps)
      in [''  - &'' @ configtxOrgAnchorName org, ''    Name: '' @ msp, ''    ID: '' @ msp, ''    MSPDir: '' @ channelOrgMSPPath org] @
         (if isV3 then [''    OrdererEndpoints:''] @ map (\<lambda>endpoint. ''      - '' @ endpoint) ordererEndpoints else []) @
         (if peers \<noteq> []
          then [''    AnchorPeers:''] @ concat (map (\<lambda>peer. [''      - Host: '' @ channelPeerHost peer,
                 ''        Port: '' @ itoa (channelPeerPort peer)]) peers)
          else []) @
         [''    Policies:''] @ yamlPolicy ''      '' ''Readers'' ''Signature'' member @ yamlPolicy ''      '' ''Writers'' ''Signature'' member @
         yamlPolicy ''      '' ''Admins'' ''Signature'' admin @ yamlPolicy ''      '' ''Endorsement'' ''Signature'' member @ [[]])"

text \<open>The consensus of the channel and its capabilities; Byzantine orderers need Fabric 3.\<close>

definition configtxConsensus :: "FabricNetwork \<Rightarrow> Channel \<Rightarrow> string + (string \<times> fabricCapabilitySet)" where
  "configtxConsensus net channel =
     (let orderers = desiredOrdererInstances net;
          capabilities = fabricCapabilities (gl_FabricVersion (sp_Global (fn_Spec net)))
      in if orderers = [] then Inl (''channel '' @ goquote (ch_Name channel) @ '' requires at least one orderer'')
         else case ordererConsensusForConfigtx orderers of
                Inl e \<Rightarrow> Inl e
              | Inr consensus \<Rightarrow>
                  if consensus = ordererConsensusBFT
                  then (if \<not> cap_isV3 capabilities
                        then Inl (''channel '' @ goquote (ch_Name channel) @ '' uses BFT orderer consensus, which requires Fabric v3'')
                        else Inr (consensus, capabilities\<lparr>cap_channel := ''V3_0''\<rparr>))
                  else Inr (consensus, capabilities))"

definition configtxLines :: "FabricNetwork \<Rightarrow> Channel \<Rightarrow> string \<Rightarrow> fabricCapabilitySet \<Rightarrow> string list" where
  "configtxLines net channel consensus capabilities =
     (let orderers = desiredOrdererInstances net;
          ordererEndpoints = channelOrdererEndpoints orderers;
          anchorPeers = channelAnchorPeersByOrg net channel
      in [''Capabilities:'', ''  Channel: &ChannelCapabilities'', ''    '' @ cap_channel capabilities @ '': true'',
          ''  Orderer: &OrdererCapabilities'', ''    '' @ cap_orderer capabilities @ '': true'',
          ''  Application: &ApplicationCapabilities'', ''    '' @ cap_application capabilities @ '': true'', [],
          ''Channel: &ChannelDefaults'', ''  Policies:''] @ metaPolicies @
         [''  Capabilities:'', ''    <<: *ChannelCapabilities'', [], ''Organizations:''] @
         concat (map (configtxOrg (cap_isV3 capabilities) ordererEndpoints anchorPeers) (channelConfigOrganizations net channel)) @
         [''Application: &ApplicationDefaults'', ''  Organizations:'', ''  Policies:''] @ metaPolicies @
         yamlPolicy ''    '' ''Endorsement'' ''ImplicitMeta'' ''MAJORITY Endorsement'' @
         [''  Capabilities:'', ''    <<: *ApplicationCapabilities'', [], ''Orderer: &OrdererDefaults'', ''  OrdererType: '' @ consensus] @
         (if \<not> cap_isV3 capabilities then [''  Addresses:''] @ map (\<lambda>endpoint. ''    - '' @ endpoint) ordererEndpoints else []) @
         (if consensus = ordererConsensusEtcdRaft then writeEtcdRaftConsenters orderers
          else if consensus = ordererConsensusBFT then writeBFTConsenterMapping orderers @ writeSmartBFTDefaults else []) @
         [''  BatchTimeout: 2s'', ''  BatchSize:'', ''    MaxMessageCount: 10'', ''    AbsoluteMaxBytes: 99 MB'',
          ''    PreferredMaxBytes: 512 KB'', ''  Organizations:'', ''  Policies:''] @ metaPolicies @
         yamlPolicy ''    '' ''BlockValidation'' ''ImplicitMeta'' ''ANY Writers'' @
         [''  Capabilities:'', ''    <<: *OrdererCapabilities'', [], ''Profiles:'', ''  '' @ channelProfileName (ch_Name channel) @ '':'',
          ''    <<: *ChannelDefaults'', ''    Orderer:'', ''      <<: *OrdererDefaults'', ''      Organizations:''] @
         map (\<lambda>org. ''        - *'' @ configtxOrgAnchorName org) (desiredOrdererOrgs net) @
         [''      Capabilities:'', ''        <<: *OrdererCapabilities'', ''    Application:'', ''      <<: *ApplicationDefaults'',
          ''      Organizations:''] @
         map (\<lambda>org. ''        - *'' @ configtxOrgAnchorName org) (channelPeerOrganizations net channel))"

definition unlines :: "string list \<Rightarrow> string" where
  "unlines ls = concat (map (\<lambda>l. l @ [CHR 0x0A]) ls)"

definition buildConfigtxYAML :: "FabricNetwork \<Rightarrow> Channel \<Rightarrow> string + string" where
  "buildConfigtxYAML net channel =
     (case configtxConsensus net channel of
        Inl e \<Rightarrow> Inl e
      | Inr (consensus, capabilities) \<Rightarrow> Inr (unlines (configtxLines net channel consensus capabilities)))"

section \<open>ConfigMap and access control\<close>

definition channelMeta :: "FabricNetwork \<Rightarrow> Org \<Rightarrow> string \<Rightarrow> string \<Rightarrow> string \<Rightarrow> ObjectMeta" where
  "channelMeta net org channelName name namespace =
     \<lparr>mt_Name = name, mt_Namespace = namespace, mt_Labels = Some (channelLabels net org channelName),
      mt_Annotations = Some (resourceAnnotations net org)\<rparr>"

definition buildChannelConfigMap :: "FabricNetwork \<Rightarrow> Channel \<Rightarrow> Org \<Rightarrow> string \<Rightarrow> ApiError + ConfigMap" where
  "buildChannelConfigMap net channel hostOrg namespace =
     (case buildConfigtxYAML net channel of
        Inl e \<Rightarrow> Inl (OtherError e)
      | Inr configtx \<Rightarrow>
          Inr \<lparr>cm_Meta = channelMeta net hostOrg (ch_Name channel) (channelConfigMapName (ch_Name channel)) namespace,
               cm_Data = [(''configtx.yaml'', configtx)], cm_BinaryData = [], cm_Immutable = False\<rparr>)"

definition buildChannelServiceAccount :: "FabricNetwork \<Rightarrow> Org \<Rightarrow> string \<Rightarrow> string \<Rightarrow> ObjectMeta" where
  "buildChannelServiceAccount net hostOrg channelName namespace =
     channelMeta net hostOrg channelName (channelServiceAccountName channelName) namespace"

definition buildChannelRole :: "FabricNetwork \<Rightarrow> Org \<Rightarrow> string \<Rightarrow> string \<Rightarrow> ObjectMeta \<times> PolicyRule list" where
  "buildChannelRole net hostOrg channelName namespace =
     (channelMeta net hostOrg channelName (channelServiceAccountName channelName) namespace,
      [\<lparr>pr_APIGroups = [[]], pr_Resources = [''configmaps''], pr_Verbs = [''get'', ''create'', ''update'', ''patch'']\<rparr>])"

definition buildChannelRoleBinding :: "FabricNetwork \<Rightarrow> Org \<Rightarrow> string \<Rightarrow> string \<Rightarrow> ObjectMeta \<times> RBACSubject list \<times> RoleRef" where
  "buildChannelRoleBinding net hostOrg channelName namespace =
     (let name = channelServiceAccountName channelName
      in (channelMeta net hostOrg channelName name namespace,
          [\<lparr>su_Kind = ''ServiceAccount'', su_Name = name, su_Namespace = namespace\<rparr>],
          \<lparr>rr_APIGroup = ''rbac.authorization.k8s.io'', rr_Kind = ''Role'', rr_Name = name\<rparr>))"

section \<open>Environments\<close>

definition podNamespaceEnv :: "string \<times> EnvSource" where
  "podNamespaceEnv = (''POD_NAMESPACE'', EnvField ''metadata.namespace'')"

definition publishChannelBlockEnv :: "string \<Rightarrow> (string \<times> EnvSource) list" where
  "publishChannelBlockEnv channelName = [
     (''FABRICOPS_CHANNEL_BLOCK_CONFIGMAP'', EnvValue (channelBlockConfigMapName channelName)),
     (''FABRICOPS_CHANNEL_BLOCK_FILE'', EnvValue (channelBlockFileName channelName)), podNamespaceEnv]"

definition publishOrdererJoinResultEnv :: "string \<Rightarrow> ordererInstance \<Rightarrow> (string \<times> EnvSource) list" where
  "publishOrdererJoinResultEnv channelName orderer = [
     (''FABRICOPS_ORDERER_JOIN_RESULT_CONFIGMAP'', EnvValue (channelOrdererJoinResultConfigMapName channelName orderer)),
     (''FABRICOPS_ORDERER_JOIN_RESULT_KEY'', EnvValue channelOrdererJoinResultKey),
     (''FABRICOPS_ORDERER_JOIN_RESULT_FILE'', EnvValue channelOrdererJoinResultFile),
     (''FABRICOPS_ORDERER_JOIN_RESULT_CHANNEL'', EnvValue (sanitizeName channelName)),
     (''FABRICOPS_ORDERER_JOIN_RESULT_ORDERER'', EnvValue (sanitizeName (oi_name orderer))), podNamespaceEnv]"

definition publishPeerJoinResultEnv :: "string \<Rightarrow> peerInstance \<Rightarrow> (string \<times> EnvSource) list" where
  "publishPeerJoinResultEnv channelName peer = [
     (''FABRICOPS_PEER_JOIN_RESULT_CONFIGMAP'', EnvValue (channelPeerJoinResultConfigMapName channelName peer)),
     (''FABRICOPS_PEER_JOIN_RESULT_KEY'', EnvValue channelPeerJoinResultKey),
     (''FABRICOPS_PEER_JOIN_RESULT_FILE'', EnvValue channelPeerJoinResultFile),
     (''FABRICOPS_PEER_JOIN_RESULT_CHANNEL'', EnvValue (sanitizeName channelName)),
     (''FABRICOPS_PEER_JOIN_RESULT_PEER'', EnvValue (sanitizeName (pi_name peer))), podNamespaceEnv]"

definition publishAnchorPeerUpdateResultEnv :: "string \<Rightarrow> Org \<Rightarrow> (string \<times> EnvSource) list" where
  "publishAnchorPeerUpdateResultEnv channelName org = [
     (''FABRICOPS_ANCHOR_PEER_RESULT_CONFIGMAP'', EnvValue (channelAnchorPeerUpdateResultConfigMapName channelName org)),
     (''FABRICOPS_ANCHOR_PEER_RESULT_KEY'', EnvValue channelAnchorPeerResultKey),
     (''FABRICOPS_ANCHOR_PEER_RESULT_FILE'', EnvValue channelAnchorPeerResultFile),
     (''FABRICOPS_ANCHOR_PEER_RESULT_CHANNEL'', EnvValue (sanitizeName channelName)),
     (''FABRICOPS_ANCHOR_PEER_RESULT_ORG'', EnvValue (sanitizeName (om_Name (org_Organization org)))), podNamespaceEnv]"

section \<open>Jobs\<close>

definition readOnlyMount :: "string \<Rightarrow> string \<Rightarrow> VolumeMount" where
  "readOnlyMount name path = \<lparr>vm_Name = name, vm_MountPath = path, vm_ReadOnly = True\<rparr>"

definition outputMount :: VolumeMount where
  "outputMount = \<lparr>vm_Name = channelOutputVolumeName, vm_MountPath = channelOutputDir, vm_ReadOnly = False\<rparr>"

definition secretVolume :: "string \<Rightarrow> (string \<times> string) list \<Rightarrow> VolumeSource" where
  "secretVolume secretName items = SecretVolume secretName items (Some secretVolumeDefaultMode)"

text \<open>
  The frame the channel Jobs share: labels and annotations of the organization, four retries, the
  channel's service account, one init container that does the work and one that publishes its result.
\<close>

definition channelJob ::
  "FabricNetwork \<Rightarrow> Org \<Rightarrow> string \<Rightarrow> string \<Rightarrow> string \<Rightarrow> (string, string) gomap \<Rightarrow> (string \<times> VolumeSource) list \<Rightarrow>
   Container \<Rightarrow> Container \<Rightarrow> Job" where
  "channelJob net org channelName name namespace labels volumes init publish =
     \<lparr>job_Meta = \<lparr>mt_Name = name, mt_Namespace = namespace, mt_Labels = Some labels,
        mt_Annotations = Some (succeededJobCleanupAnnotations (resourceAnnotations net org))\<rparr>,
      job_BackoffLimit = 4, job_PodLabels = labels, job_PodAnnotations = resourceAnnotations net org,
      job_ServiceAccount = channelServiceAccountName channelName, job_RestartPolicy = ''Never'', job_Volumes = volumes,
      job_InitContainers = [init], job_Containers = [publish], job_Conditions = [], job_Succeeded = 0, job_CompletionTime = None\<rparr>"

definition publishContainer :: "string \<Rightarrow> Script \<Rightarrow> (string \<times> EnvSource) list \<Rightarrow> Container" where
  "publishContainer name script env = shellContainer name kubectlImage script env (componentResourceRequirements ''kubectl'') [outputMount]"

definition instanceLabels :: "FabricNetwork \<Rightarrow> Org \<Rightarrow> string \<Rightarrow> string \<Rightarrow> (string, string) gomap" where
  "instanceLabels net org channelName name =
     go_set (go_set (channelLabels net org channelName) labelInstance name) labelWorkload name"

definition orgMSPVolumes :: "FabricNetwork \<Rightarrow> string \<Rightarrow> Org list \<Rightarrow> (string \<times> VolumeSource) list" where
  "orgMSPVolumes net channelName orgs =
     map (\<lambda>org. (channelOrgMSPVolumeName org,
       secretVolume (channelOrgMSPSecretName channelName org) (mspSecretItems (gl_TLS (sp_Global (fn_Spec net)))))) orgs"

definition ordererMSPVolumes :: "FabricNetwork \<Rightarrow> string \<Rightarrow> (string \<times> VolumeSource) list" where
  "ordererMSPVolumes net channelName =
     (if networkUsesBFTOrderers net
      then map (\<lambda>orderer. (channelOrdererMSPVolumeName (oi_name orderer),
             secretVolume (channelOrdererMSPSecretName channelName (oi_name orderer)) (mspSecretItems (gl_TLS (sp_Global (fn_Spec net))))))
           (desiredOrdererInstances net)
      else [])"

definition ordererMSPMounts :: "FabricNetwork \<Rightarrow> VolumeMount list" where
  "ordererMSPMounts net =
     (if networkUsesBFTOrderers net
      then map (\<lambda>orderer. readOnlyMount (channelOrdererMSPVolumeName (oi_name orderer)) (channelOrdererMSPPath (oi_name orderer)))
           (desiredOrdererInstances net)
      else [])"

definition buildChannelBlockJob :: "FabricNetwork \<Rightarrow> Channel \<Rightarrow> Org \<Rightarrow> string \<Rightarrow> Job" where
  "buildChannelBlockJob net channel hostOrg namespace =
     (let name = ch_Name channel;
          orgs = channelConfigOrganizations net channel;
          orderers = desiredOrdererInstances net;
          volumes = [(channelConfigVolumeName, ConfigMapVolume (channelConfigMapName name) []), (channelOutputVolumeName, EmptyDir)] @
            orgMSPVolumes net name orgs @ ordererMSPVolumes net name @
            map (\<lambda>orderer. (channelOrdererTLSVolumeName (oi_name orderer),
              secretVolume (channelOrdererTLSSecretName name (oi_name orderer)) tlsSecretItems)) orderers;
          mounts = [readOnlyMount channelConfigVolumeName channelConfigDir, outputMount] @
            map (\<lambda>org. readOnlyMount (channelOrgMSPVolumeName org) (channelOrgMSPPath org)) orgs @ ordererMSPMounts net @
            map (\<lambda>orderer. readOnlyMount (channelOrdererTLSVolumeName (oi_name orderer)) (channelOrdererTLSPath (oi_name orderer))) orderers
      in channelJob net hostOrg name (channelBlockJobName name) namespace (channelLabels net hostOrg name) volumes
           (shellContainer ''generate-channel-block'' (fabricToolsImage (sp_Global (fn_Spec net))) (GenerateChannelBlockScript name) []
             (componentResourceRequirements ''orderer'') mounts)
           (publishContainer ''publish-channel-block'' PublishChannelBlockScript (publishChannelBlockEnv name)))"

definition blockVolume :: "string \<Rightarrow> string \<times> VolumeSource" where
  "blockVolume channelName = (channelBlockVolumeName, ConfigMapVolume (channelBlockConfigMapName channelName)
     [(channelBlockFileName channelName, channelBlockFileName channelName)])"

definition buildOrdererJoinJob :: "FabricNetwork \<Rightarrow> Channel \<Rightarrow> Org \<Rightarrow> string \<Rightarrow> ordererInstance \<Rightarrow> Job" where
  "buildOrdererJoinJob net channel hostOrg namespace orderer =
     (let name = ch_Name channel;
          adminTLSVolumeName = channelOrdererAdminTLSVolumeName (oi_org orderer);
          adminTLSPath = channelOrdererAdminTLSPath (oi_org orderer)
      in channelJob net hostOrg name (channelOrdererJoinJobName name orderer) namespace (instanceLabels net hostOrg name (oi_name orderer))
           [(channelOutputVolumeName, EmptyDir), blockVolume name,
            (adminTLSVolumeName, secretVolume (channelOrdererAdminTLSSecretName name (oi_org orderer)) adminTLSSecretItems)]
           (shellContainer ''join-orderer'' (fabricToolsImage (sp_Global (fn_Spec net)))
             (JoinOrdererScript name (ordererAdminAddress orderer) adminTLSPath) [] (componentResourceRequirements ''orderer'')
             [outputMount, readOnlyMount channelBlockVolumeName channelBlockDir, readOnlyMount adminTLSVolumeName adminTLSPath])
           (publishContainer ''publish-orderer-join'' PublishOrdererJoinResultScript (publishOrdererJoinResultEnv name orderer)))"

text \<open>The administrator's own identity, mounted where the organization's channel material is expected.\<close>

definition adminVolumes :: "FabricNetwork \<Rightarrow> Org \<Rightarrow> (string \<times> VolumeSource) list" where
  "adminVolumes net org =
     [(channelOrgMSPVolumeName org, secretVolume (identitySecretName (adminIdentityName org) secretKindMSP)
         (mspSecretItems (gl_TLS (sp_Global (fn_Spec net))))),
      (channelOrdererAdminTLSVolumeName org, secretVolume (identitySecretName (adminIdentityName org) secretKindTLS) adminTLSSecretItems)]"

definition adminMounts :: "Org \<Rightarrow> VolumeMount list" where
  "adminMounts org =
     [readOnlyMount (channelOrgMSPVolumeName org) (channelOrgMSPPath org),
      readOnlyMount (channelOrdererAdminTLSVolumeName org) (channelOrdererAdminTLSPath org)]"

definition buildPeerJoinJob :: "FabricNetwork \<Rightarrow> Channel \<Rightarrow> Org \<Rightarrow> string \<Rightarrow> peerInstance \<Rightarrow> Job" where
  "buildPeerJoinJob net channel org namespace peer =
     (let name = ch_Name channel
      in channelJob net org name (channelPeerJoinJobName name peer) namespace (instanceLabels net org name (pi_name peer))
           ([(channelOutputVolumeName, EmptyDir), blockVolume name] @ adminVolumes net org)
           (shellContainer ''join-peer'' (fabricToolsImage (sp_Global (fn_Spec net)))
             (JoinPeerScript name (om_MSPName (org_Organization org)) (peerAddress peer) (channelOrgMSPPath org) (channelOrdererAdminTLSPath org)) []
             (componentResourceRequirements ''fabric-cli'')
             ([outputMount, readOnlyMount channelBlockVolumeName channelBlockDir] @ adminMounts org))
           (publishContainer ''publish-peer-join'' PublishPeerJoinResultScript (publishPeerJoinResultEnv name peer)))"

text \<open>What an update of the channel configuration mounts: output, administrator and the orderer's TLS material.\<close>

definition ordererTLSVolume :: "string \<Rightarrow> ordererInstance \<Rightarrow> string \<times> VolumeSource" where
  "ordererTLSVolume channelName orderer =
     (channelOrdererTLSVolumeName (oi_name orderer), secretVolume (channelOrdererTLSSecretName channelName (oi_name orderer)) tlsSecretItems)"

definition ordererTLSMount :: "ordererInstance \<Rightarrow> VolumeMount" where
  "ordererTLSMount orderer = readOnlyMount (channelOrdererTLSVolumeName (oi_name orderer)) (channelOrdererTLSPath (oi_name orderer))"

definition buildAnchorPeerUpdateJob ::
  "FabricNetwork \<Rightarrow> Channel \<Rightarrow> Org \<Rightarrow> string \<Rightarrow> peerInstance \<Rightarrow> ordererInstance \<Rightarrow> Job" where
  "buildAnchorPeerUpdateJob net channel org namespace anchorPeer orderer =
     (let name = ch_Name channel
      in channelJob net org name (channelAnchorPeerUpdateJobName name org) namespace (instanceLabels net org name (pi_name anchorPeer))
           ([(channelOutputVolumeName, EmptyDir)] @ adminVolumes net org @ [ordererTLSVolume name orderer])
           (shellContainer ''update-anchor-peer'' (fabricToolsImage (sp_Global (fn_Spec net)))
             (UpdateAnchorPeerScript name (om_MSPName (org_Organization org)) (peerAddress anchorPeer) (channelPeerHost anchorPeer)
               (channelPeerPort anchorPeer) (ordererClientAddress orderer) (channelOrgMSPPath org) (channelOrdererAdminTLSPath org)
               (channelOrdererTLSPath (oi_name orderer)) (anchorPeerUpdateFilePath name org)) []
             (componentResourceRequirements ''fabric-cli'') ([outputMount] @ adminMounts org @ [ordererTLSMount orderer]))
           (publishContainer ''publish-anchor-peer-update'' PublishAnchorPeerUpdateResultScript (publishAnchorPeerUpdateResultEnv name org)))"

end
