(* ===== verification/Channel_Bootstrap.thy ===== *)
theory Channel_Bootstrap
  imports Channel_Objects
begin

text \<open>
  Channel bootstrap of \<^verbatim>\<open>fabricnetwork_channel.go\<close>: access control and copied key material for the
  Jobs, generation of the channel block, joining orderers and peers and setting anchor peers. A step
  counts as done when its result ConfigMap says so, or when its Job succeeded and is not one whose
  result has to be published before it is cleaned up. A readiness check returns whether the step is
  done and a message, empty when there is nothing to report.

  Go iterates over a map in no fixed order. Where the code does so, the order is an argument: a
  function from the keys of the map to the order they are visited in.
\<close>

definition ioFail :: "ApiError \<Rightarrow> ('s, 'a) io" where
  "ioFail e s = (Inl e, s)"

text \<open>A value or the text of an error.\<close>

definition liftText :: "string + 'a \<Rightarrow> ('s, 'a) io" where
  "liftText r = (case r of Inl e \<Rightarrow> ioFail (OtherError e) | Inr a \<Rightarrow> ioReturn a)"

definition getConfigMap :: "'s Kube \<Rightarrow> string \<Rightarrow> string \<Rightarrow> ('s, ConfigMap option) io" where
  "getConfigMap api namespace name s =
     (case k_Get api (KConfigMap, namespace, name) s of
        (Inl NotFound, s1) \<Rightarrow> (Inr None, s1)
      | (Inl e, s1) \<Rightarrow> (Inl e, s1)
      | (Inr (OConfigMap c), s1) \<Rightarrow> (Inr (Some c), s1)
      | (Inr _, s1) \<Rightarrow> (Inl (OtherError ''decode ConfigMap''), s1))"

section \<open>Access control and copies\<close>

definition ensureChannelRBAC :: "'s Kube \<Rightarrow> FabricNetwork \<Rightarrow> Org \<Rightarrow> string \<Rightarrow> string \<Rightarrow> ('s, unit) io" where
  "ensureChannelRBAC api net hostOrg channelName namespace =
     ioBind (ensureServiceAccount api (buildChannelServiceAccount net hostOrg channelName namespace)) (\<lambda>_.
     ioBind (ensureRole api (fst (buildChannelRole net hostOrg channelName namespace)) (snd (buildChannelRole net hostOrg channelName namespace))) (\<lambda>_.
     (let (m, subjects, roleRef) = buildChannelRoleBinding net hostOrg channelName namespace
      in ensureRoleBinding api m subjects roleRef)))"

definition mutateReplicatedSecret :: "Secret \<Rightarrow> KObject \<Rightarrow> bool \<times> KObject" where
  "mutateReplicatedSecret desired ob =
     (case ob of
        OSecret existing \<Rightarrow>
          (let (c, meta) = mergeMeta (sec_Meta existing) (sec_Meta desired);
               c2 = (sec_Type existing \<noteq> sec_Type desired);
               c3 = (\<not> mapEntriesEqual (sec_Data existing) (sec_Data desired))
           in (c \<or> c2 \<or> c3,
               OSecret (existing\<lparr>sec_Meta := meta, sec_Type := sec_Type desired,
                         sec_Data := (if c3 then sec_Data desired else sec_Data existing)\<rparr>)))
      | _ \<Rightarrow> (False, ob))"

definition ensureReplicatedSecret :: "'s Kube \<Rightarrow> Secret \<Rightarrow> ('s, unit) io" where
  "ensureReplicatedSecret api desired = createOrUpdate api (OSecret desired) (mutateReplicatedSecret desired)"

definition copiedSecret :: "string \<Rightarrow> string \<Rightarrow> (string, string) gomap \<Rightarrow> (string, string) gomap \<Rightarrow> Secret \<Rightarrow> Secret" where
  "copiedSecret namespace name labels annotations sourceSecret =
     \<lparr>sec_Meta = \<lparr>mt_Name = name, mt_Namespace = namespace, mt_Labels = Some labels, mt_Annotations = Some annotations\<rparr>,
      sec_Type = sec_Type sourceSecret, sec_Data = copySecretData (sec_Data sourceSecret)\<rparr>"

definition ensureCopiedSecret ::
  "'s Kube \<Rightarrow> string \<times> string \<Rightarrow> string \<Rightarrow> string \<Rightarrow> (string, string) gomap \<Rightarrow> (string, string) gomap \<Rightarrow> ('s, unit) io" where
  "ensureCopiedSecret api source namespace name labels annotations =
     ioBind (getSecret api (fst source) (snd source)) (\<lambda>found.
       case found of
         None \<Rightarrow> ioFail NotFound
       | Some sourceSecret \<Rightarrow> ensureReplicatedSecret api (copiedSecret namespace name labels annotations sourceSecret))"

text \<open>The first orderer of every ordering organization.\<close>

fun firstByOrg :: "string set \<Rightarrow> ordererInstance list \<Rightarrow> ordererInstance list" where
  "firstByOrg seen [] = []"
| "firstByOrg seen (orderer # orderers) =
     (let orgName = om_Name (org_Organization (oi_org orderer))
      in if orgName \<in> seen then firstByOrg seen orderers else orderer # firstByOrg (insert orgName seen) orderers)"

definition ensureChannelCryptoSecrets :: "'s Kube \<Rightarrow> FabricNetwork \<Rightarrow> Channel \<Rightarrow> Org \<Rightarrow> string \<Rightarrow> ('s, unit) io" where
  "ensureChannelCryptoSecrets api net channel hostOrg namespace =
     (let name = ch_Name channel;
          labels = channelLabels net hostOrg name;
          annotations = resourceAnnotations net hostOrg;
          orderers = desiredOrdererInstances net;
          copy = (\<lambda>source target. ensureCopiedSecret api source namespace target labels annotations)
      in ioSeq
           (map (\<lambda>org. copy (orgNamespaceName net org, identitySecretName (adminIdentityName org) secretKindMSP)
              (channelOrgMSPSecretName name org)) (channelConfigOrganizations net channel) @
            map (\<lambda>orderer. copy (oi_namespace orderer, identitySecretName (adminIdentityName (oi_org orderer)) secretKindTLS)
              (channelOrdererAdminTLSSecretName name (oi_org orderer))) (firstByOrg {} orderers) @
            map (\<lambda>orderer. copy (oi_namespace orderer, identitySecretName (oi_name orderer) secretKindTLS)
              (channelOrdererTLSSecretName name (oi_name orderer))) orderers @
            (if networkUsesBFTOrderers net
             then map (\<lambda>orderer. copy (oi_namespace orderer, identitySecretName (oi_name orderer) secretKindMSP)
                    (channelOrdererMSPSecretName name (oi_name orderer))) orderers
             else [])))"

definition ensureChannelConfigMapNamedCopy ::
  "'s Kube \<Rightarrow> FabricNetwork \<Rightarrow> string \<Rightarrow> string \<Rightarrow> string \<Rightarrow> Org \<Rightarrow> string \<Rightarrow> ('s, unit) io" where
  "ensureChannelConfigMapNamedCopy api net channelName configMapName sourceNamespace org namespace =
     ioBind (getConfigMap api sourceNamespace configMapName) (\<lambda>found.
       case found of
         None \<Rightarrow> ioFail NotFound
       | Some source \<Rightarrow>
           ensureConfigMap api \<lparr>cm_Meta = channelMeta net org channelName configMapName namespace,
             cm_Data = cm_Data source, cm_BinaryData = copySecretData (cm_BinaryData source), cm_Immutable = False\<rparr>)"

definition ensureChannelBlockConfigMapCopy ::
  "'s Kube \<Rightarrow> FabricNetwork \<Rightarrow> Channel \<Rightarrow> string \<Rightarrow> Org \<Rightarrow> string \<Rightarrow> ('s, unit) io" where
  "ensureChannelBlockConfigMapCopy api net channel sourceNamespace org namespace =
     ensureChannelConfigMapNamedCopy api net (ch_Name channel) (channelBlockConfigMapName (ch_Name channel)) sourceNamespace org namespace"

section \<open>The channel block\<close>

definition blockJobMessage :: "Job option \<Rightarrow> string" where
  "blockJobMessage found =
     (case found of
        None \<Rightarrow> ''Waiting for channel block generation Job''
      | Some job \<Rightarrow>
          if jobFailed job then ''Channel block generation Job failed''
          else if job_Succeeded job > 0 then ''Waiting for channel block ConfigMap to be published''
          else ''Waiting for channel block generation Job'')"

definition channelBlockReadiness :: "'s Kube \<Rightarrow> string \<Rightarrow> string \<Rightarrow> ('s, bool \<times> string) io" where
  "channelBlockReadiness api namespace channelName =
     ioBind (getConfigMap api namespace (channelBlockConfigMapName channelName)) (\<lambda>found.
       case found of
         Some block \<Rightarrow>
           ioReturn (if map_of (cm_BinaryData block) (channelBlockFileName channelName) \<noteq> None \<or>
                        map_of (cm_Data block) (channelBlockFileName channelName) \<noteq> None
                     then (True, []) else (False, ''Channel block ConfigMap is missing the block file''))
       | None \<Rightarrow>
           ioBind (getJob api namespace (channelBlockJobName channelName)) (\<lambda>job. ioReturn (False, blockJobMessage job)))"

definition reconcileChannelBlockGeneration :: "'s Kube \<Rightarrow> FabricNetwork \<Rightarrow> Channel \<Rightarrow> Org \<Rightarrow> string \<Rightarrow> ('s, unit) io" where
  "reconcileChannelBlockGeneration api net channel hostOrg hostNamespace =
     ioBind (ensureChannelRBAC api net hostOrg (ch_Name channel) hostNamespace) (\<lambda>_.
     ioBind (ensureChannelCryptoSecrets api net channel hostOrg hostNamespace) (\<lambda>_.
     ioBind (ioLift (buildChannelConfigMap net channel hostOrg hostNamespace)) (\<lambda>configMap.
     ioBind (ensureConfigMap api configMap) (\<lambda>_.
     ioBind (channelBlockReadiness api hostNamespace (ch_Name channel)) (\<lambda>(blockReady, _).
       if blockReady then ioReturn () else ensureJob api (buildChannelBlockJob net channel hostOrg hostNamespace))))))"

section \<open>What a Job's result and outcome say\<close>

text \<open>
  The shape of the three join checks: the result decides when it is there; otherwise the Job does,
  and a succeeded Job that would be cleaned up still has to publish.
\<close>

definition jobVerdict :: "string \<Rightarrow> string \<Rightarrow> string \<Rightarrow> Job option \<Rightarrow> bool \<times> string" where
  "jobVerdict failedMessage waitingMessage resultMessage found =
     (case found of
        None \<Rightarrow> (False, [])
      | Some job \<Rightarrow>
          if jobFailed job then (False, failedMessage)
          else if jobSucceeded job
          then (if resultMessage \<noteq> [] then (False, resultMessage)
                else if succeededJobCleanupEligible job then (False, waitingMessage)
                else (True, []))
          else (False, []))"

definition resultThenJob ::
  "'s Kube \<Rightarrow> ('s, bool \<times> string) io \<Rightarrow> string \<Rightarrow> string \<Rightarrow> string \<Rightarrow> string \<Rightarrow> ('s, bool \<times> string) io" where
  "resultThenJob api result namespace jobName failedMessage waitingMessage =
     ioBind result (\<lambda>(resultReady, resultMessage).
       if resultReady then ioReturn (resultReady, resultMessage)
       else ioBind (getJob api namespace jobName) (\<lambda>job. ioReturn (jobVerdict failedMessage waitingMessage resultMessage job)))"

section \<open>Joining orderers\<close>

definition jsonPayload :: "string \<Rightarrow> string" where
  "jsonPayload raw =
     (let trimmed = trimSpace raw
      in case (first_index (CHR ''{'') trimmed, first_index (CHR ''['') trimmed) of
           (None, None) \<Rightarrow> []
         | (Some objectStart, None) \<Rightarrow> trimSpace (drop objectStart trimmed)
         | (None, Some arrayStart) \<Rightarrow> trimSpace (drop arrayStart trimmed)
         | (Some objectStart, Some arrayStart) \<Rightarrow> trimSpace (drop (min objectStart arrayStart) trimmed))"

type_synonym maporder = "string list \<Rightarrow> string list"

fun firstSome :: "'a option list \<Rightarrow> 'a option" where
  "firstSome [] = None"
| "firstSome (None # xs) = firstSome xs"
| "firstSome (Some x # xs) = Some x"

definition goMapOf :: "('k \<times> 'v) list \<Rightarrow> ('k, 'v) gomap" where
  "goMapOf kvs = foldl (\<lambda>m kv. go_set m (fst kv) (snd kv)) [] kvs"

definition anyString :: "json option \<Rightarrow> string option" where
  "anyString v = (case v of Some (JStr s) \<Rightarrow> Some s | _ \<Rightarrow> None)"

text \<open>The status of the named channel, or \<open>None\<close> when no object of the tree carries the name.\<close>

fun jsonObjectChannelStatus :: "maporder \<Rightarrow> string \<Rightarrow> json \<Rightarrow> string option" where
  "jsonObjectChannelStatus ord name (JObj kvs) =
     (let typed = goMapOf kvs
      in if anyString (map_of typed ''name'') = Some name
         then Some (toLower (trimSpace (case anyString (map_of typed ''status'') of None \<Rightarrow> [] | Some s \<Rightarrow> s)))
         else let children = goMapOf (map (\<lambda>kv. (fst kv, jsonObjectChannelStatus ord name (snd kv))) kvs)
              in firstSome (map (\<lambda>k. case map_of children k of None \<Rightarrow> None | Some r \<Rightarrow> r) (ord (map fst typed))))"
| "jsonObjectChannelStatus ord name (JArr xs) = firstSome (map (jsonObjectChannelStatus ord name) xs)"
| "jsonObjectChannelStatus ord name _ = None"

definition ordererJoinResultChannelStatus :: "maporder \<Rightarrow> string \<Rightarrow> string \<Rightarrow> string option" where
  "ordererJoinResultChannelStatus ord raw channelName =
     (case jsonParse (jsonPayload raw) of None \<Rightarrow> None | Some payload \<Rightarrow> jsonObjectChannelStatus ord channelName payload)"

definition ordererJoinVerdict :: "maporder \<Rightarrow> string \<Rightarrow> ordererInstance \<Rightarrow> ConfigMap option \<Rightarrow> bool \<times> string" where
  "ordererJoinVerdict ord channelName orderer found =
     (case found of
        None \<Rightarrow> (False, [])
      | Some result \<Rightarrow>
          (let raw = trimSpace (go_get (cm_Data result) channelOrdererJoinResultKey)
           in if raw = [] then (False, ''Waiting for '' @ oi_name orderer @ '' orderer join result ConfigMap data'')
              else case ordererJoinResultChannelStatus ord raw channelName of
                     None \<Rightarrow> (False, ''Waiting for '' @ oi_name orderer @ '' orderer join result for channel '' @ channelName)
                   | Some status \<Rightarrow>
                       if status \<noteq> [] \<and> status \<noteq> ''active''
                       then (False, ''Waiting for '' @ oi_name orderer @ '' orderer channel '' @ channelName @
                               '' to become active (status: '' @ status @ '')'')
                       else (True, [])))"

definition ordererJoinResultReadiness ::
  "maporder \<Rightarrow> 's Kube \<Rightarrow> string \<Rightarrow> string \<Rightarrow> ordererInstance \<Rightarrow> ('s, bool \<times> string) io" where
  "ordererJoinResultReadiness ord api namespace channelName orderer =
     ioBind (getConfigMap api namespace (channelOrdererJoinResultConfigMapName channelName orderer)) (\<lambda>found.
       ioReturn (ordererJoinVerdict ord channelName orderer found))"

definition ordererJoinReadiness ::
  "maporder \<Rightarrow> 's Kube \<Rightarrow> string \<Rightarrow> string \<Rightarrow> ordererInstance \<Rightarrow> ('s, bool \<times> string) io" where
  "ordererJoinReadiness ord api namespace channelName orderer =
     resultThenJob api (ordererJoinResultReadiness ord api namespace channelName orderer) namespace
       (channelOrdererJoinJobName channelName orderer) (oi_name orderer @ '': orderer join Job failed'')
       ''Waiting for orderer join result ConfigMap''"

fun ordererJoinLoop ::
  "maporder \<Rightarrow> 's Kube \<Rightarrow> FabricNetwork \<Rightarrow> Channel \<Rightarrow> Org \<Rightarrow> string \<Rightarrow> int \<Rightarrow> ordererInstance list \<Rightarrow> ('s, int \<times> string) io" where
  "ordererJoinLoop ord api net channel hostOrg namespace ready [] = ioReturn (ready, [])"
| "ordererJoinLoop ord api net channel hostOrg namespace ready (orderer # orderers) =
     ioBind (ordererJoinResultReadiness ord api namespace (ch_Name channel) orderer) (\<lambda>(resultReady, _).
       if resultReady then ordererJoinLoop ord api net channel hostOrg namespace (ready + 1) orderers
       else ioBind (ensureJob api (buildOrdererJoinJob net channel hostOrg namespace orderer)) (\<lambda>_.
            ioBind (ordererJoinReadiness ord api namespace (ch_Name channel) orderer) (\<lambda>(joined, message).
              if message \<noteq> [] then ioReturn (ready, message)
              else ordererJoinLoop ord api net channel hostOrg namespace (if joined then ready + 1 else ready) orderers)))"

definition reconcileOrdererJoins :: "maporder \<Rightarrow> 's Kube \<Rightarrow> FabricNetwork \<Rightarrow> Channel \<Rightarrow> Org \<Rightarrow> string \<Rightarrow> ('s, int \<times> string) io" where
  "reconcileOrdererJoins ord api net channel hostOrg namespace =
     ordererJoinLoop ord api net channel hostOrg namespace 0 (desiredOrdererInstances net)"

section \<open>Joining peers\<close>

definition fieldsContain :: "string \<Rightarrow> string \<Rightarrow> bool" where
  "fieldsContain raw val \<longleftrightarrow> val \<in> set (fields raw)"

definition peerJoinVerdict :: "string \<Rightarrow> peerInstance \<Rightarrow> ConfigMap option \<Rightarrow> bool \<times> string" where
  "peerJoinVerdict channelName peer found =
     (case found of
        None \<Rightarrow> (False, [])
      | Some result \<Rightarrow>
          (let raw = trimSpace (go_get (cm_Data result) channelPeerJoinResultKey)
           in if raw = [] then (False, ''Waiting for '' @ pi_name peer @ '' peer join result ConfigMap data'')
              else if \<not> fieldsContain raw channelName
              then (False, ''Waiting for '' @ pi_name peer @ '' peer join result for channel '' @ channelName)
              else (True, [])))"

definition peerJoinResultReadiness :: "'s Kube \<Rightarrow> string \<Rightarrow> string \<Rightarrow> peerInstance \<Rightarrow> ('s, bool \<times> string) io" where
  "peerJoinResultReadiness api namespace channelName peer =
     ioBind (getConfigMap api namespace (channelPeerJoinResultConfigMapName channelName peer)) (\<lambda>found.
       ioReturn (peerJoinVerdict channelName peer found))"

definition peerJoinReadiness :: "'s Kube \<Rightarrow> string \<Rightarrow> string \<Rightarrow> peerInstance \<Rightarrow> ('s, bool \<times> string) io" where
  "peerJoinReadiness api namespace channelName peer =
     resultThenJob api (peerJoinResultReadiness api namespace channelName peer) namespace
       (channelPeerJoinJobName channelName peer) (pi_name peer @ '': peer join Job failed'') ''Waiting for peer join result ConfigMap''"

text \<open>The peers of one organization: how many have joined, and the message that stops the loop.\<close>

fun peerJoinLoop ::
  "'s Kube \<Rightarrow> FabricNetwork \<Rightarrow> Channel \<Rightarrow> Org \<Rightarrow> string \<Rightarrow> int \<Rightarrow> string list \<Rightarrow> ('s, int \<times> string) io" where
  "peerJoinLoop api net channel org namespace orgReady [] = ioReturn (orgReady, [])"
| "peerJoinLoop api net channel org namespace orgReady (peerName # peerNames) =
     (let peer = \<lparr>pi_org = org, pi_name = peerName, pi_namespace = namespace\<rparr> in
      ioBind (peerJoinResultReadiness api namespace (ch_Name channel) peer) (\<lambda>(resultReady, _).
        if resultReady then peerJoinLoop api net channel org namespace (orgReady + 1) peerNames
        else ioBind (ensureJob api (buildPeerJoinJob net channel org namespace peer)) (\<lambda>_.
             ioBind (peerJoinReadiness api namespace (ch_Name channel) peer) (\<lambda>(joined, message).
               if message \<noteq> [] then ioReturn (orgReady, message)
               else peerJoinLoop api net channel org namespace (if joined then orgReady + 1 else orgReady) peerNames))))"

definition peerOrgStatus :: "ChannelOrgStatus \<Rightarrow> int \<Rightarrow> ChannelOrgStatus" where
  "peerOrgStatus orgStatus orgReady =
     (let status = orgStatus\<lparr>cos_Peers := (cos_Peers orgStatus)\<lparr>ws_Ready := orgReady\<rparr>\<rparr>
      in if orgReady < ws_Desired (cos_Peers orgStatus)
         then status\<lparr>cos_Message := ''Waiting for peer join Jobs'', cos_Ready := False\<rparr>
         else status\<lparr>cos_Message := [], cos_Ready := ws_Desired (cos_Peers orgStatus) > 0\<rparr>)"

fun peerOrgLoop ::
  "'s Kube \<Rightarrow> FabricNetwork \<Rightarrow> Channel \<Rightarrow> string \<Rightarrow> int \<Rightarrow> ChannelOrgStatus list \<Rightarrow> ChannelOrgStatus list \<Rightarrow>
   ('s, int \<times> string \<times> ChannelOrgStatus list) io" where
  "peerOrgLoop api net channel hostNamespace ready written [] = ioReturn (ready, [], written)"
| "peerOrgLoop api net channel hostNamespace ready written (orgStatus # rest) =
     (case map_of (orgsByName net) (cos_Name orgStatus) of
        None \<Rightarrow> peerOrgLoop api net channel hostNamespace ready (written @ [orgStatus]) rest
      | Some org \<Rightarrow>
          (let namespace = orgNamespaceName net org in
           ioBind (ensureChannelRBAC api net org (ch_Name channel) namespace) (\<lambda>_.
           ioBind (ensureChannelBlockConfigMapCopy api net channel hostNamespace org namespace) (\<lambda>_.
           ioBind (peerJoinLoop api net channel org namespace 0 (cos_PeerNames orgStatus)) (\<lambda>(orgReady, message).
             if message \<noteq> []
             then ioReturn (ready + orgReady, message,
                    written @ [orgStatus\<lparr>cos_Peers := (cos_Peers orgStatus)\<lparr>ws_Ready := orgReady\<rparr>, cos_Message := message,
                      cos_Ready := False\<rparr>] @ rest)
             else peerOrgLoop api net channel hostNamespace (ready + orgReady) (written @ [peerOrgStatus orgStatus orgReady]) rest)))))"

definition reconcilePeerJoins ::
  "'s Kube \<Rightarrow> FabricNetwork \<Rightarrow> Channel \<Rightarrow> string \<Rightarrow> ChannelStatus \<Rightarrow> ('s, int \<times> string \<times> ChannelOrgStatus list) io" where
  "reconcilePeerJoins api net channel hostNamespace status =
     ioBind (peerOrgLoop api net channel hostNamespace 0 [] (chs_Orgs status)) (\<lambda>(ready, message, orgs).
       ioReturn (if message \<noteq> [] then (ready, message, orgs)
                 else if ready < ws_Desired (chs_Peers status) then (ready, ''Waiting for peer join Jobs'', orgs)
                 else (ready, [], orgs)))"

section \<open>Anchor peers\<close>

definition jint32 :: "json \<Rightarrow> int option" where
  "jint32 j = (case jint j of Some i \<Rightarrow> if - (2 ^ 31) \<le> i \<and> i < 2 ^ 31 then Some i else None | None \<Rightarrow> None)"

definition decodeAnchorPeer :: "json \<Rightarrow> ChannelExternalAnchorPeer option" where
  "decodeAnchorPeer j = do {
     kvs \<leftarrow> jstruct j; host \<leftarrow> jstring (jmember ''host'' kvs); port \<leftarrow> jint32 (jmember ''port'' kvs);
     Some \<lparr>ap_Host = host, ap_Port = port\<rparr> }"

definition decodeAnchorPeers :: "json \<Rightarrow> ChannelExternalAnchorPeer list option" where
  "decodeAnchorPeers j = do { xs \<leftarrow> jslice j; mapM_option decodeAnchorPeer xs }"

definition decodeAnchorResult :: "json \<Rightarrow> (string \<times> string \<times> ChannelExternalAnchorPeer list) option" where
  "decodeAnchorResult j = do {
     kvs \<leftarrow> jstruct j; channel \<leftarrow> jstring (jmember ''channel'' kvs); msp \<leftarrow> jstring (jmember ''mspID'' kvs);
     anchors \<leftarrow> decodeAnchorPeers (jmember ''anchorPeers'' kvs); Some (channel, msp, anchors) }"

definition anchorPeerUpdateResultMatches :: "string \<Rightarrow> string \<Rightarrow> string \<Rightarrow> string \<Rightarrow> int \<Rightarrow> bool" where
  "anchorPeerUpdateResultMatches raw channelName mspID host port =
     (case jsonParse (jsonPayload raw) of
        None \<Rightarrow> False
      | Some j \<Rightarrow>
          (case decodeAnchorResult j of
             None \<Rightarrow> False
           | Some (channel, msp, anchors) \<Rightarrow>
               channel = channelName \<and> msp = mspID \<and> anchors = [\<lparr>ap_Host = host, ap_Port = port\<rparr>]))"

definition anchorPeerVerdict :: "string \<Rightarrow> Org \<Rightarrow> peerInstance \<Rightarrow> ConfigMap option \<Rightarrow> bool \<times> string" where
  "anchorPeerVerdict channelName org anchorPeer found =
     (case found of
        None \<Rightarrow> (False, [])
      | Some result \<Rightarrow>
          (let raw = trimSpace (go_get (cm_Data result) channelAnchorPeerResultKey); orgName = om_Name (org_Organization org)
           in if raw = [] then (False, ''Waiting for '' @ orgName @ '' anchor peer update result ConfigMap data'')
              else if \<not> anchorPeerUpdateResultMatches raw channelName (om_MSPName (org_Organization org)) (channelPeerHost anchorPeer)
                          (channelPeerPort anchorPeer)
              then (False, ''Waiting for '' @ orgName @ '' anchor peer update result for channel '' @ channelName)
              else (True, [])))"

definition anchorPeerUpdateResultReadiness ::
  "'s Kube \<Rightarrow> string \<Rightarrow> string \<Rightarrow> Org \<Rightarrow> peerInstance \<Rightarrow> ('s, bool \<times> string) io" where
  "anchorPeerUpdateResultReadiness api namespace channelName org anchorPeer =
     ioBind (getConfigMap api namespace (channelAnchorPeerUpdateResultConfigMapName channelName org)) (\<lambda>found.
       ioReturn (anchorPeerVerdict channelName org anchorPeer found))"

definition anchorPeerUpdateReadiness :: "'s Kube \<Rightarrow> string \<Rightarrow> string \<Rightarrow> Org \<Rightarrow> peerInstance \<Rightarrow> ('s, bool \<times> string) io" where
  "anchorPeerUpdateReadiness api namespace channelName org anchorPeer =
     resultThenJob api (anchorPeerUpdateResultReadiness api namespace channelName org anchorPeer) namespace
       (channelAnchorPeerUpdateJobName channelName org) (om_Name (org_Organization org) @ '': anchor peer update Job failed'')
       ''Waiting for anchor peer update result ConfigMap''"

definition ensureAnchorPeerInputs :: "'s Kube \<Rightarrow> FabricNetwork \<Rightarrow> Channel \<Rightarrow> Org \<Rightarrow> string \<Rightarrow> ordererInstance \<Rightarrow> ('s, unit) io" where
  "ensureAnchorPeerInputs api net channel org namespace orderer =
     ensureCopiedSecret api (oi_namespace orderer, identitySecretName (oi_name orderer) secretKindTLS) namespace
       (channelOrdererTLSSecretName (ch_Name channel) (oi_name orderer)) (channelLabels net org (ch_Name channel)) (resourceAnnotations net org)"

fun anchorLoop ::
  "'s Kube \<Rightarrow> FabricNetwork \<Rightarrow> Channel \<Rightarrow> ordererInstance \<Rightarrow> ChannelOrgStatus list \<Rightarrow> ChannelOrgStatus list \<Rightarrow>
   ('s, string \<times> ChannelOrgStatus list) io" where
  "anchorLoop api net channel targetOrderer written [] = ioReturn ([], written)"
| "anchorLoop api net channel targetOrderer written (orgStatus # rest) =
     (let skip = anchorLoop api net channel targetOrderer (written @ [orgStatus]) rest;
          done = anchorLoop api net channel targetOrderer (written @ [orgStatus\<lparr>cos_Message := [], cos_Ready := True\<rparr>]) rest
      in if ws_Ready (cos_Peers orgStatus) < ws_Desired (cos_Peers orgStatus) \<or> ws_Desired (cos_Peers orgStatus) = 0 then skip
         else case map_of (orgsByName net) (cos_Name orgStatus) of
                None \<Rightarrow> skip
              | Some org \<Rightarrow>
                  (case channelAnchorPeerForOrg net channel org of
                     None \<Rightarrow> skip
                   | Some anchorPeer \<Rightarrow>
                       (let namespace = orgNamespaceName net org in
                        ioBind (ensureAnchorPeerInputs api net channel org namespace targetOrderer) (\<lambda>_.
                        ioBind (anchorPeerUpdateResultReadiness api namespace (ch_Name channel) org anchorPeer) (\<lambda>(resultReady, _).
                          if resultReady then done
                          else ioBind (ensureJob api (buildAnchorPeerUpdateJob net channel org namespace anchorPeer targetOrderer)) (\<lambda>_.
                               ioBind (anchorPeerUpdateReadiness api namespace (ch_Name channel) org anchorPeer) (\<lambda>(updated, message).
                                 if message \<noteq> []
                                 then ioReturn (message, written @ [orgStatus\<lparr>cos_Message := message, cos_Ready := False\<rparr>] @ rest)
                                 else if \<not> updated
                                 then ioReturn (''Waiting for anchor peer update Jobs'',
                                        written @ [orgStatus\<lparr>cos_Message := ''Waiting for anchor peer update Job'', cos_Ready := False\<rparr>] @ rest)
                                 else done)))))))"

definition reconcileAnchorPeerUpdates ::
  "'s Kube \<Rightarrow> FabricNetwork \<Rightarrow> Channel \<Rightarrow> ChannelStatus \<Rightarrow> ('s, string \<times> ChannelOrgStatus list) io" where
  "reconcileAnchorPeerUpdates api net channel status =
     (case desiredOrdererInstances net of
        [] \<Rightarrow> ioReturn ([], chs_Orgs status)
      | targetOrderer # _ \<Rightarrow> anchorLoop api net channel targetOrderer [] (chs_Orgs status))"

end
