(* ===== verification/Config_Updates.thy ===== *)
theory Config_Updates
  imports Channel_Bootstrap
begin

text \<open>
  Changes of a channel's membership after bootstrap: \<^verbatim>\<open>fabricnetwork_external_org.go\<close> for
  organizations run elsewhere, \<^verbatim>\<open>fabricnetwork_local_org.go\<close> for organizations of the network that join
  late, and \<^verbatim>\<open>fabricnetwork_channel_submission.go\<close> for updates signed outside the cluster. A Job stages
  or submits the update and leaves a result ConfigMap, the evidence; a staged update waits for a
  signed envelope, which a second Job submits. A Secret as the API server returns it has no
  \<open>StringData\<close>, and the text of a decoding error, which the library words, is shortened.
\<close>

definition zeroOrg :: Org where
  "zeroOrg = \<lparr>org_Organization = \<lparr>om_Name = [], om_Domain = [], om_MSPName = []\<rparr>, org_CA = \<lparr>ca_DB = [], ca_Registrar = None\<rparr>,
     org_Orderers = [], org_Peer = None\<rparr>"

section \<open>Artifacts\<close>

text \<open>The bytes a reference points to, or the message that says why they are not there yet.\<close>

definition channelConfigMapArtifactBytes :: "'s Kube \<Rightarrow> string \<Rightarrow> KeySelector \<Rightarrow> ('s, string + bytes) io" where
  "channelConfigMapArtifactBytes api namespace ref =
     ioBind (getConfigMap api namespace (ks_Name ref)) (\<lambda>found.
       ioReturn (case found of
           None \<Rightarrow> Inl (''ConfigMap '' @ namespace @ ''/'' @ ks_Name ref @ '' is missing'')
         | Some configMap \<Rightarrow>
             (case map_of (cm_BinaryData configMap) (ks_Key ref) of
                Some v \<Rightarrow> Inr v
              | None \<Rightarrow>
                  (case map_of (cm_Data configMap) (ks_Key ref) of
                     Some v \<Rightarrow> Inr v
                   | None \<Rightarrow> Inl (''ConfigMap '' @ namespace @ ''/'' @ ks_Name ref @ '' is missing key '' @ goquote (ks_Key ref))))))"

definition channelSecretArtifactBytes :: "'s Kube \<Rightarrow> string \<Rightarrow> KeySelector \<Rightarrow> ('s, string + bytes) io" where
  "channelSecretArtifactBytes api namespace ref =
     ioBind (getSecret api namespace (ks_Name ref)) (\<lambda>found.
       ioReturn (case found of
           None \<Rightarrow> Inl (''Secret '' @ namespace @ ''/'' @ ks_Name ref @ '' is missing'')
         | Some secret \<Rightarrow>
             (case map_of (sec_Data secret) (ks_Key ref) of
                Some v \<Rightarrow> Inr v
              | None \<Rightarrow> Inl (''Secret '' @ namespace @ ''/'' @ ks_Name ref @ '' is missing key '' @ goquote (ks_Key ref)))))"

definition channelArtifactBytes :: "'s Kube \<Rightarrow> string \<Rightarrow> ChannelArtifactKeyRef option \<Rightarrow> ('s, string + bytes) io" where
  "channelArtifactBytes api namespace ref =
     (case ref of
        None \<Rightarrow> ioReturn (Inl ''applicationOrgRef is required'')
      | Some r \<Rightarrow>
          (case ref_ConfigMapKeyRef r of
             Some c \<Rightarrow> channelConfigMapArtifactBytes api namespace c
           | None \<Rightarrow>
               (case ref_SecretKeyRef r of
                  Some c \<Rightarrow> channelSecretArtifactBytes api namespace c
                | None \<Rightarrow> ioReturn (Inl ''applicationOrgRef must set configMapKeyRef or secretKeyRef''))))"

section \<open>Submitting a signed update\<close>

definition channelSubmissionDir :: string where "channelSubmissionDir = channelWorkDir @ ''/submission''"

definition submissionJobName :: "Crypto \<Rightarrow> string \<Rightarrow> bytes \<Rightarrow> bytes \<Rightarrow> string" where
  "submissionJobName cr baseName stagedUpdate raw =
     sanitizeName (take 32 baseName @ ''-submit'' @ ''-'' @ hex_encode (take 8 (sha256_Sum256 cr (baseName @ stagedUpdate @ raw))))"

definition redirectResult :: "string \<Rightarrow> string \<times> EnvSource \<Rightarrow> string \<times> EnvSource" where
  "redirectResult resultName env =
     (if fst env = ''FABRICOPS_EXTERNAL_ORG_RESULT_CONFIGMAP'' \<or> fst env = ''FABRICOPS_LOCAL_ORG_RESULT_CONFIGMAP''
      then (fst env, EnvValue resultName) else env)"

text \<open>The Job of the staged update, with the signed envelope mounted and its own result.\<close>

definition submissionJob :: "Job \<Rightarrow> string \<Rightarrow> string \<Rightarrow> Script \<Rightarrow> Job" where
  "submissionJob baseJob name resultName script =
     baseJob\<lparr>job_Meta := (job_Meta baseJob)\<lparr>mt_Name := name\<rparr>,
       job_Volumes := job_Volumes baseJob @ [(''signed-update'', ConfigMapVolume name [])],
       job_InitContainers := (case job_InitContainers baseJob of [] \<Rightarrow> []
         | container # rest \<Rightarrow> container\<lparr>ct_VolumeMounts := ct_VolumeMounts container @ [readOnlyMount ''signed-update'' channelSubmissionDir],
             ct_Command := ShellScript script\<rparr> # rest),
       job_Containers := (case job_Containers baseJob of [] \<Rightarrow> []
         | container # rest \<Rightarrow> container\<lparr>ct_Env := map (redirectResult resultName) (ct_Env container)\<rparr> # rest)\<rparr>"

definition submissionInput :: "FabricNetwork \<Rightarrow> Org \<Rightarrow> Channel \<Rightarrow> string \<Rightarrow> string \<Rightarrow> bytes \<Rightarrow> bytes \<Rightarrow> string \<Rightarrow> ConfigMap" where
  "submissionInput net adminOrg channel name namespace stagedUpdate raw staged =
     \<lparr>cm_Meta = channelMeta net adminOrg (ch_Name channel) name namespace, cm_Data = [(''result.json'', staged)],
      cm_BinaryData = [(''staged.pb'', stagedUpdate), (''signed.pb'', raw)], cm_Immutable = False\<rparr>"

text \<open>The name of the submission's result, empty while there is none to wait for, and a message.\<close>

definition runSubmission :: "'s Kube \<Rightarrow> Job \<Rightarrow> string \<Rightarrow> string \<Rightarrow> ('s, string \<times> string) io" where
  "runSubmission api job name resultName =
     ioBind (getConfigMap api (mt_Namespace (job_Meta job)) resultName) (\<lambda>existingResult.
       if existingResult \<noteq> None then ioReturn (resultName, ''Waiting for signed channel update evidence'')
       else ioBind (ensureJob api job) (\<lambda>_.
            ioBind (getJob api (mt_Namespace (job_Meta job)) name) (\<lambda>found.
              case found of
                None \<Rightarrow> ioFail NotFound
              | Some actual \<Rightarrow>
                  ioReturn (resultName, if jobFailed actual then ''Signed channel update Job failed: '' @ name
                                        else ''Waiting for signed channel update Job '' @ name))))"

definition reconcileSignedChannelUpdate ::
  "Crypto \<Rightarrow> 's Kube \<Rightarrow> FabricNetwork \<Rightarrow> Channel \<Rightarrow> Org \<Rightarrow> peerInstance \<Rightarrow> ordererInstance \<Rightarrow> ChannelArtifactKeyRef option \<Rightarrow> Job \<Rightarrow>
   string \<Rightarrow> string \<Rightarrow> string \<Rightarrow> string \<Rightarrow> string \<Rightarrow> bool \<Rightarrow> ('s, string \<times> string) io" where
  "reconcileSignedChannelUpdate cr api net channel adminOrg adminPeer orderer ref baseJob stagedConfigMapName resultKey envelopeKey
     outputFile mspID present =
     ioBind (channelArtifactBytes api (fn_Namespace net) ref) (\<lambda>artifact.
       case artifact of
         Inl message \<Rightarrow> ioReturn ([], message)
       | Inr raw \<Rightarrow>
           ioBind (getConfigMap api (mt_Namespace (job_Meta baseJob)) stagedConfigMapName) (\<lambda>found.
             case found of
               None \<Rightarrow> ioFail NotFound
             | Some staged \<Rightarrow>
                 (let stagedUpdate = go_get (cm_BinaryData staged) envelopeKey;
                      name = submissionJobName cr (mt_Name (job_Meta baseJob)) stagedUpdate raw;
                      resultName = sanitizeName (name @ ''-result'');
                      script = SignedChannelUpdateScript (ch_Name channel) (om_MSPName (org_Organization adminOrg)) mspID (peerAddress adminPeer)
                        (ordererClientAddress orderer) (channelOrgMSPPath adminOrg) (channelOrdererAdminTLSPath adminOrg)
                        (channelOrdererTLSPath (oi_name orderer)) outputFile present
                  in if stagedUpdate = [] then ioReturn ([], ''Waiting for staged config update envelope'')
                     else ioBind (ensureConfigMap api (submissionInput net adminOrg channel name (mt_Namespace (job_Meta baseJob)) stagedUpdate raw
                            (go_get (cm_Data staged) resultKey))) (\<lambda>_.
                          runSubmission api (submissionJob baseJob name resultName script) name resultName))))"

section \<open>External organizations: names and choices\<close>

definition externalOrgConfigVolumeName :: string where "externalOrgConfigVolumeName = ''external-org-config''"
definition channelExternalOrgConfigDir :: string where "channelExternalOrgConfigDir = channelWorkDir @ ''/external-org''"
definition externalOrgApplicationKey :: string where "externalOrgApplicationKey = ''application-org.json''"
definition externalOrgUpdateResultKey :: string where "externalOrgUpdateResultKey = ''external-org.json''"
definition externalOrgUpdateResultFile :: string where "externalOrgUpdateResultFile = ''external-org.json''"
definition externalOrgUpdateArtifactKey :: string where "externalOrgUpdateArtifactKey = ''config-update.pb''"
definition outcomeStaged :: string where "outcomeStaged = ''staged''"
definition outcomeSubmitted :: string where "outcomeSubmitted = ''submitted''"
definition outcomeAlreadyApplied :: string where "outcomeAlreadyApplied = ''alreadyApplied''"

definition externalOrgStateText :: "ChannelExternalOrgState \<Rightarrow> string" where
  "externalOrgStateText st = (case st of ChannelExternalOrgUnset \<Rightarrow> [] | ChannelExternalOrgPresent \<Rightarrow> ''Present'' | ChannelExternalOrgAbsent \<Rightarrow> ''Absent'')"

definition operationSuffix :: "ChannelExternalOrg \<Rightarrow> string" where
  "operationSuffix e = (if trimSpace (eo_OperationID e) = [] then [] else ''-'' @ trimSpace (eo_OperationID e))"

definition channelExternalOrgApplicationConfigMapName :: "string \<Rightarrow> ChannelExternalOrg \<Rightarrow> string" where
  "channelExternalOrgApplicationConfigMapName channelName e = sanitizeName (channelName @ ''-'' @ eo_Name e @ ''-application-org'')"

definition channelExternalOrgUpdateJobName :: "string \<Rightarrow> ChannelExternalOrg \<Rightarrow> string" where
  "channelExternalOrgUpdateJobName channelName e =
     (if channelExternalOrgDesiredState e = ChannelExternalOrgAbsent
      then sanitizeName (channelName @ ''-'' @ eo_Name e @ ''-external-org-remove'' @ operationSuffix e)
      else sanitizeName (channelName @ ''-'' @ eo_Name e @ ''-external-org-update'' @ operationSuffix e))"

definition channelExternalOrgUpdateResultConfigMapName :: "string \<Rightarrow> ChannelExternalOrg \<Rightarrow> string" where
  "channelExternalOrgUpdateResultConfigMapName channelName e = sanitizeName (channelExternalOrgUpdateJobName channelName e @ ''-result'')"

definition externalOrgUpdateFileName :: "string \<Rightarrow> ChannelExternalOrg \<Rightarrow> string" where
  "externalOrgUpdateFileName channelName e =
     (if channelExternalOrgDesiredState e = ChannelExternalOrgAbsent
      then sanitizeName (eo_MSPID e @ ''-'' @ channelName @ ''-org-remove'' @ operationSuffix e) @ ''.tx''
      else sanitizeName (eo_MSPID e @ ''-'' @ channelName @ ''-org-update'' @ operationSuffix e) @ ''.tx'')"

definition externalOrgUpdateFilePath :: "string \<Rightarrow> ChannelExternalOrg \<Rightarrow> string" where
  "externalOrgUpdateFilePath channelName e = channelOutputDir @ ''/'' @ externalOrgUpdateFileName channelName e"

definition channelExternalOrgApplicationFilePath :: string where
  "channelExternalOrgApplicationFilePath = channelExternalOrgConfigDir @ ''/'' @ externalOrgApplicationKey"

definition externalOrgRequiredSignerMSPIDs :: "ChannelExternalOrg \<Rightarrow> string list" where
  "externalOrgRequiredSignerMSPIDs e = uniqueTrimmedFrom {} (eo_RequiredSignerMSPIDs e)"

definition externalOrgManualSignatureMSPIDs :: "Org \<Rightarrow> ChannelExternalOrg \<Rightarrow> string list" where
  "externalOrgManualSignatureMSPIDs adminOrg e =
     (let requiredSigners = externalOrgRequiredSignerMSPIDs e
      in if requiredSigners = [trimSpace (om_MSPName (org_Organization adminOrg))] then [] else requiredSigners)"

definition channelExternalOrgAdminPeer :: "FabricNetwork \<Rightarrow> Channel \<Rightarrow> ChannelExternalOrg \<Rightarrow> (Org \<times> peerInstance) option" where
  "channelExternalOrgAdminPeer net channel e =
     (let given = trimSpace (eo_AdminOrg e);
          adminOrgName = (if given = [] then (case ch_Orgs channel of [] \<Rightarrow> [] | o1 # _ \<Rightarrow> co_Name o1) else given)
      in case map_of (orgsByName net) adminOrgName of
           None \<Rightarrow> None
         | Some adminOrg \<Rightarrow>
             (case List.find (\<lambda>o1. co_Name o1 = adminOrgName \<and> co_Peers o1 \<noteq> []) (ch_Orgs channel) of
                None \<Rightarrow> None
              | Some channelOrg \<Rightarrow>
                  Some (adminOrg, \<lparr>pi_org = adminOrg, pi_name = sanitizeName (hd (co_Peers channelOrg)),
                    pi_namespace = orgNamespaceName net adminOrg\<rparr>)))"

definition channelExternalOrgOrderer :: "FabricNetwork \<Rightarrow> ChannelExternalOrg \<Rightarrow> ordererInstance option" where
  "channelExternalOrgOrderer net e =
     (case eo_Orderer e of
        None \<Rightarrow> (case desiredOrdererInstances net of [] \<Rightarrow> None | orderer # _ \<Rightarrow> Some orderer)
      | Some r \<Rightarrow>
          List.find (\<lambda>orderer.
            \<not> (trimSpace (or_Org r) \<noteq> [] \<and> or_Org r \<noteq> om_Name (org_Organization (oi_org orderer))) \<and>
            \<not> (trimSpace (or_Name r) \<noteq> [] \<and> or_Name r \<noteq> oi_name orderer)) (desiredOrdererInstances net))"

definition channelExternalOrgStatus ::
  "Channel \<Rightarrow> ChannelExternalOrg \<Rightarrow> Org option \<Rightarrow> ordererInstance option \<Rightarrow> string \<Rightarrow> ChannelExternalOrgStatus" where
  "channelExternalOrgStatus channel e adminOrg orderer message =
     (let desiredState = channelExternalOrgDesiredState e
      in \<lparr>eos_Name = eo_Name e, eos_MSPID = eo_MSPID e, eos_DesiredState = desiredState,
          eos_OperationID = trimSpace (eo_OperationID e), eos_Phase = ChannelConfigUpdatePending,
          eos_ApplicationOrgConfigMapName = (if desiredState = ChannelExternalOrgPresent
            then channelExternalOrgApplicationConfigMapName (ch_Name channel) e else []),
          eos_ArtifactConfigMapName = channelExternalOrgUpdateResultConfigMapName (ch_Name channel) e,
          eos_UpdateJobName = channelExternalOrgUpdateJobName (ch_Name channel) e,
          eos_AdminOrg = (case adminOrg of None \<Rightarrow> [] | Some org \<Rightarrow> om_Name (org_Organization org)),
          eos_Orderer = (case orderer of None \<Rightarrow> []
            | Some o1 \<Rightarrow> if oi_name o1 \<noteq> [] then om_Name (org_Organization (oi_org o1)) @ ''/'' @ oi_name o1 else []),
          eos_RequiredSignerMSPIDs = externalOrgRequiredSignerMSPIDs e, eos_AnchorPeers = eo_AnchorPeers e,
          eos_Ready = False, eos_Message = message\<rparr>)"

definition channelExternalOrgStatuses :: "Channel \<Rightarrow> string \<Rightarrow> ChannelExternalOrgStatus list" where
  "channelExternalOrgStatuses channel message = map (\<lambda>e. channelExternalOrgStatus channel e None None message) (ch_ExternalOrgs channel)"

definition channelExternalOrgsReady :: "ChannelExternalOrgStatus list \<Rightarrow> bool" where
  "channelExternalOrgsReady statuses = list_all eos_Ready statuses"

section \<open>External organizations: the application definition\<close>

record applicationOrgGroupJSON =
  ag_Name :: string
  ag_TLSRootCerts :: "string list"
  ag_AnchorPeers :: "ChannelExternalAnchorPeer list option"

definition decodeApplicationOrg :: "json \<Rightarrow> applicationOrgGroupJSON option" where
  "decodeApplicationOrg j = do {
     grp \<leftarrow> jstruct j; vals \<leftarrow> jstruct (jmember ''values'' grp);
     msp \<leftarrow> jstruct (jmember ''MSP'' vals); val \<leftarrow> jstruct (jmember ''value'' msp); config \<leftarrow> jstruct (jmember ''config'' val);
     name \<leftarrow> jstring (jmember ''name'' config);
     certs \<leftarrow> jslice (jmember ''tls_root_certs'' config); roots \<leftarrow> mapM_option jstring certs;
     anchors \<leftarrow> (case jmember ''AnchorPeers'' vals of
        JNull \<Rightarrow> Some None
      | a \<Rightarrow> do { ap \<leftarrow> jstruct a; av \<leftarrow> jstruct (jmember ''value'' ap);
                 peers \<leftarrow> decodeAnchorPeers (jmember ''anchor_peers'' av); Some (Some peers) });
     Some \<lparr>ag_Name = name, ag_TLSRootCerts = roots, ag_AnchorPeers = anchors\<rparr> }"

definition parseApplicationOrgJSON :: "bytes \<Rightarrow> string + (string \<times> ChannelExternalAnchorPeer list)" where
  "parseApplicationOrgJSON raw =
     (case Option.bind (jsonParse raw) decodeApplicationOrg of
        None \<Rightarrow> Inl ''json: cannot unmarshal''
      | Some grp \<Rightarrow>
          (let mspID = trimSpace (ag_Name grp)
           in if mspID = [] then Inl ''missing values.MSP.value.config.name''
              else Inr (mspID, case ag_AnchorPeers grp of None \<Rightarrow> [] | Some peers \<Rightarrow> peers)))"

fun firstRootCA :: "Crypto \<Rightarrow> string list \<Rightarrow> string + bytes" where
  "firstRootCA cr [] = Inr []"
| "firstRootCA cr (encoded # rest) =
     (if trimSpace encoded = [] then firstRootCA cr rest
      else case base64_Decode cr (trimSpace encoded) of
             None \<Rightarrow> Inl ''illegal base64 data''
           | Some decoded \<Rightarrow> if decoded \<noteq> [] then Inr decoded else firstRootCA cr rest)"

definition applicationOrgTLSRootCA :: "Crypto \<Rightarrow> bytes \<Rightarrow> string + bytes" where
  "applicationOrgTLSRootCA cr raw =
     (case Option.bind (jsonParse raw) decodeApplicationOrg of
        None \<Rightarrow> Inl ''json: cannot unmarshal''
      | Some grp \<Rightarrow> firstRootCA cr (ag_TLSRootCerts grp))"

definition externalAnchorPeersEqual :: "ChannelExternalAnchorPeer list \<Rightarrow> ChannelExternalAnchorPeer list \<Rightarrow> bool" where
  "externalAnchorPeersEqual expected actual \<longleftrightarrow> expected = actual"

text \<open>The definition's text, or the message that says what is wrong with it.\<close>

definition checkApplicationOrg :: "ChannelExternalOrg \<Rightarrow> bytes \<Rightarrow> string + string" where
  "checkApplicationOrg e raw =
     (if \<not> jsonValid raw then Inl ''applicationOrgRef contains invalid JSON''
      else case parseApplicationOrgJSON raw of
             Inl err \<Rightarrow> Inl (''applicationOrgRef is not a Fabric Application org JSON: '' @ err)
           | Inr (mspID, anchorPeers) \<Rightarrow>
               if mspID \<noteq> eo_MSPID e
               then Inl (''applicationOrgRef MSP ID '' @ goquote mspID @ '' does not match '' @ goquote (eo_MSPID e))
               else if eo_AnchorPeers e \<noteq> [] \<and> \<not> externalAnchorPeersEqual (eo_AnchorPeers e) anchorPeers
               then Inl ''applicationOrgRef anchor peers do not match spec anchorPeers''
               else Inr raw)"

definition externalOrgApplicationOrgJSON :: "'s Kube \<Rightarrow> string \<Rightarrow> ChannelExternalOrg \<Rightarrow> ('s, string + string) io" where
  "externalOrgApplicationOrgJSON api namespace e =
     (if channelExternalOrgDesiredState e = ChannelExternalOrgAbsent then ioReturn (Inr [])
      else ioBind (channelArtifactBytes api namespace (Some (eo_ApplicationOrgRef e))) (\<lambda>artifact.
             ioReturn (case artifact of Inl message \<Rightarrow> Inl message | Inr raw \<Rightarrow> checkApplicationOrg e raw)))"

definition ensureExternalOrgUpdateInputs ::
  "'s Kube \<Rightarrow> FabricNetwork \<Rightarrow> Channel \<Rightarrow> Org \<Rightarrow> string \<Rightarrow> ordererInstance \<Rightarrow> ChannelExternalOrg \<Rightarrow> string \<Rightarrow> ('s, unit) io" where
  "ensureExternalOrgUpdateInputs api net channel adminOrg namespace orderer e applicationOrgJSON =
     ioBind (ensureCopiedSecret api (oi_namespace orderer, identitySecretName (oi_name orderer) secretKindTLS) namespace
       (channelOrdererTLSSecretName (ch_Name channel) (oi_name orderer)) (channelLabels net adminOrg (ch_Name channel))
       (resourceAnnotations net adminOrg)) (\<lambda>_.
       if channelExternalOrgDesiredState e = ChannelExternalOrgAbsent then ioReturn ()
       else ensureConfigMap api \<lparr>cm_Meta = channelMeta net adminOrg (ch_Name channel)
              (channelExternalOrgApplicationConfigMapName (ch_Name channel) e) namespace,
              cm_Data = [(externalOrgApplicationKey, applicationOrgJSON)], cm_BinaryData = [], cm_Immutable = False\<rparr>)"

section \<open>External organizations: evidence\<close>

record externalOrgUpdateEvidence =
  xe_Channel :: string
  xe_MSPID :: string
  xe_State :: string
  xe_OperationID :: string
  xe_Outcome :: string
  xe_AnchorPeers :: "ChannelExternalAnchorPeer list"

definition decodeExternalOrgEvidence :: "json \<Rightarrow> externalOrgUpdateEvidence option" where
  "decodeExternalOrgEvidence j = do {
     kvs \<leftarrow> jstruct j; channel \<leftarrow> jstring (jmember ''channel'' kvs); msp \<leftarrow> jstring (jmember ''mspID'' kvs);
     st \<leftarrow> jstring (jmember ''state'' kvs); operation \<leftarrow> jstring (jmember ''operationID'' kvs);
     outcome \<leftarrow> jstring (jmember ''outcome'' kvs); anchors \<leftarrow> decodeAnchorPeers (jmember ''anchorPeers'' kvs);
     Some \<lparr>xe_Channel = channel, xe_MSPID = msp, xe_State = st, xe_OperationID = operation, xe_Outcome = outcome, xe_AnchorPeers = anchors\<rparr> }"

text \<open>Evidence that is about this channel, organization, state and operation; otherwise what is waited for.\<close>

definition checkExternalOrgEvidence :: "string \<Rightarrow> ChannelExternalOrg \<Rightarrow> ConfigMap option \<Rightarrow> string + externalOrgUpdateEvidence" where
  "checkExternalOrgEvidence channelName e found =
     (case found of
        None \<Rightarrow> Inl []
      | Some result \<Rightarrow>
          (let raw = trimSpace (go_get (cm_Data result) externalOrgUpdateResultKey);
               other = ''Waiting for '' @ eo_Name e @ '' external org update result for channel '' @ channelName;
               desiredState = channelExternalOrgDesiredState e
           in if raw = [] then Inl (''Waiting for '' @ eo_Name e @ '' external org update result ConfigMap data'')
              else case Option.bind (jsonParse (jsonPayload raw)) decodeExternalOrgEvidence of
                     None \<Rightarrow> Inl other
                   | Some ev \<Rightarrow>
                       if xe_Channel ev \<noteq> channelName \<or> xe_MSPID ev \<noteq> eo_MSPID e then Inl other
                       else (let ev1 = ev\<lparr>xe_State := (if xe_State ev = [] then ''Present'' else xe_State ev)\<rparr>
                             in if xe_State ev1 \<noteq> externalOrgStateText desiredState
                                then Inl (''Waiting for '' @ eo_Name e @ '' external org update result state '' @ externalOrgStateText desiredState)
                                else if xe_OperationID ev1 \<noteq> trimSpace (eo_OperationID e)
                                then Inl (''Waiting for '' @ eo_Name e @ '' external org update operation '' @ eo_OperationID e)
                                else if desiredState = ChannelExternalOrgPresent \<and> eo_AnchorPeers e \<noteq> [] \<and>
                                        \<not> externalAnchorPeersEqual (eo_AnchorPeers e) (xe_AnchorPeers ev1)
                                then Inl other
                                else Inr (ev1\<lparr>xe_Outcome := (if xe_Outcome ev1 = [] then outcomeSubmitted else xe_Outcome ev1)\<rparr>))))"

definition externalOrgUpdateEvidenceNamed ::
  "'s Kube \<Rightarrow> string \<Rightarrow> string \<Rightarrow> ChannelExternalOrg \<Rightarrow> string \<Rightarrow> ('s, string + externalOrgUpdateEvidence) io" where
  "externalOrgUpdateEvidenceNamed api namespace channelName e name =
     ioBind (getConfigMap api namespace name) (\<lambda>found. ioReturn (checkExternalOrgEvidence channelName e found))"

definition externalOrgEvidence ::
  "'s Kube \<Rightarrow> string \<Rightarrow> string \<Rightarrow> ChannelExternalOrg \<Rightarrow> ('s, string + externalOrgUpdateEvidence) io" where
  "externalOrgEvidence api namespace channelName e =
     externalOrgUpdateEvidenceNamed api namespace channelName e (channelExternalOrgUpdateResultConfigMapName channelName e)"

definition externalOrgJobVerdict :: "ChannelExternalOrg \<Rightarrow> bool \<Rightarrow> Job option \<Rightarrow> ChannelConfigUpdatePhase \<times> string" where
  "externalOrgJobVerdict e submit found =
     (case found of
        None \<Rightarrow> (ChannelConfigUpdatePending, [])
      | Some job \<Rightarrow>
          if jobFailed job then (ChannelConfigUpdateFailed, eo_Name e @ '': external org channel update Job failed'')
          else if jobSucceeded job
          then (if succeededJobCleanupEligible job
                then (ChannelConfigUpdatePending, ''Waiting for external org channel update artifact ConfigMap'')
                else (if submit then ChannelConfigUpdateSubmitted else ChannelConfigUpdateStaged, []))
          else (ChannelConfigUpdatePending, []))"

definition externalOrgUpdateReadiness ::
  "'s Kube \<Rightarrow> string \<Rightarrow> string \<Rightarrow> ChannelExternalOrg \<Rightarrow> bool \<Rightarrow> ('s, ChannelConfigUpdatePhase \<times> string) io" where
  "externalOrgUpdateReadiness api namespace channelName e submit =
     ioBind (getJob api namespace (channelExternalOrgUpdateJobName channelName e)) (\<lambda>found. ioReturn (externalOrgJobVerdict e submit found))"

section \<open>External organizations: the Job\<close>

definition publishExternalOrgUpdateResultEnv :: "string \<Rightarrow> ChannelExternalOrg \<Rightarrow> (string \<times> EnvSource) list" where
  "publishExternalOrgUpdateResultEnv channelName e = [
     (''FABRICOPS_EXTERNAL_ORG_RESULT_CONFIGMAP'', EnvValue (channelExternalOrgUpdateResultConfigMapName channelName e)),
     (''FABRICOPS_EXTERNAL_ORG_RESULT_KEY'', EnvValue externalOrgUpdateResultKey),
     (''FABRICOPS_EXTERNAL_ORG_RESULT_FILE'', EnvValue externalOrgUpdateResultFile),
     (''FABRICOPS_EXTERNAL_ORG_UPDATE_KEY'', EnvValue externalOrgUpdateArtifactKey),
     (''FABRICOPS_EXTERNAL_ORG_UPDATE_FILE'', EnvValue (externalOrgUpdateFileName channelName e)),
     (''FABRICOPS_EXTERNAL_ORG_RESULT_CHANNEL'', EnvValue (sanitizeName channelName)),
     (''FABRICOPS_EXTERNAL_ORG_RESULT_ORG'', EnvValue (sanitizeName (eo_Name e))), podNamespaceEnv]"

definition buildExternalOrgUpdateJob ::
  "FabricNetwork \<Rightarrow> Channel \<Rightarrow> Org \<Rightarrow> string \<Rightarrow> peerInstance \<Rightarrow> ordererInstance \<Rightarrow> ChannelExternalOrg \<Rightarrow> bool \<Rightarrow> Job" where
  "buildExternalOrgUpdateJob net channel adminOrg namespace adminPeer orderer e submit =
     (let name = ch_Name channel;
          present = (channelExternalOrgDesiredState e = ChannelExternalOrgPresent);
          applicationOrgPath = (if present then channelExternalOrgApplicationFilePath else []);
          volumes = [(channelOutputVolumeName, EmptyDir)] @ adminVolumes net adminOrg @ [ordererTLSVolume name orderer] @
            (if present then [(externalOrgConfigVolumeName, ConfigMapVolume (channelExternalOrgApplicationConfigMapName name e)
               [(externalOrgApplicationKey, externalOrgApplicationKey)])] else []);
          mounts = [outputMount] @ adminMounts adminOrg @ [ordererTLSMount orderer] @
            (if present then [readOnlyMount externalOrgConfigVolumeName channelExternalOrgConfigDir] else [])
      in channelJob net adminOrg name (channelExternalOrgUpdateJobName name e) namespace (instanceLabels net adminOrg name (sanitizeName (eo_Name e)))
           volumes
           (shellContainer ''add-external-org'' (fabricToolsImage (sp_Global (fn_Spec net)))
             (AddExternalOrgScript name (om_MSPName (org_Organization adminOrg)) (eo_MSPID e) (peerAddress adminPeer) (ordererClientAddress orderer)
               (channelOrgMSPPath adminOrg) (channelOrdererAdminTLSPath adminOrg) (channelOrdererTLSPath (oi_name orderer)) applicationOrgPath
               (externalOrgUpdateFilePath name e) (channelExternalOrgDesiredState e) (trimSpace (eo_OperationID e)) submit) []
             (componentResourceRequirements ''fabric-cli'') mounts)
           (publishContainer ''publish-external-org-update'' PublishExternalOrgUpdateResultScript (publishExternalOrgUpdateResultEnv name e)))"

section \<open>External organizations: reconciliation\<close>

definition submittedOutcome :: "string \<Rightarrow> bool" where
  "submittedOutcome outcome \<longleftrightarrow> outcome = outcomeSubmitted \<or> outcome = outcomeAlreadyApplied"

text \<open>A staged update for which a signed envelope is referenced.\<close>

definition submitExternalOrg ::
  "Crypto \<Rightarrow> 's Kube \<Rightarrow> FabricNetwork \<Rightarrow> Channel \<Rightarrow> ChannelExternalOrg \<Rightarrow> Org \<Rightarrow> peerInstance \<Rightarrow> ordererInstance \<Rightarrow>
   ChannelExternalOrgStatus \<Rightarrow> ('s, ChannelExternalOrgStatus) io" where
  "submitExternalOrg cr api net channel e adminOrg adminPeer orderer status =
     (let namespace = orgNamespaceName net adminOrg in
      ioBind (reconcileSignedChannelUpdate cr api net channel adminOrg adminPeer orderer (eo_SignedUpdateRef e)
        (buildExternalOrgUpdateJob net channel adminOrg namespace adminPeer orderer e False)
        (eos_ArtifactConfigMapName status) externalOrgUpdateResultKey externalOrgUpdateArtifactKey
        (externalOrgUpdateFileName (ch_Name channel) e) (eo_MSPID e) (channelExternalOrgDesiredState e = ChannelExternalOrgPresent))
      (\<lambda>(resultName, message).
        (let status1 = status\<lparr>eos_Message := message\<rparr> in
         if resultName = [] then ioReturn status1
         else ioBind (externalOrgUpdateEvidenceNamed api namespace (ch_Name channel) e resultName) (\<lambda>submitted.
              (let jobName = trimSuffix resultName ''-result''; status2 = status1\<lparr>eos_UpdateJobName := jobName\<rparr> in
               ioBind (getJob api namespace jobName) (\<lambda>job.
                 (let failed = (case job of None \<Rightarrow> False | Some j \<Rightarrow> jobFailed j);
                      status3 = (if failed then status2\<lparr>eos_Phase := ChannelConfigUpdateFailed\<rparr> else status2);
                      accepted = (case submitted of Inl _ \<Rightarrow> False | Inr ev \<Rightarrow> submittedOutcome (xe_Outcome ev))
                  in ioReturn (if accepted
                       then status3\<lparr>eos_Phase := ChannelConfigUpdateSubmitted, eos_ArtifactConfigMapName := resultName, eos_Ready := True,
                              eos_Message := []\<rparr>
                       else status3))))))))"

definition externalOrgFromEvidence ::
  "Crypto \<Rightarrow> 's Kube \<Rightarrow> FabricNetwork \<Rightarrow> Channel \<Rightarrow> ChannelExternalOrg \<Rightarrow> Org \<Rightarrow> peerInstance \<Rightarrow> ordererInstance \<Rightarrow>
   externalOrgUpdateEvidence \<Rightarrow> ChannelExternalOrgStatus \<Rightarrow> ('s, ChannelExternalOrgStatus) io" where
  "externalOrgFromEvidence cr api net channel e adminOrg adminPeer orderer ev status =
     (if xe_Outcome ev = outcomeAlreadyApplied
      then ioReturn (status\<lparr>eos_Phase := ChannelConfigUpdateAlreadyApplied, eos_Ready := True\<rparr>)
      else if xe_Outcome ev = outcomeSubmitted
      then ioReturn (status\<lparr>eos_Phase := ChannelConfigUpdateSubmitted, eos_Ready := True\<rparr>)
      else if xe_Outcome ev = outcomeStaged
      then (let status1 = status\<lparr>eos_Phase := ChannelConfigUpdatePendingSignatures\<rparr> in
            if eo_SignedUpdateRef e \<noteq> None then submitExternalOrg cr api net channel e adminOrg adminPeer orderer status1
            else ioReturn (status1\<lparr>eos_Message := eo_Name e @ '': Waiting for manual channel config update signatures from '' @
                   joinWith '', '' (externalOrgManualSignatureMSPIDs adminOrg e) @ ''; unsigned update is stored in ConfigMap '' @
                   orgNamespaceName net adminOrg @ ''/'' @ eos_ArtifactConfigMapName status\<rparr>))
      else ioReturn status)"

text \<open>No evidence yet: check the definition, prepare the inputs and run the Job, which submits when no one else has to sign.\<close>

definition runExternalOrgUpdate ::
  "'s Kube \<Rightarrow> FabricNetwork \<Rightarrow> Channel \<Rightarrow> ChannelExternalOrg \<Rightarrow> Org \<Rightarrow> peerInstance \<Rightarrow> ordererInstance \<Rightarrow>
   ChannelExternalOrgStatus \<Rightarrow> ('s, ChannelExternalOrgStatus) io" where
  "runExternalOrgUpdate api net channel e adminOrg adminPeer orderer status =
     (let namespace = orgNamespaceName net adminOrg; submit = (externalOrgManualSignatureMSPIDs adminOrg e = []) in
      ioBind (externalOrgApplicationOrgJSON api (fn_Namespace net) e) (\<lambda>artifact.
        case artifact of
          Inl artifactMessage \<Rightarrow>
            ioReturn (status\<lparr>eos_Message := eo_Name e @ '': '' @ artifactMessage\<rparr>)
        | Inr applicationOrgJSON \<Rightarrow>
            ioBind (ensureChannelRBAC api net adminOrg (ch_Name channel) namespace) (\<lambda>_.
            ioBind (ensureExternalOrgUpdateInputs api net channel adminOrg namespace orderer e applicationOrgJSON) (\<lambda>_.
            ioBind (ensureJob api (buildExternalOrgUpdateJob net channel adminOrg namespace adminPeer orderer e submit)) (\<lambda>_.
            ioBind (externalOrgUpdateReadiness api namespace (ch_Name channel) e submit) (\<lambda>(phase, message).
              ioReturn (let status1 = status\<lparr>eos_Phase := phase\<rparr> in
                if message \<noteq> [] then status1\<lparr>eos_Message := message\<rparr>
                else if submit then status1\<lparr>eos_Message := eo_Name e @ '': Waiting for external org channel update Job''\<rparr>
                else status1\<lparr>eos_Phase := ChannelConfigUpdateStaged,
                       eos_Message := eo_Name e @ '': Waiting for external org channel update staging Job''\<rparr>)))))))"

definition reconcileExternalOrgUpdate ::
  "Crypto \<Rightarrow> 's Kube \<Rightarrow> FabricNetwork \<Rightarrow> Channel \<Rightarrow> ChannelExternalOrg \<Rightarrow> ('s, ChannelExternalOrgStatus) io" where
  "reconcileExternalOrgUpdate cr api net channel e =
     (case channelExternalOrgAdminPeer net channel e of
        None \<Rightarrow> ioReturn (channelExternalOrgStatus channel e None None ''Waiting for a local founder admin org'')
      | Some (adminOrg, adminPeer) \<Rightarrow>
          (case channelExternalOrgOrderer net e of
             None \<Rightarrow> ioReturn (channelExternalOrgStatus channel e (Some adminOrg) None ''Waiting for a local orderer'')
           | Some orderer \<Rightarrow>
               (let namespace = orgNamespaceName net adminOrg;
                    status = channelExternalOrgStatus channel e (Some adminOrg) (Some orderer) []
                in ioBind (externalOrgEvidence api namespace (ch_Name channel) e) (\<lambda>evidence.
                     case evidence of
                       Inr ev \<Rightarrow> externalOrgFromEvidence cr api net channel e adminOrg adminPeer orderer ev status
                     | Inl evidenceMessage \<Rightarrow>
                         if evidenceMessage \<noteq> [] then ioReturn (status\<lparr>eos_Message := evidenceMessage\<rparr>)
                         else runExternalOrgUpdate api net channel e adminOrg adminPeer orderer status))))"

fun externalOrgLoop ::
  "Crypto \<Rightarrow> 's Kube \<Rightarrow> FabricNetwork \<Rightarrow> Channel \<Rightarrow> bool \<Rightarrow> string \<Rightarrow> ChannelExternalOrgStatus list \<Rightarrow> ChannelExternalOrg list \<Rightarrow>
   ('s, string \<times> ChannelExternalOrgStatus list) io" where
  "externalOrgLoop cr api net channel allReady pending statuses [] =
     ioReturn (if allReady then [] else if pending \<noteq> [] then pending else ''Waiting for external org channel update Jobs'', statuses)"
| "externalOrgLoop cr api net channel allReady pending statuses (e # es) =
     ioBind (reconcileExternalOrgUpdate cr api net channel e) (\<lambda>status.
       externalOrgLoop cr api net channel (allReady \<and> eos_Ready status)
         (if \<not> eos_Ready status \<and> pending = [] then eos_Message status else pending) (statuses @ [status]) es)"

definition reconcileExternalOrgUpdates ::
  "Crypto \<Rightarrow> 's Kube \<Rightarrow> FabricNetwork \<Rightarrow> Channel \<Rightarrow> ('s, string \<times> ChannelExternalOrgStatus list) io" where
  "reconcileExternalOrgUpdates cr api net channel =
     (if ch_ExternalOrgs channel = [] then ioReturn ([], [])
      else externalOrgLoop cr api net channel True [] [] (ch_ExternalOrgs channel))"

end
