(* ===== verification/Local_Orgs.thy ===== *)
theory Local_Orgs
  imports Config_Updates
begin

text \<open>
  \<^verbatim>\<open>fabricnetwork_local_org.go\<close>: organizations of the network that are added to a channel which other
  organizations already run. An organization counts as a member when the anchor peer of one of its
  peers has been set; the first such peer administers the additions of the others.
\<close>

section \<open>Names and the Job\<close>

definition localOrgAddResultKey :: string where "localOrgAddResultKey = ''local-org.json''"
definition localOrgAddResultFile :: string where "localOrgAddResultFile = ''local-org.json''"
definition localOrgAddUpdateArtifactKey :: string where "localOrgAddUpdateArtifactKey = ''config-update.pb''"
definition localOrgAddBlockArtifactKey :: string where "localOrgAddBlockArtifactKey = ''channel-block.pb''"
definition localOrgAddUpdateFile :: string where "localOrgAddUpdateFile = ''config-update.pb''"
definition localOrgAddBlockFile :: string where "localOrgAddBlockFile = ''channel-block.pb''"

definition channelLocalOrgAddJobName :: "string \<Rightarrow> Org \<Rightarrow> string" where
  "channelLocalOrgAddJobName channelName org = sanitizeName (channelName @ ''-'' @ om_Name (org_Organization org) @ ''-local-org-add'')"

definition channelLocalOrgAddResultConfigMapName :: "string \<Rightarrow> Org \<Rightarrow> string" where
  "channelLocalOrgAddResultConfigMapName channelName org = sanitizeName (channelLocalOrgAddJobName channelName org @ ''-result'')"

definition publishLocalOrgAddResultEnv :: "string \<Rightarrow> Org \<Rightarrow> (string \<times> EnvSource) list" where
  "publishLocalOrgAddResultEnv channelName joiningOrg = [
     (''FABRICOPS_LOCAL_ORG_RESULT_CONFIGMAP'', EnvValue (channelLocalOrgAddResultConfigMapName channelName joiningOrg)),
     (''FABRICOPS_LOCAL_ORG_RESULT_KEY'', EnvValue localOrgAddResultKey),
     (''FABRICOPS_LOCAL_ORG_RESULT_FILE'', EnvValue localOrgAddResultFile),
     (''FABRICOPS_LOCAL_ORG_UPDATE_KEY'', EnvValue localOrgAddUpdateArtifactKey),
     (''FABRICOPS_LOCAL_ORG_UPDATE_FILE'', EnvValue localOrgAddUpdateFile),
     (''FABRICOPS_LOCAL_ORG_BLOCK_KEY'', EnvValue localOrgAddBlockArtifactKey),
     (''FABRICOPS_LOCAL_ORG_BLOCK_FILE'', EnvValue localOrgAddBlockFile),
     (''FABRICOPS_LOCAL_ORG_RESULT_CHANNEL'', EnvValue (sanitizeName channelName)),
     (''FABRICOPS_LOCAL_ORG_RESULT_ORG'', EnvValue (sanitizeName (om_Name (org_Organization joiningOrg)))), podNamespaceEnv]"

definition buildLocalOrgAddJob ::
  "FabricNetwork \<Rightarrow> Channel \<Rightarrow> Org \<Rightarrow> string \<Rightarrow> peerInstance \<Rightarrow> ordererInstance \<Rightarrow> Org \<Rightarrow> Job" where
  "buildLocalOrgAddJob net channel adminOrg namespace adminPeer orderer joiningOrg =
     (let name = ch_Name channel;
          others = filter (\<lambda>org. channelOrgMSPVolumeName org \<noteq> channelOrgMSPVolumeName adminOrg) (channelConfigOrganizations net channel);
          volumes = [(channelOutputVolumeName, EmptyDir), (channelConfigVolumeName, ConfigMapVolume (channelConfigMapName name) [])] @
            adminVolumes net adminOrg @ [ordererTLSVolume name orderer] @ orgMSPVolumes net name others @ ordererMSPVolumes net name;
          mounts = [outputMount, readOnlyMount channelConfigVolumeName channelConfigDir] @ adminMounts adminOrg @ [ordererTLSMount orderer] @
            map (\<lambda>org. readOnlyMount (channelOrgMSPVolumeName org) (channelOrgMSPPath org)) others @ ordererMSPMounts net
      in channelJob net adminOrg name (channelLocalOrgAddJobName name joiningOrg) namespace
           (instanceLabels net adminOrg name (sanitizeName (om_Name (org_Organization joiningOrg)))) volumes
           (shellContainer ''add-local-org'' (fabricToolsImage (sp_Global (fn_Spec net)))
             (AddLocalOrgScript name (om_MSPName (org_Organization adminOrg)) (om_MSPName (org_Organization joiningOrg)) (peerAddress adminPeer)
               (ordererClientAddress orderer) (channelOrgMSPPath adminOrg) (channelOrdererAdminTLSPath adminOrg)
               (channelOrdererTLSPath (oi_name orderer))) []
             (componentResourceRequirements ''fabric-cli'') mounts)
           (publishContainer ''publish-local-org-update'' PublishLocalOrgAddResultScript (publishLocalOrgAddResultEnv name joiningOrg)))"

section \<open>Evidence\<close>

record localOrgAddEvidence =
  le_Channel :: string
  le_MSPID :: string
  le_Outcome :: string
  le_ChannelBlock :: bytes

definition decodeLocalOrgEvidence :: "bytes \<Rightarrow> json \<Rightarrow> localOrgAddEvidence option" where
  "decodeLocalOrgEvidence block j = do {
     kvs \<leftarrow> jstruct j; channel \<leftarrow> jstring (jmember ''channel'' kvs); msp \<leftarrow> jstring (jmember ''mspID'' kvs);
     outcome \<leftarrow> jstring (jmember ''outcome'' kvs);
     Some \<lparr>le_Channel = channel, le_MSPID = msp, le_Outcome = outcome, le_ChannelBlock = block\<rparr> }"

definition checkLocalOrgEvidence :: "string \<Rightarrow> Org \<Rightarrow> ConfigMap option \<Rightarrow> string + localOrgAddEvidence" where
  "checkLocalOrgEvidence channelName joiningOrg found =
     (case found of
        None \<Rightarrow> Inl []
      | Some result \<Rightarrow>
          (let name = om_Name (org_Organization joiningOrg);
               raw = trimSpace (go_get (cm_Data result) localOrgAddResultKey);
               block = go_get (cm_BinaryData result) localOrgAddBlockArtifactKey;
               other = ''Waiting for '' @ name @ '' local org update result for channel '' @ channelName
           in if raw = [] then Inl (''Waiting for '' @ name @ '' local org update result ConfigMap data'')
              else case Option.bind (jsonParse (jsonPayload raw)) (decodeLocalOrgEvidence block) of
                     None \<Rightarrow> Inl other
                   | Some ev \<Rightarrow>
                       if le_Channel ev \<noteq> channelName \<or> le_MSPID ev \<noteq> om_MSPName (org_Organization joiningOrg) then Inl other
                       else if \<not> submittedOutcome (le_Outcome ev) \<and> le_Outcome ev \<noteq> outcomeStaged
                       then Inl (''Waiting for '' @ name @ '' local org update result'')
                       else if le_ChannelBlock ev = [] then Inl (''Waiting for '' @ name @ '' refreshed channel block'')
                       else Inr ev))"

definition localOrgAddEvidenceNamed :: "'s Kube \<Rightarrow> string \<Rightarrow> string \<Rightarrow> Org \<Rightarrow> string \<Rightarrow> ('s, string + localOrgAddEvidence) io" where
  "localOrgAddEvidenceNamed api namespace channelName joiningOrg name =
     ioBind (getConfigMap api namespace name) (\<lambda>found. ioReturn (checkLocalOrgEvidence channelName joiningOrg found))"

definition localOrgEvidence :: "'s Kube \<Rightarrow> string \<Rightarrow> string \<Rightarrow> Org \<Rightarrow> ('s, string + localOrgAddEvidence) io" where
  "localOrgEvidence api namespace channelName joiningOrg =
     localOrgAddEvidenceNamed api namespace channelName joiningOrg (channelLocalOrgAddResultConfigMapName channelName joiningOrg)"

definition localOrgJobMessage :: "Org \<Rightarrow> Job option \<Rightarrow> string" where
  "localOrgJobMessage joiningOrg found =
     (let name = om_Name (org_Organization joiningOrg)
      in case found of
           None \<Rightarrow> ''Waiting for local org channel update Job''
         | Some job \<Rightarrow>
             if jobFailed job then name @ '': local org channel update Job failed''
             else if jobSucceeded job then ''Waiting for '' @ name @ '' local org update result ConfigMap''
             else ''Waiting for '' @ name @ '' local org channel update Job'')"

definition localOrgAddReadiness :: "'s Kube \<Rightarrow> string \<Rightarrow> string \<Rightarrow> Org \<Rightarrow> ('s, bool \<times> string) io" where
  "localOrgAddReadiness api namespace channelName joiningOrg =
     ioBind (getJob api namespace (channelLocalOrgAddJobName channelName joiningOrg)) (\<lambda>found.
       ioReturn (False, localOrgJobMessage joiningOrg found))"

section \<open>Reconciliation\<close>

text \<open>The reference of the last channel entry of the organization.\<close>

definition localSignedUpdateRef :: "Channel \<Rightarrow> Org \<Rightarrow> ChannelArtifactKeyRef option" where
  "localSignedUpdateRef channel joiningOrg =
     foldl (\<lambda>ref org. if co_Name org = om_Name (org_Organization joiningOrg) then co_SignedUpdateRef org else ref) None (ch_Orgs channel)"

definition submitLocalOrg ::
  "Crypto \<Rightarrow> 's Kube \<Rightarrow> FabricNetwork \<Rightarrow> Channel \<Rightarrow> Org \<Rightarrow> peerInstance \<Rightarrow> ordererInstance \<Rightarrow> Org \<Rightarrow> ('s, bool \<times> string) io" where
  "submitLocalOrg cr api net channel adminOrg adminPeer orderer joiningOrg =
     (let namespace = orgNamespaceName net adminOrg; resultConfigMap = channelLocalOrgAddResultConfigMapName (ch_Name channel) joiningOrg in
      case localSignedUpdateRef channel joiningOrg of
        None \<Rightarrow> ioReturn (False, om_Name (org_Organization joiningOrg) @ '': Waiting for channel config signatures; envelope is in ConfigMap '' @
                  namespace @ ''/'' @ resultConfigMap)
      | Some ref \<Rightarrow>
          ioBind (reconcileSignedChannelUpdate cr api net channel adminOrg adminPeer orderer (Some ref)
            (buildLocalOrgAddJob net channel adminOrg namespace adminPeer orderer joiningOrg) resultConfigMap localOrgAddResultKey
            localOrgAddUpdateArtifactKey localOrgAddUpdateFile (om_MSPName (org_Organization joiningOrg)) True)
          (\<lambda>(resultName, message).
            if resultName = [] then ioReturn (False, message)
            else ioBind (localOrgAddEvidenceNamed api namespace (ch_Name channel) joiningOrg resultName) (\<lambda>submitted.
                 ioReturn (case submitted of
                     Inl _ \<Rightarrow> (False, message)
                   | Inr ev \<Rightarrow> if submittedOutcome (le_Outcome ev) then (True, []) else (False, message)))))"

definition reconcileLocalOrgAdd ::
  "Crypto \<Rightarrow> 's Kube \<Rightarrow> FabricNetwork \<Rightarrow> Channel \<Rightarrow> Org \<Rightarrow> peerInstance \<Rightarrow> ordererInstance \<Rightarrow> Org \<Rightarrow> ('s, bool \<times> string) io" where
  "reconcileLocalOrgAdd cr api net channel adminOrg adminPeer orderer joiningOrg =
     (let namespace = orgNamespaceName net adminOrg in
      ioBind (localOrgEvidence api namespace (ch_Name channel) joiningOrg) (\<lambda>evidence.
        case evidence of
          Inr ev \<Rightarrow>
            if le_Outcome ev = outcomeStaged then submitLocalOrg cr api net channel adminOrg adminPeer orderer joiningOrg
            else ioReturn (True, [])
        | Inl evidenceMessage \<Rightarrow>
            if evidenceMessage \<noteq> [] then ioReturn (False, evidenceMessage)
            else ioBind (ensureChannelRBAC api net adminOrg (ch_Name channel) namespace) (\<lambda>_.
                 ioBind (ensureChannelCryptoSecrets api net channel adminOrg namespace) (\<lambda>_.
                 ioBind (ioLift (buildChannelConfigMap net channel adminOrg namespace)) (\<lambda>configMap.
                 ioBind (ensureConfigMap api configMap) (\<lambda>_.
                 ioBind (ensureJob api (buildLocalOrgAddJob net channel adminOrg namespace adminPeer orderer joiningOrg)) (\<lambda>_.
                   localOrgAddReadiness api namespace (ch_Name channel) joiningOrg)))))))"

text \<open>The first peer of an organization whose anchor peer update is recorded.\<close>

fun joinedPeer :: "'s Kube \<Rightarrow> string \<Rightarrow> Org \<Rightarrow> string \<Rightarrow> string list \<Rightarrow> ('s, peerInstance option) io" where
  "joinedPeer api channelName org namespace [] = ioReturn None"
| "joinedPeer api channelName org namespace (peerName # peerNames) =
     (let peer = \<lparr>pi_org = org, pi_name = peerName, pi_namespace = namespace\<rparr> in
      ioBind (anchorPeerUpdateResultReadiness api namespace channelName org peer) (\<lambda>(joined, _).
        if joined then ioReturn (Some peer) else joinedPeer api channelName org namespace peerNames))"

type_synonym admin = "Org \<times> peerInstance"

definition adminMissing :: "admin option \<Rightarrow> bool" where
  "adminMissing a \<longleftrightarrow> (case a of None \<Rightarrow> True | Some (_, peer) \<Rightarrow> pi_name peer = [])"

text \<open>The administrator, and the positions of the organizations that have no joined peer.\<close>

fun scanLocalOrgs ::
  "'s Kube \<Rightarrow> FabricNetwork \<Rightarrow> string \<Rightarrow> nat \<Rightarrow> admin option \<Rightarrow> nat list \<Rightarrow> ChannelOrgStatus list \<Rightarrow> ('s, admin option \<times> nat list) io" where
  "scanLocalOrgs api net channelName i admin candidates [] = ioReturn (admin, candidates)"
| "scanLocalOrgs api net channelName i admin candidates (orgStatus # rest) =
     (case map_of (orgsByName net) (cos_Name orgStatus) of
        None \<Rightarrow> scanLocalOrgs api net channelName (Suc i) admin candidates rest
      | Some org \<Rightarrow>
          ioBind (joinedPeer api channelName org (orgNamespaceName net org) (cos_PeerNames orgStatus)) (\<lambda>found.
            case found of
              None \<Rightarrow> scanLocalOrgs api net channelName (Suc i) admin (candidates @ [i]) rest
            | Some peer \<Rightarrow> scanLocalOrgs api net channelName (Suc i) (if adminMissing admin then Some (org, peer) else admin) candidates rest))"

fun addLocalOrgs ::
  "Crypto \<Rightarrow> 's Kube \<Rightarrow> FabricNetwork \<Rightarrow> Channel \<Rightarrow> admin \<Rightarrow> ordererInstance \<Rightarrow> ChannelOrgStatus list \<Rightarrow> nat list \<Rightarrow>
   ('s, string \<times> ChannelOrgStatus list) io" where
  "addLocalOrgs cr api net channel admin orderer orgs [] = ioReturn ([], orgs)"
| "addLocalOrgs cr api net channel admin orderer orgs (i # candidates) =
     (case map_of (orgsByName net) (cos_Name (orgs ! i)) of
        None \<Rightarrow> addLocalOrgs cr api net channel admin orderer orgs candidates
      | Some joiningOrg \<Rightarrow>
          ioBind (reconcileLocalOrgAdd cr api net channel (fst admin) (snd admin) orderer joiningOrg) (\<lambda>(ready, message).
            if \<not> ready then ioReturn (message, orgs[i := (orgs ! i)\<lparr>cos_Message := message, cos_Ready := False\<rparr>])
            else addLocalOrgs cr api net channel admin orderer orgs candidates))"

definition reconcileLocalOrgAdditions ::
  "Crypto \<Rightarrow> 's Kube \<Rightarrow> FabricNetwork \<Rightarrow> Channel \<Rightarrow> ChannelStatus \<Rightarrow> ('s, string \<times> ChannelOrgStatus list) io" where
  "reconcileLocalOrgAdditions cr api net channel status =
     (case desiredOrdererInstances net of
        [] \<Rightarrow> ioReturn ([], chs_Orgs status)
      | orderer # _ \<Rightarrow>
          ioBind (scanLocalOrgs api net (ch_Name channel) 0 None [] (chs_Orgs status)) (\<lambda>(admin, candidates).
            case admin of
              None \<Rightarrow> ioReturn ([], chs_Orgs status)
            | Some a \<Rightarrow>
                if adminMissing admin \<or> candidates = [] then ioReturn ([], chs_Orgs status)
                else addLocalOrgs cr api net channel a orderer (chs_Orgs status) candidates))"

end
