(* ===== verification/Raft_Updates.thy ===== *)
theory Raft_Updates
  imports Config_Updates
begin

text \<open>
  Changing the Raft consenters of a channel: \<^verbatim>\<open>fabricnetwork_raft_update.go\<close> stages a reviewed plan and
  \<^verbatim>\<open>fabricnetwork_raft_submission.go\<close> submits the signed update. Both keep the exact bytes they worked
  on in an input ConfigMap that cannot be changed, and accept a result only when its receipt names the
  same channel, operation, plan, sequence and action. Plans are parsed into trees, so that texts that
  differ in layout or escapes only have the same canonical form.
\<close>

section \<open>Receipts\<close>

record raftUpdateReceipt =
  rcp_Channel :: string
  rcp_OperationID :: string
  rcp_PlanHash :: string
  rcp_ConfigSequence :: string
  rcp_Action :: string
  rcp_Outcome :: string
  rcp_SignedHash :: string

definition marshalReceipt :: "raftUpdateReceipt \<Rightarrow> json" where
  "marshalReceipt r = JObj (
     [(''channel'', JStr (rcp_Channel r)), (''operationID'', JStr (rcp_OperationID r)), (''planHash'', JStr (rcp_PlanHash r)),
      (''configSequence'', JStr (rcp_ConfigSequence r)), (''action'', JStr (rcp_Action r))] @
     jOmit ''outcome'' (rcp_Outcome r) @ jOmit ''signedHash'' (rcp_SignedHash r))"

definition decodeReceipt :: "json \<Rightarrow> raftUpdateReceipt option" where
  "decodeReceipt j = do {
     kvs \<leftarrow> jstruct j; channel \<leftarrow> jstring (jmember ''channel'' kvs); operation \<leftarrow> jstring (jmember ''operationID'' kvs);
     hash \<leftarrow> jstring (jmember ''planHash'' kvs); sequence \<leftarrow> jstring (jmember ''configSequence'' kvs);
     action \<leftarrow> jstring (jmember ''action'' kvs); outcome \<leftarrow> jstring (jmember ''outcome'' kvs);
     signedUpdate \<leftarrow> jstring (jmember ''signedHash'' kvs);
     Some \<lparr>rcp_Channel = channel, rcp_OperationID = operation, rcp_PlanHash = hash, rcp_ConfigSequence = sequence, rcp_Action = action,
           rcp_Outcome = outcome, rcp_SignedHash = signedUpdate\<rparr> }"

definition receiptOf :: "ConfigMap \<Rightarrow> raftUpdateReceipt option" where
  "receiptOf result = Option.bind (jsonParse (go_get (cm_Data result) ''raft-update.json'')) decodeReceipt"

text \<open>A payload of the result, wherever the publisher put it.\<close>

definition resultBytes :: "ConfigMap \<Rightarrow> string \<Rightarrow> bytes" where
  "resultBytes result key = go_get (cm_Data result) key @ go_get (cm_BinaryData result) key"

section \<open>The staging Job\<close>

definition raftStagingInputDir :: string where "raftStagingInputDir = channelWorkDir @ ''/raft-input''"

definition buildRaftStagingJob :: "FabricNetwork \<Rightarrow> Channel \<Rightarrow> Org \<Rightarrow> ordererInstance \<Rightarrow> string \<Rightarrow> Job" where
  "buildRaftStagingJob net channel admin orderer name =
     (let labels = channelLabels net admin (ch_Name channel);
          output = \<lparr>vm_Name = ''output'', vm_MountPath = channelOutputDir, vm_ReadOnly = False\<rparr>
      in \<lparr>job_Meta = \<lparr>mt_Name = name, mt_Namespace = oi_namespace orderer, mt_Labels = Some labels,
            mt_Annotations = Some (succeededJobCleanupAnnotations (resourceAnnotations net admin))\<rparr>,
          job_BackoffLimit = 0, job_PodLabels = labels, job_PodAnnotations = [],
          job_ServiceAccount = channelServiceAccountName (ch_Name channel), job_RestartPolicy = ''Never'',
          job_Volumes = [(''output'', EmptyDir), (''input'', ConfigMapVolume (name @ ''-input'') []),
            (''msp'', SecretVolume (identitySecretName (adminIdentityName admin) secretKindMSP) (mspSecretItems True) None),
            (''admin-tls'', SecretVolume (identitySecretName (adminIdentityName admin) secretKindTLS) adminTLSSecretItems None),
            (''orderer-ca'', SecretVolume (identitySecretName (oi_name orderer) secretKindTLS) [(''ca.crt'', ''ca.crt'')] None)],
          job_InitContainers = [shellContainer ''stage-raft-update'' (fabricToolsImage (sp_Global (fn_Spec net)))
            (RaftStagingScript (ch_Name channel) (om_MSPName (org_Organization admin)) (ordererClientAddress orderer)) []
            (componentResourceRequirements ''fabric-cli'')
            [output, readOnlyMount ''input'' raftStagingInputDir, readOnlyMount ''msp'' ''/msp'', readOnlyMount ''admin-tls'' ''/admin-tls'',
             readOnlyMount ''orderer-ca'' ''/orderer-ca'']],
          job_Containers = [shellContainer ''publish-raft-update'' kubectlImage PublishRaftStagingScript
            [(''FABRICOPS_RAFT_RESULT'', EnvValue (name @ ''-result'')), (''FABRICOPS_CHANNEL'', EnvValue (ch_Name channel)), podNamespaceEnv]
            (componentResourceRequirements ''kubectl'') [output]],
          job_Conditions = [], job_Succeeded = 0, job_CompletionTime = None\<rparr>)"

section \<open>Nodes of a submission\<close>

record raftSubmissionNode =
  sn_Name :: string
  sn_AdminAddress :: string
  sn_Operations :: string
  sn_CAFile :: string
  sn_Current :: bool
  sn_Desired :: bool

definition ioTry :: "('s, 'a) io \<Rightarrow> ('s, ApiError + 'a) io" where
  "ioTry f s = (case f s of (r, s1) \<Rightarrow> (Inr r, s1))"

definition consenterInstance :: "FabricNetwork \<Rightarrow> string \<Rightarrow> RaftConsenter \<Rightarrow> ordererInstance option" where
  "consenterInstance net adminOrg consenter =
     List.find (\<lambda>orderer. om_Name (org_Organization (oi_org orderer)) = adminOrg \<and> rc_Host consenter = channelOrdererHost orderer \<and>
       int (rc_Port consenter) = channelOrdererPort orderer mod 2 ^ 32) (desiredOrdererInstances net)"

definition newSubmissionNode :: "ordererInstance \<Rightarrow> raftSubmissionNode" where
  "newSubmissionNode orderer =
     \<lparr>sn_Name = oi_name orderer, sn_AdminAddress = ordererAdminAddress orderer,
      sn_Operations = ''http://'' @ serviceDNS (operationsServiceName (oi_name orderer)) (oi_namespace orderer) ordererOpsPort,
      sn_CAFile = ''/raft-ca/'' @ oi_name orderer @ ''/ca.crt'', sn_Current = False, sn_Desired = False\<rparr>"

definition markNode :: "bool \<Rightarrow> raftSubmissionNode \<Rightarrow> raftSubmissionNode" where
  "markNode isCurrent node = (if isCurrent then node\<lparr>sn_Current := True\<rparr> else node\<lparr>sn_Desired := True\<rparr>)"

definition recordNode :: "bool \<Rightarrow> ordererInstance \<Rightarrow> raftSubmissionNode list \<Rightarrow> raftSubmissionNode list" where
  "recordNode isCurrent orderer nodes =
     (if oi_name orderer \<in> set (map sn_Name nodes)
      then map (\<lambda>node. if sn_Name node = oi_name orderer then markNode isCurrent node else node) nodes
      else nodes @ [markNode isCurrent (newSubmissionNode orderer)])"

definition consenterCertificateProblem :: "RaftConsenter \<Rightarrow> Secret \<Rightarrow> bool" where
  "consenterCertificateProblem consenter secret \<longleftrightarrow>
     go_get (sec_Data secret) ''server.crt'' \<noteq> rc_ServerTLSCert consenter \<or> go_get (sec_Data secret) ''server.crt'' \<noteq> rc_ClientTLSCert consenter \<or>
     go_get (sec_Data secret) ''ca.crt'' = []"

text \<open>The certificate parses and the clock, read for either bound, is within its validity period.\<close>

definition certificateInForce :: "Crypto \<Rightarrow> 's Kube \<Rightarrow> bytes \<Rightarrow> ('s, bool) io" where
  "certificateInForce cr api pem =
     (case parsePEMCertificate cr pem of
        Inl _ \<Rightarrow> ioReturn False
      | Inr cert \<Rightarrow>
          ioBind (ioNow api) (\<lambda>t1. if t1 < x_NotBefore cert then ioReturn False
            else ioBind (ioNow api) (\<lambda>t2. ioReturn (t2 < x_NotAfter cert))))"

definition checkConsenter ::
  "Crypto \<Rightarrow> 's Cluster \<Rightarrow> FabricNetwork \<Rightarrow> string \<Rightarrow> RaftConsenter \<Rightarrow> ('s, string + ordererInstance) io" where
  "checkConsenter cr cl net adminOrg consenter =
     (case consenterInstance net adminOrg consenter of
        None \<Rightarrow> ioReturn (Inl (''automatic Raft submission requires every consenter to be managed by adminOrg '' @ adminOrg))
      | Some orderer \<Rightarrow>
          ioBind (ioTry (getSecret (cl_Kube cl) (oi_namespace orderer) (identitySecretName (oi_name orderer) secretKindTLS))) (\<lambda>got.
            let unreadable = (\<lambda>e. Inl (''read '' @ oi_name orderer @ '' TLS material: '' @ cl_ErrorText cl e)) in
            case got of
              Inl e \<Rightarrow> ioReturn (unreadable e)
            | Inr None \<Rightarrow> ioReturn (unreadable NotFound)
            | Inr (Some secret) \<Rightarrow>
                if consenterCertificateProblem consenter secret
                then ioReturn (Inl (''consenter '' @ oi_name orderer @ '' does not match its managed TLS certificate''))
                else ioBind (certificateInForce cr (cl_Kube cl) (rc_ServerTLSCert consenter)) (\<lambda>ok.
                     ioReturn (if ok then Inr orderer
                       else Inl (''consenter '' @ oi_name orderer @ '' TLS certificate is invalid or outside its validity period'')))))"

fun collectNodes ::
  "Crypto \<Rightarrow> 's Cluster \<Rightarrow> FabricNetwork \<Rightarrow> string \<Rightarrow> raftSubmissionNode list \<Rightarrow> (bool \<times> RaftConsenter) list \<Rightarrow>
   ('s, string + raftSubmissionNode list) io" where
  "collectNodes cr cl net adminOrg nodes [] = ioReturn (Inr nodes)"
| "collectNodes cr cl net adminOrg nodes ((isCurrent, consenter) # rest) =
     ioBind (checkConsenter cr cl net adminOrg consenter) (\<lambda>r.
       case r of
         Inl e \<Rightarrow> ioReturn (Inl e)
       | Inr orderer \<Rightarrow> collectNodes cr cl net adminOrg (recordNode isCurrent orderer nodes) rest)"

definition raftSubmissionNodes ::
  "Crypto \<Rightarrow> 's Cluster \<Rightarrow> FabricNetwork \<Rightarrow> ChannelRaftUpdate \<Rightarrow> RaftConsenter list \<Rightarrow> RaftConsenter list \<Rightarrow>
   ('s, string + raftSubmissionNode list) io" where
  "raftSubmissionNodes cr cl net op current desired =
     ioBind (collectNodes cr cl net (ru_AdminOrg op) [] (map (Pair True) current @ map (Pair False) desired)) (\<lambda>r.
       ioReturn (case r of
           Inl e \<Rightarrow> Inl e
         | Inr nodes \<Rightarrow>
             if list_ex (\<lambda>node. sn_Name node = or_Name (ru_Orderer op) \<and> sn_Current node \<and> sn_Desired node) nodes then Inr nodes
             else Inl ''select a current consenter that remains in the desired set as the config-fetch source''))"

definition marshalNode :: "raftSubmissionNode \<Rightarrow> json" where
  "marshalNode node = JObj [(''name'', JStr (sn_Name node)), (''adminAddress'', JStr (sn_AdminAddress node)),
     (''operations'', JStr (sn_Operations node)), (''caFile'', JStr (sn_CAFile node)),
     (''current'', JBool (sn_Current node)), (''desired'', JBool (sn_Desired node))]"

section \<open>Submission\<close>

text \<open>What the result of a submission establishes.\<close>

definition submissionVerdict :: "raftUpdateReceipt \<Rightarrow> bytes \<Rightarrow> ConfigMap \<Rightarrow> ChannelRaftUpdateStatus \<Rightarrow> ChannelRaftUpdateStatus" where
  "submissionVerdict expected signedUpdate result status =
     (let bad = status\<lparr>rus_Phase := ChannelConfigUpdateFailed, rus_Message := ''Signed Raft evidence does not match the operation''\<rparr>
      in case receiptOf result of
           None \<Rightarrow> bad
         | Some receipt \<Rightarrow>
             if receipt\<lparr>rcp_Outcome := []\<rparr> \<noteq> expected \<or> resultBytes result ''channel-block.pb'' = [] \<or>
                resultBytes result ''config-update.pb'' \<noteq> signedUpdate \<or>
                (rcp_Outcome receipt \<noteq> ''submitted'' \<and> rcp_Outcome receipt \<noteq> ''alreadyApplied'')
             then bad
             else status\<lparr>rus_Phase := (if rcp_Outcome receipt = ''alreadyApplied'' then ChannelConfigUpdateAlreadyApplied
                                      else ChannelConfigUpdateSubmitted), rus_Ready := True, rus_Message := []\<rparr>)"

definition raftSubmissionJob ::
  "FabricNetwork \<Rightarrow> Channel \<Rightarrow> Org \<Rightarrow> ordererInstance \<Rightarrow> string \<Rightarrow> raftSubmissionNode list \<Rightarrow> Job" where
  "raftSubmissionJob net channel admin orderer name nodes =
     (let job = buildRaftStagingJob net channel admin orderer name
      in job\<lparr>job_Volumes := job_Volumes job @
               map (\<lambda>node. (''ca-'' @ sn_Name node, SecretVolume (identitySecretName (sn_Name node) secretKindTLS) [(''ca.crt'', ''ca.crt'')] None)) nodes,
             job_InitContainers := map (\<lambda>container. container\<lparr>
               ct_Command := ShellScript (RaftSubmissionScript (ch_Name channel) (om_MSPName (org_Organization admin)) (ordererClientAddress orderer)),
               ct_VolumeMounts := ct_VolumeMounts container @
                 map (\<lambda>node. readOnlyMount (''ca-'' @ sn_Name node) (''/raft-ca/'' @ sn_Name node)) nodes\<rparr>) (job_InitContainers job)\<rparr>)"

text \<open>Run the Job and report it: a Job that ended without leaving a result has failed.\<close>

definition runRaftJob :: "'s Kube \<Rightarrow> Job \<Rightarrow> string \<Rightarrow> string \<Rightarrow> ChannelRaftUpdateStatus \<Rightarrow> ('s, ChannelRaftUpdateStatus) io" where
  "runRaftJob api job waiting ended status =
     ioBind (ensureJob api job) (\<lambda>_.
     ioBind (getJob api (mt_Namespace (job_Meta job)) (mt_Name (job_Meta job))) (\<lambda>found.
       case found of
         None \<Rightarrow> ioFail NotFound
       | Some actual \<Rightarrow>
           ioReturn (if jobFailed actual \<or> jobSucceeded actual
             then status\<lparr>rus_Phase := ChannelConfigUpdateFailed, rus_Message := ended @ mt_Name (job_Meta job)\<rparr>
             else status\<lparr>rus_Message := waiting @ mt_Name (job_Meta job)\<rparr>)))"

definition raftInput :: "FabricNetwork \<Rightarrow> Channel \<Rightarrow> Org \<Rightarrow> string \<Rightarrow> string \<Rightarrow> (string, string) gomap \<Rightarrow> (string, bytes) gomap \<Rightarrow> ConfigMap" where
  "raftInput net channel admin name namespace texts binaries =
     \<lparr>cm_Meta = channelMeta net admin (ch_Name channel) (name @ ''-input'') namespace, cm_Data = texts, cm_BinaryData = binaries, cm_Immutable = True\<rparr>"

text \<open>The error of reading the consenters of a plan, as the error the caller returns.\<close>

definition stagedEnvelope :: "ConfigMap \<Rightarrow> bytes" where
  "stagedEnvelope staged =
     (let binary = go_get (cm_BinaryData staged) ''config-update.pb''
      in if binary \<noteq> [] then binary else go_get (cm_Data staged) ''config-update.pb'')"

definition startRaftSubmission ::
  "Crypto \<Rightarrow> 's Cluster \<Rightarrow> FabricNetwork \<Rightarrow> Channel \<Rightarrow> ChannelRaftUpdate \<Rightarrow> Org \<Rightarrow> RaftUpdatePlan \<Rightarrow> ConfigMap \<Rightarrow> bytes \<Rightarrow>
   raftUpdateReceipt \<Rightarrow> string \<Rightarrow> ChannelRaftUpdateStatus \<Rightarrow> ('s, ChannelRaftUpdateStatus) io" where
  "startRaftSubmission cr cl net channel op admin plan staged signedUpdate expected name status =
     ioBind (liftText (RaftConsentersFromConfig cr (rp_OriginalConfig plan))) (\<lambda>current.
     ioBind (liftText (RaftConsentersFromConfig cr (rp_UpdatedConfig plan))) (\<lambda>desired.
     ioBind (raftSubmissionNodes cr cl net op current desired) (\<lambda>r.
       case r of
         Inl e \<Rightarrow> ioReturn (status\<lparr>rus_Phase := ChannelConfigUpdateFailed, rus_Message := ''Raft submission blocked: '' @ e\<rparr>)
       | Inr nodes \<Rightarrow>
           (let api = cl_Kube cl; namespace = rus_Namespace status;
                orderer = \<lparr>oi_org = admin, oi_group = \<lparr>og_GroupName = [], og_Type = [], og_Instances = 0, og_Prefix = [], og_ExternalEndpoints = []\<rparr>,
                  oi_name = or_Name (ru_Orderer op), oi_namespace = namespace\<rparr>;
                input = raftInput net channel admin name namespace
                  [(''plan.json'', jsonText (marshalPlan cr plan)), (''request.json'', jsonText (marshalReceipt expected)),
                   (''nodes.json'', jsonText (JArr (map marshalNode nodes)))]
                  [(''staged.pb'', stagedEnvelope staged), (''signed.pb'', signedUpdate)]
            in ioBind (ensureChannelRBAC api net admin (ch_Name channel) namespace) (\<lambda>_.
               ioBind (ensureConfigMap api input) (\<lambda>_.
                 runRaftJob api (raftSubmissionJob net channel admin orderer name nodes)
                   ''Waiting for Raft submission health/catch-up checks and committed membership: ''
                   ''Raft submission Job failed or completed without durable evidence: '' status))))))"

definition reconcileRaftSubmission ::
  "Crypto \<Rightarrow> 's Cluster \<Rightarrow> FabricNetwork \<Rightarrow> Channel \<Rightarrow> ChannelRaftUpdate \<Rightarrow> Org \<Rightarrow> RaftUpdatePlan \<Rightarrow> ChannelRaftUpdateStatus \<Rightarrow> ConfigMap \<Rightarrow>
   raftUpdateReceipt \<Rightarrow> ('s, ChannelRaftUpdateStatus) io" where
  "reconcileRaftSubmission cr cl net channel op admin plan status staged expected =
     ioBind (channelArtifactBytes (cl_Kube cl) (fn_Namespace net) (ru_SignedUpdateRef op)) (\<lambda>artifact.
       case artifact of
         Inl message \<Rightarrow> ioReturn (status\<lparr>rus_Message := ''Waiting for signed Raft envelope: '' @ message\<rparr>)
       | Inr signedUpdate \<Rightarrow>
           (let expected1 = expected\<lparr>rcp_SignedHash := hex_encode (sha256_Sum256 cr signedUpdate)\<rparr>;
                name = take 16 (ch_Name channel) @ ''-raft-submit-'' @ hex_encode (take 8 (sha256_Sum256 cr (rus_PlanHash status @ signedUpdate)));
                status1 = status\<lparr>rus_UpdateJobName := name, rus_ArtifactConfigMapName := name @ ''-result''\<rparr>
            in ioBind (getConfigMap (cl_Kube cl) (rus_Namespace status1) (rus_ArtifactConfigMapName status1)) (\<lambda>found.
                 case found of
                   Some result \<Rightarrow> ioReturn (submissionVerdict expected1 signedUpdate result status1)
                 | None \<Rightarrow> startRaftSubmission cr cl net channel op admin plan staged signedUpdate expected1 name status1)))"

section \<open>Staging\<close>

definition ValidateRaftPlanText :: "Crypto \<Rightarrow> bytes \<Rightarrow> string \<Rightarrow> string + RaftUpdatePlan" where
  "ValidateRaftPlanText cr raw channel =
     (case jsonParse raw of None \<Rightarrow> Inl ''decode Raft plan'' | Some j \<Rightarrow> ValidateRaftPlan cr j channel)"

definition raftPlanDigest :: "Crypto \<Rightarrow> ChannelRaftUpdate \<Rightarrow> string \<Rightarrow> RaftUpdatePlan \<Rightarrow> bytes" where
  "raftPlanDigest cr op ordererName plan =
     sha256_Sum256 cr (ru_OperationID op @ [CHR 0x00] @ ru_AdminOrg op @ [CHR 0x00] @ ordererName @ [CHR 0x00] @ jsonText (marshalPlan cr plan))"

definition stagingMismatch :: "raftUpdateReceipt \<Rightarrow> RaftUpdatePlan \<Rightarrow> ConfigMap \<Rightarrow> bool" where
  "stagingMismatch expected plan result \<longleftrightarrow>
     (case receiptOf result of
        None \<Rightarrow> True
      | Some receipt \<Rightarrow>
          (let outcome = rcp_Outcome receipt
           in receipt\<lparr>rcp_Outcome := []\<rparr> \<noteq> expected \<or> resultBytes result ''channel-block.pb'' = [] \<or>
              (outcome = ''staged'' \<and> (resultBytes result ''config-update.pb'' = [] \<or> rp_Action plan = ''AlreadyApplied'')) \<or>
              (outcome = ''alreadyApplied'' \<and> rp_Action plan \<noteq> ''AlreadyApplied'') \<or>
              (outcome \<noteq> ''staged'' \<and> outcome \<noteq> ''alreadyApplied'')))"

definition raftFromEvidence ::
  "Crypto \<Rightarrow> 's Cluster \<Rightarrow> FabricNetwork \<Rightarrow> Channel \<Rightarrow> ChannelRaftUpdate \<Rightarrow> Org \<Rightarrow> RaftUpdatePlan \<Rightarrow> raftUpdateReceipt \<Rightarrow> ConfigMap \<Rightarrow>
   ChannelRaftUpdateStatus \<Rightarrow> ('s, ChannelRaftUpdateStatus) io" where
  "raftFromEvidence cr cl net channel op admin plan expected result status =
     (if stagingMismatch expected plan result
      then ioReturn (status\<lparr>rus_Phase := ChannelConfigUpdateFailed,
             rus_Message := ''Raft staging evidence does not match the reviewed operation''\<rparr>)
      else if map_option rcp_Outcome (receiptOf result) = Some ''alreadyApplied''
      then ioReturn (status\<lparr>rus_Phase := ChannelConfigUpdateAlreadyApplied, rus_Ready := True\<rparr>)
      else (let status1 = status\<lparr>rus_Phase := ChannelConfigUpdatePendingSignatures,
                  rus_Message := ''Waiting for orderer-admin signatures; unsigned envelope is in ConfigMap '' @
                    rus_Namespace status @ ''/'' @ rus_ArtifactConfigMapName status\<rparr>
            in if ru_SignedUpdateRef op \<noteq> None then reconcileRaftSubmission cr cl net channel op admin plan status1 result expected
               else ioReturn status1))"

definition stageRaftPlan ::
  "Crypto \<Rightarrow> 's Cluster \<Rightarrow> FabricNetwork \<Rightarrow> Channel \<Rightarrow> ChannelRaftUpdate \<Rightarrow> Org \<Rightarrow> RaftUpdatePlan \<Rightarrow> raftUpdateReceipt \<Rightarrow> string \<Rightarrow>
   ChannelRaftUpdateStatus \<Rightarrow> ('s, ChannelRaftUpdateStatus) io" where
  "stageRaftPlan cr cl net channel op admin plan expected name status =
     (let api = cl_Kube cl; namespace = rus_Namespace status;
          orderer = \<lparr>oi_org = admin, oi_group = \<lparr>og_GroupName = [], og_Type = [], og_Instances = 0, og_Prefix = [], og_ExternalEndpoints = []\<rparr>,
            oi_name = or_Name (ru_Orderer op), oi_namespace = namespace\<rparr>
      in ioBind (ensureChannelRBAC api net admin (ch_Name channel) namespace) (\<lambda>_.
         ioBind (ensureConfigMap api (raftInput net channel admin name namespace
           [(''plan.json'', jsonText (marshalPlan cr plan)), (''request.json'', jsonText (marshalReceipt expected))] [])) (\<lambda>_.
           runRaftJob api (buildRaftStagingJob net channel admin orderer name) ''Waiting for Raft staging Job ''
             ''Raft staging Job failed or completed without durable evidence: '' status)))"

definition reconcileRaftPlan ::
  "Crypto \<Rightarrow> 's Cluster \<Rightarrow> FabricNetwork \<Rightarrow> Channel \<Rightarrow> ChannelRaftUpdate \<Rightarrow> Org \<Rightarrow> RaftUpdatePlan \<Rightarrow> ChannelRaftUpdateStatus \<Rightarrow>
   ('s, ChannelRaftUpdateStatus) io" where
  "reconcileRaftPlan cr cl net channel op admin plan status =
     (let digest = raftPlanDigest cr op (rus_Orderer status) plan;
          name = take 16 (ch_Name channel) @ ''-raft-'' @ take 12 (ru_OperationID op) @ ''-'' @ hex_encode (take 8 digest);
          status1 = status\<lparr>rus_PlanHash := hex_encode digest, rus_ConfigSequence := rp_ConfigSequence plan, rus_Action := rp_Action plan,
            rus_UpdateJobName := name, rus_ArtifactConfigMapName := name @ ''-result''\<rparr>;
          expected = \<lparr>rcp_Channel = ch_Name channel, rcp_OperationID = ru_OperationID op, rcp_PlanHash = rus_PlanHash status1,
            rcp_ConfigSequence = rp_ConfigSequence plan, rcp_Action = rp_Action plan, rcp_Outcome = [], rcp_SignedHash = []\<rparr>
      in ioBind (getConfigMap (cl_Kube cl) (rus_Namespace status1) (rus_ArtifactConfigMapName status1)) (\<lambda>found.
           case found of
             Some result \<Rightarrow> raftFromEvidence cr cl net channel op admin plan expected result status1
           | None \<Rightarrow> stageRaftPlan cr cl net channel op admin plan expected name status1))"

text \<open>A missing map entry reads as the zero organization.\<close>

definition initialRaftStatus :: "ChannelRaftUpdate \<Rightarrow> ChannelRaftUpdateStatus" where
  "initialRaftStatus op =
     \<lparr>rus_OperationID = ru_OperationID op, rus_Namespace = [], rus_AdminOrg = ru_AdminOrg op,
      rus_Orderer = or_Org (ru_Orderer op) @ ''/'' @ or_Name (ru_Orderer op), rus_Phase = ChannelConfigUpdatePending, rus_Action = [],
      rus_ConfigSequence = [], rus_PlanHash = [], rus_ArtifactConfigMapName = [], rus_UpdateJobName = [], rus_Ready = False, rus_Message = []\<rparr>"

definition reconcileRaftUpdate ::
  "Crypto \<Rightarrow> 's Cluster \<Rightarrow> FabricNetwork \<Rightarrow> Channel \<Rightarrow> ChannelRaftUpdate \<Rightarrow> ('s, ChannelRaftUpdateStatus) io" where
  "reconcileRaftUpdate cr cl net channel op =
     (let status = initialRaftStatus op;
          problems = validateChannelRaftUpdate cr net channel;
          admin = (case map_of (orgsByName net) (ru_AdminOrg op) of Some org \<Rightarrow> org | None \<Rightarrow> zeroOrg);
          status1 = status\<lparr>rus_Namespace := orgNamespaceName net admin\<rparr>
      in if problems \<noteq> []
         then ioReturn (status\<lparr>rus_Phase := ChannelConfigUpdateFailed, rus_Message := joinWith ''; '' problems\<rparr>)
         else ioBind (channelArtifactBytes (cl_Kube cl) (fn_Namespace net) (Some (ru_PlanRef op))) (\<lambda>artifact.
              case artifact of
                Inl message \<Rightarrow> ioReturn (status1\<lparr>rus_Message := ''Waiting for Raft plan: '' @ message\<rparr>)
              | Inr raw \<Rightarrow>
                  (case ValidateRaftPlanText cr raw (ch_Name channel) of
                     Inl e \<Rightarrow> ioReturn (status1\<lparr>rus_Phase := ChannelConfigUpdateFailed, rus_Message := ''Invalid Raft plan: '' @ e\<rparr>)
                   | Inr plan \<Rightarrow> reconcileRaftPlan cr cl net channel op admin plan status1)))"

section \<open>Receipts are read as they were written\<close>

lemma marshalReceipt_decodes: "decodeReceipt (marshalReceipt r) = Some r"
  by (cases r) (simp add: marshalReceipt_def decodeReceipt_def jOmit_def jmember_def jmember_opt_def toLower_def lower_char_def)

lemma marshalReceipt_wf: "jsonWf (marshalReceipt r)"
  by (simp add: marshalReceipt_def jOmit_def)


end
