(* ===== verification/Channels.thy ===== *)
theory Channels
  imports Local_Orgs Raft_Updates
begin

text \<open>
  \<open>reconcileChannels\<close> of \<^verbatim>\<open>fabricnetwork_channel.go\<close>: for every channel of the network, the checks that
  need no cluster, then block generation, orderer joins, late local organizations, peer joins, anchor
  peers, external organizations and the Raft update, each only when the one before has nothing left to
  wait for. An error ends the stage with the statuses of the channels before.
\<close>

section \<open>What the specification alone decides\<close>

definition initialOrgStatus :: "FabricNetwork \<Rightarrow> (string, bool) gomap \<Rightarrow> ChannelOrg \<Rightarrow> ChannelOrgStatus \<times> string list" where
  "initialOrgStatus net readyOrgs channelOrg =
     (let name = co_Name channelOrg;
          blank = \<lparr>cos_Name = name, cos_Namespace = [], cos_MSPName = [], cos_PeerNames = co_Peers channelOrg,
            cos_Peers = \<lparr>ws_Desired = int (length (co_Peers channelOrg)), ws_Ready = 0\<rparr>, cos_Ready = False, cos_Message = []\<rparr>
      in case map_of (orgsByName net) name of
           None \<Rightarrow> (blank\<lparr>cos_Message := ''Unknown org in channel''\<rparr>, [name @ '': unknown org''])
         | Some org \<Rightarrow>
             (let known = blank\<lparr>cos_Namespace := orgNamespaceName net org, cos_MSPName := om_MSPName (org_Organization org)\<rparr>;
                  unknownPeers = unknownChannelPeers org (co_Peers channelOrg);
                  (message, messages) =
                    (if co_Peers channelOrg = [] then (''At least one peer is required'', [name @ '': at least one peer is required''])
                     else if unknownPeers \<noteq> []
                     then (''Unknown peers: '' @ joinWith '', '' unknownPeers, [name @ '': unknown peers '' @ joinWith '', '' unknownPeers])
                     else if map_of readyOrgs name \<noteq> Some True then (''Waiting for org components to become ready'', [])
                     else (''Waiting for peer join Jobs'', []))
              in (known\<lparr>cos_Message := message,
                    cos_Ready := (ws_Ready (cos_Peers known) \<ge> ws_Desired (cos_Peers known) \<and> ws_Desired (cos_Peers known) > 0 \<and> message = [])\<rparr>,
                  messages)))"

definition channelMessages :: "FabricNetwork \<Rightarrow> Channel \<Rightarrow> string list" where
  "channelMessages net channel =
     (if trimSpace (ch_Name channel) = [] then [''Channel name is required''] else []) @
     (if ch_Orgs channel = [] then [''At least one peer org is required''] else []) @
     (if ws_Desired (desiredNetworkOrdererStatus net) = 0 then [''At least one orderer is required''] else []) @
     (if \<not> gl_TLS (sp_Global (fn_Spec net)) then [''Channel block generation requires spec.global.tls=true''] else [])"

definition pendingRaftStatus :: "ChannelRaftUpdate \<Rightarrow> ChannelRaftUpdateStatus" where
  "pendingRaftStatus op = (initialRaftStatus op)\<lparr>rus_AdminOrg := [], rus_Orderer := [], rus_Message := ''Waiting for channel bootstrap''\<rparr>"

definition initialChannelStatus :: "FabricNetwork \<Rightarrow> (string, bool) gomap \<Rightarrow> Channel \<Rightarrow> ChannelStatus" where
  "initialChannelStatus net readyOrgs channel =
     (let orgs = map (\<lambda>channelOrg. fst (initialOrgStatus net readyOrgs channelOrg)) (ch_Orgs channel)
      in \<lparr>chs_Name = ch_Name channel, chs_ConfigMapName = channelConfigMapName (ch_Name channel),
          chs_BlockConfigMapName = channelBlockConfigMapName (ch_Name channel), chs_ConfigReady = False, chs_BlockReady = False,
          chs_Orderers = desiredNetworkOrdererStatus net,
          chs_Peers = \<lparr>ws_Desired = sum_list (map (\<lambda>org. ws_Desired (cos_Peers org)) orgs), ws_Ready = 0\<rparr>,
          chs_Orgs = orgs, chs_ExternalOrgs = channelExternalOrgStatuses channel ''Waiting for local channel bootstrap'',
          chs_RaftUpdate = map_option pendingRaftStatus (ch_RaftUpdate channel), chs_Ready = False, chs_Message = []\<rparr>)"

section \<open>The steps of one channel\<close>

definition setChannelOrgMessages :: "ChannelStatus \<Rightarrow> string \<Rightarrow> ChannelStatus" where
  "setChannelOrgMessages status message =
     status\<lparr>chs_Orgs := map (\<lambda>org. if cos_Message org \<noteq> [] then org\<lparr>cos_Message := message\<rparr> else org) (chs_Orgs status)\<rparr>"

text \<open>All orderers have joined: local organizations, peers, anchor peers, external organizations.\<close>

definition channelMembers ::
  "Crypto \<Rightarrow> 's Kube \<Rightarrow> FabricNetwork \<Rightarrow> Channel \<Rightarrow> string \<Rightarrow> ChannelStatus \<Rightarrow> ('s, ChannelStatus) io" where
  "channelMembers cr api net channel hostNamespace status =
     ioBind (reconcileLocalOrgAdditions cr api net channel status) (\<lambda>(localOrgMessage, orgs1).
       let status1 = status\<lparr>chs_Orgs := orgs1\<rparr> in
       if localOrgMessage \<noteq> [] then ioReturn (status1\<lparr>chs_Message := localOrgMessage\<rparr>)
       else ioBind (reconcilePeerJoins api net channel hostNamespace status1) (\<lambda>(peersJoined, peerMessage, orgs2).
         let status2 = status1\<lparr>chs_Orgs := orgs2, chs_Peers := (chs_Peers status1)\<lparr>ws_Ready := peersJoined\<rparr>, chs_Message := peerMessage\<rparr> in
         if peerMessage \<noteq> [] then ioReturn status2
         else ioBind (reconcileAnchorPeerUpdates api net channel status2) (\<lambda>(anchorMessage, orgs3).
           let status3 = status2\<lparr>chs_Orgs := orgs3, chs_Message := anchorMessage\<rparr> in
           if anchorMessage \<noteq> [] then ioReturn status3
           else ioBind (reconcileExternalOrgUpdates cr api net channel) (\<lambda>(externalOrgMessage, externals).
             ioReturn (status3\<lparr>chs_ExternalOrgs := externals, chs_Message := externalOrgMessage\<rparr>)))))"

definition channelBootstrap ::
  "Crypto \<Rightarrow> maporder \<Rightarrow> 's Kube \<Rightarrow> FabricNetwork \<Rightarrow> Channel \<Rightarrow> Org \<Rightarrow> ChannelStatus \<Rightarrow> ('s, ChannelStatus) io" where
  "channelBootstrap cr ord api net channel hostOrg status =
     (let hostNamespace = orgNamespaceName net hostOrg in
      ioBind (reconcileChannelBlockGeneration api net channel hostOrg hostNamespace) (\<lambda>_.
      ioBind (channelBlockReadiness api hostNamespace (ch_Name channel)) (\<lambda>(blockReady, blockMessage).
        let status1 = status\<lparr>chs_ConfigReady := True, chs_BlockReady := blockReady\<rparr> in
        if \<not> blockReady then ioReturn (status1\<lparr>chs_Message := blockMessage\<rparr>)
        else ioBind (reconcileOrdererJoins ord api net channel hostOrg hostNamespace) (\<lambda>(orderersJoined, joinMessage).
          let status2 = status1\<lparr>chs_Orderers := (chs_Orderers status1)\<lparr>ws_Ready := orderersJoined\<rparr>\<rparr> in
          if joinMessage \<noteq> [] then ioReturn (setChannelOrgMessages (status2\<lparr>chs_Message := joinMessage\<rparr>) joinMessage)
          else if ws_Ready (chs_Orderers status2) < ws_Desired (chs_Orderers status2)
          then ioReturn (setChannelOrgMessages (status2\<lparr>chs_Message := ''Waiting for orderer join Jobs''\<rparr>) ''Waiting for orderer join Jobs'')
          else channelMembers cr api net channel hostNamespace status2))))"

definition channelSteps ::
  "Crypto \<Rightarrow> maporder \<Rightarrow> 's Kube \<Rightarrow> FabricNetwork \<Rightarrow> bool \<Rightarrow> string list \<Rightarrow> Channel \<Rightarrow> ChannelStatus \<Rightarrow> ('s, ChannelStatus) io" where
  "channelSteps cr ord api net componentsReady messages channel status =
     (if messages \<noteq> [] then ioReturn (status\<lparr>chs_Message := joinWith ''; '' messages\<rparr>)
      else if \<not> componentsReady then ioReturn (status\<lparr>chs_Message := ''Waiting for Fabric components before channel bootstrap''\<rparr>)
      else case desiredOrdererInstances net of
             [] \<Rightarrow> ioFail (OtherError ''runtime error: index out of range [0] with length 0'')
           | orderer # _ \<Rightarrow> channelBootstrap cr ord api net channel (oi_org orderer) status)"

definition channelReady :: "ChannelStatus \<Rightarrow> bool" where
  "channelReady status \<longleftrightarrow>
     ws_Ready (chs_Orderers status) \<ge> ws_Desired (chs_Orderers status) \<and> ws_Ready (chs_Peers status) \<ge> ws_Desired (chs_Peers status) \<and>
     ws_Desired (chs_Orderers status) > 0 \<and> ws_Desired (chs_Peers status) > 0 \<and> channelExternalOrgsReady (chs_ExternalOrgs status) \<and>
     (case chs_RaftUpdate status of None \<Rightarrow> True | Some raft \<Rightarrow> rus_Ready raft) \<and> chs_Message status = []"

definition channelRaftStep ::
  "Crypto \<Rightarrow> 's Cluster \<Rightarrow> FabricNetwork \<Rightarrow> Channel \<Rightarrow> ChannelStatus \<Rightarrow> ('s, ChannelStatus) io" where
  "channelRaftStep cr cl net channel status =
     (case ch_RaftUpdate channel of
        None \<Rightarrow> ioReturn status
      | Some op \<Rightarrow>
          if chs_Message status \<noteq> [] then ioReturn status
          else ioBind (reconcileRaftUpdate cr cl net channel op) (\<lambda>raft.
               ioReturn (status\<lparr>chs_RaftUpdate := Some raft, chs_Message := rus_Message raft\<rparr>)))"

definition reconcileChannel ::
  "Crypto \<Rightarrow> maporder \<Rightarrow> 's Cluster \<Rightarrow> FabricNetwork \<Rightarrow> OrgStatus list \<Rightarrow> Channel \<Rightarrow> ('s, ChannelStatus) io" where
  "reconcileChannel cr ord cl net orgStatuses channel =
     (let readyOrgs = readyOrgsByName orgStatuses;
          messages = channelMessages net channel @ concat (map (\<lambda>channelOrg. snd (initialOrgStatus net readyOrgs channelOrg)) (ch_Orgs channel))
      in ioBind (channelSteps cr ord (cl_Kube cl) net (allOrgsReady orgStatuses) messages channel (initialChannelStatus net readyOrgs channel)) (\<lambda>status.
         ioBind (channelRaftStep cr cl net channel status) (\<lambda>status1.
           ioReturn (status1\<lparr>chs_Ready := channelReady status1\<rparr>))))"

fun channelLoopIO ::
  "Crypto \<Rightarrow> maporder \<Rightarrow> 's Cluster \<Rightarrow> FabricNetwork \<Rightarrow> OrgStatus list \<Rightarrow> ChannelStatus list \<Rightarrow> Channel list \<Rightarrow> ('s, ChannelStatus) stage" where
  "channelLoopIO cr ord cl net orgStatuses statuses [] s = ((statuses, None), s)"
| "channelLoopIO cr ord cl net orgStatuses statuses (channel # channels) s =
     (case reconcileChannel cr ord cl net orgStatuses channel s of
        (Inl e, s1) \<Rightarrow> ((statuses, Some e), s1)
      | (Inr status, s1) \<Rightarrow> channelLoopIO cr ord cl net orgStatuses (statuses @ [status]) channels s1)"

definition reconcileChannels :: "Crypto \<Rightarrow> maporder \<Rightarrow> 's Cluster \<Rightarrow> FabricNetwork \<Rightarrow> OrgStatus list \<Rightarrow> ('s, ChannelStatus) stage" where
  "reconcileChannels cr ord cl net orgStatuses = channelLoopIO cr ord cl net orgStatuses [] (sp_Channels (fn_Spec net))"

end
