(* ===== verification/Network_Status.thy ===== *)
theory Network_Status
  imports Network_Reconcile
begin

text \<open>
  What a run of \<open>Reconcile\<close> reports and when it acts. Every effect of the reconciler is a call of the
  cluster, so a predicate on the state that survives the calls survives the run (\<open>apiKeeps\<close>); with the
  status patch left out of the premises this says which statuses are ever written.
\<close>

section \<open>Predicates that survive every call\<close>

definition apiKeeps :: "('s \<Rightarrow> bool) \<Rightarrow> 's Cluster \<Rightarrow> bool" where
  "apiKeeps Q cl \<longleftrightarrow>
     (\<forall>k. ioKeeps Q (k_Get (cl_Kube cl) k)) \<and> (\<forall>ob. ioKeeps Q (k_Create (cl_Kube cl) ob)) \<and> (\<forall>ob. ioKeeps Q (k_Update (cl_Kube cl) ob)) \<and>
     ioKeeps Q (ioNow (cl_Kube cl)) \<and> (\<forall>n. ioKeeps Q (k_RandInt (cl_Kube cl) n)) \<and>
     (\<forall>ob. ioKeeps Q (cl_Delete cl ob)) \<and> (\<forall>kind ns sel. ioKeeps Q (cl_List cl kind ns sel))"

lemma apiKeepsD:
  assumes "apiKeeps Q cl"
  shows "ioKeeps Q (k_Get (cl_Kube cl) k)" "ioKeeps Q (k_Create (cl_Kube cl) ob)" "ioKeeps Q (k_Update (cl_Kube cl) ob)"
    "ioKeeps Q (ioNow (cl_Kube cl))" "ioKeeps Q (k_RandInt (cl_Kube cl) n)" "ioKeeps Q (cl_Delete cl ob)"
    "ioKeeps Q (cl_List cl kind ns sel)"
  using assms unfolding apiKeeps_def by blast+

lemma ioKeepsD: "ioKeeps Q f \<Longrightarrow> Q s \<Longrightarrow> Q (snd (f s))"
  by (simp add: ioKeeps_def)

lemma ioKeeps_bind_post:
  "ioKeeps Q f \<Longrightarrow> (\<And>a s. Q s \<Longrightarrow> fst (f s) = Inr a \<Longrightarrow> ioKeeps Q (g a)) \<Longrightarrow> ioKeeps Q (ioBind f g)"
  by (fastforce simp: ioKeeps_def ioBind_def split: prod.splits sum.splits)

lemma ioKeeps_fail [simp]: "ioKeeps Q (\<lambda>s. (Inl e, s))" "ioKeeps Q (ioLift r)"
  by (simp_all add: ioKeeps_def ioLift_def)

lemma keeps_retry: "ioKeeps Q attempt \<Longrightarrow> ioKeeps Q (retryOnConflict n attempt)"
proof (induction n)
  case (Suc n)
  have "Q (snd (retryOnConflict (Suc n) attempt s))" if "Q s" for s
  proof (cases "attempt s")
    case (Pair r s1)
    have "Q s1" using ioKeepsD [OF Suc.prems that] Pair by simp
    then have "Q (snd (retryOnConflict n attempt s1))" by (rule ioKeepsD [OF Suc.IH [OF Suc.prems]])
    with Pair \<open>Q s1\<close> show ?thesis by (simp split: sum.splits ApiError.splits)
  qed
  then show ?case by (simp add: ioKeeps_def)
qed (simp add: ioKeeps_def)

lemma keeps_createOrUpdate:
  assumes "apiKeeps Q cl"
  shows "ioKeeps Q (createOrUpdate (cl_Kube cl) desired mutate)"
proof -
  have get: "Q s \<Longrightarrow> k_Get (cl_Kube cl) k s = (r, s1) \<Longrightarrow> Q s1" for k s r s1
    using ioKeepsD [OF apiKeepsD(1) [OF assms], of s k] by simp
  have "ioKeeps Q (updateAttempt (cl_Kube cl) desired mutate)"
    unfolding ioKeeps_def updateAttempt_def
    by (auto dest: get intro!: ioKeepsD [OF apiKeepsD(3) [OF assms]] split: prod.splits sum.splits option.splits bool.splits)
  then have "ioKeeps Q (updateObjectWithRetry (cl_Kube cl) desired mutate)"
    unfolding updateObjectWithRetry_def by (rule keeps_retry)
  then show ?thesis
    unfolding ioKeeps_def createOrUpdate_def
    by (auto dest: get intro!: ioKeepsD [OF apiKeepsD(2) [OF assms]] split: prod.splits sum.splits ApiError.splits)
qed

lemma keeps_reads:
  assumes "apiKeeps Q cl"
  shows "ioKeeps Q (getSecret (cl_Kube cl) ns n)" "ioKeeps Q (getJob (cl_Kube cl) ns n)" "ioKeeps Q (getDeployment (cl_Kube cl) ns n)"
    "ioKeeps Q (generateBootstrapPassword (cl_Kube cl))"
proof -
  have get: "Q s \<Longrightarrow> k_Get (cl_Kube cl) k s = (r, s1) \<Longrightarrow> Q s1" for k s r s1
    using ioKeepsD [OF apiKeepsD(1) [OF assms], of s k] by simp
  show "ioKeeps Q (getSecret (cl_Kube cl) ns n)" "ioKeeps Q (getJob (cl_Kube cl) ns n)" "ioKeeps Q (getDeployment (cl_Kube cl) ns n)"
    unfolding ioKeeps_def getSecret_def getJob_def getDeployment_def
    by (auto dest: get split: prod.splits sum.splits ApiError.splits KObject.splits)
  have "ioKeeps Q (randomChars (cl_Kube cl) m)" for m
    by (induction m) (auto intro!: ioKeeps_bind apiKeepsD [OF assms])
  then show "ioKeeps Q (generateBootstrapPassword (cl_Kube cl))" by (simp add: generateBootstrapPassword_def)
qed

lemma keeps_delete: "apiKeeps Q cl \<Longrightarrow> ioKeeps Q (deleteOwnedObject cl ob owner)"
  unfolding deleteOwnedObject_def by (auto intro: apiKeepsD split: option.splits)

lemmas ensure_defs = ensureSecret_def upsertSecretData_def ensureServiceAccount_def ensureRole_def ensureRoleBinding_def
  ensureService_def ensureNetworkPolicy_def ensureServiceMonitor_def ensureDeployment_def ensurePersistentVolumeClaim_def
  ensureConfigMap_def ensureJob_def ensureNamespace_def

text \<open>The loops.\<close>

lemma keeps_loops:
  assumes "apiKeeps Q cl"
  shows "ioKeeps Q (missingIdentity cr (cl_Kube cl) net rs)" "ioKeeps Q (inventoryLoop cr (cl_Kube cl) now refs)"
    "ioKeeps Q (renewalLoop (cl_Kube cl) net org ns requests statuses messages)" "ioKeeps Q (revisionSeed (cl_Kube cl) ns rrefs seed)"
    "ioKeeps Q (cleanupJobs cl net org ttl now first jobs)" "ioKeeps Q (cleanupOrgs cl net ttl now first orgs)"
proof -
  show "ioKeeps Q (missingIdentity cr (cl_Kube cl) net rs)"
    by (induction rs) (auto intro!: ioKeeps_bind keeps_reads [OF assms])
  show "ioKeeps Q (inventoryLoop cr (cl_Kube cl) now refs)"
    by (induction refs) (auto intro!: ioKeeps_bind keeps_reads [OF assms])
  show "ioKeeps Q (renewalLoop (cl_Kube cl) net org ns requests statuses messages)"
    by (induction requests arbitrary: statuses messages)
      (auto intro!: ioKeeps_bind keeps_reads [OF assms] keeps_createOrUpdate [OF assms] simp: certificateRenewalJobState_def ensureJob_def
        split: prod.splits)
  show "ioKeeps Q (revisionSeed (cl_Kube cl) ns rrefs seed)"
    by (induction rrefs arbitrary: seed) (auto intro!: ioKeeps_bind keeps_reads [OF assms] split: option.splits)
  show jobs: "ioKeeps Q (cleanupJobs cl net org ttl now first jobs)" for org first jobs
    by (induction jobs arbitrary: first) (auto intro!: ioKeeps_bind keeps_delete [OF assms] split: option.splits)
  show "ioKeeps Q (cleanupOrgs cl net ttl now first orgs)"
    by (induction orgs arbitrary: first) (auto intro!: ioKeeps_bind jobs apiKeepsD [OF assms])
qed

section \<open>The stages\<close>

lemma keeps_identity:
  assumes "apiKeeps Q cl"
  shows "ioKeeps Q (reconcileIdentityMaterial cr (cl_Kube cl) net org ns)" "ioKeeps Q (ensureEnrollmentRBAC (cl_Kube cl) net org ns)"
    "ioKeeps Q (reconcileAdminEnrollment cr (cl_Kube cl) net org ns)" "ioKeeps Q (reconcileWorkloadEnrollments cr (cl_Kube cl) net org ns)"
    "ioKeeps Q (identityMaterialStatus cr (cl_Kube cl) net org ns)"
    "ioKeeps Q (reconcileCertificateLifecycle cr (cl_Kube cl) net org ns caReady identityReady blocked)"
    "ioKeeps Q (reconcileCARegistrarRotation cr (cl_Kube cl) net org ns caReady)"
proof -
  note writes = keeps_createOrUpdate [OF assms] and reads = keeps_reads [OF assms] and loops = keeps_loops [OF assms]
  show "ioKeeps Q (reconcileIdentityMaterial cr (cl_Kube cl) net org ns)"
    unfolding reconcileIdentityMaterial_def ensureAdminEnrollmentSecret_def ensureCABootstrapSecret_def
      ensureEnrollmentCredentialSecret_def buildCABootstrapSecret_def buildEnrollmentCredentialSecret_def ensureSecret_def Let_def
    by (auto intro!: ioKeeps_bind ioKeeps_seq writes reads)
  show rbac: "ioKeeps Q (ensureEnrollmentRBAC (cl_Kube cl) net org ns)"
    unfolding ensureEnrollmentRBAC_def ensure_defs by (auto intro!: ioKeeps_bind writes split: prod.splits)
  have enrolled: "ioKeeps Q (fabricCAIdentityEnrolled cr (cl_Kube cl) net ns w a b)" for w a b
    unfolding fabricCAIdentityEnrolled_def by (auto intro!: ioKeeps_bind reads)
  show "ioKeeps Q (reconcileAdminEnrollment cr (cl_Kube cl) net org ns)" "ioKeeps Q (reconcileWorkloadEnrollments cr (cl_Kube cl) net org ns)"
    unfolding reconcileAdminEnrollment_def reconcileWorkloadEnrollments_def reconcileWorkloadEnrollment_def
      adminIdentityEnrolled_def workloadIdentityEnrolled_def ensureJob_def
    by (auto intro!: ioKeeps_bind ioKeeps_seq rbac enrolled writes)
  show "ioKeeps Q (identityMaterialStatus cr (cl_Kube cl) net org ns)"
    unfolding identityMaterialStatus_def by (auto intro!: ioKeeps_bind loops)
  show "ioKeeps Q (reconcileCertificateLifecycle cr (cl_Kube cl) net org ns caReady identityReady blocked)"
    unfolding reconcileCertificateLifecycle_def identityCertificateInventory_def Let_def
    by (auto intro!: ioKeeps_bind apiKeepsD [OF assms] loops rbac split: prod.splits)
  show "ioKeeps Q (reconcileCARegistrarRotation cr (cl_Kube cl) net org ns caReady)"
    unfolding reconcileCARegistrarRotation_def requestedRotation_def runRotation_def getCARegistrarSecret_def
      ensureCARegistrarStagedSecret_def buildCARegistrarStagedSecret_def promoteCARegistrarSecret_def
      caRegistrarRotationJobState_def ensureSecret_def upsertSecretData_def ensureJob_def Let_def
    by (auto intro!: ioKeeps_bind apiKeepsD(4) [OF assms] reads writes rbac split: option.splits prod.splits)
qed

lemma keeps_workloads:
  assumes "apiKeeps Q cl"
  shows "ioKeeps Q (reconcileCA cl net org ns)" "ioKeeps Q (reconcileOrdererList cr cl net org ns status orderers)"
    "ioKeeps Q (reconcilePeers cr cl net org ns)" "ioKeeps Q (ensureOrgPolicies cl net org ns)"
proof -
  note writes = keeps_createOrUpdate [OF assms] and reads = keeps_reads [OF assms] and loops = keeps_loops [OF assms]
  have pvc: "ioKeeps Q (ensureDataPVC cl net org ns w c)" for w c
    unfolding ensureDataPVC_def ensure_defs by (auto intro!: ioKeeps_bind writes)
  have revision: "ioKeeps Q (setDeploymentIdentityRevision cr (cl_Kube cl) d net w)" for d w
    unfolding setDeploymentIdentityRevision_def identityMaterialRevision_def by (auto intro!: ioKeeps_bind loops)
  have ready: "ioKeeps Q (deploymentWorkloadStatus (cl_Kube cl) ns n)" "ioKeeps Q (isDeploymentReady (cl_Kube cl) ns n)" for n
    unfolding isDeploymentReady_def deploymentWorkloadStatus_def by (auto intro!: ioKeeps_bind reads)
  show "ioKeeps Q (reconcileCA cl net org ns)"
    unfolding reconcileCA_def ensure_defs by (auto intro!: ioKeeps_bind writes pvc ready)
  show "ioKeeps Q (reconcileOrdererList cr cl net org ns status orderers)"
  proof (induction orderers arbitrary: status)
    case (Cons x orderers)
    then show ?case
      by (cases x) (auto simp: reconcileOrderer_def ensure_defs Let_def intro!: ioKeeps_bind writes pvc ready revision)
  qed simp
  have couch: "ioKeeps Q (reconcilePeerCouchDB cl net org ns w)" for w
    unfolding reconcilePeerCouchDB_def buildCouchDBSecret_def ensure_defs Let_def by (auto intro!: ioKeeps_bind writes pvc ready reads)
  have peers: "ioKeeps Q (reconcilePeerList cr cl net org ns status instances)" for status instances
    by (induction instances arbitrary: status)
      (auto simp: reconcilePeer_def ensure_defs Let_def intro!: ioKeeps_bind writes pvc ready revision couch)
  have scale: "ioKeeps Q (cleanupScaledDownComponentWorkloads cl net org ns c desired)" for c desired
    unfolding cleanupScaledDownComponentWorkloads_def deleteUndesired_def Let_def
    by (auto intro!: ioKeeps_bind ioKeeps_seq apiKeepsD [OF assms] keeps_delete [OF assms])
  show "ioKeeps Q (reconcilePeers cr cl net org ns)"
    unfolding reconcilePeers_def cleanupScaledDownPeerWorkloads_def by (auto intro!: ioKeeps_bind peers scale split: option.splits)
  have get: "Q s \<Longrightarrow> k_Get (cl_Kube cl) k s = (r, s1) \<Longrightarrow> Q s1" for k s r s1
    using ioKeepsD [OF apiKeepsD(1) [OF assms], of s k] by simp
  have "ioKeeps Q (ensureNetworkPolicyAbsent cl np)" for np
    unfolding ioKeeps_def ensureNetworkPolicyAbsent_def
    by (auto dest: get intro!: ioKeepsD [OF apiKeepsD(6) [OF assms]] split: prod.splits sum.splits ApiError.splits option.splits)
  then show "ioKeeps Q (ensureOrgPolicies cl net org ns)"
    unfolding ensureOrgPolicies_def ensure_defs by (auto intro!: ioKeeps_bind writes)
qed

lemma keeps_org: "apiKeeps Q cl \<Longrightarrow> ioKeeps Q (reconcileOrg cr cl net org)"
  unfolding reconcileOrg_def reconcileOrgWorkloads_def reconcileOrderers_def Let_def case_prod_unfold
  by (auto intro!: ioKeeps_bind keeps_identity keeps_workloads)

lemma keeps_orgs:
  assumes "apiKeeps Q cl" and "Q s"
  shows "Q (snd (orgLoopIO cr cl net statuses orgs s))"
  using assms(2)
proof (induction orgs arbitrary: statuses s)
  case (Cons org orgs)
  from ioKeepsD [OF keeps_org [OF assms(1)] Cons.prems, of cr net org] Cons.IH show ?case by (auto split: prod.splits sum.splits)
qed simp

lemma keeps_profiles:
  assumes "apiKeeps Q cl" and "Q s"
  shows "Q (snd (reconcileConnectionProfiles cl net statuses s))"
proof -
  have "ioKeeps Q (loadTLSCACert (cl_Kube cl) ns n)" for ns n
    unfolding loadTLSCACert_def by (intro ioKeeps_bind keeps_reads [OF assms(1)]) (auto simp: ioKeeps_def Let_def split: option.splits)
  then have "ioKeeps Q (loadRoots (cl_Kube cl) roots refs)" for roots refs
    by (induction refs arbitrary: roots) (auto intro!: ioKeeps_bind)
  then have roots: "ioKeeps Q (loadConnectionProfileTLSRoots (cl_Kube cl) net)"
    unfolding loadConnectionProfileTLSRoots_def by (auto intro!: ioKeeps_bind)
  have loop: "Q (snd (profileLoop cl net tlsRoots written statuses s))" if "Q s" for tlsRoots written s
    using that
  proof (induction statuses arbitrary: written s)
    case (Cons status statuses)
    have "Q s1" if "ensureConfigMap (cl_Kube cl) profile s = (r, s1)" for profile r s1
      using ioKeepsD [OF keeps_createOrUpdate [OF assms(1)] Cons.prems] that unfolding ensureConfigMap_def by (metis snd_conv)
    with Cons show ?case by (auto split: option.splits sum.splits prod.splits)
  qed simp
  from ioKeepsD [OF roots assms(2)] loop assms(2) show ?thesis
    by (auto simp: reconcileConnectionProfiles_def split: prod.splits sum.splits)
qed

section \<open>Conditions\<close>

definition conditionTypes :: "string list" where
  "conditionTypes = [conditionReady, conditionIdentityMaterialReady, conditionCertificateLifecycleReady, conditionChannelsReady,
     conditionObservabilityReady]"

lemma conditionTypes_distinct: "distinct conditionTypes"
  by (simp add: conditionTypes_def condition_names)

text \<open>The condition of a type, as a report; \<open>None\<close> when it is absent.\<close>

definition reported :: "Condition list \<Rightarrow> string \<Rightarrow> (ConditionStatus \<times> string \<times> string \<times> int) option" where
  "reported cs ty = map_option conditionReport (findCondition ty cs)"

context cluster
begin

lemma setConditionNow_reported:
  assumes "fst (setConditionNow cl net ty (st, reason, message) cs s) = Inr cs'"
  shows "reported cs' ty = Some (st, reason, message, fn_Generation net)" "ty' \<noteq> ty \<Longrightarrow> reported cs' ty' = reported cs ty'"
    "distinct (map cn_Type cs) \<Longrightarrow> distinct (map cn_Type cs')"
proof -
  let ?c = "newCondition net ty (st, reason, message)"
  obtain now where cs': "cs' = cl_SetCondition cl now cs ?c"
    using assms by (auto simp: setConditionNow_def ioBind_Inr ioReturn_def)
  have ty: "cn_Type ?c = ty" by (simp add: newCondition_def)
  show "reported cs' ty = Some (st, reason, message, fn_Generation net)"
    using condition_set [of ?c now cs] by (auto simp: reported_def cs' ty) (simp add: newCondition_def conditionReport_def)
  show "ty' \<noteq> ty \<Longrightarrow> reported cs' ty' = reported cs ty'" using condition_kept [of ty' ?c now cs] by (simp add: reported_def cs' ty)
  show "distinct (map cn_Type cs) \<Longrightarrow> distinct (map cn_Type cs')" using condition_types by (simp add: cs')
qed

lemma networkConditions_reported:
  assumes "fst (networkConditions cl net (s1, r1, m1) (s2, r2, m2) (s3, r3, m3) (s4, r4, m4) (s5, r5, m5) s) = Inr cs"
  shows "reported cs conditionReady = Some (s1, r1, m1, fn_Generation net)"
    "reported cs conditionIdentityMaterialReady = Some (s2, r2, m2, fn_Generation net)"
    "reported cs conditionCertificateLifecycleReady = Some (s3, r3, m3, fn_Generation net)"
    "reported cs conditionChannelsReady = Some (s4, r4, m4, fn_Generation net)"
    "reported cs conditionObservabilityReady = Some (s5, r5, m5, fn_Generation net)"
    "distinct (map cn_Type (fs_Conditions (fn_Status net))) \<Longrightarrow> distinct (map cn_Type cs)"
proof -
  obtain c1 c2 c3 c4 t1 t2 t3 t4 t5 where
    r: "fst (setConditionNow cl net conditionReady (s1, r1, m1) (fs_Conditions (fn_Status net)) t1) = Inr c1"
       "fst (setConditionNow cl net conditionIdentityMaterialReady (s2, r2, m2) c1 t2) = Inr c2"
       "fst (setConditionNow cl net conditionCertificateLifecycleReady (s3, r3, m3) c2 t3) = Inr c3"
       "fst (setConditionNow cl net conditionChannelsReady (s4, r4, m4) c3 t4) = Inr c4"
       "fst (setConditionNow cl net conditionObservabilityReady (s5, r5, m5) c4 t5) = Inr cs"
    using assms by (auto simp: networkConditions_def readyCondition_def identityMaterialCondition_def certificateLifecycleCondition_def
        channelsReadyCondition_def observabilityReadyCondition_def ioBind_Inr)
  note k = setConditionNow_reported(2)
  have ne: "conditionReady \<noteq> conditionIdentityMaterialReady" "conditionReady \<noteq> conditionCertificateLifecycleReady"
      "conditionReady \<noteq> conditionChannelsReady" "conditionReady \<noteq> conditionObservabilityReady"
      "conditionIdentityMaterialReady \<noteq> conditionCertificateLifecycleReady" "conditionIdentityMaterialReady \<noteq> conditionChannelsReady"
      "conditionIdentityMaterialReady \<noteq> conditionObservabilityReady" "conditionCertificateLifecycleReady \<noteq> conditionChannelsReady"
      "conditionCertificateLifecycleReady \<noteq> conditionObservabilityReady" "conditionChannelsReady \<noteq> conditionObservabilityReady"
    by (simp_all add: condition_names)
  show "reported cs conditionReady = Some (s1, r1, m1, fn_Generation net)"
    "reported cs conditionIdentityMaterialReady = Some (s2, r2, m2, fn_Generation net)"
    "reported cs conditionCertificateLifecycleReady = Some (s3, r3, m3, fn_Generation net)"
    "reported cs conditionChannelsReady = Some (s4, r4, m4, fn_Generation net)"
    "reported cs conditionObservabilityReady = Some (s5, r5, m5, fn_Generation net)"
    using setConditionNow_reported(1) [OF r(1)] setConditionNow_reported(1) [OF r(2)] setConditionNow_reported(1) [OF r(3)]
      setConditionNow_reported(1) [OF r(4)] setConditionNow_reported(1) [OF r(5)] k [OF r(2)] k [OF r(3)] k [OF r(4)] k [OF r(5)] ne
    by simp_all
  show "distinct (map cn_Type (fs_Conditions (fn_Status net))) \<Longrightarrow> distinct (map cn_Type cs)"
    using r by (blast dest: setConditionNow_reported(3))
qed

end

section \<open>Honest statuses\<close>

text \<open>
  The status a network may carry: one condition per type, all for the current generation, and a phase
  that agrees with the conditions and the reported parts.
\<close>

definition conditionIs :: "FabricNetwork \<Rightarrow> FabricNetworkStatus \<Rightarrow> string \<Rightarrow> ConditionStatus \<Rightarrow> bool" where
  "conditionIs net st ty v \<longleftrightarrow> (\<exists>reason message. reported (fs_Conditions st) ty = Some (v, reason, message, fn_Generation net))"

definition honestStatus :: "FabricNetwork \<Rightarrow> FabricNetworkStatus \<Rightarrow> bool" where
  "honestStatus net st \<longleftrightarrow>
     distinct (map cn_Type (fs_Conditions st)) \<and> (\<forall>ty \<in> set conditionTypes. \<exists>v. conditionIs net st ty v) \<and>
     (case fs_Phase st of
        PhaseReady \<Rightarrow> networkIsReady (fs_OrgStatus st) (fs_ChannelStatus st) (fs_ChaincodeStatus st) \<and>
          (\<forall>ty \<in> set conditionTypes. conditionIs net st ty ConditionTrue)
      | PhaseCreating \<Rightarrow> \<not> networkIsReady (fs_OrgStatus st) (fs_ChannelStatus st) (fs_ChaincodeStatus st) \<and>
          conditionIs net st conditionReady ConditionFalse \<and>
          (conditionIs net st conditionIdentityMaterialReady ConditionTrue \<longleftrightarrow> identityMaterialReady (fs_OrgStatus st)) \<and>
          (conditionIs net st conditionChannelsReady ConditionTrue \<longleftrightarrow> allChannelsReady (fs_ChannelStatus st)) \<and>
          (conditionIs net st conditionObservabilityReady ConditionTrue \<longleftrightarrow> allOrgsReady (fs_OrgStatus st))
      | PhaseFailed \<Rightarrow> conditionIs net st conditionReady ConditionFalse
      | _ \<Rightarrow> False)"

text \<open>An organization is ready only with its identity material, through all stages.\<close>

lemma org_ready_identity:
  "fst (reconcileOrg cr cl net org s) = Inr status \<Longrightarrow> os_Ready status \<longrightarrow> os_IdentityReady status"
  by (auto simp: reconcileOrg_def reconcileOrgWorkloads_def ioBind_Inr ioReturn_def Let_def case_prod_unfold split: if_splits)

lemma orgs_ready_identity:
  "list_all (\<lambda>status. os_Ready status \<longrightarrow> os_IdentityReady status) statuses \<Longrightarrow>
   list_all (\<lambda>status. os_Ready status \<longrightarrow> os_IdentityReady status) (fst (fst (orgLoopIO cr cl net statuses orgs s)))"
proof (induction orgs arbitrary: statuses s)
  case (Cons org orgs)
  have "list_all (\<lambda>status. os_Ready status \<longrightarrow> os_IdentityReady status) (statuses @ [status])"
    if "reconcileOrg cr cl net org s = (Inr status, s1)" for status s1
    using org_ready_identity [of cr cl net org s status] that Cons.prems by simp
  with Cons show ?case by (auto split: prod.splits sum.splits)
qed simp

lemma profiles_ready_identity:
  assumes "list_all (\<lambda>status. os_Ready status \<longrightarrow> os_IdentityReady status) statuses"
  shows "list_all (\<lambda>status. os_Ready status \<longrightarrow> os_IdentityReady status) (fst (fst (reconcileConnectionProfiles cl net statuses s)))"
proof -
  have "list_all (\<lambda>status. os_Ready status \<longrightarrow> os_IdentityReady status) (fst (fst (profileLoop cl net roots written statuses s)))"
    if "list_all (\<lambda>status. os_Ready status \<longrightarrow> os_IdentityReady status) written"
      "list_all (\<lambda>status. os_Ready status \<longrightarrow> os_IdentityReady status) statuses" for roots written statuses s
    using that by (induction statuses arbitrary: written s) (auto split: option.splits sum.splits prod.splits)
  with assms show ?thesis by (auto simp: reconcileConnectionProfiles_def split: prod.splits sum.splits)
qed

lemma keeps_updateStatus:
  assumes "\<And>a b c s. Q s \<Longrightarrow> Q (cl_Event cl a b c s)" and "ioKeeps Q (cl_PatchStatus cl net st)"
  shows "ioKeeps Q (updateStatus cl net st)"
proof -
  have "ioKeeps Q (phaseEvent cl phase message)" for phase message
    using assms(1) by (auto simp: ioKeeps_def phaseEvent_def split: Phase.splits)
  with assms(2) show ?thesis unfolding updateStatus_def by (auto intro!: ioKeeps_bind)
qed

lemma keeps_conditions: "apiKeeps Q cl \<Longrightarrow> ioKeeps Q (networkConditions cl net a b c d e)"
  unfolding networkConditions_def readyCondition_def identityMaterialCondition_def certificateLifecycleCondition_def
    channelsReadyCondition_def observabilityReadyCondition_def setConditionNow_def
  by (auto intro!: ioKeeps_bind apiKeepsD)

lemma keeps_finalizer:
  assumes "ioKeeps Q (cl_GetNetwork cl key)"
    and "\<And>net s fs. Q s \<Longrightarrow> fst (cl_GetNetwork cl key s) = Inr net \<Longrightarrow> ioKeeps Q (cl_UpdateNetwork cl (net\<lparr>fn_Finalizers := fs\<rparr>))"
  shows "ioKeeps Q (ensureFabricNetworkFinalizer cl key)" "ioKeeps Q (removeFabricNetworkFinalizer cl key)"
proof -
  have same: "addFinalizer net f = net\<lparr>fn_Finalizers := fn_Finalizers (addFinalizer net f)\<rparr>" for net f by (simp add: addFinalizer_def)
  show "ioKeeps Q (ensureFabricNetworkFinalizer cl key)"
    unfolding ensureFabricNetworkFinalizer_def updateFabricNetworkFinalizer_def finalizerAttempt_def
    by (intro keeps_retry ioKeeps_bind_post [OF assms(1)]) (subst same, auto dest: assms(2))
  show "ioKeeps Q (removeFabricNetworkFinalizer cl key)"
    unfolding removeFabricNetworkFinalizer_def updateFabricNetworkFinalizer_def finalizerAttempt_def removeFinalizer_def
    by (intro keeps_retry ioKeeps_bind_post [OF assms(1)]) (auto dest: assms(2))
qed

lemma keeps_finalizeNetwork:
  assumes api: "apiKeeps Q cl" and "ioKeeps Q (removeFabricNetworkFinalizer cl key)"
  shows "ioKeeps Q (finalizeNetwork cl key net)"
proof -
  have g: "Q x \<Longrightarrow> k_Get (cl_Kube cl) k x = (r, y) \<Longrightarrow> Q y" for k x r y
    using ioKeepsD [OF apiKeepsD(1) [OF api], of x k] by simp
  have "ioKeeps Q (cleanupNamespace cl net org)" for org
    unfolding ioKeeps_def cleanupNamespace_def
    by (auto dest: g intro!: ioKeepsD [OF keeps_ignoreNotFound [OF apiKeepsD(6) [OF api]]] split: prod.splits sum.splits ApiError.splits)
  with assms(2) show ?thesis
    unfolding finalizeNetwork_def cleanupFabricNetwork_def by (auto intro!: ioKeeps_bind ioKeeps_seq)
qed

context cluster
begin

lemma honest_finished:
  assumes "distinct (map cn_Type (fs_Conditions (fn_Status net)))"
    and "list_all (\<lambda>status. os_Ready status \<longrightarrow> os_IdentityReady status) orgs"
    and "ready = networkIsReady orgs channels chaincodes"
    and "report = (if ready then readyReport channels chaincodes else pendingReport orgs channels chaincodes)"
    and "fst (networkConditions cl net report (identityReport orgs) (certificateLifecycleConditionStatus orgs)
           (channelsReport channels) (observabilityReport orgs) s) = Inr cs"
  shows "honestStatus net \<lparr>fs_Phase = (if ready then PhaseReady else PhaseCreating), fs_Message = message,
           fs_OrgStatus = orgs, fs_ChannelStatus = channels, fs_ChaincodeStatus = chaincodes, fs_Conditions = cs\<rparr>"
proof -
  have "fst report = (if ready then ConditionTrue else ConditionFalse)"
    by (simp add: assms(4) readyReport_def pendingReport_def)
  then obtain r1 m1 where rep: "report = (if ready then ConditionTrue else ConditionFalse, r1, m1)" by (cases report) auto
  obtain r2 m2 where ident: "identityReport orgs = (if identityMaterialReady orgs then ConditionTrue else ConditionFalse, r2, m2)"
    by (cases "identityMaterialReady orgs") (auto simp: identityReport_def)
  obtain s3 r3 m3 where cert: "certificateLifecycleConditionStatus orgs = (s3, r3, m3)" by (metis prod_cases3)
  have "fst (channelsReport channels) = (if allChannelsReady channels then ConditionTrue else ConditionFalse)"
    by (simp add: channelsReport_def allChannelsReady_def)
  then obtain r4 m4 where chan: "channelsReport channels = (if allChannelsReady channels then ConditionTrue else ConditionFalse, r4, m4)"
    by (cases "channelsReport channels") auto
  obtain r5 m5 where obs: "observabilityReport orgs = (if allOrgsReady orgs then ConditionTrue else ConditionFalse, r5, m5)"
    by (cases "allOrgsReady orgs") (auto simp: observabilityReport_def observabilityReady_def)
  note c = networkConditions_reported [OF assms(5) [unfolded rep ident cert chan obs]]
  have ready: "ready \<Longrightarrow> identityMaterialReady orgs \<and> allChannelsReady channels \<and> allOrgsReady orgs \<and> s3 = ConditionTrue"
    using assms(2,3) cert by (auto simp: networkIsReady_def allOrgsReady_def identityMaterialReady_def list_all_iff)
  show ?thesis
    using c(6) [OF assms(1)] c(1-5) ready assms(3)
    by (auto simp: honestStatus_def conditionIs_def conditionTypes_def split: if_splits)
qed

lemma honest_failed:
  assumes "distinct (map cn_Type (fs_Conditions (fn_Status net)))"
    and "fst (networkConditions cl net (ConditionFalse, r1, m1) i c ch ob s) = Inr cs"
  shows "honestStatus net \<lparr>fs_Phase = PhaseFailed, fs_Message = message, fs_OrgStatus = orgs, fs_ChannelStatus = channels,
           fs_ChaincodeStatus = chaincodes, fs_Conditions = cs\<rparr>"
proof -
  obtain s2 r2 m2 s3 r3 m3 s4 r4 m4 s5 r5 m5 where "i = (s2, r2, m2)" "c = (s3, r3, m3)" "ch = (s4, r4, m4)" "ob = (s5, r5, m5)"
    by (metis prod_cases3)
  from networkConditions_reported [OF assms(2) [unfolded this]] assms(1) show ?thesis
    by (auto simp: honestStatus_def conditionIs_def conditionTypes_def)
qed

text \<open>The ways a run ends, when the patch of an honest status keeps \<open>Q\<close>.\<close>

lemma keeps_ends:
  assumes api: "apiKeeps Q cl" and event: "\<And>a b c s. Q s \<Longrightarrow> Q (cl_Event cl a b c s)"
    and dist: "distinct (map cn_Type (fs_Conditions (fn_Status net)))"
    and patch: "\<And>status. honestStatus net status \<Longrightarrow> ioKeeps Q (cl_PatchStatus cl net status)"
  shows "ioKeeps Q (failReconcile cl net failure e orgs channels chaincodes report observability)"
    "ioKeeps Q (rejectTopology cl net problems)"
    "list_all (\<lambda>status. os_Ready status \<longrightarrow> os_IdentityReady status) orgs \<Longrightarrow> ioKeeps Q (finishReconcile cl net orgs channels chaincodes)"
proof -
  have update: "ioKeeps Q (updateStatus cl net status)" if "honestStatus net status" for status
    using keeps_updateStatus event patch [OF that] by blast
  note conds = keeps_conditions [OF api]
  have drop: "ioKeeps Q f \<Longrightarrow> ioKeeps Q ((\<lambda>s. case f s of (_, s1) \<Rightarrow> (Inl e, s1)) :: ('s, int) io)" for f :: "('s, unit) io"
    by (auto simp: ioKeeps_def case_prod_unfold)
  show "ioKeeps Q (failReconcile cl net failure e orgs channels chaincodes report observability)"
    unfolding failReconcile_def Let_def
    by (rule drop, rule ioKeeps_bind_post [OF conds], rule update, erule honest_failed [OF dist])
  show "ioKeeps Q (rejectTopology cl net problems)"
    unfolding rejectTopology_def topologyInvalidConditions_def Let_def
    by (rule ioKeeps_bind_post [OF conds], rule ioKeeps_bind, rule update, erule honest_failed [OF dist], simp)
  have jobs: "ioKeeps Q (cleanupSucceededJobs cl net)"
    unfolding cleanupSucceededJobs_def by (auto intro!: ioKeeps_bind apiKeepsD(4) [OF api] keeps_loops [OF api] split: option.splits)
  show "ioKeeps Q (finishReconcile cl net orgs channels chaincodes)"
    if "list_all (\<lambda>status. os_Ready status \<longrightarrow> os_IdentityReady status) orgs"
    unfolding finishReconcile_def Let_def
    by (rule ioKeeps_bind_post [OF conds], rule ioKeeps_bind, rule update, erule honest_finished [OF dist that refl refl])
      (auto intro!: ioKeeps_bind jobs)
qed

lemma keeps_stages:
  assumes api: "apiKeeps Q cl" and event: "\<And>a b c s. Q s \<Longrightarrow> Q (cl_Event cl a b c s)"
    and dist: "distinct (map cn_Type (fs_Conditions (fn_Status net)))"
    and patch: "\<And>status. honestStatus net status \<Longrightarrow> ioKeeps Q (cl_PatchStatus cl net status)"
    and stages: "\<And>orgs s. Q s \<Longrightarrow> Q (snd (st_Channels st net orgs s))" "\<And>channels s. Q s \<Longrightarrow> Q (snd (st_Chaincodes st net channels s))"
  shows "ioKeeps Q (reconcileStages cr cl st net)"
  unfolding ioKeeps_def
proof (intro allI impI)
  fix s assume Q: "Q s"
  obtain orgs e1 s1 where r1: "reconcileOrgs cr cl net s = ((orgs, e1), s1)" by (metis prod.collapse)
  have q1: "Q s1" using keeps_orgs [OF api Q, of cr net "[]" "sp_Orgs (fn_Spec net)"] r1 by (simp add: reconcileOrgs_def)
  have i1: "list_all (\<lambda>status. os_Ready status \<longrightarrow> os_IdentityReady status) orgs"
    using orgs_ready_identity [of "[]" cr cl net "sp_Orgs (fn_Spec net)" s] r1 by (simp add: reconcileOrgs_def)
  obtain channels e2 s2 where r2: "st_Channels st net orgs s1 = ((channels, e2), s2)" by (metis prod.collapse)
  have q2: "Q s2" using stages(1) [OF q1, of orgs] r2 by simp
  obtain chaincodes e3 s3 where r3: "st_Chaincodes st net channels s2 = ((chaincodes, e3), s3)" by (metis prod.collapse)
  have q3: "Q s3" using stages(2) [OF q2, of channels] r3 by simp
  obtain orgs' e4 s4 where r4: "reconcileConnectionProfiles cl net orgs s3 = ((orgs', e4), s4)" by (metis prod.collapse)
  have q4: "Q s4" using keeps_profiles [OF api q3, of net orgs] r4 by simp
  have i4: "list_all (\<lambda>status. os_Ready status \<longrightarrow> os_IdentityReady status) orgs'"
    using profiles_ready_identity [OF i1, of cl net s3] r4 by simp
  have fail: "Q (snd (failReconcile cl net failure e orgs channels chaincodes report observability x))" if "Q x"
    for failure e orgs channels chaincodes report observability x
    using ioKeepsD [OF keeps_ends(1) [OF api _ dist] that] event patch by blast
  have finish: "Q (snd (finishReconcile cl net orgs' channels chaincodes s4))"
    using ioKeepsD [OF keeps_ends(3) [OF api _ dist _ i4] q4] event patch by blast
  show "Q (snd (reconcileStages cr cl st net s))"
    using finish fail [OF q1] fail [OF q2] fail [OF q3] fail [OF q4]
    by (simp add: reconcileStages_def r1 r2 r3 r4 split: option.splits)
qed

text \<open>Every status a run writes is honest, whatever the server answers.\<close>

lemma keeps_Reconcile:
  assumes Q: "Q s" and api: "apiKeeps Q cl" and get: "ioKeeps Q (cl_GetNetwork cl key)"
    and event: "\<And>a b c s. Q s \<Longrightarrow> Q (cl_Event cl a b c s)"
    and fin: "\<And>net s fs. Q s \<Longrightarrow> fst (cl_GetNetwork cl key s) = Inr net \<Longrightarrow> ioKeeps Q (cl_UpdateNetwork cl (net\<lparr>fn_Finalizers := fs\<rparr>))"
    and stages: "\<And>net orgs s. Q s \<Longrightarrow> Q (snd (st_Channels st net orgs s))" "\<And>net channels s. Q s \<Longrightarrow> Q (snd (st_Chaincodes st net channels s))"
    and dist: "\<And>net s. Q s \<Longrightarrow> fst (cl_GetNetwork cl key s) = Inr net \<Longrightarrow> distinct (map cn_Type (fs_Conditions (fn_Status net)))"
    and patch: "\<And>net s status. Q s \<Longrightarrow> fst (cl_GetNetwork cl key s) = Inr net \<Longrightarrow> honestStatus net status \<Longrightarrow>
          ioKeeps Q (cl_PatchStatus cl net status)"
  shows "Q (snd (Reconcile cr cl st key s))"
proof (cases "cl_GetNetwork cl key s")
  case (Pair r s1)
  have q1: "Q s1" using ioKeepsD [OF get Q] Pair by simp
  have finalizer: "ioKeeps Q (ensureFabricNetworkFinalizer cl key)" "ioKeeps Q (removeFabricNetworkFinalizer cl key)"
    using keeps_finalizer [OF get] fin by blast+
  have "Q (snd (finalizeNetwork cl key net s1))" "Q (snd (ioBind (if c then ioReturn () else ensureFabricNetworkFinalizer cl key) (\<lambda>_.
      if d then rejectTopology cl net p else reconcileStages cr cl st net) s1))" if "r = Inr net" for net c d p
  proof -
    have net: "fst (cl_GetNetwork cl key s) = Inr net" using Pair that by simp
    have "ioKeeps Q (finalizeNetwork cl key net)" by (rule keeps_finalizeNetwork [OF api finalizer(2)])
    then show "Q (snd (finalizeNetwork cl key net s1))" using q1 by (rule ioKeepsD)
    have "ioKeeps Q (reconcileStages cr cl st net)" "ioKeeps Q (rejectTopology cl net p)"
      using keeps_stages [OF api _ dist [OF Q net]] keeps_ends(2) [OF api _ dist [OF Q net]] event patch [OF Q net] stages by blast+
    then show "Q (snd (ioBind (if c then ioReturn () else ensureFabricNetworkFinalizer cl key) (\<lambda>_.
      if d then rejectTopology cl net p else reconcileStages cr cl st net) s1))"
      using finalizer(1) by (intro ioKeepsD [where Q = Q, OF ioKeeps_bind q1]) auto
  qed
  with Pair q1 show ?thesis by (auto simp: Reconcile_def split: sum.splits ApiError.splits)
qed

end

section \<open>The memory cluster\<close>

lemma nextFault_rest: "nextFault s = (f, s1) \<Longrightarrow> mem_networks s1 = mem_networks s \<and> (mem_faults s = [] \<longrightarrow> f = NoFault \<and> s1 = s)"
  by (auto simp: nextFault_def split: list.splits)

lemma mem_networks_ops [simp]:
  "mem_networks (snd (memGet k s)) = mem_networks s" "mem_networks (snd (memWrite ob s)) = mem_networks s"
  "mem_networks (snd (memRand n s)) = mem_networks s" "mem_networks (snd (memDelete ob s)) = mem_networks s"
  "mem_networks (snd (memList kind ns sel s)) = mem_networks s" "mem_networks (snd (memGetNetwork key s)) = mem_networks s"
  by (auto simp: memGet_def memWrite_def memRand_def memDelete_def memList_def memGetNetwork_def memPut_def memDrop_def
      dest!: nextFault_rest split: prod.splits Fault.splits option.splits list.splits)

lemma memc_select [simp]:
  "cl_Kube memCluster = memKube" "cl_Delete memCluster = memDelete" "cl_List memCluster = memList" "cl_GetNetwork memCluster = memGetNetwork"
  "cl_UpdateNetwork memCluster = memWriteNetwork" "cl_PatchStatus memCluster = memPatchStatus"
  "cl_Event memCluster a b c s = s\<lparr>mem_events := mem_events s @ [(a, b, c)]\<rparr>"
  by (simp_all add: memCluster_def)

lemma mem_apiKeeps: "apiKeeps (\<lambda>s. P (mem_networks s)) memCluster"
  unfolding apiKeeps_def by (simp add: ioKeeps_def memKube_def ioNow_def)

lemma memGetNetwork_Some: "fst (memGetNetwork key s) = Inr net \<Longrightarrow> map_of (mem_networks s) key = Some net"
  by (auto simp: memGetNetwork_def split: prod.splits Fault.splits option.splits)

lemma memPutNetwork_lookup:
  "map_of (mem_networks (memPutNetwork net s)) key =
     (if key \<noteq> networkKey net then map_of (mem_networks s) key
      else if fn_DeletionTimestamp net \<noteq> None \<and> fn_Finalizers net = [] then None else Some net)"
  by (auto simp: memPutNetwork_def map_of_drop map_of_go_set)

lemma memWriteNetwork_networks:
  "mem_networks (snd (memWriteNetwork net s)) = mem_networks s \<or> mem_networks (snd (memWriteNetwork net s)) = mem_networks (memPutNetwork net s)"
proof (cases "nextFault s")
  case (Pair f s1)
  then have "mem_networks s1 = mem_networks s" using nextFault_rest by blast
  then have "mem_networks (memPutNetwork net s1) = mem_networks (memPutNetwork net s)" by (simp add: memPutNetwork_def)
  with Pair \<open>mem_networks s1 = mem_networks s\<close> show ?thesis by (auto simp: memWriteNetwork_def split: Fault.splits)
qed

lemma honestStatus_generation: "fn_Generation a = fn_Generation b \<Longrightarrow> honestStatus a st = honestStatus b st"
proof -
  assume "fn_Generation a = fn_Generation b"
  then have "conditionIs a = conditionIs b" by (simp add: conditionIs_def fun_eq_iff)
  then show ?thesis unfolding honestStatus_def by (simp only:)
qed

text \<open>The stored network is the one it was, but for its finalizers and an honest status.\<close>

definition honestStore :: "FabricNetwork \<Rightarrow> string \<times> string \<Rightarrow> ((string \<times> string) \<times> FabricNetwork) list \<Rightarrow> bool" where
  "honestStore net0 key networks \<longleftrightarrow>
     (\<forall>net. map_of networks key = Some net \<longrightarrow> networkKey net = key \<and> fn_Generation net = fn_Generation net0 \<and>
        (fn_Status net = fn_Status net0 \<or> honestStatus net (fn_Status net)))"

lemma honestStore_write:
  assumes "honestStore net0 key (mem_networks s)" and "networkKey net = key" and "fn_Generation net = fn_Generation net0"
    and "fn_Status net = fn_Status net0 \<or> honestStatus net (fn_Status net)"
  shows "honestStore net0 key (mem_networks (snd (memWriteNetwork net s)))"
  using memWriteNetwork_networks [of net s] assms by (auto simp: honestStore_def memPutNetwork_lookup split: if_splits)

section \<open>Properties\<close>


definition quietStages :: "MemStore Stages" where
  "quietStages = \<lparr>st_Channels = (\<lambda>_ _ s. (([], None), s)), st_Chaincodes = (\<lambda>_ _ s. (([], None), s))\<rparr>"

definition bareNetwork :: FabricNetwork where
  "bareNetwork = tinyNetwork\<lparr>fn_Finalizers := [fabricNetworkFinalizer], fn_Spec := (fn_Spec tinyNetwork)\<lparr>sp_Orgs := []\<rparr>\<rparr>"

definition networkStore :: "FabricNetwork \<Rightarrow> KObject list \<Rightarrow> MemStore" where
  "networkStore net obs = (storeOf obs)\<lparr>mem_networks := [(networkKey net, net)]\<rparr>"


text \<open>
  Claim C18. An invalid topology is reported and otherwise left alone: a run on a network that is not
  being deleted and does not validate reads and writes nothing but the network resource. Whatever
  predicate on the state survives reading it, updating it, patching its status, recording events and
  reading the clock survives the run; the run requeues nothing.
\<close>

theorem invalid_topology_inert:
  assumes "\<And>net. fst (cl_GetNetwork cl key s) = Inr net \<Longrightarrow>
      fn_DeletionTimestamp net = None \<and> validateFabricNetworkTopology cr net \<noteq> []"
    and "ioKeeps Q (cl_GetNetwork cl key)" and "\<And>net. ioKeeps Q (cl_UpdateNetwork cl net)"
    and "\<And>net status. ioKeeps Q (cl_PatchStatus cl net status)" and "\<And>a b c x. Q x \<Longrightarrow> Q (cl_Event cl a b c x)"
    and "ioKeeps Q (ioNow (cl_Kube cl))" and "Q s"
  shows "Q (snd (Reconcile cr cl st key s)) \<and> (\<forall>requeue. fst (Reconcile cr cl st key s) = Inr requeue \<longrightarrow> requeue = 0)"
proof (cases "cl_GetNetwork cl key s")
  case (Pair r s1)
  have q1: "Q s1" using ioKeepsD [OF assms(2,7)] Pair by simp
  have fin: "ioKeeps Q (ensureFabricNetworkFinalizer cl key)"
    unfolding ensureFabricNetworkFinalizer_def updateFabricNetworkFinalizer_def finalizerAttempt_def
    by (intro keeps_retry ioKeeps_bind assms(2)) (auto intro: assms(3))
  have reject: "ioKeeps Q (rejectTopology cl net problems)" for net problems
    unfolding rejectTopology_def topologyInvalidConditions_def networkConditions_def readyCondition_def identityMaterialCondition_def
      certificateLifecycleCondition_def channelsReadyCondition_def observabilityReadyCondition_def setConditionNow_def Let_def
    using keeps_updateStatus [of Q cl] assms(4,5) by (intro ioKeeps_bind assms(6)) auto
  have zero: "fst (rejectTopology cl net problems x) = Inr requeue \<Longrightarrow> requeue = 0" for net problems x requeue
    by (auto simp: rejectTopology_def Let_def ioBind_Inr ioReturn_def)
  show ?thesis
  proof (cases r)
    case (Inl e)
    with Pair q1 show ?thesis by (auto simp: Reconcile_def split: ApiError.splits)
  next
    case (Inr net)
    let ?f = "if containsFinalizer net fabricNetworkFinalizer then ioReturn () else ensureFabricNetworkFinalizer cl key"
    let ?problems = "validateFabricNetworkTopology cr net"
    have "fn_DeletionTimestamp net = None \<and> ?problems \<noteq> []" using assms(1) Pair Inr by simp
    with Pair Inr have run: "Reconcile cr cl st key s = ioBind ?f (\<lambda>_. rejectTopology cl net ?problems) s1" by (simp add: Reconcile_def)
    have "ioKeeps Q (ioBind ?f (\<lambda>_. rejectTopology cl net ?problems))" using fin reject by (intro ioKeeps_bind) auto
    with q1 run ioKeepsD show ?thesis by (auto simp: ioBind_Inr dest: zero)
  qed
qed

theorem invalid_topology_inert_witness:
  "mem_objects (snd (Reconcile toy_crypto memCluster quietStages (networkKey bareNetwork)
     (networkStore bareNetwork [OSecret (otherSecret ''net-a'' ''old'')]))) =
   mem_objects (networkStore bareNetwork [OSecret (otherSecret ''net-a'' ''old'')])"
proof -
  let ?s = "networkStore bareNetwork [OSecret (otherSecret ''net-a'' ''old'')]" and ?key = "networkKey bareNetwork"
  let ?Q = "\<lambda>s. mem_objects s = mem_objects ?s"
  have objects: "mem_objects (snd (memGetNetwork key x)) = mem_objects x" "mem_objects (snd (memWriteNetwork net x)) = mem_objects x"
    for key net x
    by (auto simp: memGetNetwork_def memWriteNetwork_def memPutNetwork_def dest!: nextFault_objects split: prod.splits Fault.splits option.splits)
  have bare: "fn_DeletionTimestamp bareNetwork = None" "validateFabricNetworkTopology toy_crypto bareNetwork \<noteq> []" by code_simp+
  have "?Q (snd (Reconcile toy_crypto memCluster quietStages ?key ?s)) \<and>
      (\<forall>requeue. fst (Reconcile toy_crypto memCluster quietStages ?key ?s) = Inr requeue \<longrightarrow> requeue = 0)"
  proof (rule invalid_topology_inert)
    show "fn_DeletionTimestamp net = None \<and> validateFabricNetworkTopology toy_crypto net \<noteq> []"
      if "fst (cl_GetNetwork memCluster ?key ?s) = Inr net" for net
      using memGetNetwork_Some [of ?key ?s net] that bare by (simp add: networkStore_def)
  qed (simp_all add: ioKeeps_def objects memPatchStatus_def ioNow_def memKube_def split: option.splits)
  then show ?thesis ..
qed

end
