(* ===== verification/Channel_Evidence.thy ===== *)
theory Channel_Evidence
  imports Channels Network_Status
begin

text \<open>
  What a channel's status rests on. Every run reads result ConfigMaps and Jobs; \<open>loggedCluster\<close> is any
  cluster that also keeps the objects its reads returned. A channel that is reported ready has, among
  the objects read in that very run, the published result or the finished Job for every orderer and
  every peer, whatever the cluster does in between.
\<close>

section \<open>What the calls of the cluster keep, the channel stage keeps\<close>

lemma keeps_fail [simp]: "ioKeeps Q (ioFail e)"
  by (simp add: ioKeeps_def ioFail_def)

lemma keeps_try [intro]: "ioKeeps Q f \<Longrightarrow> ioKeeps Q (ioTry f)"
  by (auto simp: ioKeeps_def ioTry_def split: prod.splits)

lemma keeps_getConfigMap: "apiKeeps Q cl \<Longrightarrow> ioKeeps Q (getConfigMap (cl_Kube cl) ns n)"
proof -
  assume "apiKeeps Q cl"
  then have get: "Q s \<Longrightarrow> Q (snd (k_Get (cl_Kube cl) k s))" for k s by (rule ioKeepsD [OF apiKeepsD(1)])
  show ?thesis unfolding ioKeeps_def getConfigMap_def
  proof (intro allI impI)
    fix s assume "Q s"
    from get [OF this, of "(KConfigMap, ns, n)"]
    show "Q (snd (case k_Get (cl_Kube cl) (KConfigMap, ns, n) s of (Inl NotFound, s1) \<Rightarrow> (Inr None, s1)
        | (Inl e, s1) \<Rightarrow> (Inl e, s1) | (Inr (OConfigMap c), s1) \<Rightarrow> (Inr (Some c), s1)
        | (Inr _, s1) \<Rightarrow> (Inl (OtherError ''decode ConfigMap''), s1)))"
      by (auto split: prod.splits sum.splits ApiError.splits KObject.splits)
  qed
qed

text \<open>The calls a step is made of.\<close>

lemma keeps_calls:
  assumes "apiKeeps Q cl"
  shows "ioKeeps Q (ensureConfigMap (cl_Kube cl) cm)" "ioKeeps Q (ensureJob (cl_Kube cl) job)"
    "ioKeeps Q (ensureReplicatedSecret (cl_Kube cl) sec)" "ioKeeps Q (getConfigMap (cl_Kube cl) ns n)"
    "ioKeeps Q (getJob (cl_Kube cl) ns n)" "ioKeeps Q (getSecret (cl_Kube cl) ns n)"
    "ioKeeps Q (ensureChannelRBAC (cl_Kube cl) net org ch ns)" "ioKeeps Q (ioNow (cl_Kube cl))"
  unfolding ensure_defs ensureReplicatedSecret_def ensureChannelRBAC_def
  by (auto intro!: ioKeeps_bind keeps_createOrUpdate [OF assms] keeps_getConfigMap [OF assms] keeps_reads [OF assms] apiKeepsD [OF assms]
      split: prod.splits)

lemma keeps_copies:
  assumes "apiKeeps Q cl"
  shows "ioKeeps Q (ensureCopiedSecret (cl_Kube cl) src ns n labels annotations)"
    "ioKeeps Q (ensureChannelCryptoSecrets (cl_Kube cl) net channel org ns)"
    "ioKeeps Q (ensureChannelBlockConfigMapCopy (cl_Kube cl) net channel ns' org ns)"
    "ioKeeps Q (channelBlockReadiness (cl_Kube cl) ns ch)"
    "ioKeeps Q (reconcileChannelBlockGeneration (cl_Kube cl) net channel org ns)"
proof -
  note calls = keeps_calls [OF assms]
  show copied: "ioKeeps Q (ensureCopiedSecret (cl_Kube cl) src ns n labels annotations)" for src ns n labels annotations
    unfolding ensureCopiedSecret_def by (auto intro!: ioKeeps_bind calls split: option.splits)
  show crypto: "ioKeeps Q (ensureChannelCryptoSecrets (cl_Kube cl) net channel org ns)"
    unfolding ensureChannelCryptoSecrets_def Let_def by (auto intro!: ioKeeps_seq copied)
  show "ioKeeps Q (ensureChannelBlockConfigMapCopy (cl_Kube cl) net channel ns' org ns)"
    unfolding ensureChannelBlockConfigMapCopy_def ensureChannelConfigMapNamedCopy_def by (auto intro!: ioKeeps_bind calls split: option.splits)
  show ready: "ioKeeps Q (channelBlockReadiness (cl_Kube cl) ns ch)" for ch
    unfolding channelBlockReadiness_def by (auto intro!: ioKeeps_bind calls split: option.splits)
  show "ioKeeps Q (reconcileChannelBlockGeneration (cl_Kube cl) net channel org ns)"
    unfolding reconcileChannelBlockGeneration_def by (auto intro!: ioKeeps_bind calls crypto ready split: prod.splits)
qed

lemma keeps_joins:
  assumes "apiKeeps Q cl"
  shows "ioKeeps Q (ordererJoinResultReadiness ord (cl_Kube cl) ns ch orderer)" "ioKeeps Q (ordererJoinReadiness ord (cl_Kube cl) ns ch orderer)"
    "ioKeeps Q (peerJoinResultReadiness (cl_Kube cl) ns ch peer)" "ioKeeps Q (peerJoinReadiness (cl_Kube cl) ns ch peer)"
    "ioKeeps Q (anchorPeerUpdateResultReadiness (cl_Kube cl) ns ch org peer)" "ioKeeps Q (anchorPeerUpdateReadiness (cl_Kube cl) ns ch org peer)"
    "ioKeeps Q (ordererJoinLoop ord (cl_Kube cl) net channel hostOrg ns n orderers)"
    "ioKeeps Q (peerJoinLoop (cl_Kube cl) net channel org ns n peers)"
    "ioKeeps Q (peerOrgLoop (cl_Kube cl) net channel ns n written orgs)"
    "ioKeeps Q (anchorLoop (cl_Kube cl) net channel target written orgs)"
proof -
  note calls = keeps_calls [OF assms] keeps_copies [OF assms]
  show r1: "ioKeeps Q (ordererJoinResultReadiness ord (cl_Kube cl) ns ch orderer)" for ch orderer
    unfolding ordererJoinResultReadiness_def by (auto intro!: ioKeeps_bind calls)
  show r2: "ioKeeps Q (ordererJoinReadiness ord (cl_Kube cl) ns ch orderer)" for ch orderer
    unfolding ordererJoinReadiness_def resultThenJob_def by (auto intro!: ioKeeps_bind calls r1 split: prod.splits)
  show r3: "ioKeeps Q (peerJoinResultReadiness (cl_Kube cl) ns ch peer)" for ns ch peer
    unfolding peerJoinResultReadiness_def by (auto intro!: ioKeeps_bind calls)
  show r4: "ioKeeps Q (peerJoinReadiness (cl_Kube cl) ns ch peer)" for ns ch peer
    unfolding peerJoinReadiness_def resultThenJob_def by (auto intro!: ioKeeps_bind calls r3 split: prod.splits)
  show r5: "ioKeeps Q (anchorPeerUpdateResultReadiness (cl_Kube cl) ns ch org peer)" for ns ch org peer
    unfolding anchorPeerUpdateResultReadiness_def by (auto intro!: ioKeeps_bind calls)
  show r6: "ioKeeps Q (anchorPeerUpdateReadiness (cl_Kube cl) ns ch org peer)" for ns ch org peer
    unfolding anchorPeerUpdateReadiness_def resultThenJob_def by (auto intro!: ioKeeps_bind calls r5 split: prod.splits)
  show "ioKeeps Q (ordererJoinLoop ord (cl_Kube cl) net channel hostOrg ns n orderers)"
    by (induction orderers arbitrary: n) (auto intro!: ioKeeps_bind calls r1 r2 split: prod.splits)
  show r7: "ioKeeps Q (peerJoinLoop (cl_Kube cl) net channel org ns n peers)" for org ns n peers
    by (induction peers arbitrary: n) (auto simp: Let_def intro!: ioKeeps_bind calls r3 r4 split: prod.splits)
  show "ioKeeps Q (peerOrgLoop (cl_Kube cl) net channel ns n written orgs)"
    by (induction orgs arbitrary: n written) (auto simp: Let_def intro!: ioKeeps_bind calls r7 split: prod.splits option.splits)
  show "ioKeeps Q (anchorLoop (cl_Kube cl) net channel target written orgs)"
    by (induction orgs arbitrary: written)
      (auto simp: Let_def ensureAnchorPeerInputs_def intro!: ioKeeps_bind calls r5 r6 split: prod.splits option.splits)
qed

lemma keeps_updates:
  assumes "apiKeeps Q cl"
  shows "ioKeeps Q (channelArtifactBytes (cl_Kube cl) ns ref)"
    "ioKeeps Q (reconcileSignedChannelUpdate cr (cl_Kube cl) net channel org peer orderer ref job a b c d e f)"
    "ioKeeps Q (externalOrgLoop cr (cl_Kube cl) net channel allReady pending statuses es)"
    "ioKeeps Q (reconcileLocalOrgAdd cr (cl_Kube cl) net channel org peer orderer joining)"
    "ioKeeps Q (reconcileLocalOrgAdditions cr (cl_Kube cl) net channel status)"
    "ioKeeps Q (runExternalOrgUpdate (cl_Kube cl) net channel ext org peer orderer st)"
proof -
  note calls = keeps_calls [OF assms] keeps_copies [OF assms] keeps_joins [OF assms]
  show art: "ioKeeps Q (channelArtifactBytes (cl_Kube cl) ns ref)" for ns ref
    unfolding channelArtifactBytes_def channelConfigMapArtifactBytes_def channelSecretArtifactBytes_def
    by (auto intro!: ioKeeps_bind calls split: option.splits)
  show signed: "ioKeeps Q (reconcileSignedChannelUpdate cr (cl_Kube cl) net channel org peer orderer ref job a b c d e f)"
    for org peer orderer ref job a b c d e f
    unfolding reconcileSignedChannelUpdate_def runSubmission_def Let_def
    by (auto intro!: ioKeeps_bind calls art split: sum.splits option.splits)
  have evidence: "ioKeeps Q (externalOrgUpdateEvidenceNamed (cl_Kube cl) ns ch ext n)" for ns ch ext n
    unfolding externalOrgUpdateEvidenceNamed_def by (auto intro!: ioKeeps_bind calls)
  show run: "ioKeeps Q (runExternalOrgUpdate (cl_Kube cl) net channel ext org peer orderer st)" for ext org peer orderer st
    unfolding runExternalOrgUpdate_def externalOrgApplicationOrgJSON_def ensureExternalOrgUpdateInputs_def externalOrgUpdateReadiness_def Let_def
    by (auto intro!: ioKeeps_bind calls art split: sum.splits prod.splits)
  have ext: "ioKeeps Q (reconcileExternalOrgUpdate cr (cl_Kube cl) net channel ext)" for ext
    unfolding reconcileExternalOrgUpdate_def externalOrgFromEvidence_def submitExternalOrg_def externalOrgEvidence_def Let_def
    by (auto intro!: ioKeeps_bind calls signed evidence run split: option.splits prod.splits sum.splits)
  show "ioKeeps Q (externalOrgLoop cr (cl_Kube cl) net channel allReady pending statuses es)"
    by (induction es arbitrary: allReady pending statuses) (auto intro!: ioKeeps_bind ext)
  show add: "ioKeeps Q (reconcileLocalOrgAdd cr (cl_Kube cl) net channel org peer orderer joining)" for org peer orderer joining
    unfolding reconcileLocalOrgAdd_def submitLocalOrg_def localOrgEvidence_def localOrgAddEvidenceNamed_def localOrgAddReadiness_def Let_def
    by (auto intro!: ioKeeps_bind calls signed split: option.splits prod.splits sum.splits)
  have joined: "ioKeeps Q (joinedPeer (cl_Kube cl) ch org ns peers)" for ch org ns peers
    by (induction peers) (auto simp: Let_def intro!: ioKeeps_bind calls split: prod.splits)
  have scan: "ioKeeps Q (scanLocalOrgs (cl_Kube cl) net ch i admin cands orgs)" for ch i admin cands orgs
    by (induction orgs arbitrary: i admin cands) (auto intro!: ioKeeps_bind joined split: option.splits)
  have adds: "ioKeeps Q (addLocalOrgs cr (cl_Kube cl) net channel a orderer orgs is)" for a orderer orgs "is"
    by (induction "is") (auto intro!: ioKeeps_bind add split: option.splits prod.splits)
  show "ioKeeps Q (reconcileLocalOrgAdditions cr (cl_Kube cl) net channel status)"
    unfolding reconcileLocalOrgAdditions_def by (auto intro!: ioKeeps_bind scan adds split: list.splits prod.splits option.splits)
qed

lemma keeps_raft:
  assumes "apiKeeps Q cl"
  shows "ioKeeps Q (stageRaftPlan cr cl net channel op admin plan expected name st)"
    "ioKeeps Q (startRaftSubmission cr cl net channel op admin plan staged signedUpdate expected name st)"
    "ioKeeps Q (reconcileRaftUpdate cr cl net channel op)"
proof -
  note calls = keeps_calls [OF assms] keeps_updates(1) [OF assms]
  have job: "ioKeeps Q (runRaftJob (cl_Kube cl) j a b st)" for j a b st
    unfolding runRaftJob_def by (auto intro!: ioKeeps_bind calls split: option.splits)
  have check: "ioKeeps Q (checkConsenter cr cl net admin consenter)" for admin consenter
    unfolding checkConsenter_def certificateInForce_def Let_def
    by (auto intro!: ioKeeps_bind keeps_try calls split: option.splits sum.splits)
  have nodes: "ioKeeps Q (collectNodes cr cl net admin ns cs)" for admin ns cs
    by (induction cs arbitrary: ns) (auto intro!: ioKeeps_bind check split: sum.splits)
  have lift: "ioKeeps Q (liftText r)" for r :: "string + 'b"
    by (cases r) (auto simp: liftText_def)
  show stage: "ioKeeps Q (stageRaftPlan cr cl net channel op admin plan expected name st)" for admin plan expected name st
    unfolding stageRaftPlan_def Let_def by (auto intro!: ioKeeps_bind calls job)
  show start: "ioKeeps Q (startRaftSubmission cr cl net channel op admin plan staged signedUpdate expected name st)"
    for admin plan staged signedUpdate expected name st
    unfolding startRaftSubmission_def raftSubmissionNodes_def Let_def by (auto intro!: ioKeeps_bind calls job nodes lift split: sum.splits)
  show "ioKeeps Q (reconcileRaftUpdate cr cl net channel op)"
    unfolding reconcileRaftUpdate_def reconcileRaftPlan_def raftFromEvidence_def reconcileRaftSubmission_def Let_def
    by (auto intro!: ioKeeps_bind calls stage start split: option.splits sum.splits)
qed

lemma keeps_channel:
  assumes "apiKeeps Q cl"
  shows "ioKeeps Q (reconcileChannel cr ord cl net orgStatuses channel)"
proof -
  have "ioKeeps Q (channelSteps cr ord (cl_Kube cl) net ready messages channel status)" for ready messages status
    unfolding channelSteps_def channelBootstrap_def channelMembers_def reconcileOrdererJoins_def reconcilePeerJoins_def
      reconcileAnchorPeerUpdates_def reconcileExternalOrgUpdates_def Let_def
    by (auto intro!: ioKeeps_bind keeps_calls [OF assms] keeps_copies [OF assms] keeps_joins [OF assms] keeps_updates [OF assms]
        split: list.splits prod.splits)
  moreover have "ioKeeps Q (channelRaftStep cr cl net channel status)" for status
    unfolding channelRaftStep_def by (auto intro!: ioKeeps_bind keeps_raft(3) [OF assms] split: option.splits)
  ultimately show ?thesis
    unfolding reconcileChannel_def Let_def by (auto intro!: ioKeeps_bind)
qed

lemma keeps_channels:
  assumes "apiKeeps Q cl" and "Q s"
  shows "Q (snd (reconcileChannels cr ord cl net orgStatuses s))"
proof -
  have "Q (snd (channelLoopIO cr ord cl net orgStatuses statuses channels s))" for statuses channels
    using assms(2)
  proof (induction channels arbitrary: statuses s)
    case (Cons channel channels)
    from ioKeepsD [OF keeps_channel [OF assms(1)] Cons.prems, of cr ord net orgStatuses channel] Cons.IH
    show ?case by (auto split: prod.splits sum.splits)
  qed simp
  then show ?thesis by (simp add: reconcileChannels_def)
qed

section \<open>What every result satisfies\<close>

definition gives :: "('s, 'a) io \<Rightarrow> ('a \<Rightarrow> bool) \<Rightarrow> bool" where
  "gives f P \<longleftrightarrow> (\<forall>s r s1. f s = (Inr r, s1) \<longrightarrow> P r)"

lemma gives_return [simp]: "gives (ioReturn a) P \<longleftrightarrow> P a"
  by (auto simp: gives_def ioReturn_def)

lemma gives_fail [simp]: "gives (ioFail e) P"
  by (simp add: gives_def ioFail_def)

lemma gives_bind: "gives f P \<Longrightarrow> (\<And>a. P a \<Longrightarrow> gives (g a) R) \<Longrightarrow> gives (ioBind f g) R"
  by (auto simp: gives_def ioBind_def split: prod.splits sum.splits) metis

lemma gives_bind_any: "(\<And>a. gives (g a) R) \<Longrightarrow> gives (ioBind f g) R"
  by (rule gives_bind [of _ "\<lambda>_. True"]) (auto simp: gives_def)

lemma givesD: "gives f P \<Longrightarrow> f s = (Inr r, s1) \<Longrightarrow> P r"
  by (auto simp: gives_def)

section \<open>The objects a run has read\<close>

type_synonym reads = "(objkey \<times> KObject) list"

definition carried :: "('s \<Rightarrow> 'a \<times> 's) \<Rightarrow> 's \<times> reads \<Rightarrow> 'a \<times> ('s \<times> reads)" where
  "carried f s = (case f (fst s) of (r, s1) \<Rightarrow> (r, (s1, snd s)))"

definition loggedGet :: "'s Kube \<Rightarrow> objkey \<Rightarrow> ('s \<times> reads, KObject) io" where
  "loggedGet api k s =
     (case k_Get api k (fst s) of
        (Inl e, s1) \<Rightarrow> (Inl e, (s1, snd s))
      | (Inr ob, s1) \<Rightarrow> (Inr ob, (s1, (k, ob) # snd s)))"

definition loggedCluster :: "'s Cluster \<Rightarrow> ('s \<times> reads) Cluster" where
  "loggedCluster cl =
     \<lparr>cl_Kube = \<lparr>k_Get = loggedGet (cl_Kube cl), k_Create = (\<lambda>ob. carried (k_Create (cl_Kube cl) ob)),
        k_Update = (\<lambda>ob. carried (k_Update (cl_Kube cl) ob)), k_Now = carried (k_Now (cl_Kube cl)),
        k_RandInt = (\<lambda>n. carried (k_RandInt (cl_Kube cl) n))\<rparr>,
      cl_Delete = (\<lambda>ob. carried (cl_Delete cl ob)), cl_List = (\<lambda>kind ns sel. carried (cl_List cl kind ns sel)),
      cl_GetNetwork = (\<lambda>key. carried (cl_GetNetwork cl key)), cl_UpdateNetwork = (\<lambda>net. carried (cl_UpdateNetwork cl net)),
      cl_PatchStatus = (\<lambda>net status. carried (cl_PatchStatus cl net status)),
      cl_Event = (\<lambda>a b c s. (cl_Event cl a b c (fst s), snd s)), cl_ParseQuantity = cl_ParseQuantity cl,
      cl_SetCondition = cl_SetCondition cl, cl_ErrorText = cl_ErrorText cl, cl_MarshalIndent = cl_MarshalIndent cl,
      cl_JSONToYAML = cl_JSONToYAML cl\<rparr>"

locale observed =
  fixes cl :: "'s Cluster" and log :: "'s \<Rightarrow> (objkey \<times> KObject) set"
  assumes get_logged: "k_Get (cl_Kube cl) k s = (Inr ob, s1) \<Longrightarrow> (k, ob) \<in> log s1"
    and log_grows: "apiKeeps (\<lambda>s. known \<subseteq> log s) cl"
begin

lemma kept: "ioKeeps (\<lambda>s. known \<subseteq> log s) f \<Longrightarrow> f s = (r, s1) \<Longrightarrow> known \<subseteq> log s \<Longrightarrow> known \<subseteq> log s1"
  unfolding ioKeeps_def by (metis snd_conv)

lemma getConfigMap_logged: "getConfigMap (cl_Kube cl) ns n s = (Inr (Some c), s1) \<Longrightarrow> ((KConfigMap, ns, n), OConfigMap c) \<in> log s1"
  using get_logged [of "(KConfigMap, ns, n)" s]
  by (auto simp: getConfigMap_def split: prod.splits sum.splits ApiError.splits KObject.splits)

lemma getJob_logged: "getJob (cl_Kube cl) ns n s = (Inr (Some j), s1) \<Longrightarrow> ((KJob, ns, n), OJob j) \<in> log s1"
  using get_logged [of "(KJob, ns, n)" s]
  by (auto simp: getJob_def split: prod.splits sum.splits ApiError.splits KObject.splits)

lemma getSecret_logged: "getSecret (cl_Kube cl) ns n s = (Inr (Some sec), s1) \<Longrightarrow> ((KSecret, ns, n), OSecret sec) \<in> log s1"
  using get_logged [of "(KSecret, ns, n)" s]
  by (auto simp: getSecret_def split: prod.splits sum.splits ApiError.splits KObject.splits)

text \<open>What a successful run has seen: \<open>P\<close> relates its result to the reads at its end, which include all earlier ones.\<close>

definition sees :: "(objkey \<times> KObject) set \<Rightarrow> ('s, 'a) io \<Rightarrow> ('a \<Rightarrow> (objkey \<times> KObject) set \<Rightarrow> bool) \<Rightarrow> bool" where
  "sees known f P \<longleftrightarrow> (\<forall>s r s1. known \<subseteq> log s \<longrightarrow> f s = (Inr r, s1) \<longrightarrow> known \<subseteq> log s1 \<and> P r (log s1))"

lemma sees_bind [intro]:
  assumes "sees known f P" and "\<And>a known'. known \<subseteq> known' \<Longrightarrow> P a known' \<Longrightarrow> sees known' (g a) R"
  shows "sees known (ioBind f g) R"
  unfolding sees_def
proof (intro allI impI)
  fix s r s2 assume "known \<subseteq> log s" and run: "ioBind f g s = (Inr r, s2)"
  then obtain a s1 where first: "f s = (Inr a, s1)" and second: "g a s1 = (Inr r, s2)" by (auto simp: ioBind_def split: prod.splits sum.splits)
  from assms(1) \<open>known \<subseteq> log s\<close> first have seen: "known \<subseteq> log s1" "P a (log s1)" by (auto simp: sees_def)
  from assms(2) [OF this] second have "log s1 \<subseteq> log s2" "R r (log s2)" by (auto simp: sees_def)
  with seen show "known \<subseteq> log s2 \<and> R r (log s2)" by auto
qed

lemma sees_return [intro]: "(\<And>known'. known \<subseteq> known' \<Longrightarrow> P a known') \<Longrightarrow> sees known (ioReturn a) P"
  by (simp add: sees_def ioReturn_def)

lemma sees_fail [simp]: "sees known (ioFail e) P"
  by (simp add: sees_def ioFail_def)

lemma sees_kept: "ioKeeps (\<lambda>s. known \<subseteq> log s) f \<Longrightarrow> (\<And>s r s1. f s = (Inr r, s1) \<Longrightarrow> P r (log s1)) \<Longrightarrow> sees known f P"
  unfolding sees_def ioKeeps_def by (metis snd_conv)

lemma sees_weaken: "sees known f P \<Longrightarrow> (\<And>a known'. known \<subseteq> known' \<Longrightarrow> P a known' \<Longrightarrow> R a known') \<Longrightarrow> sees known f R"
  unfolding sees_def by metis

lemma sees_getConfigMap:
  "sees known (getConfigMap (cl_Kube cl) ns n) (\<lambda>r seen. \<forall>c. r = Some c \<longrightarrow> ((KConfigMap, ns, n), OConfigMap c) \<in> seen)"
  by (rule sees_kept [OF keeps_calls(4) [OF log_grows]]) (use getConfigMap_logged in metis)

lemma sees_getJob: "sees known (getJob (cl_Kube cl) ns n) (\<lambda>r seen. \<forall>j. r = Some j \<longrightarrow> ((KJob, ns, n), OJob j) \<in> seen)"
  by (rule sees_kept [OF keeps_calls(5) [OF log_grows]]) (use getJob_logged in metis)

lemma sees_getSecret: "sees known (getSecret (cl_Kube cl) ns n) (\<lambda>r seen. \<forall>sec. r = Some sec \<longrightarrow> ((KSecret, ns, n), OSecret sec) \<in> seen)"
  by (rule sees_kept [OF keeps_calls(6) [OF log_grows]]) (use getSecret_logged in metis)

lemma sees_gives: "ioKeeps (\<lambda>s. known \<subseteq> log s) f \<Longrightarrow> gives f P \<Longrightarrow> sees known f (\<lambda>r _. P r)"
  by (rule sees_kept) (auto dest: givesD)

lemma sees_nothing: "ioKeeps (\<lambda>s. known \<subseteq> log s) f \<Longrightarrow> sees known f (\<lambda>_ _. True)"
  by (rule sees_kept) simp_all

end

interpretation logged: observed "loggedCluster cl" "\<lambda>s. set (snd s)" for cl
proof unfold_locales
  show "(k, ob) \<in> set (snd s1)" if "k_Get (cl_Kube (loggedCluster cl)) k s = (Inr ob, s1)" for k s ob s1
    using that by (auto simp: loggedCluster_def loggedGet_def split: prod.splits sum.splits)
  have carried: "ioKeeps (\<lambda>s. known \<subseteq> set (snd s)) (carried f)" for known and f :: "('a, 'b) io"
    by (auto simp: ioKeeps_def carried_def split: prod.splits)
  have "ioKeeps (\<lambda>s. known \<subseteq> set (snd s)) (loggedGet (cl_Kube cl) k)" for known k
    by (fastforce simp: ioKeeps_def loggedGet_def split: prod.splits sum.splits)
  moreover have "ioKeeps (\<lambda>s. known \<subseteq> set (snd s)) (ioNow (cl_Kube (loggedCluster cl)))" for known
    by (auto simp: ioKeeps_def ioNow_def loggedCluster_def carried_def split: prod.splits)
  ultimately show "apiKeeps (\<lambda>s. known \<subseteq> set (snd s)) (loggedCluster cl)" for known
    unfolding apiKeeps_def by (auto simp: loggedCluster_def carried)
qed

end
