(* ===== verification/Join_Evidence.thy ===== *)
theory Join_Evidence
  imports Channel_Evidence
begin

text \<open>
  The promise behind a channel's \<open>Ready\<close> status: every orderer and peer has joined, every anchor peer
  is set, every external organization is settled and the Raft update is applied, each shown by an
  object that the same run read. The loops are followed with \<open>sees\<close>: a count that reaches the number
  of elements means that each element had its evidence.
\<close>

section \<open>Evidence\<close>

type_synonym seen = "(objkey \<times> KObject) set"

definition jobDone :: "seen \<Rightarrow> string \<Rightarrow> string \<Rightarrow> bool" where
  "jobDone seen ns name \<longleftrightarrow>
     (\<exists>job. ((KJob, ns, name), OJob job) \<in> seen \<and> jobSucceeded job \<and> \<not> jobFailed job \<and> \<not> succeededJobCleanupEligible job)"

definition resultSays :: "seen \<Rightarrow> string \<Rightarrow> string \<Rightarrow> (ConfigMap option \<Rightarrow> bool \<times> string) \<Rightarrow> bool" where
  "resultSays seen ns name verdict \<longleftrightarrow> (\<exists>c. ((KConfigMap, ns, name), OConfigMap c) \<in> seen \<and> fst (verdict (Some c)))"

definition ordererJoined :: "maporder \<Rightarrow> seen \<Rightarrow> string \<Rightarrow> string \<Rightarrow> ordererInstance \<Rightarrow> bool" where
  "ordererJoined ord seen ns ch orderer \<longleftrightarrow>
     resultSays seen ns (channelOrdererJoinResultConfigMapName ch orderer) (ordererJoinVerdict ord ch orderer) \<or>
     jobDone seen ns (channelOrdererJoinJobName ch orderer)"

definition peerJoined :: "seen \<Rightarrow> string \<Rightarrow> string \<Rightarrow> peerInstance \<Rightarrow> bool" where
  "peerJoined seen ns ch peer \<longleftrightarrow>
     resultSays seen ns (channelPeerJoinResultConfigMapName ch peer) (peerJoinVerdict ch peer) \<or> jobDone seen ns (channelPeerJoinJobName ch peer)"

definition anchorSet :: "seen \<Rightarrow> string \<Rightarrow> string \<Rightarrow> Org \<Rightarrow> peerInstance \<Rightarrow> bool" where
  "anchorSet seen ns ch org peer \<longleftrightarrow>
     resultSays seen ns (channelAnchorPeerUpdateResultConfigMapName ch org) (anchorPeerVerdict ch org peer) \<or>
     jobDone seen ns (channelAnchorPeerUpdateJobName ch org)"

definition externalOrgSettled :: "seen \<Rightarrow> string \<Rightarrow> ChannelExternalOrg \<Rightarrow> bool" where
  "externalOrgSettled seen ch e \<longleftrightarrow>
     (\<exists>ns name c ev. ((KConfigMap, ns, name), OConfigMap c) \<in> seen \<and> checkExternalOrgEvidence ch e (Some c) = Inr ev \<and>
        submittedOutcome (xe_Outcome ev))"

text \<open>The artifact was read as these bytes, and the receipt of the applied update is about exactly this operation and plan.\<close>

definition artifactRead :: "seen \<Rightarrow> string \<Rightarrow> ChannelArtifactKeyRef \<Rightarrow> bytes \<Rightarrow> bool" where
  "artifactRead seen ns ref raw \<longleftrightarrow>
     (\<exists>ks c. ref_ConfigMapKeyRef ref = Some ks \<and> ((KConfigMap, ns, ks_Name ks), OConfigMap c) \<in> seen \<and>
        (map_of (cm_BinaryData c) (ks_Key ks) = Some raw \<or> map_of (cm_Data c) (ks_Key ks) = Some raw)) \<or>
     (\<exists>ks sec. ref_SecretKeyRef ref = Some ks \<and> ((KSecret, ns, ks_Name ks), OSecret sec) \<in> seen \<and> map_of (sec_Data sec) (ks_Key ks) = Some raw)"

definition receiptMatches :: "Crypto \<Rightarrow> Channel \<Rightarrow> ChannelRaftUpdate \<Rightarrow> RaftUpdatePlan \<Rightarrow> raftUpdateReceipt \<Rightarrow> bool" where
  "receiptMatches cr channel op plan receipt \<longleftrightarrow>
     rcp_Channel receipt = ch_Name channel \<and> rcp_OperationID receipt = ru_OperationID op \<and>
     rcp_PlanHash receipt = hex_encode (raftPlanDigest cr op (or_Org (ru_Orderer op) @ ''/'' @ or_Name (ru_Orderer op)) plan) \<and>
     rcp_ConfigSequence receipt = rp_ConfigSequence plan \<and> rcp_Action receipt = rp_Action plan"

definition signedReceipt :: "Crypto \<Rightarrow> FabricNetwork \<Rightarrow> ChannelRaftUpdate \<Rightarrow> seen \<Rightarrow> ConfigMap \<Rightarrow> raftUpdateReceipt \<Rightarrow> bool" where
  "signedReceipt cr net op seen c receipt \<longleftrightarrow> rcp_Outcome receipt \<in> {''submitted'', ''alreadyApplied''} \<and>
     (\<exists>ref signedUpdate. ru_SignedUpdateRef op = Some ref \<and> artifactRead seen (fn_Namespace net) ref signedUpdate \<and>
        rcp_SignedHash receipt = hex_encode (sha256_Sum256 cr signedUpdate) \<and> resultBytes c ''config-update.pb'' = signedUpdate)"

definition raftApplied :: "Crypto \<Rightarrow> FabricNetwork \<Rightarrow> Channel \<Rightarrow> ChannelRaftUpdate \<Rightarrow> seen \<Rightarrow> bool" where
  "raftApplied cr net channel op seen \<longleftrightarrow>
     (\<exists>raw plan ns name c receipt. artifactRead seen (fn_Namespace net) (ru_PlanRef op) raw \<and>
        ValidateRaftPlanText cr raw (ch_Name channel) = Inr plan \<and> ((KConfigMap, ns, name), OConfigMap c) \<in> seen \<and>
        receiptOf c = Some receipt \<and> receiptMatches cr channel op plan receipt \<and> resultBytes c ''channel-block.pb'' \<noteq> [] \<and>
        ((rcp_Outcome receipt = ''alreadyApplied'' \<and> rp_Action plan = ''AlreadyApplied'') \<or>
         signedReceipt cr net op seen c receipt))"

definition channelOrgJoined :: "FabricNetwork \<Rightarrow> Channel \<Rightarrow> seen \<Rightarrow> string \<Rightarrow> string list \<Rightarrow> bool" where
  "channelOrgJoined net channel seen name peers \<longleftrightarrow>
     (\<exists>org. map_of (orgsByName net) name = Some org \<and>
        (\<forall>p \<in> set peers. peerJoined seen (orgNamespaceName net org) (ch_Name channel)
           \<lparr>pi_org = org, pi_name = p, pi_namespace = orgNamespaceName net org\<rparr>) \<and>
        (\<forall>peer. channelAnchorPeerForOrg net channel org = Some peer \<longrightarrow>
           anchorSet seen (orgNamespaceName net org) (ch_Name channel) org peer))"

lemma jobDone_mono: "seen \<subseteq> seen' \<Longrightarrow> jobDone seen ns n \<Longrightarrow> jobDone seen' ns n"
  unfolding jobDone_def by blast

lemma resultSays_mono: "seen \<subseteq> seen' \<Longrightarrow> resultSays seen ns n v \<Longrightarrow> resultSays seen' ns n v"
  unfolding resultSays_def by blast

lemma evidence_mono:
  assumes "seen \<subseteq> seen'"
  shows "ordererJoined ord seen ns ch orderer \<Longrightarrow> ordererJoined ord seen' ns ch orderer"
    and "peerJoined seen ns ch peer \<Longrightarrow> peerJoined seen' ns ch peer"
    and "anchorSet seen ns ch org peer \<Longrightarrow> anchorSet seen' ns ch org peer"
  using jobDone_mono [OF assms] resultSays_mono [OF assms] unfolding ordererJoined_def peerJoined_def anchorSet_def by blast+

lemma externalOrgSettled_mono: "seen \<subseteq> seen' \<Longrightarrow> externalOrgSettled seen ch e \<Longrightarrow> externalOrgSettled seen' ch e"
  unfolding externalOrgSettled_def by blast

lemma artifactRead_mono: "seen \<subseteq> seen' \<Longrightarrow> artifactRead seen ns ref raw \<Longrightarrow> artifactRead seen' ns ref raw"
  unfolding artifactRead_def by blast

lemma signedReceipt_mono: "seen \<subseteq> seen' \<Longrightarrow> signedReceipt cr net op seen c receipt \<Longrightarrow> signedReceipt cr net op seen' c receipt"
  unfolding signedReceipt_def using artifactRead_mono by blast

section \<open>The loops\<close>

text \<open>The count says how many of the elements have their evidence; all of them when it is full.\<close>

definition counted :: "int \<Rightarrow> 'a list \<Rightarrow> (seen \<Rightarrow> 'a \<Rightarrow> bool) \<Rightarrow> int \<times> string \<Rightarrow> seen \<Rightarrow> bool" where
  "counted n xs E r seen \<longleftrightarrow> fst r \<le> n + int (length xs) \<and> (fst r = n + int (length xs) \<longrightarrow> snd r = [] \<and> (\<forall>x \<in> set xs. E seen x))"

lemma counted_Cons:
  assumes "counted (if joined then n + 1 else n) xs E r seen" and "joined \<longrightarrow> E known x" and "E known x \<Longrightarrow> E seen x"
  shows "counted n (x # xs) E r seen"
  using assms by (auto simp: counted_def split: if_splits)

definition peerTotal :: "ChannelOrgStatus list \<Rightarrow> int" where
  "peerTotal orgs = sum_list (map (\<lambda>st. int (length (cos_PeerNames st))) orgs)"

definition fullOrg :: "FabricNetwork \<Rightarrow> ChannelOrgStatus \<Rightarrow> ChannelOrgStatus" where
  "fullOrg net st =
     (case map_of (orgsByName net) (cos_Name st) of None \<Rightarrow> st | Some _ \<Rightarrow> peerOrgStatus st (int (length (cos_PeerNames st))))"

definition orgPeersJoined :: "FabricNetwork \<Rightarrow> Channel \<Rightarrow> seen \<Rightarrow> ChannelOrgStatus \<Rightarrow> bool" where
  "orgPeersJoined net channel seen st \<longleftrightarrow>
     (\<forall>p \<in> set (cos_PeerNames st). \<exists>org. map_of (orgsByName net) (cos_Name st) = Some org \<and>
        peerJoined seen (orgNamespaceName net org) (ch_Name channel) \<lparr>pi_org = org, pi_name = p, pi_namespace = orgNamespaceName net org\<rparr>)"

lemma orgPeersJoined_mono: "seen \<subseteq> seen' \<Longrightarrow> orgPeersJoined net channel seen st \<Longrightarrow> orgPeersJoined net channel seen' st"
  unfolding orgPeersJoined_def using evidence_mono(2) by blast

definition orgAnchorSet :: "FabricNetwork \<Rightarrow> Channel \<Rightarrow> seen \<Rightarrow> ChannelOrgStatus \<Rightarrow> bool" where
  "orgAnchorSet net channel seen st \<longleftrightarrow>
     (\<forall>org peer. map_of (orgsByName net) (cos_Name st) = Some org \<longrightarrow> channelAnchorPeerForOrg net channel org = Some peer \<longrightarrow>
        ws_Desired (cos_Peers st) \<le> ws_Ready (cos_Peers st) \<longrightarrow> ws_Desired (cos_Peers st) \<noteq> 0 \<longrightarrow>
        anchorSet seen (orgNamespaceName net org) (ch_Name channel) org peer)"

lemma orgAnchorSet_mono: "seen \<subseteq> seen' \<Longrightarrow> orgAnchorSet net channel seen st \<Longrightarrow> orgAnchorSet net channel seen' st"
  unfolding orgAnchorSet_def using evidence_mono(3) by blast

context observed
begin

lemma sees_result:
  assumes "\<not> fst (verdict None)"
  shows "sees known (ioBind (getConfigMap (cl_Kube cl) ns name) (\<lambda>found. ioReturn (verdict found))) (\<lambda>(ok, _) seen. ok \<longrightarrow> resultSays seen ns name verdict)"
proof (rule sees_bind [OF sees_getConfigMap], rule sees_return, goal_cases)
  case (1 a known' seen)
  then show ?case using assms by (cases a) (auto simp: resultSays_def case_prod_beta)
qed

lemma sees_jobVerdict:
  assumes result: "\<And>known. sees known result (\<lambda>(ok, _) seen. ok \<longrightarrow> E seen)" and mono: "\<And>a b. a \<subseteq> b \<Longrightarrow> E a \<Longrightarrow> E b"
    and job: "\<And>seen. jobDone seen ns name \<Longrightarrow> E seen"
  shows "sees known (resultThenJob (cl_Kube cl) result ns name failed waiting) (\<lambda>(ok, _) seen. ok \<longrightarrow> E seen)"
  unfolding resultThenJob_def
proof (rule sees_bind [OF result], goal_cases)
  case (1 a known')
  obtain ok m where a: "a = (ok, m)" by (cases a)
  have "sees known' (ioBind (getJob (cl_Kube cl) ns name) (\<lambda>j. ioReturn (jobVerdict failed waiting m j))) (\<lambda>(ok, _) seen. ok \<longrightarrow> E seen)"
  proof (rule sees_bind [OF sees_getJob], rule sees_return, goal_cases)
    case (1 found known2 seen)
    then have "fst (jobVerdict failed waiting m found) \<Longrightarrow> jobDone seen ns name"
      by (auto simp: jobVerdict_def jobDone_def split: option.splits if_splits)
    with job show ?case by (simp add: case_prod_beta)
  qed
  with 1 mono show ?case unfolding a prod.case by (cases ok) (simp_all add: sees_return)
qed

text \<open>One round of a join loop: the result, or the Job and then the result again.\<close>

lemma sees_round:
  assumes result: "\<And>known. sees known result (\<lambda>(ok, _) seen. ok \<longrightarrow> E seen)" and again: "\<And>known. sees known again (\<lambda>(ok, _) seen. ok \<longrightarrow> E seen)"
    and stop: "\<And>message seen. R (n, message) seen"
    and rest: "\<And>joined known. joined \<longrightarrow> E known \<Longrightarrow> sees known (loop (if joined then n + 1 else n)) R"
  shows "sees known (ioBind result (\<lambda>(ok, _). if ok then loop (n + (1 :: int))
    else ioBind (ensureJob (cl_Kube cl) job) (\<lambda>_. ioBind again (\<lambda>(joined, message).
      if message \<noteq> [] then ioReturn (n, message) else loop (if joined then n + 1 else n))))) R"
proof (rule sees_bind [OF result], goal_cases)
  case (1 a known')
  obtain ok m where a: "a = (ok, m)" by (cases a)
  have "sees known' (ioBind (ensureJob (cl_Kube cl) job) (\<lambda>_. ioBind again (\<lambda>(joined, message).
      if message \<noteq> [] then ioReturn (n, message) else loop (if joined then n + 1 else n)))) R"
  proof (rule sees_bind [OF sees_nothing [OF keeps_calls(2) [OF log_grows]]], rule sees_bind [OF again], goal_cases)
    case (1 _ _ b known2)
    with rest [of "fst b" known2] show ?case by (cases b) (auto intro!: sees_return stop)
  qed
  with 1 rest [of True known'] show ?case unfolding a prod.case by (cases ok) simp_all
qed

lemma sees_orderer:
  "sees known (ordererJoinResultReadiness ord (cl_Kube cl) ns ch orderer) (\<lambda>(ok, _) seen. ok \<longrightarrow> ordererJoined ord seen ns ch orderer)"
  "sees known (ordererJoinReadiness ord (cl_Kube cl) ns ch orderer) (\<lambda>(ok, _) seen. ok \<longrightarrow> ordererJoined ord seen ns ch orderer)"
proof -
  show result: "sees known (ordererJoinResultReadiness ord (cl_Kube cl) ns ch orderer) (\<lambda>(ok, _) seen. ok \<longrightarrow> ordererJoined ord seen ns ch orderer)" for known
    unfolding ordererJoinResultReadiness_def
    by (rule sees_weaken [OF sees_result]) (auto simp: ordererJoined_def ordererJoinVerdict_def [of _ _ _ None])
  show "sees known (ordererJoinReadiness ord (cl_Kube cl) ns ch orderer) (\<lambda>(ok, _) seen. ok \<longrightarrow> ordererJoined ord seen ns ch orderer)"
    unfolding ordererJoinReadiness_def by (rule sees_jobVerdict [OF result evidence_mono(1)]) (simp_all add: ordererJoined_def)
qed

lemma sees_peer:
  "sees known (peerJoinResultReadiness (cl_Kube cl) ns ch peer) (\<lambda>(ok, _) seen. ok \<longrightarrow> peerJoined seen ns ch peer)"
  "sees known (peerJoinReadiness (cl_Kube cl) ns ch peer) (\<lambda>(ok, _) seen. ok \<longrightarrow> peerJoined seen ns ch peer)"
proof -
  show result: "sees known (peerJoinResultReadiness (cl_Kube cl) ns ch peer) (\<lambda>(ok, _) seen. ok \<longrightarrow> peerJoined seen ns ch peer)" for known
    unfolding peerJoinResultReadiness_def
    by (rule sees_weaken [OF sees_result]) (auto simp: peerJoined_def peerJoinVerdict_def [of _ _ None])
  show "sees known (peerJoinReadiness (cl_Kube cl) ns ch peer) (\<lambda>(ok, _) seen. ok \<longrightarrow> peerJoined seen ns ch peer)"
    unfolding peerJoinReadiness_def by (rule sees_jobVerdict [OF result evidence_mono(2)]) (simp_all add: peerJoined_def)
qed

lemma sees_anchor:
  "sees known (anchorPeerUpdateResultReadiness (cl_Kube cl) ns ch org peer) (\<lambda>(ok, _) seen. ok \<longrightarrow> anchorSet seen ns ch org peer)"
  "sees known (anchorPeerUpdateReadiness (cl_Kube cl) ns ch org peer) (\<lambda>(ok, _) seen. ok \<longrightarrow> anchorSet seen ns ch org peer)"
proof -
  show result: "sees known (anchorPeerUpdateResultReadiness (cl_Kube cl) ns ch org peer) (\<lambda>(ok, _) seen. ok \<longrightarrow> anchorSet seen ns ch org peer)" for known
    unfolding anchorPeerUpdateResultReadiness_def
    by (rule sees_weaken [OF sees_result]) (auto simp: anchorSet_def anchorPeerVerdict_def [of _ _ _ None])
  show "sees known (anchorPeerUpdateReadiness (cl_Kube cl) ns ch org peer) (\<lambda>(ok, _) seen. ok \<longrightarrow> anchorSet seen ns ch org peer)"
    unfolding anchorPeerUpdateReadiness_def by (rule sees_jobVerdict [OF result evidence_mono(3)]) (simp_all add: anchorSet_def)
qed

lemma sees_orderers:
  "sees known (ordererJoinLoop ord (cl_Kube cl) net channel hostOrg ns n orderers)
     (counted n orderers (\<lambda>seen o1. ordererJoined ord seen ns (ch_Name channel) o1))"
proof (induction orderers arbitrary: n known)
  case (Cons o1 orderers)
  show ?case unfolding ordererJoinLoop.simps
    by (rule sees_round [OF sees_orderer(1) sees_orderer(2)])
      (simp add: counted_def, rule sees_weaken [OF Cons.IH], erule (1) counted_Cons, erule (1) evidence_mono(1))
qed (auto intro: sees_return simp: counted_def)

lemma sees_peers:
  "sees known (peerJoinLoop (cl_Kube cl) net channel org ns n peers)
     (counted n peers (\<lambda>seen p. peerJoined seen ns (ch_Name channel) \<lparr>pi_org = org, pi_name = p, pi_namespace = ns\<rparr>))"
proof (induction peers arbitrary: n known)
  case (Cons p peers)
  show ?case unfolding peerJoinLoop.simps Let_def
    by (rule sees_round [OF sees_peer(1) sees_peer(2)])
      (simp add: counted_def, rule sees_weaken [OF Cons.IH], erule (1) counted_Cons, erule (1) evidence_mono(2))
qed (auto intro: sees_return simp: counted_def)

text \<open>All peers of all organizations: then each status carries its full count.\<close>

lemma sees_peerOrgs:
  "sees known (peerOrgLoop (cl_Kube cl) net channel hostNs n written orgs)
     (\<lambda>(m, _, statuses) seen. m \<le> n + peerTotal orgs \<and>
        (m = n + peerTotal orgs \<longrightarrow> statuses = written @ map (fullOrg net) orgs \<and> (\<forall>st \<in> set orgs. orgPeersJoined net channel seen st)))"
proof (induction orgs arbitrary: n written known)
  case (Cons st orgs)
  let ?R = "\<lambda>(m, _ :: string, statuses) seen. m \<le> n + peerTotal (st # orgs) \<and>
     (m = n + peerTotal (st # orgs) \<longrightarrow> statuses = written @ map (fullOrg net) (st # orgs) \<and>
       (\<forall>st \<in> set (st # orgs). orgPeersJoined net channel seen st))"
  show ?case
  proof (cases "map_of (orgsByName net) (cos_Name st)")
    case None
    show ?thesis unfolding peerOrgLoop.simps None option.case
      by (rule sees_weaken [OF Cons.IH]) (auto simp: peerTotal_def fullOrg_def orgPeersJoined_def None)
  next
    case (Some org)
    let ?ns = "orgNamespaceName net org"
    show ?thesis unfolding peerOrgLoop.simps Some option.case Let_def
    proof (rule sees_bind [OF sees_nothing [OF keeps_calls(7) [OF log_grows]]],
        rule sees_bind [OF sees_nothing [OF keeps_copies(3) [OF log_grows]]], rule sees_bind [OF sees_peers], goal_cases)
      case (1 _ _ _ _ a known')
      obtain ready message where a: "a = (ready, message)" by (cases a)
      from 1 have joined: "ready \<le> int (length (cos_PeerNames st))"
        "ready = int (length (cos_PeerNames st)) \<Longrightarrow> message = [] \<and> orgPeersJoined net channel known' st"
        by (auto simp: a counted_def orgPeersJoined_def Some)
      have total: "0 \<le> peerTotal orgs" by (induction orgs) (auto simp: peerTotal_def)
      have rest: "sees known' (peerOrgLoop (cl_Kube cl) net channel hostNs (n + ready) (written @ [peerOrgStatus st ready]) orgs) ?R"
      proof (rule sees_weaken [OF Cons.IH], goal_cases)
        case (1 b known2)
        with joined orgPeersJoined_mono [of known' known2 net channel st] show ?case
          by (auto simp: peerTotal_def fullOrg_def Some)
      qed
      moreover have "sees known' (ioReturn (n + ready, message, statuses)) ?R" if "message \<noteq> []" for statuses
        using that joined total by (auto intro!: sees_return simp: peerTotal_def)
      ultimately show ?case unfolding a prod.case by simp
    qed
  qed
qed (auto intro!: sees_return simp: peerTotal_def)

lemma sees_anchors:
  "sees known (anchorLoop (cl_Kube cl) net channel target written orgs)
     (\<lambda>(message, _) seen. message = [] \<longrightarrow> (\<forall>st \<in> set orgs. orgAnchorSet net channel seen st))"
proof (induction orgs arbitrary: written known)
  case (Cons st orgs)
  let ?R = "\<lambda>(message :: string, _ :: ChannelOrgStatus list) seen. message = [] \<longrightarrow> (\<forall>st \<in> set (st # orgs). orgAnchorSet net channel seen st)"
  have go: "sees known' (anchorLoop (cl_Kube cl) net channel target w orgs) ?R" if "orgAnchorSet net channel known' st" for w known'
    by (rule sees_weaken [OF Cons.IH]) (use that orgAnchorSet_mono in auto)
  have steps: "sees known' (ioBind (ensureAnchorPeerInputs (cl_Kube cl) net channel org ns target) (\<lambda>_.
      ioBind (anchorPeerUpdateResultReadiness (cl_Kube cl) ns (ch_Name channel) org peer) (\<lambda>(ok, _).
        if ok then anchorLoop (cl_Kube cl) net channel target w orgs
        else ioBind (ensureJob (cl_Kube cl) job) (\<lambda>_.
             ioBind (anchorPeerUpdateReadiness (cl_Kube cl) ns (ch_Name channel) org peer) (\<lambda>(updated, message).
               if message \<noteq> [] then ioReturn (message, w1 message)
               else if \<not> updated then ioReturn (''Waiting for anchor peer update Jobs'', w2) else anchorLoop (cl_Kube cl) net channel target w orgs))))) ?R"
    if E: "\<And>seen. anchorSet seen ns (ch_Name channel) org peer \<Longrightarrow> orgAnchorSet net channel seen st" for known' org peer ns w job w1 w2
  proof (rule sees_bind [OF sees_nothing], goal_cases)
    case 1
    show ?case unfolding ensureAnchorPeerInputs_def by (rule keeps_copies(1) [OF log_grows])
  next
    case (2 _ known1)
    show ?case
    proof (rule sees_bind [OF sees_anchor(1)], goal_cases)
      case (1 a known2)
      have "sees known2 (ioBind (ensureJob (cl_Kube cl) job) (\<lambda>_.
             ioBind (anchorPeerUpdateReadiness (cl_Kube cl) ns (ch_Name channel) org peer) (\<lambda>(updated, message).
               if message \<noteq> [] then ioReturn (message, w1 message)
               else if \<not> updated then ioReturn (''Waiting for anchor peer update Jobs'', w2) else anchorLoop (cl_Kube cl) net channel target w orgs))) ?R"
      proof (rule sees_bind [OF sees_nothing [OF keeps_calls(2) [OF log_grows]]], rule sees_bind [OF sees_anchor(2)], goal_cases)
        case (1 _ _ b known3)
        then show ?case using go [OF E, of known3] by (cases b) (auto intro!: sees_return)
      qed
      with 1 show ?case using go [OF E, of known2] by (cases a) auto
    qed
  qed
  show ?case
  proof (cases "(ws_Ready (cos_Peers st) < ws_Desired (cos_Peers st) \<or> ws_Desired (cos_Peers st) = 0) \<or>
      map_of (orgsByName net) (cos_Name st) = None \<or> channelAnchorPeerForOrg net channel (the (map_of (orgsByName net) (cos_Name st))) = None")
    case True
    then have "orgAnchorSet net channel known st" by (auto simp: orgAnchorSet_def)
    from go [OF this] True show ?thesis by (auto simp: Let_def split: option.splits)
  next
    case False
    then obtain org peer where found: "map_of (orgsByName net) (cos_Name st) = Some org" "channelAnchorPeerForOrg net channel org = Some peer" by auto
    from False found steps [of "orgNamespaceName net org" org peer] show ?thesis
      by (simp add: Let_def orgAnchorSet_def)
  qed
qed (auto intro: sees_return)

lemma sees_artifact: "sees known (channelArtifactBytes (cl_Kube cl) ns ref) (\<lambda>r seen. \<forall>raw. r = Inr raw \<longrightarrow> (\<exists>k. ref = Some k \<and> artifactRead seen ns k raw))"
proof -
  have cm: "sees known (channelConfigMapArtifactBytes (cl_Kube cl) ns c) (\<lambda>r seen. \<forall>raw. r = Inr raw \<longrightarrow> artifactRead seen ns k raw)"
    if "ref_ConfigMapKeyRef k = Some c" for c k
    unfolding channelConfigMapArtifactBytes_def
    by (rule sees_bind [OF sees_getConfigMap], rule sees_return) (use that in \<open>auto simp: artifactRead_def split: option.splits\<close>)
  have sec: "sees known (channelSecretArtifactBytes (cl_Kube cl) ns c) (\<lambda>r seen. \<forall>raw. r = Inr raw \<longrightarrow> artifactRead seen ns k raw)"
    if "ref_SecretKeyRef k = Some c" for c k
    unfolding channelSecretArtifactBytes_def
    by (rule sees_bind [OF sees_getSecret], rule sees_return) (use that in \<open>auto simp: artifactRead_def split: option.splits\<close>)
  show ?thesis
  proof (cases ref)
    case (Some k)
    show ?thesis
      using cm [of k] sec [of k] by (auto simp: channelArtifactBytes_def Some intro!: sees_return split: option.splits)
  qed (auto simp: channelArtifactBytes_def intro!: sees_return)
qed

end

end
