(* ===== verification/Update_Evidence.thy ===== *)
theory Update_Evidence
  imports Join_Evidence
begin

text \<open>
  Evidence for the later changes of a channel: an external organization that is reported ready, a Raft
  update that is reported ready and the members of the channel, each in terms of what was read.
\<close>

lemma submissionVerdict_ready:
  assumes "\<not> rus_Ready status" "rus_Ready (submissionVerdict expected signedUpdate result status)"
  shows "\<exists>receipt. receiptOf result = Some receipt \<and> receipt\<lparr>rcp_Outcome := []\<rparr> = expected \<and> resultBytes result ''channel-block.pb'' \<noteq> [] \<and>
    resultBytes result ''config-update.pb'' = signedUpdate \<and> rcp_Outcome receipt \<in> {''submitted'', ''alreadyApplied''}"
  using assms by (auto simp: submissionVerdict_def Let_def split: option.splits if_splits)

lemma raftApplied_signed:
  assumes "artifactRead seen (fn_Namespace net) (ru_PlanRef op) raw" "ValidateRaftPlanText cr raw (ch_Name channel) = Inr plan"
    and "((KConfigMap, ns, name), OConfigMap c) \<in> seen" "receiptOf c = Some receipt" "receiptMatches cr channel op plan receipt"
    and "resultBytes c ''channel-block.pb'' \<noteq> []" "rcp_Outcome receipt \<in> {''submitted'', ''alreadyApplied''}"
    and "ru_SignedUpdateRef op = Some ref" "artifactRead seen (fn_Namespace net) ref signedUpdate"
    and "rcp_SignedHash receipt = hex_encode (sha256_Sum256 cr signedUpdate)" "resultBytes c ''config-update.pb'' = signedUpdate"
  shows "raftApplied cr net channel op seen"
  unfolding raftApplied_def signedReceipt_def using assms by blast

lemma receiptMatches_outcome [simp]:
  "receiptMatches cr channel op plan (receipt\<lparr>rcp_Outcome := x\<rparr>) = receiptMatches cr channel op plan receipt"
  "receiptMatches cr channel op plan (receipt\<lparr>rcp_SignedHash := x\<rparr>) = receiptMatches cr channel op plan receipt"
  by (simp_all add: receiptMatches_def)

lemma map_update_same: "f y = f (xs ! i) \<Longrightarrow> map f (xs[i := y]) = map f xs"
  by (metis list_update_id map_update)

definition memberKey :: "ChannelOrgStatus \<Rightarrow> string \<times> string list \<times> WorkloadStatus" where
  "memberKey st = (cos_Name st, cos_PeerNames st, cos_Peers st)"

lemma memberKey_total: "map memberKey orgs = map memberKey orgs' \<Longrightarrow> peerTotal orgs = peerTotal orgs'"
  unfolding peerTotal_def by (induction orgs orgs' rule: list_induct2') (auto simp: memberKey_def)

text \<open>Full counts and anchor evidence for the full statuses: the organization has joined.\<close>

lemma full_joined:
  assumes "ws_Desired (cos_Peers st) = int (length (cos_PeerNames st))" "cos_PeerNames st \<noteq> []"
    and "orgPeersJoined net channel seen st" "orgAnchorSet net channel seen (fullOrg net st)"
  shows "channelOrgJoined net channel seen (cos_Name st) (cos_PeerNames st)"
proof -
  from assms(2,3) obtain org where org: "map_of (orgsByName net) (cos_Name st) = Some org"
    by (cases "cos_PeerNames st") (auto simp: orgPeersJoined_def)
  with assms show ?thesis
    by (auto simp: channelOrgJoined_def orgPeersJoined_def orgAnchorSet_def fullOrg_def peerOrgStatus_def Let_def)
qed

context observed
begin

lemma sees_externalNamed:
  "sees known (externalOrgUpdateEvidenceNamed (cl_Kube cl) ns ch e name)
     (\<lambda>r seen. \<forall>ev. r = Inr ev \<longrightarrow> submittedOutcome (xe_Outcome ev) \<longrightarrow> externalOrgSettled seen ch e)"
  unfolding externalOrgUpdateEvidenceNamed_def
proof (rule sees_bind [OF sees_getConfigMap], rule sees_return, goal_cases)
  case (1 found known' seen)
  then show ?case by (cases found) (auto simp: externalOrgSettled_def checkExternalOrgEvidence_def [of _ _ None] intro!: exI)
qed

abbreviation settles :: "Channel \<Rightarrow> ChannelExternalOrg \<Rightarrow> ChannelExternalOrgStatus \<Rightarrow> seen \<Rightarrow> bool" where
  "settles channel e \<equiv> \<lambda>st seen. eos_Ready st \<longrightarrow> externalOrgSettled seen (ch_Name channel) e"

lemma sees_submitExternal:
  assumes "\<not> eos_Ready status"
  shows "sees known (submitExternalOrg cr (cl_Kube cl) net channel e org peer orderer status) (settles channel e)"
  unfolding submitExternalOrg_def Let_def
proof (rule sees_bind [OF sees_nothing [OF keeps_updates(2) [OF log_grows]]], goal_cases)
  case (1 a known1)
  obtain resultName message where a: "a = (resultName, message)" by (cases a)
  have "sees known1 (ioReturn (status\<lparr>eos_Message := message\<rparr>)) (settles channel e)"
    using assms by (auto intro!: sees_return)
  then show ?case unfolding a prod.case
  proof (cases "resultName = []", goal_cases)
    case 2
    show ?case unfolding if_not_P [OF 2(2)]
    proof (intro sees_bind [OF sees_externalNamed] sees_bind [OF sees_nothing [OF keeps_calls(5) [OF log_grows]]] sees_return, goal_cases)
      case (1 submitted known2 job known3 known4)
      then have "externalOrgSettled known2 (ch_Name channel) e \<Longrightarrow> externalOrgSettled known4 (ch_Name channel) e"
        by (auto intro: externalOrgSettled_mono)
      with 1 assms show ?case by (auto split: sum.splits)
    qed
  qed simp
qed

lemma sees_external: "sees known (reconcileExternalOrgUpdate cr (cl_Kube cl) net channel e) (settles channel e)"
proof -
  have waiting: "\<not> eos_Ready (channelExternalOrgStatus channel e org orderer message)" for org orderer message
    by (simp add: channelExternalOrgStatus_def Let_def)
  have run: "sees known (runExternalOrgUpdate (cl_Kube cl) net channel e org peer orderer status) (settles channel e)"
    if "\<not> eos_Ready status" for known org peer orderer status
  proof -
    have "gives (runExternalOrgUpdate (cl_Kube cl) net channel e org peer orderer status) (\<lambda>st. \<not> eos_Ready st)"
      unfolding runExternalOrgUpdate_def Let_def
    proof (rule gives_bind_any, goal_cases)
      case (1 a)
      show ?case by (cases a) (use that in \<open>simp_all add: gives_bind_any case_prod_beta Let_def\<close>)
    qed
    from sees_gives [OF keeps_updates(6) [OF log_grows] this] show ?thesis by (rule sees_weaken) simp
  qed
  have ev: "sees known (externalOrgFromEvidence cr (cl_Kube cl) net channel e org peer orderer ev status) (settles channel e)"
    if "submittedOutcome (xe_Outcome ev) \<longrightarrow> externalOrgSettled known (ch_Name channel) e" "\<not> eos_Ready status" for known org peer orderer ev status
  proof (cases "submittedOutcome (xe_Outcome ev)")
    case True
    with that(1) have "sees known (ioReturn st) (settles channel e)" for st
      by (intro sees_return) (auto intro: externalOrgSettled_mono)
    with True show ?thesis unfolding externalOrgFromEvidence_def submittedOutcome_def
      by (cases "xe_Outcome ev = outcomeAlreadyApplied") simp_all
  next
    case False
    with that(2) sees_submitExternal [of "status\<lparr>eos_Phase := ChannelConfigUpdatePendingSignatures\<rparr>"] show ?thesis
      by (simp add: externalOrgFromEvidence_def submittedOutcome_def sees_return Let_def)
  qed
  show ?thesis
  proof (cases "channelExternalOrgAdminPeer net channel e")
    case (Some a)
    obtain org peer where a: "a = (org, peer)" by (cases a)
    show ?thesis
    proof (cases "channelExternalOrgOrderer net e")
      case (Some orderer)
      show ?thesis unfolding reconcileExternalOrgUpdate_def \<open>_ = Some a\<close> a Some option.case prod.case Let_def externalOrgEvidence_def
      proof (rule sees_bind [OF sees_externalNamed], goal_cases)
        case (1 r known')
        then show ?case using ev [of _ known'] run [of _ known'] waiting by (auto intro!: sees_return split: sum.splits)
      qed
    qed (auto simp: reconcileExternalOrgUpdate_def Some a waiting intro!: sees_return)
  qed (auto simp: reconcileExternalOrgUpdate_def waiting intro!: sees_return)
qed

lemma sees_externals:
  "sees known (externalOrgLoop cr (cl_Kube cl) net channel allReady pending statuses es)
     (\<lambda>(message, _) seen. message = [] \<longrightarrow> allReady \<and> (\<forall>e \<in> set es. externalOrgSettled seen (ch_Name channel) e))"
proof (induction es arbitrary: allReady pending statuses known)
  case (Cons e es)
  show ?case unfolding externalOrgLoop.simps
  proof (rule sees_bind [OF sees_external], rule sees_weaken [OF Cons.IH], goal_cases)
    case (1 st known1 r known2)
    then show ?case using externalOrgSettled_mono [of known1 known2] by (auto split: prod.splits)
  qed
qed (auto intro!: sees_return)

text \<open>The Raft update.\<close>

lemma sees_raftJob: "\<not> rus_Ready status \<Longrightarrow> gives (runRaftJob (cl_Kube cl) job waiting ended status) (\<lambda>st. \<not> rus_Ready st)"
  unfolding runRaftJob_def
  by (intro gives_bind_any) (auto split: option.splits)

lemma sees_staging:
  "\<not> rus_Ready status \<Longrightarrow> gives (stageRaftPlan cr cl net channel op admin plan expected name status) (\<lambda>st. \<not> rus_Ready st)"
  unfolding stageRaftPlan_def Let_def by (intro gives_bind_any) (simp add: sees_raftJob)

lemma sees_startSubmission:
  assumes "\<not> rus_Ready status"
  shows "gives (startRaftSubmission cr cl net channel op admin plan staged signedUpdate expected name status) (\<lambda>st. \<not> rus_Ready st)"
  unfolding startRaftSubmission_def Let_def
proof (intro gives_bind_any, goal_cases)
  case (1 _ _ r)
  show ?case by (cases r) (use assms in \<open>simp_all add: gives_bind_any sees_raftJob\<close>)
qed

abbreviation applies :: "Crypto \<Rightarrow> FabricNetwork \<Rightarrow> Channel \<Rightarrow> ChannelRaftUpdate \<Rightarrow> ChannelRaftUpdateStatus \<Rightarrow> seen \<Rightarrow> bool" where
  "applies cr net channel op \<equiv> \<lambda>st seen. rus_Ready st \<longrightarrow> raftApplied cr net channel op seen"

lemma sees_raftSubmission:
  assumes "\<not> rus_Ready status" and plan: "ValidateRaftPlanText cr raw (ch_Name channel) = Inr plan" "artifactRead known (fn_Namespace net) (ru_PlanRef op) raw"
    and expected: "receiptMatches cr channel op plan expected"
  shows "sees known (reconcileRaftSubmission cr cl net channel op admin plan status staged expected) (applies cr net channel op)"
  unfolding reconcileRaftSubmission_def Let_def
proof (rule sees_bind [OF sees_artifact], goal_cases)
  case art: (1 artifact known1)
  have waiting: "sees known1 (ioReturn (status\<lparr>rus_Message := m\<rparr>)) (applies cr net channel op)" for m
    using assms(1) by (auto intro!: sees_return)
  show ?case
  proof (cases artifact)
    case (Inr signedUpdate)
    show ?thesis unfolding Inr sum.case
    proof (rule sees_bind [OF sees_getConfigMap], goal_cases)
      case got: (1 found known2)
      show ?case
      proof (cases found)
        case None
        show ?thesis unfolding None option.case
          by (rule sees_weaken [OF sees_gives [OF keeps_raft(2) [OF log_grows] sees_startSubmission]]) (use assms(1) in auto)
      next
        case (Some result)
        show ?thesis unfolding Some option.case
        proof (intro sees_return impI, goal_cases)
          case (1 known3)
          from submissionVerdict_ready [OF _ 1(2)] assms(1) obtain receipt where r: "receiptOf result = Some receipt"
            "receipt\<lparr>rcp_Outcome := []\<rparr> = expected\<lparr>rcp_SignedHash := hex_encode (sha256_Sum256 cr signedUpdate)\<rparr>"
            "resultBytes result ''channel-block.pb'' \<noteq> []" "resultBytes result ''config-update.pb'' = signedUpdate"
            "rcp_Outcome receipt \<in> {''submitted'', ''alreadyApplied''}" by auto
          from arg_cong [OF r(2), of "receiptMatches cr channel op plan"] arg_cong [OF r(2), of rcp_SignedHash] expected
          have m: "receiptMatches cr channel op plan receipt" "rcp_SignedHash receipt = hex_encode (sha256_Sum256 cr signedUpdate)" by simp_all
          from art(1) got(1) 1(1) have grown: "known \<subseteq> known3" "known1 \<subseteq> known3" by auto
          from art(2) obtain ref where ref: "ru_SignedUpdateRef op = Some ref" "artifactRead known1 (fn_Namespace net) ref signedUpdate" by (auto simp: Inr)
          from got(2) Some 1(1) have result: "((KConfigMap, rus_Namespace status, take 16 (ch_Name channel) @ ''-raft-submit-'' @
              hex_encode (take 8 (sha256_Sum256 cr (rus_PlanHash status @ signedUpdate))) @ ''-result''), OConfigMap result) \<in> known3" by auto
          show ?case
            by (rule raftApplied_signed [OF artifactRead_mono [OF grown(1) plan(2)] plan(1) result r(1) m(1) r(3,5) ref(1)
                  artifactRead_mono [OF grown(2) ref(2)] m(2) r(4)])
        qed
      qed
    qed
  qed (simp add: waiting)
qed

lemma sees_raftEvidence:
  assumes "\<not> rus_Ready status" and plan: "ValidateRaftPlanText cr raw (ch_Name channel) = Inr plan" "artifactRead known (fn_Namespace net) (ru_PlanRef op) raw"
    and expected: "receiptMatches cr channel op plan expected" and result: "((KConfigMap, ns, name), OConfigMap result) \<in> known"
  shows "sees known (raftFromEvidence cr cl net channel op admin plan expected result status) (applies cr net channel op)"
proof (cases "\<not> stagingMismatch expected plan result \<and> map_option rcp_Outcome (receiptOf result) = Some ''alreadyApplied''")
  case True
  then obtain receipt where r: "receiptOf result = Some receipt" "receipt\<lparr>rcp_Outcome := []\<rparr> = expected" "rcp_Outcome receipt = ''alreadyApplied''"
    "rp_Action plan = ''AlreadyApplied''" "resultBytes result ''channel-block.pb'' \<noteq> []"
    by (auto simp: stagingMismatch_def Let_def split: option.splits)
  from arg_cong [OF r(2), of "receiptMatches cr channel op plan"] expected have "receiptMatches cr channel op plan receipt" by simp
  with r plan result have "raftApplied cr net channel op seen" if "known \<subseteq> seen" for seen
    unfolding raftApplied_def using artifactRead_mono [OF that plan(2)] that by blast
  with True show ?thesis by (auto simp: raftFromEvidence_def intro!: sees_return)
next
  case False
  have waiting: "sees known (ioReturn st) (applies cr net channel op)" if "\<not> rus_Ready st" for st
    using that by (auto intro!: sees_return)
  from False assms(1) waiting sees_raftSubmission [OF _ plan expected] show ?thesis
    by (cases "stagingMismatch expected plan result") (auto simp: raftFromEvidence_def Let_def)
qed

lemma sees_raftPlan:
  assumes "\<not> rus_Ready status" and plan: "ValidateRaftPlanText cr raw (ch_Name channel) = Inr plan" "artifactRead known (fn_Namespace net) (ru_PlanRef op) raw"
    and orderer: "rus_Orderer status = or_Org (ru_Orderer op) @ ''/'' @ or_Name (ru_Orderer op)"
  shows "sees known (reconcileRaftPlan cr cl net channel op admin plan status) (applies cr net channel op)"
  unfolding reconcileRaftPlan_def Let_def
proof (rule sees_bind [OF sees_getConfigMap], goal_cases)
  case got: (1 found known1)
  show ?case
  proof (cases found)
    case None
    show ?thesis unfolding None option.case
      by (rule sees_weaken [OF sees_gives [OF keeps_raft(1) [OF log_grows] sees_staging]]) (use assms(1) in auto)
  next
    case (Some result)
    show ?thesis unfolding Some option.case
    proof (rule sees_raftEvidence [OF _ plan(1) artifactRead_mono [OF got(1) plan(2)]])
      show "((KConfigMap, rus_Namespace status, take 16 (ch_Name channel) @ ''-raft-'' @ take 12 (ru_OperationID op) @ ''-'' @
          hex_encode (take 8 (raftPlanDigest cr op (rus_Orderer status) plan)) @ ''-result''), OConfigMap result) \<in> known1"
        using got(2) Some by simp
    qed (use assms(1) orderer in \<open>simp_all add: receiptMatches_def\<close>)
  qed
qed

lemma sees_raft: "sees known (reconcileRaftUpdate cr cl net channel op) (applies cr net channel op)"
proof -
  have start: "\<not> rus_Ready (initialRaftStatus op)" "rus_Orderer (initialRaftStatus op) = or_Org (ru_Orderer op) @ ''/'' @ or_Name (ru_Orderer op)"
    by (simp_all add: initialRaftStatus_def)
  show ?thesis
  proof (cases "validateChannelRaftUpdate cr net channel = []")
    case True
    then have no_problems: "\<not> validateChannelRaftUpdate cr net channel \<noteq> []" by simp
    show ?thesis unfolding reconcileRaftUpdate_def Let_def if_not_P [OF no_problems]
    proof (rule sees_bind [OF sees_artifact], goal_cases)
      case art: (1 artifact known1)
      have waiting: "sees known1 (ioReturn st) (applies cr net channel op)" if "\<not> rus_Ready st" for st
        using that by (auto intro!: sees_return)
      show ?case
      proof (cases artifact)
        case (Inr raw)
        show ?thesis
        proof (cases "ValidateRaftPlanText cr raw (ch_Name channel)")
          case ok: (Inr plan)
          from art(2) Inr have "artifactRead known1 (fn_Namespace net) (ru_PlanRef op) raw" by simp
          from sees_raftPlan [OF _ ok this] start show ?thesis by (simp add: Inr ok)
        qed (simp add: Inr waiting start)
      qed (simp add: waiting start)
    qed
  qed (use start in \<open>auto simp: reconcileRaftUpdate_def Let_def intro!: sees_return\<close>)
qed

text \<open>Everything after the orderers.\<close>

lemma gives_localOrgs:
  "gives (reconcileLocalOrgAdditions cr (cl_Kube cl) net channel status) (\<lambda>r. map memberKey (snd r) = map memberKey (chs_Orgs status))"
proof -
  have "gives (addLocalOrgs cr (cl_Kube cl) net channel a orderer orgs is) (\<lambda>r. map memberKey (snd r) = map memberKey orgs)" for a orderer orgs "is"
  proof (induction "is")
    case (Cons i "is")
    then show ?case
      by (auto split: option.splits intro!: gives_bind_any map_update_same simp: memberKey_def)
  qed simp
  then show ?thesis
    unfolding reconcileLocalOrgAdditions_def
    by (auto split: list.splits option.splits intro!: gives_bind_any)
qed

lemma sees_peerJoins:
  assumes "ws_Desired (chs_Peers status) = peerTotal (chs_Orgs status)"
  shows "sees known (reconcilePeerJoins (cl_Kube cl) net channel hostNs status) (\<lambda>(_, message, orgs) seen. message = [] \<longrightarrow>
    orgs = map (fullOrg net) (chs_Orgs status) \<and> (\<forall>st \<in> set (chs_Orgs status). orgPeersJoined net channel seen st))"
  unfolding reconcilePeerJoins_def
proof (rule sees_bind [OF sees_peerOrgs], goal_cases)
  case (1 a known1)
  obtain n m orgs where a: "a = (n, m, orgs)" by (cases a)
  from 1 assms show ?case unfolding a prod.case
    by (intro sees_return) (auto simp: a intro: orgPeersJoined_mono)
qed

lemma sees_anchorUpdates:
  assumes "desiredOrdererInstances net \<noteq> []"
  shows "sees known (reconcileAnchorPeerUpdates (cl_Kube cl) net channel status)
    (\<lambda>(message, _) seen. message = [] \<longrightarrow> (\<forall>st \<in> set (chs_Orgs status). orgAnchorSet net channel seen st))"
  using assms sees_anchors unfolding reconcileAnchorPeerUpdates_def by (cases "desiredOrdererInstances net") auto

lemma sees_externalUpdates:
  "sees known (reconcileExternalOrgUpdates cr (cl_Kube cl) net channel)
    (\<lambda>(message, _) seen. message = [] \<longrightarrow> (\<forall>e \<in> set (ch_ExternalOrgs channel). externalOrgSettled seen (ch_Name channel) e))"
  unfolding reconcileExternalOrgUpdates_def
  by (cases "ch_ExternalOrgs channel = []") (auto intro!: sees_return sees_weaken [OF sees_externals])

text \<open>A step that goes on only when there is nothing to report.\<close>

lemma sees_gate:
  assumes "sees known f P" and "\<And>a. msg a \<noteq> [] \<Longrightarrow> chs_Message (st a) \<noteq> []"
    and "\<And>a known'. known \<subseteq> known' \<Longrightarrow> P a known' \<Longrightarrow> msg a = [] \<Longrightarrow> sees known' (g a) (\<lambda>st seen. chs_Message st = [] \<longrightarrow> R seen)"
  shows "sees known (ioBind f (\<lambda>a. if msg a \<noteq> [] then ioReturn (st a) else g a)) (\<lambda>st seen. chs_Message st = [] \<longrightarrow> R seen)"
proof (rule sees_bind [OF assms(1)], goal_cases)
  case (1 a known')
  show ?case
  proof (cases "msg a = []")
    case False
    with assms(2) show ?thesis by (auto intro!: sees_return)
  qed (use assms(3) [OF 1] in simp)
qed

lemma sees_members:
  assumes desired: "\<And>st. st \<in> set (chs_Orgs status) \<Longrightarrow> ws_Desired (cos_Peers st) = int (length (cos_PeerNames st)) \<and> cos_PeerNames st \<noteq> []"
    and total: "ws_Desired (chs_Peers status) = peerTotal (chs_Orgs status)"
    and orderers: "desiredOrdererInstances net \<noteq> []"
  shows "sees known (channelMembers cr (cl_Kube cl) net channel hostNs status) (\<lambda>st seen. chs_Message st = [] \<longrightarrow>
    (\<forall>(name, peers, _) \<in> memberKey ` set (chs_Orgs status). channelOrgJoined net channel seen name peers) \<and>
    (\<forall>e \<in> set (ch_ExternalOrgs channel). externalOrgSettled seen (ch_Name channel) e))"
  unfolding channelMembers_def Let_def case_prod_beta
proof (rule sees_gate [OF sees_gives [OF keeps_updates(5) [OF log_grows] gives_localOrgs]], goal_cases)
  case locals: (2 a known1)
  let ?orgs = "snd a"
  from locals(2) have sets: "memberKey ` set (chs_Orgs status) = memberKey ` set ?orgs" by (metis image_set)
  have desired1: "ws_Desired (cos_Peers st) = int (length (cos_PeerNames st)) \<and> cos_PeerNames st \<noteq> []" if "st \<in> set ?orgs" for st
  proof -
    from that sets obtain st0 where "st0 \<in> set (chs_Orgs status)" "memberKey st0 = memberKey st" by (metis imageE imageI)
    with desired [of st0] show ?thesis by (simp add: memberKey_def)
  qed
  show ?case unfolding sets
  proof (rule sees_gate [OF sees_peerJoins], goal_cases)
    case 1
    show ?case using total memberKey_total [OF locals(2)] by simp
  next
    case peers: (3 b known2)
    then have full: "snd (snd b) = map (fullOrg net) ?orgs" "\<And>st. st \<in> set ?orgs \<Longrightarrow> orgPeersJoined net channel known2 st"
      by (auto simp: case_prod_beta)
    show ?case
    proof (rule sees_gate [OF sees_anchorUpdates [OF orderers]], goal_cases)
      case anchors: (2 c known3)
      then have set: "\<And>st. st \<in> set ?orgs \<Longrightarrow> orgAnchorSet net channel known3 (fullOrg net st)"
        by (auto simp: case_prod_beta full(1))
      show ?case
      proof (rule sees_bind [OF sees_externalUpdates], intro sees_return impI, goal_cases)
        case (1 d known4 known5)
        then have "known2 \<subseteq> known5" "known3 \<subseteq> known5" using anchors(1) by auto
        then have "channelOrgJoined net channel known5 (cos_Name st) (cos_PeerNames st)" if "st \<in> set ?orgs" for st
          using that desired1 orgPeersJoined_mono [OF _ full(2) [OF that]] orgAnchorSet_mono [OF _ set [OF that]] by (intro full_joined) auto
        with 1 show ?case by (auto simp: memberKey_def case_prod_beta intro: externalOrgSettled_mono)
      qed
    qed simp
  qed simp_all
qed simp

end

end
