(* ===== verification/Channel_Ready.thy ===== *)
theory Channel_Ready
  imports Update_Evidence
begin

text \<open>
  A channel that is reported ready rests on evidence read in the same run: the published block, the
  join of every orderer and every peer of the specification, the anchor peers, the external
  organizations and the Raft update.
\<close>

definition blockPublished :: "seen \<Rightarrow> string \<Rightarrow> string \<Rightarrow> bool" where
  "blockPublished seen ns ch \<longleftrightarrow>
     (\<exists>c. ((KConfigMap, ns, channelBlockConfigMapName ch), OConfigMap c) \<in> seen \<and>
        (map_of (cm_BinaryData c) (channelBlockFileName ch) \<noteq> None \<or> map_of (cm_Data c) (channelBlockFileName ch) \<noteq> None))"

lemma blockPublished_mono: "seen \<subseteq> seen' \<Longrightarrow> blockPublished seen ns ch \<Longrightarrow> blockPublished seen' ns ch"
  unfolding blockPublished_def by blast

definition bootstrapEvidence :: "maporder \<Rightarrow> FabricNetwork \<Rightarrow> Channel \<Rightarrow> seen \<Rightarrow> bool" where
  "bootstrapEvidence ord net channel seen \<longleftrightarrow>
     (\<exists>host orderers. desiredOrdererInstances net = host # orderers \<and>
        blockPublished seen (orgNamespaceName net (oi_org host)) (ch_Name channel) \<and>
        (\<forall>o1 \<in> set (host # orderers). ordererJoined ord seen (orgNamespaceName net (oi_org host)) (ch_Name channel) o1)) \<and>
     ch_Orgs channel \<noteq> [] \<and>
     (\<forall>member \<in> set (ch_Orgs channel). co_Peers member \<noteq> [] \<and> channelOrgJoined net channel seen (co_Name member) (co_Peers member)) \<and>
     (\<forall>e \<in> set (ch_ExternalOrgs channel). externalOrgSettled seen (ch_Name channel) e)"

definition channelEvidence :: "Crypto \<Rightarrow> maporder \<Rightarrow> FabricNetwork \<Rightarrow> Channel \<Rightarrow> seen \<Rightarrow> bool" where
  "channelEvidence cr ord net channel seen \<longleftrightarrow> bootstrapEvidence ord net channel seen \<and>
     (\<forall>op. ch_RaftUpdate channel = Some op \<longrightarrow> raftApplied cr net channel op seen)"

lemma bootstrapEvidence_mono: "seen \<subseteq> seen' \<Longrightarrow> bootstrapEvidence ord net channel seen \<Longrightarrow> bootstrapEvidence ord net channel seen'"
  unfolding bootstrapEvidence_def channelOrgJoined_def
  using evidence_mono [of seen seen'] externalOrgSettled_mono [of seen seen'] blockPublished_mono [of seen seen'] by meson

lemma raftApplied_mono:
  assumes more: "seen \<subseteq> seen'" and "raftApplied cr net channel op seen"
  shows "raftApplied cr net channel op seen'"
proof -
  from assms(2) obtain raw plan ns name c receipt where r: "artifactRead seen (fn_Namespace net) (ru_PlanRef op) raw"
    "ValidateRaftPlanText cr raw (ch_Name channel) = Inr plan" "((KConfigMap, ns, name), OConfigMap c) \<in> seen" "receiptOf c = Some receipt"
    "receiptMatches cr channel op plan receipt" "resultBytes c ''channel-block.pb'' \<noteq> []"
    "(rcp_Outcome receipt = ''alreadyApplied'' \<and> rp_Action plan = ''AlreadyApplied'') \<or> signedReceipt cr net op seen c receipt"
    unfolding raftApplied_def by blast
  from r(7) have last: "(rcp_Outcome receipt = ''alreadyApplied'' \<and> rp_Action plan = ''AlreadyApplied'') \<or> signedReceipt cr net op seen' c receipt"
    using signedReceipt_mono [OF more] by blast
  show ?thesis unfolding raftApplied_def
    by (intro exI conjI, rule artifactRead_mono [OF more r(1)], rule r(2), rule subsetD [OF more r(3)], rule r(4), rule r(5), rule r(6), rule last)
qed

lemma channelEvidence_mono: "seen \<subseteq> seen' \<Longrightarrow> channelEvidence cr ord net channel seen \<Longrightarrow> channelEvidence cr ord net channel seen'"
  using bootstrapEvidence_mono [of seen seen' ord net channel] raftApplied_mono [of seen seen' cr net channel] by (simp add: channelEvidence_def)

definition orderersCounted :: "FabricNetwork \<Rightarrow> bool" where
  "orderersCounted net \<longleftrightarrow> (\<forall>org \<in> set (sp_Orgs (fn_Spec net)). \<forall>grp \<in> set (org_Orderers org). 0 \<le> og_Instances grp) \<and>
     length (desiredOrdererInstances net) < 2 ^ 31"

lemma counted_fold:
  assumes "\<And>x. x \<in> set xs \<Longrightarrow> 0 \<le> g x" "0 \<le> n" "n + sum_list (map g xs) < 2 ^ 31"
  shows "foldl (\<lambda>n x. int32_of (n + int32_of (g x))) n xs = n + sum_list (map g xs)"
  using assms
proof (induction xs arbitrary: n)
  case (Cons x xs)
  have rest: "0 \<le> sum_list (map g xs)" using Cons.prems(1) by (intro sum_list_nonneg) auto
  have x: "0 \<le> g x" using Cons.prems(1) by simp
  then have "int32_of (n + int32_of (g x)) = n + g x"
    using Cons.prems(2,3) rest by (simp add: int32_of_id)
  with Cons.IH [of "n + g x"] Cons.prems x show ?case by (simp add: add.assoc)
qed simp

lemma foldl_desired:
  "ws_Desired (foldl (\<lambda>st org. st\<lparr>ws_Desired := int32_of (ws_Desired st + f org)\<rparr>) st orgs) = foldl (\<lambda>n org. int32_of (n + f org)) (ws_Desired st) orgs"
  by (induction orgs arbitrary: st) simp_all

lemma desired_orderers:
  assumes "orderersCounted net"
  shows "ws_Desired (desiredNetworkOrdererStatus net) = int (length (desiredOrdererInstances net))"
proof -
  let ?count = "\<lambda>org. sum_list (map og_Instances (org_Orderers org))"
  have pos: "0 \<le> og_Instances grp" if "org \<in> set (sp_Orgs (fn_Spec net))" "grp \<in> set (org_Orderers org)" for org grp
    using assms that by (auto simp: orderersCounted_def)
  have length: "int (length (desiredOrdererInstances net)) = sum_list (map ?count (sp_Orgs (fn_Spec net)))"
  proof -
    have grps: "int (sum_list (map (\<lambda>grp. length (workloadNames (og_Prefix grp) (og_Instances grp))) grps)) = sum_list (map og_Instances grps)"
      if "\<forall>grp \<in> set grps. 0 \<le> og_Instances grp" for grps
      using that by (induction grps) (simp_all add: workloadNames_def)
    have "int (sum_list (map (\<lambda>org. sum_list (map (\<lambda>grp. length (workloadNames (og_Prefix grp) (og_Instances grp))) (org_Orderers org))) orgs)) =
        sum_list (map ?count orgs)" if "set orgs \<subseteq> set (sp_Orgs (fn_Spec net))" for orgs
      using that
    proof (induction orgs)
      case (Cons org orgs)
      then have "\<forall>grp \<in> set (org_Orderers org). 0 \<le> og_Instances grp" using pos by auto
      with Cons grps show ?case by simp
    qed simp
    then show ?thesis by (simp add: desiredOrdererInstances_def length_concat o_def)
  qed
  have total: "sum_list (map ?count (sp_Orgs (fn_Spec net))) < 2 ^ 31"
    using assms length by (simp add: orderersCounted_def)
  have nonneg: "0 \<le> ?count org" if "org \<in> set (sp_Orgs (fn_Spec net))" for org
    using pos [OF that] by (intro sum_list_nonneg) auto
  have each: "ws_Desired (desiredOrdererStatus org) = ?count org" if "org \<in> set (sp_Orgs (fn_Spec net))" for org
  proof -
    have "?count org \<le> sum_list (map ?count (sp_Orgs (fn_Spec net)))"
      using that nonneg by (intro member_le_sum_list) auto
    with total counted_fold [of "org_Orderers org" og_Instances 0] pos [OF that] show ?thesis by (simp add: desiredOrdererStatus_def)
  qed
  have small: "int32_of (?count org) = ?count org" if "org \<in> set (sp_Orgs (fn_Spec net))" for org
    using member_le_sum_list [of "?count org" "map ?count (sp_Orgs (fn_Spec net))"] that nonneg total by (intro int32_of_id) force+
  have "foldl (\<lambda>n org. int32_of (n + ws_Desired (desiredOrdererStatus org))) 0 (sp_Orgs (fn_Spec net)) =
      foldl (\<lambda>n org. int32_of (n + int32_of (?count org))) 0 (sp_Orgs (fn_Spec net))"
    by (rule foldl_cong) (simp_all add: each small)
  with counted_fold [of "sp_Orgs (fn_Spec net)" ?count 0] nonneg total length show ?thesis
    by (simp add: desiredNetworkOrdererStatus_def foldl_desired zeroWorkloadStatus_def)
qed

text \<open>What the specification alone decides.\<close>

lemma initial_members:
  "map (\<lambda>st. (cos_Name st, cos_PeerNames st)) (chs_Orgs (initialChannelStatus net ready channel)) = map (\<lambda>co. (co_Name co, co_Peers co)) (ch_Orgs channel)"
  "st \<in> set (chs_Orgs (initialChannelStatus net ready channel)) \<Longrightarrow> ws_Desired (cos_Peers st) = int (length (cos_PeerNames st))"
  "ws_Desired (chs_Peers (initialChannelStatus net ready channel)) = peerTotal (chs_Orgs (initialChannelStatus net ready channel))"
  "chs_Orderers (initialChannelStatus net ready channel) = desiredNetworkOrdererStatus net"
proof -
  have one: "cos_Name (fst (initialOrgStatus net ready co)) = co_Name co" "cos_PeerNames (fst (initialOrgStatus net ready co)) = co_Peers co"
    "ws_Desired (cos_Peers (fst (initialOrgStatus net ready co))) = int (length (co_Peers co))" for co
    by (simp_all add: initialOrgStatus_def Let_def split: option.splits prod.splits)
  show "map (\<lambda>st. (cos_Name st, cos_PeerNames st)) (chs_Orgs (initialChannelStatus net ready channel)) = map (\<lambda>co. (co_Name co, co_Peers co)) (ch_Orgs channel)"
    "st \<in> set (chs_Orgs (initialChannelStatus net ready channel)) \<Longrightarrow> ws_Desired (cos_Peers st) = int (length (cos_PeerNames st))"
    "ws_Desired (chs_Peers (initialChannelStatus net ready channel)) = peerTotal (chs_Orgs (initialChannelStatus net ready channel))"
    "chs_Orderers (initialChannelStatus net ready channel) = desiredNetworkOrdererStatus net"
    by (auto simp: initialChannelStatus_def Let_def peerTotal_def one o_def)
qed

lemma joinWith_nonempty: "ms \<noteq> [] \<Longrightarrow> \<forall>m \<in> set ms. m \<noteq> [] \<Longrightarrow> joinWith sep ms \<noteq> []"
  by (cases "(sep, ms)" rule: joinWith.cases) auto

lemma messages_nonempty: "\<forall>m \<in> set (channelMessages net channel @ concat (map (\<lambda>co. snd (initialOrgStatus net ready co)) (ch_Orgs channel))). m \<noteq> []"
  by (auto simp: channelMessages_def initialOrgStatus_def Let_def split: option.splits if_splits)

lemma no_peers_message: "co_Peers co = [] \<Longrightarrow> snd (initialOrgStatus net ready co) \<noteq> []"
  by (simp add: initialOrgStatus_def Let_def split: option.splits)

context observed
begin

lemma sees_block:
  "sees known (channelBlockReadiness (cl_Kube cl) ns ch) (\<lambda>(ok, message) seen. if ok then blockPublished seen ns ch else message \<noteq> [])"
  unfolding channelBlockReadiness_def
proof (rule sees_bind [OF sees_getConfigMap], goal_cases)
  case (1 found known1)
  show ?case
  proof (cases found)
    case None
    have "blockJobMessage j \<noteq> []" for j by (simp add: blockJobMessage_def split: option.splits)
    then have "gives (ioBind (getJob (cl_Kube cl) ns (channelBlockJobName ch)) (\<lambda>job. ioReturn (False, blockJobMessage job))) (\<lambda>r. \<not> fst r \<and> snd r \<noteq> [])"
      by (auto intro!: gives_bind_any)
    moreover have "ioKeeps (\<lambda>s. known1 \<subseteq> log s) (ioBind (getJob (cl_Kube cl) ns (channelBlockJobName ch)) (\<lambda>job. ioReturn (False, blockJobMessage job)))"
      by (auto intro!: ioKeeps_bind keeps_calls [OF log_grows])
    ultimately have "sees known1 (ioBind (getJob (cl_Kube cl) ns (channelBlockJobName ch)) (\<lambda>job. ioReturn (False, blockJobMessage job)))
        (\<lambda>r _. \<not> fst r \<and> snd r \<noteq> [])" by (rule sees_gives [rotated])
    then show ?thesis unfolding None option.case by (rule sees_weaken) (auto split: prod.splits)
  next
    case (Some block)
    with 1(2) show ?thesis unfolding Some option.case by (intro sees_return) (auto simp: blockPublished_def)
  qed
qed

lemma sees_bootstrap:
  assumes counts: "ws_Desired (chs_Orderers status) = int (length (desiredOrdererInstances net))" "desiredOrdererInstances net \<noteq> []"
    and members: "\<And>st. st \<in> set (chs_Orgs status) \<Longrightarrow> ws_Desired (cos_Peers st) = int (length (cos_PeerNames st)) \<and> cos_PeerNames st \<noteq> []"
      "ws_Desired (chs_Peers status) = peerTotal (chs_Orgs status)"
  shows "sees known (channelBootstrap cr ord (cl_Kube cl) net channel host status) (\<lambda>st seen. chs_Message st = [] \<longrightarrow>
    blockPublished seen (orgNamespaceName net host) (ch_Name channel) \<and>
    (\<forall>o1 \<in> set (desiredOrdererInstances net). ordererJoined ord seen (orgNamespaceName net host) (ch_Name channel) o1) \<and>
    (\<forall>(name, peers, _) \<in> memberKey ` set (chs_Orgs status). channelOrgJoined net channel seen name peers) \<and>
    (\<forall>e \<in> set (ch_ExternalOrgs channel). externalOrgSettled seen (ch_Name channel) e))"
  unfolding channelBootstrap_def Let_def
proof (rule sees_bind [OF sees_nothing [OF keeps_copies(5) [OF log_grows]]], rule sees_bind [OF sees_block], goal_cases)
  case block: (1 _ _ a known1)
  obtain ok message where a: "a = (ok, message)" by (cases a)
  let ?joined = "\<lambda>seen. \<forall>o1 \<in> set (desiredOrdererInstances net). ordererJoined ord seen (orgNamespaceName net host) (ch_Name channel) o1"
  show ?case
  proof (cases ok)
    case False
    with block show ?thesis by (auto simp: a intro!: sees_return)
  next
    case True
    then have "\<not> \<not> ok" by simp
    with block have published: "blockPublished known1 (orgNamespaceName net host) (ch_Name channel)" by (simp add: a)
    show ?thesis unfolding a prod.case if_not_P [OF \<open>\<not> \<not> ok\<close>] reconcileOrdererJoins_def unfolding case_prod_beta
    proof (rule sees_gate [OF sees_orderers], goal_cases)
      case joins: (2 b known2)
      show ?case
      proof (cases "fst b < int (length (desiredOrdererInstances net))")
        case True
        then show ?thesis using counts(1) by (auto simp: setChannelOrgMessages_def intro!: sees_return)
      next
        case False
        with joins(2) have all: "?joined known2" by (auto simp: counted_def)
        from False counts(1) show ?thesis
          by (simp, intro sees_weaken [OF sees_members])
            (use members counts(2) all blockPublished_mono [OF joins(1) published] in
              \<open>auto intro: evidence_mono(1) blockPublished_mono\<close>)
      qed
    qed (simp add: setChannelOrgMessages_def)
  qed
qed

lemma sees_steps:
  assumes "orderersCounted net" and messages: "\<forall>m \<in> set messages. m \<noteq> []"
    and full: "messages = [] \<Longrightarrow> ch_Orgs channel \<noteq> [] \<and> (\<forall>co \<in> set (ch_Orgs channel). co_Peers co \<noteq> [])"
  shows "sees known (channelSteps cr ord (cl_Kube cl) net componentsReady messages channel (initialChannelStatus net ready channel))
    (\<lambda>st seen. chs_Message st = [] \<longrightarrow> bootstrapEvidence ord net channel seen)"
proof (cases "messages \<noteq> [] \<or> \<not> componentsReady \<or> desiredOrdererInstances net = []")
  case True
  then show ?thesis using joinWith_nonempty [OF _ messages]
    by (auto simp: channelSteps_def intro!: sees_return split: list.splits)
next
  case False
  let ?status = "initialChannelStatus net ready channel"
  from False obtain host orderers where os: "desiredOrdererInstances net = host # orderers" by (cases "desiredOrdererInstances net") auto
  have members: "ws_Desired (cos_Peers st) = int (length (cos_PeerNames st)) \<and> cos_PeerNames st \<noteq> []" if "st \<in> set (chs_Orgs ?status)" for st
  proof -
    from that have "(cos_Name st, cos_PeerNames st) \<in> set (map (\<lambda>co. (co_Name co, co_Peers co)) (ch_Orgs channel))"
      by (simp flip: initial_members(1) [of net ready channel])
    with full False initial_members(2) [OF that] show ?thesis by auto
  qed
  have joined: "\<forall>co \<in> set (ch_Orgs channel). channelOrgJoined net channel seen (co_Name co) (co_Peers co)"
    if "\<forall>(name, peers, _) \<in> memberKey ` set (chs_Orgs ?status). channelOrgJoined net channel seen name peers" for seen
  proof
    fix co assume "co \<in> set (ch_Orgs channel)"
    then have "(co_Name co, co_Peers co) \<in> set (map (\<lambda>st. (cos_Name st, cos_PeerNames st)) (chs_Orgs ?status))" by (simp add: initial_members(1))
    with that show "channelOrgJoined net channel seen (co_Name co) (co_Peers co)" by (auto simp: memberKey_def)
  qed
  have "sees known (channelBootstrap cr ord (cl_Kube cl) net channel (oi_org host) ?status)
      (\<lambda>st seen. chs_Message st = [] \<longrightarrow> bootstrapEvidence ord net channel seen)"
  proof (rule sees_weaken [OF sees_bootstrap], goal_cases)
    case (5 a known')
    then show ?case using full False joined [of known'] by (simp add: bootstrapEvidence_def os)
  qed (use members initial_members(3,4) desired_orderers [OF assms(1)] os in simp_all)
  with False os show ?thesis by (simp add: channelSteps_def)
qed

lemma sees_channel:
  assumes "orderersCounted net"
  shows "sees known (reconcileChannel cr ord cl net orgStatuses channel) (\<lambda>st seen. chs_Ready st \<longrightarrow> channelEvidence cr ord net channel seen)"
  unfolding reconcileChannel_def Let_def
proof (rule sees_bind [OF sees_steps [OF assms messages_nonempty]], goal_cases)
  case 1
  then show ?case using no_peers_message by (fastforce simp: channelMessages_def split: if_splits)
next
  case steps: (2 status known1)
  show ?case
  proof (cases "chs_Message status = [] \<and> ch_RaftUpdate channel \<noteq> None")
    case False
    with steps(2) show ?thesis
      by (auto simp: channelRaftStep_def channelEvidence_def channelReady_def bootstrapEvidence_mono intro!: sees_bind [of _ _ "\<lambda>st _. st = status"] sees_return split: option.splits)
  next
    case True
    then obtain op where op: "ch_RaftUpdate channel = Some op" by auto
    have "sees known1 (ioBind (reconcileRaftUpdate cr cl net channel op) (\<lambda>raft. ioReturn (status\<lparr>chs_RaftUpdate := Some raft, chs_Message := rus_Message raft\<rparr>)))
        (\<lambda>st seen. \<exists>raft. chs_RaftUpdate st = Some raft \<and> (rus_Ready raft \<longrightarrow> raftApplied cr net channel op seen))"
    proof (rule sees_bind [OF sees_raft], rule sees_return, goal_cases)
      case (1 raft known2 seen)
      then show ?case using raftApplied_mono [OF 1(3)] by auto
    qed
    with True op have "sees known1 (channelRaftStep cr cl net channel status)
        (\<lambda>st seen. \<exists>raft. chs_RaftUpdate st = Some raft \<and> (rus_Ready raft \<longrightarrow> raftApplied cr net channel op seen))" by (simp add: channelRaftStep_def)
    then show ?thesis
    proof (rule sees_bind, intro sees_return impI, goal_cases)
      case (1 st known2 known3)
      then have "raftApplied cr net channel op known3" using raftApplied_mono [OF 1(4)] by (auto simp: channelReady_def)
      with True steps(2) 1 show ?case by (auto simp: channelEvidence_def op intro: bootstrapEvidence_mono)
    qed
  qed
qed

lemma loop_evidence:
  assumes "orderersCounted net" "channelLoopIO cr ord cl net orgStatuses statuses channels s = ((statuses', err), s1)"
  shows "log s \<subseteq> log s1 \<and> (\<exists>new. statuses' = statuses @ new \<and>
    (\<forall>(st, channel) \<in> set (zip new channels). chs_Ready st \<longrightarrow> channelEvidence cr ord net channel (log s1)))"
  using assms(2)
proof (induction channels arbitrary: statuses s)
  case (Cons channel channels)
  obtain r s2 where step: "reconcileChannel cr ord cl net orgStatuses channel s = (r, s2)" by (cases "reconcileChannel cr ord cl net orgStatuses channel s")
  have grown: "log s \<subseteq> log s2" using ioKeepsD [OF keeps_channel [OF log_grows], of "log s" s] step by (metis order_refl snd_conv)
  show ?case
  proof (cases r)
    case (Inl e)
    with Cons.prems step grown show ?thesis by (intro conjI exI [of _ "[]"]) auto
  next
    case (Inr st)
    from sees_channel [OF assms(1), of "{}" cr ord orgStatuses channel] step Inr
    have st: "chs_Ready st \<longrightarrow> channelEvidence cr ord net channel (log s2)" by (simp add: sees_def)
    from Cons.prems step Inr have "channelLoopIO cr ord cl net orgStatuses (statuses @ [st]) channels s2 = ((statuses', err), s1)" by simp
    from Cons.IH [OF this] obtain new where new: "log s2 \<subseteq> log s1" "statuses' = statuses @ [st] @ new"
      "\<forall>(st, channel) \<in> set (zip new channels). chs_Ready st \<longrightarrow> channelEvidence cr ord net channel (log s1)" by auto
    with grown st show ?thesis by (intro conjI exI [of _ "st # new"]) (auto intro: channelEvidence_mono)
  qed
qed auto

end


end
