(* ===== verification/Channel_Example.thy ===== *)
theory Channel_Example
  imports Channel_Ready
begin

text \<open>
  A channel that becomes ready: a network of an ordering organization and a member organization, a
  cluster that holds the published results, and the run of the channel stage on it, followed step by
  step with \<open>succeeds\<close>.
\<close>

text \<open>A cluster with fixed contents that acknowledges every write.\<close>

definition fixedCluster :: "(objkey \<times> KObject) list \<Rightarrow> unit Cluster" where
  "fixedCluster obs =
     \<lparr>cl_Kube = \<lparr>k_Get = (\<lambda>k s. (case map_of obs k of None \<Rightarrow> Inl NotFound | Some ob \<Rightarrow> Inr ob, s)),
        k_Create = (\<lambda>_ s. (Inr (), s)), k_Update = (\<lambda>_ s. (Inr (), s)), k_Now = (\<lambda>s. (0, s)), k_RandInt = (\<lambda>_ s. (Inr 0, s))\<rparr>,
      cl_Delete = (\<lambda>_ s. (Inr (), s)), cl_List = (\<lambda>_ _ _ s. (Inr [], s)), cl_GetNetwork = (\<lambda>_ s. (Inl NotFound, s)),
      cl_UpdateNetwork = (\<lambda>_ s. (Inr (), s)), cl_PatchStatus = (\<lambda>_ _ s. (Inr (), s)), cl_Event = (\<lambda>_ _ _ s. s),
      cl_ParseQuantity = cl_ParseQuantity memCluster, cl_SetCondition = cl_SetCondition memCluster, cl_ErrorText = cl_ErrorText memCluster,
      cl_MarshalIndent = cl_MarshalIndent memCluster, cl_JSONToYAML = cl_JSONToYAML memCluster\<rparr>"

definition memberOrg :: Org where
  "memberOrg = tlsPeerOrg\<lparr>org_Peer := Some \<lparr>pc_Instances = 1, pc_DB = ''leveldb'', pc_Prefix = ''peer'',
     pc_ExternalEndpoints = [\<lparr>ee_Name = ''peer0'', ee_Address = ''p:7'', ee_TLSHosts = [], ee_TLSHostnameOverride = []\<rparr>]\<rparr>\<rparr>"

definition quoted :: "string \<Rightarrow> string" where
  "quoted s = [CHR 0x22] @ s @ [CHR 0x22]"

definition hostOrg :: Org where
  "hostOrg = tinyOrg\<lparr>org_Organization := \<lparr>om_Name = ''h'', om_Domain = ''d'', om_MSPName = ''H''\<rparr>,
     org_Orderers := [\<lparr>og_GroupName = ''g'', og_Type = ''etcdraft'', og_Instances = 1, og_Prefix = ''ord'', og_ExternalEndpoints = []\<rparr>]\<rparr>"

definition foundingChannel :: Channel where
  "foundingChannel = \<lparr>ch_Name = ''ch'', ch_Orgs = [\<lparr>co_Name = ''o'', co_Peers = [''peer0''], co_SignedUpdateRef = None\<rparr>], ch_ExternalOrgs = [], ch_RaftUpdate = None\<rparr>"

definition foundingNetwork :: FabricNetwork where
  "foundingNetwork = tlsNetwork\<lparr>fn_Spec := (fn_Spec tlsNetwork)\<lparr>sp_Orgs := [hostOrg, memberOrg], sp_Channels := [foundingChannel]\<rparr>\<rparr>"

definition foundingOrderer :: ordererInstance where
  "foundingOrderer = \<lparr>oi_org = hostOrg, oi_group = hd (org_Orderers hostOrg), oi_name = ''ord0'', oi_namespace = orgNamespaceName foundingNetwork hostOrg\<rparr>"

definition foundingPeer :: peerInstance where
  "foundingPeer = \<lparr>pi_org = memberOrg, pi_name = ''peer0'', pi_namespace = orgNamespaceName foundingNetwork memberOrg\<rparr>"

definition material :: "string \<Rightarrow> string \<Rightarrow> Secret" where
  "material ns name = \<lparr>sec_Meta = \<lparr>mt_Name = name, mt_Namespace = ns, mt_Labels = None, mt_Annotations = None\<rparr>,
     sec_Type = ''Opaque'', sec_Data = [(''ca.crt'', ''root'')]\<rparr>"

definition published :: "string \<Rightarrow> string \<Rightarrow> string \<Rightarrow> string \<Rightarrow> ConfigMap" where
  "published ns name key v = \<lparr>cm_Meta = \<lparr>mt_Name = name, mt_Namespace = ns, mt_Labels = None, mt_Annotations = None\<rparr>,
     cm_Data = [(key, v)], cm_BinaryData = [], cm_Immutable = False\<rparr>"

definition publishedBlock :: ConfigMap where
  "publishedBlock = published ''fo-net-h'' ''ch-channel-block'' (channelBlockFileName ''ch'') ''block''"

definition publishedOrdererJoin :: ConfigMap where
  "publishedOrdererJoin = published ''fo-net-h'' ''ch-h-ord0-orderer-join-result'' channelOrdererJoinResultKey
     (''{'' @ quoted ''name'' @ '':'' @ quoted ''ch'' @ '','' @ quoted ''status'' @ '':'' @ quoted ''active'' @ ''}'')"

definition publishedPeerJoin :: ConfigMap where
  "publishedPeerJoin = published ''fo-net-o'' ''ch-o-peer0-peer-join-result'' channelPeerJoinResultKey ''Channels peers has joined: ch''"

definition publishedAnchor :: ConfigMap where
  "publishedAnchor = published ''fo-net-o'' ''ch-o-anchor-peer-update-result'' channelAnchorPeerResultKey
     (''{'' @ quoted ''channel'' @ '':'' @ quoted ''ch'' @ '','' @ quoted ''mspID'' @ '':'' @ quoted ''M'' @ '','' @ quoted ''anchorPeers'' @ '':[{'' @
      quoted ''host'' @ '':'' @ quoted ''p'' @ '','' @ quoted ''port'' @ '':7}]}'')"

definition foundingObjects :: "(objkey \<times> KObject) list" where
  "foundingObjects = [
     ((KSecret, ''fo-net-h'', ''h-admin-msp''), OSecret (material ''fo-net-h'' ''h-admin-msp'')),
     ((KSecret, ''fo-net-o'', ''o-admin-msp''), OSecret (material ''fo-net-o'' ''o-admin-msp'')),
     ((KSecret, ''fo-net-h'', ''h-admin-tls''), OSecret (material ''fo-net-h'' ''h-admin-tls'')),
     ((KSecret, ''fo-net-h'', ''ord0-tls''), OSecret (material ''fo-net-h'' ''ord0-tls'')),
     ((KConfigMap, ''fo-net-h'', ''ch-channel-block''), OConfigMap publishedBlock),
     ((KConfigMap, ''fo-net-h'', ''ch-h-ord0-orderer-join-result''), OConfigMap publishedOrdererJoin),
     ((KConfigMap, ''fo-net-o'', ''ch-o-peer0-peer-join-result''), OConfigMap publishedPeerJoin),
     ((KConfigMap, ''fo-net-o'', ''ch-o-anchor-peer-update-result''), OConfigMap publishedAnchor)]"

definition readyStatus :: OrgStatus where
  "readyStatus = \<lparr>os_Name = ''o'', os_Namespace = [], os_IdentityReady = True, os_IdentityError = [], os_CAReady = True, os_CAEndpoint = [],
     os_OrdererEndpoints = [], os_Orderers = zeroWorkloadStatus, os_OrderersReady = True, os_PeerEndpoints = [], os_Peers = zeroWorkloadStatus,
     os_PeersReady = True, os_ConnectionProfileConfigMapName = [], os_Certificates = [], os_CertificateRenewalRequired = False,
     os_CertificateRenewalError = [], os_CARegistrarRotation = undefined, os_Ready = True\<rparr>"



text \<open>Runs on such a cluster succeed from every log.\<close>

abbreviation fixedKube :: "(objkey \<times> KObject) list \<Rightarrow> (unit \<times> reads) Kube" where
  "fixedKube obs \<equiv> cl_Kube (loggedCluster (fixedCluster obs))"

definition succeeds :: "(unit \<times> reads, 'a) io \<Rightarrow> 'a \<Rightarrow> bool" where
  "succeeds f r \<longleftrightarrow> (\<forall>l. \<exists>l'. f ((), l) = (Inr r, ((), l')))"

lemma succeeds_return [simp]: "succeeds (ioReturn r) r'  \<longleftrightarrow> r = r'"
  by (auto simp: succeeds_def ioReturn_def)

lemma succeeds_bind: "succeeds f a \<Longrightarrow> succeeds (g a) r \<Longrightarrow> succeeds (ioBind f g) r"
  unfolding succeeds_def ioBind_def
proof
  fix l assume f: "\<forall>l. \<exists>l'. f ((), l) = (Inr a, ((), l'))" and g: "\<forall>l. \<exists>l'. g a ((), l) = (Inr r, ((), l'))"
  from f obtain l1 where "f ((), l) = (Inr a, ((), l1))" by blast
  with g show "\<exists>l'. (case f ((), l) of (Inl e, s1) \<Rightarrow> (Inl e, s1) | (Inr a, s1) \<Rightarrow> g a s1) = (Inr r, ((), l'))" by simp
qed

lemma succeeds_seq: "(\<And>f. f \<in> set fs \<Longrightarrow> succeeds f ()) \<Longrightarrow> succeeds (ioSeq fs) ()"
  by (induction fs) (auto intro!: succeeds_bind)

lemma fixed_get: "map_of obs k = Some ob \<Longrightarrow> k_Get (fixedKube obs) k s = (Inr ob, (fst s, (k, ob) # snd s))"
  "map_of obs k = None \<Longrightarrow> k_Get (fixedKube obs) k s = (Inl NotFound, s)"
  by (cases s, simp add: loggedCluster_def loggedGet_def fixedCluster_def)+

lemma fixed_write: "map_of obs (objKey ob) = None \<Longrightarrow> succeeds (createOrUpdate (fixedKube obs) ob m) ()"
  by (simp add: succeeds_def createOrUpdate_def fixed_get) (simp add: loggedCluster_def fixedCluster_def carried_def)

lemma fixed_configMap: "map_of obs (KConfigMap, ns, n) = Some (OConfigMap c) \<Longrightarrow> succeeds (getConfigMap (fixedKube obs) ns n) (Some c)"
  by (simp add: succeeds_def getConfigMap_def fixed_get)

lemma fixed_copy:
  "map_of obs (KSecret, src) = Some (OSecret sec) \<Longrightarrow> map_of obs (KSecret, ns, n) = None \<Longrightarrow>
   succeeds (ensureCopiedSecret (fixedKube obs) src ns n labels annotations) ()"
  unfolding ensureCopiedSecret_def
  by (rule succeeds_bind [of _ "Some sec"])
    (simp_all add: succeeds_def getSecret_def fixed_get fixed_write [unfolded succeeds_def] ensureReplicatedSecret_def objKey_def copiedSecret_def)

lemma fixed_RBAC:
  assumes "\<And>k. fst k \<in> {KServiceAccount, KRole, KRoleBinding} \<Longrightarrow> map_of obs k = None"
  shows "succeeds (ensureChannelRBAC (fixedKube obs) net org ch ns) ()"
  unfolding ensureChannelRBAC_def ensureServiceAccount_def ensureRole_def ensureRoleBinding_def
  by (intro succeeds_bind [of _ "()"] fixed_write) (auto split: prod.splits intro!: fixed_write assms simp: objKey_def)

abbreviation foundingKube :: "(unit \<times> reads) Kube" where
  "foundingKube \<equiv> fixedKube foundingObjects"

lemma founding_facts:
  "desiredOrdererInstances foundingNetwork = [foundingOrderer]" "orgNamespaceName foundingNetwork hostOrg = ''fo-net-h''"
  "orgNamespaceName foundingNetwork memberOrg = ''fo-net-o''" "map_of (orgsByName foundingNetwork) ''o'' = Some memberOrg"
  "channelConfigOrganizations foundingNetwork foundingChannel = [hostOrg, memberOrg]"
  "channelAnchorPeerForOrg foundingNetwork foundingChannel memberOrg = Some foundingPeer"
  "channelMessages foundingNetwork foundingChannel = []"
  by code_simp+



lemma founding_names:
  "channelBlockConfigMapName ''ch'' = ''ch-channel-block''" "channelOrdererJoinResultConfigMapName ''ch'' foundingOrderer = ''ch-h-ord0-orderer-join-result''"
  "channelPeerJoinResultConfigMapName ''ch'' foundingPeer = ''ch-o-peer0-peer-join-result''"
  "channelAnchorPeerUpdateResultConfigMapName ''ch'' memberOrg = ''ch-o-anchor-peer-update-result''"
  "channelConfigMapName ''ch'' \<notin> {''ch-channel-block'', ''ch-h-ord0-orderer-join-result''}"
  by code_simp+

lemma founding_simps:
  "oi_org foundingOrderer = hostOrg" "oi_name foundingOrderer = ''ord0''" "oi_namespace foundingOrderer = ''fo-net-h''"
  "ch_Name foundingChannel = ''ch''" "ch_ExternalOrgs foundingChannel = []" "ch_RaftUpdate foundingChannel = None"
  by code_simp+

lemma founding_verdict_block: "map_of (cm_Data publishedBlock) (channelBlockFileName ''ch'') = Some ''block''"
  by code_simp

lemma founding_verdict_orderer: "ordererJoinVerdict id ''ch'' foundingOrderer (Some publishedOrdererJoin) = (True, [])"
  by code_simp

lemma founding_verdict_peer: "peerJoinVerdict ''ch'' foundingPeer (Some publishedPeerJoin) = (True, [])"
  by code_simp

lemma founding_verdict_anchor: "anchorPeerVerdict ''ch'' memberOrg foundingPeer (Some publishedAnchor) = (True, [])"
  by code_simp

lemmas founding_verdicts = founding_verdict_block founding_verdict_orderer founding_verdict_peer founding_verdict_anchor

lemma founding_distinct: "distinct (map fst foundingObjects)"
  by code_simp

lemma founding_mem:
  "((KSecret, ''fo-net-h'', ''h-admin-msp''), OSecret (material ''fo-net-h'' ''h-admin-msp'')) \<in> set foundingObjects"
  "((KSecret, ''fo-net-o'', ''o-admin-msp''), OSecret (material ''fo-net-o'' ''o-admin-msp'')) \<in> set foundingObjects"
  "((KSecret, ''fo-net-h'', ''h-admin-tls''), OSecret (material ''fo-net-h'' ''h-admin-tls'')) \<in> set foundingObjects"
  "((KSecret, ''fo-net-h'', ''ord0-tls''), OSecret (material ''fo-net-h'' ''ord0-tls'')) \<in> set foundingObjects"
  "((KConfigMap, ''fo-net-h'', ''ch-channel-block''), OConfigMap publishedBlock) \<in> set foundingObjects"
  "((KConfigMap, ''fo-net-h'', ''ch-h-ord0-orderer-join-result''), OConfigMap publishedOrdererJoin) \<in> set foundingObjects"
  "((KConfigMap, ''fo-net-o'', ''ch-o-peer0-peer-join-result''), OConfigMap publishedPeerJoin) \<in> set foundingObjects"
  "((KConfigMap, ''fo-net-o'', ''ch-o-anchor-peer-update-result''), OConfigMap publishedAnchor) \<in> set foundingObjects"
  unfolding foundingObjects_def list.set by (rule insertI1 | rule insertI2)+

lemmas founding_lookup = founding_mem [THEN map_of_is_SomeI [OF founding_distinct]]

lemma founding_kinds: "k \<in> fst ` set foundingObjects \<Longrightarrow> fst k \<in> {KSecret, KConfigMap}"
proof -
  have "list_all (\<lambda>ob. fst (fst ob) \<in> {KSecret, KConfigMap}) foundingObjects" by code_simp
  then show "k \<in> fst ` set foundingObjects \<Longrightarrow> fst k \<in> {KSecret, KConfigMap}" by (auto simp: list_all_iff)
qed

lemma founding_RBAC: "succeeds (ensureChannelRBAC foundingKube net org ch ns) ()"
  by (rule fixed_RBAC) (use founding_kinds in \<open>force simp: map_of_eq_None_iff\<close>)

lemma founding_crypto: "succeeds (ensureChannelCryptoSecrets foundingKube foundingNetwork foundingChannel hostOrg ''fo-net-h'') ()"
proof -
  have simple: "networkUsesBFTOrderers foundingNetwork = False" "firstByOrg {} [foundingOrderer] = [foundingOrderer]" by code_simp+
  have sources: "identitySecretName (adminIdentityName hostOrg) secretKindMSP = ''h-admin-msp''" "identitySecretName (adminIdentityName memberOrg) secretKindMSP = ''o-admin-msp''"
    "identitySecretName (adminIdentityName hostOrg) secretKindTLS = ''h-admin-tls''" "identitySecretName ''ord0'' secretKindTLS = ''ord0-tls''" by code_simp+
  have targets: "channelOrgMSPSecretName ''ch'' hostOrg \<notin> {''h-admin-msp'', ''h-admin-tls'', ''ord0-tls''}"
    "channelOrgMSPSecretName ''ch'' memberOrg \<notin> {''h-admin-msp'', ''h-admin-tls'', ''ord0-tls''}"
    "channelOrdererAdminTLSSecretName ''ch'' hostOrg \<notin> {''h-admin-msp'', ''h-admin-tls'', ''ord0-tls''}"
    "channelOrdererTLSSecretName ''ch'' ''ord0'' \<notin> {''h-admin-msp'', ''h-admin-tls'', ''ord0-tls''}" by code_simp+
  have copy: "succeeds (ensureCopiedSecret foundingKube (ns, name) ''fo-net-h'' target labels annotations) ()"
    if "map_of foundingObjects (KSecret, ns, name) = Some (OSecret (material ns name))" "target \<notin> {''h-admin-msp'', ''h-admin-tls'', ''ord0-tls''}"
    for ns name target labels annotations
    by (rule fixed_copy [OF that(1)]) (use that(2) in \<open>simp add: foundingObjects_def\<close>)
  show ?thesis
    unfolding ensureChannelCryptoSecrets_def Let_def simple founding_facts founding_simps
    by (rule succeeds_seq) (use targets in \<open>auto simp: simple sources founding_facts founding_simps founding_lookup intro!: copy\<close>)
qed

lemma founding_block: "succeeds (channelBlockReadiness foundingKube ''fo-net-h'' ''ch'') (True, [])"
  unfolding channelBlockReadiness_def founding_names
  by (rule succeeds_bind [OF fixed_configMap [of _ _ _ publishedBlock]]) (simp_all add: founding_lookup founding_verdicts)

lemma founding_generation: "succeeds (reconcileChannelBlockGeneration foundingKube foundingNetwork foundingChannel hostOrg ''fo-net-h'') ()"
proof -
  have "case configtxConsensus foundingNetwork foundingChannel of Inl _ \<Rightarrow> False | Inr _ \<Rightarrow> True" by code_simp
  then obtain yaml where "buildConfigtxYAML foundingNetwork foundingChannel = Inr yaml"
    by (auto simp: buildConfigtxYAML_def split: sum.splits)
  then obtain c where c: "buildChannelConfigMap foundingNetwork foundingChannel hostOrg ''fo-net-h'' = Inr c"
      "objKey (OConfigMap c) = (KConfigMap, ''fo-net-h'', channelConfigMapName ''ch'')"
    by (simp add: buildChannelConfigMap_def objKey_def channelMeta_def founding_simps)
  have absent: "map_of foundingObjects (objKey (OConfigMap c)) = None"
    unfolding c(2) using founding_names(5) by (simp add: foundingObjects_def)
  show ?thesis
    unfolding reconcileChannelBlockGeneration_def founding_simps ensureConfigMap_def c
    by (intro succeeds_bind [OF founding_RBAC] succeeds_bind [OF founding_crypto] succeeds_bind [of _ c] succeeds_bind [OF fixed_write [OF absent]] succeeds_bind [OF founding_block])
      (simp_all add: succeeds_def ioLift_def ioReturn_def)
qed

lemma founding_results:
  "succeeds (ordererJoinResultReadiness id foundingKube ''fo-net-h'' ''ch'' foundingOrderer) (True, [])"
  "succeeds (peerJoinResultReadiness foundingKube ''fo-net-o'' ''ch'' foundingPeer) (True, [])"
  "succeeds (anchorPeerUpdateResultReadiness foundingKube ''fo-net-o'' ''ch'' memberOrg foundingPeer) (True, [])"
  unfolding ordererJoinResultReadiness_def peerJoinResultReadiness_def anchorPeerUpdateResultReadiness_def founding_names
  by (rule succeeds_bind [OF fixed_configMap], rule founding_lookup, simp add: founding_verdicts)+

lemma founding_copy: "succeeds (ensureChannelBlockConfigMapCopy foundingKube foundingNetwork foundingChannel ''fo-net-h'' memberOrg ''fo-net-o'') ()"
proof -
  have absent: "map_of foundingObjects (KConfigMap, ''fo-net-o'', ''ch-channel-block'') = None"
    by (simp add: foundingObjects_def)
  show ?thesis
    unfolding ensureChannelBlockConfigMapCopy_def ensureChannelConfigMapNamedCopy_def founding_simps founding_names ensureConfigMap_def
    by (rule succeeds_bind [OF fixed_configMap [OF founding_lookup(5)]], simp, rule fixed_write) (simp add: objKey_def channelMeta_def absent)
qed

lemma founding_inputs: "succeeds (ensureAnchorPeerInputs foundingKube foundingNetwork foundingChannel memberOrg ''fo-net-o'' foundingOrderer) ()"
proof -
  have "channelOrdererTLSSecretName ''ch'' ''ord0'' \<noteq> ''o-admin-msp''" "identitySecretName ''ord0'' secretKindTLS = ''ord0-tls''" by code_simp+
  then show ?thesis unfolding ensureAnchorPeerInputs_def founding_simps
    by (simp, intro fixed_copy [OF founding_lookup(4)]) (simp add: foundingObjects_def)
qed

lemma founding_org:
  assumes "cos_Name st = ''o''" "cos_PeerNames st = [''peer0'']"
  shows "succeeds (scanLocalOrgs foundingKube foundingNetwork ''ch'' 0 None [] [st]) (Some (memberOrg, foundingPeer), [])"
    "succeeds (peerOrgLoop foundingKube foundingNetwork foundingChannel ''fo-net-h'' 0 [] [st]) (1, [], [peerOrgStatus st 1])"
    "ws_Desired (cos_Peers st) = 1 \<Longrightarrow> ws_Ready (cos_Peers st) = 1 \<Longrightarrow>
      succeeds (anchorLoop foundingKube foundingNetwork foundingChannel foundingOrderer [] [st]) ([], [st\<lparr>cos_Message := [], cos_Ready := True\<rparr>])"
proof -
  have peer: "\<lparr>pi_org = memberOrg, pi_name = ''peer0'', pi_namespace = ''fo-net-o''\<rparr> = foundingPeer"
    by (simp add: foundingPeer_def founding_facts)
  show "succeeds (scanLocalOrgs foundingKube foundingNetwork ''ch'' 0 None [] [st]) (Some (memberOrg, foundingPeer), [])"
    by (simp add: assms founding_facts peer Let_def, intro succeeds_bind [of _ "Some foundingPeer"] succeeds_bind [OF founding_results(3)])
      (simp_all add: adminMissing_def)
  have "succeeds (peerJoinLoop foundingKube foundingNetwork foundingChannel memberOrg ''fo-net-o'' 0 [''peer0'']) (1, [])"
    by (simp add: founding_simps peer Let_def, rule succeeds_bind [OF founding_results(2)]) simp
  then show "succeeds (peerOrgLoop foundingKube foundingNetwork foundingChannel ''fo-net-h'' 0 [] [st]) (1, [], [peerOrgStatus st 1])"
    by (simp add: assms founding_facts Let_def del: peerJoinLoop.simps,
        intro succeeds_bind [OF founding_RBAC] succeeds_bind [OF founding_copy] succeeds_bind [of _ "(1, [])"]) simp_all
  show "ws_Desired (cos_Peers st) = 1 \<Longrightarrow> ws_Ready (cos_Peers st) = 1 \<Longrightarrow>
      succeeds (anchorLoop foundingKube foundingNetwork foundingChannel foundingOrderer [] [st]) ([], [st\<lparr>cos_Message := [], cos_Ready := True\<rparr>])"
    by (simp add: assms founding_facts founding_simps Let_def, intro succeeds_bind [OF founding_inputs] succeeds_bind [OF founding_results(3)]) simp
qed


definition foundingStatus :: ChannelStatus where
  "foundingStatus = initialChannelStatus foundingNetwork (readyOrgsByName [readyStatus]) foundingChannel"

lemma founding_initial:
  "\<exists>st. chs_Orgs foundingStatus = [st] \<and> cos_Name st = ''o'' \<and> cos_PeerNames st = [''peer0''] \<and> ws_Desired (cos_Peers st) = 1"
  "chs_Orderers foundingStatus = \<lparr>ws_Desired = 1, ws_Ready = 0\<rparr>" "ws_Desired (chs_Peers foundingStatus) = 1"
  "chs_RaftUpdate foundingStatus = None" "chs_Message foundingStatus = []"
  "concat (map (\<lambda>co. snd (initialOrgStatus foundingNetwork (readyOrgsByName [readyStatus]) co)) (ch_Orgs foundingChannel)) = []"
proof -
  have "(map (\<lambda>st. (cos_Name st, cos_PeerNames st, ws_Desired (cos_Peers st))) (chs_Orgs foundingStatus), chs_Orderers foundingStatus,
      ws_Desired (chs_Peers foundingStatus), chs_RaftUpdate foundingStatus, chs_Message foundingStatus,
      concat (map (\<lambda>co. snd (initialOrgStatus foundingNetwork (readyOrgsByName [readyStatus]) co)) (ch_Orgs foundingChannel))) =
      ([(''o'', [''peer0''], 1)], \<lparr>ws_Desired = 1, ws_Ready = 0\<rparr>, 1, None, [], [])"
    by code_simp
  then show "\<exists>st. chs_Orgs foundingStatus = [st] \<and> cos_Name st = ''o'' \<and> cos_PeerNames st = [''peer0''] \<and> ws_Desired (cos_Peers st) = 1"
    "chs_Orderers foundingStatus = \<lparr>ws_Desired = 1, ws_Ready = 0\<rparr>" "ws_Desired (chs_Peers foundingStatus) = 1"
    "chs_RaftUpdate foundingStatus = None" "chs_Message foundingStatus = []"
    "concat (map (\<lambda>co. snd (initialOrgStatus foundingNetwork (readyOrgsByName [readyStatus]) co)) (ch_Orgs foundingChannel)) = []"
    by auto
qed

lemma founding_run:
  "\<exists>status. succeeds (reconcileChannel toy_crypto id (loggedCluster (fixedCluster foundingObjects)) foundingNetwork [readyStatus] foundingChannel) status \<and> chs_Ready status"
proof -
  from founding_initial(1) obtain st where st: "chs_Orgs foundingStatus = [st]" "cos_Name st = ''o''" "cos_PeerNames st = [''peer0'']" "ws_Desired (cos_Peers st) = 1" by blast
  note [simp] = founding_initial(2-5) and [simp del] = scanLocalOrgs.simps peerOrgLoop.simps anchorLoop.simps
  define status where "status = foundingStatus\<lparr>chs_ConfigReady := True, chs_BlockReady := True, chs_Orderers := \<lparr>ws_Desired = 1, ws_Ready = 1\<rparr>\<rparr>"
  let ?st1 = "peerOrgStatus st 1"
  let ?st2 = "?st1\<lparr>cos_Message := [], cos_Ready := True\<rparr>"
  let ?status2 = "status\<lparr>chs_Orgs := [?st1], chs_Peers := (chs_Peers status)\<lparr>ws_Ready := 1\<rparr>, chs_Message := []\<rparr>"
  let ?final = "status\<lparr>chs_Orgs := [?st2], chs_Peers := (chs_Peers status)\<lparr>ws_Ready := 1\<rparr>, chs_ExternalOrgs := [], chs_Message := []\<rparr>"
  have st1: "cos_Name ?st1 = ''o''" "cos_PeerNames ?st1 = [''peer0'']" "ws_Desired (cos_Peers ?st1) = 1" "ws_Ready (cos_Peers ?st1) = 1"
    using st by (simp_all add: peerOrgStatus_def Let_def)
  have locals: "succeeds (reconcileLocalOrgAdditions toy_crypto foundingKube foundingNetwork foundingChannel status) ([], [st])"
    unfolding reconcileLocalOrgAdditions_def founding_facts founding_simps
    by (simp add: status_def st, rule succeeds_bind [OF founding_org(1) [OF st(2,3)]]) (simp add: status_def st)
  have joins: "succeeds (reconcilePeerJoins foundingKube foundingNetwork foundingChannel ''fo-net-h'' (status\<lparr>chs_Orgs := [st]\<rparr>)) (1, [], [?st1])"
    unfolding reconcilePeerJoins_def by (simp, rule succeeds_bind [OF founding_org(2) [OF st(2,3)]]) (simp add: status_def)
  have anchors: "succeeds (reconcileAnchorPeerUpdates foundingKube foundingNetwork foundingChannel ?status2) ([], [?st2])"
    unfolding reconcileAnchorPeerUpdates_def founding_facts using founding_org(3) [OF st1] by simp
  have members: "succeeds (channelMembers toy_crypto foundingKube foundingNetwork foundingChannel ''fo-net-h'' status) ?final"
    unfolding channelMembers_def Let_def
    by (rule succeeds_bind [OF locals], simp, rule succeeds_bind, rule joins, simp, rule succeeds_bind, rule anchors [simplified], simp,
        rule succeeds_bind [of _ "([], [])"]) (simp_all add: reconcileExternalOrgUpdates_def founding_simps)
  have "succeeds (ordererJoinLoop id foundingKube foundingNetwork foundingChannel hostOrg ''fo-net-h'' 0 [foundingOrderer]) (1, [])"
    by (simp add: founding_simps, rule succeeds_bind [OF founding_results(1)]) simp
  then have orderers: "succeeds (reconcileOrdererJoins id foundingKube foundingNetwork foundingChannel hostOrg ''fo-net-h'') (1, [])"
    unfolding reconcileOrdererJoins_def founding_facts .
  have bootstrap: "succeeds (channelBootstrap toy_crypto id foundingKube foundingNetwork foundingChannel hostOrg foundingStatus) ?final"
    unfolding channelBootstrap_def Let_def founding_facts founding_simps
    by (rule succeeds_bind [OF founding_generation], rule succeeds_bind [OF founding_block], simp, rule succeeds_bind [OF orderers])
      (use members in \<open>simp add: status_def\<close>)
  have "succeeds (channelSteps toy_crypto id foundingKube foundingNetwork True [] foundingChannel foundingStatus) ?final"
    using bootstrap by (simp add: channelSteps_def founding_facts founding_simps)
  moreover have "allOrgsReady [readyStatus]" by (simp add: allOrgsReady_def readyStatus_def)
  ultimately have "succeeds (reconcileChannel toy_crypto id (loggedCluster (fixedCluster foundingObjects)) foundingNetwork [readyStatus] foundingChannel)
      (?final\<lparr>chs_Ready := channelReady ?final\<rparr>)"
    unfolding reconcileChannel_def Let_def founding_initial(6) founding_facts foundingStatus_def [symmetric]
    by (intro succeeds_bind [of _ ?final]) (simp_all add: channelRaftStep_def founding_simps)
  moreover have "channelReady ?final" by (simp add: channelReady_def status_def channelExternalOrgsReady_def)
  ultimately show ?thesis by fastforce
qed


end
