(* ===== verification/Tar_Archive.thy ===== *)
theory Tar_Archive
  imports Json_Text
begin

text \<open>
  The archives of a chaincode package. The USTAR writer of \<open>archive/tar\<close> is written out as far as
  \<open>gzipTar\<close> of \<^verbatim>\<open>fabricnetwork_chaincode.go\<close> uses it: regular files with mode 0644, no owner, time zero.
  A reader for the format shows that an archive holds exactly the files it was made of, sorted by name.
  Compression is an argument.
\<close>

section \<open>Writing\<close>

definition isASCII :: "string \<Rightarrow> bool" where
  "isASCII s \<longleftrightarrow> list_all (\<lambda>c. 0 < (of_char c :: nat) \<and> (of_char c :: nat) < 128) s"

definition tarField :: "nat \<Rightarrow> string \<Rightarrow> string" where
  "tarField n s = s @ replicate (n - length s) (CHR 0x00)"

primrec octal :: "nat \<Rightarrow> int \<Rightarrow> string" where
  "octal 0 n = []"
| "octal (Suc w) n = octal w (n div 8) @ [digit_char (nat (n mod 8))]"

definition tarOctal :: "nat \<Rightarrow> int \<Rightarrow> string" where
  "tarOctal w n = octal (w - 1) n @ [CHR 0x00]"

definition byteSum :: "string \<Rightarrow> int" where
  "byteSum s = sum_list (map of_char s)"

text \<open>Name, mode, owner, group, size and time; then, after the checksum, type, link, magic, names, device and prefix.\<close>

definition headerStart :: "string \<Rightarrow> int \<Rightarrow> string" where
  "headerStart name sz = tarField 100 name @ tarOctal 8 420 @ tarOctal 8 0 @ tarOctal 8 0 @ tarOctal 12 sz @ tarOctal 12 0"

definition headerEnd :: "string \<Rightarrow> string" where
  "headerEnd prefix = ''0'' @ tarField 100 [] @ tarField 6 ''ustar'' @ ''00'' @ tarField 32 [] @ tarField 32 [] @
     tarOctal 8 0 @ tarOctal 8 0 @ tarField 155 prefix @ tarField 12 []"

definition blank8 :: string where "blank8 = replicate 8 (CHR '' '')"

definition tarHeader :: "string \<Rightarrow> string \<Rightarrow> int \<Rightarrow> string" where
  "tarHeader prefix name sz =
     (let start = headerStart name sz; rest = headerEnd prefix
      in start @ tarOctal 7 (byteSum (start @ blank8 @ rest)) @ '' '' @ rest)"

text \<open>A name that does not fit is split at the last slash within the first 156 bytes.\<close>

definition splitUSTARPath :: "string \<Rightarrow> (string \<times> string) option" where
  "splitUSTARPath name =
     (if length name \<le> 100 \<or> \<not> isASCII name then None
      else let len = (if length name > 156 then 156 else if last name = CHR ''/'' then length name - 1 else length name)
           in case last_index (CHR ''/'') (take len name) of
                None \<Rightarrow> None
              | Some i \<Rightarrow>
                  (let nlen = length name - i - 1
                   in if i = 0 \<or> nlen > 100 \<or> nlen = 0 \<or> i > 155 then None else Some (take i name, drop (i + 1) name)))"

definition tarPadding :: "nat \<Rightarrow> nat" where
  "tarPadding sz = (512 - sz mod 512) mod 512"

definition tarEntry :: "string \<times> bytes \<Rightarrow> string + bytes" where
  "tarEntry file =
     (let (name, contents) = file; sz = int (length contents); body = contents @ replicate (tarPadding (length contents)) (CHR 0x00)
      in if sz \<ge> 8 ^ 11 then Inl ''archive/tar: cannot encode header''
         else if length name \<le> 100 \<and> isASCII name then Inr (tarHeader [] name sz @ body)
         else case splitUSTARPath name of
                None \<Rightarrow> Inl ''archive/tar: cannot encode header''
              | Some (prefix, suffix) \<Rightarrow> Inr (tarHeader prefix suffix sz @ body))"

fun tarEntries :: "(string \<times> bytes) list \<Rightarrow> string + bytes" where
  "tarEntries [] = Inr (replicate 1024 (CHR 0x00))"
| "tarEntries (file # files) =
     (case tarEntry file of
        Inl e \<Rightarrow> Inl e
      | Inr entry \<Rightarrow> (case tarEntries files of Inl e \<Rightarrow> Inl e | Inr rest \<Rightarrow> Inr (entry @ rest)))"

definition sortedKeys :: "(string, bytes) gomap \<Rightarrow> string list" where
  "sortedKeys values = sort (map fst values)"

definition sortedFiles :: "(string, bytes) gomap \<Rightarrow> (string \<times> bytes) list" where
  "sortedFiles files = map (\<lambda>name. (name, go_get files name)) (sortedKeys files)"

definition gzipTar :: "(bytes \<Rightarrow> bytes) \<Rightarrow> (string, bytes) gomap \<Rightarrow> string + bytes" where
  "gzipTar gz files = (case tarEntries (sortedFiles files) of Inl e \<Rightarrow> Inl e | Inr archive \<Rightarrow> Inr (gz archive))"

section \<open>Reading\<close>

definition readOctal :: "string \<Rightarrow> int" where
  "readOctal s = foldl (\<lambda>n c. 8 * n + int (digit_val c)) 0 s"

definition readText :: "string \<Rightarrow> string" where
  "readText s = takeWhile (\<lambda>c. c \<noteq> CHR 0x00) s"

definition entryName :: "string \<Rightarrow> string" where
  "entryName header =
     (let name = readText (take 100 header); prefix = readText (take 155 (drop 345 header))
      in if prefix = [] then name else prefix @ ''/'' @ name)"

definition entrySize :: "string \<Rightarrow> nat" where
  "entrySize header = nat (readOctal (take 11 (drop 124 header)))"

definition checksumOk :: "string \<Rightarrow> bool" where
  "checksumOk header \<longleftrightarrow> readOctal (take 6 (drop 148 header)) = byteSum (take 148 header @ blank8 @ drop 156 header)"

function untar :: "bytes \<Rightarrow> (string \<times> bytes) list option" where
  "untar s =
     (let header = take 512 s; sz = entrySize header; rest = drop 512 s
      in if length s < 512 then None
         else if header = replicate 512 (CHR 0x00) then Some []
         else if \<not> checksumOk header \<or> length rest < sz then None
         else map_option (Cons (entryName header, take sz rest)) (untar (drop (sz + tarPadding sz) rest)))"
  by pat_completeness auto
termination by (relation "measure length") auto

declare untar.simps [simp del]

section \<open>An archive holds its files\<close>

lemma length_octal [simp]: "length (octal w n) = w"
  by (induction w arbitrary: n) auto

lemma readOctal_snoc: "readOctal (s @ [c]) = 8 * readOctal s + int (digit_val c)"
  by (simp add: readOctal_def)

lemma readOctal_octal: "0 \<le> n \<Longrightarrow> n < 8 ^ w \<Longrightarrow> readOctal (octal w n) = n"
proof (induction w arbitrary: n)
  case 0
  then show ?case by (simp add: readOctal_def)
next
  case (Suc w)
  have digit: "int (digit_val (digit_char (nat (n mod 8)))) = n mod 8"
    by (simp add: digit_val_def digit_char_def nat_less_iff)
  have "0 \<le> n div 8" "n div 8 < 8 ^ w" using Suc.prems by (auto simp: pos_imp_zdiv_nonneg_iff) 
  then show ?case using Suc.IH digit by (simp add: readOctal_snoc)
qed

lemma length_tarField [simp]: "length s \<le> n \<Longrightarrow> length (tarField n s) = n"
  by (simp add: tarField_def)

lemma length_tarOctal [simp]: "0 < w \<Longrightarrow> length (tarOctal w n) = w"
  by (simp add: tarOctal_def)

lemma length_headerStart [simp]: "length name \<le> 100 \<Longrightarrow> length (headerStart name sz) = 148"
  by (simp add: headerStart_def)

lemma length_headerEnd [simp]: "length prefix \<le> 155 \<Longrightarrow> length (headerEnd prefix) = 356"
  by (simp add: headerEnd_def)

lemma length_tarHeader [simp]: "length name \<le> 100 \<Longrightarrow> length prefix \<le> 155 \<Longrightarrow> length (tarHeader prefix name sz) = 512"
  by (simp add: tarHeader_def Let_def)

lemma readText_tarField: "isASCII s \<Longrightarrow> length s \<le> n \<Longrightarrow> readText (tarField n s) = s"
proof -
  assume s: "isASCII s"
  have "takeWhile (\<lambda>c. c \<noteq> CHR 0x00) (s @ replicate k (CHR 0x00)) = s" for k
    using s by (induction s) (auto simp: isASCII_def)
  then show ?thesis by (simp add: readText_def tarField_def)
qed

lemma byteSum_bound: "0 \<le> byteSum s \<and> byteSum s \<le> 255 * int (length s)"
proof (induction s)
  case (Cons c s)
  have "(of_char c :: nat) < 256" by simp
  then have "0 \<le> (of_char c :: int)" "(of_char c :: int) < 256" using of_nat_of_char [of c, where 'a = int] by linarith+
  with Cons show ?case by (simp add: byteSum_def)
qed (simp add: byteSum_def)

lemma tarHeader_checksum:
  assumes "length name \<le> 100" "length prefix \<le> 155"
  shows "checksumOk (tarHeader prefix name sz)"
proof -
  let ?all = "headerStart name sz @ blank8 @ headerEnd prefix"
  have "length ?all = 512" using assms by (simp add: blank8_def)
  then have "0 \<le> byteSum ?all" "byteSum ?all < 8 ^ 6" using byteSum_bound [of ?all] by simp_all
  then show ?thesis using assms
    by (simp add: checksumOk_def tarHeader_def Let_def tarOctal_def readOctal_octal)
qed

lemma tarHeader_size:
  assumes "length name \<le> 100" "length prefix \<le> 155" "int sz < 8 ^ 11"
  shows "entrySize (tarHeader prefix name (int sz)) = sz"
  using assms by (simp add: entrySize_def tarHeader_def headerStart_def Let_def tarOctal_def readOctal_octal)

lemma tarHeader_name:
  assumes "length name \<le> 100" "length prefix \<le> 155" "isASCII name" "isASCII prefix"
  shows "entryName (tarHeader prefix name sz) = (if prefix = [] then name else prefix @ ''/'' @ name)"
proof -
  have "take 100 (tarHeader prefix name sz) = tarField 100 name"
    using assms by (simp add: tarHeader_def headerStart_def Let_def)
  moreover have "take 155 (drop 345 (tarHeader prefix name sz)) = tarField 155 prefix"
    using assms by (simp add: tarHeader_def headerEnd_def Let_def)
  ultimately show ?thesis using assms by (simp add: entryName_def readText_tarField Let_def)
qed

lemma tarHeader_not_blank:
  assumes "length name \<le> 100" "length prefix \<le> 155"
  shows "tarHeader prefix name sz \<noteq> replicate 512 (CHR 0x00)"
proof
  assume h: "tarHeader prefix name sz = replicate 512 (CHR 0x00)"
  have "drop 156 (tarHeader prefix name sz) = headerEnd prefix" using assms by (simp add: tarHeader_def Let_def)
  then have "headerEnd prefix = replicate 356 (CHR 0x00)" using h by simp
  then have "hd (headerEnd prefix) = CHR 0x00" by simp
  then show False by (simp add: headerEnd_def)
qed

lemma untar_header:
  assumes "length name \<le> 100" "length prefix \<le> 155" "isASCII name" "isASCII prefix" "int (length contents) < 8 ^ 11"
  shows "untar (tarHeader prefix name (int (length contents)) @ (contents @ replicate (tarPadding (length contents)) (CHR 0x00)) @ rest) =
    map_option (Cons (if prefix = [] then name else prefix @ ''/'' @ name, contents)) (untar rest)"
  using assms by (subst untar.simps)
    (simp add: Let_def tarHeader_checksum tarHeader_size tarHeader_name tarHeader_not_blank)

lemma last_index_Some: "last_index c s = Some i \<Longrightarrow> i < length s \<and> s ! i = c"
proof -
  assume i: "last_index c s = Some i"
  let ?n = "length (takeWhile (\<lambda>x. x \<noteq> c) (rev s))"
  have c: "c \<in> set s" and e: "i = length s - 1 - ?n" using i by (auto simp: last_index_def split: if_splits)
  from c have n: "?n < length (rev s)" by (metis (full_types) length_takeWhile_le le_neq_implies_less set_rev takeWhile_eq_all_conv takeWhile_eq_take take_all_iff le_refl)
  then have "rev s ! ?n = c" using nth_length_takeWhile [of "\<lambda>x. x \<noteq> c" "rev s"] by simp
  with n e show ?thesis by (simp add: rev_nth)
qed

lemma splitUSTARPath_Some:
  assumes "splitUSTARPath name = Some (prefix, suffix)"
  shows "prefix \<noteq> []" "length prefix \<le> 155" "length suffix \<le> 100" "isASCII prefix" "isASCII suffix" "name = prefix @ ''/'' @ suffix"
proof -
  obtain len i where i: "last_index (CHR ''/'') (take len name) = Some i" "prefix = take i name" "suffix = drop (i + 1) name"
    and b: "i \<noteq> 0" "length name - i - 1 \<le> 100" "i \<le> 155" "length name > 100" "isASCII name"
    using assms [unfolded splitUSTARPath_def Let_def] by (auto split: if_splits option.splits intro: that [of 156] that [of "length name - 1"] that [of "length name"])
  from last_index_Some [OF i(1)] have at: "i < length (take len name)" "take len name ! i = CHR ''/''" by auto
  then have n: "i < length name" "name ! i = CHR ''/''" by auto
  show "name = prefix @ ''/'' @ suffix" using id_take_nth_drop [OF n(1)] n(2) i by simp
  show "prefix \<noteq> []" "length prefix \<le> 155" "length suffix \<le> 100" using i b n by auto
  show "isASCII prefix" "isASCII suffix" using b(5) i by (auto simp: isASCII_def list_all_iff dest: in_set_takeD in_set_dropD)
qed

lemma tarEntry_read:
  assumes "tarEntry (name, contents) = Inr entry"
  shows "untar (entry @ rest) = map_option (Cons (name, contents)) (untar rest)"
proof -
  let ?body = "contents @ replicate (tarPadding (length contents)) (CHR 0x00)"
  consider "int (length contents) < 8 ^ 11" "length name \<le> 100" "isASCII name" "entry = tarHeader [] name (int (length contents)) @ ?body"
    | prefix suffix where "int (length contents) < 8 ^ 11" "splitUSTARPath name = Some (prefix, suffix)"
        "entry = tarHeader prefix suffix (int (length contents)) @ ?body"
    using assms by (auto simp: tarEntry_def Let_def not_le split: if_splits option.splits)
  then show ?thesis
  proof cases
    case 1
    then show ?thesis using untar_header [of name "[]" contents rest] by (simp add: isASCII_def)
  next
    case 2
    note split = splitUSTARPath_Some [OF 2(2)]
    show ?thesis using untar_header [of suffix prefix contents rest] split 2 by simp
  qed
qed

lemma untar_end: "untar (replicate 1024 (CHR 0x00)) = Some []"
  by (subst untar.simps) (simp add: Let_def)

lemma untar_tar: "tarEntries files = Inr archive \<Longrightarrow> untar archive = Some files"
proof (induction files arbitrary: archive)
  case Nil
  then show ?case using untar_end by simp
next
  case (Cons f files)
  obtain name contents where f: "f = (name, contents)" by (cases f)
  from Cons.prems obtain entry rest where "tarEntry f = Inr entry" "tarEntries files = Inr rest" "archive = entry @ rest"
    by (auto split: sum.splits)
  with Cons.IH f show ?case by (simp add: tarEntry_read)
qed

lemma set_sortedFiles: "distinct (map fst files) \<Longrightarrow> set (sortedFiles files) = set files"
  by (force simp: sortedFiles_def sortedKeys_def go_get_def)

lemma gzipTar_contents:
  assumes "gzipTar gz files = Inr archive" "\<forall>b. gunzip (gz b) = b" "distinct (map fst files)"
  shows "\<exists>listed. untar (gunzip archive) = Some listed \<and> sorted (map fst listed) \<and> distinct (map fst listed) \<and> set listed = set files"
proof (intro exI conjI)
  show "untar (gunzip archive) = Some (sortedFiles files)"
    using assms by (auto simp: gzipTar_def untar_tar split: sum.splits)
  have keys: "map fst (sortedFiles files) = sort (map fst files)" by (simp add: sortedFiles_def sortedKeys_def o_def)
  then show "sorted (map fst (sortedFiles files))" by simp
  show "distinct (map fst (sortedFiles files))" using keys assms(3) by simp
  show "set (sortedFiles files) = set files" using assms(3) by (rule set_sortedFiles)
qed

end
