(* ===== verification/Chaincode_Packages.thy ===== *)
theory Chaincode_Packages
  imports Config_Updates Tar_Archive
begin

text \<open>
  The chaincode package of \<^verbatim>\<open>fabricnetwork_chaincode.go\<close>: the JSON files of a CCaaS package, private
  data collections and CouchDB indexes rendered for Fabric, and the archive they are put into.
  \<open>json.MarshalIndent\<close> and the USTAR writer of \<open>archive/tar\<close> are written out; the compression of
  \<open>compress/gzip\<close> is an argument, a function on bytes.
\<close>

section \<open>Names and defaults\<close>

definition marshalChaincodeJSON :: "json \<Rightarrow> string" where
  "marshalChaincodeJSON j = jsonIndent 0 j @ [CHR 0x0A]"

definition chaincodeMetadataKey :: string where "chaincodeMetadataKey = ''metadata.json''"
definition chaincodeConnectionKey :: string where "chaincodeConnectionKey = ''connection.json''"
definition chaincodePackageLabelKey :: string where "chaincodePackageLabelKey = ''packageLabel''"
definition chaincodePackageFileKey :: string where "chaincodePackageFileKey = ''packageFile''"
definition chaincodeConnectionAddrKey :: string where "chaincodeConnectionAddrKey = ''address''"
definition chaincodeCollectionsKey :: string where "chaincodeCollectionsKey = ''collections.json''"
definition chaincodePeerHostnameTemplate :: string where "chaincodePeerHostnameTemplate = ''{{.peer_hostname}}''"
definition chaincodePeerHostnamePlaceholder :: string where "chaincodePeerHostnamePlaceholder = ''fabricops-peer-hostname''"
definition annotationCollectionConfigHash :: string where "annotationCollectionConfigHash = ''fabricops.io/collection-config-hash''"
definition labelChaincode :: string where "labelChaincode = ''fabricops.io/chaincode''"

definition chaincodeSequence :: "Chaincode \<Rightarrow> int" where
  "chaincodeSequence chaincode = (if cd_Sequence chaincode > 0 then cd_Sequence chaincode else 1)"

definition chaincodeDialTimeout :: "Chaincode \<Rightarrow> string" where
  "chaincodeDialTimeout chaincode =
     (case cd_CCAAS chaincode of
        Some ccaas \<Rightarrow> if trimSpace (cc_DialTimeout ccaas) \<noteq> [] then cc_DialTimeout ccaas else ''10s''
      | None \<Rightarrow> ''10s'')"

definition chaincodeReplicas :: "Chaincode \<Rightarrow> int" where
  "chaincodeReplicas chaincode =
     (case cd_CCAAS chaincode of Some ccaas \<Rightarrow> if cc_Replicas ccaas > 0 then cc_Replicas ccaas else 1 | None \<Rightarrow> 1)"

definition chaincodeContainerPort :: "Chaincode \<Rightarrow> int" where
  "chaincodeContainerPort chaincode =
     (case cd_CCAAS chaincode of
        Some ccaas \<Rightarrow> if cc_ContainerPort ccaas > 0 then cc_ContainerPort ccaas else peerChaincodePort
      | None \<Rightarrow> peerChaincodePort)"

definition chaincodeServicePort :: "Chaincode \<Rightarrow> int" where
  "chaincodeServicePort chaincode =
     (case cd_CCAAS chaincode of
        Some ccaas \<Rightarrow> if cc_ServicePort ccaas > 0 then cc_ServicePort ccaas else peerChaincodePort
      | None \<Rightarrow> peerChaincodePort)"

definition chaincodeServiceName :: "Chaincode \<Rightarrow> Org \<Rightarrow> string \<Rightarrow> string" where
  "chaincodeServiceName chaincode org peerName =
     sanitizeName (cd_Channel chaincode @ ''-'' @ cd_Name chaincode @ ''-'' @ om_Name (org_Organization org) @ ''-'' @ peerName @ ''-ccaas'')"

definition chaincodeConnectionAddress :: "string \<Rightarrow> string \<Rightarrow> Chaincode \<Rightarrow> string" where
  "chaincodeConnectionAddress serviceName namespace chaincode = serviceDNS serviceName namespace (chaincodeServicePort chaincode)"

text \<open>\<open>strings.Contains\<close> and \<open>strings.ReplaceAll\<close>, the latter for a text to replace that is not empty.\<close>

fun containsText :: "string \<Rightarrow> string \<Rightarrow> bool" where
  "containsText [] sub \<longleftrightarrow> sub = []"
| "containsText (c # s) sub \<longleftrightarrow> hasPrefix (c # s) sub \<or> containsText s sub"

fun replaceAll :: "string \<Rightarrow> string \<Rightarrow> string \<Rightarrow> string" where
  "replaceAll old new [] = []"
| "replaceAll old new (c # s) =
     (if old \<noteq> [] \<and> hasPrefix (c # s) old then new @ replaceAll old new (drop (length old - 1) s) else c # replaceAll old new s)"

definition chaincodeConnectionAddressTemplate :: "Chaincode \<Rightarrow> Org \<Rightarrow> string \<Rightarrow> string + string" where
  "chaincodeConnectionAddressTemplate chaincode org namespace =
     (let serviceName = chaincodeServiceName chaincode org chaincodePeerHostnamePlaceholder
      in if \<not> containsText serviceName chaincodePeerHostnamePlaceholder
         then Inl (''chaincode service name for '' @ goquote (cd_Name chaincode) @ '' on channel '' @ goquote (cd_Channel chaincode) @
                '' in org '' @ goquote (om_Name (org_Organization org)) @ '' is too long to template peer-specific CCaaS addresses'')
         else Inr (chaincodeConnectionAddress
                (replaceAll chaincodePeerHostnamePlaceholder chaincodePeerHostnameTemplate serviceName) namespace chaincode))"

definition chaincodePackageConfigMapName :: "Chaincode \<Rightarrow> Org \<Rightarrow> string" where
  "chaincodePackageConfigMapName chaincode org =
     sanitizeName (cd_Channel chaincode @ ''-'' @ cd_Name chaincode @ ''-'' @ om_Name (org_Organization org) @ ''-package'')"

definition chaincodeCollectionConfigMapName :: "Chaincode \<Rightarrow> string" where
  "chaincodeCollectionConfigMapName chaincode = sanitizeName (cd_Channel chaincode @ ''-'' @ cd_Name chaincode @ ''-collections'')"

definition shortSHA256 :: "Crypto \<Rightarrow> string \<Rightarrow> string" where
  "shortSHA256 cr val = take 12 (hex_encode (sha256_Sum256 cr val))"

definition chaincodeLabels :: "FabricNetwork \<Rightarrow> Org \<Rightarrow> string \<Rightarrow> string \<Rightarrow> (string, string) gomap" where
  "chaincodeLabels net org channelName chaincodeName =
     mergeMap (orgLabels net org ''chaincode'') [(labelChannel, sanitizeName channelName), (labelChaincode, sanitizeName chaincodeName)]"

section \<open>Private data collections\<close>

record chaincodeCollectionConfig =
  ccc_Name :: string
  ccc_Policy :: string
  ccc_RequiredPeerCount :: int
  ccc_MaxPeerCount :: int
  ccc_BlockToLive :: int
  ccc_MemberOnlyRead :: bool
  ccc_MemberOnlyWrite :: bool
  ccc_EndorsementPolicy :: "(string \<times> string) option" \<comment> \<open>signature policy, channel config policy\<close>

definition marshalCollectionConfig :: "chaincodeCollectionConfig \<Rightarrow> json" where
  "marshalCollectionConfig c = JObj (
     [(''name'', JStr (ccc_Name c)), (''policy'', JStr (ccc_Policy c)), (''requiredPeerCount'', JNum (itoa (ccc_RequiredPeerCount c))),
      (''maxPeerCount'', JNum (itoa (ccc_MaxPeerCount c))), (''blockToLive'', JNum (itoa (ccc_BlockToLive c))),
      (''memberOnlyRead'', JBool (ccc_MemberOnlyRead c)), (''memberOnlyWrite'', JBool (ccc_MemberOnlyWrite c))] @
     (case ccc_EndorsementPolicy c of
        None \<Rightarrow> []
      | Some (signaturePolicy, channelConfigPolicy) \<Rightarrow>
          [(''endorsementPolicy'', JObj (jOmit ''signaturePolicy'' signaturePolicy @
             jOmit ''channelConfigPolicy'' channelConfigPolicy))]))"

definition memberIdentity :: "Org \<Rightarrow> string" where
  "memberIdentity org = [CHR 0x27] @ om_MSPName (org_Organization org) @ ''.member'' @ [CHR 0x27]"

definition anyOf :: "string list \<Rightarrow> string" where
  "anyOf identities = ''OR('' @ joinWith '','' identities @ '')''"

fun collectionMembers :: "string \<Rightarrow> (string, Org) gomap \<Rightarrow> string list \<Rightarrow> string + string list" where
  "collectionMembers collectionName orgs [] = Inr []"
| "collectionMembers collectionName orgs (orgName # orgNames) =
     (case map_of orgs (trimSpace orgName) of
        None \<Rightarrow> Inl (''private data collection '' @ goquote collectionName @ '' references unknown org '' @ goquote (trimSpace orgName))
      | Some org \<Rightarrow>
          (case collectionMembers collectionName orgs orgNames of Inl e \<Rightarrow> Inl e | Inr rest \<Rightarrow> Inr (memberIdentity org # rest)))"

definition collectionPolicy :: "PrivateDataCollection \<Rightarrow> (string, Org) gomap \<Rightarrow> string + string" where
  "collectionPolicy collection orgs =
     (let policy = trimSpace (pd_Policy collection)
      in if policy \<noteq> [] then Inr policy
         else case collectionMembers (pd_Name collection) orgs (pd_OrgNames collection) of
                Inl e \<Rightarrow> Inl e
              | Inr parts \<Rightarrow> Inr (anyOf parts))"

definition authorizedPeerSum :: "(string, nat) gomap \<Rightarrow> string list \<Rightarrow> int" where
  "authorizedPeerSum channelPeerCounts orgNames =
     sum_list (map (\<lambda>orgName. int (case map_of channelPeerCounts (trimSpace orgName) of None \<Rightarrow> 0 | Some n \<Rightarrow> n)) orgNames)"

definition collectionEndorsement :: "PrivateDataCollection \<Rightarrow> (string \<times> string) option" where
  "collectionEndorsement collection =
     (case pd_EndorsementPolicy collection of
        None \<Rightarrow> None
      | Some policy \<Rightarrow>
          (let signaturePolicy = trimSpace (pe_SignaturePolicy policy); channelConfigPolicy = trimSpace (pe_ChannelConfigPolicy policy)
           in if signaturePolicy = [] \<and> channelConfigPolicy = [] then None else Some (signaturePolicy, channelConfigPolicy)))"

definition orElse :: "'a option \<Rightarrow> 'a \<Rightarrow> 'a" where
  "orElse p d = (case p of None \<Rightarrow> d | Some v \<Rightarrow> v)"

definition renderChaincodeCollection ::
  "PrivateDataCollection \<Rightarrow> (string, Org) gomap \<Rightarrow> (string, nat) gomap \<Rightarrow> string + chaincodeCollectionConfig" where
  "renderChaincodeCollection collection orgs channelPeerCounts =
     (case collectionPolicy collection orgs of
        Inl e \<Rightarrow> Inl e
      | Inr policy \<Rightarrow> Inr
          \<lparr>ccc_Name = pd_Name collection, ccc_Policy = policy,
           ccc_RequiredPeerCount = orElse (pd_RequiredPeerCount collection) 0,
           ccc_MaxPeerCount = orElse (pd_MaxPeerCount collection)
             (int32_of (max (authorizedPeerSum channelPeerCounts (pd_OrgNames collection) - 1) 0)),
           ccc_BlockToLive = orElse (pd_BlockToLive collection) 0,
           ccc_MemberOnlyRead = orElse (pd_MemberOnlyRead collection) True,
           ccc_MemberOnlyWrite = orElse (pd_MemberOnlyWrite collection) True,
           ccc_EndorsementPolicy = collectionEndorsement collection\<rparr>)"

fun renderCollections ::
  "(string, Org) gomap \<Rightarrow> (string, nat) gomap \<Rightarrow> PrivateDataCollection list \<Rightarrow> string + chaincodeCollectionConfig list" where
  "renderCollections orgs counts [] = Inr []"
| "renderCollections orgs counts (collection # collections) =
     (case renderChaincodeCollection collection orgs counts of
        Inl e \<Rightarrow> Inl e
      | Inr config \<Rightarrow> (case renderCollections orgs counts collections of Inl e \<Rightarrow> Inl e | Inr rest \<Rightarrow> Inr (config # rest)))"

definition renderChaincodeCollectionConfig ::
  "Crypto \<Rightarrow> FabricNetwork \<Rightarrow> Channel \<Rightarrow> Chaincode \<Rightarrow> string + (string \<times> string)" where
  "renderChaincodeCollectionConfig cr net channel chaincode =
     (case renderCollections (orgsByName net) (channelPeerCountsByOrg channel) (cd_PrivateData chaincode) of
        Inl e \<Rightarrow> Inl e
      | Inr collections \<Rightarrow>
          (let collectionConfigJSON = marshalChaincodeJSON (JArr (map marshalCollectionConfig collections))
           in Inr (collectionConfigJSON, shortSHA256 cr collectionConfigJSON)))"

section \<open>CouchDB indexes\<close>

fun indexFields :: "string \<Rightarrow> string list \<Rightarrow> string + string list" where
  "indexFields name [] = Inr []"
| "indexFields name (field # fs) =
     (if trimSpace field = [] then Inl (''CouchDB index '' @ goquote name @ '' has an empty field'')
      else case indexFields name fs of Inl e \<Rightarrow> Inl e | Inr rest \<Rightarrow> Inr (trimSpace field # rest))"

definition marshalCouchDBIndex :: "string \<Rightarrow> string \<Rightarrow> string list \<Rightarrow> json" where
  "marshalCouchDBIndex name designDocument fs = JObj (
     [(''index'', JObj [(''fields'', JArr (map JStr fs))])] @ jOmit ''ddoc'' designDocument @
     [(''name'', JStr name), (''type'', JStr ''json'')])"

definition renderIndex :: "Chaincode \<Rightarrow> (string, bytes) gomap \<Rightarrow> CouchDBIndex \<Rightarrow> string + (string, bytes) gomap" where
  "renderIndex chaincode indexFiles index =
     (let name = trimSpace (ix_Name index); path = chaincodeCouchDBIndexPath index
      in if name = [] then Inl (''chaincode '' @ goquote (cd_Name chaincode) @ '' has a CouchDB index without a name'')
         else if ix_Fields index = [] then Inl (''CouchDB index '' @ goquote name @ '' must declare at least one field'')
         else case indexFields name (ix_Fields index) of
                Inl e \<Rightarrow> Inl e
              | Inr fs \<Rightarrow>
                  if map_of indexFiles path \<noteq> None then Inl (''duplicate CouchDB index package path '' @ goquote path)
                  else Inr (go_set indexFiles path
                         (marshalChaincodeJSON (marshalCouchDBIndex name (trimSpace (ix_DesignDocument index)) fs))))"

fun renderIndexes :: "Chaincode \<Rightarrow> (string, bytes) gomap \<Rightarrow> CouchDBIndex list \<Rightarrow> string + (string, bytes) gomap" where
  "renderIndexes chaincode indexFiles [] = Inr indexFiles"
| "renderIndexes chaincode indexFiles (index # indexes) =
     (case renderIndex chaincode indexFiles index of Inl e \<Rightarrow> Inl e | Inr indexFiles' \<Rightarrow> renderIndexes chaincode indexFiles' indexes)"

definition renderChaincodeCouchDBIndexes :: "Chaincode \<Rightarrow> string + (string, bytes) gomap" where
  "renderChaincodeCouchDBIndexes chaincode = renderIndexes chaincode [] (cd_CouchDBIndexes chaincode)"

end
