(* ===== verification/Chaincode_Objects.thy ===== *)
theory Chaincode_Objects
  imports Chaincode_Packages
begin

text \<open>
  The Kubernetes objects of the chaincode lifecycle, \<^verbatim>\<open>fabricnetwork_chaincode.go\<close>: the package and
  collection ConfigMaps, the CCaaS Deployment and Service of every peer, and the Jobs that install,
  approve and commit with their access rights.
\<close>

section \<open>Package and collections\<close>

definition buildChaincodePackageArchive ::
  "(bytes \<Rightarrow> bytes) \<Rightarrow> string \<Rightarrow> string \<Rightarrow> (string, bytes) gomap \<Rightarrow> string + bytes" where
  "buildChaincodePackageArchive gz metadataJSON connectionJSON couchDBIndexFiles =
     (case gzipTar gz (mergeMap [(chaincodeConnectionKey, connectionJSON)] couchDBIndexFiles) of
        Inl e \<Rightarrow> Inl e
      | Inr codeArchive \<Rightarrow> gzipTar gz [(chaincodeMetadataKey, metadataJSON), (''code.tar.gz'', codeArchive)])"

definition chaincodePackageMetadata :: "string \<Rightarrow> json" where
  "chaincodePackageMetadata label = JObj [(''type'', JStr ''ccaas''), (''label'', JStr label)]"

definition chaincodeConnection :: "string \<Rightarrow> string \<Rightarrow> json" where
  "chaincodeConnection address dialTimeout =
     JObj [(''address'', JStr address), (''dial_timeout'', JStr dialTimeout), (''tls_required'', JBool False)]"

definition buildChaincodePackageConfigMap ::
  "(bytes \<Rightarrow> bytes) \<Rightarrow> FabricNetwork \<Rightarrow> Chaincode \<Rightarrow> Org \<Rightarrow> string + ConfigMap" where
  "buildChaincodePackageConfigMap gz net chaincode org =
     (let label = chaincodePackageLabel chaincode; namespace = orgNamespaceName net org in
      case chaincodeConnectionAddressTemplate chaincode org namespace of
        Inl e \<Rightarrow> Inl e
      | Inr address \<Rightarrow>
          (let metadataJSON = marshalChaincodeJSON (chaincodePackageMetadata label);
               connectionJSON = marshalChaincodeJSON (chaincodeConnection address (chaincodeDialTimeout chaincode));
               packageFile = label @ ''.tar.gz''
           in case renderChaincodeCouchDBIndexes chaincode of
                Inl e \<Rightarrow> Inl e
              | Inr couchDBIndexFiles \<Rightarrow>
                  (case buildChaincodePackageArchive gz metadataJSON connectionJSON couchDBIndexFiles of
                     Inl e \<Rightarrow> Inl e
                   | Inr packageArchive \<Rightarrow> Inr
                       \<lparr>cm_Meta = \<lparr>mt_Name = chaincodePackageConfigMapName chaincode org, mt_Namespace = namespace,
                          mt_Labels = Some (chaincodeLabels net org (cd_Channel chaincode) (cd_Name chaincode)),
                          mt_Annotations = Some (resourceAnnotations net org)\<rparr>,
                        cm_Data = [(chaincodeMetadataKey, metadataJSON), (chaincodeConnectionKey, connectionJSON),
                          (chaincodePackageLabelKey, label), (chaincodePackageFileKey, packageFile), (chaincodeConnectionAddrKey, address)],
                        cm_BinaryData = [(packageFile, packageArchive)], cm_Immutable = False\<rparr>)))"

definition buildChaincodeCollectionConfigMap :: "FabricNetwork \<Rightarrow> Chaincode \<Rightarrow> Org \<Rightarrow> string \<Rightarrow> string \<Rightarrow> ConfigMap" where
  "buildChaincodeCollectionConfigMap net chaincode org collectionConfigJSON collectionConfigHash =
     \<lparr>cm_Meta = \<lparr>mt_Name = chaincodeCollectionConfigMapName chaincode, mt_Namespace = orgNamespaceName net org,
        mt_Labels = Some (chaincodeLabels net org (cd_Channel chaincode) (cd_Name chaincode)),
        mt_Annotations = Some (go_set (resourceAnnotations net org) annotationCollectionConfigHash collectionConfigHash)\<rparr>,
      cm_Data = [(chaincodeCollectionsKey, collectionConfigJSON)], cm_BinaryData = [], cm_Immutable = False\<rparr>"

section \<open>Names and labels\<close>

definition chaincodePackageIDKey :: string where "chaincodePackageIDKey = ''packageID''"
definition chaincodeChaincodeIDKey :: string where "chaincodeChaincodeIDKey = ''chaincodeID''"
definition chaincodeQueryApprovedKey :: string where "chaincodeQueryApprovedKey = ''queryapproved.json''"
definition chaincodeQueryCommittedKey :: string where "chaincodeQueryCommittedKey = ''querycommitted.json''"
definition chaincodeQueryApprovedFile :: string where "chaincodeQueryApprovedFile = ''queryapproved.json''"
definition chaincodeQueryCommittedFile :: string where "chaincodeQueryCommittedFile = ''querycommitted.json''"
definition chaincodeWorkDir :: string where "chaincodeWorkDir = ''/fabricops/chaincode''"
definition chaincodePackageInputDir :: string where "chaincodePackageInputDir = chaincodeWorkDir @ ''/package''"
definition chaincodeOutputDir :: string where "chaincodeOutputDir = chaincodeWorkDir @ ''/output''"
definition chaincodeAdminMSPPath :: string where "chaincodeAdminMSPPath = chaincodeWorkDir @ ''/crypto/msp''"
definition chaincodeAdminTLSPath :: string where "chaincodeAdminTLSPath = chaincodeWorkDir @ ''/crypto/tls''"
definition chaincodeCollectionsDir :: string where "chaincodeCollectionsDir = chaincodeWorkDir @ ''/collections''"
definition chaincodeCollectionsPath :: string where "chaincodeCollectionsPath = chaincodeCollectionsDir @ ''/'' @ chaincodeCollectionsKey"
definition chaincodePackageVolumeName :: string where "chaincodePackageVolumeName = ''chaincode-package''"
definition chaincodeOutputVolumeName :: string where "chaincodeOutputVolumeName = ''chaincode-output''"
definition chaincodeAdminMSPVolume :: string where "chaincodeAdminMSPVolume = ''admin-msp''"
definition chaincodeAdminTLSVolume :: string where "chaincodeAdminTLSVolume = ''admin-tls''"
definition chaincodeCollectionsVolume :: string where "chaincodeCollectionsVolume = ''chaincode-collections''"
definition approveChaincodeContainer :: string where "approveChaincodeContainer = ''approve-chaincode-definition''"
definition commitChaincodeContainer :: string where "commitChaincodeContainer = ''commit-chaincode-definition''"

definition chaincodePackageIDConfigMapName :: "Chaincode \<Rightarrow> Org \<Rightarrow> string \<Rightarrow> string" where
  "chaincodePackageIDConfigMapName chaincode org peerName =
     sanitizeName (chaincodePackageLabel chaincode @ ''-'' @ om_Name (org_Organization org) @ ''-'' @ peerName @ ''-package-id'')"

definition chaincodeInstallJobName :: "Chaincode \<Rightarrow> Org \<Rightarrow> string \<Rightarrow> string" where
  "chaincodeInstallJobName chaincode org peerName =
     sanitizeName (chaincodePackageLabel chaincode @ ''-'' @ om_Name (org_Organization org) @ ''-'' @ peerName @ ''-install'')"

definition chaincodeInstallerName :: "Chaincode \<Rightarrow> Org \<Rightarrow> string \<Rightarrow> string" where
  "chaincodeInstallerName chaincode org peerName =
     sanitizeName (chaincodePackageLabel chaincode @ ''-'' @ om_Name (org_Organization org) @ ''-'' @ peerName @ ''-installer'')"

definition chaincodeCommitterName :: "Chaincode \<Rightarrow> string" where
  "chaincodeCommitterName chaincode = sanitizeName (chaincodePackageLabel chaincode @ ''-committer'')"

definition chaincodePackageHash :: "string \<Rightarrow> string" where
  "chaincodePackageHash packageID =
     (let parts = splitN2 packageID (CHR '':'')
      in if length parts = 2 \<and> trimSpace (parts ! 1) \<noteq> [] then parts ! 1 else ''pending'')"

definition jOption :: "string \<Rightarrow> ('a \<Rightarrow> json) \<Rightarrow> 'a option \<Rightarrow> (string \<times> json) list" where
  "jOption name f v = (case v of None \<Rightarrow> [] | Some x \<Rightarrow> [(name, f x)])"

definition marshalEndorsement :: "PrivateDataEndorsementPolicy \<Rightarrow> json" where
  "marshalEndorsement p = JObj (jOmit ''signaturePolicy'' (pe_SignaturePolicy p) @ jOmit ''channelConfigPolicy'' (pe_ChannelConfigPolicy p))"

definition marshalPrivateData :: "PrivateDataCollection \<Rightarrow> json" where
  "marshalPrivateData c = JObj (
     [(''name'', JStr (pd_Name c)), (''orgNames'', JArr (map JStr (pd_OrgNames c)))] @ jOmit ''policy'' (pd_Policy c) @
     jOption ''requiredPeerCount'' (\<lambda>n. JNum (itoa n)) (pd_RequiredPeerCount c) @ jOption ''maxPeerCount'' (\<lambda>n. JNum (itoa n)) (pd_MaxPeerCount c) @
     jOption ''blockToLive'' (\<lambda>n. JNum (itoa n)) (pd_BlockToLive c) @ jOption ''memberOnlyRead'' JBool (pd_MemberOnlyRead c) @
     jOption ''memberOnlyWrite'' JBool (pd_MemberOnlyWrite c) @ jOption ''endorsementPolicy'' marshalEndorsement (pd_EndorsementPolicy c))"

definition chaincodeDefinitionNameHash :: "Crypto \<Rightarrow> Chaincode \<Rightarrow> string" where
  "chaincodeDefinitionNameHash cr chaincode = shortSHA256 cr (jsonText (JObj (
     [(''sequence'', JNum (itoa (chaincodeSequence chaincode)))] @ jOmit ''endorsementPolicy'' (trimSpace (cd_EndorsementPolicy chaincode)) @
     (if cd_InitRequired chaincode then [(''initRequired'', JBool True)] else []) @
     (if cd_PrivateData chaincode = [] then [] else [(''privateData'', JArr (map marshalPrivateData (cd_PrivateData chaincode)))]))))"

definition chaincodeApproveJobName :: "Crypto \<Rightarrow> Chaincode \<Rightarrow> Org \<Rightarrow> string \<Rightarrow> string" where
  "chaincodeApproveJobName cr chaincode org packageID = sanitizeName (joinWith ''-'' [chaincodePackageLabel chaincode,
     chaincodePackageHash packageID, chaincodeDefinitionNameHash cr chaincode, om_Name (org_Organization org), ''approve''])"

definition chaincodeApproveResultConfigMapName :: "Crypto \<Rightarrow> Chaincode \<Rightarrow> Org \<Rightarrow> string \<Rightarrow> string" where
  "chaincodeApproveResultConfigMapName cr chaincode org packageID =
     sanitizeName (chaincodeApproveJobName cr chaincode org packageID @ ''-result'')"

definition chaincodeCommitJobName :: "Crypto \<Rightarrow> Chaincode \<Rightarrow> string \<Rightarrow> string" where
  "chaincodeCommitJobName cr chaincode packageID = sanitizeName (joinWith ''-'' [chaincodePackageLabel chaincode,
     chaincodePackageHash packageID, chaincodeDefinitionNameHash cr chaincode, ''commit''])"

definition chaincodeCommitResultConfigMapName :: "Crypto \<Rightarrow> Chaincode \<Rightarrow> string \<Rightarrow> string" where
  "chaincodeCommitResultConfigMapName cr chaincode packageID = sanitizeName (chaincodeCommitJobName cr chaincode packageID @ ''-result'')"

definition chaincodeOrdererTLSPath :: "string \<Rightarrow> string" where
  "chaincodeOrdererTLSPath ordererName = chaincodeWorkDir @ ''/crypto/orderers/'' @ sanitizeName ordererName @ ''/tls''"

definition chaincodePeerTLSVolumeName :: "Org \<Rightarrow> string \<Rightarrow> string" where
  "chaincodePeerTLSVolumeName org peerName = sanitizeName (''peer-tls-'' @ om_Name (org_Organization org) @ ''-'' @ peerName)"

definition chaincodePeerTLSSecretName :: "Chaincode \<Rightarrow> Org \<Rightarrow> string \<Rightarrow> string" where
  "chaincodePeerTLSSecretName chaincode org peerName =
     sanitizeName (chaincodePackageLabel chaincode @ ''-'' @ om_Name (org_Organization org) @ ''-'' @ peerName @ ''-tls'')"

definition chaincodePeerTLSPath :: "Org \<Rightarrow> string \<Rightarrow> string" where
  "chaincodePeerTLSPath org peerName =
     chaincodeWorkDir @ ''/crypto/peers/'' @ sanitizeName (om_Name (org_Organization org)) @ ''/'' @ sanitizeName peerName @ ''/tls''"

definition chaincodeCollectionsConfigPath :: "Chaincode \<Rightarrow> string" where
  "chaincodeCollectionsConfigPath chaincode = (if cd_PrivateData chaincode = [] then [] else chaincodeCollectionsPath)"

definition chaincodePeerLabels :: "FabricNetwork \<Rightarrow> Org \<Rightarrow> Chaincode \<Rightarrow> string \<Rightarrow> (string, string) gomap" where
  "chaincodePeerLabels net org chaincode peerName =
     mergeMap (chaincodeLabels net org (cd_Channel chaincode) (cd_Name chaincode)) [(labelWorkload, sanitizeName peerName)]"

definition chaincodeWorkloadSelector :: "FabricNetwork \<Rightarrow> Org \<Rightarrow> Chaincode \<Rightarrow> string \<Rightarrow> (string, string) gomap" where
  "chaincodeWorkloadSelector net org chaincode peerName =
     [(labelFabricNetwork, sanitizeName (fn_Name net)), (labelFabricNetworkNamespace, sanitizeName (fn_Namespace net)),
      (labelOrg, sanitizeName (om_Name (org_Organization org))), (labelComponent, ''chaincode''),
      (labelChannel, sanitizeName (cd_Channel chaincode)), (labelChaincode, sanitizeName (cd_Name chaincode)),
      (labelWorkload, sanitizeName peerName)]"

section \<open>The chaincode server\<close>

definition chaincodeImagePullPolicy :: "Chaincode \<Rightarrow> string" where
  "chaincodeImagePullPolicy chaincode =
     (case cd_CCAAS chaincode of
        Some ccaas \<Rightarrow> if cc_ImagePullPolicy ccaas \<noteq> [] then cc_ImagePullPolicy ccaas else ''IfNotPresent''
      | None \<Rightarrow> ''IfNotPresent'')"

definition requiredEnv :: "Chaincode \<Rightarrow> string \<Rightarrow> (string \<times> EnvSource) list" where
  "requiredEnv chaincode chaincodeID =
     (let address = EnvValue (''0.0.0.0:'' @ itoa (chaincodeContainerPort chaincode))
      in [(''CHAINCODE_ID'', EnvValue chaincodeID), (''CORE_CHAINCODE_ID_NAME'', EnvValue chaincodeID),
          (''CHAINCODE_SERVER_ADDRESS'', address), (''CORE_CHAINCODE_ADDRESS'', address)])"

definition chaincodeContainerEnv :: "Chaincode \<Rightarrow> string \<Rightarrow> (string \<times> EnvSource) list" where
  "chaincodeContainerEnv chaincode chaincodeID =
     (let required = requiredEnv chaincode chaincodeID
      in (case cd_CCAAS chaincode of None \<Rightarrow> [] | Some ccaas \<Rightarrow> filter (\<lambda>item. fst item \<notin> set (map fst required)) (cc_Env ccaas)) @ required)"

definition chaincodeResourceRequirements :: "Chaincode \<Rightarrow> ResourceRequirements" where
  "chaincodeResourceRequirements chaincode =
     (case cd_CCAAS chaincode of
        Some ccaas \<Rightarrow> (case cc_Resources ccaas of Some resources \<Rightarrow> resources | None \<Rightarrow> componentResourceRequirements ''chaincode'')
      | None \<Rightarrow> componentResourceRequirements ''chaincode'')"

definition buildChaincodeDeployment :: "FabricNetwork \<Rightarrow> Chaincode \<Rightarrow> Org \<Rightarrow> string \<Rightarrow> string \<Rightarrow> Deployment" where
  "buildChaincodeDeployment net chaincode org peerName chaincodeID =
     (let labels = chaincodePeerLabels net org chaincode peerName; containerPort = chaincodeContainerPort chaincode
      in \<lparr>dep_Meta = \<lparr>mt_Name = chaincodeServiceName chaincode org peerName, mt_Namespace = orgNamespaceName net org,
            mt_Labels = Some labels, mt_Annotations = Some (resourceAnnotations net org)\<rparr>,
          dep_Generation = 0, dep_Replicas = Some (chaincodeReplicas chaincode), dep_Strategy = [],
          dep_Selector = chaincodeWorkloadSelector net org chaincode peerName,
          dep_PodLabels = Some labels, dep_PodAnnotations = Some (resourceAnnotations net org), dep_Volumes = [],
          dep_Containers = [\<lparr>ct_Name = ''chaincode'', ct_Image = cd_Image chaincode, ct_ImagePullPolicy = chaincodeImagePullPolicy chaincode,
            ct_Command = ImageCommand, ct_Args = [], ct_Env = chaincodeContainerEnv chaincode chaincodeID,
            ct_Ports = [tcpPort containerPort ''chaincode''],
            ct_ReadinessProbe = Some (tcpReadinessProbe containerPort), ct_LivenessProbe = Some (tcpLivenessProbe containerPort),
            ct_Resources = chaincodeResourceRequirements chaincode, ct_VolumeMounts = []\<rparr>],
          dep_ObservedGeneration = 0, dep_ReadyReplicas = 0, dep_UpdatedReplicas = 0, dep_AvailableReplicas = 0\<rparr>)"

definition buildChaincodeService :: "FabricNetwork \<Rightarrow> Chaincode \<Rightarrow> Org \<Rightarrow> string \<Rightarrow> Service" where
  "buildChaincodeService net chaincode org peerName =
     \<lparr>svc_Meta = \<lparr>mt_Name = chaincodeServiceName chaincode org peerName, mt_Namespace = orgNamespaceName net org,
        mt_Labels = Some (chaincodePeerLabels net org chaincode peerName), mt_Annotations = Some (resourceAnnotations net org)\<rparr>,
      svc_Selector = Some (chaincodeWorkloadSelector net org chaincode peerName),
      svc_Ports = [\<lparr>svp_Name = ''chaincode'', svp_Port = chaincodeServicePort chaincode, svp_Protocol = ''TCP'',
        svp_TargetPort = IntPort (chaincodeContainerPort chaincode)\<rparr>]\<rparr>"

section \<open>Access rights\<close>

definition chaincodeMeta :: "FabricNetwork \<Rightarrow> Org \<Rightarrow> string \<Rightarrow> string \<Rightarrow> (string, string) gomap \<Rightarrow> ObjectMeta" where
  "chaincodeMeta net org name namespace labels =
     \<lparr>mt_Name = name, mt_Namespace = namespace, mt_Labels = Some labels, mt_Annotations = Some (resourceAnnotations net org)\<rparr>"

definition configMapWriter :: "PolicyRule list" where
  "configMapWriter = [\<lparr>pr_APIGroups = [[]], pr_Resources = [''configmaps''], pr_Verbs = [''get'', ''create'', ''update'', ''patch'']\<rparr>]"

definition bindingOf :: "ObjectMeta \<Rightarrow> ObjectMeta \<times> RBACSubject list \<times> RoleRef" where
  "bindingOf m = (m, [\<lparr>su_Kind = ''ServiceAccount'', su_Name = mt_Name m, su_Namespace = mt_Namespace m\<rparr>],
     \<lparr>rr_APIGroup = ''rbac.authorization.k8s.io'', rr_Kind = ''Role'', rr_Name = mt_Name m\<rparr>)"

definition buildChaincodeInstallServiceAccount :: "FabricNetwork \<Rightarrow> Org \<Rightarrow> Chaincode \<Rightarrow> string \<Rightarrow> ObjectMeta" where
  "buildChaincodeInstallServiceAccount net org chaincode peerName =
     chaincodeMeta net org (chaincodeInstallerName chaincode org peerName) (orgNamespaceName net org) (chaincodePeerLabels net org chaincode peerName)"

definition buildChaincodeInstallRole :: "FabricNetwork \<Rightarrow> Org \<Rightarrow> Chaincode \<Rightarrow> string \<Rightarrow> string \<Rightarrow> ObjectMeta \<times> PolicyRule list" where
  "buildChaincodeInstallRole net org chaincode peerName namespace =
     (chaincodeMeta net org (chaincodeInstallerName chaincode org peerName) namespace (chaincodePeerLabels net org chaincode peerName), configMapWriter)"

definition buildChaincodeInstallRoleBinding ::
  "FabricNetwork \<Rightarrow> Org \<Rightarrow> Chaincode \<Rightarrow> string \<Rightarrow> string \<Rightarrow> ObjectMeta \<times> RBACSubject list \<times> RoleRef" where
  "buildChaincodeInstallRoleBinding net org chaincode peerName namespace =
     bindingOf (chaincodeMeta net org (chaincodeInstallerName chaincode org peerName) namespace (chaincodePeerLabels net org chaincode peerName))"

definition buildChaincodeCommitServiceAccount :: "FabricNetwork \<Rightarrow> Chaincode \<Rightarrow> Org \<Rightarrow> string \<Rightarrow> ObjectMeta" where
  "buildChaincodeCommitServiceAccount net chaincode hostOrg namespace =
     chaincodeMeta net hostOrg (chaincodeCommitterName chaincode) namespace (chaincodeLabels net hostOrg (cd_Channel chaincode) (cd_Name chaincode))"

definition buildChaincodeCommitRole :: "FabricNetwork \<Rightarrow> Chaincode \<Rightarrow> Org \<Rightarrow> string \<Rightarrow> ObjectMeta \<times> PolicyRule list" where
  "buildChaincodeCommitRole net chaincode hostOrg namespace =
     (chaincodeMeta net hostOrg (chaincodeCommitterName chaincode) namespace
        (chaincodeLabels net hostOrg (cd_Channel chaincode) (cd_Name chaincode)), configMapWriter)"

definition buildChaincodeCommitRoleBinding ::
  "FabricNetwork \<Rightarrow> Chaincode \<Rightarrow> Org \<Rightarrow> string \<Rightarrow> ObjectMeta \<times> RBACSubject list \<times> RoleRef" where
  "buildChaincodeCommitRoleBinding net chaincode hostOrg namespace =
     bindingOf (chaincodeMeta net hostOrg (chaincodeCommitterName chaincode) namespace
        (chaincodeLabels net hostOrg (cd_Channel chaincode) (cd_Name chaincode)))"

section \<open>Scripts\<close>

definition chaincodeEndorsementPolicy :: "FabricNetwork \<Rightarrow> Channel \<Rightarrow> Chaincode \<Rightarrow> string" where
  "chaincodeEndorsementPolicy net channel chaincode =
     (let orgs = channelPeerOrganizations net channel
      in if trimSpace (cd_EndorsementPolicy chaincode) \<noteq> [] then cd_EndorsementPolicy chaincode
         else if orgs = [] then [] else anyOf (map memberIdentity orgs))"

record chaincodeLifecyclePeer =
  lp_org :: Org
  lp_peerName :: string
  lp_namespace :: string
  lp_address :: string
  lp_tlsRootCA :: bytes

definition chaincodeLifecyclePeerAddress :: "chaincodeLifecyclePeer \<Rightarrow> string" where
  "chaincodeLifecyclePeerAddress peer =
     (if trimSpace (lp_address peer) \<noteq> [] then trimSpace (lp_address peer) else serviceDNS (lp_peerName peer) (lp_namespace peer) peerPort)"

definition installChaincodePackageScript :: "Org \<Rightarrow> string \<Rightarrow> string \<Rightarrow> bool \<Rightarrow> Script" where
  "installChaincodePackageScript org peerName namespace tlsEnabled =
     InstallChaincodeScript (om_MSPName (org_Organization org)) (serviceDNS peerName namespace peerPort) tlsEnabled"

definition approveChaincodeDefinitionScriptForOrderer ::
  "FabricNetwork \<Rightarrow> Channel \<Rightarrow> Chaincode \<Rightarrow> Org \<Rightarrow> string \<Rightarrow> string \<Rightarrow> string \<Rightarrow> string \<Rightarrow> string \<Rightarrow> string \<Rightarrow> string \<Rightarrow> string \<Rightarrow> Script" where
  "approveChaincodeDefinitionScriptForOrderer net channel chaincode org peerName namespace packageID ordererAddress ordererTLSCAPath
     hostnameOverride endorsementPolicy collectionsConfigPath =
     ApproveChaincodeScript (ch_Name channel) (cd_Name chaincode) (cd_Version chaincode) packageID (chaincodeSequence chaincode) ordererAddress
       endorsementPolicy (cd_InitRequired chaincode) collectionsConfigPath (om_MSPName (org_Organization org)) (serviceDNS peerName namespace peerPort)
       (if gl_TLS (sp_Global (fn_Spec net)) then Some (ordererTLSCAPath, trimSpace hostnameOverride) else None)"

definition approveChaincodeDefinitionScript ::
  "FabricNetwork \<Rightarrow> Channel \<Rightarrow> Chaincode \<Rightarrow> Org \<Rightarrow> string \<Rightarrow> string \<Rightarrow> string \<Rightarrow> ordererInstance \<Rightarrow> Script" where
  "approveChaincodeDefinitionScript net channel chaincode org peerName namespace packageID orderer =
     approveChaincodeDefinitionScriptForOrderer net channel chaincode org peerName namespace packageID (ordererClientAddress orderer)
       (chaincodeOrdererTLSPath (oi_name orderer) @ ''/ca.crt'') [] (chaincodeEndorsementPolicy net channel chaincode)
       (chaincodeCollectionsConfigPath chaincode)"

definition commitChaincodeDefinitionScript ::
  "FabricNetwork \<Rightarrow> Channel \<Rightarrow> Chaincode \<Rightarrow> chaincodeLifecyclePeer \<Rightarrow> ordererInstance \<Rightarrow> chaincodeLifecyclePeer list \<Rightarrow> Script" where
  "commitChaincodeDefinitionScript net channel chaincode submitter orderer peers =
     CommitChaincodeScript (ch_Name channel) (cd_Name chaincode) (cd_Version chaincode) (chaincodeSequence chaincode) (ordererClientAddress orderer)
       (chaincodeEndorsementPolicy net channel chaincode) (cd_InitRequired chaincode) (chaincodeCollectionsConfigPath chaincode)
       (om_MSPName (org_Organization (lp_org submitter))) (chaincodeLifecyclePeerAddress submitter)
       (if gl_TLS (sp_Global (fn_Spec net))
        then Some (chaincodeOrdererTLSPath (oi_name orderer) @ ''/ca.crt'',
               map (\<lambda>peer. (chaincodeLifecyclePeerAddress peer, chaincodePeerTLSPath (lp_org peer) (lp_peerName peer) @ ''/ca.crt'')) peers)
        else None)"

definition publishChaincodeInstallEnv :: "Chaincode \<Rightarrow> Org \<Rightarrow> string \<Rightarrow> (string \<times> EnvSource) list" where
  "publishChaincodeInstallEnv chaincode org peerName = [
     (''FABRICOPS_CHAINCODE_PACKAGE_ID_CONFIGMAP'', EnvValue (chaincodePackageIDConfigMapName chaincode org peerName)),
     (''FABRICOPS_CHAINCODE_CHANNEL'', EnvValue (sanitizeName (cd_Channel chaincode))),
     (''FABRICOPS_CHAINCODE_NAME'', EnvValue (sanitizeName (cd_Name chaincode))),
     (''FABRICOPS_CHAINCODE_PEER'', EnvValue (sanitizeName peerName)), podNamespaceEnv]"

definition publishChaincodeLifecycleResultContainerName :: "string \<Rightarrow> string" where
  "publishChaincodeLifecycleResultContainerName operation = sanitizeName (''publish-'' @ operation @ ''-result'')"

definition publishChaincodeLifecycleResultEnv :: "Chaincode \<Rightarrow> string \<Rightarrow> string \<Rightarrow> string \<Rightarrow> string \<Rightarrow> (string \<times> EnvSource) list" where
  "publishChaincodeLifecycleResultEnv chaincode peerName configMapName resultKey resultFile = [
     (''FABRICOPS_CHAINCODE_LIFECYCLE_RESULT_CONFIGMAP'', EnvValue configMapName),
     (''FABRICOPS_CHAINCODE_LIFECYCLE_RESULT_KEY'', EnvValue resultKey),
     (''FABRICOPS_CHAINCODE_LIFECYCLE_RESULT_FILE'', EnvValue resultFile),
     (''FABRICOPS_CHAINCODE_CHANNEL'', EnvValue (sanitizeName (cd_Channel chaincode))),
     (''FABRICOPS_CHAINCODE_NAME'', EnvValue (sanitizeName (cd_Name chaincode))),
     (''FABRICOPS_CHAINCODE_PEER'', EnvValue (sanitizeName peerName)), podNamespaceEnv]"

section \<open>Jobs\<close>

definition chaincodeOutputMount :: VolumeMount where
  "chaincodeOutputMount = \<lparr>vm_Name = chaincodeOutputVolumeName, vm_MountPath = chaincodeOutputDir, vm_ReadOnly = False\<rparr>"

definition chaincodeJob ::
  "FabricNetwork \<Rightarrow> Org \<Rightarrow> string \<Rightarrow> string \<Rightarrow> string \<Rightarrow> (string, string) gomap \<Rightarrow> (string \<times> VolumeSource) list \<Rightarrow> Container \<Rightarrow> Container \<Rightarrow> Job" where
  "chaincodeJob net org name namespace account labels volumes init publish =
     \<lparr>job_Meta = \<lparr>mt_Name = name, mt_Namespace = namespace, mt_Labels = Some labels,
        mt_Annotations = Some (succeededJobCleanupAnnotations (resourceAnnotations net org))\<rparr>,
      job_BackoffLimit = 4, job_PodLabels = labels, job_PodAnnotations = resourceAnnotations net org,
      job_ServiceAccount = account, job_RestartPolicy = ''Never'', job_Volumes = volumes,
      job_InitContainers = [init], job_Containers = [publish], job_Conditions = [], job_Succeeded = 0, job_CompletionTime = None\<rparr>"

definition chaincodePublisher :: "string \<Rightarrow> Script \<Rightarrow> (string \<times> EnvSource) list \<Rightarrow> Container" where
  "chaincodePublisher name script env =
     shellContainer name kubectlImage script env (componentResourceRequirements ''kubectl'') [chaincodeOutputMount]"

definition chaincodeAdminMSP :: "FabricNetwork \<Rightarrow> Org \<Rightarrow> string \<times> VolumeSource" where
  "chaincodeAdminMSP net org = (chaincodeAdminMSPVolume,
     secretVolume (identitySecretName (adminIdentityName org) secretKindMSP) (mspSecretItems (gl_TLS (sp_Global (fn_Spec net)))))"

definition chaincodeAdminTLS :: "Org \<Rightarrow> string \<times> VolumeSource" where
  "chaincodeAdminTLS org = (chaincodeAdminTLSVolume, secretVolume (identitySecretName (adminIdentityName org) secretKindTLS) adminTLSSecretItems)"

definition buildChaincodeInstallJob :: "FabricNetwork \<Rightarrow> Chaincode \<Rightarrow> Org \<Rightarrow> string \<Rightarrow> Job" where
  "buildChaincodeInstallJob net chaincode org peerName =
     (let namespace = orgNamespaceName net org; tls = gl_TLS (sp_Global (fn_Spec net));
          packageFile = chaincodePackageLabel chaincode @ ''.tar.gz'';
          volumes = [(chaincodePackageVolumeName, ConfigMapVolume (chaincodePackageConfigMapName chaincode org)
              (map (\<lambda>key. (key, key)) [chaincodeMetadataKey, chaincodeConnectionKey, chaincodePackageLabelKey, chaincodePackageFileKey, packageFile])),
            (chaincodeOutputVolumeName, EmptyDir), chaincodeAdminMSP net org] @ (if tls then [chaincodeAdminTLS org] else []);
          mounts = [readOnlyMount chaincodePackageVolumeName chaincodePackageInputDir, chaincodeOutputMount,
            readOnlyMount chaincodeAdminMSPVolume chaincodeAdminMSPPath] @
            (if tls then [readOnlyMount chaincodeAdminTLSVolume chaincodeAdminTLSPath] else [])
      in chaincodeJob net org (chaincodeInstallJobName chaincode org peerName) namespace (chaincodeInstallerName chaincode org peerName)
           (chaincodePeerLabels net org chaincode peerName) volumes
           (shellContainer ''install-chaincode-package'' (fabricToolsImage (sp_Global (fn_Spec net)))
             (installChaincodePackageScript org peerName namespace tls) [] (componentResourceRequirements ''fabric-cli'') mounts)
           (chaincodePublisher ''publish-chaincode-package-id'' PublishChaincodeInstallScript (publishChaincodeInstallEnv chaincode org peerName)))"

text \<open>What approval and commit mount: output, the administrator, collections, and with TLS the orderer's certificates.\<close>

definition lifecycleVolumes :: "FabricNetwork \<Rightarrow> Channel \<Rightarrow> Chaincode \<Rightarrow> Org \<Rightarrow> ordererInstance \<Rightarrow> (string \<times> VolumeSource) list" where
  "lifecycleVolumes net channel chaincode org orderer =
     [(chaincodeOutputVolumeName, EmptyDir), chaincodeAdminMSP net org] @
     (if cd_PrivateData chaincode = [] then []
      else [(chaincodeCollectionsVolume, ConfigMapVolume (chaincodeCollectionConfigMapName chaincode) [(chaincodeCollectionsKey, chaincodeCollectionsKey)])]) @
     (if gl_TLS (sp_Global (fn_Spec net)) then [chaincodeAdminTLS org, ordererTLSVolume (ch_Name channel) orderer] else [])"

definition lifecycleMounts :: "FabricNetwork \<Rightarrow> Chaincode \<Rightarrow> ordererInstance \<Rightarrow> VolumeMount list" where
  "lifecycleMounts net chaincode orderer =
     [readOnlyMount chaincodeAdminMSPVolume chaincodeAdminMSPPath, chaincodeOutputMount] @
     (if cd_PrivateData chaincode = [] then [] else [readOnlyMount chaincodeCollectionsVolume chaincodeCollectionsDir]) @
     (if gl_TLS (sp_Global (fn_Spec net))
      then [readOnlyMount chaincodeAdminTLSVolume chaincodeAdminTLSPath,
            readOnlyMount (channelOrdererTLSVolumeName (oi_name orderer)) (chaincodeOrdererTLSPath (oi_name orderer))] else [])"

definition buildChaincodeApproveJob ::
  "Crypto \<Rightarrow> FabricNetwork \<Rightarrow> Channel \<Rightarrow> Chaincode \<Rightarrow> Org \<Rightarrow> string \<Rightarrow> string \<Rightarrow> ordererInstance \<Rightarrow> Job" where
  "buildChaincodeApproveJob cr net channel chaincode org peerName packageID orderer =
     (let namespace = orgNamespaceName net org
      in chaincodeJob net org (chaincodeApproveJobName cr chaincode org packageID) namespace (chaincodeInstallerName chaincode org peerName)
           (go_set (chaincodePeerLabels net org chaincode peerName) labelWorkload (sanitizeName (adminIdentityName org)))
           (lifecycleVolumes net channel chaincode org orderer)
           (shellContainer approveChaincodeContainer (fabricToolsImage (sp_Global (fn_Spec net)))
             (approveChaincodeDefinitionScript net channel chaincode org peerName namespace packageID orderer) []
             (componentResourceRequirements ''fabric-cli'') (lifecycleMounts net chaincode orderer))
           (chaincodePublisher (publishChaincodeLifecycleResultContainerName approveChaincodeContainer) PublishChaincodeLifecycleResultScript
             (publishChaincodeLifecycleResultEnv chaincode peerName (chaincodeApproveResultConfigMapName cr chaincode org packageID)
               chaincodeQueryApprovedKey chaincodeQueryApprovedFile)))"

definition chaincodePeerTLSSecretItems :: "chaincodeLifecyclePeer \<Rightarrow> (string \<times> string) list" where
  "chaincodePeerTLSSecretItems peer = (if lp_tlsRootCA peer \<noteq> [] then [(''ca.crt'', ''ca.crt'')] else tlsSecretItems)"

definition buildChaincodeCommitJob ::
  "Crypto \<Rightarrow> FabricNetwork \<Rightarrow> Channel \<Rightarrow> Chaincode \<Rightarrow> string \<Rightarrow> chaincodeLifecyclePeer \<Rightarrow> ordererInstance \<Rightarrow> chaincodeLifecyclePeer list \<Rightarrow> Job" where
  "buildChaincodeCommitJob cr net channel chaincode packageID submitter orderer peers =
     (let org = lp_org submitter; tls = gl_TLS (sp_Global (fn_Spec net));
          peerVolumes = map (\<lambda>peer. (chaincodePeerTLSVolumeName (lp_org peer) (lp_peerName peer),
            secretVolume (chaincodePeerTLSSecretName chaincode (lp_org peer) (lp_peerName peer)) (chaincodePeerTLSSecretItems peer))) peers;
          peerMounts = map (\<lambda>peer. readOnlyMount (chaincodePeerTLSVolumeName (lp_org peer) (lp_peerName peer))
            (chaincodePeerTLSPath (lp_org peer) (lp_peerName peer))) peers
      in chaincodeJob net org (chaincodeCommitJobName cr chaincode packageID) (lp_namespace submitter) (chaincodeCommitterName chaincode)
           (go_set (chaincodeLabels net org (cd_Channel chaincode) (cd_Name chaincode)) labelWorkload (sanitizeName (adminIdentityName org)))
           (lifecycleVolumes net channel chaincode org orderer @ (if tls then peerVolumes else []))
           (shellContainer commitChaincodeContainer (fabricToolsImage (sp_Global (fn_Spec net)))
             (commitChaincodeDefinitionScript net channel chaincode submitter orderer peers) []
             (componentResourceRequirements ''fabric-cli'') (lifecycleMounts net chaincode orderer @ (if tls then peerMounts else [])))
           (chaincodePublisher (publishChaincodeLifecycleResultContainerName commitChaincodeContainer) PublishChaincodeLifecycleResultScript
             (publishChaincodeLifecycleResultEnv chaincode (lp_peerName submitter) (chaincodeCommitResultConfigMapName cr chaincode packageID)
               chaincodeQueryCommittedKey chaincodeQueryCommittedFile)))"

end
