(* ===== verification/Chaincodes.thy ===== *)
theory Chaincodes
  imports Chaincode_Objects Channels Complex_Main
begin

text \<open>
  The chaincode stage of the reconcile loop, \<^verbatim>\<open>fabricnetwork_chaincode.go\<close>. For every peer of the
  channel it publishes the package, installs it, runs the chaincode server and, on one peer of every
  organization, approves the definition; when every organization has approved, the definition is
  committed. Installation, approval and commit are Jobs whose results are read from ConfigMaps.
\<close>

section \<open>Results of the Jobs\<close>

text \<open>The value of a JSON number.\<close>

definition digitsValue :: "string \<Rightarrow> nat" where
  "digitsValue s = foldl (\<lambda>n c. 10 * n + digit_val c) 0 s"

definition numberExponent :: "string \<Rightarrow> int" where
  "numberExponent s =
     (case s of
        [] \<Rightarrow> 0
      | _ # t \<Rightarrow> if hasPrefix t ''-'' then - int (digitsValue (drop 1 t))
                 else if hasPrefix t ''+'' then int (digitsValue (drop 1 t)) else int (digitsValue t))"

definition powerOfTen :: "int \<Rightarrow> rat" where
  "powerOfTen e = (if 0 \<le> e then 10 ^ nat e else 1 / 10 ^ nat (- e))"

definition numberValue :: "string \<Rightarrow> rat" where
  "numberValue t =
     (let body = (if hasPrefix t ''-'' then drop 1 t else t);
          whole = takeWhile is_digit body; rest = dropWhile is_digit body;
          frac = (if hasPrefix rest ''.'' then takeWhile is_digit (drop 1 rest) else []);
          expo = (if hasPrefix rest ''.'' then dropWhile is_digit (drop 1 rest) else rest);
          val = of_nat (digitsValue (whole @ frac)) * powerOfTen (numberExponent expo - int (length frac))
      in if hasPrefix t ''-'' then - val else val)"

text \<open>
  The number is read as a \<open>float64\<close>, the nearest one, ties to even. An integer \<open>n\<close> between 1 and
  \<open>2 ^ 31\<close> is itself a \<open>float64\<close> with an even mantissa; its neighbours are at the distance \<open>2 ^ (k - 52)\<close>, where
  \<open>2 ^ k\<close> is the largest power of two up to \<open>n\<close>, and half of that below a power of two.
\<close>

fun powerBelow :: "nat \<Rightarrow> nat" where
  "powerBelow n = (if n < 2 then 1 else 2 * powerBelow (n div 2))"

definition float64Is :: "rat \<Rightarrow> int \<Rightarrow> bool" where
  "float64Is v n \<longleftrightarrow>
     (let half = of_nat (powerBelow (nat n)) / 2 ^ 53; below = (if int (powerBelow (nat n)) = n then half / 2 else half)
      in of_int n - below \<le> v \<and> v \<le> of_int n + half)"

definition chaincodeLifecycleResultSequenceMatches :: "string \<Rightarrow> int \<Rightarrow> bool" where
  "chaincodeLifecycleResultSequenceMatches raw sequence \<longleftrightarrow>
     (case Option.bind (jsonParse raw) jstruct of
        None \<Rightarrow> False
      | Some payload \<Rightarrow>
          (case jmember ''sequence'' payload of
             JNum t \<Rightarrow> float64Is (numberValue t) sequence
           | JStr s \<Rightarrow> s = itoa sequence
           | _ \<Rightarrow> False))"

definition lifecycleResultVerdict :: "string \<Rightarrow> int \<Rightarrow> string \<Rightarrow> ConfigMap option \<Rightarrow> bool \<times> string" where
  "lifecycleResultVerdict resultKey sequence operation found =
     (case found of
        None \<Rightarrow> (False, [])
      | Some result \<Rightarrow>
          (let raw = trimSpace (go_get (cm_Data result) resultKey)
           in if raw = [] then (False, ''Waiting for '' @ operation @ '' result ConfigMap data'')
              else if \<not> chaincodeLifecycleResultSequenceMatches raw sequence
              then (False, ''Waiting for '' @ operation @ '' result ConfigMap sequence '' @ itoa sequence)
              else (True, [])))"

definition chaincodeLifecycleResultReadiness ::
  "'s Kube \<Rightarrow> string \<Rightarrow> string \<Rightarrow> string \<Rightarrow> int \<Rightarrow> string \<Rightarrow> ('s, bool \<times> string) io" where
  "chaincodeLifecycleResultReadiness api namespace configMapName resultKey sequence operation =
     ioBind (getConfigMap api namespace configMapName) (\<lambda>found. ioReturn (lifecycleResultVerdict resultKey sequence operation found))"

definition lifecycleJobMessage :: "string \<Rightarrow> string \<Rightarrow> string \<Rightarrow> Job option \<Rightarrow> string" where
  "lifecycleJobMessage operation failure resultMessage found =
     (case found of
        None \<Rightarrow> ''Waiting for '' @ operation @ '' Job''
      | Some job \<Rightarrow>
          if jobFailed job then failure
          else if jobSucceeded job
          then (if resultMessage \<noteq> [] then resultMessage else ''Waiting for '' @ operation @ '' result ConfigMap'')
          else ''Waiting for '' @ operation @ '' Job'')"

definition lifecycleReadiness ::
  "'s Kube \<Rightarrow> string \<Rightarrow> string \<Rightarrow> string \<Rightarrow> string \<Rightarrow> int \<Rightarrow> string \<Rightarrow> string \<Rightarrow> ('s, bool \<times> string) io" where
  "lifecycleReadiness api namespace resultConfigMapName jobName resultKey sequence operation failure =
     ioBind (chaincodeLifecycleResultReadiness api namespace resultConfigMapName resultKey sequence operation) (\<lambda>(resultReady, resultMessage).
       if resultReady then ioReturn (True, resultMessage)
       else ioBind (getJob api namespace jobName) (\<lambda>found.
         ioReturn (False, lifecycleJobMessage operation failure resultMessage found)))"

definition chaincodeApproveReadiness ::
  "'s Kube \<Rightarrow> string \<Rightarrow> string \<Rightarrow> string \<Rightarrow> Org \<Rightarrow> int \<Rightarrow> ('s, bool \<times> string) io" where
  "chaincodeApproveReadiness api namespace resultConfigMapName approveJobName org sequence =
     lifecycleReadiness api namespace resultConfigMapName approveJobName chaincodeQueryApprovedKey sequence ''chaincode approve''
       (om_Name (org_Organization org) @ '': chaincode approve Job failed'')"

definition chaincodeCommitReadiness :: "'s Kube \<Rightarrow> string \<Rightarrow> string \<Rightarrow> string \<Rightarrow> int \<Rightarrow> ('s, bool \<times> string) io" where
  "chaincodeCommitReadiness api namespace resultConfigMapName commitJobName sequence =
     lifecycleReadiness api namespace resultConfigMapName commitJobName chaincodeQueryCommittedKey sequence ''chaincode commit''
       ''Chaincode commit Job failed''"

text \<open>Whether the package is installed, its package ID, the chaincode ID and a message.\<close>

definition installVerdict :: "ConfigMap \<Rightarrow> bool \<times> string \<times> string \<times> string" where
  "installVerdict result =
     (let packageID = trimSpace (go_get (cm_Data result) chaincodePackageIDKey);
          rawID = trimSpace (go_get (cm_Data result) chaincodeChaincodeIDKey);
          chaincodeID = (if rawID = [] then packageID else rawID)
      in if packageID \<noteq> [] then (True, packageID, chaincodeID, ''Chaincode package installed'')
         else (False, packageID, chaincodeID, ''Waiting for package ID ConfigMap''))"

definition installJobMessage :: "Job option \<Rightarrow> string" where
  "installJobMessage found =
     (case found of
        None \<Rightarrow> ''Waiting for chaincode install Job''
      | Some job \<Rightarrow>
          if jobFailed job then ''Chaincode install Job failed''
          else if jobSucceeded job then ''Waiting for package ID ConfigMap'' else ''Waiting for chaincode install Job'')"

definition chaincodeInstallReadiness ::
  "'s Kube \<Rightarrow> string \<Rightarrow> string \<Rightarrow> string \<Rightarrow> ('s, bool \<times> string \<times> string \<times> string) io" where
  "chaincodeInstallReadiness api namespace packageIDConfigMapName installJobName =
     ioBind (getConfigMap api namespace packageIDConfigMapName) (\<lambda>found.
       case found of
         Some result \<Rightarrow> ioReturn (installVerdict result)
       | None \<Rightarrow> ioBind (getJob api namespace installJobName) (\<lambda>job. ioReturn (False, [], [], installJobMessage job)))"

section \<open>Workloads\<close>

definition ensureChaincodeWorkload :: "'s Kube \<Rightarrow> FabricNetwork \<Rightarrow> Chaincode \<Rightarrow> Org \<Rightarrow> string \<Rightarrow> string \<Rightarrow> ('s, unit) io" where
  "ensureChaincodeWorkload api net chaincode org peerName chaincodeID =
     ioBind (ensureService api (buildChaincodeService net chaincode org peerName)) (\<lambda>_.
       ensureDeployment api (buildChaincodeDeployment net chaincode org peerName chaincodeID))"

definition chaincodeWorkloadReadiness :: "'s Kube \<Rightarrow> string \<Rightarrow> string \<Rightarrow> ('s, WorkloadStatus \<times> bool \<times> string) io" where
  "chaincodeWorkloadReadiness api namespace deploymentName s =
     (case deploymentWorkloadStatus api namespace deploymentName s of
        (Inl NotFound, s1) \<Rightarrow> (Inr (zeroWorkloadStatus, False, ''Waiting for chaincode workload Deployment''), s1)
      | (Inl e, s1) \<Rightarrow> (Inl e, s1)
      | (Inr workload, s1) \<Rightarrow>
          (Inr (if ws_Desired workload > 0 \<and> workloadReady workload then (workload, True, [])
                else (workload, False, ''Waiting for chaincode workload Deployment'')), s1))"

definition chaincodeSelector :: "FabricNetwork \<Rightarrow> Org \<Rightarrow> Chaincode \<Rightarrow> (string, string) gomap" where
  "chaincodeSelector net org chaincode =
     [(labelFabricNetwork, sanitizeName (fn_Name net)), (labelFabricNetworkNamespace, sanitizeName (fn_Namespace net)),
      (labelOrg, sanitizeName (om_Name (org_Organization org))), (labelComponent, ''chaincode''),
      (labelChannel, sanitizeName (cd_Channel chaincode)), (labelChaincode, sanitizeName (cd_Name chaincode))]"

definition deleteUndesiredChaincode ::
  "'s Cluster \<Rightarrow> FabricNetwork \<Rightarrow> Chaincode \<Rightarrow> Org \<Rightarrow> string set \<Rightarrow> KObject \<Rightarrow> ('s, unit) io" where
  "deleteUndesiredChaincode cl net chaincode org desiredWorkloads ob =
     (if mt_Name (objMeta ob) \<in> desiredWorkloads then ioReturn ()
      else deleteOwnedObject cl ob (ownerObject (mt_Name (objMeta ob)) (orgNamespaceName net org)
             (chaincodeLabels net org (cd_Channel chaincode) (cd_Name chaincode)) (resourceAnnotations net org)))"

definition cleanupOrgChaincode :: "'s Cluster \<Rightarrow> FabricNetwork \<Rightarrow> Chaincode \<Rightarrow> string set \<Rightarrow> Org \<Rightarrow> ('s, unit) io" where
  "cleanupOrgChaincode cl net chaincode desiredWorkloads org =
     (let namespace = orgNamespaceName net org; selector = chaincodeSelector net org chaincode in
      ioBind (cl_List cl KDeployment namespace selector) (\<lambda>deployments.
      ioBind (ioSeq (map (deleteUndesiredChaincode cl net chaincode org desiredWorkloads) deployments)) (\<lambda>_.
      ioBind (cl_List cl KService namespace selector) (\<lambda>services.
        ioSeq (map (deleteUndesiredChaincode cl net chaincode org desiredWorkloads) services)))))"

definition cleanupRemovedChaincodeWorkloads :: "'s Cluster \<Rightarrow> FabricNetwork \<Rightarrow> Chaincode \<Rightarrow> bool \<Rightarrow> string set \<Rightarrow> ('s, unit) io" where
  "cleanupRemovedChaincodeWorkloads cl net chaincode enabled desiredWorkloads =
     (if \<not> enabled then ioReturn () else ioSeq (map (cleanupOrgChaincode cl net chaincode desiredWorkloads) (sp_Orgs (fn_Spec net))))"

section \<open>Lifecycle\<close>

definition ensureChaincodeInstallRBAC :: "'s Kube \<Rightarrow> FabricNetwork \<Rightarrow> Org \<Rightarrow> Chaincode \<Rightarrow> string \<Rightarrow> ('s, unit) io" where
  "ensureChaincodeInstallRBAC api net org chaincode peerName =
     (let namespace = orgNamespaceName net org in
      ioBind (ensureServiceAccount api (buildChaincodeInstallServiceAccount net org chaincode peerName)) (\<lambda>_.
      ioBind (case_prod (ensureRole api) (buildChaincodeInstallRole net org chaincode peerName namespace)) (\<lambda>_.
        (let (m, subjects, roleRef) = buildChaincodeInstallRoleBinding net org chaincode peerName namespace
         in ensureRoleBinding api m subjects roleRef))))"

definition channelsByName :: "FabricNetwork \<Rightarrow> (string, Channel) gomap" where
  "channelsByName net = foldl (\<lambda>channels channel. go_set channels (ch_Name channel) channel) [] (sp_Channels (fn_Spec net))"

definition channelReadyForChaincode :: "ChannelStatus list \<Rightarrow> string \<Rightarrow> bool" where
  "channelReadyForChaincode statuses channelName =
     (case List.find (\<lambda>status. chs_Name status = channelName) statuses of None \<Rightarrow> False | Some status \<Rightarrow> chs_Ready status)"

definition chaincodeApprovalPeers :: "Channel \<Rightarrow> (string, string) gomap" where
  "chaincodeApprovalPeers channel =
     foldl (\<lambda>peers org. case co_Peers org of [] \<Rightarrow> peers | peer # _ \<Rightarrow> go_set peers (co_Name org) peer) [] (ch_Orgs channel)"

definition chaincodeLifecycleOrderer :: "FabricNetwork \<Rightarrow> ordererInstance option" where
  "chaincodeLifecycleOrderer net = (case desiredOrdererInstances net of [] \<Rightarrow> None | orderer # _ \<Rightarrow> Some orderer)"

definition peerDeclared :: "Org \<Rightarrow> string \<Rightarrow> bool" where
  "peerDeclared org peerName \<longleftrightarrow>
     (case org_Peer org of None \<Rightarrow> False | Some p \<Rightarrow> peerName \<in> set (workloadNames (pc_Prefix p) (pc_Instances p)))"

definition chaincodeLifecyclePeers :: "FabricNetwork \<Rightarrow> Channel \<Rightarrow> chaincodeLifecyclePeer list" where
  "chaincodeLifecyclePeers net channel =
     concat (map (\<lambda>channelOrg.
       case map_of (orgsByName net) (co_Name channelOrg) of
         None \<Rightarrow> []
       | Some org \<Rightarrow> map (\<lambda>peerName. \<lparr>lp_org = org, lp_peerName = peerName, lp_namespace = orgNamespaceName net org,
             lp_address = [], lp_tlsRootCA = []\<rparr>) (filter (peerDeclared org) (co_Peers channelOrg))) (ch_Orgs channel))"

definition externalPeer :: "ChannelExternalOrg \<Rightarrow> bytes \<Rightarrow> nat \<times> ChannelExternalAnchorPeer \<Rightarrow> chaincodeLifecyclePeer list" where
  "externalPeer externalOrg tlsRootCA anchor =
     (let host = trimSpace (ap_Host (snd anchor)); port = ap_Port (snd anchor)
      in if host = [] \<or> port \<le> 0 then []
         else [\<lparr>lp_org = zeroOrg\<lparr>org_Organization := \<lparr>om_Name = eo_Name externalOrg, om_Domain = [], om_MSPName = eo_MSPID externalOrg\<rparr>\<rparr>,
                lp_peerName = sanitizeName (''external-peer-'' @ itoa (int (fst anchor))), lp_namespace = [],
                lp_address = host @ '':'' @ itoa port, lp_tlsRootCA = tlsRootCA\<rparr>])"

definition externalTLSRoot :: "Crypto \<Rightarrow> FabricNetwork \<Rightarrow> ChannelExternalOrg \<Rightarrow> bytes \<Rightarrow> string + bytes" where
  "externalTLSRoot cr net externalOrg raw =
     (if \<not> gl_TLS (sp_Global (fn_Spec net)) then Inr []
      else case applicationOrgTLSRootCA cr raw of
             Inl e \<Rightarrow> Inl (eo_Name externalOrg @ '' application org TLS root is invalid: '' @ e)
           | Inr ca \<Rightarrow> if ca = [] then Inl (eo_Name externalOrg @ '' application org JSON is missing tls_root_certs'') else Inr ca)"

definition externalPeersOf :: "Crypto \<Rightarrow> FabricNetwork \<Rightarrow> ChannelExternalOrg \<Rightarrow> bytes \<Rightarrow> string + chaincodeLifecyclePeer list" where
  "externalPeersOf cr net externalOrg raw =
     (case parseApplicationOrgJSON raw of
        Inl e \<Rightarrow> Inl (eo_Name externalOrg @ '' application org JSON is invalid: '' @ e)
      | Inr (_, parsedAnchorPeers) \<Rightarrow>
          (let anchorPeers = (if eo_AnchorPeers externalOrg = [] then parsedAnchorPeers else eo_AnchorPeers externalOrg)
           in if anchorPeers = [] then Inr []
              else case externalTLSRoot cr net externalOrg raw of
                     Inl e \<Rightarrow> Inl e
                   | Inr tlsRootCA \<Rightarrow> Inr (concat (map (externalPeer externalOrg tlsRootCA) (enumerate 0 anchorPeers)))))"

fun externalChaincodeLifecyclePeers ::
  "Crypto \<Rightarrow> 's Kube \<Rightarrow> FabricNetwork \<Rightarrow> ChannelExternalOrg list \<Rightarrow> ('s, chaincodeLifecyclePeer list) io" where
  "externalChaincodeLifecyclePeers cr api net [] = ioReturn []"
| "externalChaincodeLifecyclePeers cr api net (externalOrg # externalOrgs) =
     (if channelExternalOrgDesiredState externalOrg = ChannelExternalOrgAbsent then externalChaincodeLifecyclePeers cr api net externalOrgs
      else ioBind (channelArtifactBytes api (fn_Namespace net) (Some (eo_ApplicationOrgRef externalOrg))) (\<lambda>artifact.
           case artifact of
             Inl message \<Rightarrow> ioFail (OtherError (eo_Name externalOrg @ '': '' @ message))
           | Inr raw \<Rightarrow>
               ioBind (liftText (externalPeersOf cr net externalOrg raw)) (\<lambda>peers.
               ioBind (externalChaincodeLifecyclePeers cr api net externalOrgs) (\<lambda>rest. ioReturn (peers @ rest)))))"

text \<open>The collection ConfigMap in the namespace of an organization, when there are collections.\<close>

definition ensureCollections :: "Crypto \<Rightarrow> 's Kube \<Rightarrow> FabricNetwork \<Rightarrow> Channel \<Rightarrow> Chaincode \<Rightarrow> Org \<Rightarrow> ('s, unit) io" where
  "ensureCollections cr api net channel chaincode org =
     (if cd_PrivateData chaincode = [] then ioReturn ()
      else ioBind (liftText (renderChaincodeCollectionConfig cr net channel chaincode)) (\<lambda>(collectionConfigJSON, collectionConfigHash).
           ensureConfigMap api (buildChaincodeCollectionConfigMap net chaincode org collectionConfigJSON collectionConfigHash)))"

definition ensureChaincodeApproveInputs ::
  "Crypto \<Rightarrow> 's Kube \<Rightarrow> FabricNetwork \<Rightarrow> Channel \<Rightarrow> Chaincode \<Rightarrow> Org \<Rightarrow> string \<Rightarrow> ordererInstance \<Rightarrow> ('s, unit) io" where
  "ensureChaincodeApproveInputs cr api net channel chaincode org namespace orderer =
     ioBind (ensureCollections cr api net channel chaincode org) (\<lambda>_.
       if \<not> gl_TLS (sp_Global (fn_Spec net)) then ioReturn ()
       else ensureCopiedSecret api (oi_namespace orderer, identitySecretName (oi_name orderer) secretKindTLS) namespace
              (channelOrdererTLSSecretName (ch_Name channel) (oi_name orderer)) (channelLabels net org (ch_Name channel)) (resourceAnnotations net org))"

definition ensurePeerTLS ::
  "'s Kube \<Rightarrow> Chaincode \<Rightarrow> string \<Rightarrow> (string, string) gomap \<Rightarrow> (string, string) gomap \<Rightarrow> chaincodeLifecyclePeer \<Rightarrow> ('s, unit) io" where
  "ensurePeerTLS api chaincode namespace labels annotations peer =
     (let name = chaincodePeerTLSSecretName chaincode (lp_org peer) (lp_peerName peer)
      in if lp_tlsRootCA peer \<noteq> []
         then ensureReplicatedSecret api \<lparr>sec_Meta = \<lparr>mt_Name = name, mt_Namespace = namespace, mt_Labels = Some labels,
                mt_Annotations = Some annotations\<rparr>, sec_Type = ''Opaque'', sec_Data = [(''ca.crt'', lp_tlsRootCA peer)]\<rparr>
         else ensureCopiedSecret api (lp_namespace peer, identitySecretName (lp_peerName peer) secretKindTLS) namespace name labels annotations)"

definition ensureChaincodeCommitInputs ::
  "Crypto \<Rightarrow> 's Kube \<Rightarrow> FabricNetwork \<Rightarrow> Channel \<Rightarrow> Chaincode \<Rightarrow> Org \<Rightarrow> string \<Rightarrow> ordererInstance \<Rightarrow> chaincodeLifecyclePeer list \<Rightarrow> ('s, unit) io" where
  "ensureChaincodeCommitInputs cr api net channel chaincode hostOrg namespace orderer peers =
     (let labels = chaincodeLabels net hostOrg (cd_Channel chaincode) (cd_Name chaincode); annotations = resourceAnnotations net hostOrg in
      ioBind (ensureCollections cr api net channel chaincode hostOrg) (\<lambda>_.
        if \<not> gl_TLS (sp_Global (fn_Spec net)) then ioReturn ()
        else ioBind (ensureCopiedSecret api (oi_namespace orderer, identitySecretName (oi_name orderer) secretKindTLS) namespace
               (channelOrdererTLSSecretName (ch_Name channel) (oi_name orderer)) labels annotations) (\<lambda>_.
             ioSeq (map (ensurePeerTLS api chaincode namespace labels annotations) peers))))"

definition ensureCommitRBAC :: "'s Kube \<Rightarrow> FabricNetwork \<Rightarrow> Chaincode \<Rightarrow> Org \<Rightarrow> string \<Rightarrow> ('s, unit) io" where
  "ensureCommitRBAC api net chaincode org namespace =
     ioBind (ensureServiceAccount api (buildChaincodeCommitServiceAccount net chaincode org namespace)) (\<lambda>_.
     ioBind (case_prod (ensureRole api) (buildChaincodeCommitRole net chaincode org namespace)) (\<lambda>_.
       (let (m, subjects, roleRef) = buildChaincodeCommitRoleBinding net chaincode org namespace
        in ensureRoleBinding api m subjects roleRef)))"

text \<open>Whether the definition is committed, a message, and the status with the place of the result.\<close>

definition reconcileChaincodeCommit ::
  "Crypto \<Rightarrow> 's Kube \<Rightarrow> FabricNetwork \<Rightarrow> Channel \<Rightarrow> Chaincode \<Rightarrow> string \<Rightarrow> ChaincodeStatus \<Rightarrow> ('s, bool \<times> string \<times> ChaincodeStatus) io" where
  "reconcileChaincodeCommit cr api net channel chaincode packageID status =
     (case chaincodeLifecycleOrderer net of
        None \<Rightarrow> ioReturn (False, ''Waiting for an orderer before lifecycle commit'', status)
      | Some orderer \<Rightarrow>
          ioBind (externalChaincodeLifecyclePeers cr api net (ch_ExternalOrgs channel)) (\<lambda>externalPeers.
            case chaincodeLifecyclePeers net channel @ externalPeers of
              [] \<Rightarrow> ioReturn (False, ''Waiting for target peers before lifecycle commit'', status)
            | submitter # others \<Rightarrow>
                (let peers = submitter # others; namespace = lp_namespace submitter;
                     resultName = chaincodeCommitResultConfigMapName cr chaincode packageID;
                     status1 = status\<lparr>ccs_CommitResultNamespace := namespace, ccs_CommitResultConfigMapName := resultName\<rparr> in
                 ioBind (chaincodeCommitReadiness api namespace resultName (chaincodeCommitJobName cr chaincode packageID) (chaincodeSequence chaincode))
                   (\<lambda>(committed, message).
                   if committed then ioReturn (True, [], status1)
                   else ioBind (ensureChaincodeCommitInputs cr api net channel chaincode (lp_org submitter) namespace orderer peers) (\<lambda>_.
                        ioBind (ensureCommitRBAC api net chaincode (lp_org submitter) namespace) (\<lambda>_.
                        ioBind (ensureJob api (buildChaincodeCommitJob cr net channel chaincode packageID submitter orderer peers)) (\<lambda>_.
                          ioReturn (False, if message \<noteq> [] then message else ''Waiting for chaincode commit Job'', status1))))))))"

section \<open>One target\<close>

definition addReady :: "WorkloadStatus \<Rightarrow> int \<Rightarrow> WorkloadStatus" where
  "addReady w n = w\<lparr>ws_Ready := int32_of (ws_Ready w + n)\<rparr>"

definition addDesired :: "WorkloadStatus \<Rightarrow> int \<Rightarrow> WorkloadStatus" where
  "addDesired w n = w\<lparr>ws_Desired := int32_of (ws_Desired w + n)\<rparr>"

definition newTarget :: "string \<Rightarrow> string \<Rightarrow> ChaincodeTargetStatus" where
  "newTarget orgName peerName =
     \<lparr>ct_OrgName = orgName, ct_Namespace = [], ct_PeerName = peerName, ct_WorkloadName = [], ct_Workload = zeroWorkloadStatus,
      ct_WorkloadReady = False, ct_ServiceName = [], ct_Address = [], ct_PackageConfigMapName = [], ct_PackageIDConfigMapName = [],
      ct_InstallJobName = [], ct_ApproveJobName = [], ct_PackageMetadataReady = False, ct_PackageID = [], ct_ChaincodeID = [],
      ct_Installed = False, ct_Approved = False, ct_Message = []\<rparr>"

definition knownTarget :: "FabricNetwork \<Rightarrow> Chaincode \<Rightarrow> string \<Rightarrow> Org \<Rightarrow> string \<Rightarrow> ChaincodeTargetStatus" where
  "knownTarget net chaincode orgName org peerName =
     (let namespace = orgNamespaceName net org; serviceName = chaincodeServiceName chaincode org peerName
      in (newTarget orgName peerName)\<lparr>ct_Namespace := namespace, ct_WorkloadName := serviceName,
           ct_Workload := \<lparr>ws_Desired = chaincodeReplicas chaincode, ws_Ready = 0\<rparr>, ct_ServiceName := serviceName,
           ct_Address := chaincodeConnectionAddress serviceName namespace chaincode,
           ct_PackageConfigMapName := chaincodePackageConfigMapName chaincode org,
           ct_PackageIDConfigMapName := chaincodePackageIDConfigMapName chaincode org peerName,
           ct_InstallJobName := chaincodeInstallJobName chaincode org peerName\<rparr>)"

text \<open>The installed package runs as a workload; a missing one is installed.\<close>

definition runTarget ::
  "'s Kube \<Rightarrow> FabricNetwork \<Rightarrow> Chaincode \<Rightarrow> Org \<Rightarrow> string \<Rightarrow> ChaincodeStatus \<Rightarrow> ChaincodeTargetStatus \<Rightarrow> ('s, ChaincodeStatus \<times> ChaincodeTargetStatus) io" where
  "runTarget api net chaincode org peerName status target =
     (if ct_Installed target
      then ioBind (ensureChaincodeWorkload api net chaincode org peerName (ct_ChaincodeID target)) (\<lambda>_.
           ioBind (chaincodeWorkloadReadiness api (ct_Namespace target) (ct_WorkloadName target)) (\<lambda>(workload, ready, message).
             ioReturn (status\<lparr>ccs_Installed := addReady (ccs_Installed status) 1, ccs_Workloads := addReady (ccs_Workloads status) (ws_Ready workload)\<rparr>,
               target\<lparr>ct_Workload := workload, ct_WorkloadReady := ready,
                 ct_Message := (if \<not> ready \<and> message \<noteq> [] then message else ct_Message target)\<rparr>)))
      else ioBind (ensureJob api (buildChaincodeInstallJob net chaincode org peerName)) (\<lambda>_. ioReturn (status, target)))"

text \<open>Approval on behalf of the organization, on its first peer.\<close>

definition approveTarget ::
  "Crypto \<Rightarrow> 's Kube \<Rightarrow> FabricNetwork \<Rightarrow> Channel \<Rightarrow> Chaincode \<Rightarrow> Org \<Rightarrow> string \<Rightarrow> string \<Rightarrow> ChaincodeStatus \<Rightarrow> ChaincodeTargetStatus \<Rightarrow>
   ('s, string \<times> ChaincodeStatus \<times> ChaincodeTargetStatus) io" where
  "approveTarget cr api net channel chaincode org peerName lifecycleMessage status target =
     (let status1 = status\<lparr>ccs_Approved := addDesired (ccs_Approved status) 1\<rparr>; packageID = ct_PackageID target in
      if \<not> ct_Installed target then ioReturn (lifecycleMessage, status1, target)
      else let jobName = chaincodeApproveJobName cr chaincode org packageID; target1 = target\<lparr>ct_ApproveJobName := jobName\<rparr> in
        (case chaincodeLifecycleOrderer net of
           None \<Rightarrow> ioReturn (''Waiting for an orderer before lifecycle approval'', status1, target1)
         | Some orderer \<Rightarrow>
             ioBind (ensureChaincodeApproveInputs cr api net channel chaincode org (ct_Namespace target1) orderer) (\<lambda>_.
             ioBind (chaincodeApproveReadiness api (ct_Namespace target1) (chaincodeApproveResultConfigMapName cr chaincode org packageID) jobName org
                       (chaincodeSequence chaincode)) (\<lambda>(approved, message).
               if approved
               then ioReturn (lifecycleMessage, status1\<lparr>ccs_Approved := addReady (ccs_Approved status1) 1\<rparr>,
                      target1\<lparr>ct_Approved := True, ct_Message := ''Chaincode definition approved''\<rparr>)
               else ioBind (ensureJob api (buildChaincodeApproveJob cr net channel chaincode org peerName packageID orderer)) (\<lambda>_.
                      ioReturn (lifecycleMessage, status1, if message \<noteq> [] then target1\<lparr>ct_Message := message\<rparr> else target1))))))"

definition installTarget ::
  "Crypto \<Rightarrow> 's Kube \<Rightarrow> FabricNetwork \<Rightarrow> Channel \<Rightarrow> Chaincode \<Rightarrow> ChannelOrg \<Rightarrow> Org \<Rightarrow> string \<Rightarrow> string \<Rightarrow> ChaincodeStatus \<Rightarrow> ChaincodeTargetStatus \<Rightarrow>
   ('s, string \<times> ChaincodeStatus \<times> ChaincodeTargetStatus) io" where
  "installTarget cr api net channel chaincode channelOrg org peerName lifecycleMessage status target =
     ioBind (ensureChaincodeInstallRBAC api net org chaincode peerName) (\<lambda>_.
     ioBind (chaincodeInstallReadiness api (ct_Namespace target) (ct_PackageIDConfigMapName target) (ct_InstallJobName target))
       (\<lambda>(installed, packageID, chaincodeID, message).
     ioBind (runTarget api net chaincode org peerName status
               (target\<lparr>ct_PackageID := packageID, ct_ChaincodeID := chaincodeID, ct_Installed := installed, ct_Message := message\<rparr>))
       (\<lambda>(status1, target1).
       if go_get (chaincodeApprovalPeers channel) (co_Name channelOrg) = peerName
       then approveTarget cr api net channel chaincode org peerName lifecycleMessage status1 target1
       else ioReturn (lifecycleMessage, status1, target1))))"

text \<open>Package and collections of a declared peer, then, on a ready channel, installation.\<close>

definition packageTarget ::
  "Crypto \<Rightarrow> (bytes \<Rightarrow> bytes) \<Rightarrow> 's Kube \<Rightarrow> FabricNetwork \<Rightarrow> Channel \<Rightarrow> Chaincode \<Rightarrow> bool \<Rightarrow> ChannelOrg \<Rightarrow> Org \<Rightarrow> string \<Rightarrow> string \<Rightarrow>
   ChaincodeStatus \<Rightarrow> ChaincodeTargetStatus \<Rightarrow> ('s, string \<times> ChaincodeStatus \<times> ChaincodeTargetStatus) io" where
  "packageTarget cr gz api net channel chaincode bootstrapped channelOrg org peerName lifecycleMessage status target =
     ioBind (liftText (buildChaincodePackageConfigMap gz net chaincode org)) (\<lambda>configMap.
     ioBind (ensureConfigMap api configMap) (\<lambda>_.
     ioBind (ensureCollections cr api net channel chaincode org) (\<lambda>_.
       let target1 = target\<lparr>ct_PackageMetadataReady := True, ct_Message := ''Package metadata generated''\<rparr>;
           status1 = status\<lparr>ccs_Workloads := addDesired (ccs_Workloads status) (ws_Desired (ct_Workload target)),
             ccs_PackageMetadata := addReady (ccs_PackageMetadata status) 1, ccs_Installed := addDesired (ccs_Installed status) 1\<rparr>
       in if bootstrapped then installTarget cr api net channel chaincode channelOrg org peerName lifecycleMessage status1 target1
          else ioReturn (lifecycleMessage, status1, target1))))"

text \<open>A run over the targets keeps the lifecycle message, the status and the workloads that are to stay.\<close>

type_synonym targetState = "string \<times> ChaincodeStatus \<times> string set"

definition addTarget :: "ChaincodeStatus \<Rightarrow> ChaincodeTargetStatus \<Rightarrow> ChaincodeStatus" where
  "addTarget status target = status\<lparr>ccs_Targets := ccs_Targets status @ [target]\<rparr>"

definition reconcileTarget ::
  "Crypto \<Rightarrow> (bytes \<Rightarrow> bytes) \<Rightarrow> 's Kube \<Rightarrow> FabricNetwork \<Rightarrow> Channel \<Rightarrow> Chaincode \<Rightarrow> bool \<Rightarrow> bool \<Rightarrow> ChannelOrg \<Rightarrow> string \<Rightarrow> targetState \<Rightarrow>
   ('s, targetState) io" where
  "reconcileTarget cr gz api net channel chaincode configValid bootstrapped channelOrg peerName st =
     (let (lifecycleMessage, status, desiredWorkloads) = st;
          status1 = status\<lparr>ccs_PackageMetadata := addDesired (ccs_PackageMetadata status) 1\<rparr> in
      case map_of (orgsByName net) (co_Name channelOrg) of
        None \<Rightarrow> ioReturn (lifecycleMessage, addTarget status1 ((newTarget (co_Name channelOrg) peerName)\<lparr>ct_Message := ''Unknown org''\<rparr>), desiredWorkloads)
      | Some org \<Rightarrow>
          (let target = knownTarget net chaincode (co_Name channelOrg) org peerName; desired1 = insert (ct_WorkloadName target) desiredWorkloads in
           if \<not> peerDeclared org peerName
           then ioReturn (lifecycleMessage, addTarget status1 (target\<lparr>ct_Message := ''Unknown peer''\<rparr>), desiredWorkloads)
           else if \<not> configValid
           then ioReturn (lifecycleMessage, addTarget status1 (target\<lparr>ct_Message := ''Waiting for valid chaincode configuration''\<rparr>), desired1)
           else ioBind (packageTarget cr gz api net channel chaincode bootstrapped channelOrg org peerName lifecycleMessage status1 target)
                  (\<lambda>(message, status2, target1). ioReturn (message, addTarget status2 target1, desired1))))"

fun targetLoop ::
  "Crypto \<Rightarrow> (bytes \<Rightarrow> bytes) \<Rightarrow> 's Kube \<Rightarrow> FabricNetwork \<Rightarrow> Channel \<Rightarrow> Chaincode \<Rightarrow> bool \<Rightarrow> bool \<Rightarrow> (ChannelOrg \<times> string) list \<Rightarrow> targetState \<Rightarrow>
   ('s, targetState) io" where
  "targetLoop cr gz api net channel chaincode configValid bootstrapped [] st = ioReturn st"
| "targetLoop cr gz api net channel chaincode configValid bootstrapped ((channelOrg, peerName) # targets) st =
     ioBind (reconcileTarget cr gz api net channel chaincode configValid bootstrapped channelOrg peerName st) (\<lambda>st1.
       targetLoop cr gz api net channel chaincode configValid bootstrapped targets st1)"

definition channelTargets :: "Channel \<Rightarrow> (ChannelOrg \<times> string) list" where
  "channelTargets channel = concat (map (\<lambda>channelOrg. map (Pair channelOrg) (co_Peers channelOrg)) (ch_Orgs channel))"

section \<open>One chaincode\<close>

definition chaincodeKey :: "Chaincode \<Rightarrow> string" where
  "chaincodeKey chaincode = cd_Channel chaincode @ ''/'' @ cd_Name chaincode"

definition chaincodeMessages :: "FabricNetwork \<Rightarrow> string set \<Rightarrow> Chaincode \<Rightarrow> string list" where
  "chaincodeMessages net seen chaincode =
     (if chaincodeKey chaincode \<in> seen then [''Chaincode name must be unique within a channel''] else []) @
     (if trimSpace (cd_Name chaincode) = [] then [''Chaincode name is required''] else []) @
     (if trimSpace (cd_Version chaincode) = [] then [''Chaincode version is required''] else []) @
     (if trimSpace (cd_Image chaincode) = [] then [''Chaincode image is required for CCaaS''] else []) @
     (if trimSpace (cd_Channel chaincode) = [] then [''Chaincode channel is required'']
      else if map_of (channelsByName net) (cd_Channel chaincode) = None then [''Unknown channel''] else [])"

definition initialChaincodeStatus :: "Chaincode \<Rightarrow> ChaincodeStatus" where
  "initialChaincodeStatus chaincode =
     \<lparr>ccs_Name = cd_Name chaincode, ccs_Channel = cd_Channel chaincode, ccs_Version = cd_Version chaincode,
      ccs_PackageLabel = chaincodePackageLabel chaincode, ccs_Sequence = chaincodeSequence chaincode, ccs_CollectionConfigMap = [],
      ccs_CollectionConfigHash = [], ccs_PackageMetadata = zeroWorkloadStatus, ccs_PackageMetadataReady = False,
      ccs_Installed = zeroWorkloadStatus, ccs_InstalledReady = False, ccs_Workloads = zeroWorkloadStatus, ccs_WorkloadsReady = False,
      ccs_Approved = zeroWorkloadStatus, ccs_ApprovedReady = False, ccs_CommitJobName = [], ccs_CommitResultNamespace = [],
      ccs_CommitResultConfigMapName = [], ccs_Committed = False, ccs_Ready = False, ccs_Targets = [], ccs_Message = []\<rparr>"

definition firstChaincodePackageID :: "ChaincodeTargetStatus list \<Rightarrow> string" where
  "firstChaincodePackageID targets =
     (case List.find (\<lambda>target. trimSpace (ct_PackageID target) \<noteq> []) targets of None \<Rightarrow> [] | Some target \<Rightarrow> ct_PackageID target)"

definition chaincodeStatusMessage :: "ChaincodeStatus \<Rightarrow> string list \<Rightarrow> bool \<Rightarrow> string \<Rightarrow> string" where
  "chaincodeStatusMessage status messages bootstrapped lifecycleMessage =
     (if messages \<noteq> [] then joinWith ''; '' messages
      else if lifecycleMessage \<noteq> [] then lifecycleMessage
      else if ws_Desired (ccs_PackageMetadata status) = 0 then ''No target peers found''
      else if ccs_PackageMetadataReady status \<and> \<not> bootstrapped
      then ''Package metadata generated; waiting for channel bootstrap before lifecycle install''
      else if ccs_Ready status then ''Chaincode committed and workload ready''
      else if ccs_Committed status \<and> \<not> ccs_WorkloadsReady status then ''Chaincode committed; waiting for chaincode workload Deployment''
      else if ccs_ApprovedReady status then ''Chaincode approved; waiting for lifecycle commit Job''
      else if ccs_InstalledReady status \<and> \<not> ccs_WorkloadsReady status
      then ''Chaincode package installed; waiting for chaincode workloads and lifecycle approval Jobs''
      else if ccs_InstalledReady status then ''Chaincode package installed; waiting for lifecycle approval Jobs''
      else if ccs_PackageMetadataReady status \<and> bootstrapped then ''Package metadata generated; waiting for chaincode install Jobs''
      else ''Waiting for package metadata generation'')"

definition allDone :: "WorkloadStatus \<Rightarrow> bool" where
  "allDone w \<longleftrightarrow> ws_Desired w > 0 \<and> ws_Ready w \<ge> ws_Desired w"

definition aggregateStatus :: "ChaincodeStatus \<Rightarrow> ChaincodeStatus" where
  "aggregateStatus status = status\<lparr>ccs_PackageMetadataReady := allDone (ccs_PackageMetadata status),
     ccs_InstalledReady := allDone (ccs_Installed status), ccs_WorkloadsReady := allDone (ccs_Workloads status),
     ccs_ApprovedReady := allDone (ccs_Approved status)\<rparr>"

text \<open>The commit, once every approval is in: the lifecycle message and the status after it.\<close>

definition commitChaincode ::
  "Crypto \<Rightarrow> 's Kube \<Rightarrow> FabricNetwork \<Rightarrow> Channel option \<Rightarrow> Chaincode \<Rightarrow> bool \<Rightarrow> string \<Rightarrow> ChaincodeStatus \<Rightarrow> ('s, string \<times> ChaincodeStatus) io" where
  "commitChaincode cr api net found chaincode configValid lifecycleMessage status =
     (case found of
        Some channel \<Rightarrow>
          if configValid \<and> ccs_ApprovedReady status
          then (let packageID = firstChaincodePackageID (ccs_Targets status) in
                if packageID = [] then ioReturn (''Waiting for chaincode package ID before lifecycle commit'', status)
                else ioBind (reconcileChaincodeCommit cr api net channel chaincode packageID
                         (status\<lparr>ccs_CommitJobName := chaincodeCommitJobName cr chaincode packageID\<rparr>)) (\<lambda>(committed, message, status1).
                       ioReturn (if message \<noteq> [] then message else lifecycleMessage, status1\<lparr>ccs_Committed := committed\<rparr>)))
          else ioReturn (lifecycleMessage, status)
      | None \<Rightarrow> ioReturn (lifecycleMessage, status))"

definition finishChaincode :: "string list \<Rightarrow> bool \<Rightarrow> string \<times> ChaincodeStatus \<Rightarrow> ChaincodeStatus" where
  "finishChaincode messages bootstrapped st =
     (let (lifecycleMessage, status) = st; status1 = status\<lparr>ccs_Ready := ccs_Committed status \<and> ccs_WorkloadsReady status\<rparr>
      in status1\<lparr>ccs_Message := chaincodeStatusMessage status1 messages bootstrapped lifecycleMessage\<rparr>)"

definition collectionStatus :: "Crypto \<Rightarrow> FabricNetwork \<Rightarrow> Channel option \<Rightarrow> Chaincode \<Rightarrow> ChaincodeStatus \<Rightarrow> string + ChaincodeStatus" where
  "collectionStatus cr net found chaincode status =
     (case found of
        Some channel \<Rightarrow>
          if trimSpace (cd_Channel chaincode) \<noteq> [] \<and> cd_PrivateData chaincode \<noteq> []
          then (case renderChaincodeCollectionConfig cr net channel chaincode of
                  Inl e \<Rightarrow> Inl e
                | Inr (_, hash) \<Rightarrow> Inr (status\<lparr>ccs_CollectionConfigMap := chaincodeCollectionConfigMapName chaincode, ccs_CollectionConfigHash := hash\<rparr>))
          else Inr status
      | None \<Rightarrow> Inr status)"

definition reconcileChaincode ::
  "Crypto \<Rightarrow> (bytes \<Rightarrow> bytes) \<Rightarrow> 's Cluster \<Rightarrow> FabricNetwork \<Rightarrow> ChannelStatus list \<Rightarrow> string set \<Rightarrow> Chaincode \<Rightarrow> ('s, ChaincodeStatus) io" where
  "reconcileChaincode cr gz cl net channelStatuses seen chaincode =
     (let messages = chaincodeMessages net seen chaincode; configValid = (messages = []);
          found = map_of (channelsByName net) (cd_Channel chaincode);
          bootstrapped = (trimSpace (cd_Channel chaincode) \<noteq> [] \<and> found \<noteq> None \<and> channelReadyForChaincode channelStatuses (cd_Channel chaincode)) in
      ioBind (liftText (collectionStatus cr net found chaincode (initialChaincodeStatus chaincode))) (\<lambda>status.
      ioBind (case found of
                None \<Rightarrow> ioReturn ([], status, {})
              | Some channel \<Rightarrow> targetLoop cr gz (cl_Kube cl) net channel chaincode configValid bootstrapped (channelTargets channel) ([], status, {}))
        (\<lambda>(lifecycleMessage, status1, desiredWorkloads).
      ioBind (cleanupRemovedChaincodeWorkloads cl net chaincode (found \<noteq> None \<and> configValid) desiredWorkloads) (\<lambda>_.
      ioBind (commitChaincode cr (cl_Kube cl) net found chaincode configValid lifecycleMessage (aggregateStatus status1)) (\<lambda>st.
        ioReturn (finishChaincode messages bootstrapped st))))))"

fun chaincodeLoopIO ::
  "Crypto \<Rightarrow> (bytes \<Rightarrow> bytes) \<Rightarrow> 's Cluster \<Rightarrow> FabricNetwork \<Rightarrow> ChannelStatus list \<Rightarrow> string set \<Rightarrow> ChaincodeStatus list \<Rightarrow> Chaincode list \<Rightarrow>
   ('s, ChaincodeStatus) stage" where
  "chaincodeLoopIO cr gz cl net channelStatuses seen statuses [] s = ((statuses, None), s)"
| "chaincodeLoopIO cr gz cl net channelStatuses seen statuses (chaincode # chaincodes) s =
     (case reconcileChaincode cr gz cl net channelStatuses seen chaincode s of
        (Inl e, s1) \<Rightarrow> ((statuses, Some e), s1)
      | (Inr status, s1) \<Rightarrow>
          chaincodeLoopIO cr gz cl net channelStatuses (insert (chaincodeKey chaincode) seen) (statuses @ [status]) chaincodes s1)"

definition reconcileChaincodes ::
  "Crypto \<Rightarrow> (bytes \<Rightarrow> bytes) \<Rightarrow> 's Cluster \<Rightarrow> FabricNetwork \<Rightarrow> ChannelStatus list \<Rightarrow> ('s, ChaincodeStatus) stage" where
  "reconcileChaincodes cr gz cl net channelStatuses = chaincodeLoopIO cr gz cl net channelStatuses {} [] (sp_Chaincodes (fn_Spec net))"

end
