(* ===== verification/Chaincode_Evidence.thy ===== *)
theory Chaincode_Evidence
  imports Chaincodes Channel_Ready
begin

text \<open>
  What the status of a chaincode rests on: like the channel stage, the chaincode stage keeps what the
  calls of the cluster keep, and a chaincode that is reported ready has in the same run been seen as
  approved by every organization, committed, and running.
\<close>

section \<open>What the calls of the cluster keep, the chaincode stage keeps\<close>

lemma keeps_lift [simp]: "ioKeeps Q (liftText r)"
  by (cases r) (auto simp: liftText_def)

lemma keeps_workload:
  assumes "apiKeeps Q cl"
  shows "ioKeeps Q (ensureChaincodeWorkload (cl_Kube cl) net chaincode org peer cid)"
    "ioKeeps Q (chaincodeWorkloadReadiness (cl_Kube cl) ns n)"
    "ioKeeps Q (ensureChaincodeInstallRBAC (cl_Kube cl) net org chaincode peer)"
    "ioKeeps Q (ensureCommitRBAC (cl_Kube cl) net chaincode org ns)"
    "ioKeeps Q (cleanupRemovedChaincodeWorkloads cl net chaincode enabled desired)"
proof -
  note writes = keeps_createOrUpdate [OF assms]
  show "ioKeeps Q (ensureChaincodeWorkload (cl_Kube cl) net chaincode org peer cid)"
    "ioKeeps Q (ensureChaincodeInstallRBAC (cl_Kube cl) net org chaincode peer)"
    "ioKeeps Q (ensureCommitRBAC (cl_Kube cl) net chaincode org ns)"
    unfolding ensureChaincodeWorkload_def ensureChaincodeInstallRBAC_def ensureCommitRBAC_def ensure_defs Let_def
    by (auto intro!: ioKeeps_bind writes split: prod.splits)
  have status: "ioKeeps Q (deploymentWorkloadStatus (cl_Kube cl) ns n)"
    unfolding deploymentWorkloadStatus_def by (auto intro!: ioKeeps_bind keeps_reads [OF assms])
  show "ioKeeps Q (chaincodeWorkloadReadiness (cl_Kube cl) ns n)"
    unfolding ioKeeps_def chaincodeWorkloadReadiness_def
    using ioKeepsD [OF status] by (fastforce split: prod.splits sum.splits ApiError.splits)
  show "ioKeeps Q (cleanupRemovedChaincodeWorkloads cl net chaincode enabled desired)"
    unfolding cleanupRemovedChaincodeWorkloads_def cleanupOrgChaincode_def deleteUndesiredChaincode_def Let_def
    by (auto intro!: ioKeeps_bind ioKeeps_seq apiKeepsD [OF assms] keeps_delete [OF assms])
qed

lemma keeps_chaincodeLifecycle:
  assumes "apiKeeps Q cl"
  shows "ioKeeps Q (lifecycleReadiness (cl_Kube cl) ns n job key sequence operation failure)"
    "ioKeeps Q (chaincodeInstallReadiness (cl_Kube cl) ns n job)"
    "ioKeeps Q (ensureChaincodeApproveInputs cr (cl_Kube cl) net channel chaincode org ns orderer)"
    "ioKeeps Q (ensureChaincodeCommitInputs cr (cl_Kube cl) net channel chaincode org ns orderer peers)"
    "ioKeeps Q (externalChaincodeLifecyclePeers cr (cl_Kube cl) net externals)"
    "ioKeeps Q (ensureCollections cr (cl_Kube cl) net channel chaincode org)"
proof -
  note calls = keeps_calls [OF assms] keeps_copies [OF assms] keeps_updates(1) [OF assms]
  show "ioKeeps Q (lifecycleReadiness (cl_Kube cl) ns n job key sequence operation failure)"
    unfolding lifecycleReadiness_def chaincodeLifecycleResultReadiness_def by (auto intro!: ioKeeps_bind calls split: prod.splits)
  show "ioKeeps Q (chaincodeInstallReadiness (cl_Kube cl) ns n job)"
    unfolding chaincodeInstallReadiness_def by (auto intro!: ioKeeps_bind calls split: option.splits)
  show collections: "ioKeeps Q (ensureCollections cr (cl_Kube cl) net channel chaincode org)" for org
    unfolding ensureCollections_def by (auto intro!: ioKeeps_bind calls split: prod.splits)
  show "ioKeeps Q (ensureChaincodeApproveInputs cr (cl_Kube cl) net channel chaincode org ns orderer)"
    unfolding ensureChaincodeApproveInputs_def by (auto intro!: ioKeeps_bind calls collections)
  show "ioKeeps Q (ensureChaincodeCommitInputs cr (cl_Kube cl) net channel chaincode org ns orderer peers)"
    unfolding ensureChaincodeCommitInputs_def ensurePeerTLS_def Let_def by (auto intro!: ioKeeps_bind ioKeeps_seq calls collections)
  show "ioKeeps Q (externalChaincodeLifecyclePeers cr (cl_Kube cl) net externals)"
    by (induction externals) (auto intro!: ioKeeps_bind calls split: sum.splits)
qed

lemma keeps_target:
  assumes "apiKeeps Q cl"
  shows "ioKeeps Q (runTarget (cl_Kube cl) net chaincode org peer status target)"
    "ioKeeps Q (approveTarget cr (cl_Kube cl) net channel chaincode org peer message status target)"
    "ioKeeps Q (reconcileTarget cr gz (cl_Kube cl) net channel chaincode valid ready channelOrg peer st)"
    "ioKeeps Q (targetLoop cr gz (cl_Kube cl) net channel chaincode valid ready targets st)"
    "ioKeeps Q (reconcileChaincodeCommit cr (cl_Kube cl) net channel chaincode pid status)"
proof -
  note calls = keeps_calls [OF assms] keeps_workload [OF assms] keeps_chaincodeLifecycle [OF assms]
  show run: "ioKeeps Q (runTarget (cl_Kube cl) net chaincode org peer status target)" for org peer status target
    unfolding runTarget_def by (auto intro!: ioKeeps_bind calls split: prod.splits)
  show approve: "ioKeeps Q (approveTarget cr (cl_Kube cl) net channel chaincode org peer message status target)" for org peer message status target
    unfolding approveTarget_def chaincodeApproveReadiness_def Let_def by (auto intro!: ioKeeps_bind calls split: option.splits prod.splits)
  show one: "ioKeeps Q (reconcileTarget cr gz (cl_Kube cl) net channel chaincode valid ready channelOrg peer st)" for channelOrg peer st
    unfolding reconcileTarget_def packageTarget_def installTarget_def Let_def
    by (auto intro!: ioKeeps_bind calls run approve split: option.splits prod.splits)
  show "ioKeeps Q (targetLoop cr gz (cl_Kube cl) net channel chaincode valid ready targets st)"
    by (induction targets arbitrary: st) (auto intro!: ioKeeps_bind one)
  show "ioKeeps Q (reconcileChaincodeCommit cr (cl_Kube cl) net channel chaincode pid status)"
    unfolding reconcileChaincodeCommit_def chaincodeCommitReadiness_def Let_def
    by (auto intro!: ioKeeps_bind calls split: option.splits list.splits prod.splits)
qed

lemma keeps_chaincode:
  assumes "apiKeeps Q cl"
  shows "ioKeeps Q (reconcileChaincode cr gz cl net channels seen chaincode)"
  unfolding reconcileChaincode_def commitChaincode_def Let_def
  by (auto intro!: ioKeeps_bind keeps_workload [OF assms] keeps_target [OF assms] split: option.splits prod.splits)

lemma keeps_chaincodes:
  assumes "apiKeeps Q cl" and "Q s"
  shows "Q (snd (reconcileChaincodes cr gz cl net channels s))"
proof -
  have "Q (snd (chaincodeLoopIO cr gz cl net channels seen statuses chaincodes s))" for seen statuses chaincodes
    using assms(2)
  proof (induction chaincodes arbitrary: seen statuses s)
    case (Cons chaincode chaincodes)
    from ioKeepsD [OF keeps_chaincode [OF assms(1)] Cons.prems, of cr gz net channels seen chaincode] Cons.IH
    show ?case by (auto split: prod.splits sum.splits)
  qed simp
  then show ?thesis by (simp add: reconcileChaincodes_def)
qed

section \<open>Evidence\<close>

type_synonym seen = "(objkey \<times> KObject) set"

definition packageSeen :: "seen \<Rightarrow> string \<Rightarrow> string \<Rightarrow> string \<Rightarrow> bool" where
  "packageSeen seen ns name packageID \<longleftrightarrow>
     packageID \<noteq> [] \<and> (\<exists>c. ((KConfigMap, ns, name), OConfigMap c) \<in> seen \<and> trimSpace (go_get (cm_Data c) chaincodePackageIDKey) = packageID)"

definition sequenceSeen :: "seen \<Rightarrow> string \<Rightarrow> string \<Rightarrow> string \<Rightarrow> int \<Rightarrow> bool" where
  "sequenceSeen seen ns name key sequence \<longleftrightarrow>
     (\<exists>c. ((KConfigMap, ns, name), OConfigMap c) \<in> seen \<and> chaincodeLifecycleResultSequenceMatches (trimSpace (go_get (cm_Data c) key)) sequence)"

definition replicasSeen :: "seen \<Rightarrow> string \<Rightarrow> string \<Rightarrow> int \<Rightarrow> bool" where
  "replicasSeen seen ns name n \<longleftrightarrow> (\<exists>d. ((KDeployment, ns, name), ODeployment d) \<in> seen \<and> ws_Ready (workloadStatusOf d) = n)"

lemma seen_mono:
  "seen \<subseteq> seen' \<Longrightarrow> packageSeen seen ns n p \<Longrightarrow> packageSeen seen' ns n p"
  "seen \<subseteq> seen' \<Longrightarrow> sequenceSeen seen ns n k q \<Longrightarrow> sequenceSeen seen' ns n k q"
  "seen \<subseteq> seen' \<Longrightarrow> replicasSeen seen ns n r \<Longrightarrow> replicasSeen seen' ns n r"
  unfolding packageSeen_def sequenceSeen_def replicasSeen_def by blast+

text \<open>The peers a chaincode is deployed to: members of the network with a declared peer.\<close>

definition targetOrg :: "FabricNetwork \<Rightarrow> ChannelOrg \<times> string \<Rightarrow> Org option" where
  "targetOrg net t = Option.bind (map_of (orgsByName net) (co_Name (fst t))) (\<lambda>org. if peerDeclared org (snd t) then Some org else None)"

definition approves :: "FabricNetwork \<Rightarrow> Channel \<Rightarrow> ChannelOrg \<times> string \<Rightarrow> bool" where
  "approves net channel t \<longleftrightarrow> targetOrg net t \<noteq> None \<and> go_get (chaincodeApprovalPeers channel) (co_Name (fst t)) = snd t"

definition approvalSeen :: "Crypto \<Rightarrow> FabricNetwork \<Rightarrow> Chaincode \<Rightarrow> seen \<Rightarrow> Org \<Rightarrow> string \<Rightarrow> bool" where
  "approvalSeen cr net chaincode seen org peerName \<longleftrightarrow>
     (\<exists>packageID. packageSeen seen (orgNamespaceName net org) (chaincodePackageIDConfigMapName chaincode org peerName) packageID \<and>
        sequenceSeen seen (orgNamespaceName net org) (chaincodeApproveResultConfigMapName cr chaincode org packageID) chaincodeQueryApprovedKey
          (chaincodeSequence chaincode))"

definition targetApproved :: "Crypto \<Rightarrow> FabricNetwork \<Rightarrow> Chaincode \<Rightarrow> seen \<Rightarrow> ChannelOrg \<times> string \<Rightarrow> bool" where
  "targetApproved cr net chaincode seen t \<longleftrightarrow> (\<forall>org. targetOrg net t = Some org \<longrightarrow> approvalSeen cr net chaincode seen org (snd t))"

definition targetRuns :: "FabricNetwork \<Rightarrow> Chaincode \<Rightarrow> seen \<Rightarrow> (ChannelOrg \<times> string) \<times> int \<Rightarrow> bool" where
  "targetRuns net chaincode seen tr \<longleftrightarrow>
     (\<forall>org. targetOrg net (fst tr) = Some org \<longrightarrow> snd tr \<noteq> 0 \<longrightarrow>
        replicasSeen seen (orgNamespaceName net org) (chaincodeServiceName chaincode org (snd (fst tr))) (snd tr))"

definition deployable :: "FabricNetwork \<Rightarrow> (ChannelOrg \<times> string) list \<Rightarrow> (ChannelOrg \<times> string) list" where
  "deployable net ts = filter (\<lambda>t. targetOrg net t \<noteq> None) ts"

definition int32Sum :: "int list \<Rightarrow> int" where
  "int32Sum ns = foldl (\<lambda>n k. int32_of (n + k)) 0 ns"

lemma approvalSeenI:
  "packageSeen seen (orgNamespaceName net org) (chaincodePackageIDConfigMapName chaincode org peerName) packageID \<Longrightarrow>
   sequenceSeen seen (orgNamespaceName net org) (chaincodeApproveResultConfigMapName cr chaincode org packageID) chaincodeQueryApprovedKey
     (chaincodeSequence chaincode) \<Longrightarrow> approvalSeen cr net chaincode seen org peerName"
  unfolding approvalSeen_def by blast

lemma approvalSeen_mono: "seen \<subseteq> seen' \<Longrightarrow> approvalSeen cr net chaincode seen org p \<Longrightarrow> approvalSeen cr net chaincode seen' org p"
  unfolding approvalSeen_def by (elim exE conjE) (intro exI conjI; erule (1) seen_mono(1) seen_mono(2))

lemma targetApproved_mono: "seen \<subseteq> seen' \<Longrightarrow> targetApproved cr net chaincode seen t \<Longrightarrow> targetApproved cr net chaincode seen' t"
  unfolding targetApproved_def by (intro allI impI) (rule approvalSeen_mono, assumption, blast)

lemma targetRuns_mono: "seen \<subseteq> seen' \<Longrightarrow> targetRuns net chaincode seen tr \<Longrightarrow> targetRuns net chaincode seen' tr"
  unfolding targetRuns_def by (intro allI impI) (rule seen_mono(3), assumption, blast)

lemma int32Sum_snoc [simp]: "int32Sum (ns @ [k]) = int32_of (int32Sum ns + k)"
  by (simp add: int32Sum_def)

lemma int32_idem [simp]: "int32_of (int32_of n) = int32_of n"
  using int32_of_range [of n] by (simp add: int32_of_id)

lemma int32Sum_range [simp]: "int32_of (int32Sum ns) = int32Sum ns"
  by (cases ns rule: rev_cases) (simp_all add: int32Sum_def int32_of_def)

text \<open>What the status says after the targets \<open>ts\<close>: who has approved, what runs, where packages are installed.\<close>

definition approvalsSay :: "Crypto \<Rightarrow> FabricNetwork \<Rightarrow> Channel \<Rightarrow> Chaincode \<Rightarrow> bool \<Rightarrow> (ChannelOrg \<times> string) list \<Rightarrow> ChaincodeStatus \<Rightarrow> seen \<Rightarrow> bool" where
  "approvalsSay cr net channel chaincode bootstrapped ts status seen \<longleftrightarrow>
     (let w = ccs_Approved status; as = (if bootstrapped then filter (approves net channel) ts else [])
      in ws_Desired w = int (length as) \<and> 0 \<le> ws_Ready w \<and> ws_Ready w \<le> ws_Desired w \<and>
         (ws_Ready w = ws_Desired w \<longrightarrow> (\<forall>t \<in> set as. targetApproved cr net chaincode seen t)))"

definition workloadsSay :: "FabricNetwork \<Rightarrow> Chaincode \<Rightarrow> (ChannelOrg \<times> string) list \<Rightarrow> ChaincodeStatus \<Rightarrow> seen \<Rightarrow> bool" where
  "workloadsSay net chaincode ts status seen \<longleftrightarrow>
     (let ds = deployable net ts; w = ccs_Workloads status
      in ws_Desired w = int32Sum (map (\<lambda>_. chaincodeReplicas chaincode) ds) \<and>
         (\<exists>rs. length rs = length ds \<and> ws_Ready w = int32Sum rs \<and> (\<forall>tr \<in> set (zip ds rs). targetRuns net chaincode seen tr)))"

definition packagesSay :: "FabricNetwork \<Rightarrow> Chaincode \<Rightarrow> (ChannelOrg \<times> string) list \<Rightarrow> ChaincodeStatus \<Rightarrow> seen \<Rightarrow> bool" where
  "packagesSay net chaincode ts status seen \<longleftrightarrow>
     (\<forall>target \<in> set (ccs_Targets status). ct_PackageID target \<noteq> [] \<longrightarrow>
        (\<exists>t \<in> set (deployable net ts). \<exists>org. targetOrg net t = Some org \<and>
           packageSeen seen (orgNamespaceName net org) (chaincodePackageIDConfigMapName chaincode org (snd t)) (ct_PackageID target)))"

definition targetsSay :: "Crypto \<Rightarrow> FabricNetwork \<Rightarrow> Channel \<Rightarrow> Chaincode \<Rightarrow> bool \<Rightarrow> (ChannelOrg \<times> string) list \<Rightarrow> ChaincodeStatus \<Rightarrow> seen \<Rightarrow> bool" where
  "targetsSay cr net channel chaincode bootstrapped ts status seen \<longleftrightarrow>
     approvalsSay cr net channel chaincode bootstrapped ts status seen \<and> workloadsSay net chaincode ts status seen \<and>
     packagesSay net chaincode ts status seen"

lemma targetsSay_mono:
  assumes "seen \<subseteq> seen'" "targetsSay cr net channel chaincode bootstrapped ts status seen"
  shows "targetsSay cr net channel chaincode bootstrapped ts status seen'"
proof -
  have "approvalsSay cr net channel chaincode bootstrapped ts status seen'"
    using assms targetApproved_mono [OF assms(1)] by (simp add: targetsSay_def approvalsSay_def Let_def)
  moreover have "workloadsSay net chaincode ts status seen'"
    using assms(2) targetRuns_mono [OF assms(1)] unfolding targetsSay_def workloadsSay_def Let_def by metis
  moreover have "packagesSay net chaincode ts status seen'"
    using assms(2) seen_mono(1) [OF assms(1)] unfolding targetsSay_def packagesSay_def by metis
  ultimately show ?thesis by (simp add: targetsSay_def)
qed

definition targetAdds ::
  "Crypto \<Rightarrow> FabricNetwork \<Rightarrow> Channel \<Rightarrow> Chaincode \<Rightarrow> bool \<Rightarrow> ChannelOrg \<Rightarrow> Org \<Rightarrow> string \<Rightarrow> ChaincodeStatus \<Rightarrow>
   ChaincodeStatus \<times> ChaincodeTargetStatus \<Rightarrow> seen \<Rightarrow> bool" where
  "targetAdds cr net channel chaincode bootstrapped channelOrg org peer status r seen \<longleftrightarrow>
     ccs_Targets (fst r) = ccs_Targets status \<and>
     ws_Desired (ccs_Workloads (fst r)) = int32_of (ws_Desired (ccs_Workloads status) + chaincodeReplicas chaincode) \<and>
     (\<exists>n. ws_Ready (ccs_Workloads (fst r)) = int32_of (ws_Ready (ccs_Workloads status) + n) \<and>
        (n \<noteq> 0 \<longrightarrow> replicasSeen seen (orgNamespaceName net org) (chaincodeServiceName chaincode org peer) n)) \<and>
     (ct_PackageID (snd r) \<noteq> [] \<longrightarrow>
        packageSeen seen (orgNamespaceName net org) (chaincodePackageIDConfigMapName chaincode org peer) (ct_PackageID (snd r))) \<and>
     (if bootstrapped \<and> go_get (chaincodeApprovalPeers channel) (co_Name channelOrg) = peer
      then ws_Desired (ccs_Approved (fst r)) = int32_of (ws_Desired (ccs_Approved status) + 1) \<and>
        (ws_Ready (ccs_Approved (fst r)) = ws_Ready (ccs_Approved status) \<or>
         ws_Ready (ccs_Approved (fst r)) = int32_of (ws_Ready (ccs_Approved status) + 1) \<and> approvalSeen cr net chaincode seen org peer)
      else ccs_Approved (fst r) = ccs_Approved status)"

lemma targetAdds_mono:
  assumes "seen \<subseteq> seen'" "targetAdds cr net channel chaincode bootstrapped channelOrg org peer status r seen"
  shows "targetAdds cr net channel chaincode bootstrapped channelOrg org peer status r seen'"
proof -
  note mono = seen_mono(1) [OF assms(1)] seen_mono(3) [OF assms(1)] approvalSeen_mono [OF assms(1)]
  from assms(2) obtain n where "ws_Ready (ccs_Workloads (fst r)) = int32_of (ws_Ready (ccs_Workloads status) + n)"
      "n \<noteq> 0 \<longrightarrow> replicasSeen seen (orgNamespaceName net org) (chaincodeServiceName chaincode org peer) n"
    by (auto simp: targetAdds_def)
  with assms(2) mono show ?thesis by (auto simp: targetAdds_def intro!: exI [of _ n])
qed

lemma knownTarget_simps [simp]:
  "ct_Namespace (knownTarget net chaincode name org peer) = orgNamespaceName net org"
  "ct_WorkloadName (knownTarget net chaincode name org peer) = chaincodeServiceName chaincode org peer"
  "ct_PackageIDConfigMapName (knownTarget net chaincode name org peer) = chaincodePackageIDConfigMapName chaincode org peer"
  "ct_PackageID (knownTarget net chaincode name org peer) = []"
  "ws_Desired (ct_Workload (knownTarget net chaincode name org peer)) = chaincodeReplicas chaincode"
  by (simp_all add: knownTarget_def newTarget_def Let_def)

lemma int32_count: "0 \<le> n \<Longrightarrow> n < 2 ^ 31 - 1 \<Longrightarrow> int32_of (n + 1) = n + 1"
  by (rule int32_of_id) auto

lemma targetsSay_add:
  assumes say: "targetsSay cr net channel chaincode bootstrapped ts status seen" and org: "targetOrg net (channelOrg, peer) = Some org"
    and adds: "targetAdds cr net channel chaincode bootstrapped channelOrg org peer status r seen" and len: "int (length ts) < 2 ^ 31 - 1"
  shows "targetsSay cr net channel chaincode bootstrapped (ts @ [(channelOrg, peer)]) (addTarget (fst r) (snd r)) seen"
proof -
  let ?t = "(channelOrg, peer)" and ?as = "if bootstrapped then filter (approves net channel) ts else []"
  have d: "deployable net (ts @ [?t]) = deployable net ts @ [?t]" by (simp add: deployable_def org)
  have "int (length ?as) \<le> int (length ts)" by simp
  then have bound: "int (length ?as) < 2 ^ 31 - 1" using len by linarith
  have "approvalsSay cr net channel chaincode bootstrapped (ts @ [?t]) (addTarget (fst r) (snd r)) seen"
  proof (cases "bootstrapped \<and> approves net channel ?t")
    case True
    then have peer: "go_get (chaincodeApprovalPeers channel) (co_Name channelOrg) = peer" by (simp add: approves_def)
    let ?d = "ws_Desired (ccs_Approved status)" and ?r = "ws_Ready (ccs_Approved status)"
    have old: "?d = int (length ?as)" "0 \<le> ?r" "?r \<le> ?d" "?r = ?d \<longrightarrow> (\<forall>t \<in> set ?as. targetApproved cr net chaincode seen t)"
      using say by (simp_all add: targetsSay_def approvalsSay_def Let_def)
    have step: "int32_of (?d + 1) = ?d + 1" "int32_of (?r + 1) = ?r + 1" using old(1-3) bound by (simp_all add: int32_count)
    have new: "ws_Desired (ccs_Approved (fst r)) = ?d + 1"
      "ws_Ready (ccs_Approved (fst r)) = ?r \<or> ws_Ready (ccs_Approved (fst r)) = ?r + 1 \<and> targetApproved cr net chaincode seen ?t"
      using adds True peer step org by (auto simp: targetAdds_def targetApproved_def)
    show ?thesis unfolding approvalsSay_def Let_def using old new True by (auto simp: addTarget_def)
  next
    case False
    then have "\<not> (bootstrapped \<and> go_get (chaincodeApprovalPeers channel) (co_Name channelOrg) = peer)" by (auto simp: approves_def org)
    with say adds False show ?thesis
      by (cases bootstrapped) (simp_all add: targetsSay_def approvalsSay_def targetAdds_def addTarget_def)
  qed
  moreover have "workloadsSay net chaincode (ts @ [?t]) (addTarget (fst r) (snd r)) seen"
  proof -
    from say obtain rs where rs: "length rs = length (deployable net ts)" "ws_Ready (ccs_Workloads status) = int32Sum rs"
        "\<forall>tr \<in> set (zip (deployable net ts) rs). targetRuns net chaincode seen tr"
        "ws_Desired (ccs_Workloads status) = int32Sum (map (\<lambda>_. chaincodeReplicas chaincode) (deployable net ts))"
      by (auto simp: targetsSay_def workloadsSay_def Let_def)
    from adds obtain n where n: "ws_Ready (ccs_Workloads (fst r)) = int32_of (ws_Ready (ccs_Workloads status) + n)"
        "n \<noteq> 0 \<longrightarrow> replicasSeen seen (orgNamespaceName net org) (chaincodeServiceName chaincode org peer) n"
      by (auto simp: targetAdds_def)
    show ?thesis unfolding workloadsSay_def Let_def d
      by (intro conjI exI [of _ "rs @ [n]"]) (use rs n adds org in \<open>auto simp: targetAdds_def addTarget_def targetRuns_def\<close>)
  qed
  moreover have "packagesSay net chaincode (ts @ [?t]) (addTarget (fst r) (snd r)) seen"
    using say adds org unfolding targetsSay_def packagesSay_def d by (auto simp: targetAdds_def addTarget_def)
  ultimately show ?thesis by (simp add: targetsSay_def)
qed

lemma targetsSay_skip:
  assumes "targetsSay cr net channel chaincode bootstrapped ts status seen" and "targetOrg net t = None" and "ct_PackageID target = []"
    and "ccs_Approved status' = ccs_Approved status" "ccs_Workloads status' = ccs_Workloads status" "ccs_Targets status' = ccs_Targets status"
  shows "targetsSay cr net channel chaincode bootstrapped (ts @ [t]) (addTarget status' target) seen"
  using assms by (auto simp: targetsSay_def approvalsSay_def workloadsSay_def packagesSay_def deployable_def approves_def addTarget_def Let_def)

lemma ready_added:
  assumes "r \<noteq> 0 \<longrightarrow> replicasSeen seen ns n r" "seen \<subseteq> seen'"
  shows "\<exists>k. int32_of (w + r) = int32_of (w + k) \<and> (k \<noteq> 0 \<longrightarrow> replicasSeen seen' ns n k)"
  using assms seen_mono(3) [OF assms(2)] by blast

definition commitSeen :: "Crypto \<Rightarrow> FabricNetwork \<Rightarrow> Chaincode \<Rightarrow> (ChannelOrg \<times> string) list \<Rightarrow> ChaincodeStatus \<Rightarrow> seen \<Rightarrow> bool" where
  "commitSeen cr net chaincode ts status seen \<longleftrightarrow>
     (\<exists>packageID. \<exists>t \<in> set (deployable net ts). \<exists>org. targetOrg net t = Some org \<and>
        packageSeen seen (orgNamespaceName net org) (chaincodePackageIDConfigMapName chaincode org (snd t)) packageID \<and>
        ccs_CommitResultConfigMapName status = chaincodeCommitResultConfigMapName cr chaincode packageID) \<and>
     sequenceSeen seen (ccs_CommitResultNamespace status) (ccs_CommitResultConfigMapName status) chaincodeQueryCommittedKey (chaincodeSequence chaincode)"

lemma firstChaincodePackageID_listed:
  assumes "firstChaincodePackageID targets \<noteq> []"
  shows "\<exists>target \<in> set targets. ct_PackageID target = firstChaincodePackageID targets"
proof (cases "List.find (\<lambda>target. trimSpace (ct_PackageID target) \<noteq> []) targets")
  case (Some target)
  then have "target \<in> set targets" by (auto simp: find_Some_iff)
  with Some show ?thesis by (auto simp: firstChaincodePackageID_def)
qed (use assms in \<open>simp add: firstChaincodePackageID_def\<close>)

lemma commitSeen_mono:
  assumes "seen \<subseteq> seen'" "commitSeen cr net chaincode ts status seen"
  shows "commitSeen cr net chaincode ts status seen'"
  using assms(2) seen_mono(1,2) [OF assms(1)] unfolding commitSeen_def by metis

lemma commitSeen_finish [simp]:
  "commitSeen cr net chaincode ts (finishChaincode messages bootstrapped st) seen = commitSeen cr net chaincode ts (snd st) seen"
  by (cases st) (simp add: commitSeen_def finishChaincode_def Let_def)

text \<open>
  The evidence for a chaincode: its channel is ready; every organization approves through its first
  peer, which has the package installed and a result of this sequence; a result of this sequence for a
  package installed on some peer says that the definition is committed; and the ready replicas that
  were read add up to what is desired.
\<close>

definition chaincodeEvidence :: "Crypto \<Rightarrow> FabricNetwork \<Rightarrow> ChannelStatus list \<Rightarrow> Chaincode \<Rightarrow> ChaincodeStatus \<Rightarrow> seen \<Rightarrow> bool" where
  "chaincodeEvidence cr net channelStatuses chaincode status seen \<longleftrightarrow>
     channelReadyForChaincode channelStatuses (cd_Channel chaincode) \<and>
     (\<exists>channel. map_of (channelsByName net) (cd_Channel chaincode) = Some channel \<and>
        (\<exists>t \<in> set (channelTargets channel). approves net channel t) \<and>
        (\<forall>t \<in> set (channelTargets channel). approves net channel t \<longrightarrow> targetApproved cr net chaincode seen t) \<and>
        commitSeen cr net chaincode (channelTargets channel) status seen \<and>
        (\<exists>rs. length rs = length (deployable net (channelTargets channel)) \<and>
           int32Sum rs \<ge> int32Sum (map (\<lambda>_. chaincodeReplicas chaincode) (deployable net (channelTargets channel))) \<and>
           (\<forall>tr \<in> set (zip (deployable net (channelTargets channel)) rs). targetRuns net chaincode seen tr)))"

lemma chaincodeEvidence_mono:
  assumes "seen \<subseteq> seen'" "chaincodeEvidence cr net channelStatuses chaincode status seen"
  shows "chaincodeEvidence cr net channelStatuses chaincode status seen'"
  using assms(2) targetApproved_mono [OF assms(1)] commitSeen_mono [OF assms(1)] targetRuns_mono [OF assms(1)]
  unfolding chaincodeEvidence_def by metis

lemma chaincodeEvidenceI:
  assumes "map_of (channelsByName net) (cd_Channel chaincode) = Some channel"
    and "targetsSay cr net channel chaincode boot (channelTargets channel) status0 seen"
    and "boot \<longleftrightarrow> b1 \<and> b2 \<and> channelReadyForChaincode channelStatuses (cd_Channel chaincode)"
    and "allDone (ccs_Approved status0)" "allDone (ccs_Workloads status0)" "commitSeen cr net chaincode (channelTargets channel) status seen"
  shows "chaincodeEvidence cr net channelStatuses chaincode status seen"
proof -
  have as: "boot" "filter (approves net channel) (channelTargets channel) \<noteq> []"
      "\<forall>t \<in> set (channelTargets channel). approves net channel t \<longrightarrow> targetApproved cr net chaincode seen t"
    using assms(2,4) by (auto simp: targetsSay_def approvalsSay_def allDone_def Let_def split: if_splits)
  then have "\<exists>t \<in> set (channelTargets channel). approves net channel t" by (auto simp: filter_empty_conv)
  moreover obtain rs where "length rs = length (deployable net (channelTargets channel))"
      "int32Sum rs \<ge> int32Sum (map (\<lambda>_. chaincodeReplicas chaincode) (deployable net (channelTargets channel)))"
      "\<forall>tr \<in> set (zip (deployable net (channelTargets channel)) rs). targetRuns net chaincode seen tr"
    using assms(2,5) by (auto simp: targetsSay_def workloadsSay_def allDone_def Let_def)
  ultimately show ?thesis using assms(1,3,6) as unfolding chaincodeEvidence_def by metis
qed

lemma channelsByName_Some:
  assumes "map_of (channelsByName net) name = Some channel"
  shows "channel \<in> set (sp_Channels (fn_Spec net))"
proof -
  have "\<forall>k c. map_of (foldl (\<lambda>m channel. go_set m (ch_Name channel) channel) m cs) k = Some c \<longrightarrow> c \<in> set cs \<or> map_of m k = Some c"
    for cs and m :: "(string, Channel) gomap"
  proof (induction cs arbitrary: m)
    case (Cons a cs)
    from Cons.IH [of "go_set m (ch_Name a) a"] show ?case by (auto split: if_splits)
  qed simp
  with assms show ?thesis unfolding channelsByName_def by fastforce
qed

text \<open>Only the commit marks a chaincode as committed.\<close>

lemma gives_target:
  "gives (reconcileTarget cr gz api net channel chaincode valid bootstrapped channelOrg peer (message, status, desired))
     (\<lambda>r. ccs_Committed (fst (snd r)) = ccs_Committed status)"
proof -
  have run: "gives (runTarget api net chaincode org peer status target) (\<lambda>r. ccs_Committed (fst r) = ccs_Committed status)" for org status target
    unfolding runTarget_def by (auto intro!: gives_bind_any split: prod.splits)
  have approve: "gives (approveTarget cr api net channel chaincode org peer message status target)
      (\<lambda>r. ccs_Committed (fst (snd r)) = ccs_Committed status)" for org message status target
    unfolding approveTarget_def Let_def by (auto intro!: gives_bind_any split: prod.splits option.splits)
  have install: "gives (installTarget cr api net channel chaincode channelOrg org peer message status target)
      (\<lambda>r. ccs_Committed (fst (snd r)) = ccs_Committed status)" for org message status target
    unfolding installTarget_def
  proof (rule gives_bind_any, rule gives_bind_any, goal_cases)
    case (1 a b)
    obtain i p c m where b: "b = (i, p, c, m)" by (cases b)
    show ?case unfolding b prod.case
    proof (rule gives_bind [OF run], goal_cases)
      case (1 a)
      then show ?case using approve [of org message "fst a" "snd a"] by (auto split: prod.splits)
    qed
  qed
  have package: "gives (packageTarget cr gz api net channel chaincode bootstrapped channelOrg org peer message status target)
      (\<lambda>r. ccs_Committed (fst (snd r)) = ccs_Committed status)" for org message status target
    unfolding packageTarget_def Let_def by (auto intro!: gives_bind_any) (use install in \<open>fastforce simp: gives_def\<close>)
  show ?thesis unfolding reconcileTarget_def Let_def prod.case
    by (auto simp: addTarget_def intro!: gives_bind [OF package] split: option.splits prod.splits)
qed

lemma gives_targets:
  "gives (targetLoop cr gz api net channel chaincode valid bootstrapped targets st) (\<lambda>r. ccs_Committed (fst (snd r)) = ccs_Committed (fst (snd st)))"
proof (induction targets arbitrary: st)
  case (Cons t targets)
  obtain channelOrg peer message status desired where t: "t = (channelOrg, peer)" "st = (message, status, desired)" by (metis prod.exhaust)
  have "gives (targetLoop cr gz api net channel chaincode valid bootstrapped targets st1) (\<lambda>r. ccs_Committed (fst (snd r)) = ccs_Committed status)"
    if "ccs_Committed (fst (snd st1)) = ccs_Committed status" for st1
    using Cons.IH [of st1] that by simp
  then show ?case unfolding t targetLoop.simps by (intro gives_bind [OF gives_target]) simp
qed simp

context observed
begin

lemma sees_install:
  "sees known (chaincodeInstallReadiness (cl_Kube cl) ns n job)
     (\<lambda>(installed, packageID, _) seen. (installed \<longrightarrow> packageSeen seen ns n packageID) \<and> (\<not> installed \<longrightarrow> packageID = []))"
  unfolding chaincodeInstallReadiness_def
proof (rule sees_bind [OF sees_getConfigMap])
  fix found known'
  assume "\<forall>c. found = Some c \<longrightarrow> ((KConfigMap, ns, n), OConfigMap c) \<in> known'"
  then show "sees known' (case found of Some result \<Rightarrow> ioReturn (installVerdict result)
      | None \<Rightarrow> ioBind (getJob (cl_Kube cl) ns job) (\<lambda>job. ioReturn (False, [], [], installJobMessage job)))
     (\<lambda>(installed, packageID, _) seen. (installed \<longrightarrow> packageSeen seen ns n packageID) \<and> (\<not> installed \<longrightarrow> packageID = []))"
    by (cases found) (auto simp: installVerdict_def packageSeen_def Let_def intro!: sees_return sees_bind [OF sees_getJob])
qed

lemma sees_lifecycle:
  "sees known (lifecycleReadiness (cl_Kube cl) ns n job key sequence operation failure) (\<lambda>(ready, _) seen. ready \<longrightarrow> sequenceSeen seen ns n key sequence)"
  unfolding lifecycleReadiness_def chaincodeLifecycleResultReadiness_def
proof (rule sees_bind)
  show "sees known (ioBind (getConfigMap (cl_Kube cl) ns n) (\<lambda>found. ioReturn (lifecycleResultVerdict key sequence operation found)))
     (\<lambda>(ready, _) seen. ready \<longrightarrow> sequenceSeen seen ns n key sequence)"
    by (rule sees_bind [OF sees_getConfigMap])
      (auto simp: lifecycleResultVerdict_def sequenceSeen_def Let_def intro!: sees_return split: option.splits if_splits)
qed (auto intro!: sees_return sees_bind [OF sees_getJob] elim: seen_mono(2) [rotated] split: prod.splits)

lemma sees_workload:
  "sees known (chaincodeWorkloadReadiness (cl_Kube cl) ns n) (\<lambda>r seen. ws_Ready (fst r) \<noteq> 0 \<longrightarrow> replicasSeen seen ns n (ws_Ready (fst r)))"
proof (rule sees_kept [OF keeps_workload(2) [OF log_grows]])
  fix s r s1 assume run: "chaincodeWorkloadReadiness (cl_Kube cl) ns n s = (Inr r, s1)"
  obtain w x where r: "r = (w, x)" by (cases r)
  obtain d s2 where get: "k_Get (cl_Kube cl) (KDeployment, ns, n) s = (d, s2)" by (cases "k_Get (cl_Kube cl) (KDeployment, ns, n) s")
  have "ws_Ready w = 0 \<or> (\<exists>dep. d = Inr (ODeployment dep) \<and> w = workloadStatusOf dep \<and> s2 = s1)"
    using run unfolding r chaincodeWorkloadReadiness_def deploymentWorkloadStatus_def ioBind_def ioReturn_def getDeployment_def get
    by (auto simp: zeroWorkloadStatus_def split: sum.splits KObject.splits ApiError.splits if_splits)
  then show "ws_Ready (fst r) \<noteq> 0 \<longrightarrow> replicasSeen (log s1) ns n (ws_Ready (fst r))"
    using get_logged [of "(KDeployment, ns, n)" s] get unfolding r replicasSeen_def by auto
qed

text \<open>What one target adds: to the workloads, and to the approvals.\<close>

lemma sees_run:
  assumes "int32_of (ws_Ready (ccs_Workloads status)) = ws_Ready (ccs_Workloads status)"
  shows "sees known (runTarget (cl_Kube cl) net chaincode org peer status target)
    (\<lambda>r seen. ccs_Approved (fst r) = ccs_Approved status \<and> ccs_Targets (fst r) = ccs_Targets status \<and>
       ct_PackageID (snd r) = ct_PackageID target \<and> ct_Installed (snd r) = ct_Installed target \<and> ct_Namespace (snd r) = ct_Namespace target \<and>
       ws_Desired (ccs_Workloads (fst r)) = ws_Desired (ccs_Workloads status) \<and>
       (\<exists>n. ws_Ready (ccs_Workloads (fst r)) = int32_of (ws_Ready (ccs_Workloads status) + n) \<and>
          (n \<noteq> 0 \<longrightarrow> replicasSeen seen (ct_Namespace target) (ct_WorkloadName target) n)))"
proof (cases "ct_Installed target")
  case True
  show ?thesis unfolding runTarget_def if_P [OF True]
    by (rule sees_bind [OF sees_nothing [OF keeps_workload(1) [OF log_grows]]], rule sees_bind [OF sees_workload],
        simp only: split_beta, rule sees_return, simp add: addReady_def, erule (1) ready_added)
next
  case False
  show ?thesis unfolding runTarget_def if_not_P [OF False]
    by (rule sees_bind [OF sees_nothing [OF keeps_calls(2) [OF log_grows]]]) (auto simp: assms intro!: sees_return exI [of _ 0])
qed

lemma sees_approve:
  "sees known (approveTarget cr (cl_Kube cl) net channel chaincode org peer message status target)
    (\<lambda>r seen. ccs_Workloads (fst (snd r)) = ccs_Workloads status \<and> ccs_Targets (fst (snd r)) = ccs_Targets status \<and>
       ct_PackageID (snd (snd r)) = ct_PackageID target \<and>
       ws_Desired (ccs_Approved (fst (snd r))) = int32_of (ws_Desired (ccs_Approved status) + 1) \<and>
       (ws_Ready (ccs_Approved (fst (snd r))) = ws_Ready (ccs_Approved status) \<or>
        ws_Ready (ccs_Approved (fst (snd r))) = int32_of (ws_Ready (ccs_Approved status) + 1) \<and> ct_Installed target \<and>
          sequenceSeen seen (ct_Namespace target) (chaincodeApproveResultConfigMapName cr chaincode org (ct_PackageID target))
            chaincodeQueryApprovedKey (chaincodeSequence chaincode)))"
  (is "sees known _ ?P")
proof -
  have inputs: "sees known (ensureChaincodeApproveInputs cr (cl_Kube cl) net channel chaincode org ns orderer) (\<lambda>_ _. True)" for known ns orderer
    by (rule sees_nothing [OF keeps_chaincodeLifecycle(3) [OF log_grows]])
  have job: "sees known (ensureJob (cl_Kube cl) j) (\<lambda>_ _. True)" for known j
    by (rule sees_nothing [OF keeps_calls(2) [OF log_grows]])
  show ?thesis
    unfolding approveTarget_def chaincodeApproveReadiness_def Let_def
    by (auto simp: addDesired_def addReady_def intro!: sees_return sees_bind [OF inputs] sees_bind [OF sees_lifecycle] sees_bind [OF job]
        elim: seen_mono(2) [rotated] split: option.splits prod.splits)
qed

lemma sees_installTarget:
  assumes "int32_of (ws_Ready (ccs_Workloads status)) = ws_Ready (ccs_Workloads status)"
    and "ct_Namespace target = orgNamespaceName net org" "ct_WorkloadName target = chaincodeServiceName chaincode org peer"
    and "ct_PackageIDConfigMapName target = chaincodePackageIDConfigMapName chaincode org peer"
    and "status = status0\<lparr>ccs_Workloads := addDesired (ccs_Workloads status0) (chaincodeReplicas chaincode), ccs_PackageMetadata := m, ccs_Installed := i\<rparr>"
  shows "sees known (installTarget cr (cl_Kube cl) net channel chaincode channelOrg org peer message status target)
    (\<lambda>r. targetAdds cr net channel chaincode True channelOrg org peer status0 (snd r))"
proof -
  let ?P = "\<lambda>r. targetAdds cr net channel chaincode True channelOrg org peer status0 (snd r)"
  have rbac: "sees known (ensureChaincodeInstallRBAC (cl_Kube cl) net org chaincode peer) (\<lambda>_ _. True)" for known
    by (rule sees_nothing [OF keeps_workload(3) [OF log_grows]])
  have step: "sees known' (case a of (installed, packageID, chaincodeID, message') \<Rightarrow>
      ioBind (runTarget (cl_Kube cl) net chaincode org peer status (target\<lparr>ct_PackageID := packageID, ct_ChaincodeID := chaincodeID,
        ct_Installed := installed, ct_Message := message'\<rparr>)) (\<lambda>(status1, target1).
      if go_get (chaincodeApprovalPeers channel) (co_Name channelOrg) = peer
      then approveTarget cr (cl_Kube cl) net channel chaincode org peer message status1 target1
      else ioReturn (message, status1, target1))) ?P"
    if a: "(fst a \<longrightarrow> packageSeen known' (orgNamespaceName net org) (chaincodePackageIDConfigMapName chaincode org peer) (fst (snd a))) \<and>
      (\<not> fst a \<longrightarrow> fst (snd a) = [])" for a known'
  proof -
    obtain installed packageID chaincodeID message' where a': "a = (installed, packageID, chaincodeID, message')" by (cases a)
    let ?t = "target\<lparr>ct_PackageID := packageID, ct_ChaincodeID := chaincodeID, ct_Installed := installed, ct_Message := message'\<rparr>"
    show ?thesis unfolding a' prod.case
    proof (rule sees_bind [OF sees_run [OF assms(1)]])
      fix b :: "ChaincodeStatus \<times> ChaincodeTargetStatus" and known2
      assume sub: "known' \<subseteq> known2" and b: "ccs_Approved (fst b) = ccs_Approved status \<and> ccs_Targets (fst b) = ccs_Targets status \<and>
       ct_PackageID (snd b) = ct_PackageID ?t \<and> ct_Installed (snd b) = ct_Installed ?t \<and> ct_Namespace (snd b) = ct_Namespace ?t \<and>
       ws_Desired (ccs_Workloads (fst b)) = ws_Desired (ccs_Workloads status) \<and>
       (\<exists>n. ws_Ready (ccs_Workloads (fst b)) = int32_of (ws_Ready (ccs_Workloads status) + n) \<and>
          (n \<noteq> 0 \<longrightarrow> replicasSeen known2 (ct_Namespace ?t) (ct_WorkloadName ?t) n))"
      then obtain n where n: "ws_Ready (ccs_Workloads (fst b)) = int32_of (ws_Ready (ccs_Workloads status) + n)"
        "n \<noteq> 0 \<longrightarrow> replicasSeen known2 (orgNamespaceName net org) (chaincodeServiceName chaincode org peer) n"
        using assms(2,3) by auto
      have pkg: "(packageID \<noteq> [] \<longrightarrow> installed) \<and>
          (installed \<longrightarrow> packageSeen seen (orgNamespaceName net org) (chaincodePackageIDConfigMapName chaincode org peer) packageID)"
        if "known2 \<subseteq> seen" for seen
        using a seen_mono(1) [of known' seen] sub that unfolding a' by auto
      have runs: "n \<noteq> 0 \<longrightarrow> replicasSeen seen (orgNamespaceName net org) (chaincodeServiceName chaincode org peer) n" if "known2 \<subseteq> seen" for seen
        using n(2) seen_mono(3) [OF that] by blast
      show "sees known2 (case b of (status1, target1) \<Rightarrow>
          if go_get (chaincodeApprovalPeers channel) (co_Name channelOrg) = peer
          then approveTarget cr (cl_Kube cl) net channel chaincode org peer message status1 target1
          else ioReturn (message, status1, target1)) ?P"
      proof (cases "go_get (chaincodeApprovalPeers channel) (co_Name channelOrg) = peer")
        case True
        show ?thesis unfolding split_beta if_P [OF True]
          by (rule sees_weaken [OF sees_approve])
            (use b n pkg runs True assms in \<open>auto simp: targetAdds_def addDesired_def intro: approvalSeenI intro!: exI [of _ n]\<close>)
      next
        case False
        show ?thesis unfolding split_beta if_not_P [OF False]
          by (rule sees_return) (use b n pkg runs False assms in \<open>auto simp: targetAdds_def addDesired_def intro!: exI [of _ n]\<close>)
      qed
    qed
  qed
  show ?thesis unfolding installTarget_def
  proof (rule sees_bind [OF rbac], rule sees_bind [OF sees_install], goal_cases)
    case (1 a known1 b known2)
    then show ?case using step [of b known2] assms(2,4) by (auto split: prod.splits)
  qed
qed

lemma sees_package:
  assumes "int32_of (ws_Ready (ccs_Workloads status)) = ws_Ready (ccs_Workloads status)"
  shows "sees known (packageTarget cr gz (cl_Kube cl) net channel chaincode bootstrapped channelOrg org peer message status
      (knownTarget net chaincode name org peer))
    (\<lambda>r. targetAdds cr net channel chaincode bootstrapped channelOrg org peer status (snd r))"
proof -
  note writes = sees_nothing [OF keeps_calls(1) [OF log_grows]] sees_nothing [OF keeps_chaincodeLifecycle(6) [OF log_grows]] sees_nothing [OF keeps_lift]
  show ?thesis
  proof (cases bootstrapped)
    case True
    show ?thesis unfolding packageTarget_def Let_def if_P [OF True] using True
      by (auto intro!: sees_bind [OF writes(1)] sees_bind [OF writes(2)] sees_bind [OF writes(3)]
          sees_installTarget [where target = "(knownTarget net chaincode name org peer)\<lparr>ct_PackageMetadataReady := True, ct_Message := ''Package metadata generated''\<rparr>"]
          simp: addDesired_def assms)
  next
    case False
    show ?thesis unfolding packageTarget_def Let_def if_not_P [OF False] using False
      by (auto intro!: sees_bind [OF writes(1)] sees_bind [OF writes(2)] sees_bind [OF writes(3)] sees_return exI [of _ 0]
          simp: addDesired_def targetAdds_def assms)
  qed
qed

lemma sees_target:
  assumes "targetsSay cr net channel chaincode bootstrapped ts status known" and "int (length ts) < 2 ^ 31 - 1"
  shows "sees known (reconcileTarget cr gz (cl_Kube cl) net channel chaincode True bootstrapped channelOrg peer (message, status, desired))
    (\<lambda>r. targetsSay cr net channel chaincode bootstrapped (ts @ [(channelOrg, peer)]) (fst (snd r)))"
proof (cases "targetOrg net (channelOrg, peer)")
  case None
  then show ?thesis unfolding reconcileTarget_def Let_def prod.case
    by (auto simp: targetOrg_def newTarget_def intro!: sees_return targetsSay_skip targetsSay_mono [OF _ assms(1)]
        split: option.splits if_splits bind_splits)
next
  case (Some org)
  then have org: "map_of (orgsByName net) (co_Name channelOrg) = Some org" "peerDeclared org peer"
    by (auto simp: targetOrg_def split: bind_splits if_splits)
  let ?status = "status\<lparr>ccs_PackageMetadata := addDesired (ccs_PackageMetadata status) 1\<rparr>"
  have ready: "int32_of (ws_Ready (ccs_Workloads ?status)) = ws_Ready (ccs_Workloads ?status)"
    using assms(1) by (auto simp: targetsSay_def workloadsSay_def Let_def)
  have say: "targetsSay cr net channel chaincode bootstrapped ts ?status seen" if "known \<subseteq> seen" for seen
    using targetsSay_mono [OF that assms(1)] by (simp add: targetsSay_def approvalsSay_def workloadsSay_def packagesSay_def)
  show ?thesis unfolding reconcileTarget_def Let_def prod.case org(1) option.case
    by (simp add: org(2), rule sees_bind [OF sees_package [OF ready]], simp only: split_beta, rule sees_return, simp only: fst_conv snd_conv,
        rule targetsSay_add [OF say Some _ assms(2)]) (auto intro: targetAdds_mono)
qed

lemma sees_loop:
  assumes "targetsSay cr net channel chaincode bootstrapped ts (fst (snd st)) known" and "int (length ts) + int (length targets) < 2 ^ 31"
  shows "sees known (targetLoop cr gz (cl_Kube cl) net channel chaincode True bootstrapped targets st)
    (\<lambda>r. targetsSay cr net channel chaincode bootstrapped (ts @ targets) (fst (snd r)))"
  using assms
proof (induction targets arbitrary: ts st known)
  case Nil
  then show ?case by (auto intro!: sees_return elim: targetsSay_mono [rotated])
next
  case (Cons t targets)
  obtain channelOrg peer message status desired where t: "t = (channelOrg, peer)" "st = (message, status, desired)" by (metis prod.exhaust)
  have first: "sees known (reconcileTarget cr gz (cl_Kube cl) net channel chaincode True bootstrapped channelOrg peer st)
      (\<lambda>r. targetsSay cr net channel chaincode bootstrapped (ts @ [t]) (fst (snd r)))"
    using Cons.prems unfolding t by (intro sees_target) auto
  show ?case unfolding t(1) targetLoop.simps
  proof (rule sees_bind [OF first], goal_cases)
    case (1 st1 known1)
    then show ?case using Cons.IH [of "ts @ [t]" st1 known1] Cons.prems(2) t(1) by simp
  qed
qed

lemma sees_commit:
  "sees known (reconcileChaincodeCommit cr (cl_Kube cl) net channel chaincode packageID status)
    (\<lambda>r seen. ccs_WorkloadsReady (snd (snd r)) = ccs_WorkloadsReady status \<and>
       (fst r \<longrightarrow> ccs_CommitResultConfigMapName (snd (snd r)) = chaincodeCommitResultConfigMapName cr chaincode packageID \<and>
          sequenceSeen seen (ccs_CommitResultNamespace (snd (snd r))) (ccs_CommitResultConfigMapName (snd (snd r))) chaincodeQueryCommittedKey
            (chaincodeSequence chaincode)))"
proof -
  note steps = sees_nothing [OF keeps_chaincodeLifecycle(5) [OF log_grows]] sees_nothing [OF keeps_chaincodeLifecycle(4) [OF log_grows]]
    sees_nothing [OF keeps_workload(4) [OF log_grows]] sees_nothing [OF keeps_calls(2) [OF log_grows]]
  show ?thesis
    unfolding reconcileChaincodeCommit_def chaincodeCommitReadiness_def Let_def
    by (auto intro!: sees_return sees_bind [OF steps(1)] sees_bind [OF sees_lifecycle] sees_bind [OF steps(2)] sees_bind [OF steps(3)]
        sees_bind [OF steps(4)] split: option.splits list.splits prod.splits; erule (1) seen_mono(2) [rotated])
qed

lemma sees_commitChaincode:
  assumes "targetsSay cr net channel chaincode bootstrapped ts status0 known" "status = aggregateStatus status0" "\<not> ccs_Committed status"
  shows "sees known (commitChaincode cr (cl_Kube cl) net (Some channel) chaincode valid message status)
    (\<lambda>r seen. ccs_WorkloadsReady (snd r) = ccs_WorkloadsReady status \<and>
       (ccs_Committed (snd r) \<longrightarrow> valid \<and> ccs_ApprovedReady status \<and> commitSeen cr net chaincode ts (snd r) seen))"
proof (cases "valid \<and> ccs_ApprovedReady status \<and> firstChaincodePackageID (ccs_Targets status) \<noteq> []")
  case True
  let ?p = "firstChaincodePackageID (ccs_Targets status)"
  obtain target where target: "target \<in> set (ccs_Targets status0)" "ct_PackageID target = ?p"
    using firstChaincodePackageID_listed [of "ccs_Targets status"] True assms(2) by (auto simp: aggregateStatus_def)
  then obtain t org where t: "t \<in> set (deployable net ts)" "targetOrg net t = Some org"
      "packageSeen known (orgNamespaceName net org) (chaincodePackageIDConfigMapName chaincode org (snd t)) ?p"
    using assms(1) True unfolding targetsSay_def packagesSay_def by metis
  have "sees known (ioBind (reconcileChaincodeCommit cr (cl_Kube cl) net channel chaincode ?p (status\<lparr>ccs_CommitJobName := chaincodeCommitJobName cr chaincode ?p\<rparr>))
      (\<lambda>(committed, message1, status1). ioReturn (if message1 \<noteq> [] then message1 else message, status1\<lparr>ccs_Committed := committed\<rparr>)))
    (\<lambda>r seen. ccs_WorkloadsReady (snd r) = ccs_WorkloadsReady status \<and> (ccs_Committed (snd r) \<longrightarrow> commitSeen cr net chaincode ts (snd r) seen))"
  proof (rule sees_bind [OF sees_commit], goal_cases)
    case (1 r known1)
    have "commitSeen cr net chaincode ts ((snd (snd r))\<lparr>ccs_Committed := True\<rparr>) seen" if "fst r" "known1 \<subseteq> seen" for seen
      unfolding commitSeen_def using 1 that t seen_mono(1) [OF _ t(3), of seen] seen_mono(2) [OF that(2)]
      by (intro conjI exI [of _ ?p] bexI [of _ t] exI [of _ org]) auto
    with 1 show ?case by (cases r) (auto intro!: sees_return)
  qed
  with True show ?thesis unfolding commitChaincode_def Let_def option.case by (auto elim: sees_weaken)
next
  case False
  then show ?thesis using assms(3) unfolding commitChaincode_def Let_def option.case by (auto intro!: sees_return)
qed

lemma sees_chaincode:
  assumes "\<And>channel. channel \<in> set (sp_Channels (fn_Spec net)) \<Longrightarrow> int (length (channelTargets channel)) < 2 ^ 31"
  shows "sees known (reconcileChaincode cr gz cl net channelStatuses keys chaincode)
    (\<lambda>status seen. ccs_Ready status \<longrightarrow> chaincodeEvidence cr net channelStatuses chaincode status seen)"
proof -
  let ?found = "map_of (channelsByName net) (cd_Channel chaincode)" and ?messages = "chaincodeMessages net keys chaincode"
  let ?boot = "trimSpace (cd_Channel chaincode) \<noteq> [] \<and> ?found \<noteq> None \<and> channelReadyForChaincode channelStatuses (cd_Channel chaincode)"
  let ?loop = "\<lambda>status. case ?found of None \<Rightarrow> ioReturn ([], status, {})
    | Some channel \<Rightarrow> targetLoop cr gz (cl_Kube cl) net channel chaincode (?messages = []) ?boot (channelTargets channel) ([], status, {})"
  have loop: "sees known (?loop status) (\<lambda>r seen. \<not> ccs_Committed (fst (snd r)) \<and>
      (\<forall>channel. ?found = Some channel \<longrightarrow> ?messages = [] \<longrightarrow>
         targetsSay cr net channel chaincode ?boot (channelTargets channel) (fst (snd r)) seen))"
    if "status = initialChaincodeStatus chaincode \<or> (\<exists>m h. status = (initialChaincodeStatus chaincode)\<lparr>ccs_CollectionConfigMap := m, ccs_CollectionConfigHash := h\<rparr>)"
    for status known
  proof (cases ?found)
    case None
    then show ?thesis using that by (auto simp: initialChaincodeStatus_def intro!: sees_return)
  next
    case (Some channel)
    let ?st = "([], status, {}) :: targetState"
    have member: "channel \<in> set (sp_Channels (fn_Spec net))" using channelsByName_Some [OF Some] .
    have initial: "targetsSay cr net channel chaincode ?boot [] status known"
      using that by (auto simp: targetsSay_def approvalsSay_def workloadsSay_def packagesSay_def deployable_def initialChaincodeStatus_def
          zeroWorkloadStatus_def int32Sum_def Let_def)
    have committed: "\<not> ccs_Committed (fst (snd ?st))" using that by (auto simp: initialChaincodeStatus_def)
    let ?run = "\<lambda>valid. targetLoop cr gz (cl_Kube cl) net channel chaincode valid ?boot (channelTargets channel) ?st"
    have unmarked: "sees known (?run valid) (\<lambda>r _. \<not> ccs_Committed (fst (snd r)))" for valid
      by (rule sees_weaken [OF sees_gives [OF keeps_target(4) [OF log_grows] gives_targets]]) (use committed in simp)
    have said: "sees known (?run True) (\<lambda>r. targetsSay cr net channel chaincode ?boot (channelTargets channel) (fst (snd r)))"
      using sees_loop [of cr net channel chaincode ?boot "[]" ?st known "channelTargets channel" gz] initial assms [OF member] by simp
    show ?thesis
    proof (cases "?messages = []")
      case True
      have "sees known (?run True) (\<lambda>r seen. \<not> ccs_Committed (fst (snd r)) \<and> targetsSay cr net channel chaincode ?boot (channelTargets channel) (fst (snd r)) seen)"
        using unmarked [of True] said unfolding sees_def by blast
      with True Some show ?thesis by simp
    next
      case False
      then show ?thesis using unmarked [of False] Some by simp
    qed
  qed
  have status: "sees known (liftText (collectionStatus cr net ?found chaincode (initialChaincodeStatus chaincode)))
      (\<lambda>status _. status = initialChaincodeStatus chaincode \<or>
         (\<exists>m h. status = (initialChaincodeStatus chaincode)\<lparr>ccs_CollectionConfigMap := m, ccs_CollectionConfigHash := h\<rparr>))" for known
    by (cases ?found) (auto simp: liftText_def collectionStatus_def intro!: sees_return split: sum.splits if_splits)
  have clean: "sees known (cleanupRemovedChaincodeWorkloads cl net chaincode enabled desired) (\<lambda>_ _. True)" for known enabled desired
    by (rule sees_nothing [OF keeps_workload(5) [OF log_grows]])
  show ?thesis unfolding reconcileChaincode_def Let_def
  proof (rule sees_bind [OF status], rule sees_bind [OF loop], assumption, goal_cases)
    case (1 status known1 r known2)
    obtain lifecycle status1 desired where r: "r = (lifecycle, status1, desired)" by (cases r)
    show ?case unfolding r prod.case
    proof (rule sees_bind [OF clean], goal_cases)
      case clean: (1 _ known3)
      let ?agg = "aggregateStatus status1"
      have agg: "\<not> ccs_Committed ?agg" using 1(4) by (simp add: r aggregateStatus_def)
      show ?case
      proof (cases ?found)
        case None
        then show ?thesis using agg unfolding None commitChaincode_def option.case
          by (auto simp: finishChaincode_def Let_def intro!: sees_return sees_bind [OF sees_return [of _ "\<lambda>r _. r = (lifecycle, ?agg)"]])
      next
        case (Some channel)
        show ?thesis
        proof (cases "?messages = []")
          case False
          then show ?thesis using agg unfolding Some commitChaincode_def option.case
            by (auto simp: finishChaincode_def Let_def intro!: sees_return sees_bind [OF sees_return [of _ "\<lambda>r _. r = (lifecycle, ?agg)"]])
        next
          case True
          have say: "targetsSay cr net channel chaincode ?boot (channelTargets channel) status1 known3"
            using 1(4) Some True targetsSay_mono [OF clean(1)] by (simp add: r)
          show ?thesis unfolding Some
          proof (rule sees_bind [OF sees_commitChaincode [OF say refl agg]], goal_cases)
            case (1 st known4)
            have "chaincodeEvidence cr net channelStatuses chaincode (finishChaincode ?messages ?boot st) seen"
              if "ccs_Ready (finishChaincode ?messages ?boot st)" "known4 \<subseteq> seen" for seen
            proof (rule chaincodeEvidenceI [OF Some targetsSay_mono [OF subset_trans [OF 1(1) that(2)] say] refl])
              have st: "ccs_Committed (snd st)" "ccs_WorkloadsReady (snd st)" using that(1) by (auto simp: finishChaincode_def Let_def split: prod.splits)
              with 1(2) show "allDone (ccs_Approved status1)" "allDone (ccs_Workloads status1)" by (auto simp: aggregateStatus_def)
              show "commitSeen cr net chaincode (channelTargets channel) (finishChaincode ?messages ?boot st) seen"
                using commitSeen_mono [OF that(2)] 1(2) st by simp
            qed
            then show ?case unfolding Some by (auto intro!: sees_return)
          qed
        qed
      qed
    qed
  qed
qed

lemma chaincode_loop_evidence:
  assumes "\<And>channel. channel \<in> set (sp_Channels (fn_Spec net)) \<Longrightarrow> int (length (channelTargets channel)) < 2 ^ 31"
    and "chaincodeLoopIO cr gz cl net channelStatuses keys statuses chaincodes s = ((statuses', err), s1)"
  shows "log s \<subseteq> log s1 \<and> (\<exists>new. statuses' = statuses @ new \<and>
    (\<forall>(st, chaincode) \<in> set (zip new chaincodes). ccs_Ready st \<longrightarrow> chaincodeEvidence cr net channelStatuses chaincode st (log s1)))"
  using assms(2)
proof (induction chaincodes arbitrary: keys statuses s)
  case (Cons chaincode chaincodes)
  obtain r s2 where step: "reconcileChaincode cr gz cl net channelStatuses keys chaincode s = (r, s2)"
    by (cases "reconcileChaincode cr gz cl net channelStatuses keys chaincode s")
  have grown: "log s \<subseteq> log s2" using ioKeepsD [OF keeps_chaincode [OF log_grows], of "log s" s] step by (metis order_refl snd_conv)
  show ?case
  proof (cases r)
    case (Inl e)
    with Cons.prems step grown show ?thesis by (intro conjI exI [of _ "[]"]) auto
  next
    case (Inr st)
    from sees_chaincode [of net "{}" cr gz channelStatuses keys chaincode] assms(1) step Inr
    have st: "ccs_Ready st \<longrightarrow> chaincodeEvidence cr net channelStatuses chaincode st (log s2)" by (simp add: sees_def)
    from Cons.prems step Inr have "chaincodeLoopIO cr gz cl net channelStatuses (insert (chaincodeKey chaincode) keys) (statuses @ [st]) chaincodes s2 =
      ((statuses', err), s1)" by simp
    from Cons.IH [OF this] obtain new where new: "log s2 \<subseteq> log s1" "statuses' = statuses @ [st] @ new"
      "\<forall>(st, chaincode) \<in> set (zip new chaincodes). ccs_Ready st \<longrightarrow> chaincodeEvidence cr net channelStatuses chaincode st (log s1)" by auto
    with grown st show ?thesis by (intro conjI exI [of _ "st # new"]) (auto intro: chaincodeEvidence_mono)
  qed
qed auto

end

text \<open>
  Claim C13. A chaincode is reported ready only on evidence. Whatever the cluster does during a run of the
  chaincode stage, for every chaincode whose new status is Ready the same run has read: for every
  organization of the channel, through its first declared peer, the ID of the installed package and the
  result of an approval of the definition's sequence; the result of a commit of that sequence for a
  package that is installed on some peer; and Deployments whose ready replicas add up to the desired
  number over all peers. The channel itself was reported ready. A channel has fewer than \<open>2 ^ 31\<close> peers.
\<close>

theorem chaincode_ready_evidence:
  assumes "\<And>channel. channel \<in> set (sp_Channels (fn_Spec net)) \<Longrightarrow> int (length (channelTargets channel)) < 2 ^ 31"
    and "reconcileChaincodes cr gz (loggedCluster cl) net channelStatuses (s, []) = ((statuses, err), (s1, reads))"
  shows "\<forall>(status, chaincode) \<in> set (zip statuses (sp_Chaincodes (fn_Spec net))).
    ccs_Ready status \<longrightarrow> chaincodeEvidence cr net channelStatuses chaincode status (set reads)"
  using logged.chaincode_loop_evidence [OF assms(1) assms(2) [unfolded reconcileChaincodes_def]] by auto

end
