(* ===== verification/Chaincode_Example.thy ===== *)
theory Chaincode_Example
  imports Chaincode_Evidence Channel_Example
begin

text \<open>
  A chaincode that becomes ready: one organization with one peer, a cluster that holds the package ID,
  the results of approval and commit and a ready Deployment, and the run of the chaincode stage on it.
\<close>

definition assetChaincode :: Chaincode where
  "assetChaincode = \<lparr>cd_Name = ''cc'', cd_Version = ''1'', cd_Channel = ''ch'', cd_Image = ''img'', cd_Sequence = 1, cd_PackageLabel = [],
     cd_EndorsementPolicy = [], cd_InitRequired = False, cd_PrivateData = [], cd_CouchDBIndexes = [], cd_CCAAS = None\<rparr>"

definition assetNetwork :: FabricNetwork where
  "assetNetwork = foundingNetwork\<lparr>fn_Spec := (fn_Spec foundingNetwork)\<lparr>sp_Chaincodes := [assetChaincode],
     sp_Global := (sp_Global (fn_Spec foundingNetwork))\<lparr>gl_TLS := False\<rparr>\<rparr>\<rparr>"

definition sequenceOne :: string where
  "sequenceOne = ''{'' @ quoted ''sequence'' @ '':1}''"

definition assetDeployment :: Deployment where
  "assetDeployment = (buildChaincodeDeployment assetNetwork assetChaincode memberOrg ''peer0'' ''p:1'')
     \<lparr>dep_ReadyReplicas := 1, dep_UpdatedReplicas := 1, dep_AvailableReplicas := 1\<rparr>"

definition assetObjects :: "(objkey \<times> KObject) list" where
  "assetObjects = [
     ((KConfigMap, ''fo-net-o'', ''ch-cc-1-o-peer0-package-id''), OConfigMap (published ''fo-net-o'' ''ch-cc-1-o-peer0-package-id'' chaincodePackageIDKey ''p:1'')),
     ((KConfigMap, ''fo-net-o'', ''ch-cc-1-1-7b2273657175-o-approve-result''),
       OConfigMap (published ''fo-net-o'' ''ch-cc-1-1-7b2273657175-o-approve-result'' chaincodeQueryApprovedKey sequenceOne)),
     ((KConfigMap, ''fo-net-o'', ''ch-cc-1-1-7b2273657175-commit-result''),
       OConfigMap (published ''fo-net-o'' ''ch-cc-1-1-7b2273657175-commit-result'' chaincodeQueryCommittedKey sequenceOne)),
     ((KDeployment, ''fo-net-o'', ''ch-cc-o-peer0-ccaas''), ODeployment assetDeployment)]"

definition readyChannel :: ChannelStatus where
  "readyChannel = \<lparr>chs_Name = ''ch'', chs_ConfigMapName = [], chs_BlockConfigMapName = [], chs_ConfigReady = True, chs_BlockReady = True,
     chs_Orderers = \<lparr>ws_Desired = 1, ws_Ready = 1\<rparr>, chs_Peers = \<lparr>ws_Desired = 1, ws_Ready = 1\<rparr>, chs_Orgs = [], chs_ExternalOrgs = [],
     chs_RaftUpdate = None, chs_Ready = True, chs_Message = []\<rparr>"



lemma asset_run:
  "(\<lambda>((statuses, err), _). map ccs_Ready statuses = [True] \<and> err = None)
     (reconcileChaincodes toy_crypto id (loggedCluster (fixedCluster assetObjects)) assetNetwork [readyChannel] ((), []))"
  by code_simp

theorem chaincode_ready_evidence_witness:
  "\<exists>status reads. reconcileChaincodes toy_crypto id (loggedCluster (fixedCluster assetObjects)) assetNetwork [readyChannel] ((), []) =
       (([status], None), ((), reads)) \<and> ccs_Ready status \<and> chaincodeEvidence toy_crypto assetNetwork [readyChannel] assetChaincode status (set reads)"
proof -
  obtain statuses err reads where run: "reconcileChaincodes toy_crypto id (loggedCluster (fixedCluster assetObjects)) assetNetwork [readyChannel] ((), []) =
      ((statuses, err), ((), reads))"
    by (cases "reconcileChaincodes toy_crypto id (loggedCluster (fixedCluster assetObjects)) assetNetwork [readyChannel] ((), [])") auto
  with asset_run obtain status where "statuses = [status]" "ccs_Ready status" "err = None" by auto
  moreover have "sp_Channels (fn_Spec assetNetwork) = [foundingChannel]" "sp_Chaincodes (fn_Spec assetNetwork) = [assetChaincode]"
    by (simp_all add: assetNetwork_def foundingNetwork_def)
  moreover have "int (length (channelTargets foundingChannel)) < 2 ^ 31"
    by (simp add: channelTargets_def foundingChannel_def)
  ultimately show ?thesis
    using chaincode_ready_evidence [OF _ run] run by auto
qed

end
