(* ===== verification/Operator.thy ===== *)
theory Operator
  imports Chaincode_Evidence Channel_Example
begin

text \<open>
  The operator as a whole: \<open>Reconcile\<close> with its own channel and chaincode stages. The evidence behind the
  stages composes to evidence behind the phase \<open>Ready\<close> of the network.
\<close>

definition operatorStages :: "Crypto \<Rightarrow> maporder \<Rightarrow> (bytes \<Rightarrow> bytes) \<Rightarrow> 's Cluster \<Rightarrow> 's Stages" where
  "operatorStages cr ord gz cl = \<lparr>st_Channels = reconcileChannels cr ord cl, st_Chaincodes = reconcileChaincodes cr gz cl\<rparr>"

section \<open>Clusters that record the statuses they are sent\<close>

definition beside :: "('s \<Rightarrow> 'a \<times> 's) \<Rightarrow> 's \<times> 'p \<Rightarrow> 'a \<times> ('s \<times> 'p)" where
  "beside f s = (case f (fst s) of (r, s1) \<Rightarrow> (r, (s1, snd s)))"

definition patchedCluster :: "'s Cluster \<Rightarrow> ('s \<times> FabricNetworkStatus list) Cluster" where
  "patchedCluster cl =
     \<lparr>cl_Kube = \<lparr>k_Get = (\<lambda>k. beside (k_Get (cl_Kube cl) k)), k_Create = (\<lambda>ob. beside (k_Create (cl_Kube cl) ob)),
        k_Update = (\<lambda>ob. beside (k_Update (cl_Kube cl) ob)), k_Now = beside (k_Now (cl_Kube cl)),
        k_RandInt = (\<lambda>n. beside (k_RandInt (cl_Kube cl) n))\<rparr>,
      cl_Delete = (\<lambda>ob. beside (cl_Delete cl ob)), cl_List = (\<lambda>kind ns sel. beside (cl_List cl kind ns sel)),
      cl_GetNetwork = (\<lambda>key. beside (cl_GetNetwork cl key)), cl_UpdateNetwork = (\<lambda>net. beside (cl_UpdateNetwork cl net)),
      cl_PatchStatus = (\<lambda>net status s. case cl_PatchStatus cl net status (fst s) of (r, s1) \<Rightarrow> (r, (s1, status # snd s))),
      cl_Event = (\<lambda>a b c s. (cl_Event cl a b c (fst s), snd s)), cl_ParseQuantity = cl_ParseQuantity cl,
      cl_SetCondition = cl_SetCondition cl, cl_ErrorText = cl_ErrorText cl, cl_MarshalIndent = cl_MarshalIndent cl,
      cl_JSONToYAML = cl_JSONToYAML cl\<rparr>"

text \<open>A status that claims readiness is backed by what has been read.\<close>

definition backedStatus ::
  "Crypto \<Rightarrow> maporder \<Rightarrow> FabricNetwork \<Rightarrow> FabricNetworkStatus \<Rightarrow> (objkey \<times> KObject) set \<Rightarrow> bool" where
  "backedStatus cr ord net status seen \<longleftrightarrow>
     (fs_Phase status = PhaseReady \<longrightarrow>
        allOrgsReady (fs_OrgStatus status) \<and>
        (\<forall>channel \<in> set (sp_Channels (fn_Spec net)). channelEvidence cr ord net channel seen) \<and>
        (\<forall>chaincode \<in> set (sp_Chaincodes (fn_Spec net)). \<exists>st \<in> set (fs_ChaincodeStatus status).
           chaincodeEvidence cr net (fs_ChannelStatus status) chaincode st seen))"

lemma backedStatus_mono: "seen \<subseteq> seen' \<Longrightarrow> backedStatus cr ord net status seen \<Longrightarrow> backedStatus cr ord net status seen'"
  using channelEvidence_mono [of seen seen'] chaincodeEvidence_mono [of seen seen'] unfolding backedStatus_def by meson

lemma channel_loop_length:
  "channelLoopIO cr ord cl net orgs statuses channels s = ((statuses', None), s1) \<Longrightarrow> length statuses' = length statuses + length channels"
proof (induction channels arbitrary: statuses s)
  case (Cons channel channels)
  obtain r s2 where step: "reconcileChannel cr ord cl net orgs channel s = (r, s2)" by (cases "reconcileChannel cr ord cl net orgs channel s")
  with Cons.prems obtain status where "r = Inr status" by (cases r) auto
  with Cons.IH [of "statuses @ [status]" s2] Cons.prems step show ?case by simp
qed simp

lemma chaincode_loop_length:
  "chaincodeLoopIO cr gz cl net channels seen statuses chaincodes s = ((statuses', None), s1) \<Longrightarrow> length statuses' = length statuses + length chaincodes"
proof (induction chaincodes arbitrary: seen statuses s)
  case (Cons chaincode chaincodes)
  obtain r s2 where step: "reconcileChaincode cr gz cl net channels seen chaincode s = (r, s2)" by (cases "reconcileChaincode cr gz cl net channels seen chaincode s")
  with Cons.prems obtain status where "r = Inr status" by (cases r) auto
  with Cons.IH [of _ "statuses @ [status]" s2] Cons.prems step show ?case by simp
qed simp

lemma zip_partner: "length xs = length ys \<Longrightarrow> y \<in> set ys \<Longrightarrow> \<exists>x. (x, y) \<in> set (zip xs ys)"
  by (metis in_set_impl_in_set_zip2)

text \<open>Statuses of all channels and chaincodes, each backed when ready, back the status of the network.\<close>

lemma backed_by_stages:
  assumes len2: "length channels = length (sp_Channels (fn_Spec net))"
    and chan: "\<forall>(st, channel) \<in> set (zip channels (sp_Channels (fn_Spec net))). chs_Ready st \<longrightarrow> channelEvidence cr ord net channel seen2"
    and len3: "length chaincodes = length (sp_Chaincodes (fn_Spec net))"
    and cc: "\<forall>(st, chaincode) \<in> set (zip chaincodes (sp_Chaincodes (fn_Spec net))). ccs_Ready st \<longrightarrow> chaincodeEvidence cr net channels chaincode st seen3"
    and seen: "seen2 \<subseteq> seen3" "seen3 \<subseteq> seen"
    and status: "fs_OrgStatus status = orgs" "fs_ChannelStatus status = channels" "fs_ChaincodeStatus status = chaincodes"
    and phase: "fs_Phase status = PhaseReady \<longrightarrow> networkIsReady orgs channels chaincodes"
  shows "backedStatus cr ord net status seen"
  unfolding backedStatus_def
proof (intro impI)
  assume "fs_Phase status = PhaseReady"
  with phase have ready: "allOrgsReady orgs" "list_all chs_Ready channels" "list_all ccs_Ready chaincodes"
    by (auto simp: networkIsReady_def allChannelsReady_def allChaincodesReady_def)
  have "channelEvidence cr ord net channel seen" if channel: "channel \<in> set (sp_Channels (fn_Spec net))" for channel
  proof -
    from zip_partner [OF len2 channel] obtain st where st: "(st, channel) \<in> set (zip channels (sp_Channels (fn_Spec net)))" by blast
    with ready(2) have "chs_Ready st" by (auto simp: list_all_iff dest: set_zip_leftD)
    with st chan have "channelEvidence cr ord net channel seen2" by auto
    with seen show ?thesis by (blast intro: channelEvidence_mono)
  qed
  moreover have "\<exists>st \<in> set chaincodes. chaincodeEvidence cr net channels chaincode st seen" if chaincode: "chaincode \<in> set (sp_Chaincodes (fn_Spec net))" for chaincode
  proof -
    from zip_partner [OF len3 chaincode] obtain st where st: "(st, chaincode) \<in> set (zip chaincodes (sp_Chaincodes (fn_Spec net)))" by blast
    with ready(3) have ok: "ccs_Ready st" "st \<in> set chaincodes" by (auto simp: list_all_iff dest: set_zip_leftD)
    with st cc have "chaincodeEvidence cr net channels chaincode st seen3" by auto
    with ok seen(2) show ?thesis by (blast intro: chaincodeEvidence_mono)
  qed
  ultimately show "allOrgsReady (fs_OrgStatus status) \<and> (\<forall>channel \<in> set (sp_Channels (fn_Spec net)). channelEvidence cr ord net channel seen) \<and>
      (\<forall>chaincode \<in> set (sp_Chaincodes (fn_Spec net)). \<exists>st \<in> set (fs_ChaincodeStatus status). chaincodeEvidence cr net (fs_ChannelStatus status) chaincode st seen)"
    using ready(1) status by auto
qed

section \<open>Evidence for every status\<close>

locale watched = observed cl log for cl :: "'s Cluster" and log :: "'s \<Rightarrow> (objkey \<times> KObject) set" +
  fixes patches :: "'s \<Rightarrow> FabricNetworkStatus list"
  assumes calls: "apiKeeps (\<lambda>s. known \<subseteq> log s \<and> patches s = ps) cl"
    and get: "ioKeeps (\<lambda>s. known \<subseteq> log s \<and> patches s = ps) (cl_GetNetwork cl key)"
    and update: "ioKeeps (\<lambda>s. known \<subseteq> log s \<and> patches s = ps) (cl_UpdateNetwork cl net)"
    and event: "log (cl_Event cl a b c s) = log s \<and> patches (cl_Event cl a b c s) = patches s"
    and patch: "log (snd (cl_PatchStatus cl net status s)) = log s \<and> patches (snd (cl_PatchStatus cl net status s)) = status # patches s"
begin

abbreviation allBacked :: "Crypto \<Rightarrow> maporder \<Rightarrow> FabricNetwork \<Rightarrow> 's \<Rightarrow> bool" where
  "allBacked cr ord net s \<equiv> \<forall>status \<in> set (patches s). backedStatus cr ord net status (log s)"

lemma keeps_backed:
  assumes "\<And>known ps. ioKeeps (\<lambda>s. known \<subseteq> log s \<and> patches s = ps) f"
  shows "ioKeeps (\<lambda>s. known \<subseteq> log s \<and> allBacked cr ord net s) f"
  unfolding ioKeeps_def
proof (intro allI impI)
  fix s assume s: "known \<subseteq> log s \<and> allBacked cr ord net s"
  from assms [of "log s" "patches s"] have "log s \<subseteq> log (snd (f s))" "patches (snd (f s)) = patches s" by (auto simp: ioKeeps_def)
  with s show "known \<subseteq> log (snd (f s)) \<and> allBacked cr ord net (snd (f s))" using backedStatus_mono by auto
qed

lemma api_backed: "apiKeeps (\<lambda>s. known \<subseteq> log s \<and> allBacked cr ord net s) cl"
  using calls unfolding apiKeeps_def by (intro conjI allI keeps_backed) blast+

lemma event_backed: "known \<subseteq> log s \<and> allBacked cr ord net s \<Longrightarrow> known \<subseteq> log (cl_Event cl a b c s) \<and> allBacked cr ord net (cl_Event cl a b c s)"
  using event by simp

lemma patch_backed:
  assumes "\<And>s. known \<subseteq> log s \<Longrightarrow> backedStatus cr ord net status (log s)"
  shows "ioKeeps (\<lambda>s. known \<subseteq> log s \<and> allBacked cr ord net s) (updateStatus cl net status)"
proof (rule keeps_updateStatus)
  show "ioKeeps (\<lambda>s. known \<subseteq> log s \<and> allBacked cr ord net s) (cl_PatchStatus cl net status)"
    using patch assms by (auto simp: ioKeeps_def)
qed (rule event_backed)

lemma ends_backed:
  shows "ioKeeps (\<lambda>s. known \<subseteq> log s \<and> allBacked cr ord net s) (failReconcile cl net failure e orgs channels chaincodes report observability)"
    "ioKeeps (\<lambda>s. known \<subseteq> log s \<and> allBacked cr ord net s) (rejectTopology cl net problems)"
    "(\<And>status seen. known \<subseteq> seen \<Longrightarrow> fs_OrgStatus status = orgs \<Longrightarrow> fs_ChannelStatus status = channels \<Longrightarrow> fs_ChaincodeStatus status = chaincodes \<Longrightarrow>
        (fs_Phase status = PhaseReady \<longrightarrow> networkIsReady orgs channels chaincodes) \<Longrightarrow> backedStatus cr ord net status seen) \<Longrightarrow>
      ioKeeps (\<lambda>s. known \<subseteq> log s \<and> allBacked cr ord net s) (finishReconcile cl net orgs channels chaincodes)"
proof -
  let ?Q = "\<lambda>s. known \<subseteq> log s \<and> allBacked cr ord net s"
  note conds = keeps_conditions [OF api_backed]
  have drop: "ioKeeps ?Q f \<Longrightarrow> ioKeeps ?Q ((\<lambda>s. case f s of (_, s1) \<Rightarrow> (Inl e, s1)) :: ('s, int) io)" for f :: "('s, unit) io"
    by (auto simp: ioKeeps_def case_prod_unfold)
  show "ioKeeps ?Q (failReconcile cl net failure e orgs channels chaincodes report observability)"
    unfolding failReconcile_def Let_def by (rule drop, intro ioKeeps_bind conds patch_backed) (simp add: backedStatus_def)
  show "ioKeeps ?Q (rejectTopology cl net problems)"
    unfolding rejectTopology_def topologyInvalidConditions_def Let_def
    by (intro ioKeeps_bind conds patch_backed) (simp_all add: backedStatus_def)
  have jobs: "ioKeeps ?Q (cleanupSucceededJobs cl net)"
    unfolding cleanupSucceededJobs_def by (auto intro!: ioKeeps_bind apiKeepsD(4) [OF api_backed] keeps_loops [OF api_backed] split: option.splits)
  show "ioKeeps ?Q (finishReconcile cl net orgs channels chaincodes)"
    if backed: "\<And>status seen. known \<subseteq> seen \<Longrightarrow> fs_OrgStatus status = orgs \<Longrightarrow> fs_ChannelStatus status = channels \<Longrightarrow> fs_ChaincodeStatus status = chaincodes \<Longrightarrow>
        (fs_Phase status = PhaseReady \<longrightarrow> networkIsReady orgs channels chaincodes) \<Longrightarrow> backedStatus cr ord net status seen"
    unfolding finishReconcile_def Let_def
    by (intro ioKeeps_bind conds patch_backed jobs backed) (auto split: if_splits)
qed

lemma stages_backed:
  assumes counted: "orderersCounted net" "\<And>channel. channel \<in> set (sp_Channels (fn_Spec net)) \<Longrightarrow> int (length (channelTargets channel)) < 2 ^ 31"
    and Q: "allBacked cr ord net s"
  shows "allBacked cr ord net (snd (reconcileStages cr cl (operatorStages cr ord gz cl) net s))"
proof -
  let ?Q = "\<lambda>known s. known \<subseteq> log s \<and> allBacked cr ord net s"
  obtain orgs e1 s1 where r1: "reconcileOrgs cr cl net s = ((orgs, e1), s1)" by (metis prod.collapse)
  have q1: "?Q {} s1" using keeps_orgs [OF api_backed [of "{}" cr ord net], of s cr net "[]" "sp_Orgs (fn_Spec net)"] r1 Q by (simp add: reconcileOrgs_def)
  obtain channels e2 s2 where r2: "reconcileChannels cr ord cl net orgs s1 = ((channels, e2), s2)" by (metis prod.collapse)
  have q2: "?Q {} s2" using keeps_channels [OF api_backed [of "{}" cr ord net] q1, of cr ord net orgs] r2 by simp
  obtain chaincodes e3 s3 where r3: "reconcileChaincodes cr gz cl net channels s2 = ((chaincodes, e3), s3)" by (metis prod.collapse)
  have q3: "?Q (log s2) s3" using keeps_chaincodes [OF api_backed [of "log s2" cr ord net], of s2 cr gz net channels] r3 q2 by simp
  obtain orgs' e4 s4 where r4: "reconcileConnectionProfiles cl net orgs s3 = ((orgs', e4), s4)" by (metis prod.collapse)
  have q4: "?Q (log s3) s4" using keeps_profiles [OF api_backed [of "log s3" cr ord net], of s3 net orgs] r4 q3 by simp
  have fail: "allBacked cr ord net (snd (failReconcile cl net failure e orgs channels chaincodes report observability x))" if "?Q {} x"
    for failure e orgs channels chaincodes report observability x
    using ioKeepsD [OF ends_backed(1) that] by simp
  have finish: "allBacked cr ord net (snd (finishReconcile cl net orgs' channels chaincodes s4))" if none: "e2 = None" "e3 = None"
  proof -
    from channel_loop_length [of cr ord cl net orgs "[]"] r2 none have len2: "length channels = length (sp_Channels (fn_Spec net))" by (simp add: reconcileChannels_def)
    from chaincode_loop_length [of cr gz cl net channels "{}" "[]"] r3 none have len3: "length chaincodes = length (sp_Chaincodes (fn_Spec net))" by (simp add: reconcileChaincodes_def)
    from loop_evidence [OF counted(1) r2 [unfolded reconcileChannels_def]]
    have chan: "\<forall>(st, channel) \<in> set (zip channels (sp_Channels (fn_Spec net))). chs_Ready st \<longrightarrow> channelEvidence cr ord net channel (log s2)" by auto
    from chaincode_loop_evidence [OF counted(2) r3 [unfolded reconcileChaincodes_def]]
    have cc: "\<forall>(st, chaincode) \<in> set (zip chaincodes (sp_Chaincodes (fn_Spec net))). ccs_Ready st \<longrightarrow> chaincodeEvidence cr net channels chaincode st (log s3)" by auto
    have "ioKeeps (?Q (log s3)) (finishReconcile cl net orgs' channels chaincodes)"
      by (rule ends_backed(3)) (rule backed_by_stages [OF len2 chan len3 cc], use q3 in blast)
    from ioKeepsD [OF this q4] show ?thesis by simp
  qed
  show ?thesis
    using finish fail [OF q1] fail [OF q2] fail [of s3] fail [of s4] q3 q4
    by (simp add: reconcileStages_def operatorStages_def r1 r2 r3 r4 split: option.splits)
qed

lemma Reconcile_backed:
  assumes read: "cl_GetNetwork cl key s = (Inr net, s1)" and fresh: "patches s = []"
    and counted: "orderersCounted net" "\<And>channel. channel \<in> set (sp_Channels (fn_Spec net)) \<Longrightarrow> int (length (channelTargets channel)) < 2 ^ 31"
  shows "allBacked cr ord net (snd (Reconcile cr cl (operatorStages cr ord gz cl) key s))"
proof -
  let ?Q = "\<lambda>s. {} \<subseteq> log s \<and> allBacked cr ord net s"
  have gets: "ioKeeps ?Q (cl_GetNetwork cl k)" "ioKeeps ?Q (cl_UpdateNetwork cl n)" for k n by (rule keeps_backed [OF get] keeps_backed [OF update])+
  then have finalizer: "ioKeeps ?Q (ensureFabricNetworkFinalizer cl key)" "ioKeeps ?Q (removeFabricNetworkFinalizer cl key)"
    by (intro keeps_finalizer; simp)+
  have q1: "?Q s1" using ioKeepsD [OF gets(1), of s key] read fresh by simp
  have "ioKeeps ?Q (reconcileStages cr cl (operatorStages cr ord gz cl) net)"
    unfolding ioKeeps_def using stages_backed [OF counted] by simp
  then have "ioKeeps ?Q (ioBind (if c then ioReturn () else ensureFabricNetworkFinalizer cl key) (\<lambda>_.
      if d then rejectTopology cl net p else reconcileStages cr cl (operatorStages cr ord gz cl) net))" for c d p
    using finalizer(1) ends_backed(2) [of "{}" cr ord net] by (intro ioKeeps_bind) auto
  from ioKeepsD [OF this q1] ioKeepsD [OF keeps_finalizeNetwork [OF api_backed finalizer(2)] q1] read
  show ?thesis by (simp add: Reconcile_def)
qed

end

interpretation watch: watched "loggedCluster (patchedCluster cl)" "\<lambda>s. set (snd s)" "\<lambda>s. snd (fst s)" for cl
proof unfold_locales
  have carried: "ioKeeps (\<lambda>s. known \<subseteq> set (snd s) \<and> snd (fst s) = ps) (carried (beside f))" for known ps and f :: "('a, 'b) io"
    by (auto simp: ioKeeps_def carried_def beside_def split: prod.splits)
  have "ioKeeps (\<lambda>s. known \<subseteq> set (snd s) \<and> snd (fst s) = ps) (loggedGet (cl_Kube (patchedCluster cl)) k)" for known k ps
    by (fastforce simp: ioKeeps_def loggedGet_def patchedCluster_def beside_def split: prod.splits sum.splits)
  moreover have "ioKeeps (\<lambda>s. known \<subseteq> set (snd s) \<and> snd (fst s) = ps) (ioNow (cl_Kube (loggedCluster (patchedCluster cl))))" for known ps
    by (auto simp: ioKeeps_def ioNow_def loggedCluster_def patchedCluster_def beside_def carried_def split: prod.splits)
  ultimately show "apiKeeps (\<lambda>s. known \<subseteq> set (snd s) \<and> snd (fst s) = ps) (loggedCluster (patchedCluster cl))" for known ps
    unfolding apiKeeps_def by (auto simp: loggedCluster_def patchedCluster_def carried)
qed (auto simp: loggedCluster_def patchedCluster_def carried_def beside_def ioKeeps_def split: prod.splits)

text \<open>
  Claim C14. The phase Ready of a network is earned. Whatever the cluster does during a run of the operator,
  with its own channel and chaincode stages, every status the run sends with phase Ready reports every
  organization ready, and the same run has read the evidence of every declared channel (block, joins,
  anchor peers, external organizations, Raft update) and of every declared chaincode (packages,
  approvals, commit, running servers). The counts of the resource schema are respected.
\<close>

theorem operator_ready_evidence:
  assumes "cl_GetNetwork cl key s = (Inr net, s0)" and "orderersCounted net"
    and "\<And>channel. channel \<in> set (sp_Channels (fn_Spec net)) \<Longrightarrow> int (length (channelTargets channel)) < 2 ^ 31"
    and "Reconcile cr (loggedCluster (patchedCluster cl)) (operatorStages cr ord gz (loggedCluster (patchedCluster cl))) key ((s, []), []) =
      (requeue, ((s1, sent), reads))"
  shows "\<forall>status \<in> set sent. backedStatus cr ord net status (set reads)"
proof -
  have "cl_GetNetwork (loggedCluster (patchedCluster cl)) key ((s, []), []) = (Inr net, ((s0, []), []))"
    by (simp add: loggedCluster_def patchedCluster_def carried_def beside_def assms(1))
  from watch.Reconcile_backed [OF this _ assms(2,3), of cr ord gz] assms(4) show ?thesis by simp
qed

section \<open>A network that becomes ready\<close>

text \<open>An ordering organization whose CA, orderer and identities are all in place.\<close>

definition soloOrg :: Org where
  "soloOrg = tinyOrg\<lparr>org_CA := \<lparr>ca_DB = [], ca_Registrar = None\<rparr>, org_Orderers := [\<lparr>og_GroupName = ''g'', og_Type = ''etcdraft'', og_Instances = 1, og_Prefix = ''ord'', og_ExternalEndpoints = []\<rparr>]\<rparr>"

definition soloNetwork :: FabricNetwork where
  "soloNetwork = tinyNetwork\<lparr>fn_Finalizers := [fabricNetworkFinalizer], fn_Spec := (fn_Spec tinyNetwork)\<lparr>sp_Orgs := [soloOrg]\<rparr>\<rparr>"

definition soloDeployment :: "string \<Rightarrow> string \<Rightarrow> Deployment" where
  "soloDeployment ns n = \<lparr>dep_Meta = \<lparr>mt_Name = n, mt_Namespace = ns, mt_Labels = None, mt_Annotations = None\<rparr>, dep_Generation = 1,
     dep_Replicas = Some 1, dep_Strategy = [], dep_Selector = [], dep_PodLabels = None, dep_PodAnnotations = None, dep_Volumes = [], dep_Containers = [],
     dep_ObservedGeneration = 1, dep_ReadyReplicas = 1, dep_UpdatedReplicas = 1, dep_AvailableReplicas = 1\<rparr>"

definition soloSecret :: "string \<Rightarrow> string \<Rightarrow> Secret" where
  "soloSecret ns n = \<lparr>sec_Meta = \<lparr>mt_Name = n, mt_Namespace = ns, mt_Labels = Some [(labelIdentitySource, identitySourceFabricCA)], mt_Annotations = None\<rparr>,
     sec_Type = ''Opaque'', sec_Data = [(''username'', ''u''), (''password'', ''p''), (''user-pass'', ''u:p''), (''config.yaml'', ''x''), (''cacert.pem'', ''CA''), (''signcert.pem'', ''CB''), (''keystore.pem'', ''K'')]\<rparr>"

definition soloCluster :: "unit Cluster" where
  "soloCluster = (fixedCluster [])\<lparr>cl_Kube := (cl_Kube (fixedCluster []))\<lparr>k_Get := (\<lambda>(kind, ns, n) s. (case kind of
       KDeployment \<Rightarrow> Inr (ODeployment (soloDeployment ns n)) | KSecret \<Rightarrow> Inr (OSecret (soloSecret ns n)) | _ \<Rightarrow> Inl NotFound, s))\<rparr>,
     cl_GetNetwork := (\<lambda>_ s. (Inr soloNetwork, s))\<rparr>"

definition soloRun :: "(ApiError + int) \<times> ((unit \<times> FabricNetworkStatus list) \<times> reads)" where
  "soloRun = Reconcile toy_crypto (loggedCluster (patchedCluster soloCluster))
     (operatorStages toy_crypto id id (loggedCluster (patchedCluster soloCluster))) (''default'', ''net'') (((), []), [])"

lemma solo_run: "map fs_Phase (snd (fst (snd soloRun))) = [PhaseReady]"
  by code_simp

theorem operator_ready_evidence_witness:
  "\<exists>status. snd (fst (snd soloRun)) = [status] \<and> fs_Phase status = PhaseReady \<and> backedStatus toy_crypto id soloNetwork status (set (snd (snd soloRun)))"
proof -
  obtain requeue s1 sent seen where run: "soloRun = (requeue, ((s1, sent), seen))" by (metis surj_pair)
  have "map fs_Phase sent = [PhaseReady]" using solo_run unfolding run by simp
  then obtain status where sent: "sent = [status]" "fs_Phase status = PhaseReady" by (cases sent) auto
  have "\<forall>status \<in> set sent. backedStatus toy_crypto id soloNetwork status (set seen)"
  proof (rule operator_ready_evidence [OF _ _ _ run [unfolded soloRun_def]])
    show "cl_GetNetwork soloCluster (''default'', ''net'') () = (Inr soloNetwork, ())" by (simp add: soloCluster_def)
    have "length (desiredOrdererInstances soloNetwork) = 1" by code_simp
    then show "orderersCounted soloNetwork"
      by (simp add: orderersCounted_def) (simp add: soloNetwork_def tinyNetwork_def soloOrg_def)
  qed (simp add: soloNetwork_def tinyNetwork_def)
  with sent show ?thesis unfolding run by simp
qed

end
