(* ===== verification/Participant_Topology.thy ===== *)
theory Participant_Topology
  imports Topology_Correct
begin

text \<open>
  The \<open>FabricParticipant\<close> resource, \<^verbatim>\<open>fabricparticipant_types.go\<close>, and its validation,
  \<^verbatim>\<open>fabricparticipant_topology.go\<close>: an organization of its own cluster that joins the channels of a
  network it does not manage, from imported artifacts. The validation is shown to accept exactly the
  participants of \<open>wellFormedParticipant\<close>.
\<close>

section \<open>The resource\<close>

record ParticipantArtifactKeyRef =
  par_ConfigMapKeyRef :: "KeySelector option"
  par_SecretKeyRef :: "KeySelector option"

record ParticipantOrdererEndpoint =
  po_Org :: string
  po_Name :: string
  po_ClientAddress :: string
  po_TLSHostnameOverride :: string
  po_AdminAddress :: string
  po_TLSRootCARef :: "ParticipantArtifactKeyRef option"

record ParticipantPeerEndpoint =
  pp_Org :: string
  pp_Name :: string
  pp_Address :: string
  pp_TLSHostnameOverride :: string
  pp_TLSRootCARef :: "ParticipantArtifactKeyRef option"

record ParticipantNetwork =
  pn_Name :: string
  pn_FounderMSPID :: string
  pn_Orderers :: "ParticipantOrdererEndpoint list"
  pn_Peers :: "ParticipantPeerEndpoint list"

record ParticipantAnchorPeer =
  pa_Name :: string
  pa_Host :: string
  pa_Port :: int

record ParticipantChannelMembership =
  pm_ApplicationPolicy :: string
  pm_RequiredSignerMSPIDs :: "string list"

record ParticipantChannel =
  pch_Name :: string
  pch_BlockRef :: ParticipantArtifactKeyRef
  pch_Peers :: "string list"
  pch_AnchorPeers :: "ParticipantAnchorPeer list"
  pch_Membership :: "ParticipantChannelMembership option"

record ParticipantChaincode =
  pcc_Name :: string
  pcc_Channel :: string
  pcc_Version :: string
  pcc_PackageLabel :: string
  pcc_Sequence :: int
  pcc_EndorsementPolicy :: string
  pcc_InitRequired :: bool
  pcc_CollectionConfigHash :: string
  pcc_PackageRef :: "ParticipantArtifactKeyRef option"
  pcc_Image :: string
  pcc_CCAAS :: "ChaincodeAsAService option"

record FabricParticipantSpec =
  ps_Global :: GlobalConfig
  ps_Org :: Org
  ps_Network :: ParticipantNetwork
  ps_Channels :: "ParticipantChannel list"
  ps_Chaincodes :: "ParticipantChaincode list"

record ParticipantChannelStatus =
  pcs_Name :: string
  pcs_BlockReady :: bool
  pcs_Peers :: WorkloadStatus
  pcs_Joined :: bool
  pcs_Ready :: bool
  pcs_Message :: string

record ParticipantChaincodeStatus =
  pks_Name :: string
  pks_Channel :: string
  pks_PackageReady :: bool
  pks_Installed :: bool
  pks_Approved :: bool
  pks_Ready :: bool
  pks_Message :: string

record FabricParticipantStatus =
  fps_Phase :: Phase
  fps_Message :: string
  fps_LocalInfrastructureReady :: bool
  fps_LocalOrgStatus :: OrgStatus
  fps_RemoteArtifactsReady :: bool
  fps_ChannelsReady :: bool
  fps_ChaincodeLifecycleReady :: bool
  fps_ChannelStatus :: "ParticipantChannelStatus list"
  fps_ChaincodeStatus :: "ParticipantChaincodeStatus list"
  fps_Conditions :: "Condition list"

record FabricParticipant =
  fp_Name :: string
  fp_Namespace :: string
  fp_UID :: string
  fp_Generation :: int
  fp_Spec :: FabricParticipantSpec
  fp_Status :: FabricParticipantStatus

section \<open>Validation\<close>

definition requiredText :: "string \<Rightarrow> string \<Rightarrow> string list" where
  "requiredText path v = (if trimSpace v = [] then [path @ '' is required''] else [])"

definition validateParticipantArtifactRef :: "string \<Rightarrow> ParticipantArtifactKeyRef option \<Rightarrow> bool \<Rightarrow> string list" where
  "validateParticipantArtifactRef path ro required =
     (case ro of
        None \<Rightarrow> if required then [path @ '' is required''] else []
      | Some r \<Rightarrow>
          (case (par_ConfigMapKeyRef r, par_SecretKeyRef r) of
             (Some cm, None) \<Rightarrow> validateKeySelector (path @ ''.configMapKeyRef'') cm
           | (None, Some s) \<Rightarrow> validateKeySelector (path @ ''.secretKeyRef'') s
           | _ \<Rightarrow> [path @ '' must set exactly one of configMapKeyRef or secretKeyRef'']))"

definition validateFabricParticipantOrg :: "Org \<Rightarrow> string list" where
  "validateFabricParticipantOrg org =
     requiredText ''spec.org.organization.name'' (om_Name (org_Organization org)) @
     requiredText ''spec.org.organization.domain'' (om_Domain (org_Organization org)) @
     requiredText ''spec.org.organization.mspName'' (om_MSPName (org_Organization org)) @
     (if org_Orderers org \<noteq> []
      then [''spec.org.orderers is not supported for participants; import remote orderers under spec.network.orderers''] else []) @
     (case org_Peer org of
        None \<Rightarrow> [''spec.org.peer must declare at least one participant peer'']
      | Some p \<Rightarrow> if pc_Instances p = 0 then [''spec.org.peer must declare at least one participant peer''] else [])"

text \<open>With TLS the root certificate is required, without it a given one is still checked.\<close>

definition tlsRootProblems :: "bool \<Rightarrow> string \<Rightarrow> ParticipantArtifactKeyRef option \<Rightarrow> string list" where
  "tlsRootProblems tls path ro = validateParticipantArtifactRef (path @ ''.tlsRootCARef'') ro tls"

fun importedOrdererProblems :: "bool \<Rightarrow> nat \<Rightarrow> ParticipantOrdererEndpoint list \<Rightarrow> string list" where
  "importedOrdererProblems tls i [] = []"
| "importedOrdererProblems tls i (orderer # orderers) =
     (let path = ''spec.network.orderers['' @ itoa_nat i @ '']''
      in requiredText (path @ ''.org'') (po_Org orderer) @
         requiredText (path @ ''.name'') (po_Name orderer) @
         validateParticipantEndpoint (path @ ''.clientAddress'') (po_ClientAddress orderer) True @
         validateParticipantEndpoint (path @ ''.adminAddress'') (po_AdminAddress orderer) False @
         tlsRootProblems tls path (po_TLSRootCARef orderer) @
         importedOrdererProblems tls (Suc i) orderers)"

definition importedPeerKey :: "ParticipantPeerEndpoint \<Rightarrow> string" where
  "importedPeerKey peer = toLower (trimSpace (pp_Org peer) @ ''/'' @ trimSpace (pp_Name peer))"

fun importedPeerProblems :: "bool \<Rightarrow> nat \<Rightarrow> string set \<Rightarrow> ParticipantPeerEndpoint list \<Rightarrow> string list" where
  "importedPeerProblems tls i seen [] = []"
| "importedPeerProblems tls i seen (peer # peers) =
     (let path = ''spec.network.peers['' @ itoa_nat i @ '']''; orgName = trimSpace (pp_Org peer); peerName = trimSpace (pp_Name peer);
          named = (orgName \<noteq> [] \<and> peerName \<noteq> []); key = importedPeerKey peer
      in requiredText (path @ ''.org'') orgName @
         requiredText (path @ ''.name'') peerName @
         (if named \<and> key \<in> seen then [''imported peer '' @ goquote (orgName @ ''/'' @ peerName) @ '' is declared more than once''] else []) @
         validateParticipantEndpoint (path @ ''.address'') (pp_Address peer) True @
         tlsRootProblems tls path (pp_TLSRootCARef peer) @
         importedPeerProblems tls (Suc i) (if named then insert key seen else seen) peers)"

definition validateParticipantNetwork :: "bool \<Rightarrow> ParticipantNetwork \<Rightarrow> string list" where
  "validateParticipantNetwork tls network =
     requiredText ''spec.network.name'' (pn_Name network) @
     (if pn_Orderers network = [] then [''spec.network.orderers must include at least one reachable orderer''] else []) @
     importedOrdererProblems tls 0 (pn_Orderers network) @
     importedPeerProblems tls 0 {} (pn_Peers network)"

fun participantAnchorProblems :: "string \<Rightarrow> nat \<Rightarrow> ParticipantAnchorPeer list \<Rightarrow> string list" where
  "participantAnchorProblems path j [] = []"
| "participantAnchorProblems path j (anchor # anchors) =
     (let anchorPath = path @ ''.anchorPeers['' @ itoa_nat j @ '']''
      in requiredText (anchorPath @ ''.name'') (pa_Name anchor) @
         requiredText (anchorPath @ ''.host'') (pa_Host anchor) @
         (if pa_Port anchor \<le> 0 \<or> pa_Port anchor > 65535 then [anchorPath @ ''.port must be between 1 and 65535''] else []) @
         participantAnchorProblems path (Suc j) anchors)"

fun requiredSignerProblems :: "string \<Rightarrow> nat \<Rightarrow> string list \<Rightarrow> string list" where
  "requiredSignerProblems path j [] = []"
| "requiredSignerProblems path j (mspID # mspIDs) =
     requiredText (path @ ''.membership.requiredSignerMSPIDs['' @ itoa_nat j @ '']'') mspID @ requiredSignerProblems path (Suc j) mspIDs"

fun participantChannelProblems :: "Org \<Rightarrow> nat \<Rightarrow> string set \<Rightarrow> ParticipantChannel list \<Rightarrow> string list" where
  "participantChannelProblems org i seen [] = []"
| "participantChannelProblems org i seen (channel # channels) =
     (let path = ''spec.channels['' @ itoa_nat i @ '']''; channelName = trimSpace (pch_Name channel);
          unknownPeers = unknownChannelPeers org (pch_Peers channel)
      in (if channelName = [] then [path @ ''.name is required'']
          else if channelName \<in> seen then [''participant channel '' @ goquote channelName @ '' is declared more than once''] else []) @
         validateParticipantArtifactRef (path @ ''.blockRef'') (Some (pch_BlockRef channel)) True @
         (if pch_Peers channel = [] then [''participant channel '' @ goquote channelName @ '' must include at least one peer'']
          else if unknownPeers \<noteq> []
          then [''participant channel '' @ goquote channelName @ '' references unknown local peers: '' @ joinWith '', '' unknownPeers] else []) @
         participantAnchorProblems path 0 (pch_AnchorPeers channel) @
         (case pch_Membership channel of None \<Rightarrow> [] | Some m \<Rightarrow> requiredSignerProblems path 0 (pm_RequiredSignerMSPIDs m)) @
         participantChannelProblems org (Suc i) (insert channelName seen) channels)"

definition validateParticipantChannels :: "Org \<Rightarrow> ParticipantChannel list \<Rightarrow> string list" where
  "validateParticipantChannels org channels = participantChannelProblems org 0 {} channels"

definition definitionKey :: "ParticipantChaincode \<Rightarrow> string" where
  "definitionKey chaincode = trimSpace (pcc_Channel chaincode) @ ''/'' @ trimSpace (pcc_Name chaincode)"

fun participantChaincodeProblems :: "string set \<Rightarrow> nat \<Rightarrow> string set \<Rightarrow> ParticipantChaincode list \<Rightarrow> string list" where
  "participantChaincodeProblems channelNames i seen [] = []"
| "participantChaincodeProblems channelNames i seen (chaincode # chaincodes) =
     (let path = ''spec.chaincodes['' @ itoa_nat i @ '']''; chaincodeName = trimSpace (pcc_Name chaincode); channelName = trimSpace (pcc_Channel chaincode);
          named = (chaincodeName \<noteq> [] \<and> channelName \<noteq> []); key = definitionKey chaincode
      in requiredText (path @ ''.name'') chaincodeName @
         (if channelName = [] then [path @ ''.channel is required'']
          else if channelName \<notin> channelNames
          then [''participant chaincode '' @ goquote chaincodeName @ '' references unknown channel '' @ goquote channelName] else []) @
         (if named \<and> key \<in> seen
          then [''participant chaincode '' @ goquote chaincodeName @ '' is declared more than once on channel '' @ goquote channelName] else []) @
         requiredText (path @ ''.version'') (pcc_Version chaincode) @
         requiredText (path @ ''.packageLabel'') (pcc_PackageLabel chaincode) @
         (if pcc_Sequence chaincode \<le> 0 then [path @ ''.sequence must be greater than zero''] else []) @
         (if pcc_PackageRef chaincode = None \<and> trimSpace (pcc_Image chaincode) = [] then [path @ ''.packageRef or image is required''] else []) @
         validateParticipantArtifactRef (path @ ''.packageRef'') (pcc_PackageRef chaincode) False @
         participantChaincodeProblems channelNames (Suc i) (if named then insert key seen else seen) chaincodes)"

definition validateParticipantChaincodes :: "ParticipantChannel list \<Rightarrow> ParticipantChaincode list \<Rightarrow> string list" where
  "validateParticipantChaincodes channels chaincodes = participantChaincodeProblems (set (map pch_Name channels)) 0 {} chaincodes"

definition validateFabricParticipantTopology :: "FabricParticipant \<Rightarrow> string list" where
  "validateFabricParticipantTopology participant =
     (let spec = fp_Spec participant; tls = gl_TLS (ps_Global spec)
      in requiredText ''spec.global.fabricVersion'' (gl_FabricVersion (ps_Global spec)) @
         (if ps_Channels spec \<noteq> [] \<and> \<not> tls then [''spec.global.tls must be true when participant channels are declared''] else []) @
         validateFabricParticipantOrg (ps_Org spec) @
         validateParticipantNetwork tls (ps_Network spec) @
         validateParticipantChannels (ps_Org spec) (ps_Channels spec) @
         validateParticipantChaincodes (ps_Channels spec) (ps_Chaincodes spec))"

section \<open>What validation accepts\<close>

definition participantRefOk :: "ParticipantArtifactKeyRef \<Rightarrow> bool" where
  "participantRefOk r \<longleftrightarrow> (\<exists>k. (par_ConfigMapKeyRef r = Some k \<and> par_SecretKeyRef r = None \<or>
                    par_ConfigMapKeyRef r = None \<and> par_SecretKeyRef r = Some k) \<and>
                   trimSpace (ks_Name k) \<noteq> [] \<and> trimSpace (ks_Key k) \<noteq> [])"

definition tlsRootOk :: "bool \<Rightarrow> ParticipantArtifactKeyRef option \<Rightarrow> bool" where
  "tlsRootOk tls ro \<longleftrightarrow> (case ro of None \<Rightarrow> \<not> tls | Some r \<Rightarrow> participantRefOk r)"

definition participantChannelOk :: "Org \<Rightarrow> ParticipantChannel \<Rightarrow> bool" where
  "participantChannelOk org channel \<longleftrightarrow>
     trimSpace (pch_Name channel) \<noteq> [] \<and> participantRefOk (pch_BlockRef channel) \<and>
     pch_Peers channel \<noteq> [] \<and> unknownChannelPeers org (pch_Peers channel) = [] \<and>
     (\<forall>anchor \<in> set (pch_AnchorPeers channel). trimSpace (pa_Name anchor) \<noteq> [] \<and> trimSpace (pa_Host anchor) \<noteq> [] \<and>
        0 < pa_Port anchor \<and> pa_Port anchor \<le> 65535) \<and>
     (\<forall>m. pch_Membership channel = Some m \<longrightarrow> (\<forall>mspID \<in> set (pm_RequiredSignerMSPIDs m). trimSpace mspID \<noteq> []))"

definition participantChaincodeOk :: "string set \<Rightarrow> ParticipantChaincode \<Rightarrow> bool" where
  "participantChaincodeOk channelNames chaincode \<longleftrightarrow>
     trimSpace (pcc_Name chaincode) \<noteq> [] \<and> trimSpace (pcc_Channel chaincode) \<noteq> [] \<and> trimSpace (pcc_Channel chaincode) \<in> channelNames \<and>
     trimSpace (pcc_Version chaincode) \<noteq> [] \<and> trimSpace (pcc_PackageLabel chaincode) \<noteq> [] \<and> 0 < pcc_Sequence chaincode \<and>
     (case pcc_PackageRef chaincode of None \<Rightarrow> trimSpace (pcc_Image chaincode) \<noteq> [] | Some r \<Rightarrow> participantRefOk r)"

text \<open>
  A participant that can be reconciled: its organization is named, has peers and no orderers; at least
  one orderer of the network is reachable; every imported endpoint has an address and, with TLS, a root
  certificate; channels and chaincode definitions are declared once, with local peers, and refer to each other.
\<close>

definition wellFormedParticipant :: "FabricParticipant \<Rightarrow> bool" where
  "wellFormedParticipant participant \<longleftrightarrow>
     (let spec = fp_Spec participant; tls = gl_TLS (ps_Global spec); org = ps_Org spec; network = ps_Network spec
      in trimSpace (gl_FabricVersion (ps_Global spec)) \<noteq> [] \<and> (ps_Channels spec \<noteq> [] \<longrightarrow> tls) \<and>
         trimSpace (om_Name (org_Organization org)) \<noteq> [] \<and> trimSpace (om_Domain (org_Organization org)) \<noteq> [] \<and>
         trimSpace (om_MSPName (org_Organization org)) \<noteq> [] \<and> org_Orderers org = [] \<and>
         (\<exists>p. org_Peer org = Some p \<and> pc_Instances p \<noteq> 0) \<and>
         trimSpace (pn_Name network) \<noteq> [] \<and> pn_Orderers network \<noteq> [] \<and>
         (\<forall>node \<in> set (pn_Orderers network). trimSpace (po_Org node) \<noteq> [] \<and> trimSpace (po_Name node) \<noteq> [] \<and> endpointOk (po_ClientAddress node) \<and>
            (trimSpace (po_AdminAddress node) \<noteq> [] \<longrightarrow> endpointOk (po_AdminAddress node)) \<and> tlsRootOk tls (po_TLSRootCARef node)) \<and>
         (\<forall>p \<in> set (pn_Peers network). trimSpace (pp_Org p) \<noteq> [] \<and> trimSpace (pp_Name p) \<noteq> [] \<and> endpointOk (pp_Address p) \<and>
            tlsRootOk tls (pp_TLSRootCARef p)) \<and> distinct (map importedPeerKey (pn_Peers network)) \<and>
         (\<forall>c \<in> set (ps_Channels spec). participantChannelOk org c) \<and> distinct (map (\<lambda>c. trimSpace (pch_Name c)) (ps_Channels spec)) \<and>
         (\<forall>c \<in> set (ps_Chaincodes spec). participantChaincodeOk (set (map pch_Name (ps_Channels spec))) c) \<and>
         distinct (map definitionKey (ps_Chaincodes spec)))"

lemma requiredText_nil [validator]: "requiredText path v = [] \<longleftrightarrow> trimSpace v \<noteq> []"
  by (simp add: requiredText_def)

lemma validateParticipantArtifactRef_nil [validator]:
  "validateParticipantArtifactRef path ro required = [] \<longleftrightarrow> (case ro of None \<Rightarrow> \<not> required | Some r \<Rightarrow> participantRefOk r)"
  by (auto simp: validateParticipantArtifactRef_def participantRefOk_def validateKeySelector_def split: option.splits)

lemma tlsRootProblems_nil [validator]: "tlsRootProblems tls path ro = [] \<longleftrightarrow> tlsRootOk tls ro"
  by (simp add: tlsRootProblems_def tlsRootOk_def validator)

lemma optional_endpoint_nil [validator]:
  "validateParticipantEndpoint path address False = [] \<longleftrightarrow> (trimSpace address \<noteq> [] \<longrightarrow> endpointOk address)"
  using validateParticipantEndpoint_nil [of path address]
  by (cases "trimSpace address = []") (simp_all add: validateParticipantEndpoint_def)

lemma importedOrdererProblems_nil [validator]:
  "importedOrdererProblems tls i orderers = [] \<longleftrightarrow>
     (\<forall>node \<in> set orderers. trimSpace (po_Org node) \<noteq> [] \<and> trimSpace (po_Name node) \<noteq> [] \<and> endpointOk (po_ClientAddress node) \<and>
        (trimSpace (po_AdminAddress node) \<noteq> [] \<longrightarrow> endpointOk (po_AdminAddress node)) \<and> tlsRootOk tls (po_TLSRootCARef node))"
  by (induction tls i orderers rule: importedOrdererProblems.induct) (auto simp: validator Let_def)

lemma importedPeerProblems_nil [validator]:
  "importedPeerProblems tls i seen peers = [] \<longleftrightarrow>
     (\<forall>p \<in> set peers. trimSpace (pp_Org p) \<noteq> [] \<and> trimSpace (pp_Name p) \<noteq> [] \<and> endpointOk (pp_Address p) \<and> tlsRootOk tls (pp_TLSRootCARef p)) \<and>
     distinct (map importedPeerKey peers) \<and> (\<forall>p \<in> set peers. importedPeerKey p \<notin> seen)"
proof (induction peers arbitrary: i seen)
  case (Cons peer peers)
  show ?case
    by (cases "trimSpace (pp_Org peer) = [] \<or> trimSpace (pp_Name peer) = []") (auto simp: validator Let_def Cons.IH image_iff)
qed simp

lemma participantAnchorProblems_nil [validator]:
  "participantAnchorProblems path j anchors = [] \<longleftrightarrow>
     (\<forall>anchor \<in> set anchors. trimSpace (pa_Name anchor) \<noteq> [] \<and> trimSpace (pa_Host anchor) \<noteq> [] \<and> 0 < pa_Port anchor \<and> pa_Port anchor \<le> 65535)"
  by (induction path j anchors rule: participantAnchorProblems.induct) (auto simp: validator Let_def)

lemma requiredSignerProblems_nil [validator]:
  "requiredSignerProblems path j mspIDs = [] \<longleftrightarrow> (\<forall>mspID \<in> set mspIDs. trimSpace mspID \<noteq> [])"
  by (induction path j mspIDs rule: requiredSignerProblems.induct) (auto simp: validator)

lemma participantChannelProblems_nil [validator]:
  "participantChannelProblems org i seen channels = [] \<longleftrightarrow>
     (\<forall>c \<in> set channels. participantChannelOk org c) \<and> distinct (map (\<lambda>c. trimSpace (pch_Name c)) channels) \<and>
     (\<forall>c \<in> set channels. trimSpace (pch_Name c) \<notin> seen)"
proof (induction channels arbitrary: i seen)
  case (Cons channel channels)
  show ?case by (auto simp: validator Let_def participantChannelOk_def Cons.IH image_iff split: option.splits)
qed simp

lemma participantChaincodeProblems_nil [validator]:
  "participantChaincodeProblems channelNames i seen chaincodes = [] \<longleftrightarrow>
     (\<forall>c \<in> set chaincodes. participantChaincodeOk channelNames c) \<and> distinct (map definitionKey chaincodes) \<and>
     (\<forall>c \<in> set chaincodes. definitionKey c \<notin> seen)"
proof (induction chaincodes arbitrary: i seen)
  case (Cons chaincode chaincodes)
  show ?case
    by (cases "trimSpace (pcc_Name chaincode) = [] \<or> trimSpace (pcc_Channel chaincode) = []")
      (auto simp: validator Let_def participantChaincodeOk_def Cons.IH image_iff split: option.splits)
qed simp

text \<open>
  Claim C22. Validation of a participant is exact: it reports no problem for the well-formed participants
  and only for them.
\<close>

theorem participant_accepts_iff: "validateFabricParticipantTopology participant = [] \<longleftrightarrow> wellFormedParticipant participant"
  by (auto simp: validateFabricParticipantTopology_def wellFormedParticipant_def validateFabricParticipantOrg_def validateParticipantNetwork_def
      validateParticipantChannels_def validateParticipantChaincodes_def validator Let_def split: option.splits)

end
