(* ===== verification/Participants.thy ===== *)
theory Participants
  imports Participant_Topology Chaincodes
begin

text \<open>
  The participant controller, \<^verbatim>\<open>fabricparticipant_controller.go\<close>, \<^verbatim>\<open>fabricparticipant_channel.go\<close> and
  \<^verbatim>\<open>fabricparticipant_chaincode.go\<close>. A participant reconciles its own organization as a network of one
  organization, then joins its peers to the channels whose blocks were imported, then installs and
  approves the chaincode definitions. Each stage runs only when the ones before it are ready.
\<close>

section \<open>One organization, with the status reached so far\<close>

text \<open>
  \<open>reconcileOrg\<close> returns its status also together with an error; the participant reports that status.
  A step that fails ends the run with the status so far.
\<close>

type_synonym ('s, 'a) progress = "'s \<Rightarrow> ('a \<times> ApiError option) \<times> 's"

definition attempt :: "('s, 'a) io \<Rightarrow> 'b \<Rightarrow> ('a \<Rightarrow> ('s, 'b) progress) \<Rightarrow> ('s, 'b) progress" where
  "attempt f sofar k s = (case f s of (Inl e, s1) \<Rightarrow> ((sofar, Some e), s1) | (Inr a, s1) \<Rightarrow> k a s1)"

definition reached :: "'b \<Rightarrow> ('s, 'b) progress" where
  "reached b s = ((b, None), s)"

definition orgWorkloadsProgress :: "Crypto \<Rightarrow> 's Cluster \<Rightarrow> FabricNetwork \<Rightarrow> Org \<Rightarrow> string \<Rightarrow> OrgStatus \<Rightarrow> ('s, OrgStatus) progress" where
  "orgWorkloadsProgress cr cl net org namespace status =
     (if \<not> os_IdentityReady status then
        reached (status\<lparr>os_Orderers := desiredOrdererStatus org, os_OrderersReady := workloadReady (desiredOrdererStatus org),
          os_Peers := desiredPeerStatus org, os_PeersReady := workloadReady (desiredPeerStatus org), os_Ready := False\<rparr>)
      else
        attempt (reconcileOrderers cr cl net org namespace) status (\<lambda>orderers.
        (let status1 = status\<lparr>os_Orderers := orderers, os_OrderersReady := workloadReady orderers\<rparr> in
         attempt (reconcilePeers cr cl net org namespace) status1 (\<lambda>peers.
           reached (status1\<lparr>os_Peers := peers, os_PeersReady := workloadReady peers,
             os_Ready := (os_IdentityReady status \<and> os_CAReady status \<and> workloadReady orderers \<and> workloadReady peers)\<rparr>)))))"

definition orgProgress :: "Crypto \<Rightarrow> 's Cluster \<Rightarrow> FabricNetwork \<Rightarrow> Org \<Rightarrow> ('s, OrgStatus) progress" where
  "orgProgress cr cl net org =
     (let api = cl_Kube cl; namespace = orgNamespaceName net org;
          (ca, orderers, peers) = orgEndpointStatus org namespace;
          status = zeroOrgStatus\<lparr>os_Name := om_Name (org_Organization org), os_Namespace := namespace, os_CAEndpoint := ca,
            os_OrdererEndpoints := orderers, os_PeerEndpoints := peers\<rparr>
      in attempt (ensureOrgPolicies cl net org namespace) status (\<lambda>_.
         attempt (reconcileIdentityMaterial cr api net org namespace) status (\<lambda>_.
         attempt (reconcileCA cl net org namespace) status (\<lambda>caReady.
         (let status1 = status\<lparr>os_CAReady := caReady\<rparr> in
          attempt (reconcileCARegistrarRotation cr api net org namespace caReady) status1 (\<lambda>registrarRotation.
          (let status2 = status1\<lparr>os_CARegistrarRotation := registrarRotation\<rparr>; blocked = caRegistrarRotationBlocksWork registrarRotation in
           attempt (if caReady \<and> \<not> blocked
                    then ioBind (reconcileAdminEnrollment cr api net org namespace) (\<lambda>_. reconcileWorkloadEnrollments cr api net org namespace)
                    else ioReturn ()) status2 (\<lambda>_.
           attempt (identityMaterialStatus cr api net org namespace) status2 (\<lambda>(identityReady, identityError).
           (let status3 = status2\<lparr>os_IdentityReady := identityReady, os_IdentityError := identityError\<rparr> in
            attempt (reconcileCertificateLifecycle cr api net org namespace caReady identityReady blocked) status3
              (\<lambda>(certificates, renewalRequired, renewalError).
               orgWorkloadsProgress cr cl net org namespace
                 (status3\<lparr>os_Certificates := certificates, os_CertificateRenewalRequired := renewalRequired,
                   os_CertificateRenewalError := renewalError\<rparr>))))))))))))"

section \<open>The local network and the imported artifacts\<close>

definition participantLocalNetworkName :: "string \<Rightarrow> string" where
  "participantLocalNetworkName name = sanitizeName (''fp-'' @ name)"

definition zeroNetworkStatus :: FabricNetworkStatus where
  "zeroNetworkStatus = \<lparr>fs_Phase = PhaseUnset, fs_Message = [], fs_OrgStatus = [], fs_ChannelStatus = [], fs_ChaincodeStatus = [], fs_Conditions = []\<rparr>"

definition participantLocalFabricNetwork :: "FabricParticipant \<Rightarrow> FabricNetwork" where
  "participantLocalFabricNetwork participant =
     \<lparr>fn_Name = participantLocalNetworkName (fp_Name participant), fn_Namespace = fp_Namespace participant, fn_UID = fp_UID participant,
      fn_Generation = 0, fn_Finalizers = [], fn_DeletionTimestamp = None,
      fn_Spec = \<lparr>sp_Global = ps_Global (fp_Spec participant), sp_Orgs = [ps_Org (fp_Spec participant)], sp_Channels = [], sp_Chaincodes = []\<rparr>,
      fn_Status = zeroNetworkStatus\<rparr>"

definition reconcileParticipantLocalOrg :: "Crypto \<Rightarrow> 's Cluster \<Rightarrow> FabricParticipant \<Rightarrow> ('s, OrgStatus) progress" where
  "reconcileParticipantLocalOrg cr cl participant =
     orgProgress cr cl (participantLocalFabricNetwork participant) (ps_Org (fp_Spec participant))"

definition participantChannelKey :: "string \<Rightarrow> string" where
  "participantChannelKey channelName = toLower (trimSpace channelName)"

definition participantChaincodeKey :: "string \<Rightarrow> string \<Rightarrow> string" where
  "participantChaincodeKey channelName chaincodeName = participantChannelKey channelName @ ''/'' @ toLower (trimSpace chaincodeName)"

text \<open>The zero value of an absent key of a map of flags is false.\<close>

definition goFlag :: "(string, bool) gomap \<Rightarrow> string \<Rightarrow> bool" where
  "goFlag m k \<longleftrightarrow> map_of m k = Some True"

record participantArtifactStatus =
  as_ready :: bool
  as_message :: string
  as_channelBlocks :: "(string, bool) gomap"
  as_chaincodePackages :: "(string, bool) gomap"

text \<open>
  The checks of one reference: nothing when it is ready, else the entry for the list of missing artifacts.
  A Secret read from the server has no \<^verbatim>\<open>StringData\<close>.
\<close>

definition keyFound :: "string \<Rightarrow> string \<Rightarrow> string \<Rightarrow> KeySelector \<Rightarrow> (string \<Rightarrow> bool) option \<Rightarrow> string option" where
  "keyFound kind path namespace ref found =
     (case found of
        None \<Rightarrow> Some (path @ '' '' @ kind @ '' '' @ namespace @ ''/'' @ ks_Name ref @ '' is missing'')
      | Some has \<Rightarrow> if has (ks_Key ref) then None
                    else Some (path @ '' '' @ kind @ '' '' @ namespace @ ''/'' @ ks_Name ref @ '' is missing key '' @ goquote (ks_Key ref)))"

definition unreadable :: "'s Cluster \<Rightarrow> string \<Rightarrow> string \<Rightarrow> string \<Rightarrow> KeySelector \<Rightarrow> ApiError \<Rightarrow> string" where
  "unreadable cl kind path namespace ref e =
     path @ '' '' @ kind @ '' '' @ namespace @ ''/'' @ ks_Name ref @ '' could not be read: '' @ cl_ErrorText cl e"

definition configMapHas :: "ConfigMap \<Rightarrow> string \<Rightarrow> bool" where
  "configMapHas c k \<longleftrightarrow> map_of (cm_Data c) k \<noteq> None \<or> map_of (cm_BinaryData c) k \<noteq> None"

definition participantConfigMapKeyReady :: "'s Cluster \<Rightarrow> string \<Rightarrow> string \<Rightarrow> KeySelector \<Rightarrow> ('s, string option) io" where
  "participantConfigMapKeyReady cl namespace path ref =
     ioBind (ioTry (getConfigMap (cl_Kube cl) namespace (ks_Name ref))) (\<lambda>r. ioReturn
       (case r of Inl e \<Rightarrow> Some (unreadable cl ''ConfigMap'' path namespace ref e)
                | Inr found \<Rightarrow> keyFound ''ConfigMap'' path namespace ref (map_option configMapHas found)))"

definition participantSecretKeyReady :: "'s Cluster \<Rightarrow> string \<Rightarrow> string \<Rightarrow> KeySelector \<Rightarrow> ('s, string option) io" where
  "participantSecretKeyReady cl namespace path ref =
     ioBind (ioTry (getSecret (cl_Kube cl) namespace (ks_Name ref))) (\<lambda>r. ioReturn
       (case r of Inl e \<Rightarrow> Some (unreadable cl ''Secret'' path namespace ref e)
                | Inr found \<Rightarrow> keyFound ''Secret'' path namespace ref (map_option (\<lambda>sec k. map_of (sec_Data sec) k \<noteq> None) found)))"

definition participantArtifactRefReady :: "'s Cluster \<Rightarrow> string \<Rightarrow> string \<Rightarrow> ParticipantArtifactKeyRef option \<Rightarrow> ('s, string option) io" where
  "participantArtifactRefReady cl namespace path ref =
     (case ref of
        None \<Rightarrow> ioReturn (Some (path @ '' is required''))
      | Some r \<Rightarrow>
          (case par_ConfigMapKeyRef r of
             Some c \<Rightarrow> participantConfigMapKeyReady cl namespace (path @ ''.configMapKeyRef'') c
           | None \<Rightarrow>
               (case par_SecretKeyRef r of
                  Some c \<Rightarrow> participantSecretKeyReady cl namespace (path @ ''.secretKeyRef'') c
                | None \<Rightarrow> ioReturn (Some (path @ '' must set configMapKeyRef or secretKeyRef'')))))"

fun checkRefs :: "'s Cluster \<Rightarrow> string \<Rightarrow> (string \<times> ParticipantArtifactKeyRef option) list \<Rightarrow> ('s, string option list) io" where
  "checkRefs cl namespace [] = ioReturn []"
| "checkRefs cl namespace ((path, ref) # refs) =
     ioBind (participantArtifactRefReady cl namespace path ref) (\<lambda>r. ioBind (checkRefs cl namespace refs) (\<lambda>rs. ioReturn (r # rs)))"

definition indexedPath :: "string \<Rightarrow> nat \<Rightarrow> string \<Rightarrow> string" where
  "indexedPath list i field = list @ ''['' @ itoa_nat i @ '']'' @ field"

definition tlsRootRefs :: "FabricParticipantSpec \<Rightarrow> (string \<times> ParticipantArtifactKeyRef option) list" where
  "tlsRootRefs spec =
     (if \<not> gl_TLS (ps_Global spec) then []
      else map (\<lambda>(i, orderer). (indexedPath ''spec.network.orderers'' i ''.tlsRootCARef'', po_TLSRootCARef orderer)) (enumerate 0 (pn_Orderers (ps_Network spec))) @
           map (\<lambda>(i, peer). (indexedPath ''spec.network.peers'' i ''.tlsRootCARef'', pp_TLSRootCARef peer)) (enumerate 0 (pn_Peers (ps_Network spec))))"

definition blockRefs :: "FabricParticipantSpec \<Rightarrow> (string \<times> ParticipantArtifactKeyRef option) list" where
  "blockRefs spec = map (\<lambda>(i, channel). (indexedPath ''spec.channels'' i ''.blockRef'', Some (pch_BlockRef channel))) (enumerate 0 (ps_Channels spec))"

definition importedPackages :: "FabricParticipantSpec \<Rightarrow> (nat \<times> ParticipantChaincode) list" where
  "importedPackages spec = filter (\<lambda>(i, chaincode). pcc_PackageRef chaincode \<noteq> None) (enumerate 0 (ps_Chaincodes spec))"

definition packageRefs :: "FabricParticipantSpec \<Rightarrow> (string \<times> ParticipantArtifactKeyRef option) list" where
  "packageRefs spec = map (\<lambda>(i, chaincode). (indexedPath ''spec.chaincodes'' i ''.packageRef'', pcc_PackageRef chaincode)) (importedPackages spec)"

definition setFlags :: "(string \<times> bool) list \<Rightarrow> (string, bool) gomap" where
  "setFlags flags = foldl (\<lambda>m (k, v). go_set m k v) [] flags"

definition participantRemoteArtifactStatus :: "'s Cluster \<Rightarrow> FabricParticipant \<Rightarrow> ('s, participantArtifactStatus) io" where
  "participantRemoteArtifactStatus cl participant =
     (let spec = fp_Spec participant; namespace = fp_Namespace participant in
      ioBind (checkRefs cl namespace (tlsRootRefs spec)) (\<lambda>roots.
      ioBind (checkRefs cl namespace (blockRefs spec)) (\<lambda>blocks.
      ioBind (checkRefs cl namespace (packageRefs spec)) (\<lambda>packages.
        (let missing = List.map_filter id (roots @ blocks @ packages)
         in ioReturn \<lparr>as_ready = (missing = []),
              as_message = (if missing = [] then ''All imported network artifacts are present''
                else ''Missing imported network artifacts: '' @ joinWith ''; '' missing),
              as_channelBlocks = setFlags (zip (map (\<lambda>c. participantChannelKey (pch_Name c)) (ps_Channels spec)) (map (\<lambda>r. r = None) blocks)),
              as_chaincodePackages = setFlags (zip (map (\<lambda>(i, c). participantChaincodeKey (pcc_Channel c) (pcc_Name c)) (importedPackages spec))
                (map (\<lambda>r. r = None) packages))\<rparr>)))))"

section \<open>Reading an artifact\<close>

definition participantConfigMapBytes :: "'s Kube \<Rightarrow> string \<Rightarrow> KeySelector \<Rightarrow> ('s, bytes) io" where
  "participantConfigMapBytes api namespace ref =
     ioBind (getConfigMap api namespace (ks_Name ref)) (\<lambda>found. liftText
       (case found of
          None \<Rightarrow> Inl (''configmap '' @ namespace @ ''/'' @ ks_Name ref @ '' is missing'')
        | Some c \<Rightarrow>
            (case map_of (cm_BinaryData c) (ks_Key ref) of
               Some v \<Rightarrow> Inr v
             | None \<Rightarrow>
                 (case map_of (cm_Data c) (ks_Key ref) of
                    Some v \<Rightarrow> Inr v
                  | None \<Rightarrow> Inl (''configmap '' @ namespace @ ''/'' @ ks_Name ref @ '' is missing key '' @ goquote (ks_Key ref))))))"

definition participantSecretBytes :: "'s Kube \<Rightarrow> string \<Rightarrow> KeySelector \<Rightarrow> ('s, bytes) io" where
  "participantSecretBytes api namespace ref =
     ioBind (getSecret api namespace (ks_Name ref)) (\<lambda>found. liftText
       (case found of
          None \<Rightarrow> Inl (''secret '' @ namespace @ ''/'' @ ks_Name ref @ '' is missing'')
        | Some sec \<Rightarrow>
            (case map_of (sec_Data sec) (ks_Key ref) of
               Some v \<Rightarrow> Inr v
             | None \<Rightarrow> Inl (''secret '' @ namespace @ ''/'' @ ks_Name ref @ '' is missing key '' @ goquote (ks_Key ref)))))"

definition participantArtifactBytes :: "'s Kube \<Rightarrow> string \<Rightarrow> ParticipantArtifactKeyRef option \<Rightarrow> ('s, bytes) io" where
  "participantArtifactBytes api namespace ref =
     (case ref of
        None \<Rightarrow> ioFail (OtherError ''artifact ref is required'')
      | Some r \<Rightarrow>
          (case par_ConfigMapKeyRef r of
             Some c \<Rightarrow> participantConfigMapBytes api namespace c
           | None \<Rightarrow>
               (case par_SecretKeyRef r of
                  Some c \<Rightarrow> participantSecretBytes api namespace c
                | None \<Rightarrow> ioFail (OtherError ''artifact ref must set configMapKeyRef or secretKeyRef''))))"

section \<open>Joining channels\<close>

definition participantChannelAsNetworkChannel :: "ParticipantChannel \<Rightarrow> Org \<Rightarrow> Channel" where
  "participantChannelAsNetworkChannel channel org =
     \<lparr>ch_Name = pch_Name channel,
      ch_Orgs = [\<lparr>co_Name = om_Name (org_Organization org), co_Peers = pch_Peers channel, co_SignedUpdateRef = None\<rparr>],
      ch_ExternalOrgs = [], ch_RaftUpdate = None\<rparr>"

definition ensureParticipantChannelBlockConfigMap ::
  "'s Kube \<Rightarrow> FabricNetwork \<Rightarrow> Org \<Rightarrow> string \<Rightarrow> ParticipantChannel \<Rightarrow> ('s, unit) io" where
  "ensureParticipantChannelBlockConfigMap api net org namespace channel =
     ioBind (participantArtifactBytes api (fn_Namespace net) (Some (pch_BlockRef channel))) (\<lambda>block.
       ensureConfigMap api
         \<lparr>cm_Meta = \<lparr>mt_Name = channelBlockConfigMapName (pch_Name channel), mt_Namespace = namespace,
            mt_Labels = Some (channelLabels net org (pch_Name channel)), mt_Annotations = Some (resourceAnnotations net org)\<rparr>,
          cm_Data = [], cm_BinaryData = [(channelBlockFileName (pch_Name channel), block)], cm_Immutable = False\<rparr>)"

definition newChannelStatus :: "ParticipantChannel \<Rightarrow> bool \<Rightarrow> string \<Rightarrow> ParticipantChannelStatus" where
  "newChannelStatus channel blockReady message =
     \<lparr>pcs_Name = pch_Name channel, pcs_BlockReady = blockReady, pcs_Peers = \<lparr>ws_Desired = int32_of (int (length (pch_Peers channel))), ws_Ready = 0\<rparr>,
      pcs_Joined = False, pcs_Ready = False, pcs_Message = message\<rparr>"

text \<open>The peers in turn: the number joined, and the message that ends the loop early.\<close>

fun participantJoinLoop ::
  "'s Kube \<Rightarrow> FabricNetwork \<Rightarrow> Org \<Rightarrow> string \<Rightarrow> ParticipantChannel \<Rightarrow> int \<Rightarrow> string list \<Rightarrow> ('s, int \<times> string) io" where
  "participantJoinLoop api net org namespace channel ready [] = ioReturn (ready, [])"
| "participantJoinLoop api net org namespace channel ready (peerName # peerNames) =
     (let peer = \<lparr>pi_org = org, pi_name = sanitizeName peerName, pi_namespace = namespace\<rparr>; name = pch_Name channel in
      ioBind (peerJoinResultReadiness api namespace name peer) (\<lambda>(resultReady, _).
        if resultReady then participantJoinLoop api net org namespace channel (int32_of (ready + 1)) peerNames
        else ioBind (ensureJob api (buildPeerJoinJob net (participantChannelAsNetworkChannel channel org) org namespace peer)) (\<lambda>_.
             ioBind (peerJoinReadiness api namespace name peer) (\<lambda>(joined, message).
               if joined then participantJoinLoop api net org namespace channel (int32_of (ready + 1)) peerNames
               else if message \<noteq> [] then ioReturn (ready, message)
               else participantJoinLoop api net org namespace channel ready peerNames))))"

definition joinedStatus :: "ParticipantChannelStatus \<Rightarrow> int \<times> string \<Rightarrow> ParticipantChannelStatus" where
  "joinedStatus status r =
     (let (ready, message) = r; status1 = status\<lparr>pcs_Peers := (pcs_Peers status)\<lparr>ws_Ready := ready\<rparr>\<rparr> in
      if message \<noteq> [] then status1\<lparr>pcs_Message := message\<rparr>
      else (let joined = (ws_Ready (pcs_Peers status1) \<ge> ws_Desired (pcs_Peers status1) \<and> ws_Desired (pcs_Peers status1) > 0);
                status2 = status1\<lparr>pcs_Joined := joined, pcs_Ready := (pcs_BlockReady status1 \<and> joined)\<rparr>
            in if \<not> pcs_Ready status2 then status2\<lparr>pcs_Message := ''Waiting for peer join Jobs''\<rparr> else status2))"

definition reconcileParticipantChannelJoin ::
  "'s Kube \<Rightarrow> FabricNetwork \<Rightarrow> Org \<Rightarrow> string \<Rightarrow> ParticipantChannel \<Rightarrow> bool \<Rightarrow> ('s, ParticipantChannelStatus) io" where
  "reconcileParticipantChannelJoin api net org namespace channel blockReady =
     (if \<not> blockReady then ioReturn (newChannelStatus channel blockReady ''Waiting for imported channel block'')
      else ioBind (ensureChannelRBAC api net org (pch_Name channel) namespace) (\<lambda>_.
           ioBind (ensureParticipantChannelBlockConfigMap api net org namespace channel) (\<lambda>_.
           ioBind (participantJoinLoop api net org namespace channel 0 (pch_Peers channel)) (\<lambda>r.
             ioReturn (joinedStatus (newChannelStatus channel blockReady []) r)))))"

fun channelJoinLoop ::
  "'s Kube \<Rightarrow> FabricNetwork \<Rightarrow> Org \<Rightarrow> string \<Rightarrow> (string, bool) gomap \<Rightarrow> ParticipantChannelStatus list \<Rightarrow> ParticipantChannel list \<Rightarrow>
   ('s, ParticipantChannelStatus list) progress" where
  "channelJoinLoop api net org namespace blocks statuses [] = reached statuses"
| "channelJoinLoop api net org namespace blocks statuses (channel # channels) =
     attempt (reconcileParticipantChannelJoin api net org namespace channel (goFlag blocks (participantChannelKey (pch_Name channel)))) statuses
       (\<lambda>status. channelJoinLoop api net org namespace blocks (statuses @ [status]) channels)"

text \<open>The first message of a part that is not ready, else the given one.\<close>

definition pendingMessage :: "('a \<Rightarrow> bool) \<Rightarrow> ('a \<Rightarrow> string) \<Rightarrow> string \<Rightarrow> 'a list \<Rightarrow> string" where
  "pendingMessage isReady messageOf done statuses =
     (case List.find (\<lambda>st. \<not> isReady st \<and> messageOf st \<noteq> []) statuses of None \<Rightarrow> done | Some st \<Rightarrow> messageOf st)"

definition localNamespace :: "FabricParticipant \<Rightarrow> OrgStatus \<Rightarrow> string" where
  "localNamespace participant localOrgStatus =
     (if os_Namespace localOrgStatus = [] then orgNamespaceName (participantLocalFabricNetwork participant) (ps_Org (fp_Spec participant))
      else os_Namespace localOrgStatus)"

text \<open>The statuses, whether all are ready, and a message; with an error, the statuses before it.\<close>

definition reconcileParticipantChannelJoins ::
  "'s Cluster \<Rightarrow> FabricParticipant \<Rightarrow> OrgStatus \<Rightarrow> participantArtifactStatus \<Rightarrow> ('s, ParticipantChannelStatus list \<times> bool \<times> string) progress" where
  "reconcileParticipantChannelJoins cl participant localOrgStatus artifacts s =
     (let spec = fp_Spec participant in
      if ps_Channels spec = [] then reached ([], True, ''No participant channels declared'') s
      else (case channelJoinLoop (cl_Kube cl) (participantLocalFabricNetwork participant) (ps_Org spec) (localNamespace participant localOrgStatus)
                  (as_channelBlocks artifacts) [] (ps_Channels spec) s of
              ((statuses, Some e), s1) \<Rightarrow> (((statuses, False, []), Some e), s1)
            | ((statuses, None), s1) \<Rightarrow>
                reached (statuses, list_all pcs_Ready statuses,
                  pendingMessage pcs_Ready pcs_Message ''Participant peers joined declared channels'' statuses) s1))"

section \<open>Chaincode definitions\<close>

definition participantChaincodeAsNetworkChaincode :: "ParticipantChaincode \<Rightarrow> Chaincode" where
  "participantChaincodeAsNetworkChaincode chaincode =
     \<lparr>cd_Name = pcc_Name chaincode, cd_Version = pcc_Version chaincode, cd_Channel = pcc_Channel chaincode, cd_Image = pcc_Image chaincode,
      cd_Sequence = pcc_Sequence chaincode, cd_PackageLabel = pcc_PackageLabel chaincode, cd_EndorsementPolicy = pcc_EndorsementPolicy chaincode,
      cd_InitRequired = pcc_InitRequired chaincode, cd_PrivateData = [], cd_CouchDBIndexes = [], cd_CCAAS = pcc_CCAAS chaincode\<rparr>"

definition participantChannelsByName :: "ParticipantChannel list \<Rightarrow> (string, ParticipantChannel) gomap" where
  "participantChannelsByName channels = foldl (\<lambda>m channel. go_set m (pch_Name channel) channel) [] channels"

definition participantReadyChannelsByName :: "ParticipantChannelStatus list \<Rightarrow> (string, bool) gomap" where
  "participantReadyChannelsByName statuses = setFlags (map (\<lambda>status. (pcs_Name status, pcs_Ready status)) statuses)"

text \<open>The zero value of an absent channel.\<close>

definition zeroParticipantChannel :: ParticipantChannel where
  "zeroParticipantChannel = \<lparr>pch_Name = [], pch_BlockRef = \<lparr>par_ConfigMapKeyRef = None, par_SecretKeyRef = None\<rparr>, pch_Peers = [],
     pch_AnchorPeers = [], pch_Membership = None\<rparr>"

text \<open>The connection file of an imported package: empty without a chaincode server.\<close>

definition importedConnection :: "Chaincode \<Rightarrow> Org \<Rightarrow> string \<Rightarrow> string + (string \<times> string)" where
  "importedConnection chaincode org namespace =
     (if trimSpace (cd_Image chaincode) = [] then Inr ([], ''{}'' @ [CHR 0x0A])
      else case chaincodeConnectionAddressTemplate chaincode org namespace of
             Inl e \<Rightarrow> Inl e
           | Inr address \<Rightarrow> Inr (address, marshalChaincodeJSON (chaincodeConnection address (chaincodeDialTimeout chaincode))))"

definition ensureParticipantChaincodePackageConfigMap ::
  "(bytes \<Rightarrow> bytes) \<Rightarrow> 's Kube \<Rightarrow> FabricNetwork \<Rightarrow> Org \<Rightarrow> string \<Rightarrow> ParticipantChaincode \<Rightarrow> Chaincode \<Rightarrow> ('s, unit) io" where
  "ensureParticipantChaincodePackageConfigMap gz api net org namespace participantChaincode chaincode =
     (case pcc_PackageRef participantChaincode of
        None \<Rightarrow> ioBind (liftText (buildChaincodePackageConfigMap gz net chaincode org)) (ensureConfigMap api)
      | Some ref \<Rightarrow>
          ioBind (participantArtifactBytes api (fn_Namespace net) (Some ref)) (\<lambda>packageArchive.
          ioBind (liftText (importedConnection chaincode org namespace)) (\<lambda>(connectionAddress, connectionJSON).
            (let label = chaincodePackageLabel chaincode; packageFile = label @ ''.tar.gz'' in
             ensureConfigMap api
               \<lparr>cm_Meta = \<lparr>mt_Name = chaincodePackageConfigMapName chaincode org, mt_Namespace = namespace,
                  mt_Labels = Some (chaincodeLabels net org (cd_Channel chaincode) (cd_Name chaincode)),
                  mt_Annotations = Some (resourceAnnotations net org)\<rparr>,
                cm_Data = [(chaincodeMetadataKey, marshalChaincodeJSON (chaincodePackageMetadata label)), (chaincodeConnectionKey, connectionJSON),
                  (chaincodePackageLabelKey, label), (chaincodePackageFileKey, packageFile), (chaincodeConnectionAddrKey, connectionAddress)],
                cm_BinaryData = [(packageFile, packageArchive)], cm_Immutable = False\<rparr>))))"

definition ensureParticipantOrdererTLSCASecret ::
  "'s Kube \<Rightarrow> FabricNetwork \<Rightarrow> Org \<Rightarrow> string \<Rightarrow> string \<Rightarrow> string \<Rightarrow> ParticipantOrdererEndpoint \<Rightarrow> ('s, unit) io" where
  "ensureParticipantOrdererTLSCASecret api net org namespace channelName chaincodeName orderer =
     (if \<not> gl_TLS (sp_Global (fn_Spec net)) then ioReturn ()
      else ioBind (participantArtifactBytes api (fn_Namespace net) (po_TLSRootCARef orderer)) (\<lambda>tlsRootCA.
           ensureReplicatedSecret api
             \<lparr>sec_Meta = \<lparr>mt_Name = channelOrdererTLSSecretName channelName (po_Name orderer), mt_Namespace = namespace,
                mt_Labels = Some (chaincodeLabels net org channelName chaincodeName), mt_Annotations = Some (resourceAnnotations net org)\<rparr>,
              sec_Type = ''Opaque'', sec_Data = [(''ca.crt'', tlsRootCA)]\<rparr>))"

definition buildParticipantChaincodeApproveJob ::
  "Crypto \<Rightarrow> FabricNetwork \<Rightarrow> Channel \<Rightarrow> ParticipantChaincode \<Rightarrow> Chaincode \<Rightarrow> Org \<Rightarrow> string \<Rightarrow> string \<Rightarrow> string \<Rightarrow> ParticipantOrdererEndpoint \<Rightarrow> Job" where
  "buildParticipantChaincodeApproveJob cr net channel participantChaincode chaincode org namespace peerName packageID orderer =
     (let tls = gl_TLS (sp_Global (fn_Spec net)); tlsVolume = channelOrdererTLSVolumeName (po_Name orderer) in
      chaincodeJob net org (chaincodeApproveJobName cr chaincode org packageID) namespace (chaincodeInstallerName chaincode org peerName)
        (go_set (chaincodePeerLabels net org chaincode peerName) labelWorkload (sanitizeName (adminIdentityName org)))
        ([(chaincodeOutputVolumeName, EmptyDir), chaincodeAdminMSP net org] @
         (if tls then [chaincodeAdminTLS org,
             (tlsVolume, secretVolume (channelOrdererTLSSecretName (ch_Name channel) (po_Name orderer)) [(''ca.crt'', ''ca.crt'')])] else []))
        (shellContainer approveChaincodeContainer (fabricToolsImage (sp_Global (fn_Spec net)))
          (approveChaincodeDefinitionScriptForOrderer net channel chaincode org peerName namespace packageID (po_ClientAddress orderer)
            (chaincodeOrdererTLSPath (po_Name orderer) @ ''/ca.crt'') (po_TLSHostnameOverride orderer)
            (trimSpace (pcc_EndorsementPolicy participantChaincode)) []) []
          (componentResourceRequirements ''fabric-cli'')
          ([readOnlyMount chaincodeAdminMSPVolume chaincodeAdminMSPPath, chaincodeOutputMount] @
           (if tls then [readOnlyMount chaincodeAdminTLSVolume chaincodeAdminTLSPath, readOnlyMount tlsVolume (chaincodeOrdererTLSPath (po_Name orderer))] else [])))
        (chaincodePublisher (publishChaincodeLifecycleResultContainerName approveChaincodeContainer) PublishChaincodeLifecycleResultScript
          (publishChaincodeLifecycleResultEnv chaincode peerName (chaincodeApproveResultConfigMapName cr chaincode org packageID)
            chaincodeQueryApprovedKey chaincodeQueryApprovedFile)))"

definition reconcileParticipantChaincodeApproval ::
  "Crypto \<Rightarrow> 's Kube \<Rightarrow> FabricNetwork \<Rightarrow> Org \<Rightarrow> string \<Rightarrow> ParticipantChannel \<Rightarrow> ParticipantChaincode \<Rightarrow> Chaincode \<Rightarrow> string \<Rightarrow> ParticipantOrdererEndpoint \<Rightarrow>
   ('s, bool \<times> string) io" where
  "reconcileParticipantChaincodeApproval cr api net org namespace channel participantChaincode chaincode packageID orderer =
     (case pch_Peers channel of
        [] \<Rightarrow> ioReturn (False, ''Waiting for participant approval peer'')
      | peerName # _ \<Rightarrow>
          if gl_FabricVersion (sp_Global (fn_Spec net)) = [] then ioReturn (False, ''Waiting for participant Fabric version'')
          else if sp_Orgs (fn_Spec net) = [] then ioReturn (False, ''Waiting for participant org'')
          else if trimSpace (po_ClientAddress orderer) = [] then ioReturn (False, ''Waiting for imported orderer before lifecycle approval'')
          else ioBind (chaincodeApproveReadiness api namespace (chaincodeApproveResultConfigMapName cr chaincode org packageID)
                        (chaincodeApproveJobName cr chaincode org packageID) org (chaincodeSequence chaincode)) (\<lambda>(approved, message).
               if approved then ioReturn (approved, message)
               else ioBind (ensureParticipantOrdererTLSCASecret api net org namespace (pch_Name channel) (cd_Name chaincode) orderer) (\<lambda>_.
                    ioBind (ensureJob api (buildParticipantChaincodeApproveJob cr net (participantChannelAsNetworkChannel channel org)
                              participantChaincode chaincode org namespace peerName packageID orderer)) (\<lambda>_. ioReturn (False, message)))))"

text \<open>What the loop over the peers of the channel has found.\<close>

record installState =
  is_message :: string
  is_allInstalled :: bool
  is_workloadsReady :: bool
  is_firstPackageID :: string
  is_firstChaincodeID :: string

definition noteMessage :: "string \<Rightarrow> installState \<Rightarrow> installState" where
  "noteMessage message st = (if is_message st = [] then st\<lparr>is_message := message\<rparr> else st)"

definition notePackage :: "string \<Rightarrow> string \<Rightarrow> installState \<Rightarrow> installState" where
  "notePackage packageID chaincodeID st =
     (if packageID \<noteq> [] \<and> is_firstPackageID st = [] then st\<lparr>is_firstPackageID := packageID, is_firstChaincodeID := chaincodeID\<rparr> else st)"

definition participantPeerWorkload :: "'s Kube \<Rightarrow> FabricNetwork \<Rightarrow> Org \<Rightarrow> string \<Rightarrow> Chaincode \<Rightarrow> string \<Rightarrow> string \<Rightarrow> installState \<Rightarrow> ('s, installState) io" where
  "participantPeerWorkload api net org namespace chaincode peerName chaincodeID st =
     (if trimSpace (cd_Image chaincode) = [] then ioReturn st
      else ioBind (ensureChaincodeWorkload api net chaincode org peerName chaincodeID) (\<lambda>_.
           ioBind (chaincodeWorkloadReadiness api namespace (chaincodeServiceName chaincode org peerName)) (\<lambda>(_, ready, message).
             ioReturn (if ready then st else noteMessage message (st\<lparr>is_workloadsReady := False\<rparr>)))))"

definition participantPeerInstall :: "'s Kube \<Rightarrow> FabricNetwork \<Rightarrow> Org \<Rightarrow> string \<Rightarrow> Chaincode \<Rightarrow> string \<Rightarrow> installState \<Rightarrow> ('s, installState) io" where
  "participantPeerInstall api net org namespace chaincode peerName st =
     ioBind (ensureChaincodeInstallRBAC api net org chaincode peerName) (\<lambda>_.
     ioBind (chaincodeInstallReadiness api namespace (chaincodePackageIDConfigMapName chaincode org peerName) (chaincodeInstallJobName chaincode org peerName))
       (\<lambda>(installed, packageID, chaincodeID, message).
       (let st1 = notePackage packageID chaincodeID st in
        if \<not> installed
        then ioBind (ensureJob api (buildChaincodeInstallJob net chaincode org peerName)) (\<lambda>_.
               ioReturn (noteMessage message (st1\<lparr>is_allInstalled := False\<rparr>)))
        else participantPeerWorkload api net org namespace chaincode peerName chaincodeID st1)))"

fun participantInstallLoop :: "'s Kube \<Rightarrow> FabricNetwork \<Rightarrow> Org \<Rightarrow> string \<Rightarrow> Chaincode \<Rightarrow> installState \<Rightarrow> string list \<Rightarrow> ('s, installState) io" where
  "participantInstallLoop api net org namespace chaincode st [] = ioReturn st"
| "participantInstallLoop api net org namespace chaincode st (peerName # peerNames) =
     ioBind (participantPeerInstall api net org namespace chaincode peerName st) (\<lambda>st1.
       participantInstallLoop api net org namespace chaincode st1 peerNames)"

definition orMessage :: "string \<Rightarrow> ParticipantChaincodeStatus \<Rightarrow> ParticipantChaincodeStatus" where
  "orMessage message status = (if pks_Message status = [] then status\<lparr>pks_Message := message\<rparr> else status)"

definition newChaincodeStatus :: "ParticipantChaincode \<Rightarrow> bool \<Rightarrow> string \<Rightarrow> ParticipantChaincodeStatus" where
  "newChaincodeStatus chaincode packageReady message =
     \<lparr>pks_Name = pcc_Name chaincode, pks_Channel = pcc_Channel chaincode, pks_PackageReady = packageReady, pks_Installed = False,
      pks_Approved = False, pks_Ready = False, pks_Message = message\<rparr>"

text \<open>The status with an answer to the approval.\<close>

definition approvedStatus :: "installState \<Rightarrow> ParticipantChaincodeStatus \<Rightarrow> bool \<times> string \<Rightarrow> ParticipantChaincodeStatus" where
  "approvedStatus st status r =
     (let (approved, message) = r; status1 = status\<lparr>pks_Approved := approved\<rparr> in
      if \<not> approved
      then (if message \<noteq> [] then status1\<lparr>pks_Message := message\<rparr> else orMessage ''Waiting for chaincode approve Job'' status1)
      else (let ready = (pks_PackageReady status1 \<and> pks_Installed status1 \<and> pks_Approved status1 \<and> is_workloadsReady st);
                status2 = status1\<lparr>pks_Ready := ready\<rparr>
            in if \<not> ready then orMessage ''Waiting for chaincode workload Deployment'' status2
               else status2\<lparr>pks_Message := (if trimSpace (is_firstChaincodeID st) = []
                      then ''Participant chaincode package installed and definition approved''
                      else ''Participant chaincode package installed, workload ready, and definition approved'')\<rparr>))"

definition approveInstalled ::
  "Crypto \<Rightarrow> 's Kube \<Rightarrow> FabricNetwork \<Rightarrow> Org \<Rightarrow> string \<Rightarrow> ParticipantChannel \<Rightarrow> ParticipantOrdererEndpoint \<Rightarrow> ParticipantChaincode \<Rightarrow> installState \<Rightarrow>
   ('s, ParticipantChaincodeStatus) io" where
  "approveInstalled cr api net org namespace channel orderer participantChaincode st =
     (let status = (newChaincodeStatus participantChaincode True (is_message st))\<lparr>pks_Installed := is_allInstalled st\<rparr> in
      if \<not> is_allInstalled st then ioReturn (orMessage ''Waiting for chaincode install Jobs'' status)
      else (let status1 = (if is_workloadsReady st then status else orMessage ''Waiting for chaincode workload Deployment'' status) in
            if is_firstPackageID st = []
            then ioReturn (status1\<lparr>pks_Message := ''Waiting for chaincode package ID before lifecycle approval''\<rparr>)
            else ioBind (reconcileParticipantChaincodeApproval cr api net org namespace channel participantChaincode
                     (participantChaincodeAsNetworkChaincode participantChaincode) (is_firstPackageID st) orderer) (\<lambda>r.
                   ioReturn (approvedStatus st status1 r))))"

definition reconcileParticipantChaincode ::
  "Crypto \<Rightarrow> (bytes \<Rightarrow> bytes) \<Rightarrow> 's Kube \<Rightarrow> FabricNetwork \<Rightarrow> Org \<Rightarrow> string \<Rightarrow> ParticipantChannel \<Rightarrow> bool \<Rightarrow> ParticipantOrdererEndpoint \<Rightarrow>
   ParticipantChaincode \<Rightarrow> bool \<Rightarrow> ('s, ParticipantChaincodeStatus) io" where
  "reconcileParticipantChaincode cr gz api net org namespace channel joined orderer participantChaincode importedPackageReady =
     (let chaincode = participantChaincodeAsNetworkChaincode participantChaincode in
      if pcc_PackageRef participantChaincode \<noteq> None \<and> \<not> importedPackageReady
      then ioReturn (newChaincodeStatus participantChaincode False ''Waiting for imported chaincode package'')
      else if \<not> joined
      then ioReturn (newChaincodeStatus participantChaincode (pcc_PackageRef participantChaincode = None \<or> importedPackageReady)
             ''Waiting for participant channel join before chaincode lifecycle'')
      else ioBind (ensureParticipantChaincodePackageConfigMap gz api net org namespace participantChaincode chaincode) (\<lambda>_.
           ioBind (participantInstallLoop api net org namespace chaincode
                     \<lparr>is_message = [], is_allInstalled = (pch_Peers channel \<noteq> []), is_workloadsReady = True, is_firstPackageID = [], is_firstChaincodeID = []\<rparr>
                     (pch_Peers channel)) (\<lambda>st.
             approveInstalled cr api net org namespace channel orderer participantChaincode st)))"

fun participantChaincodeLoop ::
  "Crypto \<Rightarrow> (bytes \<Rightarrow> bytes) \<Rightarrow> 's Kube \<Rightarrow> FabricNetwork \<Rightarrow> Org \<Rightarrow> string \<Rightarrow> (string, ParticipantChannel) gomap \<Rightarrow> (string, bool) gomap \<Rightarrow>
   (string, bool) gomap \<Rightarrow> ParticipantOrdererEndpoint \<Rightarrow> ParticipantChaincodeStatus list \<Rightarrow> ParticipantChaincode list \<Rightarrow>
   ('s, ParticipantChaincodeStatus list) progress" where
  "participantChaincodeLoop cr gz api net org namespace channels readyChannels packages orderer statuses [] = reached statuses"
| "participantChaincodeLoop cr gz api net org namespace channels readyChannels packages orderer statuses (chaincode # chaincodes) =
     attempt (reconcileParticipantChaincode cr gz api net org namespace
                (case map_of channels (pcc_Channel chaincode) of None \<Rightarrow> zeroParticipantChannel | Some channel \<Rightarrow> channel)
                (goFlag readyChannels (pcc_Channel chaincode)) orderer chaincode
                (goFlag packages (participantChaincodeKey (pcc_Channel chaincode) (pcc_Name chaincode)))) statuses
       (\<lambda>status. participantChaincodeLoop cr gz api net org namespace channels readyChannels packages orderer (statuses @ [status]) chaincodes)"

text \<open>
  The first imported orderer serves the approvals. Taking it from an empty list would be a panic, here an
  error of its own; validation has excluded it.
\<close>

definition reconcileParticipantChaincodes ::
  "Crypto \<Rightarrow> (bytes \<Rightarrow> bytes) \<Rightarrow> 's Cluster \<Rightarrow> FabricParticipant \<Rightarrow> OrgStatus \<Rightarrow> ParticipantChannelStatus list \<Rightarrow> participantArtifactStatus \<Rightarrow>
   ('s, ParticipantChaincodeStatus list \<times> bool \<times> string) progress" where
  "reconcileParticipantChaincodes cr gz cl participant localOrgStatus channelStatuses artifacts s =
     (let spec = fp_Spec participant in
      if ps_Chaincodes spec = [] then reached ([], True, ''No participant chaincodes declared'') s
      else (case pn_Orderers (ps_Network spec) of
              [] \<Rightarrow> ((([], False, []), Some (OtherError ''index out of range'')), s)
            | orderer # _ \<Rightarrow>
                (case participantChaincodeLoop cr gz (cl_Kube cl) (participantLocalFabricNetwork participant) (ps_Org spec)
                        (localNamespace participant localOrgStatus) (participantChannelsByName (ps_Channels spec))
                        (participantReadyChannelsByName channelStatuses) (as_chaincodePackages artifacts) orderer [] (ps_Chaincodes spec) s of
                   ((statuses, Some e), s1) \<Rightarrow> (((statuses, False, []), Some e), s1)
                 | ((statuses, None), s1) \<Rightarrow>
                     reached (statuses, list_all pks_Ready statuses,
                       pendingMessage pks_Ready pks_Message ''Participant chaincode lifecycle is ready'' statuses) s1)))"

section \<open>Status\<close>

definition conditionLocalInfrastructureReady :: string where "conditionLocalInfrastructureReady = ''LocalInfrastructureReady''"
definition conditionRemoteArtifactsReady :: string where "conditionRemoteArtifactsReady = ''RemoteArtifactsReady''"
definition conditionChaincodeLifecycleReady :: string where "conditionChaincodeLifecycleReady = ''ChaincodeLifecycleReady''"

definition participantCondition :: "FabricParticipant \<Rightarrow> string \<Rightarrow> report \<Rightarrow> Condition" where
  "participantCondition participant ty report =
     \<lparr>cn_Type = ty, cn_Status = fst report, cn_Reason = fst (snd report), cn_Message = snd (snd report),
      cn_ObservedGeneration = fp_Generation participant, cn_LastTransitionTime = 0\<rparr>"

definition stampCondition :: "'s Cluster \<Rightarrow> FabricParticipant \<Rightarrow> string \<Rightarrow> report \<Rightarrow> Condition list \<times> 's \<Rightarrow> Condition list \<times> 's" where
  "stampCondition cl participant ty report st =
     (case k_Now (cl_Kube cl) (snd st) of (now, s1) \<Rightarrow> (cl_SetCondition cl now (fst st) (participantCondition participant ty report), s1))"

text \<open>The reports on the participant, the local infrastructure, the artifacts, the channels and the chaincodes.\<close>

type_synonym reports = "report \<times> report \<times> report \<times> report \<times> report"

definition participantConditions :: "'s Cluster \<Rightarrow> FabricParticipant \<Rightarrow> reports \<Rightarrow> 's \<Rightarrow> Condition list \<times> 's" where
  "participantConditions cl participant reports s =
     (let (ready, localReport, artifacts, channels, chaincodes) = reports in
      stampCondition cl participant conditionChaincodeLifecycleReady chaincodes
     (stampCondition cl participant conditionChannelsReady channels
     (stampCondition cl participant conditionRemoteArtifactsReady artifacts
     (stampCondition cl participant conditionLocalInfrastructureReady localReport
     (stampCondition cl participant conditionReady ready (fps_Conditions (fp_Status participant), s))))))"

definition participantChannelStatuses :: "FabricParticipant \<Rightarrow> (string, bool) gomap \<Rightarrow> string \<Rightarrow> ParticipantChannelStatus list" where
  "participantChannelStatuses participant blocks message =
     map (\<lambda>channel. newChannelStatus channel (goFlag blocks (participantChannelKey (pch_Name channel))) message) (ps_Channels (fp_Spec participant))"

definition participantChaincodeStatuses :: "FabricParticipant \<Rightarrow> (string, bool) gomap \<Rightarrow> string \<Rightarrow> ParticipantChaincodeStatus list" where
  "participantChaincodeStatuses participant packages message =
     map (\<lambda>chaincode. newChaincodeStatus chaincode (goFlag packages (participantChaincodeKey (pcc_Channel chaincode) (pcc_Name chaincode))) message)
       (ps_Chaincodes (fp_Spec participant))"

definition participantLocalInfrastructureMessage :: "OrgStatus \<Rightarrow> string" where
  "participantLocalInfrastructureMessage status =
     (if \<not> os_CAReady status then ''Waiting for participant CA to become ready''
      else if \<not> os_IdentityReady status
      then (if os_IdentityError status \<noteq> [] then os_IdentityError status else ''Waiting for participant admin and peer identity material'')
      else if \<not> os_PeersReady status then ''Waiting for participant peers to become ready''
      else ''Waiting for participant local infrastructure'')"

text \<open>A status with its conditions, and the error it is returned with.\<close>

definition reportStatus :: "'s Cluster \<Rightarrow> FabricParticipant \<Rightarrow> reports \<Rightarrow> FabricParticipantStatus \<Rightarrow> ApiError option \<Rightarrow> ('s, FabricParticipantStatus) progress" where
  "reportStatus cl participant reports status err s =
     (case participantConditions cl participant reports s of (conditions, s1) \<Rightarrow> ((status\<lparr>fps_Conditions := conditions\<rparr>, err), s1))"

definition failedStatus :: "string \<Rightarrow> OrgStatus \<Rightarrow> FabricParticipantStatus" where
  "failedStatus message localOrgStatus =
     \<lparr>fps_Phase = PhaseFailed, fps_Message = message, fps_LocalInfrastructureReady = False, fps_LocalOrgStatus = localOrgStatus,
      fps_RemoteArtifactsReady = False, fps_ChannelsReady = False, fps_ChaincodeLifecycleReady = False, fps_ChannelStatus = [],
      fps_ChaincodeStatus = [], fps_Conditions = []\<rparr>"

definition invalidParticipant :: "'s Cluster \<Rightarrow> FabricParticipant \<Rightarrow> ('s, FabricParticipantStatus) progress" where
  "invalidParticipant cl participant =
     (let message = joinWith ''; '' (validateFabricParticipantTopology participant);
          unknown = (\<lambda>what. (ConditionUnknown, ''TopologyInvalid'', ''Topology validation failed before '' @ what))
      in reportStatus cl participant
           ((ConditionFalse, ''TopologyInvalid'', message), unknown ''local infrastructure reconciliation'', unknown ''imported artifact checks'',
            unknown ''channel join reconciliation'', unknown ''chaincode lifecycle reconciliation'')
           ((failedStatus message zeroOrgStatus)\<lparr>fps_ChannelStatus := participantChannelStatuses participant [] ''Topology validation failed'',
              fps_ChaincodeStatus := participantChaincodeStatuses participant [] ''Topology validation failed''\<rparr>) None)"

definition localOrgFailed :: "'s Cluster \<Rightarrow> FabricParticipant \<Rightarrow> OrgStatus \<Rightarrow> ApiError \<Rightarrow> ('s, FabricParticipantStatus) progress" where
  "localOrgFailed cl participant localOrgStatus e =
     (let message = ''Failed to reconcile participant local infrastructure: '' @ cl_ErrorText cl e;
          skipped = (\<lambda>what. (ConditionUnknown, ''ReconcileError'', ''Skipped '' @ what @ '' because local infrastructure reconciliation failed''))
      in reportStatus cl participant
           ((ConditionFalse, ''ReconcileError'', message), (ConditionFalse, ''ReconcileError'', message), skipped ''imported artifact checks'',
            skipped ''channel join reconciliation'', skipped ''chaincode lifecycle reconciliation'')
           (failedStatus message localOrgStatus) (Some e))"

definition localReadyReport :: report where
  "localReadyReport = (ConditionTrue, ''LocalInfrastructureReady'', ''Participant-local CA, peer, and admin identity material are ready'')"

definition channelJoinsFailed ::
  "'s Cluster \<Rightarrow> FabricParticipant \<Rightarrow> OrgStatus \<Rightarrow> participantArtifactStatus \<Rightarrow> ParticipantChannelStatus list \<Rightarrow> ApiError \<Rightarrow> ('s, FabricParticipantStatus) progress" where
  "channelJoinsFailed cl participant localOrgStatus artifacts channelStatuses e =
     (let message = ''Failed to reconcile participant channel joins: '' @ cl_ErrorText cl e;
          skipped = ''Skipped participant chaincode lifecycle reconciliation because channel join reconciliation failed''
      in reportStatus cl participant
           ((ConditionFalse, ''ReconcileError'', message), localReadyReport, (ConditionTrue, ''RemoteArtifactsReady'', as_message artifacts),
            (ConditionFalse, ''ReconcileError'', message), (ConditionUnknown, ''ReconcileError'', skipped))
           ((failedStatus message localOrgStatus)\<lparr>fps_LocalInfrastructureReady := os_Ready localOrgStatus, fps_RemoteArtifactsReady := as_ready artifacts,
              fps_ChannelStatus := channelStatuses,
              fps_ChaincodeStatus := participantChaincodeStatuses participant (as_chaincodePackages artifacts) skipped\<rparr>) (Some e))"

text \<open>What the channel stage reported: its statuses, whether all are ready, reason and message.\<close>

type_synonym 'a stageReport = "'a list \<times> bool \<times> string \<times> string"

definition chaincodesFailed ::
  "'s Cluster \<Rightarrow> FabricParticipant \<Rightarrow> OrgStatus \<Rightarrow> participantArtifactStatus \<Rightarrow> ParticipantChannelStatus stageReport \<Rightarrow> ParticipantChaincodeStatus list \<Rightarrow>
   ApiError \<Rightarrow> ('s, FabricParticipantStatus) progress" where
  "chaincodesFailed cl participant localOrgStatus artifacts channels chaincodeStatuses e =
     (let message = ''Failed to reconcile participant chaincode lifecycle: '' @ cl_ErrorText cl e;
          (channelStatuses, channelsReady, channelsReason, channelsMessage) = channels
      in reportStatus cl participant
           ((ConditionFalse, ''ReconcileError'', message), localReadyReport, (ConditionTrue, ''RemoteArtifactsReady'', as_message artifacts),
            (ConditionTrue, channelsReason, channelsMessage), (ConditionFalse, ''ReconcileError'', message))
           ((failedStatus message localOrgStatus)\<lparr>fps_LocalInfrastructureReady := os_Ready localOrgStatus, fps_RemoteArtifactsReady := as_ready artifacts,
              fps_ChannelStatus := channelStatuses, fps_ChaincodeStatus := chaincodeStatuses, fps_ChannelsReady := channelsReady\<rparr>) (Some e))"

text \<open>Phase, reason and message of the participant, from the first stage that is not ready.\<close>

definition participantProgress :: "OrgStatus \<Rightarrow> participantArtifactStatus \<Rightarrow> bool \<Rightarrow> string \<Rightarrow> bool \<Rightarrow> string \<Rightarrow> Phase \<times> string \<times> string" where
  "participantProgress localOrgStatus artifacts channelsReady channelsMessage chaincodesReady chaincodeMessage =
     (if \<not> os_Ready localOrgStatus
      then (PhaseCreating, ''LocalInfrastructureNotReady'', participantLocalInfrastructureMessage localOrgStatus)
      else if \<not> as_ready artifacts then (PhaseCreating, ''RemoteArtifactsMissing'', as_message artifacts)
      else if \<not> channelsReady then (PhaseCreating, ''ParticipantChannelJoinPending'', channelsMessage)
      else if \<not> chaincodesReady then (PhaseCreating, ''ParticipantWorkflowPending'', chaincodeMessage)
      else (PhaseReady, ''FabricParticipantReady'',
        ''FabricParticipant local infrastructure, imported artifacts, declared channels, and chaincode lifecycle are ready''))"

definition truth :: "bool \<Rightarrow> ConditionStatus" where
  "truth b = (if b then ConditionTrue else ConditionFalse)"

definition finishParticipant ::
  "'s Cluster \<Rightarrow> FabricParticipant \<Rightarrow> OrgStatus \<Rightarrow> participantArtifactStatus \<Rightarrow> ParticipantChannelStatus stageReport \<Rightarrow>
   ParticipantChaincodeStatus stageReport \<Rightarrow> ('s, FabricParticipantStatus) progress" where
  "finishParticipant cl participant localOrgStatus artifacts channels chaincodes =
     (let (channelStatuses, channelsReady, channelsReason, channelsMessage) = channels;
          (chaincodeStatuses, chaincodesReady, chaincodeReason, chaincodeMessage) = chaincodes;
          (phase, readyReason, message) = participantProgress localOrgStatus artifacts channelsReady channelsMessage chaincodesReady chaincodeMessage;
          localReady = os_Ready localOrgStatus
      in reportStatus cl participant
           ((truth (phase = PhaseReady), readyReason, message),
            (if localReady then localReadyReport
             else (ConditionFalse, ''LocalInfrastructureNotReady'', participantLocalInfrastructureMessage localOrgStatus)),
            (truth (as_ready artifacts), if as_ready artifacts then ''RemoteArtifactsReady'' else ''RemoteArtifactsMissing'', as_message artifacts),
            (if localReady \<and> as_ready artifacts then (truth channelsReady, channelsReason, channelsMessage)
             else (ConditionUnknown, readyReason, ''Waiting for participant channel join prerequisites'')),
            (if localReady \<and> as_ready artifacts \<and> channelsReady then truth chaincodesReady else ConditionUnknown, chaincodeReason, chaincodeMessage))
           \<lparr>fps_Phase = phase, fps_Message = message, fps_LocalInfrastructureReady = localReady, fps_LocalOrgStatus = localOrgStatus,
            fps_RemoteArtifactsReady = as_ready artifacts, fps_ChannelsReady = channelsReady, fps_ChaincodeLifecycleReady = chaincodesReady,
            fps_ChannelStatus = channelStatuses, fps_ChaincodeStatus = chaincodeStatuses, fps_Conditions = []\<rparr> None)"

definition pendingChannels :: "FabricParticipant \<Rightarrow> participantArtifactStatus \<Rightarrow> ParticipantChannelStatus stageReport" where
  "pendingChannels participant artifacts =
     (let none = (ps_Channels (fp_Spec participant) = []); waiting = ''Waiting for participant channel join prerequisites''
      in (participantChannelStatuses participant (as_channelBlocks artifacts) waiting, none,
          if none then ''NoParticipantChannels'' else ''ParticipantChannelJoinPending'', if none then ''No participant channels declared'' else waiting))"

definition pendingChaincodes :: "FabricParticipant \<Rightarrow> participantArtifactStatus \<Rightarrow> bool \<Rightarrow> ParticipantChaincodeStatus stageReport" where
  "pendingChaincodes participant artifacts channelsReady =
     (let waiting = ''Waiting for participant chaincode lifecycle prerequisites''
      in (participantChaincodeStatuses participant (as_chaincodePackages artifacts) waiting,
          channelsReady \<and> ps_Chaincodes (fp_Spec participant) = [], ''ParticipantChaincodeLifecyclePending'', waiting))"

text \<open>The chaincode stage, once the channels are joined.\<close>

definition participantChaincodeStage ::
  "Crypto \<Rightarrow> (bytes \<Rightarrow> bytes) \<Rightarrow> 's Cluster \<Rightarrow> FabricParticipant \<Rightarrow> OrgStatus \<Rightarrow> participantArtifactStatus \<Rightarrow> ParticipantChannelStatus stageReport \<Rightarrow>
   ('s, FabricParticipantStatus) progress" where
  "participantChaincodeStage cr gz cl participant localOrgStatus artifacts channels s =
     (let (channelStatuses, channelsReady, channelsReason, channelsMessage) = channels in
      if os_Ready localOrgStatus \<and> as_ready artifacts \<and> channelsReady
      then (case reconcileParticipantChaincodes cr gz cl participant localOrgStatus channelStatuses artifacts s of
              ((r, Some e), s1) \<Rightarrow> chaincodesFailed cl participant localOrgStatus artifacts channels (fst r) e s1
            | ((r, None), s1) \<Rightarrow>
                finishParticipant cl participant localOrgStatus artifacts channels
                  (fst r, fst (snd r),
                   if ps_Chaincodes (fp_Spec participant) = [] then ''NoParticipantChaincodes''
                   else if fst (snd r) then ''ParticipantChaincodesReady'' else ''ParticipantChaincodeLifecyclePending'', snd (snd r)) s1)
      else finishParticipant cl participant localOrgStatus artifacts channels (pendingChaincodes participant artifacts channelsReady) s)"

definition participantChannelStage ::
  "Crypto \<Rightarrow> (bytes \<Rightarrow> bytes) \<Rightarrow> 's Cluster \<Rightarrow> FabricParticipant \<Rightarrow> OrgStatus \<Rightarrow> participantArtifactStatus \<Rightarrow> ('s, FabricParticipantStatus) progress" where
  "participantChannelStage cr gz cl participant localOrgStatus artifacts s =
     (let (channelStatuses, none, reason, message) = pendingChannels participant artifacts in
      if os_Ready localOrgStatus \<and> as_ready artifacts
      then (case reconcileParticipantChannelJoins cl participant localOrgStatus artifacts s of
              ((r, Some e), s1) \<Rightarrow> channelJoinsFailed cl participant localOrgStatus artifacts (fst r) e s1
            | ((r, None), s1) \<Rightarrow>
                participantChaincodeStage cr gz cl participant localOrgStatus artifacts
                  (fst r, fst (snd r), if fst (snd r) \<and> ps_Channels (fp_Spec participant) \<noteq> [] then ''ParticipantChannelsJoined'' else reason, snd (snd r)) s1)
      else participantChaincodeStage cr gz cl participant localOrgStatus artifacts (channelStatuses, none, reason, message) s)"

definition fabricParticipantStatus :: "Crypto \<Rightarrow> (bytes \<Rightarrow> bytes) \<Rightarrow> 's Cluster \<Rightarrow> FabricParticipant \<Rightarrow> ('s, FabricParticipantStatus) progress" where
  "fabricParticipantStatus cr gz cl participant s =
     (if validateFabricParticipantTopology participant \<noteq> [] then invalidParticipant cl participant s
      else (case reconcileParticipantLocalOrg cr cl participant s of
              ((localOrgStatus, Some e), s1) \<Rightarrow> localOrgFailed cl participant localOrgStatus e s1
            | ((localOrgStatus, None), s1) \<Rightarrow>
                attempt (participantRemoteArtifactStatus cl participant) (failedStatus [] localOrgStatus)
                  (participantChannelStage cr gz cl participant localOrgStatus) s1))"

section \<open>Reconcile\<close>

definition participantReconcileResult :: "FabricParticipantStatus \<Rightarrow> ApiError option \<Rightarrow> int" where
  "participantReconcileResult status err =
     (if err \<noteq> None \<or> fps_Phase status = PhaseReady \<or> fps_Phase status = PhaseFailed then 0 else 10 * second)"

text \<open>The calls on the resource itself.\<close>

record 's ParticipantApi =
  pt_Get :: "string \<times> string \<Rightarrow> ('s, FabricParticipant) io"
  pt_UpdateStatus :: "FabricParticipant \<Rightarrow> ('s, unit) io"

definition reconcileFabricParticipant :: "Crypto \<Rightarrow> (bytes \<Rightarrow> bytes) \<Rightarrow> 's Cluster \<Rightarrow> 's ParticipantApi \<Rightarrow> string \<times> string \<Rightarrow> ('s, int) io" where
  "reconcileFabricParticipant cr gz cl pt key s =
     (case pt_Get pt key s of
        (Inl NotFound, s1) \<Rightarrow> (Inr 0, s1)
      | (Inl e, s1) \<Rightarrow> (Inl e, s1)
      | (Inr participant, s1) \<Rightarrow>
          (case fabricParticipantStatus cr gz cl participant s1 of
             ((status, err), s2) \<Rightarrow>
               (let result = (case err of None \<Rightarrow> Inr (participantReconcileResult status err) | Some e \<Rightarrow> Inl e)
                in if fp_Status participant = status then (result, s2)
                   else (case pt_UpdateStatus pt (participant\<lparr>fp_Status := status\<rparr>) s2 of
                           (Inl e, s3) \<Rightarrow> (Inl e, s3)
                         | (Inr _, s3) \<Rightarrow> (result, s3)))))"

end
