(* ===== verification/Network_Isolation.thy ===== *)
theory Network_Isolation
  imports Network_Status
begin

text \<open>
  One controller serves many networks. This theory shows that reconciling an organization of one
  network never changes an object of another one: every write goes through the ownership check with
  the network's own annotations and labels, and every deletion is of an object that carries them.
\<close>

section \<open>Objects of other networks\<close>

definition foreignTo :: "FabricNetwork \<Rightarrow> KObject \<Rightarrow> bool" where
  "foreignTo net ob \<longleftrightarrow> hasFabricNetworkOwner ob \<and> \<not> ownedByNetwork net (objMeta ob)"

text \<open>Metadata that claims ownership for the network, both ways.\<close>

definition claims :: "FabricNetwork \<Rightarrow> ObjectMeta \<Rightarrow> bool" where
  "claims net m \<longleftrightarrow> annotationOwner m = \<lparr>ow_name = fn_Name net, ow_namespace = fn_Namespace net\<rparr> \<and>
     labelOwner m = \<lparr>ow_name = sanitizeName (fn_Name net), ow_namespace = sanitizeName (fn_Namespace net)\<rparr>"

lemma foreign_refused: "foreignTo net ob \<Longrightarrow> claims net (objMeta desired) \<Longrightarrow> ensureSameFabricNetworkOwner ob desired \<noteq> None"
  by (auto simp: foreignTo_def claims_def ownedByNetwork_def hasFabricNetworkOwner_def ensureSameFabricNetworkOwner_def
      ensureMatchingFabricNetworkOwner_def split: option.splits)

lemma claims_sub:
  assumes "\<And>k. k \<in> {annotationFabricNetwork, annotationFabricNetworkNamespace} \<Longrightarrow>
      go_get annotations k = go_get (resourceAnnotations net org) k"
    and "\<And>k. k \<in> {labelFabricNetwork, labelFabricNetworkNamespace} \<Longrightarrow> go_get labels k = go_get (baseLabels net) k"
  shows "claims net \<lparr>mt_Name = n, mt_Namespace = ns, mt_Labels = Some labels, mt_Annotations = Some annotations\<rparr>"
  unfolding claims_def annotationOwner_def labelOwner_def annotationOf_def labelOf_def using assms
  by (simp add: nilmap_def resourceAnnotations_def baseLabels_def go_get_def label_names Let_def)

lemma own_labels:
  "k \<in> {labelFabricNetwork, labelFabricNetworkNamespace} \<Longrightarrow> go_get (orgLabels net org c) k = go_get (baseLabels net) k"
  "k \<in> {labelFabricNetwork, labelFabricNetworkNamespace} \<Longrightarrow>
   go_get (identityLabels net org c w [(labelIdentityKind, kind)]) k = go_get (baseLabels net) k"
  by (auto simp: orgLabels_def identityLabels_def label_names)

lemma claims_org [simp]:
  "claims net \<lparr>mt_Name = n, mt_Namespace = ns, mt_Labels = Some (orgLabels net org c), mt_Annotations = Some (resourceAnnotations net org)\<rparr>"
  by (rule claims_sub) (simp_all add: own_labels)

lemma claims_identity:
  "(\<And>k. k \<in> {annotationFabricNetwork, annotationFabricNetworkNamespace} \<Longrightarrow> go_get annotations k = go_get (resourceAnnotations net org) k) \<Longrightarrow>
   claims net \<lparr>mt_Name = n, mt_Namespace = ns, mt_Labels = Some (identityLabels net org c w [(labelIdentityKind, kind)]),
     mt_Annotations = Some annotations\<rparr>"
  by (rule claims_sub) (simp_all add: own_labels)

section \<open>Calls that stay within the network\<close>

definition isolated :: "('s \<Rightarrow> objkey \<Rightarrow> KObject option) \<Rightarrow> FabricNetwork \<Rightarrow> ('s, 'a) io \<Rightarrow> bool" where
  "isolated view net f \<longleftrightarrow> (\<forall>k ob. settled (fst k) \<longrightarrow> foreignTo net ob \<longrightarrow> ioKeeps (\<lambda>s. view s k = Some ob) f)"

lemma isolated_bind:
  "isolated view net f \<Longrightarrow> (\<And>a s. fst (f s) = Inr a \<Longrightarrow> isolated view net (g a)) \<Longrightarrow> isolated view net (ioBind f g)"
  unfolding isolated_def by (blast intro: ioKeeps_bind_post)

lemma isolated_return [simp, intro]: "isolated view net (ioReturn a)"
  by (simp add: isolated_def)

lemma isolated_seq: "(\<And>f. f \<in> set fs \<Longrightarrow> isolated view net f) \<Longrightarrow> isolated view net (ioSeq fs)"
  by (auto simp: isolated_def intro: ioKeeps_seq)

lemma isolated_lift [simp, intro]: "isolated view net (ioLift r)"
  by (simp add: isolated_def ioKeeps_def ioLift_def)

lemma isolated_harmless: "(\<And>k P. settled (fst k) \<Longrightarrow> ioKeeps (\<lambda>s. P (view s k)) f) \<Longrightarrow> isolated view net f"
proof (unfold isolated_def, intro allI impI)
  fix k :: objkey and ob :: KObject
  assume f: "\<And>k P. settled (fst k) \<Longrightarrow> ioKeeps (\<lambda>s. P (view s k)) f" and k: "settled (fst k)"
  show "ioKeeps (\<lambda>s. view s k = Some ob) f" using f [OF k, of "\<lambda>v. v = Some ob"] by simp
qed

lemma keepsKey_workloads [simp]:
  "keepsKey (mutateService svc)" "keepsKey (mutateNetworkPolicy np)" "keepsKey (mutateServiceMonitor sm)"
  by (auto simp: keepsKey_def objKey_def mutateService_def mutateNetworkPolicy_def mutateServiceMonitor_def Let_def
      case_prod_unfold split: KObject.split)

lemma volatile_mutators:
  "\<not> settled (objKind (snd (mutateNamespace m ob))) \<or> \<not> fst (mutateNamespace m ob)"
  "\<not> settled (objKind (snd (mutateDeployment d ob))) \<or> \<not> fst (mutateDeployment d ob)"
  "\<not> settled (objKind (snd (mutatePersistentVolumeClaim p ob))) \<or> \<not> fst (mutatePersistentVolumeClaim p ob)"
  "\<not> settled (objKind (snd (mutateConfigMap c ob))) \<or> \<not> fst (mutateConfigMap c ob)"
  by (cases ob; simp add: mutateNamespace_def mutateDeployment_def mutatePersistentVolumeClaim_def mutateConfigMap_def Let_def
      case_prod_unfold)+

context kube_api
begin

lemma isolated_write:
  assumes "claims net (objMeta desired)" and "keepsKey mutate" and "settled (objKind desired)"
  shows "isolated view net (createOrUpdate api desired mutate)"
proof (unfold isolated_def, intro allI impI)
  fix k :: objkey and ob
  assume k: "settled (fst k)" and ob: "foreignTo net ob"
  have s: "settled (fst (objKey desired))" using assms(3) by (simp add: objKey_def)
  show "ioKeeps (\<lambda>s. view s k = Some ob) (createOrUpdate api desired mutate)"
  proof (cases "k = objKey desired")
    case True
    with createOrUpdate_foreign [OF assms(2) s _ foreign_refused [OF ob assms(1)] k] show ?thesis by (simp add: ioKeeps_def)
  next
    case False
    with createOrUpdate_frame [OF assms(2) _ k s] show ?thesis by (simp add: ioKeeps_def)
  qed
qed

lemma isolated_volatile:
  "isolated view net (ensureDeployment api d)" "isolated view net (ensurePersistentVolumeClaim api p)"
  "isolated view net (ensureConfigMap api c)" "isolated view net (ensureJob api j)"
  "isolated view net (createOrUpdate api (ONamespace m) (mutateNamespace m))"
proof -
  show "isolated view net (ensureDeployment api d)"
    unfolding ensureDeployment_def by (rule isolated_harmless, rule keeps_volatile) (use volatile_mutators in \<open>auto simp: objKey_def\<close>)
  show "isolated view net (ensurePersistentVolumeClaim api p)"
    unfolding ensurePersistentVolumeClaim_def by (rule isolated_harmless, rule keeps_volatile) (use volatile_mutators in \<open>auto simp: objKey_def\<close>)
  show "isolated view net (ensureConfigMap api c)"
    unfolding ensureConfigMap_def by (rule isolated_harmless, rule keeps_volatile) (use volatile_mutators in \<open>auto simp: objKey_def\<close>)
  show "isolated view net (ensureJob api j)" by (rule isolated_harmless, rule keeps_ensureJob)
  show "isolated view net (createOrUpdate api (ONamespace m) (mutateNamespace m))"
    by (rule isolated_harmless, rule keeps_volatile) (use volatile_mutators in \<open>auto simp: objKey_def\<close>)
qed

lemma isolated_writes:
  "claims net (sec_Meta sec) \<Longrightarrow> isolated view net (ensureSecret api sec v)"
  "claims net (sec_Meta sec) \<Longrightarrow> isolated view net (upsertSecretData api sec)"
  "claims net m \<Longrightarrow> isolated view net (ensureServiceAccount api m)"
  "claims net m \<Longrightarrow> isolated view net (ensureRole api m rules)"
  "claims net m \<Longrightarrow> isolated view net (ensureRoleBinding api m subjects ref)"
  "claims net (svc_Meta svc) \<Longrightarrow> isolated view net (ensureService api svc)"
  "claims net (np_Meta np) \<Longrightarrow> isolated view net (ensureNetworkPolicy api np)"
  "claims net (sm_Meta sm) \<Longrightarrow> isolated view net (ensureServiceMonitor api sm)"
  by (unfold ensureSecret_def upsertSecretData_def ensureServiceAccount_def ensureRole_def ensureRoleBinding_def
      ensureService_def ensureNetworkPolicy_def ensureServiceMonitor_def)
    (rule isolated_write; simp)+

lemma isolated_reads:
  "isolated view net (getSecret api ns n)" "isolated view net (getJob api ns n)" "isolated view net (ioNow api)"
  "isolated view net (generateBootstrapPassword api)" "isolated view net (getDeployment api ns n)"
proof -
  have d: "snd (getDeployment api ns n s) = snd (k_Get api (KDeployment, ns, n) s)" for s
    by (simp add: getDeployment_def split: prod.splits sum.splits KObject.splits)
  show "isolated view net (getDeployment api ns n)"
    by (rule isolated_harmless) (simp add: ioKeeps_def d get_frame)
qed (rule isolated_harmless; simp add: generateBootstrapPassword_def keeps_getSecret keeps_getJob keeps_now keeps_rand)+

lemmas isolated_intros = isolated_bind isolated_seq isolated_reads isolated_volatile isolated_writes

lemma isolated_credentials:
  "isolated view net (ensureCABootstrapSecret cr api net org ns)"
  "isolated view net (ensureEnrollmentCredentialSecret cr api net org ns i c kind)"
  by (unfold ensureCABootstrapSecret_def ensureEnrollmentCredentialSecret_def buildCABootstrapSecret_def buildEnrollmentCredentialSecret_def Let_def)
    (rule isolated_bind, rule isolated_bind, rule isolated_reads, simp, rule isolated_writes, auto simp: ioBind_Inr ioReturn_def claims_identity)+

lemma isolated_identity: "isolated view net (reconcileIdentityMaterial cr api net org ns)"
  unfolding reconcileIdentityMaterial_def ensureAdminEnrollmentSecret_def
  by (intro isolated_bind isolated_seq isolated_credentials) (auto intro: isolated_credentials)

lemma isolated_RBAC: "isolated view net (ensureEnrollmentRBAC api net org ns)"
  unfolding ensureEnrollmentRBAC_def buildEnrollmentServiceAccount_def buildEnrollmentRole_def buildEnrollmentRoleBinding_def
    enrollmentMeta_def Let_def
  by (auto intro!: isolated_bind isolated_writes)

lemma isolated_enrolled: "isolated view net (fabricCAIdentityEnrolled cr api net ns w a b)"
  unfolding fabricCAIdentityEnrolled_def by (auto intro!: isolated_bind isolated_reads)

lemma isolated_enrollment:
  "isolated view net (reconcileAdminEnrollment cr api net org ns)" "isolated view net (reconcileWorkloadEnrollments cr api net org ns)"
  unfolding reconcileAdminEnrollment_def reconcileWorkloadEnrollments_def reconcileWorkloadEnrollment_def
    adminIdentityEnrolled_def workloadIdentityEnrolled_def
  by (auto intro!: isolated_bind isolated_seq isolated_RBAC isolated_enrolled isolated_volatile)

lemma isolated_missing: "isolated view net (missingIdentity cr api net rs)"
  by (induction rs) (auto intro!: isolated_bind isolated_reads)

lemma isolated_status: "isolated view net (identityMaterialStatus cr api net org ns)"
  unfolding identityMaterialStatus_def by (auto intro!: isolated_bind isolated_missing)

lemma isolated_lifecycle: "isolated view net (reconcileCertificateLifecycle cr api net org ns caReady identityReady blocked)"
proof -
  have "isolated view net (inventoryLoop cr api now refs)" "isolated view net (renewalLoop api net org ns requests statuses messages)"
    for now refs requests statuses messages
    by (rule isolated_harmless, erule keeps_inventory keeps_renewalLoop)+
  then show ?thesis
    unfolding reconcileCertificateLifecycle_def identityCertificateInventory_def Let_def
    by (auto intro!: isolated_bind isolated_reads isolated_RBAC split: prod.splits)
qed

lemma rotation_annotations:
  "annotationCARegistrarRotationRequestID \<noteq> annotationFabricNetwork" "annotationCARegistrarRotationRequestID \<noteq> annotationFabricNetworkNamespace"
  "annotationCARegistrarRotationTime \<noteq> annotationFabricNetwork" "annotationCARegistrarRotationTime \<noteq> annotationFabricNetworkNamespace"
  "annotationCARegistrarPreviousSecret \<noteq> annotationFabricNetwork" "annotationCARegistrarPreviousSecret \<noteq> annotationFabricNetworkNamespace"
  by (simp_all add: label_names annotationCARegistrarRotationRequestID_def annotationCARegistrarRotationTime_def
      annotationCARegistrarPreviousSecret_def)

lemma claims_rotation [simp]:
  "claims net (sec_Meta (buildCARegistrarPreviousSecret net org ns active))"
  "claims net (sec_Meta (buildPromotedCARegistrarSecret net org ns staged rid t))"
  "fst (buildCARegistrarStagedSecret cr api net org ns rid s) = Inr sec \<Longrightarrow> claims net (sec_Meta sec)"
  by (auto simp: buildCARegistrarPreviousSecret_def buildPromotedCARegistrarSecret_def buildCARegistrarStagedSecret_def Let_def
      ioBind_Inr ioReturn_def copyAnnotation_def rotation_annotations rotation_annotations [symmetric]
      intro!: claims_identity)

lemma isolated_rotation: "isolated view net (reconcileCARegistrarRotation cr api net org ns caReady)"
proof -
  have build: "isolated view net (buildCARegistrarStagedSecret cr api net org ns rid)" for rid
    unfolding buildCARegistrarStagedSecret_def Let_def by (auto intro!: isolated_bind isolated_reads)
  have stage: "isolated view net (ensureCARegistrarStagedSecret cr api net org ns rid)" for rid
    unfolding ensureCARegistrarStagedSecret_def getCARegistrarSecret_def
    by (auto intro!: isolated_bind build isolated_writes isolated_reads dest: claims_rotation(3))
  have run: "isolated view net (runRotation cr api net org ns caReady rid active staged status)" for rid active staged status
    unfolding runRotation_def promoteCARegistrarSecret_def caRegistrarRotationJobState_def
    by (auto intro!: isolated_bind isolated_RBAC isolated_volatile isolated_reads isolated_writes split: prod.splits)
  show ?thesis
    unfolding reconcileCARegistrarRotation_def requestedRotation_def getCARegistrarSecret_def Let_def
    by (auto intro!: isolated_bind isolated_reads stage run split: option.splits)
qed

end

section \<open>An organization\<close>

lemma service_labels:
  assumes "k \<in> {labelFabricNetwork, labelFabricNetworkNamespace}"
  shows "go_get (mergeMap (orgLabels net org c) (ordererSelector net org grp i)) k = go_get (baseLabels net) k"
    "go_get (mergeMap (orgLabels net org c) (peerSelector net org i)) k = go_get (baseLabels net) k"
    "go_get (mergeMap (orgLabels net org c) [(labelWorkload, w)]) k = go_get (baseLabels net) k"
    "go_get (operationsServiceLabels net org c w) k = go_get (baseLabels net) k"
    "go_get (go_set (operationsServiceLabels net org c w) labelInstance x) k = go_get (baseLabels net) k"
    "go_get (go_set (go_set (operationsServiceLabels net org c w) labelOrdererGroup y) labelInstance x) k = go_get (baseLabels net) k"
    "go_get (serviceMonitorMetadataLabels net org) k = go_get (baseLabels net) k"
  using assms
  by (auto simp: go_get_def map_of_mergeMap map_add_def ordererSelector_def peerSelector_def operationsServiceLabels_def
      serviceMonitorMetadataLabels_def orgLabels_def baseLabels_def go_set_def workload_label_names)

lemma claims_service [simp]:
  "claims net (svc_Meta (buildCAService net org ns))" "claims net (svc_Meta (buildOrdererService net org grp i ns))"
  "claims net (svc_Meta (buildOrdererOperationsService net org grp i ns))" "claims net (svc_Meta (buildPeerService net org i ns))"
  "claims net (svc_Meta (buildPeerOperationsService net org i ns))" "claims net (svc_Meta (buildCouchDBService net org peer ns))"
  "claims net (np_Meta (buildOrgNetworkPolicy net org ns))" "claims net (sm_Meta (buildOrgServiceMonitor net org ns))"
  by (auto simp: buildCAService_def buildOrdererService_def buildOrdererOperationsService_def buildPeerService_def
      buildPeerOperationsService_def buildCouchDBService_def buildOrgNetworkPolicy_def buildOrgServiceMonitor_def Let_def
      service_labels own_labels intro!: claims_sub)

context cluster
begin

lemma isolated_revisionSeed: "isolated view net (revisionSeed (cl_Kube cl) ns refs seed)"
  by (induction refs arbitrary: seed) (auto intro!: isolated_bind isolated_reads split: option.splits)

lemma isolated_revision: "isolated view net (setDeploymentIdentityRevision cr (cl_Kube cl) deploy net w)"
  unfolding setDeploymentIdentityRevision_def identityMaterialRevision_def
  by (auto intro!: isolated_bind isolated_revisionSeed)

lemma isolated_readiness:
  "isolated view net (deploymentWorkloadStatus (cl_Kube cl) ns n)" "isolated view net (isDeploymentReady (cl_Kube cl) ns n)"
  unfolding isDeploymentReady_def deploymentWorkloadStatus_def by (auto intro!: isolated_bind isolated_reads)

lemma isolated_pvc: "isolated view net (ensureDataPVC cl net org ns w c)"
  unfolding ensureDataPVC_def by (auto intro!: isolated_bind isolated_volatile)

lemma isolated_CA: "isolated view net (reconcileCA cl net org ns)"
  unfolding reconcileCA_def by (auto intro!: isolated_bind isolated_pvc isolated_volatile isolated_writes isolated_readiness)

lemma isolated_orderers: "isolated view net (reconcileOrdererList cr cl net org ns status instances)"
proof (induction instances arbitrary: status)
  case (Cons x instances)
  then show ?case
    by (cases x) (auto simp: reconcileOrderer_def Let_def
        intro!: isolated_bind isolated_revision isolated_pvc isolated_volatile isolated_writes isolated_readiness)
qed simp

lemma isolated_couchdb: "isolated view net (reconcilePeerCouchDB cl net org ns peer)"
proof -
  have "isolated view net (buildCouchDBSecret (cl_Kube cl) net org ns peer)"
    unfolding buildCouchDBSecret_def by (auto intro!: isolated_bind isolated_reads)
  moreover have "claims net (sec_Meta sec)" if "fst (buildCouchDBSecret (cl_Kube cl) net org ns peer s) = Inr sec" for sec s
    using that by (auto simp: buildCouchDBSecret_def ioBind_Inr ioReturn_def own_labels label_names intro!: claims_sub)
  ultimately show ?thesis
    unfolding reconcilePeerCouchDB_def Let_def
    by (auto intro!: isolated_bind isolated_pvc isolated_volatile isolated_writes isolated_readiness)
qed

lemma isolated_peers: "isolated view net (reconcilePeerList cr cl net org ns status instances)"
  by (induction instances arbitrary: status) (auto simp: reconcilePeer_def Let_def
      intro!: isolated_bind isolated_revision isolated_pvc isolated_couchdb isolated_volatile isolated_writes isolated_readiness)

text \<open>A listed object is the stored one, so that the ownership check of its deletion sees the stored owner.\<close>

lemma keeps_delete_other:
  "settled (fst k) \<Longrightarrow> k \<noteq> objKey ob \<Longrightarrow> objKind ob \<noteq> KNamespace \<Longrightarrow> ioKeeps (\<lambda>s. view s k = v) (cl_Delete cl ob)"
  by (simp add: ioKeeps_def delete_frame)

lemma keeps_deleteUndesired:
  assumes "settled (fst k)" and "foreignTo net foreign" and "objKind ob \<noteq> KNamespace" and "objKey ob = k \<Longrightarrow> ob = foreign"
  shows "ioKeeps (\<lambda>s. view s k = Some foreign) (deleteUndesired cl net org ns c desired ob)"
proof (cases "k = objKey ob")
  case True
  then have "ensureSameFabricNetworkOwner ob (ownerObject (mt_Name (objMeta ob)) ns (orgLabels net org c) (resourceAnnotations net org)) \<noteq> None"
    using assms(2,4) by (intro foreign_refused [where net = net]) (auto simp: ownerObject_def)
  then show ?thesis by (auto simp: deleteUndesired_def deleteOwnedObject_def ioKeeps_def ioReturn_def)
next
  case False
  with assms(1,3) keeps_delete_other have d: "ioKeeps (\<lambda>s. view s k = Some foreign) (cl_Delete cl ob)" by blast
  have e: "ioKeeps Q (\<lambda>s. (Inl x, s))" for Q :: "'s \<Rightarrow> bool" and x :: ApiError by (simp add: ioKeeps_def)
  from d e show ?thesis
    unfolding deleteUndesired_def deleteOwnedObject_def by (auto split: option.splits)
qed

lemma isolated_cleanup: "isolated view net (cleanupScaledDownComponentWorkloads cl net org ns c desired)"
proof (unfold isolated_def, intro allI impI)
  fix k :: objkey and foreign
  assume k: "settled (fst k)" and foreign: "foreignTo net foreign"
  let ?Q = "\<lambda>s. view s k = Some foreign"
  have list: "ioKeeps ?Q (cl_List cl kind ns selector)" for kind selector using k by (simp add: ioKeeps_def list_frame)
  have del: "ioKeeps ?Q (ioSeq (map (deleteUndesired cl net org ns c names) obs))"
    if "?Q s" "fst (cl_List cl kind ns selector s) = Inr obs" "kind \<in> {KDeployment, KService}" for names obs kind selector s
  proof (rule ioKeeps_seq, clarsimp)
    fix ob assume ob: "ob \<in> set obs"
    have kind: "objKind ob = kind" using list_found [OF that(2) ob] by simp
    have "ob = foreign" if "objKey ob = k"
    proof -
      have "settled kind" using k that kind by (auto simp: objKey_def)
      from list_stored [OF this \<open>fst (cl_List cl kind ns selector s) = Inr obs\<close> ob] \<open>?Q s\<close> that show ?thesis by simp
    qed
    moreover have "objKind ob \<noteq> KNamespace" using kind that(3) by auto
    ultimately show "ioKeeps ?Q (deleteUndesired cl net org ns c names ob)" using keeps_deleteUndesired [OF k foreign] by blast
  qed
  show "ioKeeps ?Q (cleanupScaledDownComponentWorkloads cl net org ns c desired)"
    unfolding cleanupScaledDownComponentWorkloads_def Let_def
    by (intro ioKeeps_bind_post [OF list] ioKeeps_bind_post del) auto
qed

lemma isolated_policies: "isolated view net (ensureOrgPolicies cl net org ns)"
proof -
  have "isolated view net (ensureNetworkPolicyAbsent cl (buildOrgNetworkPolicy net org ns))"
  proof (unfold isolated_def, intro allI impI)
    fix k :: objkey and foreign
    assume k: "settled (fst k)" and foreign: "foreignTo net foreign"
    let ?np = "buildOrgNetworkPolicy net org ns"
    show "ioKeeps (\<lambda>s. view s k = Some foreign) (ensureNetworkPolicyAbsent cl ?np)"
      unfolding ioKeeps_def
    proof (intro allI impI)
      fix s assume s: "view s k = Some foreign"
      show "view (snd (ensureNetworkPolicyAbsent cl ?np s)) k = Some foreign"
      proof (cases "k_Get (cl_Kube cl) (objKey (ONetworkPolicy ?np)) s")
        case (Pair r s1)
        have v: "view s1 k = Some foreign" using view_get [OF Pair k] s by simp
        have "ob = foreign \<or> (k \<noteq> objKey ob \<and> objKind ob \<noteq> KNamespace)" if "r = Inr ob" for ob
        proof -
          have "view s (objKey ob) = Some ob" "objKind ob = KNetworkPolicy"
            using get_found [of "objKey (ONetworkPolicy ?np)" s ob] Pair that by (auto simp: objKey_def)
          then show ?thesis using s by auto
        qed
        then have "view (snd (cl_Delete cl ob s1)) k = Some foreign"
          if "r = Inr ob" "ensureSameFabricNetworkOwner ob (ONetworkPolicy ?np) = None" for ob
          using foreign_refused [OF foreign, of "ONetworkPolicy ?np"] that v keeps_delete_other [OF k, of ob "Some foreign"]
          by (auto simp: ioKeeps_def)
        with Pair v show ?thesis by (auto simp: ensureNetworkPolicyAbsent_def split: sum.splits ApiError.splits option.splits)
      qed
    qed
  qed
  then show ?thesis
    unfolding ensureOrgPolicies_def ensureNamespace_def by (auto intro!: isolated_bind isolated_volatile isolated_writes)
qed

lemma isolated_org: "isolated view net (reconcileOrg cr cl net org)"
proof -
  have "isolated view net (reconcilePeers cr cl net org ns)" for ns
    unfolding reconcilePeers_def cleanupScaledDownPeerWorkloads_def
    by (auto intro!: isolated_bind isolated_peers isolated_cleanup split: option.splits)
  then have w: "isolated view net (reconcileOrgWorkloads cr cl net org ns status)" for ns status
    unfolding reconcileOrgWorkloads_def reconcileOrderers_def by (auto intro!: isolated_bind isolated_orderers)
  show ?thesis
    unfolding reconcileOrg_def Let_def case_prod_unfold
    by (auto intro!: isolated_bind isolated_policies isolated_identity isolated_CA isolated_rotation isolated_enrollment isolated_status
        isolated_lifecycle w)
qed

end

section \<open>Properties\<close>


definition squatter :: "FabricNetwork \<Rightarrow> Secret" where
  "squatter net = (otherSecret ''net-a'' ''old'')\<lparr>sec_Meta := (otherMeta ''net-a'')\<lparr>
     mt_Name := caBootstrapSecretName tinyOrg, mt_Namespace := orgNamespaceName net tinyOrg\<rparr>\<rparr>"


end
