(* ===== verification/Network_Deletion.thy ===== *)
theory Network_Deletion
  imports Network_Status
begin

text \<open>
  Deleting a network: the finalizer keeps the resource until the namespaces of its organizations are
  gone. The theory follows a run of \<open>Reconcile\<close> on a network with a deletion timestamp over the memory
  cluster, with arbitrary faults.
\<close>

section \<open>Cleaning up a namespace\<close>

definition orgGone :: "FabricNetwork \<Rightarrow> MemStore \<Rightarrow> objkey \<Rightarrow> Org \<Rightarrow> bool" where
  "orgGone net s k org \<longleftrightarrow>
     (\<exists>m. memView s (KNamespace, [], orgNamespaceName net org) = Some (ONamespace m) \<and> namespaceOwnedByFabricNetwork m net org \<and>
        (k = (KNamespace, [], orgNamespaceName net org) \<or> fst (snd k) = orgNamespaceName net org))"

text \<open>What belongs to the namespaces of the network: they themselves and the objects in them.\<close>

definition networkContent :: "FabricNetwork \<Rightarrow> MemStore \<Rightarrow> objkey \<Rightarrow> bool" where
  "networkContent net s k \<longleftrightarrow> (\<exists>org \<in> set (sp_Orgs (fn_Spec net)). orgGone net s k org)"

lemma orgNamespaceName_nonempty: "orgNamespaceName net org \<noteq> []"
  using clean_sanitizeName by (auto simp: orgNamespaceName_def clean_name_iff clean_shape_def)

lemma memView_namespace: "memView s (KNamespace, [], n) = Some ob \<Longrightarrow> \<exists>m. ob = ONamespace m \<and> mt_Name m = n"
  by (cases ob) (auto simp: memView_def objKey_def split: option.splits if_splits)

lemma mem_delete_outcome:
  assumes "memView s (objKey ob) = Some ob"
  shows "mem_networks (snd (memDelete ob s)) = mem_networks s" "fst (memDelete ob s) \<noteq> Inl NotFound"
    "memView (snd (memDelete ob s)) k \<in> {memView s k, memView (memDrop ob s) k}"
    "fst (memDelete ob s) = Inr () \<Longrightarrow> memView (snd (memDelete ob s)) k = memView (memDrop ob s) k"
    "mem_faults s = [] \<Longrightarrow> fst (memDelete ob s) = Inr () \<and> mem_faults (snd (memDelete ob s)) = []"
proof -
  show "mem_networks (snd (memDelete ob s)) = mem_networks s" by simp
  show "memView (snd (memDelete ob s)) k \<in> {memView s k, memView (memDrop ob s) k}" using memDelete_view [of ob s k] by blast
  obtain f s1 where f: "nextFault s = (f, s1)" by fastforce
  have drop: "memView (memDrop ob s1) = memView (memDrop ob s)"
    using memView_cong [OF nextFault_objects [OF f]] by (simp add: fun_eq_iff memView_drop)
  have e: "faultError e \<noteq> NotFound" for e by (simp add: faultError_def)
  show "fst (memDelete ob s) \<noteq> Inl NotFound" using f assms e by (auto simp: memDelete_def split: Fault.splits)
  show "fst (memDelete ob s) = Inr () \<Longrightarrow> memView (snd (memDelete ob s)) k = memView (memDrop ob s) k"
    using f assms drop by (auto simp: memDelete_def split: Fault.splits)
  show "mem_faults s = [] \<Longrightarrow> fst (memDelete ob s) = Inr () \<and> mem_faults (snd (memDelete ob s)) = []"
    using assms by (simp add: memDelete_def nextFault_def memDrop_def)
qed

lemma clean_step:
  assumes "cleanupNamespace memCluster net org s = (r, s1)"
  shows "mem_networks s1 = mem_networks s" and "mem_faults s = [] \<Longrightarrow> r = Inr () \<and> mem_faults s1 = []"
    and "memView s1 k = memView s k \<or> orgGone net s k org \<and> memView s1 k = None"
    and "r = Inr () \<Longrightarrow> memView s1 k = (if orgGone net s k org then None else memView s k)"
proof -
  let ?n = "orgNamespaceName net org"
  let ?k = "(KNamespace, [], ?n) :: objkey"
  obtain g s0 where g: "memGet ?k s = (g, s0)" by fastforce
  have v0: "memView s0 = memView s" "mem_networks s0 = mem_networks s" "mem_faults s = [] \<Longrightarrow> s0 = s"
    using g memView_cong [OF nextFault_objects] nextFault_rest
    by (auto simp: memGet_def split: prod.splits Fault.splits option.splits)
  have run: "(r, s1) = (case g of Inl NotFound \<Rightarrow> (Inr (), s0) | Inl e \<Rightarrow> (Inl e, s0) | Inr ob \<Rightarrow>
      if \<not> namespaceOwnedByFabricNetwork (objMeta ob) net org then (Inr (), s0) else ignoreNotFound (memDelete ob) s0)"
    using assms by (cases g) (auto simp: cleanupNamespace_def memKube_def g split: ApiError.splits if_splits)
  consider (absent) "g = Inl NotFound" "memView s ?k = None" | (failed) e where "g = Inl e" "e \<noteq> NotFound" "mem_faults s \<noteq> []"
    | (found) m where "g = Inr (ONamespace m)" "memView s ?k = Some (ONamespace m)"
  proof -
    have "g = (case memView s ?k of None \<Rightarrow> Inl NotFound | Some ob \<Rightarrow> Inr ob) \<or> (\<exists>e. g = Inl e \<and> e \<noteq> NotFound \<and> mem_faults s \<noteq> [])"
    proof (cases "nextFault s")
      case (Pair f s')
      have "mem_faults s \<noteq> []" if "f \<noteq> NoFault" using nextFault_rest [OF Pair] that by blast
      moreover have "faultError e \<noteq> NotFound" for e by (simp add: faultError_def)
      moreover have "g = (case f of NoFault \<Rightarrow> (case memView s ?k of None \<Rightarrow> Inl NotFound | Some ob \<Rightarrow> Inr ob)
          | Reject e \<Rightarrow> Inl (faultError e) | ApplyAndReport e \<Rightarrow> Inl (faultError e))"
        using g Pair by (simp add: memGet_def split: Fault.splits option.splits)
      ultimately show ?thesis by (cases f) simp_all
    qed
    then show ?thesis using that memView_namespace [of s ?n] by (cases "memView s ?k") auto
  qed
  then have "mem_networks s1 = mem_networks s \<and> (mem_faults s = [] \<longrightarrow> r = Inr () \<and> mem_faults s1 = []) \<and>
      (memView s1 k = memView s k \<or> orgGone net s k org \<and> memView s1 k = None) \<and>
      (r = Inr () \<longrightarrow> memView s1 k = (if orgGone net s k org then None else memView s k))"
  proof cases
    case absent
    with run v0 show ?thesis by (auto simp: orgGone_def)
  next
    case (failed e)
    with run have "r = Inl e" "s1 = s0" by (auto split: ApiError.splits)
    with v0 failed show ?thesis by auto
  next
    case (found m)
    have name: "mt_Name m = ?n" "objKey (ONamespace m) = ?k"
      using found(2) memView_namespace [OF found(2)] by (auto simp: memView_def split: option.splits if_splits)
    have drop: "memView (memDrop (ONamespace m) s0) k = (if k = ?k \<or> fst (snd k) = ?n then None else memView s k)"
      using name v0 by (simp add: memView_drop)
    show ?thesis
    proof (cases "namespaceOwnedByFabricNetwork m net org")
      case False
      with run found v0 show ?thesis by (auto simp: orgGone_def)
    next
      case True
      obtain d s2 where d: "memDelete (ONamespace m) s0 = (d, s2)" by fastforce
      have stored: "memView s0 (objKey (ONamespace m)) = Some (ONamespace m)" using name v0 found(2) by simp
      note out = mem_delete_outcome [OF stored, unfolded d, simplified]
      have "r = d" "s1 = s2" using run found True d out(2) by (auto simp: ignoreNotFound_def split: sum.splits ApiError.splits)
      moreover have "orgGone net s k org \<longleftrightarrow> k = ?k \<or> fst (snd k) = ?n" using found(2) True by (simp add: orgGone_def)
      ultimately show ?thesis using out(1) out(3) [of k] out(4) [of k] out(5) v0 drop by auto
    qed
  qed
  then show "mem_networks s1 = mem_networks s" "mem_faults s = [] \<Longrightarrow> r = Inr () \<and> mem_faults s1 = []"
    "memView s1 k = memView s k \<or> orgGone net s k org \<and> memView s1 k = None"
    "r = Inr () \<Longrightarrow> memView s1 k = (if orgGone net s k org then None else memView s k)" by blast+
qed

text \<open>A cleaned namespace is gone; the others are as they were.\<close>

lemma orgGone_after:
  assumes "cleanupNamespace memCluster net org s = (r, s1)"
  shows "orgGone net s1 k org' \<Longrightarrow> orgGone net s k org'" "orgGone net s k org' \<Longrightarrow> orgGone net s1 k org' \<or> orgGone net s k org"
proof -
  let ?k = "(KNamespace, [], orgNamespaceName net org') :: objkey"
  have v: "memView s1 ?k = memView s ?k \<or> orgGone net s ?k org \<and> memView s1 ?k = None" using clean_step(3) [OF assms, of ?k] .
  then show "orgGone net s1 k org' \<Longrightarrow> orgGone net s k org'" by (auto simp: orgGone_def)
  have "orgNamespaceName net org' = orgNamespaceName net org" if "orgGone net s ?k org"
    using that orgNamespaceName_nonempty [of net org] by (auto simp: orgGone_def)
  moreover have "orgGone net s1 k org'" if "memView s1 ?k = memView s ?k" "orgGone net s k org'"
    using that by (simp add: orgGone_def)
  moreover have "orgGone net s k org" if "orgGone net s ?k org" "orgNamespaceName net org' = orgNamespaceName net org" "orgGone net s k org'"
    using that by (auto simp: orgGone_def)
  ultimately show "orgGone net s k org' \<Longrightarrow> orgGone net s1 k org' \<or> orgGone net s k org" using v by blast
qed

lemma clean_all:
  assumes "ioSeq (map (cleanupNamespace memCluster net) orgs) s = (r, s1)"
  shows "mem_networks s1 = mem_networks s \<and> (mem_faults s = [] \<longrightarrow> r = Inr () \<and> mem_faults s1 = []) \<and>
    (memView s1 k = memView s k \<or> (\<exists>org \<in> set orgs. orgGone net s k org) \<and> memView s1 k = None) \<and>
    (r = Inr () \<longrightarrow> memView s1 k = (if \<exists>org \<in> set orgs. orgGone net s k org then None else memView s k))"
  using assms
proof (induction orgs arbitrary: s)
  case (Cons org orgs)
  obtain r0 s0 where step: "cleanupNamespace memCluster net org s = (r0, s0)" by fastforce
  note c = clean_step(1,2) [OF step] clean_step(3,4) [OF step, of k]
  show ?case
  proof (cases r0)
    case (Inl e)
    with Cons.prems step have "r = Inl e" "s1 = s0" by (auto simp: ioBind_def)
    with c Inl show ?thesis by auto
  next
    case (Inr u)
    with Cons.prems step have rest: "ioSeq (map (cleanupNamespace memCluster net) orgs) s0 = (r, s1)" by (simp add: ioBind_def)
    have k: "memView s0 k = (if orgGone net s k org then None else memView s k)" using c(4) Inr by simp
    from Cons.IH [OF rest] c(1,2) k orgGone_after [OF step, of k] Inr show ?thesis by (auto split: if_splits)
  qed
qed (simp add: ioReturn_def)

section \<open>Removing the finalizer\<close>

definition released :: "string \<times> string \<Rightarrow> MemStore \<Rightarrow> bool" where
  "released key s \<longleftrightarrow> (\<forall>net. map_of (mem_networks s) key = Some net \<longrightarrow> \<not> containsFinalizer net fabricNetworkFinalizer)"

definition keyed :: "string \<times> string \<Rightarrow> MemStore \<Rightarrow> bool" where
  "keyed key s \<longleftrightarrow> (\<forall>net. map_of (mem_networks s) key = Some net \<longrightarrow> networkKey net = key)"

lemma retry_success:
  assumes "\<And>x. I x \<Longrightarrow> I (snd (attempt x)) \<and> (fst (attempt x) = Inr () \<longrightarrow> P (snd (attempt x)))" and "I s"
  shows "fst (retryOnConflict n attempt s) = Inr () \<longrightarrow> P (snd (retryOnConflict n attempt s))"
  using assms(2)
proof (induction n arbitrary: s)
  case (Suc n)
  from assms(1) [OF Suc.prems] Suc.IH show ?case
    by (cases "attempt s") (auto split: sum.splits ApiError.splits)
qed simp

abbreviation releaseAttempt :: "string \<times> string \<Rightarrow> (MemStore, unit) io" where
  "releaseAttempt key \<equiv> finalizerAttempt memCluster key (\<lambda>network.
     if \<not> containsFinalizer network fabricNetworkFinalizer then None else Some (removeFinalizer network fabricNetworkFinalizer))"

lemma removed: "networkKey (removeFinalizer net f) = networkKey net" "\<not> containsFinalizer (removeFinalizer net f) f"
  by (simp_all add: networkKey_def removeFinalizer_def containsFinalizer_def)

lemma memWriteNetwork_done: "fst (memWriteNetwork net s) = Inr () \<Longrightarrow> mem_networks (snd (memWriteNetwork net s)) = mem_networks (memPutNetwork net s)"
  using nextFault_rest [of s] by (cases "nextFault s") (auto simp: memWriteNetwork_def memPutNetwork_def split: Fault.splits)

lemma release_attempt:
  assumes "keyed key s"
  shows "keyed key (snd (releaseAttempt key s))" "fst (releaseAttempt key s) = Inr () \<Longrightarrow> released key (snd (releaseAttempt key s))"
    "memView (snd (releaseAttempt key s)) = memView s"
proof -
  obtain r s1 where g: "memGetNetwork key s = (r, s1)" by fastforce
  have s1: "mem_networks s1 = mem_networks s" "memView s1 = memView s"
    using mem_networks_ops(6) [of key s] memNetwork_view(1) [of key s] g by simp_all
  have "keyed key (snd (releaseAttempt key s)) \<and> (fst (releaseAttempt key s) = Inr () \<longrightarrow> released key (snd (releaseAttempt key s))) \<and>
      memView (snd (releaseAttempt key s)) = memView s"
  proof (cases r)
    case (Inl e)
    with g s1 assms show ?thesis by (simp add: finalizerAttempt_def ioBind_def keyed_def)
  next
    case (Inr net)
    have stored: "map_of (mem_networks s) key = Some net" using memGetNetwork_Some [of key s net] g Inr by simp
    then have key: "networkKey net = key" using assms by (simp add: keyed_def)
    show ?thesis
    proof (cases "containsFinalizer net fabricNetworkFinalizer")
      case False
      with g s1 Inr stored assms show ?thesis by (simp add: finalizerAttempt_def ioBind_def ioReturn_def keyed_def released_def)
    next
      case True
      let ?net = "removeFinalizer net fabricNetworkFinalizer"
      have "releaseAttempt key s = memWriteNetwork ?net s1" using g Inr True by (simp add: finalizerAttempt_def ioBind_def)
      moreover have "keyed key (snd (memWriteNetwork ?net s1))"
        using memWriteNetwork_networks [of ?net s1] assms s1 key removed(1) [of net] by (auto simp: keyed_def memPutNetwork_lookup split: if_splits)
      moreover have "released key (snd (memWriteNetwork ?net s1))" if "fst (memWriteNetwork ?net s1) = Inr ()"
        using memWriteNetwork_done [OF that] key removed [of net fabricNetworkFinalizer] by (auto simp: released_def memPutNetwork_lookup split: if_splits)
      ultimately show ?thesis using s1 by (simp add: memNetwork_view)
    qed
  qed
  then show "keyed key (snd (releaseAttempt key s))" "fst (releaseAttempt key s) = Inr () \<Longrightarrow> released key (snd (releaseAttempt key s))"
    "memView (snd (releaseAttempt key s)) = memView s" by blast+
qed

lemma release:
  assumes "keyed key s"
  shows "memView (snd (removeFabricNetworkFinalizer memCluster key s)) = memView s"
    "fst (removeFabricNetworkFinalizer memCluster key s) = Inr () \<Longrightarrow> released key (snd (removeFabricNetworkFinalizer memCluster key s))"
    "mem_faults s = [] \<Longrightarrow> map_of (mem_networks s) key = Some net \<Longrightarrow> fst (removeFabricNetworkFinalizer memCluster key s) = Inr ()"
proof -
  have run: "removeFabricNetworkFinalizer memCluster key = retryOnConflict (Suc 4) (releaseAttempt key)"
    by (simp add: removeFabricNetworkFinalizer_def updateFabricNetworkFinalizer_def eval_nat_numeral)
  have "ioKeeps (\<lambda>x. keyed key x \<and> memView x = memView s) (releaseAttempt key)"
    using release_attempt by (auto simp: ioKeeps_def)
  from ioKeepsD [OF keeps_retry [OF this], of s] assms show "memView (snd (removeFabricNetworkFinalizer memCluster key s)) = memView s"
    unfolding run by blast
  show "fst (removeFabricNetworkFinalizer memCluster key s) = Inr () \<Longrightarrow> released key (snd (removeFabricNetworkFinalizer memCluster key s))"
    unfolding run using retry_success [where I = "keyed key" and P = "released key", OF _ assms] release_attempt by blast
  show "fst (removeFabricNetworkFinalizer memCluster key s) = Inr ()" if "mem_faults s = []" "map_of (mem_networks s) key = Some net"
  proof -
    have "releaseAttempt key s = (if containsFinalizer net fabricNetworkFinalizer
        then (Inr (), memPutNetwork (removeFinalizer net fabricNetworkFinalizer) s) else (Inr (), s))"
      using that by (simp add: finalizerAttempt_def ioBind_def ioReturn_def memGetNetwork_def memWriteNetwork_def nextFault_def)
    then show ?thesis unfolding run retryOnConflict.simps by simp
  qed
qed

section \<open>Properties\<close>


definition leavingNetwork :: FabricNetwork where
  "leavingNetwork = bareNetwork\<lparr>fn_DeletionTimestamp := Some 0, fn_Spec := (fn_Spec bareNetwork)\<lparr>sp_Orgs := [tinyOrg]\<rparr>\<rparr>"


end
