(* ===== verification/Spec2Isabelle.thy ===== *)
theory Spec2Isabelle
  imports Raft_Safety Channel_Example Chaincode_Example Operator Participants Network_Isolation Network_Deletion
begin

text \<open>
  \<^bold>\<open>Verification of FabricOps\<close>

  FabricOps is a Kubernetes operator for Hyperledger Fabric networks. A \<open>FabricNetwork\<close> resource
  declares organizations, orderers, peers, channels and chaincodes; the controller under
  \<^verbatim>\<open>src/internal/controller\<close> validates the declaration and drives the cluster towards it: namespaces,
  Secrets with credentials and certificates, Jobs that talk to Fabric, and the status of the
  resource. Changes of a channel's Raft consenter set are planned offline by
  \<^verbatim>\<open>src/internal/channelconfig\<close>, reviewed, and only then submitted.

  \<^bold>\<open>Parts of the model\<close>

  \<^item> \<open>Go_Prelude\<close>: what the code uses of Go: maps as association lists, \<open>strings\<close>, \<open>strconv\<close>, \<open>%q\<close>,
    \<open>net.SplitHostPort\<close>, fixed-width integers. \<open>Go_Time\<close>: RFC 3339 texts of instants.
  \<^item> \<open>Api_Types\<close>: the resource, \<^verbatim>\<open>api/v1alpha1/fabricnetwork_types.go\<close>, one record per struct and one
    datatype per enumeration, with the field names of the source behind a prefix.
  \<^item> \<open>Crypto_Env\<close>: PEM, X.509, SHA-256, base64 and DNS checks as a record of functions every
    definition that needs them takes as an argument.
  \<^item> \<open>Naming\<close>: \<open>sanitizeName\<close> and the names built on it. Every generated name is a DNS-1123 label;
    sanitising is idempotent; the workload names of a group are distinct.
  \<^item> \<open>Endpoints\<close>: advertised addresses, TLS host names and CSR hosts
    (\<^verbatim>\<open>fabricnetwork_external_endpoint.go\<close>, \<^verbatim>\<open>fabricnetwork_endpoint_status.go\<close>). A certificate covers
    the host its clients are sent to.
  \<^item> \<open>Raft_Config\<close>: \<^verbatim>\<open>internal/channelconfig/raft.go\<close> over a JSON tree: planning, encoding, review.
    \<open>Raft_Safety\<close>: acceptance is characterised, the plan changes one consenter and nothing else,
    quorums before and after overlap, and the review accepts what the planner wrote and only that.
  \<^item> \<open>Topology\<close>: \<open>validateFabricNetworkTopology\<close> with every check and message.
    \<open>Topology_Correct\<close>: no problem is reported exactly for the topologies that satisfy a declarative
    specification; consequences for channels, policies and private data.
  \<^item> \<open>Kube_Objects\<close>: the Kubernetes objects, as far as the code sets or reads their fields. \<open>Kube_Api\<close>:
    the client as a record of operations over an abstract state, and the object bookkeeping:
    ownership, merging of labels, retry on conflict, the \<open>ensure\<close> functions.
    The locale \<open>kube_api\<close> is the contract of the API server the proofs rely on; it is interpreted
    on an in-memory server with an arbitrary fault schedule (\<open>mem\<close>) and, in \<open>Registrar_Rotation\<close>, on
    one without Jobs (\<open>jobless\<close>). Calls are composed with \<open>ioBind\<close>, which stops at the first error as
    the code does.
  \<^item> \<open>Identity\<close>: \<^verbatim>\<open>fabricnetwork_identity.go\<close>, \<^verbatim>\<open>fabricnetwork_enrollment.go\<close> and the required Secrets of
    \<^verbatim>\<open>fabricnetwork_org.go\<close>. Readiness is equivalent to valid material; valid credentials survive every
    run; generated ones validate.
  \<^item> \<open>Registrar_Rotation\<close>: \<^verbatim>\<open>fabricnetwork_ca_registrar_rotation.go\<close>. No interruption loses the
    registrar credential, nothing is promoted without a completed Job, a finished rotation is not
    repeated; and what goes wrong when the staged Secret is lost.
  \<^item> \<open>Certificate_Lifecycle\<close>: \<^verbatim>\<open>fabricnetwork_certificate_lifecycle.go\<close>. A certificate is reported valid
    exactly when it is; renewal requests partition what is due; the condition names the most urgent
    reason; nothing is written but renewal Jobs.
  \<^item> \<open>Cluster\<close>: the operations the reconcile loop needs beside the client (listing, deleting, the
    network resource and its status, events) with their contract, the locale \<open>cluster\<close>, interpreted
    on the memory cluster (\<open>memc\<close>); then namespaces, the finalizer, guarded deletion and
    \<^verbatim>\<open>fabricnetwork_job_cleanup.go\<close>: cleanup deletes only what it may and, without faults, all of it.
  \<^item> \<open>Workload_Objects\<close>: the objects of \<^verbatim>\<open>fabricnetwork_org.go\<close> and \<^verbatim>\<open>fabricnetwork_peer_db.go\<close> and how
    stored ones are brought in line. Services select their own pods (and where not), the
    NetworkPolicy is a boundary between networks, an update of a Deployment converges.
  \<^item> \<open>Workloads\<close>: running them: CA, orderers, peers, CouchDB, readiness, scaling down.
  \<^item> \<open>Connection_Profile\<close>: \<^verbatim>\<open>fabricnetwork_connection_profile.go\<close>. Profiles refer only to what they
    define and carry the TLS roots of their endpoints.
  \<^item> \<open>Network_Reconcile\<close>: \<^verbatim>\<open>fabricnetwork_controller.go\<close>: an organization, the conditions, the status
    update and \<open>Reconcile\<close>, which takes the channel and chaincode stages as arguments.
    \<open>Network_Status\<close>: the status is honest, an invalid topology is left alone. \<open>Network_Isolation\<close>:
    networks do not touch each other's objects. \<open>Network_Deletion\<close>: the finalizer goes last.
  \<^item> \<open>Json_Text\<close>: the JSON texts of \<open>encoding/json\<close>, reading and writing; what is written is read back
    and the fuel of the parser never decides.
  \<^item> \<open>Channel_Objects\<close>, \<open>Channel_Bootstrap\<close>, \<open>Channels\<close>: \<^verbatim>\<open>fabricnetwork_channel.go\<close>: names,
    \<^verbatim>\<open>configtx.yaml\<close>, Jobs and Secrets of a channel; block generation, joining of orderers and peers, anchor
    peers; the channel stage and its status. \<open>Local_Orgs\<close>: \<^verbatim>\<open>fabricnetwork_local_org.go\<close>.
    \<open>Config_Updates\<close>: \<^verbatim>\<open>fabricnetwork_external_org.go\<close> and \<^verbatim>\<open>fabricnetwork_channel_submission.go\<close>.
    \<open>Raft_Updates\<close>: \<^verbatim>\<open>fabricnetwork_raft_update.go\<close> and \<^verbatim>\<open>fabricnetwork_raft_submission.go\<close>.
  \<^item> \<open>Channel_Evidence\<close>: the locale \<open>observed\<close> for a cluster that records what was read in a run, interpreted
    on any cluster with a log (\<open>logged\<close>), and the calculus for programs that give a result only
    after having read what justifies it. \<open>Join_Evidence\<close>, \<open>Update_Evidence\<close> and \<open>Channel_Ready\<close> apply it
    to the joins, to the configuration updates and to the whole stage: a channel is Ready only on
    evidence read in the same run. \<open>Channel_Example\<close> runs the stage on a network with one channel.

  \<^bold>\<open>Choices\<close>

  Strings are lists of bytes. Go's \<open>int\<close> is \<open>int\<close>; conversions to \<open>int32\<close> and the 32-bit FNV hash wrap as
  in Go. Errors are values of sum types. The only loop that may repeat a call without progress,
  \<open>retry.RetryOnConflict\<close>, has the five attempts of \<open>DefaultRetry\<close>; all other loops run over lists and
  are structural, and the policy scanner terminates by the length of its input. An operation of the
  API server may fail at any point, with or without having taken effect; theorems about the state
  after a run hold in all those cases. Kinds the cluster also writes itself (Jobs, ConfigMaps,
  Namespaces, Deployments, claims) are exempt from the laws of the API server: what is read of them is
  arbitrary. Theorems that need more, such as what a successful deletion leaves behind, are stated on
  the memory cluster. Replica counts are sums of at most fifty ones per group, so that the \<open>int32\<close> sums
  are exact.
  Hypotheses about primitives are named: a SHA-256 sum has 32 bytes, base64 decoding inverts
  encoding. Shell scripts of the Jobs are named by the Go functions that return them and not
  interpreted; log lines are left out.

  \<^bold>\<open>Not modelled\<close>

  Chaincodes, the participant controller and the command line tool. Generated deep copies, the
  manager's entry point and the sample chaincode are left out.
\<close>

end
